(* ===== verification/Prelude.thy ===== *)
theory Prelude
  imports Complex_Main "HOL-Library.AList" "HOL-Library.Word" "HOL-Library.Char_ord"
    "HOL-Library.List_Lexorder" "HOL-Library.Sublist" "HOL-Library.Multiset" "HOL-Library.Log_Nat"
    "HOL-Library.Monad_Syntax"
begin

text \<open>
  The shared vocabulary of the development: Go's time and durations, Go maps as association
  lists, Go's dynamically typed values (\<open>map[string]any\<close>), the byte-string functions of the
  \<open>strings\<close> package that the sources call, and the errors of the control plane. The generic
  lemmas here are declared \<open>[simp]\<close> or collected in named theorem sets, so that the proofs about
  the components unfold operations and leave the rest to the simplifier. Three locales state
  contracts that several components share: runs of a transition system with an invariant,
  resources that are taken at most once, and the selection of a best entry by a loop over a map
  whose order is unspecified.
\<close>

named_theorems op_defs \<open>definitions of the operations of the store and the hub\<close>
named_theorems frames \<open>what an operation leaves unchanged\<close>

section \<open>Time and durations\<close>

text \<open>
  A \<open>time.Time\<close> is its distance in nanoseconds from Go's zero time, so \<open>IsZero\<close> is \<open>t = 0\<close>. A
  \<open>time.Duration\<close> is a signed 64-bit number of nanoseconds; multiplying a number of seconds by
  \<open>time.Second\<close> wraps around, and \<open>Time.Sub\<close> saturates.
\<close>

type_synonym time = int
type_synonym duration = int

definition wrap64 :: "int \<Rightarrow> int" where
  "wrap64 x = (x + 2 ^ 63) mod 2 ^ 64 - 2 ^ 63"

definition seconds :: "int \<Rightarrow> duration" where
  "seconds n = wrap64 (n * 1000000000)"

definition time_sub :: "time \<Rightarrow> time \<Rightarrow> duration" where
  "time_sub t u = max (- (2 ^ 63)) (min (2 ^ 63 - 1) (t - u))"

definition Minute :: duration where "Minute = 60000000000"

definition Hour :: duration where "Hour = 3600000000000"

definition is_zero :: "time \<Rightarrow> bool" where "is_zero t \<longleftrightarrow> t = 0"

definition trunc_div :: "int \<Rightarrow> int \<Rightarrow> int" where
  "trunc_div a b = sgn a * sgn b * (\<bar>a\<bar> div \<bar>b\<bar>)"

section \<open>Go maps\<close>

text \<open>
  A Go map is an association list with distinct keys. The order of the list stands for Go's
  unspecified iteration order: a theorem proved for every list holds for every order in which
  the runtime may visit the map.
\<close>

type_synonym 'v gomap = "(string \<times> 'v) list"

abbreviation mput :: "string \<Rightarrow> 'v \<Rightarrow> 'v gomap \<Rightarrow> 'v gomap" where
  "mput k v m \<equiv> AList.update k v m"

abbreviation mdel :: "string \<Rightarrow> 'v gomap \<Rightarrow> 'v gomap" where
  "mdel k m \<equiv> AList.delete k m"

abbreviation mkeys :: "'v gomap \<Rightarrow> string list" where
  "mkeys m \<equiv> map fst m"

abbreviation mok :: "'v gomap \<Rightarrow> bool" where
  "mok m \<equiv> distinct (map fst m)"

definition mfilter :: "(string \<Rightarrow> 'v \<Rightarrow> bool) \<Rightarrow> 'v gomap \<Rightarrow> 'v gomap" where
  "mfilter P m = filter (\<lambda>kv. P (fst kv) (snd kv)) m"

definition mmap :: "(string \<Rightarrow> 'v \<Rightarrow> 'w) \<Rightarrow> 'v gomap \<Rightarrow> 'w gomap" where
  "mmap f m = map (\<lambda>kv. (fst kv, f (fst kv) (snd kv))) m"

definition mover :: "'v gomap \<Rightarrow> 'v gomap \<Rightarrow> 'v gomap" where
  "mover m n = fold (\<lambda>kv acc. mput (fst kv) (snd kv) acc) n m"

section \<open>Dynamically typed values\<close>

text \<open>
  A value of Go's type \<open>any\<close> as the sources build and inspect it. \<open>AFloat\<close> holds a finite
  \<open>float64\<close> as the rational number it denotes; values decoded from JSON are never NaN or
  infinite. \<open>ATime\<close> is a \<open>time.Time\<close> or a \<open>*time.Time\<close>, which may be nil.
\<close>

datatype any =
    ANil
  | ABool bool
  | AInt int
  | AUint32 "32 word"
  | AUint64 "64 word"
  | AFloat rat
  | AStr string
  | ATime "int option"
  | AArr "any list"
  | AObj "(string \<times> any) list"

type_synonym obj = "any gomap"

text \<open>\<open>value, _ := message[key].(string)\<close>: a missing key or another type gives the empty string.\<close>

definition stringField :: "obj \<Rightarrow> string \<Rightarrow> string" where
  "stringField m k = (case map_of m k of Some (AStr s) \<Rightarrow> s | _ \<Rightarrow> '''')"

definition boolField :: "obj \<Rightarrow> string \<Rightarrow> bool" where
  "boolField m k = (case map_of m k of Some (ABool b) \<Rightarrow> b | _ \<Rightarrow> False)"

definition objField :: "obj \<Rightarrow> string \<Rightarrow> obj option" where
  "objField m k = (case map_of m k of Some (AObj d) \<Rightarrow> Some d | _ \<Rightarrow> None)"

section \<open>Byte strings\<close>

text \<open>
  Go strings are byte sequences; \<open>string\<close> is a list of bytes here. \<open>space_len s\<close> is the length in
  bytes of the white-space rune that \<open>s\<close> starts with, 0 when it starts with none: the ASCII
  spaces, U+0085 and U+00A0, and the three-byte runes of \<open>unicode.IsSpace\<close> (U+1680, U+2000 to
  U+200A, U+2028, U+2029, U+202F, U+205F and U+3000).
\<close>

definition ascii_space :: "char \<Rightarrow> bool" where
  "ascii_space c \<longleftrightarrow> c = CHR 0x20 \<or> c = CHR 0x09 \<or> c = CHR 0x0A \<or> c = CHR 0x0B \<or> c = CHR 0x0C
     \<or> c = CHR 0x0D"

definition wide_space :: "char \<Rightarrow> char \<Rightarrow> char \<Rightarrow> bool" where
  "wide_space c d e \<longleftrightarrow>
     (c = CHR 0xE1 \<and> d = CHR 0x9A \<and> e = CHR 0x80) \<or>
     (c = CHR 0xE2 \<and> d = CHR 0x80 \<and>
        (CHR 0x80 \<le> e \<and> e \<le> CHR 0x8A \<or> e = CHR 0xA8 \<or> e = CHR 0xA9 \<or> e = CHR 0xAF)) \<or>
     (c = CHR 0xE2 \<and> d = CHR 0x81 \<and> e = CHR 0x9F) \<or>
     (c = CHR 0xE3 \<and> d = CHR 0x80 \<and> e = CHR 0x80)"

fun space_len :: "string \<Rightarrow> nat" where
  "space_len [] = 0"
| "space_len (c # s) =
     (if ascii_space c then 1
      else case s of
        [] \<Rightarrow> 0
      | d # r \<Rightarrow>
          (if c = CHR 0xC2 \<and> (d = CHR 0x85 \<or> d = CHR 0xA0) then 2
           else case r of [] \<Rightarrow> 0 | e # _ \<Rightarrow> (if wide_space c d e then 3 else 0)))"

text \<open>The same for the last rune of a string, read on the reversed string.\<close>

fun rspace_len :: "string \<Rightarrow> nat" where
  "rspace_len [] = 0"
| "rspace_len (e # s) =
     (if ascii_space e then 1
      else case s of
        [] \<Rightarrow> 0
      | d # r \<Rightarrow>
          (if d = CHR 0xC2 \<and> (e = CHR 0x85 \<or> e = CHR 0xA0) then 2
           else case r of [] \<Rightarrow> 0 | c # _ \<Rightarrow> (if wide_space c d e then 3 else 0)))"

function trim_with :: "(string \<Rightarrow> nat) \<Rightarrow> string \<Rightarrow> string" where
  "trim_with f s = (if f s = 0 \<or> s = [] then s else trim_with f (drop (f s) s))"
  by pat_completeness auto
termination
  by (relation "measure (\<lambda>(f, s). length s)") auto

definition trim_space :: "string \<Rightarrow> string" where
  "trim_space s = rev (trim_with rspace_len (rev (trim_with space_len s)))"

text \<open>\<open>strings.Split\<close> on a one-byte separator; it always returns at least one piece.\<close>

fun split_on :: "char \<Rightarrow> string \<Rightarrow> string list" where
  "split_on c [] = [[]]"
| "split_on c (x # s) =
     (if x = c then [] # split_on c s
      else case split_on c s of [] \<Rightarrow> [[x]] | p # ps \<Rightarrow> (x # p) # ps)"

fun join_with :: "string \<Rightarrow> string list \<Rightarrow> string" where
  "join_with sep [] = []"
| "join_with sep [w] = w"
| "join_with sep (w # ws) = w @ sep @ join_with sep ws"

text \<open>\<open>strings.Fields\<close>: the maximal runs of bytes that are no white space.\<close>

function fields_acc :: "string \<Rightarrow> string \<Rightarrow> string list" where
  "fields_acc [] w = (if w = [] then [] else [w])"
| "fields_acc (c # s) w =
     (if space_len (c # s) = 0 then fields_acc s (w @ [c])
      else (if w = [] then [] else [w]) @ fields_acc (drop (space_len (c # s)) (c # s)) [])"
  by pat_completeness auto
termination
  by (relation "measure (\<lambda>(s, w). length s)") (auto split: if_splits)

definition fields :: "string \<Rightarrow> string list" where
  "fields s = fields_acc s []"

definition lower_char :: "char \<Rightarrow> char" where
  "lower_char c = (if CHR 0x41 \<le> c \<and> c \<le> CHR 0x5A then char_of (of_char c + (32 :: nat)) else c)"

definition trim_prefix :: "string \<Rightarrow> string \<Rightarrow> string" where
  "trim_prefix p s = (if prefix p s then drop (length p) s else s)"

definition trim_suffix :: "string \<Rightarrow> string \<Rightarrow> string" where
  "trim_suffix p s = (if suffix p s then take (length s - length p) s else s)"

section \<open>Errors\<close>

text \<open>
  The error values of \<open>store.go\<close> and \<open>deployment_credentials_store.go\<close>; \<open>ErrHash\<close> is a failure of
  the password hash function, \<open>ErrStore\<close> a failure of the database behind the persistent store.
\<close>

datatype error =
    ErrNotFound
  | ErrAlreadyExists
  | ErrInvalidAuth
  | ErrForbidden
  | ErrInvalidToken
  | ErrInvalidDeploymentRequest
  | ErrHash
  | ErrStore

type_synonym 'a result = "error + 'a"

section \<open>Lemmas on integers\<close>

lemma wrap64_id: "- (2 ^ 63) \<le> x \<Longrightarrow> x < 2 ^ 63 \<Longrightarrow> wrap64 x = x"
  by (simp add: wrap64_def)

lemma wrap64_bounds: "- (2 ^ 63) \<le> wrap64 x \<and> wrap64 x < 2 ^ 63"
proof -
  have "0 \<le> (x + 2 ^ 63) mod 2 ^ 64" "(x + 2 ^ 63) mod 2 ^ 64 < (2 :: int) ^ 64"
    by simp_all
  then show ?thesis by (simp add: wrap64_def)
qed

lemma seconds_id: "0 \<le> n \<Longrightarrow> n \<le> 9223372036 \<Longrightarrow> seconds n = n * 1000000000"
  by (simp add: seconds_def wrap64_def)

section \<open>Lemmas on Go maps\<close>

declare AList.update_conv' [simp] AList.delete_conv' [simp]
declare map_of_eq_Some_iff [simp del] Some_eq_map_of_iff [simp del]

lemma mok_mput [simp]: "mok m \<Longrightarrow> mok (mput k v m)"
  by (rule AList.distinct_update)

lemma mok_mdel [simp]: "mok m \<Longrightarrow> mok (mdel k m)"
  by (rule AList.distinct_delete)

lemma mok_mfilter [simp]: "mok m \<Longrightarrow> mok (mfilter P m)"
  by (induction m) (auto simp: mfilter_def)

lemma mkeys_mmap [simp]: "mkeys (mmap f m) = mkeys m"
  by (simp add: mmap_def)

lemma map_of_mfilter [simp]:
  "mok m \<Longrightarrow> map_of (mfilter P m) k =
     (case map_of m k of None \<Rightarrow> None | Some v \<Rightarrow> if P k v then Some v else None)"
proof (induction m)
  case Nil
  then show ?case by (simp add: mfilter_def)
next
  case (Cons kv m)
  have "map_of m k = None" if "fst kv = k"
    using Cons.prems that by (auto simp: map_of_eq_None_iff)
  with Cons show ?case by (cases kv) (auto simp: mfilter_def)
qed

lemma map_of_mmap [simp]: "map_of (mmap f m) k = map_option (f k) (map_of m k)"
  by (induction m) (auto simp: mmap_def)

lemma rev_mmap [simp]: "rev (mmap f m) = mmap f (rev m)"
  by (simp add: mmap_def rev_map)

lemma map_of_mover [simp]:
  "map_of (mover m n) k = (case map_of (rev n) k of None \<Rightarrow> map_of m k | Some v \<Rightarrow> Some v)"
  by (induction n arbitrary: m) (auto simp: mover_def map_of_append map_add_def split: option.splits)

lemma mok_mover [simp]: "mok m \<Longrightarrow> mok (mover m n)"
  by (induction n arbitrary: m) (auto simp: mover_def)

lemma map_of_set: "mok m \<Longrightarrow> (k, v) \<in> set m \<longleftrightarrow> map_of m k = Some v"
  by (metis map_of_eq_Some_iff)

lemma set_mput: "mok m \<Longrightarrow> set (mput k v m) = insert (k, v) {kv \<in> set m. fst kv \<noteq> k}"
  by (induction m) (auto simp: image_iff)

lemma set_mfilter [simp]: "set (mfilter P m) = {kv \<in> set m. P (fst kv) (snd kv)}"
  by (auto simp: mfilter_def)

lemma set_mmap: "set (mmap f m) = (\<lambda>kv. (fst kv, f (fst kv) (snd kv))) ` set m"
  by (auto simp: mmap_def)

lemma map_of_Nil_iff: "mok m \<Longrightarrow> (\<forall>k. map_of m k = None) \<longleftrightarrow> m = []"
  by (cases m) auto

lemma delete_id [simp]: "map_of m k = None \<Longrightarrow> mdel k m = m"
  by (induction m) (auto simp: AList.delete_eq split: if_splits)

lemma map_of_rev_mok: "mok m \<Longrightarrow> map_of (rev m) k = map_of m k"
proof (cases "map_of m k")
  case None
  then have "map_of (rev m) k = None" unfolding map_of_eq_None_iff by simp
  with None show "map_of (rev m) k = map_of m k" by simp
next
  case (Some v)
  assume "mok m"
  then have "mok (rev m)" by (simp add: rev_map [symmetric])
  moreover from Some have "(k, v) \<in> set (rev m)" by (simp add: map_of_SomeD)
  ultimately show "map_of (rev m) k = map_of m k" unfolding Some by (simp only: map_of_set)
qed

lemma mkeys_mover_set: "set (mkeys (mover m n)) = set (mkeys m) \<union> set (mkeys n)"
proof -
  have "map_of (mover m n) k = None \<longleftrightarrow> map_of m k = None \<and> map_of (rev n) k = None" for k
    by (simp split: option.split)
  then have "k \<notin> fst ` set (mover m n) \<longleftrightarrow> k \<notin> fst ` set m \<and> k \<notin> fst ` set n" for k
    by (simp only: map_of_eq_None_iff set_rev)
  then have "fst ` set (mover m n) = fst ` set m \<union> fst ` set n" by blast
  then show ?thesis by simp
qed

section \<open>Lemmas on byte strings\<close>

lemma space_len_le: "space_len s \<le> length s"
  by (cases s) (auto split: list.splits)

lemma rspace_len_le: "rspace_len s \<le> length s"
  by (cases s) (auto split: list.splits)

declare trim_with.simps [simp del]

lemma trim_with_done: "(\<And>s. f s \<le> length s) \<Longrightarrow> f [] = 0 \<Longrightarrow> f (trim_with f s) = 0"
proof (induction f s rule: trim_with.induct)
  case (1 f s)
  then show ?case by (cases "f s = 0 \<or> s = []") (auto simp: trim_with.simps [of f s])
qed

lemma trim_with_suffix: "suffix (trim_with f s) s"
proof (induction f s rule: trim_with.induct)
  case (1 f s)
  show ?case
  proof (cases "f s = 0 \<or> s = []")
    case True
    then show ?thesis by (simp add: trim_with.simps [of f s])
  next
    case False
    then have "suffix (trim_with f (drop (f s) s)) (drop (f s) s)" by (rule 1)
    then show ?thesis using False
      by (metis trim_with.simps suffix_drop suffix_order.trans)
  qed
qed

lemma trim_with_idem: "f s = 0 \<Longrightarrow> trim_with f s = s"
  by (simp add: trim_with.simps)

text \<open>A printable ASCII character is no white space and no part of a white-space rune.\<close>

definition plain_char :: "char \<Rightarrow> bool" where
  "plain_char c \<longleftrightarrow> CHR 0x21 \<le> c \<and> c \<le> CHR 0x7E"

lemma plain_not_space:
  assumes "plain_char c"
  shows "\<not> ascii_space c" "c \<noteq> CHR 0xC2" "c \<noteq> CHR 0x85" "c \<noteq> CHR 0xA0"
    "\<not> wide_space c d e" "\<not> wide_space d e c"
proof -
  have b: "33 \<le> (of_char c :: nat)" "of_char c \<le> (126 :: nat)"
    using assms by (simp_all add: plain_char_def less_eq_char_def)
  then show "\<not> ascii_space c" by (auto simp: ascii_space_def)
  from b show "c \<noteq> CHR 0xC2" "c \<noteq> CHR 0x85" "c \<noteq> CHR 0xA0" by auto
  from b have "c \<noteq> CHR 0xE1" "c \<noteq> CHR 0xE2" "c \<noteq> CHR 0xE3" by auto
  then show "\<not> wide_space c d e" by (simp add: wide_space_def)
  from b have "c \<noteq> CHR 0x80" "\<not> CHR 0x80 \<le> c" "c \<noteq> CHR 0xA8" "c \<noteq> CHR 0xA9" "c \<noteq> CHR 0xAF"
    "c \<noteq> CHR 0x9F" by (auto simp: less_eq_char_def)
  then show "\<not> wide_space d e c" by (simp add: wide_space_def)
qed

lemma space_len_plain: "plain_char c \<Longrightarrow> space_len (c # s) = 0"
  by (simp add: plain_not_space split: list.split)

lemma rspace_len_plain: "plain_char c \<Longrightarrow> rspace_len (c # s) = 0"
  by (simp add: plain_not_space split: list.split)

lemma trim_space_newline:
  assumes "s \<noteq> []" "plain_char (hd s)" "plain_char (last s)"
  shows "trim_space (s @ replicate n (CHR 0x0A)) = s"
proof -
  have "trim_with space_len (s @ t) = s @ t" for t
    using assms by (cases s) (auto intro: trim_with_idem simp: space_len_plain simp del: space_len.simps)
  moreover have "trim_with rspace_len (replicate n (CHR 0x0A) @ rev s) = rev s"
  proof (induction n)
    case 0
    show ?case using assms
      by (cases s rule: rev_cases) (auto intro: trim_with_idem simp: rspace_len_plain simp del: rspace_len.simps)
  next
    case (Suc n)
    then show ?case by (subst trim_with.simps) (simp add: ascii_space_def)
  qed
  ultimately show ?thesis by (simp add: trim_space_def)
qed

lemma trim_space_id: "s \<noteq> [] \<Longrightarrow> plain_char (hd s) \<Longrightarrow> plain_char (last s) \<Longrightarrow> trim_space s = s"
  using trim_space_newline [of s 0] by simp

lemma split_on_nonempty [simp]: "split_on c s \<noteq> []"
  by (induction s) (auto split: list.splits)

lemma split_on_join: "\<forall>w \<in> set ws. c \<notin> set w \<Longrightarrow> ws \<noteq> [] \<Longrightarrow> split_on c (join_with [c] ws) = ws"
proof (induction "[c]" ws rule: join_with.induct)
  case (2 w)
  then show ?case by (induction w) auto
next
  case (3 w v ws)
  then have IH: "split_on c (join_with [c] (v # ws)) = v # ws" by simp
  from 3(2) have "c \<notin> set w" by simp
  then show ?case using IH by (induction w) auto
qed simp

lemma split_on_pieces: "w \<in> set (split_on c s) \<Longrightarrow> c \<notin> set w"
  by (induction s arbitrary: w) (auto split: list.splits if_splits)

lemma join_split: "join_with [c] (split_on c s) = s"
proof (induction s)
  case (Cons x s)
  obtain p ps where "split_on c s = p # ps" by (cases "split_on c s") auto
  with Cons show ?case by (cases ps) auto
qed simp

end
