(* ===== verification/Wire.thy ===== *)
theory Wire
  imports Prelude
begin

text \<open>
  The byte level: \<open>encoding/binary\<close>'s big- and little-endian integers, conversions between Go
  strings and byte slices, and \<open>io.ReadFull\<close> on a stream that is the list of the bytes still to
  come. The locale \<open>fixed_codec\<close> is the contract of a fixed-width integer encoding; both byte
  orders interpret it.
\<close>

type_synonym byte = "8 word"

fun put_be :: "nat \<Rightarrow> nat \<Rightarrow> byte list" where
  "put_be 0 v = []"
| "put_be (Suc n) v = of_nat (v div 256 ^ n) # put_be n v"

fun get_be_from :: "nat \<Rightarrow> byte list \<Rightarrow> nat" where
  "get_be_from a [] = a"
| "get_be_from a (b # bs) = get_be_from (a * 256 + unat b) bs"

definition get_be :: "byte list \<Rightarrow> nat" where
  "get_be bs = get_be_from 0 bs"

definition put_le :: "nat \<Rightarrow> nat \<Rightarrow> byte list" where
  "put_le n v = rev (put_be n v)"

definition get_le :: "byte list \<Rightarrow> nat" where
  "get_le bs = get_be (rev bs)"

definition byte_of :: "char \<Rightarrow> byte" where
  "byte_of c = of_nat (of_char c)"

definition char_of_byte :: "byte \<Rightarrow> char" where
  "char_of_byte b = char_of (unat b)"

definition bytes :: "string \<Rightarrow> byte list" where
  "bytes s = map byte_of s"

definition string_of :: "byte list \<Rightarrow> string" where
  "string_of bs = map char_of_byte bs"

text \<open>
  \<open>io.ReadFull\<close> into a buffer of \<open>n\<close> bytes. On success it returns the bytes and the rest of the
  stream; \<open>ErrEOF\<close> is a stream that was empty, \<open>ErrShort\<close> one that ended within the buffer.
  The other errors are those of the protocol readers.
\<close>

datatype wire_error =
    ErrEOF
  | ErrShort
  | ErrSize
  | ErrDeviceID
  | ErrEmpty
  | ErrKind
  | ErrStatus
  | ErrExit int

definition read_full :: "nat \<Rightarrow> byte list \<Rightarrow> wire_error + (byte list \<times> byte list)" where
  "read_full n r =
     (if length r < n then Inl (if r = [] then ErrEOF else ErrShort) else Inr (take n r, drop n r))"

section \<open>Lemmas\<close>

lemma length_put_be [simp]: "length (put_be n v) = n"
  by (induction n) auto

lemma get_be_from_eq: "get_be_from a bs = a * 256 ^ length bs + get_be_from 0 bs"
proof (induction bs arbitrary: a)
  case (Cons b bs)
  have "get_be_from a (b # bs) = (a * 256 + unat b) * 256 ^ length bs + get_be_from 0 bs"
    using Cons [of "a * 256 + unat b"] by simp
  also have "\<dots> = a * 256 ^ length (b # bs) + (unat b * 256 ^ length bs + get_be_from 0 bs)"
    by (simp add: algebra_simps)
  also have "unat b * 256 ^ length bs + get_be_from 0 bs = get_be_from 0 (b # bs)"
    using Cons [of "unat b"] by simp
  finally show ?case .
qed simp

lemma get_be_Cons: "get_be (b # bs) = unat b * 256 ^ length bs + get_be bs"
  using get_be_from_eq [of "unat b" bs] by (simp add: get_be_def)

lemma get_be_Nil [simp]: "get_be [] = 0"
  by (simp add: get_be_def)

lemma unat_lt_256 [simp]: "unat (b :: byte) < 256"
  using unsigned_less [of b] by simp

lemma get_be_bound: "get_be bs < 256 ^ length bs"
proof (induction bs)
  case (Cons b bs)
  have "unat b * 256 ^ length bs + get_be bs < (unat b + 1) * 256 ^ length bs"
    using Cons by simp
  also have "\<dots> \<le> 256 * 256 ^ length bs"
    using unat_lt_256 [of b] by (intro mult_le_mono1) linarith
  finally show ?case by (simp add: get_be_Cons)
qed simp

lemma get_put_be [simp]: "get_be (put_be n v) = v mod 256 ^ n"
proof (induction n)
  case (Suc n)
  have "v mod (256 ^ n * 256) = 256 ^ n * (v div 256 ^ n mod 256) + v mod 256 ^ n"
    by (rule mod_mult2_eq)
  with Suc show ?case
    by (simp add: get_be_Cons unat_of_nat mult.commute)
qed simp

lemma byte_256 [simp]: "(256 :: byte) = 0"
  by transfer simp

lemma put_be_high: "m \<le> n \<Longrightarrow> put_be m (a * 256 ^ n + v) = put_be m v"
proof (induction m)
  case (Suc m)
  then have "m < n" by simp
  then obtain d where n: "n = m + Suc d" by (auto dest: less_imp_Suc_add)
  have "a * 256 ^ n + v = v + (256 * (a * 256 ^ d)) * 256 ^ m"
    by (simp add: n power_add)
  then have "(a * 256 ^ n + v) div 256 ^ m = 256 * (a * 256 ^ d) + v div 256 ^ m"
    by (simp only: div_mult_self1 power_not_zero) simp
  then have "(of_nat ((a * 256 ^ n + v) div 256 ^ m) :: byte) = of_nat (v div 256 ^ m)"
    by simp
  with Suc show ?case by simp
qed simp

lemma put_get_be [simp]: "put_be (length bs) (get_be bs) = bs"
proof (induction bs)
  case (Cons b bs)
  have "(unat b * 256 ^ length bs + get_be bs) div 256 ^ length bs = unat b"
    using get_be_bound [of bs] by simp
  with Cons show ?case by (simp add: get_be_Cons put_be_high)
qed simp

lemma length_put_le [simp]: "length (put_le n v) = n"
  by (simp add: put_le_def)

lemma get_put_le [simp]: "get_le (put_le n v) = v mod 256 ^ n"
  by (simp add: get_le_def put_le_def)

lemma char_of_byte_of [simp]: "char_of_byte (byte_of c) = c"
proof -
  have "of_char c mod 256 = (of_char c :: nat)" by (rule of_char_mod_256)
  then show ?thesis by (simp add: char_of_byte_def byte_of_def unat_of_nat)
qed

lemma byte_of_char_of_byte [simp]: "byte_of (char_of_byte b) = b"
  by (simp add: char_of_byte_def byte_of_def)

lemma string_of_bytes [simp]: "string_of (bytes s) = s"
  by (simp add: string_of_def bytes_def comp_def)

lemma bytes_string_of [simp]: "bytes (string_of bs) = bs"
  by (simp add: string_of_def bytes_def comp_def)

lemma length_bytes [simp]: "length (bytes s) = length s"
  by (simp add: bytes_def)

lemma length_string_of [simp]: "length (string_of s) = length s"
  by (simp add: string_of_def)

lemma read_full_append: "length bs = n \<Longrightarrow> read_full n (bs @ r) = Inr (bs, r)"
  by (simp add: read_full_def)

lemma read_full_Inr:
  "read_full n r = Inr (bs, rest) \<longleftrightarrow> r = bs @ rest \<and> length bs = n"
  by (auto simp: read_full_def split: if_splits)

lemma read_full_total: "n \<le> length r \<Longrightarrow> \<exists>bs rest. read_full n r = Inr (bs, rest)"
  by (simp add: read_full_def)

section \<open>The contract of a fixed-width integer encoding\<close>

locale fixed_codec =
  fixes put :: "nat \<Rightarrow> nat \<Rightarrow> byte list"
    and get :: "byte list \<Rightarrow> nat"
  assumes width: "length (put n v) = n"
    and get_put: "get (put n v) = v mod 256 ^ n"
begin

lemma small: "v < 256 ^ n \<Longrightarrow> get (put n v) = v"
  by (simp add: get_put)

lemma read_back: "read_full n (put n v @ r) = Inr (put n v, r)"
  by (simp add: read_full_append width)

lemma put_inj: "put n v = put n w \<Longrightarrow> v < 256 ^ n \<Longrightarrow> w < 256 ^ n \<Longrightarrow> v = w"
  by (metis small)

text \<open>The 16-, 32- and 64-bit integers of Go, written in 2, 4 and 8 bytes.\<close>

lemma get_put_16: "get (put 2 (unat (x :: 16 word))) = unat x"
  using unsigned_less [of x] by (intro small) simp

lemma get_put_32: "get (put 4 (unat (y :: 32 word))) = unat y"
  using unsigned_less [of y] by (intro small) simp

lemma get_put_64: "get (put 8 (unat (z :: 64 word))) = unat z"
  using unsigned_less [of z] by (intro small) simp

end

interpretation be: fixed_codec put_be get_be
  by unfold_locales simp_all

interpretation le: fixed_codec put_le get_le
  by unfold_locales simp_all

end
