(* ===== verification/ScrcpyProtocol.thy ===== *)
theory ScrcpyProtocol
  imports Wire
begin

text \<open>
  The media byte formats of the agent and their counterparts in the control plane:
  \<open>scrcpy_protocol.go\<close> (the readers of the scrcpy server's stream and the binary preview and
  audio envelopes), \<open>opus.go\<close>, the SPS search of \<open>h264.go\<close>, and the envelope checks
  \<open>validPreviewFrame\<close> (\<open>server.go\<close>) and \<open>validAudioFrame\<close> (\<open>audio_stream.go\<close>). A reader is the list
  of the bytes still to come, and every reader returns the rest of it.
\<close>

unbundle bit_operations_syntax

definition scrcpyDeviceNameSize :: nat where "scrcpyDeviceNameSize = 64"

definition scrcpyPacketHeaderSize :: nat where "scrcpyPacketHeaderSize = 12"

definition scrcpySessionFlag :: "64 word" where "scrcpySessionFlag = push_bit 63 1"

definition scrcpyConfigFlag :: "64 word" where "scrcpyConfigFlag = push_bit 62 1"

definition scrcpyKeyFrameFlag :: "64 word" where "scrcpyKeyFrameFlag = push_bit 61 1"

definition scrcpyPTSBitmask :: "64 word" where "scrcpyPTSBitmask = scrcpyKeyFrameFlag - 1"

definition maxScrcpyPacketSize :: nat where "maxScrcpyPacketSize = 33554432"

record mediaPacket =
  PTS :: "64 word"
  KeyFrame :: bool
  Config :: bool
  Session :: bool
  Width :: "32 word"
  Height :: "32 word"
  ClientResized :: bool
  Data :: "byte list"

definition no_packet :: mediaPacket where
  "no_packet = \<lparr>PTS = 0, KeyFrame = False, Config = False, Session = False, Width = 0, Height = 0,
     ClientResized = False, Data = []\<rparr>"

definition readScrcpyDummy :: "byte list \<Rightarrow> wire_error + byte list" where
  "readScrcpyDummy r = (case read_full 1 r of Inl e \<Rightarrow> Inl e | Inr (_, rest) \<Rightarrow> Inr rest)"

definition readScrcpyCodec :: "byte list \<Rightarrow> bool \<Rightarrow> wire_error + (string \<times> byte list)" where
  "readScrcpyCodec r dummyByte =
     (case (if dummyByte then readScrcpyDummy r else Inr r) of
        Inl e \<Rightarrow> Inl e
      | Inr r1 \<Rightarrow>
          (case read_full 4 r1 of Inl e \<Rightarrow> Inl e | Inr (raw, rest) \<Rightarrow> Inr (string_of raw, rest)))"

definition readScrcpyDeviceName :: "byte list \<Rightarrow> wire_error + (string \<times> byte list)" where
  "readScrcpyDeviceName r =
     (case read_full scrcpyDeviceNameSize r of
        Inl e \<Rightarrow> Inl e
      | Inr (raw, rest) \<Rightarrow> Inr (string_of (takeWhile (\<lambda>b. b \<noteq> 0) raw), rest))"

definition readScrcpyPacket :: "byte list \<Rightarrow> wire_error + (mediaPacket \<times> byte list)" where
  "readScrcpyPacket r =
     (case read_full scrcpyPacketHeaderSize r of
        Inl e \<Rightarrow> Inl e
      | Inr (header, r1) \<Rightarrow>
          (let ptsFlags = (of_nat (get_be (take 8 header)) :: 64 word) in
           if ptsFlags AND scrcpySessionFlag \<noteq> 0 then
             (let sessionFlags = (of_nat (get_be (take 4 header)) :: 32 word) in
              Inr (no_packet\<lparr>Session := True, ClientResized := (sessionFlags AND 1 \<noteq> 0),
                     Width := of_nat (get_be (take 4 (drop 4 header))),
                     Height := of_nat (get_be (take 4 (drop 8 header)))\<rparr>, r1))
           else
             (let len = get_be (drop 8 header) in
              if len = 0 \<or> maxScrcpyPacketSize < len then Inl ErrSize
              else
                (case read_full len r1 of
                   Inl e \<Rightarrow> Inl e
                 | Inr (data, r2) \<Rightarrow>
                     Inr (no_packet\<lparr>PTS := ptsFlags AND scrcpyPTSBitmask,
                            KeyFrame := (ptsFlags AND scrcpyKeyFrameFlag \<noteq> 0),
                            Config := (ptsFlags AND scrcpyConfigFlag \<noteq> 0), Data := data\<rparr>, r2)))))"

text \<open>\<open>copy(frame[4:36], deviceID)\<close> into a zeroed buffer.\<close>

definition pad_to :: "nat \<Rightarrow> byte list \<Rightarrow> byte list" where
  "pad_to n bs = take n bs @ replicate (n - length bs) 0"

definition previewFrame :: "string \<Rightarrow> mediaPacket \<Rightarrow> wire_error + byte list" where
  "previewFrame deviceID packet =
     (if length deviceID = 0 \<or> 32 < length deviceID then Inl ErrDeviceID
      else if length (Data packet) = 0 then Inl ErrEmpty
      else Inr (bytes ''PREV'' @ pad_to 32 (bytes deviceID) @ [if KeyFrame packet then 1 else 0]
                @ put_be 8 (unat (PTS packet)) @ put_be 4 (length (Data packet)) @ Data packet))"

definition audioFrame :: "string \<Rightarrow> mediaPacket \<Rightarrow> wire_error + byte list" where
  "audioFrame deviceID packet =
     (case previewFrame deviceID packet of
        Inl e \<Rightarrow> Inl e
      | Inr frame \<Rightarrow> Inr ((bytes ''OPUS'' @ drop 4 frame)[36 := 2]))"

text \<open>\<open>strings.TrimRight(s, "\x00")\<close> is byte-wise for a one-byte ASCII cutset.\<close>

definition trim_nul :: "string \<Rightarrow> string" where
  "trim_nul s = rev (dropWhile (\<lambda>c. c = CHR 0x00) (rev s))"

definition validPreviewFrame :: "string \<Rightarrow> byte list \<Rightarrow> bool" where
  "validPreviewFrame deviceID frame \<longleftrightarrow>
     \<not> (length frame < 49 \<or> string_of (take 4 frame) \<noteq> ''PREV'') \<and>
     trim_nul (string_of (take 32 (drop 4 frame))) = deviceID"

definition validAudioFrame :: "string \<Rightarrow> byte list \<Rightarrow> bool" where
  "validAudioFrame deviceID frame \<longleftrightarrow>
     49 < length frame \<and> length frame \<le> 49 + 65536 \<and>
     string_of (take 4 frame) = ''OPUS'' \<and>
     trim_nul (string_of (take 32 (drop 4 frame))) = deviceID \<and>
     (frame ! 36 = 1 \<or> frame ! 36 = 2) \<and>
     get_be (take 4 (drop 45 frame)) = length frame - 49"

text \<open>The two switches of \<open>opusPacketSamples\<close>: the samples of one frame, and the whole packet.\<close>

definition toc_samples :: "byte \<Rightarrow> 32 word" where
  "toc_samples toc =
     (if toc AND 0x80 \<noteq> 0 then push_bit (unat (drop_bit 3 toc AND 3)) 120
      else if toc AND 0x60 = 0x60 then push_bit (unat (drop_bit 3 toc AND 1)) 480
      else if drop_bit 3 toc AND 3 = 3 then 2880
      else push_bit (unat (drop_bit 3 toc AND 3)) 480)"

definition capped_samples :: "32 word \<Rightarrow> 32 word \<Rightarrow> 32 word" where
  "capped_samples samples frames = (let n = samples * frames in if 5760 < n then 0 else n)"

definition opusPacketSamples :: "byte list \<Rightarrow> 32 word" where
  "opusPacketSamples packet =
     (case packet of
        [] \<Rightarrow> 0
      | toc # rest \<Rightarrow>
          (let samples = toc_samples toc in
           if toc AND 3 = 1 \<or> toc AND 3 = 2 then capped_samples samples 2
           else if toc AND 3 = 3 then
             (case rest of [] \<Rightarrow> 0 | b # _ \<Rightarrow> capped_samples samples (ucast (b AND 0x3f)))
           else capped_samples samples 1))"

definition hex_digit :: "nat \<Rightarrow> char" where
  "hex_digit n = ''0123456789abcdef'' ! n"

definition hex2 :: "byte \<Rightarrow> string" where
  "hex2 b = [hex_digit (unat b div 16), hex_digit (unat b mod 16)]"

fun h264ProfileLevel :: "byte list \<Rightarrow> string" where
  "h264ProfileLevel (a # b # c # d # e # f # g # r) =
     (if a = 0 \<and> b = 0 \<and> c = 1 \<and> d AND 31 = 7 then hex2 e @ hex2 f @ hex2 g
      else h264ProfileLevel (b # c # d # e # f # g # r))"
| "h264ProfileLevel _ = ''''"

section \<open>Lemmas\<close>

lemmas scrcpy_flags = scrcpySessionFlag_def scrcpyConfigFlag_def scrcpyKeyFrameFlag_def
  scrcpyPTSBitmask_def

lemma length_pad_to [simp]: "length bs \<le> n \<Longrightarrow> length (pad_to n bs) = n"
  by (simp add: pad_to_def)

lemma string_of_append [simp]: "string_of (a @ b) = string_of a @ string_of b"
  by (simp add: string_of_def)

lemma string_of_zeros [simp]: "string_of (replicate n 0) = replicate n (CHR 0x00)"
  by (simp add: string_of_def char_of_byte_def char_of_def)

lemma trim_nul_zeros [simp]: "trim_nul (s @ replicate n (CHR 0x00)) = trim_nul s"
  by (simp add: trim_nul_def dropWhile_append)

lemma trim_nul_id: "s = [] \<or> last s \<noteq> CHR 0x00 \<Longrightarrow> trim_nul s = s"
  by (cases s rule: rev_cases) (auto simp: trim_nul_def)

lemma trim_nul_pad: "length s \<le> 32 \<Longrightarrow> trim_nul (string_of (pad_to 32 (bytes s))) = trim_nul s"
  by (simp add: pad_to_def)

text \<open>A frame is its fields, one after the other.\<close>

lemma previewFrame_Inr:
  "previewFrame d p = Inr f \<longleftrightarrow>
     0 < length d \<and> length d \<le> 32 \<and> Data p \<noteq> [] \<and>
     f = bytes ''PREV'' @ pad_to 32 (bytes d) @ [if KeyFrame p then 1 else 0]
           @ put_be 8 (unat (PTS p)) @ put_be 4 (length (Data p)) @ Data p"
  by (auto simp: previewFrame_def)

lemma bytes4: "bytes [a, b, c, d] = [byte_of a, byte_of b, byte_of c, byte_of d]"
  by (simp add: bytes_def)

lemma frame_parts:
  assumes "length m = 4" "length d = 32" "length p = 8" "length l = 4"
  shows "take 4 (m @ d @ [k] @ p @ l @ r) = m"
    and "take 32 (drop 4 (m @ d @ [k] @ p @ l @ r)) = d"
    and "(m @ d @ [k] @ p @ l @ r) ! 36 = k"
    and "(m @ d @ [k] @ p @ l @ r)[36 := j] = m @ d @ [j] @ p @ l @ r"
    and "take 8 (drop 37 (m @ d @ [k] @ p @ l @ r)) = p"
    and "take 4 (drop 45 (m @ d @ [k] @ p @ l @ r)) = l"
    and "drop 49 (m @ d @ [k] @ p @ l @ r) = r"
    and "drop 4 (m @ d @ [k] @ p @ l @ r) = d @ [k] @ p @ l @ r"
  using assms by (simp_all add: nth_append list_update_append)

lemma audioFrame_Inr:
  "audioFrame d p = Inr f \<longleftrightarrow>
     0 < length d \<and> length d \<le> 32 \<and> Data p \<noteq> [] \<and>
     f = bytes ''OPUS'' @ pad_to 32 (bytes d) @ [2]
           @ put_be 8 (unat (PTS p)) @ put_be 4 (length (Data p)) @ Data p"
  by (cases "previewFrame d p")
     (auto simp: audioFrame_def previewFrame_Inr frame_parts bytes4 list_update_append
       simp: previewFrame_def split: if_splits)


lemma scrcpy_flag_bits:
  "bit scrcpySessionFlag n \<longleftrightarrow> n = 63" "bit scrcpyConfigFlag n \<longleftrightarrow> n = 62"
  "bit scrcpyKeyFrameFlag n \<longleftrightarrow> n = 61" "bit scrcpyPTSBitmask n \<longleftrightarrow> n < 61"
proof -
  have mask: "scrcpyPTSBitmask = mask 61"
    by (simp add: scrcpy_flags mask_eq_decr_exp)
  show "bit scrcpyPTSBitmask n \<longleftrightarrow> n < 61"
    unfolding mask bit_mask_iff by auto
qed (unfold scrcpySessionFlag_def scrcpyConfigFlag_def scrcpyKeyFrameFlag_def bit_push_bit_iff bit_1_iff, auto)

lemma and_flag_iff: "w AND push_bit n 1 \<noteq> 0 \<longleftrightarrow> bit w n" for w :: "64 word"
  by (metis bit_iff_and_push_bit_not_eq_0)

lemma scrcpy_flag_test:
  "w AND scrcpySessionFlag \<noteq> 0 \<longleftrightarrow> bit w 63" "w AND scrcpyConfigFlag \<noteq> 0 \<longleftrightarrow> bit w 62"
  "w AND scrcpyKeyFrameFlag \<noteq> 0 \<longleftrightarrow> bit w 61"
  by (simp_all only: scrcpySessionFlag_def scrcpyConfigFlag_def scrcpyKeyFrameFlag_def and_flag_iff)

lemma small_pts_bit:
  assumes "unat (pts :: 64 word) < 2 ^ 61" "bit pts n"
  shows "n < 61"
proof -
  have "bit (unat pts) n" using assms(2) by (simp add: bit_unsigned_iff bit_imp_le_length)
  moreover have "take_bit 61 (unat pts) = unat pts" using assms(1) by (simp only: take_bit_nat_eq_self)
  ultimately show ?thesis by (metis bit_take_bit_iff)
qed

definition media_flags :: "64 word \<Rightarrow> bool \<Rightarrow> bool \<Rightarrow> 64 word" where
  "media_flags pts key config =
     pts OR (if key then scrcpyKeyFrameFlag else 0) OR (if config then scrcpyConfigFlag else 0)"

lemma media_flags_read:
  assumes "unat pts < 2 ^ 61"
  shows "media_flags pts k c AND scrcpySessionFlag = 0"
    and "media_flags pts k c AND scrcpyPTSBitmask = pts"
    and "media_flags pts k c AND scrcpyKeyFrameFlag \<noteq> 0 \<longleftrightarrow> k"
    and "media_flags pts k c AND scrcpyConfigFlag \<noteq> 0 \<longleftrightarrow> c"
proof -
  have small: "bit pts n \<Longrightarrow> n < 61" for n
    using small_pts_bit assms by blast
  have bits: "bit (media_flags pts k c) n \<longleftrightarrow> bit pts n \<or> k \<and> n = 61 \<or> c \<and> n = 62" for n
    by (simp add: media_flags_def bit_or_iff scrcpy_flag_bits)
  show "media_flags pts k c AND scrcpySessionFlag = 0"
    by (rule bit_eqI) (auto simp: bit_and_iff bits scrcpy_flag_bits dest: small)
  show "media_flags pts k c AND scrcpyPTSBitmask = pts"
    by (rule bit_eqI) (auto simp: bit_and_iff bits scrcpy_flag_bits dest: small)
  show "media_flags pts k c AND scrcpyKeyFrameFlag \<noteq> 0 \<longleftrightarrow> k"
    by (auto simp: scrcpy_flag_test bits dest: small)
  show "media_flags pts k c AND scrcpyConfigFlag \<noteq> 0 \<longleftrightarrow> c"
    by (auto simp: scrcpy_flag_test bits dest: small)
qed

lemma get_be_append: "get_be (a @ b) = get_be a * 256 ^ length b + get_be b"
proof (induction a)
  case (Cons x a)
  then show ?case by (simp add: get_be_Cons power_add algebra_simps)
qed simp

lemma high_bit: "n div 2 ^ 63 = 1 \<Longrightarrow> (of_nat n :: 64 word) AND scrcpySessionFlag \<noteq> 0"
  by (simp only: scrcpy_flag_test bit_of_nat_iff possible_bit_word) (simp add: bit_iff_odd)

text \<open>Reading consumes the header and the payload, and nothing else.\<close>

lemma readScrcpyPacket_Inr:
  assumes "readScrcpyPacket r = Inr (p, rest)"
  shows "\<exists>h. r = h @ Data p @ rest \<and> length h = 12 \<and> length (Data p) \<le> maxScrcpyPacketSize \<and>
     (Session p \<longleftrightarrow> Data p = [])"
  using assms
  by (auto simp: readScrcpyPacket_def scrcpyPacketHeaderSize_def read_full_Inr Let_def no_packet_def
      split: sum.splits if_splits)

section \<open>Properties\<close>

text \<open>Reading a media packet back. For every presentation time below 2^61, every choice of the two
  flags and every payload of 1 byte to 32 MiB, \<open>readScrcpyPacket\<close> on the packet's header and payload
  returns exactly that packet and leaves the rest of the stream.\<close>

theorem readScrcpyPacket_media:
  assumes "unat pts < 2 ^ 61" "0 < length data" "length data \<le> maxScrcpyPacketSize"
  shows "readScrcpyPacket
      (put_be 8 (unat (media_flags pts key config)) @ put_be 4 (length data) @ data @ rest) =
    Inr (no_packet\<lparr>PTS := pts, KeyFrame := key, Config := config, Data := data\<rparr>, rest)"
proof -
  let ?h = "put_be 8 (unat (media_flags pts key config)) @ put_be 4 (length data)"
  have "get_be (put_be 4 (length data)) = length data"
    using assms(3) by (intro be.small) (simp add: maxScrcpyPacketSize_def)
  moreover have "read_full scrcpyPacketHeaderSize (?h @ data @ rest) = Inr (?h, data @ rest)"
    by (rule read_full_append) (simp add: scrcpyPacketHeaderSize_def)
  ultimately show ?thesis
    using assms be.get_put_64 [of "media_flags pts key config"] media_flags_read [OF assms(1)]
    by (simp add: readScrcpyPacket_def read_full_append Let_def)
qed

theorem readScrcpyPacket_media_witness:
  "readScrcpyPacket (put_be 8 (unat (media_flags 5 True False)) @ put_be 4 (length [9, 8, 7 :: byte])
      @ [9, 8, 7] @ [1]) =
   Inr (no_packet\<lparr>PTS := 5, KeyFrame := True, Config := False, Data := [9, 8, 7]\<rparr>, [1])"
  by (rule readScrcpyPacket_media) (simp_all add: maxScrcpyPacketSize_def)

text \<open>What the agent sends as a preview frame passes the control plane's check exactly for the
  device it was made for (for device ids that do not end in a NUL byte, which the padding could
  not represent), and the envelope carries the key-frame flag, the presentation time and the
  payload.\<close>

theorem previewFrame_valid:
  assumes "previewFrame d p = Inr f" "last d \<noteq> CHR 0x00"
  shows "(validPreviewFrame d' f \<longleftrightarrow> d' = d) \<and> \<not> validAudioFrame d' f \<and>
     f ! 36 = (if KeyFrame p then 1 else 0) \<and>
     get_be (take 8 (drop 37 f)) = unat (PTS p) \<and> drop 49 f = Data p"
proof -
  have f: "0 < length d" "length d \<le> 32" and
    f_eq: "f = bytes ''PREV'' @ pad_to 32 (bytes d) @ [if KeyFrame p then 1 else 0]
      @ put_be 8 (unat (PTS p)) @ put_be 4 (length (Data p)) @ Data p"
    using assms(1) by (auto simp: previewFrame_Inr)
  have "trim_nul (string_of (pad_to 32 (bytes d))) = d"
    using f assms(2) by (simp add: trim_nul_pad trim_nul_id)
  then show ?thesis
    unfolding f_eq using f be.get_put_64 [of "PTS p"]
    by (auto simp: validPreviewFrame_def validAudioFrame_def frame_parts nth_append)
qed

theorem previewFrame_valid_witness:
  "let f = bytes ''PREV'' @ pad_to 32 (bytes ''dev1'') @ [1] @ put_be 8 7 @ put_be 4 1 @ [3] in
   (validPreviewFrame ''dev1'' f \<longleftrightarrow> ''dev1'' = ''dev1'') \<and> \<not> validAudioFrame ''dev1'' f \<and>
     f ! 36 = 1 \<and> get_be (take 8 (drop 37 f)) = 7 \<and> drop 49 f = [3]"
  using previewFrame_valid [of "''dev1''" "no_packet\<lparr>PTS := 7, KeyFrame := True, Data := [3]\<rparr>"
      "bytes ''PREV'' @ pad_to 32 (bytes ''dev1'') @ [1] @ put_be 8 7 @ put_be 4 1 @ [3]" "''dev1''"]
  by (simp add: previewFrame_Inr Let_def)

text \<open>What the agent sends as an audio frame passes the control plane's audio check exactly for
  its device, provided the packet has at most 65536 bytes, and is never taken for a preview
  frame.\<close>

theorem audioFrame_valid:
  assumes "audioFrame d p = Inr f" "last d \<noteq> CHR 0x00"
  shows "(validAudioFrame d' f \<longleftrightarrow> d' = d \<and> length (Data p) \<le> 65536) \<and> \<not> validPreviewFrame d' f"
proof -
  have f: "0 < length d" "length d \<le> 32" "Data p \<noteq> []" and
    f_eq: "f = bytes ''OPUS'' @ pad_to 32 (bytes d) @ [2]
      @ put_be 8 (unat (PTS p)) @ put_be 4 (length (Data p)) @ Data p"
    using assms(1) by (auto simp: audioFrame_Inr)
  have "trim_nul (string_of (pad_to 32 (bytes d))) = d"
    using f assms(2) by (simp add: trim_nul_pad trim_nul_id)
  moreover have "length (Data p) \<le> 65536 \<Longrightarrow> get_be (put_be 4 (length (Data p))) = length (Data p)"
    by simp
  ultimately show ?thesis
    unfolding f_eq using f
    by (auto simp: validPreviewFrame_def validAudioFrame_def frame_parts nth_append simp del: get_put_be)
qed

theorem audioFrame_valid_witness:
  "let f = bytes ''OPUS'' @ pad_to 32 (bytes ''dev1'') @ [2] @ put_be 8 7 @ put_be 4 1 @ [3] in
   (validAudioFrame ''dev1'' f \<longleftrightarrow> ''dev1'' = ''dev1'' \<and> length [3 :: byte] \<le> 65536) \<and>
     \<not> validPreviewFrame ''dev1'' f"
  using audioFrame_valid [of "''dev1''" "no_packet\<lparr>PTS := 7, Data := [3]\<rparr>"
      "bytes ''OPUS'' @ pad_to 32 (bytes ''dev1'') @ [2] @ put_be 8 7 @ put_be 4 1 @ [3]" "''dev1''"]
  by (simp add: audioFrame_Inr Let_def)

section \<open>Opus packets against the table of RFC 6716\<close>

text \<open>
  Table 2 of RFC 6716 as it stands there: the frame size, in samples at 48 kHz, of each of the 32
  configurations, and the frame count code in the two low bits of the first byte.
\<close>

definition rfc_frame_samples :: "nat list" where
  "rfc_frame_samples =
     [480, 960, 1920, 2880, 480, 960, 1920, 2880, 480, 960, 1920, 2880, 480, 960, 480, 960,
      120, 240, 480, 960, 120, 240, 480, 960, 120, 240, 480, 960, 120, 240, 480, 960]"

definition rfc_frame_count :: "byte list \<Rightarrow> nat option" where
  "rfc_frame_count packet =
     (case packet of
        [] \<Rightarrow> None
      | toc # rest \<Rightarrow>
          (if unat toc mod 4 = 0 then Some 1
           else if unat toc mod 4 = 3 then
             (case rest of [] \<Rightarrow> None | b # _ \<Rightarrow> Some (unat b mod 64))
           else Some 2))"

lemma bit_byte: "bit (b :: byte) n \<longleftrightarrow> odd (unat b div 2 ^ n)"
  by (metis bit_iff_odd bit_imp_le_length bit_unsigned_iff possible_bit_nat)

lemma byte_and_iff: "(b :: byte) AND x = x \<longleftrightarrow> (\<forall>n. bit x n \<longrightarrow> bit b n)"
  by (auto simp: bit_and_iff intro!: bit_eqI) (metis bit_and_iff)

lemma low_bits: "(b :: byte) AND 3 = take_bit 2 b" "b AND 1 = take_bit 1 b" "b AND 0x3f = take_bit 6 b"
  by (simp_all add: take_bit_eq_mask mask_eq_decr_exp)

lemma unat_low_bits:
  "unat ((b :: byte) AND 3) = unat b mod 4" "unat (b AND 0x3f) = unat b mod 64"
  "unat (drop_bit 3 b AND 3) = unat b div 8 mod 4" "unat (drop_bit 3 b AND 1) = unat b div 8 mod 2"
  unfolding low_bits
  by (simp_all add: take_bit_eq_mod drop_bit_eq_div unat_div_distrib unat_mod_distrib)

lemma toc_high: "toc AND 0x80 \<noteq> (0 :: byte) \<longleftrightarrow> 16 \<le> unat toc div 8"
proof -
  have "toc AND 0x80 \<noteq> 0 \<longleftrightarrow> bit toc 7"
    using bit_iff_and_push_bit_not_eq_0 [of toc 7] by simp
  moreover have "unat toc div 128 = (if unat toc < 128 then 0 else 1)"
    using unat_lt_256 [of toc] by (auto intro!: div_nat_eqI)
  ultimately show ?thesis by (auto simp: bit_byte less_eq_div_iff_mult_less_eq)
qed

lemma toc_hybrid: "toc AND 0x60 = (0x60 :: byte) \<longleftrightarrow> unat toc div 8 div 4 mod 4 = 3"
proof -
  have "push_bit 5 (mask 2) = (0x60 :: byte)" by (simp add: mask_eq_decr_exp)
  moreover have "bit (push_bit 5 (mask 2) :: byte) n \<longleftrightarrow> n = 5 \<or> n = 6" for n
    unfolding bit_push_bit_iff bit_mask_iff by auto
  ultimately have bits: "bit (0x60 :: byte) n \<longleftrightarrow> n = 5 \<or> n = 6" for n by metis
  have "toc AND 0x60 = 0x60 \<longleftrightarrow> bit toc 5 \<and> bit toc 6"
    unfolding byte_and_iff bits by blast
  moreover have "odd m \<and> odd (m div 2) \<longleftrightarrow> m mod 4 = 3" for m :: nat by presburger
  moreover have "unat toc div 64 = unat toc div 32 div 2" "unat toc div 8 div 4 = unat toc div 32"
    by (simp_all flip: div_mult2_eq)
  ultimately show ?thesis by (simp add: bit_byte)
qed

lemma byte_eq_small:
  "(w :: byte) = 1 \<longleftrightarrow> unat w = 1" "w = 2 \<longleftrightarrow> unat w = 2" "w = 3 \<longleftrightarrow> unat w = 3"
proof -
  have "w = v \<longleftrightarrow> unat w = unat v" for v by (rule word_eq_iff_unsigned)
  from this [of 1] this [of 2] this [of 3]
  show "w = 1 \<longleftrightarrow> unat w = 1" "w = 2 \<longleftrightarrow> unat w = 2" "w = 3 \<longleftrightarrow> unat w = 3" by simp_all
qed

lemma ucast_byte: "(ucast (w :: byte) :: 32 word) = of_nat (unat w)"
  by transfer simp

lemma upt_32: "[0 ..< 32] = [0, 1, 2, 3, 4, 5, 6, 7, 8, 9, 10, 11, 12, 13, 14, 15, 16, 17, 18, 19, 20,
    21, 22, 23, 24, 25, 26, 27, 28, 29, 30, 31]"
  by (simp add: upt_conv_Cons)

lemma rfc_table:
  "list_all (\<lambda>q. rfc_frame_samples ! q \<le> 2880 \<and>
     of_nat (rfc_frame_samples ! q) =
       (if 16 \<le> q then push_bit (q mod 4) 120
        else if q div 4 mod 4 = 3 then push_bit (q mod 2) 480
        else if q mod 4 = 3 then 2880
        else push_bit (q mod 4) 480 :: 32 word)) [0 ..< 32]"
  unfolding upt_32 by (simp add: rfc_frame_samples_def push_bit_eq_mult)

lemma toc_samples_rfc:
  "toc_samples toc = of_nat (rfc_frame_samples ! (unat toc div 8))"
  "rfc_frame_samples ! (unat toc div 8) \<le> 2880"
proof -
  have "unat toc div 8 \<in> set [0 ..< 32]" by (simp add: div_less_iff_less_mult)
  from rfc_table [unfolded list_all_iff, rule_format, OF this]
  show "toc_samples toc = of_nat (rfc_frame_samples ! (unat toc div 8))"
    "rfc_frame_samples ! (unat toc div 8) \<le> 2880"
    by (simp_all only: toc_samples_def toc_high toc_hybrid byte_eq_small unat_low_bits(3, 4))
qed

lemma capped_samples_nat:
  "n \<le> 2880 \<Longrightarrow> m < 64 \<Longrightarrow>
   unat (capped_samples (of_nat n) (of_nat m)) = (if 5760 < n * m then 0 else n * m)"
proof -
  assume "n \<le> 2880" "m < 64"
  then have "n * m \<le> 2880 * 64" by (intro mult_le_mono) auto
  then have "unat (of_nat (n * m) :: 32 word) = n * m" by (simp add: unat_of_nat del: of_nat_mult)
  then show ?thesis by (simp add: capped_samples_def Let_def word_less_nat_alt)
qed

text \<open>The duration of an Opus packet is the one of RFC 6716: frame size of the table times the
  frame count, or 0 when the packet has no frame count or would exceed the 120 ms (5760 samples)
  that the RFC allows; the 32-bit product never wraps.\<close>

theorem opusPacketSamples_rfc:
  "unat (opusPacketSamples packet) =
     (case rfc_frame_count packet of
        None \<Rightarrow> 0
      | Some m \<Rightarrow>
          (let n = rfc_frame_samples ! (unat (hd packet) div 8) * m in if 5760 < n then 0 else n))"
proof (cases packet)
  case Nil
  then show ?thesis by (simp add: opusPacketSamples_def rfc_frame_count_def)
next
  case (Cons toc rest)
  let ?n = "rfc_frame_samples ! (unat toc div 8)"
  have cap: "unat (capped_samples (toc_samples toc) (of_nat m)) = (if 5760 < ?n * m then 0 else ?n * m)"
    if "m < 64" for m
    using that toc_samples_rfc [of toc] capped_samples_nat [of ?n m] by simp
  have small: "unat b mod 64 < 64" for b :: byte by simp
  show ?thesis
    using cap [of 1] cap [of 2] cap [OF small] Cons
    by (auto simp: opusPacketSamples_def rfc_frame_count_def Let_def ucast_byte byte_eq_small
          unat_low_bits
        split: list.splits)
qed

end
