(* ===== verification/ShellV2.thy ===== *)
theory ShellV2
  imports Wire
begin

text \<open>
  \<open>internal/adb\<close>: the Shell v2 session of \<open>shell.go\<close> (the demultiplexing read loop, the packets it
  sends, chunked writes), the command quoting of \<open>client.go\<close> and the exit-status trailer of
  \<open>legacy.go\<close>. The connection is the list of bytes still to be read; a writer is a state and a
  function on it, which may fail or write short as an \<open>io.Writer\<close> may.
\<close>

section \<open>Shell v2 sessions\<close>

definition maxShellPacket :: nat where "maxShellPacket = 1048576"

text \<open>A writer takes a flag (false for stdout, true for stderr) and the data; it returns its error, if
  any, and the number of bytes it took.\<close>

type_synonym 'w writer = "bool \<Rightarrow> byte list \<Rightarrow> 'w \<Rightarrow> (bool \<times> nat) \<times> 'w"

datatype session_error =
    NoExitStatus wire_error
  | PacketTooBig
  | BadRead wire_error
  | WriterError
  | ErrShortWrite
  | BadExitStatus
  | ExitError nat
  | BadPacket byte

text \<open>\<open>Session.read\<close>: \<open>None\<close> is the nil error, the exit status 0.\<close>

function session_read :: "'w writer \<Rightarrow> byte list \<Rightarrow> 'w \<Rightarrow> session_error option \<times> 'w" where
  "session_read wr conn w =
     (case read_full 5 conn of
        Inl e \<Rightarrow> (Some (NoExitStatus e), w)
      | Inr (header, c1) \<Rightarrow>
          (let size = get_le (drop 1 header) in
           if maxShellPacket < size then (Some PacketTooBig, w)
           else
             (case read_full size c1 of
                Inl e \<Rightarrow> (Some (BadRead e), w)
              | Inr (data, c2) \<Rightarrow>
                  (if header ! 0 = 1 \<or> header ! 0 = 2 then
                     (case wr (header ! 0 = 2) data w of
                        ((err, n), w') \<Rightarrow>
                          if err then (Some WriterError, w')
                          else if n \<noteq> length data then (Some ErrShortWrite, w')
                          else session_read wr c2 w')
                   else if header ! 0 = 3 then
                     (if length data \<noteq> 1 \<and> length data \<noteq> 4 then (Some BadExitStatus, w)
                      else
                        (let code = (if length data = 4 then get_le data else unat (data ! 0)) in
                         if code \<noteq> 0 then (Some (ExitError code), w) else (None, w)))
                   else (Some (BadPacket (header ! 0)), w)))))"
  by pat_completeness auto
termination
  by (relation "measure (\<lambda>(wr, conn, w). length conn)") (auto simp: read_full_Inr)

declare session_read.simps [simp del]

text \<open>
  The sending side. \<open>sent\<close> is what went out on the connection so far, \<open>room\<close> the number of bytes
  the connection still takes before a write on it fails, \<open>ctxErr\<close> whether the context is done.
\<close>

record session =
  sent :: "byte list"
  room :: nat
  ctxErr :: bool

definition conn_write :: "byte list \<Rightarrow> session \<Rightarrow> bool \<times> session" where
  "conn_write bs s =
     (length bs \<le> room s, s\<lparr>sent := sent s @ take (room s) bs, room := room s - length bs\<rparr>)"

definition packet :: "byte \<Rightarrow> byte list \<Rightarrow> byte list" where
  "packet kind data = [kind] @ put_le 4 (length data) @ data"

definition send :: "byte \<Rightarrow> byte list \<Rightarrow> session \<Rightarrow> bool \<times> session" where
  "send kind data s = (if ctxErr s then (False, s) else conn_write (packet kind data) s)"

definition maxChunk :: nat where "maxChunk = 65536"

function session_write :: "nat \<Rightarrow> byte list \<Rightarrow> session \<Rightarrow> (nat \<times> bool) \<times> session" where
  "session_write written data s =
     (if data = [] then ((written, True), s)
      else
        (let n = min (length data) maxChunk in
         case send 0 (take n data) s of
           (False, s') \<Rightarrow> ((written, False), s')
         | (True, s') \<Rightarrow> session_write (written + n) (drop n data) s'))"
  by pat_completeness auto
termination
  by (relation "measure (\<lambda>(written, data, s). length data)") (auto simp: maxChunk_def)

declare session_write.simps [simp del]

definition session_Write :: "byte list \<Rightarrow> session \<Rightarrow> (nat \<times> bool) \<times> session" where
  "session_Write data s = session_write 0 data s"

fun show_nat :: "nat \<Rightarrow> string" where
  "show_nat n = (if n < 10 then [char_of (48 + n)] else show_nat (n div 10) @ [char_of (48 + n mod 10)])"

declare show_nat.simps [simp del]

definition resize :: "16 word \<Rightarrow> 16 word \<Rightarrow> session \<Rightarrow> bool \<times> session" where
  "resize rows cols s =
     (if rows = 0 \<or> cols = 0 then (False, s)
      else send 5 (bytes (show_nat (unat rows) @ ''x'' @ show_nat (unat cols) @ '',0x0'' @ [CHR 0x00])) s)"

definition closeStdin :: "session \<Rightarrow> bool \<times> session" where
  "closeStdin s = send 4 [] s"

section \<open>Command lines\<close>

fun escape_quotes :: "string \<Rightarrow> string" where
  "escape_quotes [] = []"
| "escape_quotes (c # s) =
     (if c = CHR 0x27 then [CHR 0x27, CHR 0x5C, CHR 0x27, CHR 0x27] else [c]) @ escape_quotes s"

definition quote :: "string \<Rightarrow> string" where
  "quote value = [CHR 0x27] @ escape_quotes value @ [CHR 0x27]"

definition command :: "string \<Rightarrow> string list \<Rightarrow> string option" where
  "command name args =
     (let words = name # args in
      if list_ex (\<lambda>w. CHR 0x00 \<in> set w) words then None
      else Some (join_with [CHR 0x20] (map quote words)))"

section \<open>The exit-status trailer of old devices\<close>

text \<open>\<open>strings.LastIndex\<close>.\<close>

fun last_index :: "string \<Rightarrow> string \<Rightarrow> nat option" where
  "last_index [] p = (if p = [] then Some 0 else None)"
| "last_index (c # s) p =
     (case last_index s p of
        Some i \<Rightarrow> Some (Suc i)
      | None \<Rightarrow> if prefix p (c # s) then Some 0 else None)"

fun digits_val :: "nat \<Rightarrow> string \<Rightarrow> nat option" where
  "digits_val a [] = Some a"
| "digits_val a (c # s) =
     (if CHR 0x30 \<le> c \<and> c \<le> CHR 0x39 then digits_val (a * 10 + (of_char c - 48)) s else None)"

text \<open>\<open>strconv.Atoi\<close>: an optional sign, at least one digit, within 64 bits.\<close>

definition atoi :: "string \<Rightarrow> int option" where
  "atoi s =
     (let neg = (case s of c # _ \<Rightarrow> c = CHR 0x2D | [] \<Rightarrow> False);
          ds = (case s of c # r \<Rightarrow> if c = CHR 0x2D \<or> c = CHR 0x2B then r else s | [] \<Rightarrow> s) in
      if ds = [] then None
      else
        (case digits_val 0 ds of
           None \<Rightarrow> None
         | Some v \<Rightarrow>
             (let x = (if neg then - int v else int v) in
              if x < - (2 ^ 63) \<or> 2 ^ 63 \<le> x then None else Some x)))"

definition hex_string :: "byte list \<Rightarrow> string" where
  "hex_string bs =
     concat (map (\<lambda>b. [''0123456789abcdef'' ! (unat b div 16), ''0123456789abcdef'' ! (unat b mod 16)]) bs)"

definition legacy_marker :: "byte list \<Rightarrow> string" where
  "legacy_marker nonce = [CHR 0x0A] @ ''SCRCPYCAT_EXIT_'' @ hex_string nonce @ '':''"

definition legacy_wrapped :: "string \<Rightarrow> string \<Rightarrow> string" where
  "legacy_wrapped marker cmd =
     ''( '' @ cmd @ [CHR 0x0A] @ ''); result=$?; printf '' @ quote (marker @ ''%d'' @ [CHR 0x0A])
       @ '' '' @ [CHR 0x22] @ ''$result'' @ [CHR 0x22]"

datatype legacy_error =
    OutputTooLong
  | NoStatus
  | InvalidStatus
  | OutputError
  | LegacyExit int

text \<open>
  What \<open>RunLegacy\<close> makes of the raw output: the bytes it hands to the output writer, if it gets
  that far, and its error. The reader is limited to 8 MiB and one byte, so \<open>raw\<close> is that prefix.
  \<open>outOk\<close> is \<open>None\<close> for a nil writer, and otherwise whether the writer succeeds.
\<close>

definition run_legacy :: "string \<Rightarrow> bool option \<Rightarrow> string \<Rightarrow> string option \<times> legacy_error option" where
  "run_legacy marker outOk stream =
     (let raw = take 8388609 stream in
      if 8388608 < length raw then (None, Some OutputTooLong)
      else
        (case last_index raw marker of
           None \<Rightarrow> (None, Some NoStatus)
         | Some index \<Rightarrow>
             (case atoi (trim_space (drop (index + length marker) raw)) of
                None \<Rightarrow> (None, Some InvalidStatus)
              | Some status \<Rightarrow>
                  (if status < 0 \<or> 255 < status then (None, Some InvalidStatus)
                   else
                     (let out = (if outOk = None then None else Some (take index raw)) in
                      if outOk = Some False then (out, Some OutputError)
                      else if status \<noteq> 0 then (out, Some (LegacyExit status))
                      else (out, None))))))"

section \<open>Lemmas on sessions\<close>

text \<open>A writer that collects both streams in memory, as \<open>bytes.Buffer\<close>s do.\<close>

definition buf_writer :: "(byte list \<times> byte list) writer" where
  "buf_writer err data w =
     ((False, length data), if err then (fst w, snd w @ data) else (fst w @ data, snd w))"

lemma session_read_packet:
  assumes "length d \<le> maxShellPacket"
  shows "session_read wr (packet k d @ r) w =
    (if k = 1 \<or> k = 2 then
       (case wr (k = 2) d w of
          ((err, n), w') \<Rightarrow>
            if err then (Some WriterError, w')
            else if n \<noteq> length d then (Some ErrShortWrite, w')
            else session_read wr r w')
     else if k = 3 then
       (if length d \<noteq> 1 \<and> length d \<noteq> 4 then (Some BadExitStatus, w)
        else
          (let code = (if length d = 4 then get_le d else unat (d ! 0)) in
           if code \<noteq> 0 then (Some (ExitError code), w) else (None, w)))
     else (Some (BadPacket k), w))"
proof -
  have "read_full 5 (packet k d @ r) = Inr (k # put_le 4 (length d), d @ r)"
    using read_full_append [of "k # put_le 4 (length d)" 5] by (simp add: packet_def)
  moreover have "get_le (put_le 4 (length d)) = length d"
    using assms by (simp add: maxShellPacket_def)
  ultimately show ?thesis
    using assms
    by (subst session_read.simps) (simp add: read_full_append Let_def del: get_put_le)
qed

lemma session_read_stream:
  assumes "\<forall>p \<in> set ps. length (snd p) \<le> maxShellPacket"
  shows "session_read buf_writer (concat (map (\<lambda>p. packet (if fst p then 2 else 1) (snd p)) ps) @ r) (o1, e1) =
    session_read buf_writer r
      (o1 @ concat (map snd (filter (\<lambda>p. \<not> fst p) ps)), e1 @ concat (map snd (filter fst ps)))"
  using assms
proof (induction ps arbitrary: o1 e1)
  case (Cons p ps)
  then show ?case
    by (cases "fst p") (simp_all add: session_read_packet buf_writer_def)
qed simp

lemma conn_write_True: "conn_write bs s = (True, s') \<Longrightarrow> sent s' = sent s @ bs"
  by (auto simp: conn_write_def)

lemma conn_write_prefix: "conn_write bs s = (ok, s') \<Longrightarrow> prefix (sent s) (sent s')"
  by (auto simp: conn_write_def)

lemma send_True: "send k d s = (True, s') \<Longrightarrow> sent s' = sent s @ packet k d"
  by (auto simp: send_def split: if_splits dest: conn_write_True)

lemma send_prefix: "send k d s = (ok, s') \<Longrightarrow> prefix (sent s) (sent s')"
  by (auto simp: send_def split: if_splits dest: conn_write_prefix)

text \<open>What a chunked write has put on the connection.\<close>

lemma session_write_chunks:
  assumes "session_write w0 data s = ((n, ok), s')"
  shows "\<exists>cs. n = w0 + length (concat cs) \<and> prefix (concat cs) data \<and>
    (\<forall>c \<in> set cs. c \<noteq> [] \<and> length c \<le> maxChunk) \<and>
    prefix (sent s @ concat (map (packet 0) cs)) (sent s') \<and>
    (if ok then concat cs = data \<and> sent s' = sent s @ concat (map (packet 0) cs)
     else concat cs \<noteq> data)"
  using assms
proof (induction w0 data s arbitrary: n ok s' rule: session_write.induct)
  case (1 w0 data s)
  show ?case
  proof (cases "data = []")
    case True
    with "1.prems" show ?thesis by (intro exI [of _ "[]"]) (simp add: session_write.simps)
  next
    case False
    let ?n = "min (length data) maxChunk"
    obtain b s1 where snd: "send 0 (take ?n data) s = (b, s1)" by (cases "send 0 (take ?n data) s")
    show ?thesis
    proof (cases b)
      case False
      with snd "1.prems" \<open>data \<noteq> []\<close> have "n = w0" "\<not> ok" "s' = s1"
        by (simp_all add: session_write.simps [of w0 data s] Let_def)
      with send_prefix [OF snd] \<open>data \<noteq> []\<close> show ?thesis by (intro exI [of _ "[]"]) simp
    next
      case True
      with snd "1.prems" \<open>data \<noteq> []\<close> have "session_write (w0 + ?n) (drop ?n data) s1 = ((n, ok), s')"
        by (simp add: session_write.simps [of w0 data s] Let_def)
      from "1.IH" [OF \<open>data \<noteq> []\<close> refl snd [symmetric] _ this] True obtain cs where cs:
        "n = w0 + ?n + length (concat cs)" "prefix (concat cs) (drop ?n data)"
        "\<forall>c \<in> set cs. c \<noteq> [] \<and> length c \<le> maxChunk"
        "prefix (sent s1 @ concat (map (packet 0) cs)) (sent s')"
        "if ok then concat cs = drop ?n data \<and> sent s' = sent s1 @ concat (map (packet 0) cs)
         else concat cs \<noteq> drop ?n data" by auto
      have app: "take ?n data @ drop ?n data = data" by (rule append_take_drop_id)
      have "0 < maxChunk" by (simp add: maxChunk_def)
      moreover have "prefix (take ?n data @ concat cs) data"
        using cs(2) app by (metis same_prefix_prefix)
      moreover have "take ?n data @ concat cs = data \<longleftrightarrow> concat cs = drop ?n data"
        using app by (metis same_append_eq)
      moreover have "sent s1 = sent s @ packet 0 (take ?n data)"
        using snd True by (simp add: send_True)
      ultimately show ?thesis
        using cs \<open>data \<noteq> []\<close> by (intro exI [of _ "take ?n data # cs"]) (auto split: if_splits)
    qed
  qed
qed

section \<open>Quoting against a shell lexer\<close>

text \<open>
  The word splitting of a POSIX shell on a line without operators, expansions and comments:
  blanks separate words, single quotes take everything up to the next one literally, a backslash
  takes the next character literally. A character that the shell would interpret makes the
  result \<open>None\<close>, as does an unfinished quote.
\<close>

definition sh_special :: "char \<Rightarrow> bool" where
  "sh_special c \<longleftrightarrow> c \<in> set ''|&;<>()$`*?[]#~=%{}!'' \<or> c = CHR 0x22 \<or> c = CHR 0x0A \<or> c = CHR 0x09"

fun sh_plain :: "string option \<Rightarrow> string \<Rightarrow> string list option"
  and sh_quoted :: "string \<Rightarrow> string \<Rightarrow> string list option" where
  "sh_plain cur [] = Some (case cur of None \<Rightarrow> [] | Some w \<Rightarrow> [w])"
| "sh_plain cur (c # s) =
     (let w = (case cur of None \<Rightarrow> [] | Some w \<Rightarrow> w) in
      if c = CHR 0x20 then
        map_option (\<lambda>ws. (case cur of None \<Rightarrow> [] | Some w \<Rightarrow> [w]) @ ws) (sh_plain None s)
      else if c = CHR 0x27 then sh_quoted w s
      else if c = CHR 0x5C then
        (case s of [] \<Rightarrow> None | d # r \<Rightarrow> if d = CHR 0x0A then None else sh_plain (Some (w @ [d])) r)
      else if sh_special c then None
      else sh_plain (Some (w @ [c])) s)"
| "sh_quoted w [] = None"
| "sh_quoted w (c # s) = (if c = CHR 0x27 then sh_plain (Some w) s else sh_quoted (w @ [c]) s)"

definition sh_words :: "string \<Rightarrow> string list option" where
  "sh_words s = sh_plain None s"

lemma sh_quoted_escape: "sh_quoted w (escape_quotes v @ CHR 0x27 # r) = sh_plain (Some (w @ v)) r"
  by (induction v arbitrary: w) auto

lemma sh_plain_quote: "sh_plain None (quote v @ r) = sh_plain (Some v) r"
  by (simp add: quote_def sh_quoted_escape)

lemma sh_words_quotes: "ws \<noteq> [] \<Longrightarrow> sh_words (join_with [CHR 0x20] (map quote ws)) = Some ws"
proof (induction ws)
  case (Cons v ws)
  then show ?case
    using sh_plain_quote [of v "[]"] sh_plain_quote [of v]
    by (cases ws) (simp_all add: sh_words_def)
qed simp

section \<open>Lemmas on the exit-status trailer\<close>

lemma last_index_Some:
  "last_index s p = Some i \<longleftrightarrow>
     i \<le> length s \<and> prefix p (drop i s) \<and> (\<forall>j. i < j \<and> j \<le> length s \<longrightarrow> \<not> prefix p (drop j s))"
  and last_index_None: "last_index s p = None \<longleftrightarrow> (\<forall>j \<le> length s. \<not> prefix p (drop j s))"
proof (induction s arbitrary: i)
  case Nil
  { case 1 show ?case by auto next case 2 show ?case by auto }
next
  case (Cons c s)
  { case 1
    show ?case
    proof (cases "last_index s p")
      case None
      then have no: "\<forall>j \<le> length s. \<not> prefix p (drop j s)" using Cons(2) by simp
      then have "(\<forall>j. i < j \<and> j \<le> length (c # s) \<longrightarrow> \<not> prefix p (drop j (c # s)))"
        by (auto simp: drop_Cons split: nat.splits)
      with None no show ?thesis by (cases i) auto
    next
      case (Some k)
      show ?thesis
      proof (cases i)
        case 0
        from Some Cons(1) [of k] have "k \<le> length s" "prefix p (drop k s)" by simp_all
        with 0 Some show ?thesis by (auto intro!: exI [of _ "Suc k"])
      next
        case (Suc j)
        have "(\<forall>m. j < m \<and> m \<le> length s \<longrightarrow> \<not> prefix p (drop m s)) \<longleftrightarrow>
          (\<forall>m. Suc j < m \<and> m \<le> length (c # s) \<longrightarrow> \<not> prefix p (drop m (c # s)))"
          by (auto simp: drop_Cons split: nat.splits)
        with Some Suc Cons(1) [of j] show ?thesis by auto
      qed
    qed
  next
    case 2
    have "(\<forall>j \<le> length (c # s). \<not> prefix p (drop j (c # s))) \<longleftrightarrow>
      \<not> prefix p (c # s) \<and> (\<forall>j \<le> length s. \<not> prefix p (drop j s))"
      by (auto simp: drop_Cons split: nat.splits)
    then show ?case using Cons(2) by (auto split: option.splits)
  }
qed

lemma digits_val_append:
  "digits_val a (s @ t) = (case digits_val a s of None \<Rightarrow> None | Some v \<Rightarrow> digits_val v t)"
  by (induction a s rule: digits_val.induct) auto

lemma char_digit: "(d :: nat) < 10 \<Longrightarrow>
   CHR 0x30 \<le> (char_of (48 + d) :: char) \<and> (char_of (48 + d) :: char) \<le> CHR 0x39 \<and>
   of_char (char_of (48 + d) :: char) = (48 + d :: nat)"
  by (simp add: less_eq_char_def)

lemma digits_val_show: "digits_val 0 (show_nat n) = Some n"
proof (induction n rule: show_nat.induct)
  case (1 n)
  show ?case
  proof (cases "n < 10")
    case True
    with char_digit [of n] show ?thesis by (subst show_nat.simps) simp
  next
    case False
    with 1 char_digit [of "n mod 10"] show ?thesis
      by (subst show_nat.simps) (simp add: digits_val_append)
  qed
qed

lemma show_nat_digits: "c \<in> set (show_nat n) \<Longrightarrow> CHR 0x30 \<le> c \<and> c \<le> CHR 0x39"
proof (induction n rule: show_nat.induct)
  case (1 n)
  then show ?case using char_digit [of n] char_digit [of "n mod 10"]
    by (subst (asm) (2) show_nat.simps) (auto split: if_splits)
qed

lemma show_nat_nonempty: "show_nat n \<noteq> []"
  by (subst show_nat.simps) simp

lemma atoi_show: "n < 2 ^ 63 \<Longrightarrow> atoi (show_nat n) = Some (int n)"
proof -
  assume n: "n < 2 ^ 63"
  obtain c r where cr: "show_nat n = c # r" using show_nat_nonempty by (cases "show_nat n") auto
  with show_nat_digits [of c n] have "c \<noteq> CHR 0x2D" "c \<noteq> CHR 0x2B" by (auto simp: less_eq_char_def)
  moreover have "digits_val 0 (c # r) = Some n" using digits_val_show [of n] cr by simp
  ultimately show ?thesis using n by (simp add: cr atoi_def)
qed

lemma trim_show: "trim_space (show_nat n @ [CHR 0x0A]) = show_nat n"
proof -
  have "c \<in> set (show_nat n) \<Longrightarrow> plain_char c" for c
    using show_nat_digits [of c n] by (auto simp: plain_char_def less_eq_char_def)
  then show ?thesis using trim_space_newline [of "show_nat n" 1] show_nat_nonempty [of n] by simp
qed

lemma marker_no_newline: "CHR 0x0A \<notin> set (''SCRCPYCAT_EXIT_'' @ hex_string nonce @ '':'')"
proof -
  have hex: "''0123456789abcdef'' ! i \<noteq> CHR 0x0A" if "i < 16" for i
  proof -
    have "''0123456789abcdef'' ! i \<in> set ''0123456789abcdef''" using that by (intro nth_mem) simp
    then show ?thesis by auto
  qed
  have "unat b div 16 < 16" for b :: byte by (simp add: div_less_iff_less_mult)
  with hex have "CHR 0x0A \<notin> set (hex_string nonce)"
    by (induction nonce) (auto simp: hex_string_def dest!: sym [of "CHR 0x0A"])
  then show ?thesis by simp
qed

text \<open>No later occurrence of the marker starts within the trailer: only its first byte is a newline.\<close>

lemma last_index_trailer:
  assumes "CHR 0x0A \<notin> set m" "CHR 0x0A \<notin> set t" "m \<noteq> []"
  shows "last_index (a @ (CHR 0x0A # m) @ t @ [CHR 0x0A]) (CHR 0x0A # m) = Some (length a)"
proof -
  let ?s = "a @ (CHR 0x0A # m) @ t @ [CHR 0x0A]"
  have "\<not> prefix (CHR 0x0A # m) (drop j ?s)" if "length a < j" "j \<le> length ?s" for j
  proof
    assume p: "prefix (CHR 0x0A # m) (drop j ?s)"
    obtain k where k: "j = length a + Suc k" using \<open>length a < j\<close> by (auto dest: less_imp_Suc_add)
    then have d: "drop j ?s = drop k (m @ t @ [CHR 0x0A])" by simp
    with p have len: "Suc (length m) + k \<le> length (m @ t @ [CHR 0x0A])"
      by (auto dest: prefix_length_le)
    then have "k < length (m @ t)" using \<open>m \<noteq> []\<close> by (cases m) auto
    moreover from p d have "drop k (m @ t @ [CHR 0x0A]) ! 0 = CHR 0x0A"
      by (auto simp: prefix_def)
    ultimately have "CHR 0x0A \<in> set (m @ t)"
      by (metis add.right_neutral append_assoc length_append less_or_eq_imp_le nth_append nth_drop nth_mem
          length_drop trans_less_add1)
    with assms show False by simp
  qed
  then show ?thesis by (simp add: last_index_Some)
qed

section \<open>Properties\<close>

text \<open>The read loop of a Shell v2 session demultiplexes: from any sequence of stdout and stderr
  packets within the size limit followed by an exit packet, it ends, with the exit status as its
  result, and has written exactly the stdout payloads to stdout and the stderr payloads to stderr,
  each in order.\<close>

theorem session_read_demux:
  assumes "\<forall>p \<in> set ps. length (snd p) \<le> maxShellPacket" "code < 2 ^ 32"
  shows "session_read buf_writer
      (concat (map (\<lambda>p. packet (if fst p then 2 else 1) (snd p)) ps) @ packet 3 (put_le 4 code) @ rest) ([], []) =
    (if code = 0 then None else Some (ExitError code),
     (concat (map snd (filter (\<lambda>p. \<not> fst p) ps)), concat (map snd (filter fst ps))))"
proof -
  have "get_le (put_le 4 code) = code" using assms(2) by simp
  then show ?thesis
    by (simp add: session_read_stream [OF assms(1)] session_read_packet maxShellPacket_def
        del: get_put_le)
qed

theorem session_read_demux_witness:
  "session_read buf_writer
      (concat (map (\<lambda>p. packet (if fst p then 2 else 1) (snd p)) [(False, [7]), (True, [9]), (False, [8])])
        @ packet 3 (put_le 4 1) @ [5]) ([], []) =
    (if (1 :: nat) = 0 then None else Some (ExitError 1),
     (concat (map snd (filter (\<lambda>p. \<not> fst p) [(False, [7]), (True, [9]), (False, [8])])),
      concat (map snd (filter fst [(False, [7 :: byte]), (True, [9]), (False, [8])]))))"
  by (rule session_read_demux) (simp_all add: maxShellPacket_def)

text \<open>A chunked write: what \<open>Write\<close> reports as written is the data of stdin packets that are
  completely on the connection, none empty and none over 64 KiB, in order; it reports success
  exactly when that is all of the data, and then nothing else was sent.\<close>

theorem session_Write_chunks:
  assumes "session_Write data s = ((n, ok), s')"
  shows "\<exists>cs. concat cs = take n data \<and> n \<le> length data \<and>
    (\<forall>c \<in> set cs. c \<noteq> [] \<and> length c \<le> maxChunk) \<and>
    prefix (sent s @ concat (map (packet 0) cs)) (sent s') \<and>
    (ok \<longleftrightarrow> n = length data) \<and> (ok \<longrightarrow> sent s' = sent s @ concat (map (packet 0) cs))"
proof -
  obtain cs where cs: "n = length (concat cs)" "prefix (concat cs) data"
    "\<forall>c \<in> set cs. c \<noteq> [] \<and> length c \<le> maxChunk"
    "prefix (sent s @ concat (map (packet 0) cs)) (sent s')"
    "if ok then concat cs = data \<and> sent s' = sent s @ concat (map (packet 0) cs) else concat cs \<noteq> data"
    using session_write_chunks [of 0 data s n ok s'] assms by (auto simp: session_Write_def)
  from cs(1,2) have "concat cs = take n data" "n \<le> length data"
    by (auto simp: prefix_def)
  moreover from this have "concat cs = data \<longleftrightarrow> n = length data" by auto
  ultimately show ?thesis using cs by (intro exI [of _ cs]) (auto split: if_splits)
qed

theorem session_Write_chunks_witness:
  "\<exists>cs. concat cs = take 2 [1, 2 :: byte] \<and> 2 \<le> length [1, 2 :: byte] \<and>
    (\<forall>c \<in> set cs. c \<noteq> [] \<and> length c \<le> maxChunk) \<and>
    prefix ([] @ concat (map (packet 0) cs)) (packet 0 [1, 2]) \<and>
    (True \<longleftrightarrow> 2 = length [1, 2 :: byte]) \<and> (True \<longrightarrow> packet 0 [1, 2] = [] @ concat (map (packet 0) cs))"
proof -
  have "session_Write [1, 2] \<lparr>sent = [], room = 100, ctxErr = False\<rparr> =
    ((2, True), \<lparr>sent = packet 0 [1, 2], room = 93, ctxErr = False\<rparr>)"
    by (simp add: session_Write_def session_write.simps send_def conn_write_def packet_def maxChunk_def)
  from session_Write_chunks [OF this] show ?thesis by simp
qed

text \<open>No injection through command arguments: the command line that \<open>Command\<close> builds is split by
  the shell into exactly the given words, whatever bytes they contain (NUL is refused).\<close>

theorem command_words:
  "(case command name args of
      None \<Rightarrow> (\<exists>w \<in> set (name # args). CHR 0x00 \<in> set w)
    | Some line \<Rightarrow> sh_words line = Some (name # args) \<and> list_all (\<lambda>w. CHR 0x00 \<notin> set w) (name # args))"
  using sh_words_quotes [of "name # args"]
  by (auto simp: command_def Let_def list_ex_iff list_all_iff simp del: list.map)

text \<open>The exit status of a legacy shell is read from the trailer even when the command's own output
  contains the marker: output and status come back exactly.\<close>

theorem run_legacy_trailer:
  assumes "status \<le> 255"
    and "length (out @ legacy_marker nonce @ show_nat status @ [CHR 0x0A]) \<le> 8388608"
  shows "run_legacy (legacy_marker nonce) (Some True)
      (out @ legacy_marker nonce @ show_nat status @ [CHR 0x0A]) =
    (Some out, if status = 0 then None else Some (LegacyExit (int status)))"
proof -
  have "CHR 0x0A \<notin> set (show_nat status)" using show_nat_digits by (fastforce simp: less_eq_char_def)
  then have "last_index (out @ legacy_marker nonce @ show_nat status @ [CHR 0x0A]) (legacy_marker nonce) =
    Some (length out)"
    using last_index_trailer [OF marker_no_newline, of "show_nat status" nonce out]
    by (simp add: legacy_marker_def)
  then show ?thesis
    using assms atoi_show [of status] by (simp add: run_legacy_def Let_def trim_show)
qed

theorem run_legacy_trailer_witness:
  "run_legacy (legacy_marker [1]) (Some True)
      (''hi'' @ legacy_marker [1] @ show_nat 3 @ [CHR 0x0A]) =
    (Some ''hi'', if (3 :: nat) = 0 then None else Some (LegacyExit (int 3)))"
  by (rule run_legacy_trailer) (simp_all add: legacy_marker_def hex_string_def show_nat.simps)

end
