(* ===== verification/Model.thy ===== *)
theory Model
  imports Wire
begin

text \<open>
  \<open>model.go\<close>: the entities of the control plane as records, one field per field of the struct, in
  the source's order. A \<open>*time.Time\<close> is a \<open>time option\<close>, a byte slice such as a password hash is a
  string whose empty value is nil, and \<open>map[string]any\<close> is \<open>obj\<close>. \<open>env\<close> collects what an operation
  takes from outside the program: the clock, the random bytes it draws (one clock reading and a
  numbered sequence of draws per operation), SHA-256 and the password hash functions.
\<close>

type_synonym Role = string

definition RoleAdmin :: Role where "RoleAdmin = ''admin''"

definition RoleUser :: Role where "RoleUser = ''user''"

record OperationPermissions =
  Shell :: bool
  FileLibrary :: bool
  BatchTasks :: bool

record User =
  u_ID :: string
  Username :: string
  u_PasswordHash :: string
  TokenVersion :: "64 word"
  u_Role :: Role
  AssignedDevices :: "string list"
  Note :: string
  u_ExpiresAt :: "time option"
  u_ForbidBitrate :: bool
  u_ForbidFPS :: bool
  u_ForbidResolution :: bool
  u_ForbidAudio :: bool
  Settings :: obj
  Permissions :: OperationPermissions
  u_CreatedAt :: time

definition no_permissions :: OperationPermissions where
  "no_permissions = \<lparr>Shell = False, FileLibrary = False, BatchTasks = False\<rparr>"

definition no_user :: User where
  "no_user = \<lparr>u_ID = '''', Username = '''', u_PasswordHash = '''', TokenVersion = 0, u_Role = '''',
     AssignedDevices = [], Note = '''', u_ExpiresAt = None, u_ForbidBitrate = False,
     u_ForbidFPS = False, u_ForbidResolution = False, u_ForbidAudio = False, Settings = [],
     Permissions = no_permissions, u_CreatedAt = 0\<rparr>"

definition Can :: "User \<Rightarrow> string \<Rightarrow> bool" where
  "Can u operation \<longleftrightarrow>
     (if u_Role u = RoleAdmin then True
      else if operation = ''shell'' then Shell (Permissions u)
      else if operation = ''file_library'' then FileLibrary (Permissions u)
      else if operation = ''batch_tasks'' then BatchTasks (Permissions u)
      else False)"

record Display =
  disp_ID :: int
  disp_XRes :: int
  disp_YRes :: int

record Camera =
  cam_ID :: string
  Facing :: string
  cam_XRes :: int
  cam_YRes :: int
  ZoomMin :: rat
  ZoomMax :: rat

record DeviceInfo =
  Model :: string
  ABI :: string
  SDK :: string
  AndroidVersion :: string
  Displays :: "Display list"
  Cameras :: "Camera list"
  Capabilities :: "bool gomap"
  AgentVersion :: string
  ConnectionMode :: string

definition no_info :: DeviceInfo where
  "no_info = \<lparr>Model = '''', ABI = '''', SDK = '''', AndroidVersion = '''', Displays = [], Cameras = [],
     Capabilities = [], AgentVersion = '''', ConnectionMode = ''''\<rparr>"

record Device =
  d_ID :: string
  Info :: DeviceInfo
  Online :: bool
  FirstSeen :: time
  LastSeen :: time
  ClientCount :: int
  Clients :: "obj list"
  SnapshotURL :: string
  Metrics :: obj

definition no_device :: Device where
  "no_device = \<lparr>d_ID = '''', Info = no_info, Online = False, FirstSeen = 0, LastSeen = 0,
     ClientCount = 0, Clients = [], SnapshotURL = '''', Metrics = []\<rparr>"

record Tag =
  t_ID :: string
  t_Name :: string
  Color :: string
  Icon :: string

record Share =
  sh_Token :: string
  CardCode :: string
  sh_DeviceID :: string
  ViewOnly :: bool
  sh_PasswordHash :: string
  Description :: string
  sh_ExpiresAt :: "time option"
  sh_CreatedBy :: string
  sh_CreatedAt :: time
  sh_ForbidBitrate :: bool
  sh_ForbidFPS :: bool
  sh_ForbidResolution :: bool
  sh_ForbidAudio :: bool
  GuestSettings :: obj

record Enrollment =
  e_Token :: string
  e_ExpiresAt :: time
  e_DeviceID :: string
  DeploymentCredentialID :: string

record DeploymentCredential =
  dc_ID :: string
  dc_Name :: string
  Scope :: string
  dc_CreatedBy :: string
  dc_CreatedAt :: time
  dc_ExpiresAt :: "time option"
  RevokedAt :: "time option"
  LastUsedAt :: "time option"

record storedDeploymentCredential = DeploymentCredential +
  TokenHash :: string

record AgentCredential =
  ac_Token :: string
  ac_DeviceID :: string

record Shortcut =
  sc_Name :: string
  Cmd :: string

record Asset =
  a_ID :: string
  a_Name :: string
  Path :: string
  SHA256 :: string
  Size :: int
  a_CreatedBy :: string
  a_CreatedAt :: time

type_synonym TaskStatus = string

definition TaskQueued :: TaskStatus where "TaskQueued = ''queued''"
definition TaskLeased :: TaskStatus where "TaskLeased = ''leased''"
definition TaskRunning :: TaskStatus where "TaskRunning = ''running''"
definition TaskSuccess :: TaskStatus where "TaskSuccess = ''success''"
definition TaskFailed :: TaskStatus where "TaskFailed = ''failed''"
definition TaskUnknown :: TaskStatus where "TaskUnknown = ''unknown''"
definition TaskExpired :: TaskStatus where "TaskExpired = ''expired''"

lemmas task_status_defs = TaskQueued_def TaskLeased_def TaskRunning_def TaskSuccess_def
  TaskFailed_def TaskUnknown_def TaskExpired_def

record TaskDevice =
  td_DeviceID :: string
  Status :: TaskStatus
  Result :: string
  UpdatedAt :: time

record Task =
  tk_ID :: string
  Type :: string
  Payload :: string
  AssetID :: string
  DestPath :: string
  tk_CreatedBy :: string
  tk_CreatedAt :: time
  tk_ExpiresAt :: time
  Devices :: "TaskDevice gomap"

record AuditEvent =
  ae_ID :: string
  Actor :: string
  Action :: string
  Target :: string
  Metadata :: obj
  ae_CreatedAt :: time

definition audit_event :: "string \<Rightarrow> string \<Rightarrow> string \<Rightarrow> obj \<Rightarrow> AuditEvent" where
  "audit_event actor act target metadata =
     \<lparr>ae_ID = '''', Actor = actor, Action = act, Target = target, Metadata = metadata, ae_CreatedAt = 0\<rparr>"

section \<open>What comes from outside\<close>

record env =
  now :: time
  rand :: "nat \<Rightarrow> byte list"
  sha256 :: "string \<Rightarrow> byte list"
  gen_hash :: "string \<Rightarrow> string option"
  cmp_hash :: "string \<Rightarrow> string \<Rightarrow> bool"

text \<open>\<open>base64.RawURLEncoding\<close>.\<close>

definition b64_char :: "nat \<Rightarrow> char" where
  "b64_char n = ''ABCDEFGHIJKLMNOPQRSTUVWXYZabcdefghijklmnopqrstuvwxyz0123456789-_'' ! (n mod 64)"

fun b64url :: "byte list \<Rightarrow> string" where
  "b64url [] = []"
| "b64url [a] = [b64_char (unat a div 4), b64_char (unat a mod 4 * 16)]"
| "b64url [a, b] =
     [b64_char (unat a div 4), b64_char (unat a mod 4 * 16 + unat b div 16),
      b64_char (unat b mod 16 * 4)]"
| "b64url (a # b # c # r) =
     [b64_char (unat a div 4), b64_char (unat a mod 4 * 16 + unat b div 16),
      b64_char (unat b mod 16 * 4 + unat c div 64), b64_char (unat c mod 64)] @ b64url r"

text \<open>
  \<open>randomToken\<close> is the \<open>k\<close>-th draw of the operation (\<open>rand.Read\<close> into 24 bytes, which never fails
  here: the source panics if it does); \<open>randomID\<close> is its first 16 characters.
\<close>

definition randomToken :: "env \<Rightarrow> nat \<Rightarrow> string" where
  "randomToken E k = b64url (take 24 (rand E k @ replicate 24 0))"

definition randomID :: "env \<Rightarrow> nat \<Rightarrow> string" where
  "randomID E k = take 16 (randomToken E k)"

definition tokenDigest :: "env \<Rightarrow> string \<Rightarrow> string" where
  "tokenDigest E token = b64url (sha256 E token)"

lemma b64_char_alphabet: "b64_char n \<in> set ''ABCDEFGHIJKLMNOPQRSTUVWXYZabcdefghijklmnopqrstuvwxyz0123456789-_''"
proof -
  have "n mod 64 < length ''ABCDEFGHIJKLMNOPQRSTUVWXYZabcdefghijklmnopqrstuvwxyz0123456789-_''" by simp
  then show ?thesis unfolding b64_char_def by (rule nth_mem)
qed

lemma b64_char_no_dot: "b64_char n \<noteq> CHR ''.''"
proof
  assume "b64_char n = CHR ''.''"
  with b64_char_alphabet [of n]
  have "CHR ''.'' \<in> set ''ABCDEFGHIJKLMNOPQRSTUVWXYZabcdefghijklmnopqrstuvwxyz0123456789-_''" by (simp only:)
  then show False by simp
qed

lemma b64url_no_dot: "CHR ''.'' \<notin> set (b64url bs)"
  by (induction bs rule: b64url.induct) (simp_all add: b64_char_no_dot [THEN not_sym])

lemma b64url_length: "length (b64url bs) = (4 * length bs + 2) div 3"
  by (induction bs rule: b64url.induct) auto

lemma length_randomToken [simp]: "length (randomToken E k) = 32"
  by (simp add: randomToken_def b64url_length)

lemma length_randomID [simp]: "length (randomID E k) = 16"
  by (simp add: randomID_def)

lemma randomID_no_dot: "CHR ''.'' \<notin> set (randomID E k)"
  using b64url_no_dot by (auto simp: randomID_def randomToken_def dest: in_set_takeD)

lemma randomToken_no_dot: "CHR ''.'' \<notin> set (randomToken E k)"
  by (simp add: randomToken_def b64url_no_dot)

lemma randomID_nonempty [simp]: "randomID E k \<noteq> []"
  using length_randomID [of E k] by (metis list.size(3) zero_neq_numeral)

end
