(* ===== verification/Utf8.thy ===== *)
theory Utf8
  imports Prelude
begin

text \<open>
  The parts of \<open>unicode/utf8\<close> that the sources use: decoding the first rune of a byte string,
  \<open>RuneCountInString\<close> and \<open>Valid\<close>. \<open>rune_step s\<close> is the width of the first rune of a non-empty
  \<open>s\<close> and whether it is a valid encoding; an invalid byte counts as a rune of width 1.
\<close>

definition in_range :: "nat \<Rightarrow> nat \<Rightarrow> string \<Rightarrow> nat \<Rightarrow> bool" where
  "in_range lo hi s i \<longleftrightarrow> i < length s \<and> lo \<le> of_char (s ! i) \<and> of_char (s ! i) \<le> hi"

definition rune_step :: "string \<Rightarrow> nat \<times> bool" where
  "rune_step s =
     (let b = (of_char (hd s) :: nat); cont = in_range 0x80 0xBF s in
      if b < 0x80 then (1, True)
      else if 0xC2 \<le> b \<and> b \<le> 0xDF then (if cont 1 then (2, True) else (1, False))
      else if 0xE0 \<le> b \<and> b \<le> 0xEF then
        (if in_range (if b = 0xE0 then 0xA0 else 0x80) (if b = 0xED then 0x9F else 0xBF) s 1 \<and> cont 2
         then (3, True) else (1, False))
      else if 0xF0 \<le> b \<and> b \<le> 0xF4 then
        (if in_range (if b = 0xF0 then 0x90 else 0x80) (if b = 0xF4 then 0x8F else 0xBF) s 1 \<and> cont 2 \<and> cont 3
         then (4, True) else (1, False))
      else (1, False))"

lemma rune_step_pos: "0 < fst (rune_step s)"
  by (simp add: rune_step_def Let_def)

function rune_count :: "string \<Rightarrow> nat" where
  "rune_count s = (if s = [] then 0 else Suc (rune_count (drop (fst (rune_step s)) s)))"
  by pat_completeness auto
termination
  by (relation "measure length") (simp_all add: rune_step_pos)

function utf8_valid :: "string \<Rightarrow> bool" where
  "utf8_valid s = (if s = [] then True else snd (rune_step s) \<and> utf8_valid (drop (fst (rune_step s)) s))"
  by pat_completeness auto
termination
  by (relation "measure length") (simp_all add: rune_step_pos)

declare rune_count.simps [simp del] utf8_valid.simps [simp del]

lemma utf8_valid_Nil [simp]: "utf8_valid []"
  by (subst utf8_valid.simps) simp

lemma rune_count_Nil [simp]: "rune_count [] = 0"
  by (subst rune_count.simps) simp

lemma rune_count_le: "rune_count s \<le> length s"
proof (induction s rule: rune_count.induct)
  case (1 s)
  show ?case
  proof (cases "s = []")
    case False
    with 1 have "rune_count (drop (fst (rune_step s)) s) \<le> length (drop (fst (rune_step s)) s)" by simp
    with False rune_step_pos [of s] show ?thesis by (subst rune_count.simps) (cases s; simp)
  qed simp
qed

lemma utf8_valid_ascii: "list_all (\<lambda>c. of_char c < (128 :: nat)) s \<Longrightarrow> utf8_valid s"
proof (induction s)
  case (Cons c s)
  then show ?case by (subst utf8_valid.simps) (simp add: rune_step_def Let_def)
qed simp

end
