(* ===== verification/Store.thy ===== *)
theory Store
  imports Model Utf8
begin

text \<open>
  \<open>store.go\<close>, \<open>deployment_credentials_store.go\<close>, \<open>user_sessions.go\<close> and the store half of
  \<open>device_settings.go\<close>: the in-memory store. Its state is the record \<open>store\<close>, one field per field of
  \<open>MemoryStore\<close>; every method is a function that takes the state and returns its result with the
  state after it (readers return the result only). Each method runs under the store's lock, so it
  is one atomic step.
\<close>

record store =
  users :: "User gomap"
  usersByName :: "string gomap"
  devices :: "Device gomap"
  tags :: "Tag gomap"
  deviceTags :: "unit gomap gomap"
  shares :: "Share gomap"
  deploymentCredentials :: "storedDeploymentCredential gomap"
  enrollments :: "Enrollment gomap"
  agentCredentials :: "AgentCredential gomap"
  defaultSettings :: obj
  deviceSettings :: "obj gomap"
  shortcuts :: "Shortcut list gomap"
  assets :: "Asset gomap"
  assetsByName :: "string gomap"
  tasks :: "Task gomap"
  audits :: "AuditEvent list"
  healthErr :: bool
  revokedUserTokens :: "time gomap"

section \<open>Helpers\<close>

definition sanitizeUser :: "User \<Rightarrow> User" where
  "sanitizeUser u = u\<lparr>u_PasswordHash := ''''\<rparr>"

text \<open>\<open>cloneMap\<close> and \<open>cloneTask\<close> copy so that later updates are not shared; values here are never shared.\<close>

definition cloneMap :: "obj \<Rightarrow> obj" where
  "cloneMap source = mover [] source"

definition cloneTask :: "Task \<Rightarrow> Task" where
  "cloneTask task = task\<lparr>Devices := mover [] (Devices task)\<rparr>"

definition after_opt :: "time \<Rightarrow> time option \<Rightarrow> bool" where
  "after_opt t limit \<longleftrightarrow> (case limit of None \<Rightarrow> False | Some l \<Rightarrow> l < t)"

definition assigned_to :: "User \<Rightarrow> string \<Rightarrow> bool" where
  "assigned_to user deviceID \<longleftrightarrow> list_ex (\<lambda>id. id = ''*'' \<or> id = deviceID) (AssignedDevices user)"

definition CanAccessDevice :: "User \<Rightarrow> string \<Rightarrow> bool" where
  "CanAccessDevice user deviceID \<longleftrightarrow>
     (if u_Role user = RoleAdmin then True else assigned_to user deviceID)"

definition canAccessLocked :: "User \<Rightarrow> string \<Rightarrow> bool" where
  "canAccessLocked user deviceID \<longleftrightarrow>
     (if u_Role user = RoleAdmin then True else assigned_to user deviceID)"

definition auditLocked :: "env \<Rightarrow> nat \<Rightarrow> AuditEvent \<Rightarrow> store \<Rightarrow> store" where
  "auditLocked E k event s =
     (let event = (if ae_ID event = '''' then event\<lparr>ae_ID := randomID E k\<rparr> else event);
          event = (if is_zero (ae_CreatedAt event) then event\<lparr>ae_CreatedAt := now E\<rparr> else event)
      in s\<lparr>audits := audits s @ [event]\<rparr>)"

section \<open>Users\<close>

definition CreateUser :: "env \<Rightarrow> string \<Rightarrow> string \<Rightarrow> Role \<Rightarrow> string list \<Rightarrow> store \<Rightarrow> User result \<times> store" where
  "CreateUser E username password role assigned s =
     (let username = trim_space username in
      if username = '''' \<or> password = '''' then (Inl ErrInvalidAuth, s)
      else if map_of (usersByName s) username \<noteq> None then (Inl ErrAlreadyExists, s)
      else
        (case gen_hash E password of
           None \<Rightarrow> (Inl ErrHash, s)
         | Some hash \<Rightarrow>
             (let user = no_user\<lparr>u_ID := randomID E 0, Username := username, u_PasswordHash := hash,
                           u_Role := role, AssignedDevices := assigned, u_CreatedAt := now E\<rparr> in
              (Inr (sanitizeUser user),
               s\<lparr>users := mput (u_ID user) user (users s),
                  usersByName := mput (Username user) (u_ID user) (usersByName s)\<rparr>))))"

definition Authenticate :: "env \<Rightarrow> string \<Rightarrow> string \<Rightarrow> store \<Rightarrow> User result" where
  "Authenticate E username password s =
     (let id = (case map_of (usersByName s) username of None \<Rightarrow> '''' | Some i \<Rightarrow> i) in
      case map_of (users s) id of
        None \<Rightarrow> Inl ErrInvalidAuth
      | Some user \<Rightarrow>
          (if after_opt (now E) (u_ExpiresAt user) \<or> \<not> cmp_hash E (u_PasswordHash user) password
           then Inl ErrInvalidAuth
           else Inr (sanitizeUser user)))"

definition User_get :: "string \<Rightarrow> store \<Rightarrow> User result" where
  "User_get uid s =
     (case map_of (users s) uid of None \<Rightarrow> Inl ErrNotFound | Some user \<Rightarrow> Inr (sanitizeUser user))"

definition Users :: "store \<Rightarrow> User list" where
  "Users s = sort_key Username (map (\<lambda>kv. sanitizeUser (snd kv)) (users s))"

definition admin_count :: "store \<Rightarrow> nat" where
  "admin_count s = length (filter (\<lambda>kv. u_Role (snd kv) = RoleAdmin) (users s))"

definition DeleteUser :: "string \<Rightarrow> store \<Rightarrow> unit result \<times> store" where
  "DeleteUser username s =
     (case map_of (usersByName s) username of
        None \<Rightarrow> (Inl ErrNotFound, s)
      | Some uid \<Rightarrow>
          (if (case map_of (users s) uid of None \<Rightarrow> False | Some u \<Rightarrow> u_Role u = RoleAdmin) \<and> admin_count s \<le> 1
           then (Inl ErrForbidden, s)
           else (Inr (), s\<lparr>users := mdel uid (users s), usersByName := mdel username (usersByName s)\<rparr>)))"

definition UpdateUser :: "string \<Rightarrow> (User \<Rightarrow> User result) \<Rightarrow> store \<Rightarrow> User result \<times> store" where
  "UpdateUser username update s =
     (case map_of (usersByName s) username of
        None \<Rightarrow> (Inl ErrNotFound, s)
      | Some uid \<Rightarrow>
          (case update (case map_of (users s) uid of None \<Rightarrow> no_user | Some u \<Rightarrow> u) of
             Inl e \<Rightarrow> (Inl e, s)
           | Inr user \<Rightarrow> (Inr (sanitizeUser user), s\<lparr>users := mput uid user (users s)\<rparr>)))"

definition RenameUser :: "string \<Rightarrow> string \<Rightarrow> store \<Rightarrow> User result \<times> store" where
  "RenameUser oldUsername newUsername s =
     (let newUsername = trim_space newUsername in
      if newUsername = '''' then (Inl ErrInvalidAuth, s)
      else
        (case map_of (usersByName s) oldUsername of
           None \<Rightarrow> (Inl ErrNotFound, s)
         | Some uid \<Rightarrow>
             (if (case map_of (usersByName s) newUsername of None \<Rightarrow> False | Some existing \<Rightarrow> existing \<noteq> uid)
              then (Inl ErrAlreadyExists, s)
              else
                (let user = (case map_of (users s) uid of None \<Rightarrow> no_user | Some u \<Rightarrow> u)\<lparr>Username := newUsername\<rparr> in
                 (Inr (sanitizeUser user),
                  s\<lparr>usersByName := mput newUsername uid (mdel oldUsername (usersByName s)),
                     users := mput uid user (users s)\<rparr>)))))"

definition ResetPassword :: "env \<Rightarrow> string \<Rightarrow> string \<Rightarrow> store \<Rightarrow> unit result \<times> store" where
  "ResetPassword E username password s =
     (if password = '''' then (Inl ErrInvalidAuth, s)
      else
        (case gen_hash E password of
           None \<Rightarrow> (Inl ErrHash, s)
         | Some hash \<Rightarrow>
             (case UpdateUser username
                     (\<lambda>u. Inr (u\<lparr>u_PasswordHash := hash, TokenVersion := TokenVersion u + 1\<rparr>)) s of
                (Inl e, s') \<Rightarrow> (Inl e, s')
              | (Inr _, s') \<Rightarrow> (Inr (), s'))))"

definition RevokeUserToken :: "string \<Rightarrow> time \<Rightarrow> store \<Rightarrow> unit result \<times> store" where
  "RevokeUserToken digest expires s =
     (Inr (), s\<lparr>revokedUserTokens := mput digest expires (revokedUserTokens s)\<rparr>)"

definition UserTokenRevoked :: "env \<Rightarrow> string \<Rightarrow> store \<Rightarrow> bool" where
  "UserTokenRevoked E digest s \<longleftrightarrow>
     (case map_of (revokedUserTokens s) digest of None \<Rightarrow> False | Some expires \<Rightarrow> now E < expires)"

section \<open>Devices and their settings\<close>

definition UpsertAgentDevice :: "env \<Rightarrow> string \<Rightarrow> DeviceInfo \<Rightarrow> store \<Rightarrow> Device \<times> store" where
  "UpsertAgentDevice E deviceID info s =
     (let device = (case map_of (devices s) deviceID of
                      None \<Rightarrow> no_device\<lparr>d_ID := deviceID, FirstSeen := now E\<rparr>
                    | Some d \<Rightarrow> d);
          device = device\<lparr>Info := info, Online := True, LastSeen := now E\<rparr>
      in (device, s\<lparr>devices := mput deviceID device (devices s)\<rparr>))"

definition MarkOffline :: "env \<Rightarrow> string \<Rightarrow> store \<Rightarrow> store" where
  "MarkOffline E deviceID s =
     (case map_of (devices s) deviceID of
        None \<Rightarrow> s
      | Some d \<Rightarrow> s\<lparr>devices := mput deviceID (d\<lparr>Online := False, ClientCount := 0, LastSeen := now E\<rparr>) (devices s)\<rparr>)"

definition TouchDevice :: "env \<Rightarrow> string \<Rightarrow> store \<Rightarrow> store" where
  "TouchDevice E deviceID s =
     (case map_of (devices s) deviceID of
        None \<Rightarrow> s
      | Some d \<Rightarrow> s\<lparr>devices := mput deviceID (d\<lparr>LastSeen := now E, Online := True\<rparr>) (devices s)\<rparr>)"

definition DevicesFor :: "User \<Rightarrow> store \<Rightarrow> Device list" where
  "DevicesFor user s = sort_key d_ID (filter (\<lambda>d. canAccessLocked user (d_ID d)) (map snd (devices s)))"

definition Device_get :: "string \<Rightarrow> store \<Rightarrow> Device result" where
  "Device_get deviceID s = (case map_of (devices s) deviceID of None \<Rightarrow> Inl ErrNotFound | Some d \<Rightarrow> Inr d)"

definition DeleteOfflineDevice :: "string \<Rightarrow> store \<Rightarrow> unit result \<times> store" where
  "DeleteOfflineDevice deviceID s =
     (case map_of (devices s) deviceID of
        None \<Rightarrow> (Inl ErrNotFound, s)
      | Some d \<Rightarrow>
          (if Online d then (Inl ErrForbidden, s)
           else (Inr (), s\<lparr>devices := mdel deviceID (devices s), deviceTags := mdel deviceID (deviceTags s),
                            deviceSettings := mdel deviceID (deviceSettings s)\<rparr>)))"

definition DefaultSettings :: "store \<Rightarrow> obj" where
  "DefaultSettings s = cloneMap (defaultSettings s)"

definition SetDefaultSettings :: "obj \<Rightarrow> store \<Rightarrow> store" where
  "SetDefaultSettings settings s = s\<lparr>defaultSettings := cloneMap settings\<rparr>"

definition DeviceSettings :: "string \<Rightarrow> store \<Rightarrow> obj" where
  "DeviceSettings deviceID s = cloneMap (case map_of (deviceSettings s) deviceID of None \<Rightarrow> [] | Some m \<Rightarrow> m)"

definition SetDeviceSettings :: "string \<Rightarrow> obj \<Rightarrow> store \<Rightarrow> unit result \<times> store" where
  "SetDeviceSettings deviceID settings s =
     (if map_of (devices s) deviceID = None then (Inl ErrNotFound, s)
      else if settings = [] then (Inr (), s\<lparr>deviceSettings := mdel deviceID (deviceSettings s)\<rparr>)
      else (Inr (), s\<lparr>deviceSettings := mput deviceID (cloneMap settings) (deviceSettings s)\<rparr>))"

section \<open>Shares\<close>

definition CreateShare ::
  "env \<Rightarrow> string \<Rightarrow> string \<Rightarrow> string \<Rightarrow> string \<Rightarrow> bool \<Rightarrow> time option \<Rightarrow> store \<Rightarrow> Share result \<times> store" where
  "CreateShare E deviceID createdBy password description viewOnly expiresAt s =
     (let share = \<lparr>sh_Token = randomToken E 0, CardCode = take 10 (randomToken E 1), sh_DeviceID = deviceID,
                    ViewOnly = viewOnly, sh_PasswordHash = '''', Description = description,
                    sh_ExpiresAt = expiresAt, sh_CreatedBy = createdBy, sh_CreatedAt = now E,
                    sh_ForbidBitrate = False, sh_ForbidFPS = False, sh_ForbidResolution = False,
                    sh_ForbidAudio = False, GuestSettings = []\<rparr> in
      case (if password \<noteq> '''' then gen_hash E password else Some '''') of
        None \<Rightarrow> (Inl ErrHash, s)
      | Some hash \<Rightarrow>
          (let share = share\<lparr>sh_PasswordHash := hash\<rparr> in
           (Inr share, s\<lparr>shares := mput (sh_Token share) share (shares s)\<rparr>)))"

definition SharesFor :: "env \<Rightarrow> string \<Rightarrow> store \<Rightarrow> Share list \<times> store" where
  "SharesFor E deviceID s =
     (let kept = mfilter (\<lambda>_ share. \<not> after_opt (now E) (sh_ExpiresAt share)) (shares s) in
      (sort_key (\<lambda>share. - sh_CreatedAt share)
         (filter (\<lambda>share. deviceID = '''' \<or> sh_DeviceID share = deviceID) (map snd kept)),
       s\<lparr>shares := kept\<rparr>))"

definition Share_get :: "string \<Rightarrow> store \<Rightarrow> Share result" where
  "Share_get token s = (case map_of (shares s) token of None \<Rightarrow> Inl ErrNotFound | Some share \<Rightarrow> Inr share)"

definition UpdateShare :: "string \<Rightarrow> (Share \<Rightarrow> Share result) \<Rightarrow> store \<Rightarrow> Share result \<times> store" where
  "UpdateShare token update s =
     (case map_of (shares s) token of
        None \<Rightarrow> (Inl ErrNotFound, s)
      | Some share \<Rightarrow>
          (case update share of
             Inl e \<Rightarrow> (Inl e, s)
           | Inr share' \<Rightarrow> (Inr share', s\<lparr>shares := mput token share' (shares s)\<rparr>)))"

definition ShareByCard :: "env \<Rightarrow> string \<Rightarrow> store \<Rightarrow> Share result \<times> store" where
  "ShareByCard E cardCode s =
     (case SharesFor E '''' s of
        (all, s') \<Rightarrow>
          (case find (\<lambda>share. CardCode share = cardCode) all of
             None \<Rightarrow> (Inl ErrNotFound, s')
           | Some share \<Rightarrow> (Inr share, s')))"

definition RevokeShare :: "string \<Rightarrow> store \<Rightarrow> unit result \<times> store" where
  "RevokeShare token s =
     (if map_of (shares s) token = None then (Inl ErrNotFound, s)
      else (Inr (), s\<lparr>shares := mdel token (shares s)\<rparr>))"

definition AuthorizeShare :: "env \<Rightarrow> string \<Rightarrow> string \<Rightarrow> store \<Rightarrow> Share result \<times> store" where
  "AuthorizeShare E token password s =
     (case map_of (shares s) token of
        None \<Rightarrow> (Inl ErrNotFound, s)
      | Some share \<Rightarrow>
          (if after_opt (now E) (sh_ExpiresAt share)
           then (Inl ErrNotFound, s\<lparr>shares := mdel token (shares s)\<rparr>)
           else if 0 < length (sh_PasswordHash share) \<and> \<not> cmp_hash E (sh_PasswordHash share) password
           then (Inl ErrInvalidAuth, s)
           else (Inr share, s)))"

section \<open>Tags\<close>

definition Tags :: "store \<Rightarrow> Tag list \<times> string list gomap" where
  "Tags s =
     (sort_key t_Name (map snd (tags s)),
      mmap (\<lambda>_ set. sort (mkeys set)) (mfilter (\<lambda>_ set. set \<noteq> []) (deviceTags s)))"

definition number_tags :: "env \<Rightarrow> Tag list \<Rightarrow> Tag list" where
  "number_tags E ts =
     map (\<lambda>(k, tag). if t_ID tag = '''' then tag\<lparr>t_ID := randomID E k\<rparr> else tag) (zip [0 ..< length ts] ts)"

definition ReplaceTags :: "env \<Rightarrow> Tag list \<Rightarrow> string list gomap \<Rightarrow> store \<Rightarrow> store" where
  "ReplaceTags E ts assignments s =
     (let tags' = fold (\<lambda>tag m. mput (t_ID tag) tag m) (number_tags E ts) [] in
      s\<lparr>tags := tags',
         deviceTags := mover [] (mmap (\<lambda>_ ids. fold (\<lambda>i set. if map_of tags' i \<noteq> None then mput i () set else set) ids [])
                         assignments)\<rparr>)"

section \<open>Deployment credentials and enrollments\<close>

definition deploymentCredentialScope :: string where
  "deploymentCredentialScope = ''agent:enroll''"

definition maxDeploymentEnrollmentTTL :: duration where
  "maxDeploymentEnrollmentTTL = 15 * Minute"

definition active :: "storedDeploymentCredential \<Rightarrow> time \<Rightarrow> bool" where
  "active c t \<longleftrightarrow> Scope c = deploymentCredentialScope \<and> RevokedAt c = None \<and>
     (case dc_ExpiresAt c of None \<Rightarrow> True | Some x \<Rightarrow> t < x)"

definition DeploymentCredentials :: "store \<Rightarrow> DeploymentCredential list" where
  "DeploymentCredentials s =
     sort_key (\<lambda>c. - dc_CreatedAt c) (map (\<lambda>kv. DeploymentCredential.truncate (snd kv)) (deploymentCredentials s))"

definition CreateDeploymentCredential ::
  "env \<Rightarrow> string \<Rightarrow> string \<Rightarrow> duration \<Rightarrow> store \<Rightarrow> (DeploymentCredential \<times> string) result \<times> store" where
  "CreateDeploymentCredential E name actor ttl s =
     (let name = trim_space name in
      if name = '''' \<or> 80 < rune_count name \<or> ttl < 0 then (Inl ErrInvalidDeploymentRequest, s)
      else
        (let credential =
               \<lparr>dc_ID = randomID E 0, dc_Name = name, Scope = deploymentCredentialScope, dc_CreatedBy = actor,
                dc_CreatedAt = now E, dc_ExpiresAt = (if 0 < ttl then Some (now E + ttl) else None),
                RevokedAt = None, LastUsedAt = None\<rparr>;
             token = ''scd.'' @ dc_ID credential @ ''.'' @ randomToken E 1;
             saved = DeploymentCredential.extend credential
                       (storedDeploymentCredential.fields (tokenDigest E token));
             s = s\<lparr>deploymentCredentials := mput (dc_ID credential) saved (deploymentCredentials s)\<rparr>
         in (Inr (credential, token),
             auditLocked E 2 (audit_event actor ''deployment.credential.create'' (dc_ID credential)
               [(''name'', AStr name), (''scope'', AStr (Scope credential)),
                (''expires_at'', ATime (dc_ExpiresAt credential))]) s)))"

definition RevokeDeploymentCredential ::
  "env \<Rightarrow> string \<Rightarrow> string \<Rightarrow> store \<Rightarrow> DeploymentCredential result \<times> store" where
  "RevokeDeploymentCredential E cid actor s =
     (case map_of (deploymentCredentials s) cid of
        None \<Rightarrow> (Inl ErrNotFound, s)
      | Some saved \<Rightarrow>
          (if RevokedAt saved = None then
             (let saved = saved\<lparr>RevokedAt := Some (now E)\<rparr> in
              (Inr (DeploymentCredential.truncate saved),
               auditLocked E 0 (audit_event actor ''deployment.credential.revoke'' cid [])
                 (s\<lparr>deploymentCredentials := mput cid saved (deploymentCredentials s)\<rparr>)))
           else (Inr (DeploymentCredential.truncate saved), s)))"

definition IssueDeploymentEnrollment ::
  "env \<Rightarrow> string \<Rightarrow> string \<Rightarrow> duration \<Rightarrow> store \<Rightarrow> Enrollment result \<times> store" where
  "IssueDeploymentEnrollment E token deviceID ttl s =
     (if trim_space deviceID = '''' \<or> 128 < length deviceID
         \<or> list_ex (\<lambda>c. c = CHR 0x00 \<or> c = CHR 0x0D \<or> c = CHR 0x0A) deviceID
         \<or> ttl \<le> 0 \<or> maxDeploymentEnrollmentTTL < ttl
      then (Inl ErrInvalidDeploymentRequest, s)
      else
        (let parts = split_on (CHR ''.'') token in
         if length parts \<noteq> 3 \<or> parts ! 0 \<noteq> ''scd'' then (Inl ErrInvalidAuth, s)
         else
           (case map_of (deploymentCredentials s) (parts ! 1) of
              None \<Rightarrow> (Inl ErrInvalidAuth, s)
            | Some saved \<Rightarrow>
                (if \<not> active saved (now E) \<or> TokenHash saved \<noteq> tokenDigest E token
                 then (Inl ErrInvalidAuth, s)
                 else
                   (let expiresAt = (case dc_ExpiresAt saved of
                                       Some x \<Rightarrow> if x < now E + ttl then x else now E + ttl
                                     | None \<Rightarrow> now E + ttl);
                        enrollment = \<lparr>e_Token = randomToken E 0, e_ExpiresAt = expiresAt, e_DeviceID = deviceID,
                                       DeploymentCredentialID = dc_ID saved\<rparr>;
                        persisted = enrollment\<lparr>e_Token := ''''\<rparr>;
                        s = s\<lparr>enrollments := mput (tokenDigest E (e_Token enrollment)) persisted (enrollments s)\<rparr>;
                        saved = saved\<lparr>LastUsedAt := Some (now E)\<rparr>;
                        s = s\<lparr>deploymentCredentials := mput (dc_ID saved) saved (deploymentCredentials s)\<rparr>
                    in (Inr enrollment,
                        auditLocked E 1 (audit_event (''deployment:'' @ dc_ID saved) ''deployment.enrollment.create''
                          deviceID [(''credential_id'', AStr (dc_ID saved)), (''expires_at'', ATime (Some expiresAt))])
                          s))))))"

definition CreateEnrollment :: "env \<Rightarrow> string \<Rightarrow> duration \<Rightarrow> store \<Rightarrow> Enrollment \<times> store" where
  "CreateEnrollment E deviceID ttl s =
     (let enrollment = \<lparr>e_Token = randomToken E 0, e_ExpiresAt = now E + ttl, e_DeviceID = deviceID,
                         DeploymentCredentialID = ''''\<rparr>;
          persisted = enrollment\<lparr>e_Token := ''''\<rparr>
      in (enrollment, s\<lparr>enrollments := mput (tokenDigest E (e_Token enrollment)) persisted (enrollments s)\<rparr>))"

definition ExchangeEnrollment :: "env \<Rightarrow> string \<Rightarrow> string \<Rightarrow> store \<Rightarrow> AgentCredential result \<times> store" where
  "ExchangeEnrollment E token deviceID s =
     (case map_of (enrollments s) (tokenDigest E token) of
        None \<Rightarrow> (Inl ErrInvalidToken, s)
      | Some enrollment \<Rightarrow>
          (if \<not> now E < e_ExpiresAt enrollment \<or> (e_DeviceID enrollment \<noteq> '''' \<and> e_DeviceID enrollment \<noteq> deviceID)
           then (Inl ErrInvalidToken, s)
           else if DeploymentCredentialID enrollment \<noteq> '''' \<and>
             (case map_of (deploymentCredentials s) (DeploymentCredentialID enrollment) of
                None \<Rightarrow> True | Some issuer \<Rightarrow> \<not> active issuer (now E))
           then (Inl ErrInvalidToken, s)
           else
             (let credential = \<lparr>ac_Token = randomToken E 0, ac_DeviceID = deviceID\<rparr>;
                  persisted = credential\<lparr>ac_Token := ''''\<rparr>
              in (Inr credential,
                  s\<lparr>enrollments := mdel (tokenDigest E token) (enrollments s),
                     agentCredentials := mput (tokenDigest E (ac_Token credential)) persisted (agentCredentials s)\<rparr>))))"

definition ValidateAgentToken :: "env \<Rightarrow> string \<Rightarrow> string \<Rightarrow> store \<Rightarrow> bool" where
  "ValidateAgentToken E token deviceID s \<longleftrightarrow>
     (case map_of (agentCredentials s) (tokenDigest E token) of
        None \<Rightarrow> False | Some credential \<Rightarrow> ac_DeviceID credential = deviceID)"

section \<open>Shortcuts and assets\<close>

definition Shortcuts :: "string \<Rightarrow> store \<Rightarrow> Shortcut list" where
  "Shortcuts userID s = (case map_of (shortcuts s) userID of None \<Rightarrow> [] | Some xs \<Rightarrow> xs)"

definition ReplaceShortcuts :: "string \<Rightarrow> Shortcut list \<Rightarrow> store \<Rightarrow> store" where
  "ReplaceShortcuts userID xs s =
     (let clean = filter (\<lambda>x. sc_Name x \<noteq> '''' \<and> Cmd x \<noteq> '''')
                    (map (\<lambda>x. x\<lparr>sc_Name := trim_space (sc_Name x), Cmd := trim_space (Cmd x)\<rparr>) xs) in
      s\<lparr>shortcuts := mput userID clean (shortcuts s)\<rparr>)"

definition CreateAsset :: "env \<Rightarrow> Asset \<Rightarrow> store \<Rightarrow> Asset result \<times> store" where
  "CreateAsset E asset s =
     (let asset = (if a_ID asset = '''' then asset\<lparr>a_ID := randomID E 0\<rparr> else asset) in
      if a_Name asset = '''' then (Inl ErrNotFound, s)
      else if map_of (assetsByName s) (a_Name asset) \<noteq> None then (Inl ErrAlreadyExists, s)
      else
        (let asset = (if is_zero (a_CreatedAt asset) then asset\<lparr>a_CreatedAt := now E\<rparr> else asset) in
         (Inr asset, s\<lparr>assets := mput (a_ID asset) asset (assets s),
                        assetsByName := mput (a_Name asset) (a_ID asset) (assetsByName s)\<rparr>)))"

definition Assets :: "store \<Rightarrow> Asset list" where
  "Assets s = sort_key (\<lambda>a. - a_CreatedAt a) (map snd (assets s))"

definition AssetByName :: "string \<Rightarrow> store \<Rightarrow> Asset result" where
  "AssetByName name s =
     (let aid = (case map_of (assetsByName s) name of None \<Rightarrow> '''' | Some i \<Rightarrow> i) in
      case map_of (assets s) aid of None \<Rightarrow> Inl ErrNotFound | Some asset \<Rightarrow> Inr asset)"

definition Asset_get :: "string \<Rightarrow> store \<Rightarrow> Asset result" where
  "Asset_get aid s = (case map_of (assets s) aid of None \<Rightarrow> Inl ErrNotFound | Some asset \<Rightarrow> Inr asset)"

section \<open>Tasks\<close>

definition CreateTask :: "env \<Rightarrow> Task \<Rightarrow> store \<Rightarrow> Task result \<times> store" where
  "CreateTask E task s =
     (let task = (if tk_ID task = '''' then task\<lparr>tk_ID := randomID E 0\<rparr> else task) in
      if Type task = '''' \<or> length (Devices task) = 0 then (Inl ErrNotFound, s)
      else
        (let task = (if is_zero (tk_CreatedAt task) then task\<lparr>tk_CreatedAt := now E\<rparr> else task);
             task = task\<lparr>Devices := mmap (\<lambda>k d. d\<lparr>td_DeviceID := k, Status := TaskQueued, UpdatedAt := tk_CreatedAt task\<rparr>)
                          (Devices task)\<rparr>
         in (Inr (cloneTask task), s\<lparr>tasks := mput (tk_ID task) task (tasks s)\<rparr>)))"

definition Task_get :: "string \<Rightarrow> store \<Rightarrow> Task result" where
  "Task_get tid s =
     (case map_of (tasks s) tid of None \<Rightarrow> Inl ErrNotFound | Some task \<Rightarrow> Inr (cloneTask task))"

definition canAccessAllTaskDevicesLocked :: "User \<Rightarrow> Task \<Rightarrow> bool" where
  "canAccessAllTaskDevicesLocked user task \<longleftrightarrow>
     (if u_Role user = RoleAdmin then True
      else if \<not> Can user ''batch_tasks'' then False
      else list_all (\<lambda>i. assigned_to user i) (mkeys (Devices task)))"

definition TasksFor :: "User \<Rightarrow> store \<Rightarrow> Task list" where
  "TasksFor user s =
     sort_key (\<lambda>t. - tk_CreatedAt t)
       (map cloneTask
         (filter (\<lambda>t. tk_CreatedBy t = Username user \<or> canAccessAllTaskDevicesLocked user t) (map snd (tasks s))))"

definition PendingTasks :: "env \<Rightarrow> string \<Rightarrow> store \<Rightarrow> string list" where
  "PendingTasks E deviceID s =
     sort (map fst (filter (\<lambda>(_, task). \<not> tk_ExpiresAt task < now E \<and>
       (case map_of (Devices task) deviceID of None \<Rightarrow> False | Some d \<Rightarrow> Status d = TaskQueued)) (tasks s)))"

definition ClaimTask :: "env \<Rightarrow> string \<Rightarrow> string \<Rightarrow> store \<Rightarrow> Task result \<times> store" where
  "ClaimTask E taskID deviceID s =
     (case map_of (tasks s) taskID of
        None \<Rightarrow> (Inl ErrNotFound, s)
      | Some task \<Rightarrow>
          (if \<not> is_zero (tk_ExpiresAt task) \<and> tk_ExpiresAt task < now E then (Inl ErrInvalidToken, s)
           else
             (case map_of (Devices task) deviceID of
                None \<Rightarrow> (Inl ErrForbidden, s)
              | Some d \<Rightarrow>
                  (if Status d \<noteq> TaskQueued then (Inl ErrForbidden, s)
                   else
                     (let task = task\<lparr>Devices := mput deviceID (d\<lparr>Status := TaskLeased, UpdatedAt := now E\<rparr>)
                                       (Devices task)\<rparr> in
                      (Inr (cloneTask task), s\<lparr>tasks := mput taskID task (tasks s)\<rparr>))))))"

definition SetTaskStatus ::
  "env \<Rightarrow> string \<Rightarrow> string \<Rightarrow> TaskStatus \<Rightarrow> string \<Rightarrow> store \<Rightarrow> Task result \<times> store" where
  "SetTaskStatus E taskID deviceID status result s =
     (case map_of (tasks s) taskID of
        None \<Rightarrow> (Inl ErrNotFound, s)
      | Some task \<Rightarrow>
          (case map_of (Devices task) deviceID of
             None \<Rightarrow> (Inl ErrNotFound, s)
           | Some d \<Rightarrow>
               (let task = task\<lparr>Devices := mput deviceID (d\<lparr>Status := status, Result := result, UpdatedAt := now E\<rparr>)
                                 (Devices task)\<rparr> in
                (Inr (cloneTask task), s\<lparr>tasks := mput taskID task (tasks s)\<rparr>))))"

definition mark_unknown :: "env \<Rightarrow> string \<Rightarrow> Task \<Rightarrow> Task" where
  "mark_unknown E deviceID task =
     (case map_of (Devices task) deviceID of
        None \<Rightarrow> task
      | Some d \<Rightarrow>
          (if Status d = TaskLeased \<or> Status d = TaskRunning then
             task\<lparr>Devices := mput deviceID (d\<lparr>Status := TaskUnknown,
                    Result := ''agent disconnected after claim'', UpdatedAt := now E\<rparr>) (Devices task)\<rparr>
           else task))"

definition MarkLeasedUnknown :: "env \<Rightarrow> string \<Rightarrow> store \<Rightarrow> store" where
  "MarkLeasedUnknown E deviceID s = s\<lparr>tasks := mmap (\<lambda>_ task. mark_unknown E deviceID task) (tasks s)\<rparr>"

section \<open>Audit, cleaning and the initial store\<close>

definition Audit :: "env \<Rightarrow> AuditEvent \<Rightarrow> store \<Rightarrow> store" where
  "Audit E event s = auditLocked E 0 event s"

definition expire_task :: "env \<Rightarrow> Task \<Rightarrow> Task" where
  "expire_task E task =
     (if \<not> is_zero (tk_ExpiresAt task) \<and> tk_ExpiresAt task < now E then
        task\<lparr>Devices := mmap (\<lambda>_ d. if Status d = TaskQueued then d\<lparr>Status := TaskExpired, UpdatedAt := now E\<rparr> else d)
               (Devices task)\<rparr>
      else task)"

definition Clean :: "env \<Rightarrow> time \<Rightarrow> store \<Rightarrow> store" where
  "Clean E before s =
     s\<lparr>revokedUserTokens := mfilter (\<lambda>_ expires. now E < expires) (revokedUserTokens s),
        enrollments := mfilter (\<lambda>_ enrollment. now E < e_ExpiresAt enrollment) (enrollments s),
        tasks := mmap (\<lambda>_ task. expire_task E task) (tasks s),
        audits := filter (\<lambda>event. before < ae_CreatedAt event) (audits s)\<rparr>"

definition initial_settings :: obj where
  "initial_settings =
     [(''connectionStayAwake'', ABool True), (''previewStayAwake'', ABool False), (''showStats'', ABool False),
      (''maxBitrate'', AInt 4), (''minBitrate'', AInt 1), (''fps'', AInt 30), (''size'', AInt 1080),
      (''bitrate'', AInt 4)]"

definition empty_store :: store where
  "empty_store =
     \<lparr>users = [], usersByName = [], devices = [], tags = [], deviceTags = [], shares = [],
      deploymentCredentials = [], enrollments = [], agentCredentials = [], defaultSettings = initial_settings,
      deviceSettings = [], shortcuts = [], assets = [], assetsByName = [], tasks = [], audits = [],
      healthErr = False, revokedUserTokens = []\<rparr>"

definition NewMemoryStore :: "env \<Rightarrow> string \<Rightarrow> string \<Rightarrow> store result" where
  "NewMemoryStore E adminUsername adminPassword =
     (case CreateUser E adminUsername adminPassword RoleAdmin [] empty_store of
        (Inl e, _) \<Rightarrow> Inl e
      | (Inr _, s) \<Rightarrow> Inr s)"

end
