(* ===== verification/Contracts.thy ===== *)
theory Contracts
  imports Prelude
begin

text \<open>
  Contracts that several components of the program promise, each stated once as a locale with the
  facts a client draws from it. \<open>machine\<close>: every operation keeps an invariant, hence every run
  does. \<open>once\<close>: a resource that an operation takes is gone, hence it is taken at most once.
  \<open>selection\<close>: a loop over a map that keeps the better of two entries ends with a best entry,
  whatever the order in which the map is visited. The components interpret these locales on
  their own operations.
\<close>

section \<open>Runs and invariants\<close>

text \<open>
  \<open>admissible exec ok s es\<close>: every operation of the run \<open>es\<close> from \<open>s\<close> meets the condition \<open>ok\<close> in the
  state in which it starts. For the store it says that the random identifiers are fresh.
\<close>

fun admissible :: "('e \<Rightarrow> 's \<Rightarrow> 's) \<Rightarrow> ('e \<Rightarrow> 's \<Rightarrow> bool) \<Rightarrow> 's \<Rightarrow> 'e list \<Rightarrow> bool" where
  "admissible exec ok s [] = True"
| "admissible exec ok s (e # es) = (ok e s \<and> admissible exec ok (exec e s) es)"

locale machine =
  fixes exec :: "'e \<Rightarrow> 's \<Rightarrow> 's"
    and ok :: "'e \<Rightarrow> 's \<Rightarrow> bool"
    and inv :: "'s \<Rightarrow> bool"
  assumes keep: "inv s \<Longrightarrow> ok e s \<Longrightarrow> inv (exec e s)"
begin

lemma run_keeps: "inv s \<Longrightarrow> admissible exec ok s es \<Longrightarrow> inv (fold exec es s)"
  by (induction es arbitrary: s) (auto simp: keep)

end

section \<open>Resources taken at most once\<close>

text \<open>
  \<open>takes_in exec takes k s es\<close> counts the operations of the run \<open>es\<close> from \<open>s\<close> that take \<open>k\<close>;
  \<open>never exec makes k s es\<close> says that no operation of the run makes \<open>k\<close> available again.
\<close>

fun takes_in :: "('e \<Rightarrow> 's \<Rightarrow> 's) \<Rightarrow> ('s \<Rightarrow> 'e \<Rightarrow> 'k \<Rightarrow> bool) \<Rightarrow> 'k \<Rightarrow> 's \<Rightarrow> 'e list \<Rightarrow> nat" where
  "takes_in exec takes k s [] = 0"
| "takes_in exec takes k s (e # es) =
     (if takes s e k then 1 else 0) + takes_in exec takes k (exec e s) es"

fun never :: "('e \<Rightarrow> 's \<Rightarrow> 's) \<Rightarrow> ('s \<Rightarrow> 'e \<Rightarrow> 'k \<Rightarrow> bool) \<Rightarrow> 'k \<Rightarrow> 's \<Rightarrow> 'e list \<Rightarrow> bool" where
  "never exec makes k s [] = True"
| "never exec makes k s (e # es) = (\<not> makes s e k \<and> never exec makes k (exec e s) es)"

locale once = machine exec ok inv
  for exec :: "'e \<Rightarrow> 's \<Rightarrow> 's" and ok and inv +
  fixes avail :: "'s \<Rightarrow> 'k \<Rightarrow> bool"
    and takes :: "'s \<Rightarrow> 'e \<Rightarrow> 'k \<Rightarrow> bool"
    and makes :: "'s \<Rightarrow> 'e \<Rightarrow> 'k \<Rightarrow> bool"
  assumes takes_avail: "inv s \<Longrightarrow> takes s e k \<Longrightarrow> avail s k"
    and takes_gone: "inv s \<Longrightarrow> takes s e k \<Longrightarrow> \<not> avail (exec e s) k"
    and stays_gone: "inv s \<Longrightarrow> \<not> avail s k \<Longrightarrow> \<not> makes s e k \<Longrightarrow> \<not> avail (exec e s) k"
begin

lemma gone_never_taken:
  "inv s \<Longrightarrow> admissible exec ok s es \<Longrightarrow> \<not> avail s k \<Longrightarrow> never exec makes k s es \<Longrightarrow>
   takes_in exec takes k s es = 0"
proof (induction es arbitrary: s)
  case Nil
  then show ?case by simp
next
  case (Cons e es)
  then have "\<not> takes s e k" using takes_avail by blast
  moreover have "\<not> avail (exec e s) k" using Cons.prems stays_gone by simp
  ultimately show ?case using Cons keep by simp
qed

lemma taken_once:
  "inv s \<Longrightarrow> admissible exec ok s es \<Longrightarrow> never exec makes k s es \<Longrightarrow>
   takes_in exec takes k s es \<le> 1"
proof (induction es arbitrary: s)
  case Nil
  then show ?case by simp
next
  case (Cons e es)
  show ?case
  proof (cases "takes s e k")
    case True
    then have "\<not> avail (exec e s) k" using Cons.prems takes_gone by simp
    then have "takes_in exec takes k (exec e s) es = 0"
      using Cons.prems keep by (intro gone_never_taken) auto
    with True show ?thesis by simp
  next
    case False
    with Cons keep show ?thesis by simp
  qed
qed

end

section \<open>Selection of a best entry by a loop\<close>

text \<open>
  The Go loops \<open>for _, x := range m { if wins(x, best) { best = x } }\<close> start from no entry and
  keep the winner of each comparison.
\<close>

fun select :: "('a \<Rightarrow> 'a \<Rightarrow> bool) \<Rightarrow> 'a option \<Rightarrow> 'a list \<Rightarrow> 'a option" where
  "select wins best [] = best"
| "select wins best (x # xs) =
     select wins (case best of None \<Rightarrow> Some x | Some b \<Rightarrow> if wins x b then Some x else Some b) xs"

locale selection =
  fixes wins :: "'a \<Rightarrow> 'a \<Rightarrow> bool"
  assumes wins_irrefl: "\<not> wins x x"
    and wins_weak: "\<not> wins x y \<Longrightarrow> \<not> wins y z \<Longrightarrow> \<not> wins x z"
    and wins_asym: "wins x y \<Longrightarrow> \<not> wins y x"
begin

lemma select_from:
  "select wins (Some b) xs = Some c \<Longrightarrow> c \<in> insert b (set xs) \<and> (\<forall>x \<in> insert b (set xs). \<not> wins x c)"
proof (induction xs arbitrary: b)
  case Nil
  then show ?case by (simp add: wins_irrefl)
next
  case (Cons x xs)
  show ?case
  proof (cases "wins x b")
    case True
    with Cons have "c \<in> insert x (set xs)" and best: "\<forall>y \<in> insert x (set xs). \<not> wins y c" by auto
    moreover have "\<not> wins b c" using True best wins_asym wins_weak [of b x c] by auto
    ultimately show ?thesis by auto
  next
    case False
    with Cons have "c \<in> insert b (set xs)" and best: "\<forall>y \<in> insert b (set xs). \<not> wins y c" by auto
    moreover have "\<not> wins x c" using False best wins_weak [of x b c] by auto
    ultimately show ?thesis by auto
  qed
qed

lemma select_some: "select wins (Some b) xs \<noteq> None"
  by (induction xs arbitrary: b) auto

lemma select_best:
  "select wins None xs = Some c \<Longrightarrow> c \<in> set xs \<and> (\<forall>x \<in> set xs. \<not> wins x c)"
  by (cases xs) (auto dest: select_from)

lemma select_None_iff: "select wins None xs = None \<longleftrightarrow> xs = []"
  by (cases xs) (auto simp: select_some)

text \<open>With no two equally good entries the result does not depend on the visiting order.\<close>

lemma select_order_free:
  assumes "set xs = set ys"
    and total: "\<And>x y. x \<in> set xs \<Longrightarrow> y \<in> set xs \<Longrightarrow> x \<noteq> y \<Longrightarrow> wins x y \<or> wins y x"
  shows "select wins None xs = select wins None ys"
proof (cases "xs = []")
  case True
  with assms(1) show ?thesis by simp
next
  case False
  with assms(1) obtain c d where c: "select wins None xs = Some c" and d: "select wins None ys = Some d"
    by (metis not_Some_eq select_None_iff set_empty)
  from select_best [OF c] select_best [OF d] assms(1)
  have "c \<in> set xs" "d \<in> set xs" "\<not> wins d c" "\<not> wins c d" by auto
  with total have "c = d" by blast
  with c d show ?thesis by simp
qed

end

end
