(* ===== verification/StoreRuns.thy ===== *)
theory StoreRuns
  imports Store Contracts
begin

text \<open>
  Runs of the store: every state-changing method is an event \<open>store_op\<close>, \<open>exec_op\<close> executes it with
  the environment of that call, and a run is the fold over a list of events, in any order and
  interleaving of the callers. The invariant \<open>store_ok\<close> says what every state of a run satisfies;
  \<open>op_ok\<close> is what an event needs for it: fresh random identifiers, and update closures that leave
  the identifying fields alone, as those of \<open>admin.go\<close> do.
\<close>

datatype store_op =
    OpCreateUser string string Role "string list"
  | OpDeleteUser string
  | OpUpdateUser string "User \<Rightarrow> User result"
  | OpRenameUser string string
  | OpResetPassword string string
  | OpRevokeUserToken string time
  | OpUpsertAgentDevice string DeviceInfo
  | OpMarkOffline string
  | OpTouchDevice string
  | OpDeleteOfflineDevice string
  | OpSetDefaultSettings obj
  | OpSetDeviceSettings string obj
  | OpCreateShare string string string string bool "time option"
  | OpSharesFor string
  | OpShareByCard string
  | OpUpdateShare string "Share \<Rightarrow> Share result"
  | OpRevokeShare string
  | OpAuthorizeShare string string
  | OpReplaceTags "Tag list" "string list gomap"
  | OpCreateDeploymentCredential string string duration
  | OpRevokeDeploymentCredential string string
  | OpIssueDeploymentEnrollment string string duration
  | OpCreateEnrollment string duration
  | OpExchangeEnrollment string string
  | OpReplaceShortcuts string "Shortcut list"
  | OpCreateAsset Asset
  | OpCreateTask Task
  | OpClaimTask string string
  | OpSetTaskStatus string string TaskStatus string
  | OpMarkLeasedUnknown string
  | OpAudit AuditEvent
  | OpClean time

fun exec_op :: "env \<times> store_op \<Rightarrow> store \<Rightarrow> store" where
  "exec_op (E, OpCreateUser a b c d) s = snd (CreateUser E a b c d s)"
| "exec_op (E, OpDeleteUser a) s = snd (DeleteUser a s)"
| "exec_op (E, OpUpdateUser a f) s = snd (UpdateUser a f s)"
| "exec_op (E, OpRenameUser a b) s = snd (RenameUser a b s)"
| "exec_op (E, OpResetPassword a b) s = snd (ResetPassword E a b s)"
| "exec_op (E, OpRevokeUserToken a b) s = snd (RevokeUserToken a b s)"
| "exec_op (E, OpUpsertAgentDevice a b) s = snd (UpsertAgentDevice E a b s)"
| "exec_op (E, OpMarkOffline a) s = MarkOffline E a s"
| "exec_op (E, OpTouchDevice a) s = TouchDevice E a s"
| "exec_op (E, OpDeleteOfflineDevice a) s = snd (DeleteOfflineDevice a s)"
| "exec_op (E, OpSetDefaultSettings a) s = SetDefaultSettings a s"
| "exec_op (E, OpSetDeviceSettings a b) s = snd (SetDeviceSettings a b s)"
| "exec_op (E, OpCreateShare a b c d e f) s = snd (CreateShare E a b c d e f s)"
| "exec_op (E, OpSharesFor a) s = snd (SharesFor E a s)"
| "exec_op (E, OpShareByCard a) s = snd (ShareByCard E a s)"
| "exec_op (E, OpUpdateShare a f) s = snd (UpdateShare a f s)"
| "exec_op (E, OpRevokeShare a) s = snd (RevokeShare a s)"
| "exec_op (E, OpAuthorizeShare a b) s = snd (AuthorizeShare E a b s)"
| "exec_op (E, OpReplaceTags a b) s = ReplaceTags E a b s"
| "exec_op (E, OpCreateDeploymentCredential a b c) s = snd (CreateDeploymentCredential E a b c s)"
| "exec_op (E, OpRevokeDeploymentCredential a b) s = snd (RevokeDeploymentCredential E a b s)"
| "exec_op (E, OpIssueDeploymentEnrollment a b c) s = snd (IssueDeploymentEnrollment E a b c s)"
| "exec_op (E, OpCreateEnrollment a b) s = snd (CreateEnrollment E a b s)"
| "exec_op (E, OpExchangeEnrollment a b) s = snd (ExchangeEnrollment E a b s)"
| "exec_op (E, OpReplaceShortcuts a b) s = ReplaceShortcuts a b s"
| "exec_op (E, OpCreateAsset a) s = snd (CreateAsset E a s)"
| "exec_op (E, OpCreateTask a) s = snd (CreateTask E a s)"
| "exec_op (E, OpClaimTask a b) s = snd (ClaimTask E a b s)"
| "exec_op (E, OpSetTaskStatus a b c d) s = snd (SetTaskStatus E a b c d s)"
| "exec_op (E, OpMarkLeasedUnknown a) s = MarkLeasedUnknown E a s"
| "exec_op (E, OpAudit a) s = Audit E a s"
| "exec_op (E, OpClean a) s = Clean E a s"

fun op_ok :: "env \<times> store_op \<Rightarrow> store \<Rightarrow> bool" where
  "op_ok (E, OpCreateUser a b c d) s = (map_of (users s) (randomID E 0) = None)"
| "op_ok (E, OpUpdateUser a f) s =
     (\<forall>u. case f u of
        Inl _ \<Rightarrow> True
      | Inr u' \<Rightarrow> u_ID u' = u_ID u \<and> Username u' = Username u \<and> u_Role u' = u_Role u)"
| "op_ok (E, OpUpdateShare a f) s = (\<forall>h. case f h of Inl _ \<Rightarrow> True | Inr h' \<Rightarrow> sh_Token h' = sh_Token h)"
| "op_ok (E, OpCreateAsset a) s =
     (map_of (assets s) (if a_ID a = '''' then randomID E 0 else a_ID a) = None)"
| "op_ok (E, OpCreateTask t) s = mok (Devices t)"
| "op_ok _ s = True"

section \<open>The invariant\<close>

text \<open>Names and identifiers of the accounts are in one-to-one correspondence, and an administrator exists.\<close>

definition users_ok :: "store \<Rightarrow> bool" where
  "users_ok s \<longleftrightarrow> mok (users s) \<and> mok (usersByName s) \<and>
     (\<forall>i u. map_of (users s) i = Some u \<longrightarrow> u_ID u = i \<and> map_of (usersByName s) (Username u) = Some i) \<and>
     (\<forall>n i. map_of (usersByName s) n = Some i \<longrightarrow> (\<exists>u. map_of (users s) i = Some u \<and> Username u = n)) \<and>
     (\<exists>i u. map_of (users s) i = Some u \<and> u_Role u = RoleAdmin)"

text \<open>Devices are filed under their own id, settings belong to known devices, tag assignments to known tags.\<close>

definition devices_ok :: "store \<Rightarrow> bool" where
  "devices_ok s \<longleftrightarrow> mok (devices s) \<and> mok (tags s) \<and> mok (deviceTags s) \<and> mok (deviceSettings s) \<and>
     (\<forall>i d. map_of (devices s) i = Some d \<longrightarrow> d_ID d = i) \<and>
     (\<forall>i. map_of (deviceSettings s) i \<noteq> None \<longrightarrow> map_of (devices s) i \<noteq> None) \<and>
     (\<forall>i set t. map_of (deviceTags s) i = Some set \<longrightarrow> map_of set t \<noteq> None \<longrightarrow> map_of (tags s) t \<noteq> None)"

definition shares_ok :: "store \<Rightarrow> bool" where
  "shares_ok s \<longleftrightarrow> mok (shares s) \<and> (\<forall>k h. map_of (shares s) k = Some h \<longrightarrow> sh_Token h = k)"

text \<open>Tokens of enrollments and agents are stored as digests only.\<close>

definition credentials_ok :: "store \<Rightarrow> bool" where
  "credentials_ok s \<longleftrightarrow> mok (deploymentCredentials s) \<and> mok (enrollments s) \<and> mok (agentCredentials s) \<and>
     (\<forall>k c. map_of (deploymentCredentials s) k = Some c \<longrightarrow> dc_ID c = k) \<and>
     (\<forall>k e. map_of (enrollments s) k = Some e \<longrightarrow> e_Token e = '''') \<and>
     (\<forall>k a. map_of (agentCredentials s) k = Some a \<longrightarrow> ac_Token a = '''')"

definition assets_ok :: "store \<Rightarrow> bool" where
  "assets_ok s \<longleftrightarrow> mok (assets s) \<and> mok (assetsByName s) \<and>
     (\<forall>i a. map_of (assets s) i = Some a \<longrightarrow> a_ID a = i \<and> map_of (assetsByName s) (a_Name a) = Some i) \<and>
     (\<forall>n i. map_of (assetsByName s) n = Some i \<longrightarrow> (\<exists>a. map_of (assets s) i = Some a \<and> a_Name a = n))"

definition tasks_ok :: "store \<Rightarrow> bool" where
  "tasks_ok s \<longleftrightarrow> mok (tasks s) \<and>
     (\<forall>i t. map_of (tasks s) i = Some t \<longrightarrow> tk_ID t = i \<and> mok (Devices t))"

definition store_ok :: "store \<Rightarrow> bool" where
  "store_ok s \<longleftrightarrow> users_ok s \<and> devices_ok s \<and> shares_ok s \<and> credentials_ok s \<and> assets_ok s \<and> tasks_ok s"

section \<open>What the operations leave alone\<close>

declare CreateUser_def [op_defs] DeleteUser_def [op_defs] UpdateUser_def [op_defs]
  RenameUser_def [op_defs] ResetPassword_def [op_defs] RevokeUserToken_def [op_defs]
  UpsertAgentDevice_def [op_defs] MarkOffline_def [op_defs] TouchDevice_def [op_defs]
  DeleteOfflineDevice_def [op_defs] SetDefaultSettings_def [op_defs] SetDeviceSettings_def [op_defs]
  CreateShare_def [op_defs] SharesFor_def [op_defs] ShareByCard_def [op_defs] UpdateShare_def [op_defs]
  RevokeShare_def [op_defs] AuthorizeShare_def [op_defs] ReplaceTags_def [op_defs]
  CreateDeploymentCredential_def [op_defs] RevokeDeploymentCredential_def [op_defs]
  IssueDeploymentEnrollment_def [op_defs] CreateEnrollment_def [op_defs] ExchangeEnrollment_def [op_defs]
  ReplaceShortcuts_def [op_defs] CreateAsset_def [op_defs] CreateTask_def [op_defs] ClaimTask_def [op_defs]
  SetTaskStatus_def [op_defs] MarkLeasedUnknown_def [op_defs] Audit_def [op_defs] auditLocked_def [op_defs]
  Clean_def [op_defs] Let_def [op_defs]

fun on_users :: "store_op \<Rightarrow> bool" where
  "on_users (OpCreateUser _ _ _ _) = True"
| "on_users (OpDeleteUser _) = True"
| "on_users (OpUpdateUser _ _) = True"
| "on_users (OpRenameUser _ _) = True"
| "on_users (OpResetPassword _ _) = True"
| "on_users _ = False"

fun on_devices :: "store_op \<Rightarrow> bool" where
  "on_devices (OpUpsertAgentDevice _ _) = True"
| "on_devices (OpMarkOffline _) = True"
| "on_devices (OpTouchDevice _) = True"
| "on_devices (OpDeleteOfflineDevice _) = True"
| "on_devices (OpSetDeviceSettings _ _) = True"
| "on_devices (OpReplaceTags _ _) = True"
| "on_devices _ = False"

fun on_shares :: "store_op \<Rightarrow> bool" where
  "on_shares (OpCreateShare _ _ _ _ _ _) = True"
| "on_shares (OpSharesFor _) = True"
| "on_shares (OpShareByCard _) = True"
| "on_shares (OpUpdateShare _ _) = True"
| "on_shares (OpRevokeShare _) = True"
| "on_shares (OpAuthorizeShare _ _) = True"
| "on_shares _ = False"

fun on_credentials :: "store_op \<Rightarrow> bool" where
  "on_credentials (OpCreateDeploymentCredential _ _ _) = True"
| "on_credentials (OpRevokeDeploymentCredential _ _) = True"
| "on_credentials (OpIssueDeploymentEnrollment _ _ _) = True"
| "on_credentials (OpCreateEnrollment _ _) = True"
| "on_credentials (OpExchangeEnrollment _ _) = True"
| "on_credentials (OpClean _) = True"
| "on_credentials _ = False"

fun on_assets :: "store_op \<Rightarrow> bool" where
  "on_assets (OpCreateAsset _) = True"
| "on_assets _ = False"

fun on_tasks :: "store_op \<Rightarrow> bool" where
  "on_tasks (OpCreateTask _) = True"
| "on_tasks (OpClaimTask _ _) = True"
| "on_tasks (OpSetTaskStatus _ _ _ _) = True"
| "on_tasks (OpMarkLeasedUnknown _) = True"
| "on_tasks (OpClean _) = True"
| "on_tasks _ = False"

lemma users_frame [frames]:
  "\<not> on_users op \<Longrightarrow> users (exec_op (E, op) s) = users s \<and> usersByName (exec_op (E, op) s) = usersByName s"
  by (cases op) (simp_all add: op_defs split: option.split sum.split if_split)

lemma devices_frame [frames]:
  "\<not> on_devices op \<Longrightarrow> devices (exec_op (E, op) s) = devices s \<and> tags (exec_op (E, op) s) = tags s \<and>
     deviceTags (exec_op (E, op) s) = deviceTags s \<and> deviceSettings (exec_op (E, op) s) = deviceSettings s"
  by (cases op) (simp_all add: op_defs split: option.split sum.split if_split)

lemma shares_frame [frames]: "\<not> on_shares op \<Longrightarrow> shares (exec_op (E, op) s) = shares s"
  by (cases op) (simp_all add: op_defs split: option.split sum.split if_split)

lemma credentials_frame [frames]:
  "\<not> on_credentials op \<Longrightarrow> deploymentCredentials (exec_op (E, op) s) = deploymentCredentials s \<and>
     enrollments (exec_op (E, op) s) = enrollments s \<and> agentCredentials (exec_op (E, op) s) = agentCredentials s"
  by (cases op) (simp_all add: op_defs split: option.split sum.split if_split)

lemma assets_frame [frames]:
  "\<not> on_assets op \<Longrightarrow>
     assets (exec_op (E, op) s) = assets s \<and> assetsByName (exec_op (E, op) s) = assetsByName s"
  by (cases op) (simp_all add: op_defs split: option.split sum.split if_split)

lemma tasks_frame [frames]: "\<not> on_tasks op \<Longrightarrow> tasks (exec_op (E, op) s) = tasks s"
  by (cases op) (simp_all add: op_defs split: option.split sum.split if_split)

section \<open>Every operation keeps the invariant\<close>

lemma users_okD:
  assumes "users_ok s"
  shows "mok (users s)" "mok (usersByName s)"
    "map_of (users s) i = Some u \<Longrightarrow> u_ID u = i \<and> map_of (usersByName s) (Username u) = Some i"
    "map_of (usersByName s) n = Some i \<Longrightarrow> \<exists>u. map_of (users s) i = Some u \<and> Username u = n"
    "\<exists>i u. map_of (users s) i = Some u \<and> u_Role u = RoleAdmin"
  using assms by (auto simp: users_ok_def)

lemma users_okI:
  assumes "mok (users s)" "mok (usersByName s)"
    "\<And>i u. map_of (users s) i = Some u \<Longrightarrow> u_ID u = i \<and> map_of (usersByName s) (Username u) = Some i"
    "\<And>n i. map_of (usersByName s) n = Some i \<Longrightarrow> \<exists>u. map_of (users s) i = Some u \<and> Username u = n"
    "map_of (users s) j = Some v" "u_Role v = RoleAdmin"
  shows "users_ok s"
  using assms by (auto simp: users_ok_def)

text \<open>The four ways in which the account maps change.\<close>

lemma users_ok_put:
  assumes "users_ok s" "map_of (users s) (u_ID u) = None" "map_of (usersByName s) (Username u) = None"
  shows "users_ok (s\<lparr>users := mput (u_ID u) u (users s), usersByName := mput (Username u) (u_ID u) (usersByName s)\<rparr>)"
proof -
  obtain j v where jv: "map_of (users s) j = Some v" "u_Role v = RoleAdmin" using users_okD(5) [OF assms(1)] by blast
  show ?thesis
  proof (rule users_okI [where j = j and v = v])
    fix i w assume "map_of (users (s\<lparr>users := mput (u_ID u) u (users s),
      usersByName := mput (Username u) (u_ID u) (usersByName s)\<rparr>)) i = Some w"
    then show "u_ID w = i \<and> map_of (usersByName (s\<lparr>users := mput (u_ID u) u (users s),
      usersByName := mput (Username u) (u_ID u) (usersByName s)\<rparr>)) (Username w) = Some i"
      using users_okD(3) [OF assms(1), of i w] assms(3) by (auto split: if_splits)
  next
    fix n i assume "map_of (usersByName (s\<lparr>users := mput (u_ID u) u (users s),
      usersByName := mput (Username u) (u_ID u) (usersByName s)\<rparr>)) n = Some i"
    then show "\<exists>w. map_of (users (s\<lparr>users := mput (u_ID u) u (users s),
      usersByName := mput (Username u) (u_ID u) (usersByName s)\<rparr>)) i = Some w \<and> Username w = n"
      using users_okD(4) [OF assms(1), of n i] assms(2) by (auto split: if_splits)
  qed (use assms jv in \<open>auto simp: users_okD(1,2)\<close>)
qed

lemma users_ok_update:
  assumes "users_ok s" "map_of (users s) i = Some u"
    and same: "u_ID u' = u_ID u" "Username u' = Username u" "u_Role u' = u_Role u"
  shows "users_ok (s\<lparr>users := mput i u' (users s)\<rparr>)"
proof -
  obtain j v where jv: "map_of (users s) j = Some v" "u_Role v = RoleAdmin" using users_okD(5) [OF assms(1)] by blast
  show ?thesis
  proof (rule users_okI [where j = j and v = "if j = i then u' else v"])
    fix k w assume "map_of (users (s\<lparr>users := mput i u' (users s)\<rparr>)) k = Some w"
    then show "u_ID w = k \<and> map_of (usersByName (s\<lparr>users := mput i u' (users s)\<rparr>)) (Username w) = Some k"
      using users_okD(3) [OF assms(1), of k w] users_okD(3) [OF assms(1,2)] same by (auto split: if_splits)
  next
    fix n k assume "map_of (usersByName (s\<lparr>users := mput i u' (users s)\<rparr>)) n = Some k"
    then show "\<exists>w. map_of (users (s\<lparr>users := mput i u' (users s)\<rparr>)) k = Some w \<and> Username w = n"
      using users_okD(4) [OF assms(1), of n k] assms(2) same by auto
  qed (use assms jv in \<open>auto simp: users_okD(1,2)\<close>)
qed

lemma users_ok_delete:
  assumes "users_ok s" "map_of (usersByName s) n = Some i"
    and other: "map_of (users s) j = Some v" "u_Role v = RoleAdmin" "j \<noteq> i"
  shows "users_ok (s\<lparr>users := mdel i (users s), usersByName := mdel n (usersByName s)\<rparr>)"
proof (rule users_okI [where j = j and v = v])
  fix k w assume "map_of (users (s\<lparr>users := mdel i (users s), usersByName := mdel n (usersByName s)\<rparr>)) k = Some w"
  then show "u_ID w = k \<and>
    map_of (usersByName (s\<lparr>users := mdel i (users s), usersByName := mdel n (usersByName s)\<rparr>)) (Username w) = Some k"
    using users_okD(3) [OF assms(1), of k w] assms(2) by (auto simp: restrict_map_def split: if_splits)
next
  fix m k assume "map_of (usersByName (s\<lparr>users := mdel i (users s), usersByName := mdel n (usersByName s)\<rparr>)) m = Some k"
  then have "m \<noteq> n" "map_of (usersByName s) m = Some k" by (auto simp: restrict_map_def split: if_splits)
  moreover from this obtain w where "map_of (users s) k = Some w" "Username w = m"
    using users_okD(4) [OF assms(1)] by blast
  moreover obtain u where "map_of (users s) i = Some u" "Username u = n"
    using users_okD(4) [OF assms(1,2)] by blast
  ultimately show "\<exists>w. map_of (users (s\<lparr>users := mdel i (users s), usersByName := mdel n (usersByName s)\<rparr>)) k =
      Some w \<and> Username w = m" by (auto simp: restrict_map_def)
qed (use assms in \<open>auto simp: users_okD(1,2) restrict_map_def\<close>)

lemma users_ok_rename:
  assumes "users_ok s" "map_of (usersByName s) n = Some i" "map_of (users s) i = Some u"
    and free: "map_of (usersByName s) m = None \<or> map_of (usersByName s) m = Some i"
  shows "users_ok (s\<lparr>usersByName := mput m i (mdel n (usersByName s)), users := mput i (u\<lparr>Username := m\<rparr>) (users s)\<rparr>)"
    (is "users_ok ?t")
proof -
  obtain j v where jv: "map_of (users s) j = Some v" "u_Role v = RoleAdmin" using users_okD(5) [OF assms(1)] by blast
  have u: "u_ID u = i" "Username u = n"
    using users_okD(3) [OF assms(1,3)] users_okD(4) [OF assms(1,2)] assms(3) by auto
  show ?thesis
  proof (rule users_okI [where j = j and v = "if j = i then u\<lparr>Username := m\<rparr> else v"])
    fix k w assume "map_of (users ?t) k = Some w"
    then show "u_ID w = k \<and> map_of (usersByName ?t) (Username w) = Some k"
      using users_okD(3) [OF assms(1), of k w] u assms(2) free by (auto simp: restrict_map_def split: if_splits)
  next
    fix x k assume "map_of (usersByName ?t) x = Some k"
    then show "\<exists>w. map_of (users ?t) k = Some w \<and> Username w = x"
      using users_okD(4) [OF assms(1), of x k] u assms(3) by (auto simp: restrict_map_def split: if_splits)
  qed (use assms jv in \<open>auto simp: users_okD(1,2)\<close>)
qed

lemma CreateUser_keeps:
  "users_ok s \<Longrightarrow> map_of (users s) (randomID E 0) = None \<Longrightarrow> users_ok (snd (CreateUser E n p r d s))"
  using users_ok_put [of s "no_user\<lparr>u_ID := randomID E 0, Username := trim_space n, u_PasswordHash := h,
    u_Role := r, AssignedDevices := d, u_CreatedAt := now E\<rparr>" for h]
  by (simp add: CreateUser_def Let_def split: option.split)

lemma two_admins:
  assumes "mok m" "1 < length (filter (\<lambda>kv. P (snd kv)) m)"
  shows "\<exists>i u. i \<noteq> k \<and> map_of m i = Some u \<and> P u"
proof (rule ccontr)
  assume none: "\<not> ?thesis"
  have sub: "set (filter (\<lambda>kv. P (snd kv)) m) \<subseteq> {(k, u) |u. map_of m k = Some u}"
  proof
    fix x assume "x \<in> set (filter (\<lambda>kv. P (snd kv)) m)"
    then have "map_of m (fst x) = Some (snd x)" "P (snd x)"
      using assms(1) by (auto simp: map_of_set [symmetric])
    with none have "fst x = k" by blast
    with \<open>map_of m (fst x) = Some (snd x)\<close> show "x \<in> {(k, u) |u. map_of m k = Some u}"
      by (cases x) auto
  qed
  have "{(k, u) |u. map_of m k = Some u} \<subseteq> {(k, the (map_of m k))}" by auto
  with sub have "card (set (filter (\<lambda>kv. P (snd kv)) m)) \<le> card {(k, the (map_of m k))}"
    by (intro card_mono) auto
  moreover have "distinct m" using assms(1) by (simp add: distinct_map)
  then have "card (set (filter (\<lambda>kv. P (snd kv)) m)) = length (filter (\<lambda>kv. P (snd kv)) m)"
    by (intro distinct_card) simp
  ultimately show False using assms(2) by simp
qed

lemma DeleteUser_keeps:
  assumes ok: "users_ok s"
  shows "users_ok (snd (DeleteUser n s))"
proof (cases "map_of (usersByName s) n")
  case None
  with ok show ?thesis by (simp add: DeleteUser_def)
next
  case (Some i)
  then obtain u where u: "map_of (users s) i = Some u" using users_okD(4) [OF ok] by blast
  show ?thesis
  proof (cases "u_Role u = RoleAdmin \<and> admin_count s \<le> 1")
    case True
    with Some u ok show ?thesis by (simp add: DeleteUser_def)
  next
    case False
    have "\<exists>j v. j \<noteq> i \<and> map_of (users s) j = Some v \<and> u_Role v = RoleAdmin"
    proof (cases "u_Role u = RoleAdmin")
      case True
      with False show ?thesis
        using two_admins [OF users_okD(1) [OF ok], of "\<lambda>u. u_Role u = RoleAdmin" i] by (simp add: admin_count_def)
    next
      case False
      obtain j v where "map_of (users s) j = Some v" "u_Role v = RoleAdmin" using users_okD(5) [OF ok] by blast
      with False u show ?thesis by (intro exI [of _ j]) auto
    qed
    then show ?thesis using False Some u users_ok_delete [OF ok Some] by (auto simp: DeleteUser_def)
  qed
qed

lemma UpdateUser_keeps:
  assumes ok: "users_ok s"
    and same: "\<And>u u'. f u = Inr u' \<Longrightarrow> u_ID u' = u_ID u \<and> Username u' = Username u \<and> u_Role u' = u_Role u"
  shows "users_ok (snd (UpdateUser n f s))"
proof (cases "map_of (usersByName s) n")
  case None
  with ok show ?thesis by (simp add: UpdateUser_def)
next
  case (Some i)
  then obtain u where u: "map_of (users s) i = Some u" using users_okD(4) [OF ok] by blast
  show ?thesis
    using ok Some u same users_ok_update [OF ok u] by (auto simp: UpdateUser_def split: sum.split)
qed

lemma RenameUser_keeps:
  assumes ok: "users_ok s"
  shows "users_ok (snd (RenameUser n m s))"
proof (cases "map_of (usersByName s) n")
  case None
  with ok show ?thesis by (simp add: RenameUser_def Let_def)
next
  case (Some i)
  then obtain u where u: "map_of (users s) i = Some u" using users_okD(4) [OF ok] by blast
  show ?thesis
    using ok Some u users_ok_rename [OF ok Some u, of "trim_space m"]
    by (auto simp: RenameUser_def Let_def split: option.split)
qed

lemma snd_ResetPassword:
  "snd (ResetPassword E n p s) =
     (if p = '''' then s
      else case gen_hash E p of
        None \<Rightarrow> s
      | Some h \<Rightarrow> snd (UpdateUser n (\<lambda>u. Inr (u\<lparr>u_PasswordHash := h, TokenVersion := TokenVersion u + 1\<rparr>)) s))"
  by (simp add: ResetPassword_def split: option.split sum.split prod.split)

lemma ResetPassword_keeps: "users_ok s \<Longrightarrow> users_ok (snd (ResetPassword E n p s))"
  by (auto simp: snd_ResetPassword intro!: UpdateUser_keeps split: option.split)

lemma users_keep:
  assumes "users_ok s" "op_ok (E, op) s"
  shows "users_ok (exec_op (E, op) s)"
proof (cases "on_users op")
  case True
  with assms show ?thesis
    by (cases op) (auto intro!: CreateUser_keeps DeleteUser_keeps UpdateUser_keeps RenameUser_keeps
        ResetPassword_keeps split: sum.splits)
next
  case False
  with assms users_frame [OF False, of E s] show ?thesis by (simp add: users_ok_def)
qed

lemma map_of_fold_put:
  "map_of (fold (\<lambda>i m. if P i then mput i () m else m) xs m) k = Some () \<longleftrightarrow>
     map_of m k = Some () \<or> (k \<in> set xs \<and> P k)"
  by (induction xs arbitrary: m) auto

lemma devices_ok_put:
  "devices_ok s \<Longrightarrow> d_ID d = i \<Longrightarrow> devices_ok (s\<lparr>devices := mput i d (devices s)\<rparr>)"
  by (simp add: devices_ok_def)

lemma devices_ok_delete:
  "devices_ok s \<Longrightarrow>
   devices_ok (s\<lparr>devices := mdel i (devices s), deviceTags := mdel i (deviceTags s),
     deviceSettings := mdel i (deviceSettings s)\<rparr>)"
  by (simp add: devices_ok_def restrict_map_def)

lemma devices_ok_settings:
  "devices_ok s \<Longrightarrow> map_of (devices s) i \<noteq> None \<Longrightarrow> devices_ok (s\<lparr>deviceSettings := mput i m (deviceSettings s)\<rparr>)"
  "devices_ok s \<Longrightarrow> devices_ok (s\<lparr>deviceSettings := mdel i (deviceSettings s)\<rparr>)"
  by (simp_all add: devices_ok_def restrict_map_def)

lemma devices_okD: "devices_ok s \<Longrightarrow> map_of (devices s) i = Some d \<Longrightarrow> d_ID d = i"
  by (simp add: devices_ok_def)

lemma ReplaceTags_keeps: "devices_ok s \<Longrightarrow> devices_ok (ReplaceTags E ts as s)"
proof -
  assume ok: "devices_ok s"
  let ?t = "fold (\<lambda>tag m. mput (t_ID tag) tag m) (number_tags E ts) []"
  have "mok (fold (\<lambda>tag m. mput (t_ID tag) tag m) xs m)" if "mok m" for xs and m :: "Tag gomap"
    using that by (induction xs arbitrary: m) auto
  then have "mok ?t" by simp
  with ok show ?thesis
    by (auto simp: devices_ok_def ReplaceTags_def Let_def map_of_fold_put split: option.splits)
qed

lemma devices_keep:
  assumes "devices_ok s"
  shows "devices_ok (exec_op (E, op) s)"
proof (cases "on_devices op")
  case True
  then show ?thesis
  proof (cases op)
    case (OpUpsertAgentDevice i info)
    with assms devices_okD [OF assms, of i] show ?thesis
      by (auto simp: UpsertAgentDevice_def Let_def no_device_def intro!: devices_ok_put split: option.split)
  next
    case (OpMarkOffline i)
    with assms devices_okD [OF assms, of i] show ?thesis
      by (auto simp: MarkOffline_def intro!: devices_ok_put split: option.split)
  next
    case (OpTouchDevice i)
    with assms devices_okD [OF assms, of i] show ?thesis
      by (auto simp: TouchDevice_def intro!: devices_ok_put split: option.split)
  next
    case (OpDeleteOfflineDevice i)
    with assms show ?thesis by (simp add: DeleteOfflineDevice_def devices_ok_delete split: option.split)
  next
    case (OpSetDeviceSettings i m)
    with assms show ?thesis by (simp add: SetDeviceSettings_def devices_ok_settings)
  qed (use assms in \<open>simp_all add: ReplaceTags_keeps\<close>)
next
  case False
  with assms devices_frame [OF False, of E s] show ?thesis by (simp add: devices_ok_def)
qed

lemma shares_ok_put: "shares_ok s \<Longrightarrow> sh_Token h = k \<Longrightarrow> shares_ok (s\<lparr>shares := mput k h (shares s)\<rparr>)"
  by (simp add: shares_ok_def)

lemma shares_ok_del: "shares_ok s \<Longrightarrow> shares_ok (s\<lparr>shares := mdel k (shares s)\<rparr>)"
  by (simp add: shares_ok_def restrict_map_def)

lemma shares_ok_filter: "shares_ok s \<Longrightarrow> shares_ok (s\<lparr>shares := mfilter P (shares s)\<rparr>)"
  by (auto simp: shares_ok_def split: option.splits if_splits)

lemma shares_okD: "shares_ok s \<Longrightarrow> map_of (shares s) k = Some h \<Longrightarrow> sh_Token h = k"
  by (simp add: shares_ok_def)

lemma shares_keep:
  assumes "shares_ok s" "op_ok (E, op) s"
  shows "shares_ok (exec_op (E, op) s)"
proof (cases "on_shares op")
  case True
  then show ?thesis
  proof (cases op)
    case (OpCreateShare a b c d e f)
    with assms show ?thesis
      by (auto simp: CreateShare_def Let_def intro!: shares_ok_put split: option.split)
  next
    case (OpSharesFor a)
    with assms show ?thesis by (simp add: SharesFor_def Let_def shares_ok_filter)
  next
    case (OpShareByCard a)
    with assms show ?thesis
      by (simp add: ShareByCard_def SharesFor_def Let_def shares_ok_filter split: option.split)
  next
    case (OpUpdateShare a f)
    with assms shares_okD [OF assms(1), of a] show ?thesis
      by (auto simp: UpdateShare_def intro!: shares_ok_put split: option.split sum.splits)
  next
    case (OpRevokeShare a)
    with assms show ?thesis by (simp add: RevokeShare_def shares_ok_del)
  next
    case (OpAuthorizeShare a b)
    with assms show ?thesis by (simp add: AuthorizeShare_def shares_ok_del split: option.split)
  qed simp_all
next
  case False
  with assms shares_frame [OF False, of E s] show ?thesis by (simp add: shares_ok_def)
qed

lemma credentials_ok_audits [simp]: "credentials_ok (s\<lparr>audits := x\<rparr>) = credentials_ok s"
  by (simp add: credentials_ok_def)

lemma credentials_ok_issuer:
  "credentials_ok s \<Longrightarrow> dc_ID c = k \<Longrightarrow>
   credentials_ok (s\<lparr>deploymentCredentials := mput k c (deploymentCredentials s)\<rparr>)"
  by (simp add: credentials_ok_def)

lemma credentials_ok_enrollment:
  "credentials_ok s \<Longrightarrow> e_Token e = '''' \<Longrightarrow> credentials_ok (s\<lparr>enrollments := mput k e (enrollments s)\<rparr>)"
  by (simp add: credentials_ok_def)

lemma credentials_ok_exchange:
  "credentials_ok s \<Longrightarrow> ac_Token a = '''' \<Longrightarrow>
   credentials_ok (s\<lparr>enrollments := mdel k (enrollments s), agentCredentials := mput i a (agentCredentials s)\<rparr>)"
  by (simp add: credentials_ok_def restrict_map_def)

lemma credentials_okD: "credentials_ok s \<Longrightarrow> map_of (deploymentCredentials s) k = Some c \<Longrightarrow> dc_ID c = k"
  by (simp add: credentials_ok_def)

lemma credentials_keep:
  assumes "credentials_ok s"
  shows "credentials_ok (exec_op (E, op) s)"
proof (cases "on_credentials op")
  case True
  then show ?thesis
  proof (cases op)
    case (OpCreateDeploymentCredential a b c)
    with assms show ?thesis
      by (simp add: CreateDeploymentCredential_def auditLocked_def Let_def credentials_ok_issuer
          DeploymentCredential.defs storedDeploymentCredential.defs)
  next
    case (OpRevokeDeploymentCredential a b)
    with assms credentials_okD [OF assms, of a] show ?thesis
      by (auto simp: RevokeDeploymentCredential_def auditLocked_def Let_def credentials_ok_issuer split: option.split)
  next
    case (OpIssueDeploymentEnrollment a b c)
    with assms show ?thesis
      by (auto simp: IssueDeploymentEnrollment_def auditLocked_def Let_def
          intro!: credentials_ok_issuer [of "s\<lparr>enrollments := x\<rparr>" for x, simplified] credentials_ok_enrollment
          split: option.split)
  next
    case (OpCreateEnrollment a b)
    with assms show ?thesis by (simp add: CreateEnrollment_def Let_def credentials_ok_enrollment)
  next
    case (OpExchangeEnrollment a b)
    with assms show ?thesis
      by (simp add: ExchangeEnrollment_def Let_def credentials_ok_exchange split: option.split)
  next
    case (OpClean t)
    with assms show ?thesis by (auto simp: Clean_def credentials_ok_def split: option.splits if_splits)
  qed simp_all
next
  case False
  with assms credentials_frame [OF False, of E s] show ?thesis by (simp add: credentials_ok_def)
qed

lemma assets_keep:
  assumes "assets_ok s" "op_ok (E, op) s"
  shows "assets_ok (exec_op (E, op) s)"
proof (cases "on_assets op")
  case True
  then obtain a where op: "op = OpCreateAsset a" by (cases op) auto
  let ?a = "if a_ID a = '''' then a\<lparr>a_ID := randomID E 0\<rparr> else a"
  let ?b = "if is_zero (a_CreatedAt ?a) then ?a\<lparr>a_CreatedAt := now E\<rparr> else ?a"
  have put: "assets_ok (s\<lparr>assets := mput (a_ID b) b (assets s), assetsByName := mput (a_Name b) (a_ID b) (assetsByName s)\<rparr>)"
    if "map_of (assets s) (a_ID b) = None" "map_of (assetsByName s) (a_Name b) = None" for b
    using that assms(1) by (force simp: assets_ok_def)
  have "snd (CreateAsset E a s) =
    (if a_Name ?b = '''' \<or> map_of (assetsByName s) (a_Name ?b) \<noteq> None then s
     else s\<lparr>assets := mput (a_ID ?b) ?b (assets s), assetsByName := mput (a_Name ?b) (a_ID ?b) (assetsByName s)\<rparr>)"
    by (simp add: CreateAsset_def Let_def)
  moreover have "map_of (assets s) (a_ID ?b) = None" using assms(2) by (simp add: op split: if_splits)
  ultimately show ?thesis using put [of ?b] assms(1) by (simp only: op exec_op.simps) (simp split: if_split)
next
  case False
  with assms assets_frame [OF False, of E s] show ?thesis by (simp add: assets_ok_def)
qed

lemma tasks_ok_put: "tasks_ok s \<Longrightarrow> tk_ID t = i \<Longrightarrow> mok (Devices t) \<Longrightarrow> tasks_ok (s\<lparr>tasks := mput i t (tasks s)\<rparr>)"
  by (simp add: tasks_ok_def)

lemma tasks_ok_map:
  "tasks_ok s \<Longrightarrow> (\<And>t. mok (Devices t) \<Longrightarrow> tk_ID (f t) = tk_ID t \<and> mok (Devices (f t))) \<Longrightarrow>
   tasks_ok (s\<lparr>tasks := mmap (\<lambda>_ t. f t) (tasks s)\<rparr>)"
  by (auto simp: tasks_ok_def)

lemma tasks_ok_cong: "tasks_ok s \<Longrightarrow> tasks s' = tasks s \<Longrightarrow> tasks_ok s'"
  by (simp add: tasks_ok_def)

lemma tasks_okD: "tasks_ok s \<Longrightarrow> map_of (tasks s) i = Some t \<Longrightarrow> tk_ID t = i \<and> mok (Devices t)"
  by (simp add: tasks_ok_def)

lemma mark_unknown_same: "mok (Devices t) \<Longrightarrow> tk_ID (mark_unknown E d t) = tk_ID t \<and> mok (Devices (mark_unknown E d t))"
  by (simp add: mark_unknown_def split: option.split)

lemma expire_task_same: "mok (Devices t) \<Longrightarrow> tk_ID (expire_task E t) = tk_ID t \<and> mok (Devices (expire_task E t))"
  by (simp add: expire_task_def)

lemma tasks_keep:
  assumes "tasks_ok s" "op_ok (E, op) s"
  shows "tasks_ok (exec_op (E, op) s)"
proof (cases "on_tasks op")
  case True
  then show ?thesis
  proof (cases op)
    case (OpCreateTask t)
    with assms show ?thesis by (auto simp: CreateTask_def Let_def intro!: tasks_ok_put)
  next
    case (OpClaimTask a b)
    with assms tasks_okD [OF assms(1), of a] show ?thesis
      by (auto simp: ClaimTask_def Let_def intro!: tasks_ok_put split: option.split)
  next
    case (OpSetTaskStatus a b c d)
    with assms tasks_okD [OF assms(1), of a] show ?thesis
      by (auto simp: SetTaskStatus_def Let_def intro!: tasks_ok_put split: option.split)
  next
    case (OpMarkLeasedUnknown a)
    with assms show ?thesis by (simp add: MarkLeasedUnknown_def tasks_ok_map mark_unknown_same)
  next
    case (OpClean t)
    have "tasks_ok (s\<lparr>tasks := mmap (\<lambda>_ t. expire_task E t) (tasks s)\<rparr>)"
      using assms(1) expire_task_same by (rule tasks_ok_map)
    then show ?thesis by (rule tasks_ok_cong) (simp add: OpClean Clean_def)
  qed simp_all
next
  case False
  with assms tasks_frame [OF False, of E s] show ?thesis by (simp add: tasks_ok_def)
qed

lemma store_keep: "store_ok s \<Longrightarrow> op_ok (E, op) s \<Longrightarrow> store_ok (exec_op (E, op) s)"
  by (simp add: store_ok_def users_keep devices_keep shares_keep credentials_keep assets_keep tasks_keep)

interpretation store_runs: machine exec_op op_ok store_ok
  by unfold_locales (auto simp: store_keep)

lemma NewMemoryStore_ok: "NewMemoryStore E n p = Inr s \<Longrightarrow> store_ok s"
  by (auto simp: NewMemoryStore_def CreateUser_def Let_def empty_store_def store_ok_def users_ok_def devices_ok_def
      shares_ok_def credentials_ok_def assets_ok_def tasks_ok_def no_user_def split: option.splits if_splits)

end
