(* ===== verification/StoreProps.thy ===== *)
theory StoreProps
  imports StoreRuns
begin

text \<open>
  What the store guarantees to its callers: the invariant in every reachable state, enrollment
  tokens and queued tasks that are handed out at most once, the life of deployment credentials,
  shares and sessions. The at-most-once properties are interpretations of the locale \<open>once\<close> on
  the runs of the store.
\<close>

section \<open>Enrollment tokens\<close>

text \<open>The event exchanges the enrollment stored under the digest \<open>k\<close> successfully.\<close>

fun exchanges :: "store \<Rightarrow> env \<times> store_op \<Rightarrow> string \<Rightarrow> bool" where
  "exchanges s (E, OpExchangeEnrollment token deviceID) k =
     (tokenDigest E token = k \<and> (case fst (ExchangeEnrollment E token deviceID s) of Inl _ \<Rightarrow> False | Inr _ \<Rightarrow> True))"
| "exchanges s (E, _) k = False"

text \<open>The event may file a new enrollment under the digest \<open>k\<close>.\<close>

fun enrolls :: "store \<Rightarrow> env \<times> store_op \<Rightarrow> string \<Rightarrow> bool" where
  "enrolls s (E, OpCreateEnrollment deviceID ttl) k = (tokenDigest E (randomToken E 0) = k)"
| "enrolls s (E, OpIssueDeploymentEnrollment token deviceID ttl) k = (tokenDigest E (randomToken E 0) = k)"
| "enrolls s (E, _) k = False"

definition enrolled :: "store \<Rightarrow> string \<Rightarrow> bool" where
  "enrolled s k \<longleftrightarrow> map_of (enrollments s) k \<noteq> None"

lemma ExchangeEnrollment_Inr:
  "ExchangeEnrollment E token deviceID s = (Inr c, s') \<longleftrightarrow>
     (\<exists>e. map_of (enrollments s) (tokenDigest E token) = Some e \<and> now E < e_ExpiresAt e \<and>
        (e_DeviceID e = '''' \<or> e_DeviceID e = deviceID) \<and>
        (DeploymentCredentialID e = '''' \<or>
          (\<exists>i. map_of (deploymentCredentials s) (DeploymentCredentialID e) = Some i \<and> active i (now E)))) \<and>
     c = \<lparr>ac_Token = randomToken E 0, ac_DeviceID = deviceID\<rparr> \<and>
     s' = s\<lparr>enrollments := mdel (tokenDigest E token) (enrollments s),
             agentCredentials := mput (tokenDigest E (randomToken E 0)) \<lparr>ac_Token = '''', ac_DeviceID = deviceID\<rparr>
               (agentCredentials s)\<rparr>"
  by (auto simp: ExchangeEnrollment_def Let_def split: option.splits if_splits)

lemma exchanged_gone:
  assumes "exchanges s e k"
  shows "enrolled s k \<and> \<not> enrolled (exec_op e s) k"
proof (cases e)
  case (Pair E op)
  with assms show ?thesis
    by (cases op) (auto simp: enrolled_def restrict_map_def ExchangeEnrollment_def Let_def
        split: option.splits if_splits sum.splits)
qed

lemma not_enrolled_stays:
  assumes "credentials_ok s" "\<not> enrolled s k" "\<not> enrolls s e k"
  shows "\<not> enrolled (exec_op e s) k"
proof (cases e)
  case (Pair E op)
  show ?thesis
  proof (cases "on_credentials op")
    case True
    with assms show ?thesis
      by (cases op) (auto simp: Pair enrolled_def credentials_ok_def op_defs restrict_map_def split: option.splits)
  next
    case False
    with assms(2) credentials_frame [OF False, of E s] show ?thesis by (simp add: Pair enrolled_def)
  qed
qed

interpretation enrollment_once: once exec_op op_ok store_ok enrolled exchanges enrolls
  by unfold_locales (auto simp: exchanged_gone not_enrolled_stays store_ok_def)

section \<open>Tasks\<close>

fun claims :: "store \<Rightarrow> env \<times> store_op \<Rightarrow> string \<times> string \<Rightarrow> bool" where
  "claims s (E, OpClaimTask taskID deviceID) k =
     (k = (taskID, deviceID) \<and> (case fst (ClaimTask E taskID deviceID s) of Inl _ \<Rightarrow> False | Inr _ \<Rightarrow> True))"
| "claims s (E, _) k = False"

text \<open>The event creates a task under this id, or sets a status back to queued.\<close>

fun enqueues :: "store \<Rightarrow> env \<times> store_op \<Rightarrow> string \<times> string \<Rightarrow> bool" where
  "enqueues s (E, OpCreateTask t) k = ((if tk_ID t = '''' then randomID E 0 else tk_ID t) = fst k)"
| "enqueues s (E, OpSetTaskStatus taskID deviceID status result) k = (status = TaskQueued \<and> k = (taskID, deviceID))"
| "enqueues s (E, _) k = False"

definition task_status :: "store \<Rightarrow> string \<times> string \<Rightarrow> TaskStatus option" where
  "task_status s k =
     (case map_of (tasks s) (fst k) of
        None \<Rightarrow> None
      | Some t \<Rightarrow> (case map_of (Devices t) (snd k) of None \<Rightarrow> None | Some d \<Rightarrow> Some (Status d)))"

definition queued :: "store \<Rightarrow> string \<times> string \<Rightarrow> bool" where
  "queued s k \<longleftrightarrow> task_status s k = Some TaskQueued"

lemma ClaimTask_Inr:
  "ClaimTask E i d s = (Inr t', s') \<longleftrightarrow>
     (\<exists>t v. map_of (tasks s) i = Some t \<and> (tk_ExpiresAt t = 0 \<or> now E \<le> tk_ExpiresAt t) \<and>
        map_of (Devices t) d = Some v \<and> Status v = TaskQueued \<and>
        t' = cloneTask (t\<lparr>Devices := mput d (v\<lparr>Status := TaskLeased, UpdatedAt := now E\<rparr>) (Devices t)\<rparr>) \<and>
        s' = s\<lparr>tasks := mput i (t\<lparr>Devices := mput d (v\<lparr>Status := TaskLeased, UpdatedAt := now E\<rparr>) (Devices t)\<rparr>)
               (tasks s)\<rparr>)"
  by (auto simp: ClaimTask_def Let_def is_zero_def not_less split: option.splits if_splits)

lemma claimed_gone:
  assumes "claims s e k"
  shows "queued s k \<and> \<not> queued (exec_op e s) k"
proof -
  obtain E i d where e: "e = (E, OpClaimTask i d)" "k = (i, d)"
    using assms by (cases "(s, e, k)" rule: claims.cases) auto
  with assms obtain t' where "ClaimTask E i d s = (Inr t', snd (ClaimTask E i d s))"
    by (cases "fst (ClaimTask E i d s)") (auto simp: prod_eq_iff)
  then show ?thesis
    unfolding ClaimTask_Inr by (auto simp: e queued_def task_status_def TaskLeased_def TaskQueued_def)
qed

lemma not_queued_stays:
  assumes "\<not> queued s k" "\<not> enqueues s e k"
  shows "\<not> queued (exec_op e s) k"
proof (cases e)
  case (Pair E op)
  obtain i d where k: "k = (i, d)" by (cases k)
  show ?thesis
  proof (cases op)
    case (OpCreateTask t)
    with assms show ?thesis
      by (auto simp: Pair k queued_def task_status_def CreateTask_def Let_def split: option.splits if_splits)
  next
    case (OpClaimTask a b)
    with assms show ?thesis
      by (auto simp: Pair k queued_def task_status_def ClaimTask_def Let_def task_status_defs
          split: option.splits if_splits)
  next
    case (OpSetTaskStatus a b c r)
    with assms show ?thesis
      by (auto simp: Pair k queued_def task_status_def SetTaskStatus_def Let_def split: option.splits if_splits)
  next
    case (OpMarkLeasedUnknown a)
    with assms show ?thesis
      by (auto simp: Pair k queued_def task_status_def MarkLeasedUnknown_def mark_unknown_def task_status_defs
          split: option.splits if_splits)
  next
    case (OpClean a)
    with assms show ?thesis
      by (auto simp: Pair k queued_def task_status_def Clean_def expire_task_def task_status_defs
          split: option.splits if_splits)
  qed (use assms tasks_frame [of op E s] in \<open>simp_all add: Pair queued_def task_status_def\<close>)
qed

interpretation task_once: once exec_op op_ok store_ok queued claims enqueues
  by unfold_locales (auto simp: claimed_gone not_queued_stays)

section \<open>Deployment credentials\<close>

definition revoked :: "string \<Rightarrow> store \<Rightarrow> bool" where
  "revoked cid s \<longleftrightarrow> (case map_of (deploymentCredentials s) cid of
     None \<Rightarrow> False | Some c \<Rightarrow> RevokedAt c \<noteq> None \<and> dc_ID c = cid)"

text \<open>The event does not draw the identifier \<open>cid\<close> for a new credential.\<close>

fun keeps_id :: "string \<Rightarrow> env \<times> store_op \<Rightarrow> store \<Rightarrow> bool" where
  "keeps_id cid (E, OpCreateDeploymentCredential n a t) s = (randomID E 0 \<noteq> cid)"
| "keeps_id cid (E, _) s = True"

lemma revoked_stays:
  assumes "revoked cid s \<and> credentials_ok s" "keeps_id cid e s"
  shows "revoked cid (exec_op e s) \<and> credentials_ok (exec_op e s)"
proof (cases e)
  case (Pair E op)
  have "revoked cid (exec_op e s)"
  proof (cases "on_credentials op")
    case True
    with assms show ?thesis
    proof (cases op)
      case (OpIssueDeploymentEnrollment a b c)
      with assms credentials_okD [of s] show ?thesis
        by (auto simp: Pair revoked_def IssueDeploymentEnrollment_def auditLocked_def Let_def active_def
            split: option.splits)
    qed (auto simp: Pair revoked_def CreateDeploymentCredential_def RevokeDeploymentCredential_def
        CreateEnrollment_def ExchangeEnrollment_def Clean_def auditLocked_def Let_def split: option.splits)
  next
    case False
    with assms credentials_frame [OF False, of E s] show ?thesis by (simp add: Pair revoked_def)
  qed
  with assms credentials_keep show ?thesis by (simp add: Pair)
qed

interpretation revocation: machine exec_op "keeps_id cid" "\<lambda>s. revoked cid s \<and> credentials_ok s" for cid
  by unfold_locales (rule revoked_stays)

lemma RevokeDeploymentCredential_revoked:
  "credentials_ok s \<Longrightarrow> RevokeDeploymentCredential E cid actor s = (Inr c, s') \<Longrightarrow>
   revoked cid s' \<and> credentials_ok s'"
  using credentials_keep [of s E "OpRevokeDeploymentCredential cid actor"] credentials_okD [of s cid]
  by (auto simp: revoked_def RevokeDeploymentCredential_def auditLocked_def Let_def
      split: option.splits if_splits)

lemma revoked_no_issue:
  "revoked cid s \<Longrightarrow> split_on (CHR ''.'') token = [''scd'', cid, secret] \<Longrightarrow>
   \<exists>e. IssueDeploymentEnrollment E token deviceID ttl s = (Inl e, s)"
  by (auto simp: IssueDeploymentEnrollment_def Let_def revoked_def active_def split: option.splits)

lemma revoked_no_exchange:
  "revoked cid s \<Longrightarrow> cid \<noteq> '''' \<Longrightarrow> map_of (enrollments s) (tokenDigest E token) = Some e \<Longrightarrow>
   DeploymentCredentialID e = cid \<Longrightarrow> ExchangeEnrollment E token deviceID s = (Inl ErrInvalidToken, s)"
  by (auto simp: ExchangeEnrollment_def revoked_def active_def split: option.splits)

lemma credential_token_parts:
  "split_on (CHR ''.'') (''scd.'' @ randomID E 0 @ ''.'' @ randomToken E 1) =
     [''scd'', randomID E 0, randomToken E 1]"
proof -
  have "split_on (CHR ''.'') (join_with [CHR ''.''] [''scd'', randomID E 0, randomToken E 1]) =
    [''scd'', randomID E 0, randomToken E 1]"
    by (rule split_on_join) (auto simp: randomID_no_dot randomToken_no_dot)
  then show ?thesis by simp
qed

lemma IssueDeploymentEnrollment_valid:
  assumes "split_on (CHR ''.'') token = [''scd'', cid, secret]"
    and "map_of (deploymentCredentials s) cid = Some c" "active c (now E)" "TokenHash c = tokenDigest E token"
    and "trim_space d \<noteq> ''''" "length d \<le> 128" "\<forall>x \<in> set d. x \<notin> {CHR 0x00, CHR 0x0D, CHR 0x0A}"
    and "0 < ttl" "ttl \<le> maxDeploymentEnrollmentTTL"
  shows "\<exists>s'. IssueDeploymentEnrollment E token d ttl s =
    (Inr \<lparr>e_Token = randomToken E 0,
          e_ExpiresAt = (case dc_ExpiresAt c of Some x \<Rightarrow> min x (now E + ttl) | None \<Rightarrow> now E + ttl),
          e_DeviceID = d, DeploymentCredentialID = dc_ID c\<rparr>, s')"
  using assms by (auto simp: IssueDeploymentEnrollment_def Let_def list_ex_iff min_def split: option.splits)

section \<open>Shares\<close>

lemma AuthorizeShare_Inr:
  "AuthorizeShare E token password s = (Inr h, s') \<longleftrightarrow>
     s' = s \<and> map_of (shares s) token = Some h \<and> \<not> after_opt (now E) (sh_ExpiresAt h) \<and>
     (sh_PasswordHash h = '''' \<or> cmp_hash E (sh_PasswordHash h) password)"
  by (auto simp: AuthorizeShare_def split: option.splits)

lemma SharesFor_set:
  "mok (shares s) \<Longrightarrow> h \<in> set (fst (SharesFor E d s)) \<longleftrightarrow>
     (\<exists>k. map_of (shares s) k = Some h) \<and> \<not> after_opt (now E) (sh_ExpiresAt h) \<and> (d = '''' \<or> sh_DeviceID h = d)"
  by (auto simp: SharesFor_def Let_def image_iff map_of_eq_Some_iff Bex_def)

section \<open>A concrete store\<close>

text \<open>
  An environment and a store in which the hypotheses of the properties are met: SHA-256 is
  replaced by the identity on bytes, the password hash by a prefix.
\<close>

definition demo_env :: "time \<Rightarrow> byte \<Rightarrow> env" where
  "demo_env t b =
     \<lparr>now = t, rand = (\<lambda>k. b # replicate 23 (of_nat k)), sha256 = bytes,
      gen_hash = (\<lambda>p. Some (CHR ''h'' # p)), cmp_hash = (\<lambda>h p. h = CHR ''h'' # p)\<rparr>"

lemma demo_env_sel [simp]:
  "now (demo_env t b) = t" "gen_hash (demo_env t b) p = Some (CHR ''h'' # p)"
  "cmp_hash (demo_env t b) h p \<longleftrightarrow> h = CHR ''h'' # p" "sha256 (demo_env t b) = bytes"
  by (simp_all add: demo_env_def)

definition demo_store :: store where
  "demo_store = snd (CreateUser (demo_env 10 1) ''root'' ''secret'' RoleAdmin [] empty_store)"

lemma trim_root: "trim_space ''root'' = ''root''"
  by (rule trim_space_id) (simp_all add: plain_char_def less_eq_char_def)

lemma demo_store_new: "NewMemoryStore (demo_env 10 1) ''root'' ''secret'' = Inr demo_store"
  by (simp add: NewMemoryStore_def demo_store_def CreateUser_def trim_root empty_store_def Let_def)

lemma demo_store_ok: "store_ok demo_store"
  by (rule NewMemoryStore_ok [OF demo_store_new])

lemma demo_store_fields:
  "enrollments demo_store = []" "deploymentCredentials demo_store = []" "tasks demo_store = []"
  "shares demo_store = []" "agentCredentials demo_store = []"
  by (simp_all add: demo_store_def CreateUser_def trim_root empty_store_def Let_def)

section \<open>Properties\<close>



text \<open>C2. An enrollment token is exchanged at most once: in every run of the store in which no later
  enrollment gets the same token digest, at most one exchange of that digest succeeds, however
  the calls of concurrent agents interleave.\<close>

theorem enrollment_exchanged_once:
  assumes "store_ok s" "admissible exec_op op_ok s es" "never exec_op enrolls k s es"
  shows "takes_in exec_op exchanges k s es \<le> 1"
  using assms by (rule enrollment_once.taken_once)

theorem enrollment_exchanged_once_witness:
  "takes_in exec_op exchanges (tokenDigest (demo_env 1 1) ''t'') demo_store
     [(demo_env 20 2, OpExchangeEnrollment ''t'' ''d1''), (demo_env 30 3, OpExchangeEnrollment ''t'' ''d2'')] \<le> 1"
  by (rule enrollment_exchanged_once) (simp_all add: demo_store_ok)

text \<open>C3. A queued task is claimed at most once per device: in every run in which the task is not created
  anew and its status is not set back to queued, at most one claim of it by that device succeeds.\<close>

theorem task_claimed_once:
  assumes "store_ok s" "admissible exec_op op_ok s es" "never exec_op enqueues (taskID, deviceID) s es"
  shows "takes_in exec_op claims (taskID, deviceID) s es \<le> 1"
  using assms by (rule task_once.taken_once)

theorem task_claimed_once_witness:
  "takes_in exec_op claims (''t1'', ''d1'') demo_store
     [(demo_env 20 2, OpClaimTask ''t1'' ''d1''), (demo_env 30 3, OpClaimTask ''t1'' ''d1''),
      (demo_env 40 4, OpSetTaskStatus ''t1'' ''d1'' TaskRunning ''''), (demo_env 50 5, OpClaimTask ''t1'' ''d1'')] \<le> 1"
  by (rule task_claimed_once) (simp_all add: demo_store_ok TaskRunning_def TaskQueued_def)

text \<open>A successful exchange needs an unexpired enrollment, for this device if it names one, whose
  issuing credential, if any, is still active; it consumes the enrollment, and the agent token it
  returns is valid for exactly that device afterwards.\<close>

theorem exchange_gives_agent_token:
  assumes "ExchangeEnrollment E token deviceID s = (Inr c, s')"
  shows "(\<exists>e. map_of (enrollments s) (tokenDigest E token) = Some e \<and> now E < e_ExpiresAt e \<and>
        (e_DeviceID e = '''' \<or> e_DeviceID e = deviceID) \<and>
        (DeploymentCredentialID e = '''' \<or>
          (\<exists>i. map_of (deploymentCredentials s) (DeploymentCredentialID e) = Some i \<and> active i (now E)))) \<and>
     map_of (enrollments s') (tokenDigest E token) = None \<and>
     (\<forall>d. ValidateAgentToken E (ac_Token c) d s' \<longleftrightarrow> d = deviceID)"
  using assms unfolding ExchangeEnrollment_Inr
  by (auto simp: ValidateAgentToken_def restrict_map_def)

definition demo_enrolled :: store where
  "demo_enrolled = demo_store\<lparr>enrollments :=
     [(tokenDigest (demo_env 20 2) ''tok'', \<lparr>e_Token = '''', e_ExpiresAt = 99, e_DeviceID = ''d1'',
        DeploymentCredentialID = ''''\<rparr>)]\<rparr>"

theorem exchange_gives_agent_token_witness:
  "\<exists>c s'. ExchangeEnrollment (demo_env 20 2) ''tok'' ''d1'' demo_enrolled = (Inr c, s') \<and>
     map_of (enrollments s') (tokenDigest (demo_env 20 2) ''tok'') = None \<and>
     (\<forall>d. ValidateAgentToken (demo_env 20 2) (ac_Token c) d s' \<longleftrightarrow> d = ''d1'')"
proof -
  let ?r = "ExchangeEnrollment (demo_env 20 2) ''tok'' ''d1'' demo_enrolled"
  obtain c where eq: "?r = (Inr c, snd ?r)"
    by (simp add: ExchangeEnrollment_def demo_enrolled_def Let_def)
  then show ?thesis using exchange_gives_agent_token [OF eq] by (intro exI [of _ c] exI [of _ "snd ?r"]) blast
qed

text \<open>The token returned with a new deployment credential issues device enrollments until the
  credential expires; the enrollment is bound to the device and to the credential and never
  outlives it.\<close>

theorem new_credential_issues:
  assumes "CreateDeploymentCredential E name actor ttl s = (Inr (c, token), s1)"
    and "sha256 E' = sha256 E" "ttl = 0 \<or> now E' < now E + ttl"
    and "trim_space d \<noteq> ''''" "length d \<le> 128" "\<forall>x \<in> set d. x \<notin> {CHR 0x00, CHR 0x0D, CHR 0x0A}"
    and "0 < t" "t \<le> maxDeploymentEnrollmentTTL"
  shows "\<exists>e s2. IssueDeploymentEnrollment E' token d t s1 = (Inr e, s2) \<and> e_DeviceID e = d \<and>
     DeploymentCredentialID e = dc_ID c \<and>
     e_ExpiresAt e = (if ttl = 0 then now E' + t else min (now E + ttl) (now E' + t))"
proof -
  from assms(1) have ttl: "0 \<le> ttl" and c: "c = \<lparr>dc_ID = randomID E 0, dc_Name = trim_space name,
      Scope = deploymentCredentialScope, dc_CreatedBy = actor, dc_CreatedAt = now E,
      dc_ExpiresAt = (if 0 < ttl then Some (now E + ttl) else None), RevokedAt = None, LastUsedAt = None\<rparr>"
    and token: "token = ''scd.'' @ randomID E 0 @ ''.'' @ randomToken E 1"
    and dc: "map_of (deploymentCredentials s1) (randomID E 0) =
      Some (DeploymentCredential.extend c (storedDeploymentCredential.fields (tokenDigest E token)))"
    by (auto simp: CreateDeploymentCredential_def auditLocked_def Let_def split: if_splits)
  have "tokenDigest E' token = tokenDigest E token" using assms(2) by (simp add: tokenDigest_def)
  with IssueDeploymentEnrollment_valid [OF credential_token_parts [of E, folded token] dc _ _ assms(4-8), of E']
  show ?thesis using assms(3) ttl
    by (auto simp: c active_def DeploymentCredential.defs storedDeploymentCredential.defs)
qed

theorem new_credential_issues_witness:
  "\<exists>c token s1 e s2. CreateDeploymentCredential (demo_env 10 7) ''root'' ''admin'' 0 demo_store = (Inr (c, token), s1) \<and>
     IssueDeploymentEnrollment (demo_env 20 8) token ''root'' 5 s1 = (Inr e, s2) \<and> e_DeviceID e = ''root'' \<and>
     DeploymentCredentialID e = dc_ID c \<and> e_ExpiresAt e = 25"
proof -
  let ?r = "CreateDeploymentCredential (demo_env 10 7) ''root'' ''admin'' 0 demo_store"
  have "rune_count ''root'' \<le> 80" using rune_count_le [of "''root''"] by simp
  then obtain c token where eq: "?r = (Inr (c, token), snd ?r)"
    by (simp add: CreateDeploymentCredential_def trim_root Let_def)
  from new_credential_issues [OF eq, of "demo_env 20 8" "''root''" 5]
  have "\<exists>e s2. IssueDeploymentEnrollment (demo_env 20 8) token ''root'' 5 (snd ?r) = (Inr e, s2) \<and>
    e_DeviceID e = ''root'' \<and> DeploymentCredentialID e = dc_ID c \<and> e_ExpiresAt e = 25"
    by (simp add: trim_root maxDeploymentEnrollmentTTL_def Minute_def)
  with eq show ?thesis by blast
qed

text \<open>C4. Revoking a deployment credential is final: in every state reached afterwards, by any operations
  that do not draw the same random identifier again, its token issues nothing and the enrollments
  it issued before cannot be exchanged any more.\<close>

theorem revoked_credential_dead:
  assumes "credentials_ok s" "RevokeDeploymentCredential E cid actor s = (Inr c, s1)" "cid \<noteq> ''''"
    and "admissible exec_op (keeps_id cid) s1 es"
  shows "let s2 = fold exec_op es s1 in
    (\<forall>E' token secret d ttl. split_on (CHR ''.'') token = [''scd'', cid, secret] \<longrightarrow>
       (\<exists>err. IssueDeploymentEnrollment E' token d ttl s2 = (Inl err, s2))) \<and>
    (\<forall>E' token e d. map_of (enrollments s2) (tokenDigest E' token) = Some e \<longrightarrow> DeploymentCredentialID e = cid \<longrightarrow>
       ExchangeEnrollment E' token d s2 = (Inl ErrInvalidToken, s2))"
proof -
  have "revoked cid (fold exec_op es s1)"
    using revocation.run_keeps [of cid s1 es] RevokeDeploymentCredential_revoked [OF assms(1,2)] assms(4) by blast
  then show ?thesis
    using revoked_no_issue revoked_no_exchange assms(3) unfolding Let_def by blast
qed

definition demo_credential :: store where
  "demo_credential = demo_store\<lparr>deploymentCredentials :=
     [(''c1'', \<lparr>dc_ID = ''c1'', dc_Name = ''n'', Scope = deploymentCredentialScope, dc_CreatedBy = ''root'',
        dc_CreatedAt = 1, dc_ExpiresAt = None, RevokedAt = None, LastUsedAt = None, TokenHash = ''x''\<rparr>)]\<rparr>"

theorem revoked_credential_dead_witness:
  "\<exists>c s1. RevokeDeploymentCredential (demo_env 10 1) ''c1'' ''root'' demo_credential = (Inr c, s1) \<and>
     (\<exists>err. IssueDeploymentEnrollment (demo_env 30 3) ''scd.c1.zz'' ''d'' 5 (TouchDevice (demo_env 20 2) ''d'' s1) =
        (Inl err, TouchDevice (demo_env 20 2) ''d'' s1))"
proof -
  let ?r = "RevokeDeploymentCredential (demo_env 10 1) ''c1'' ''root'' demo_credential"
  obtain c where eq: "?r = (Inr c, snd ?r)"
    by (simp add: RevokeDeploymentCredential_def demo_credential_def Let_def)
  have ok: "credentials_ok demo_credential"
    by (simp add: credentials_ok_def demo_credential_def demo_store_fields)
  have "split_on (CHR ''.'') ''scd.c1.zz'' = [''scd'', ''c1'', ''zz'']" by simp
  with revoked_credential_dead [OF ok eq, of "[(demo_env 20 2, OpTouchDevice ''d'')]"]
  have "\<exists>err. IssueDeploymentEnrollment (demo_env 30 3) ''scd.c1.zz'' ''d'' 5 (TouchDevice (demo_env 20 2) ''d'' (snd ?r)) =
    (Inl err, TouchDevice (demo_env 20 2) ''d'' (snd ?r))"
    by (simp add: Let_def)
  with eq show ?thesis by blast
qed

text \<open>The tasks announced to a device are exactly those it can claim: for a store whose tasks have an
  expiry, as every task made by \<open>createTask\<close> has, a task is in \<open>PendingTasks\<close> if and only if the
  device's \<open>ClaimTask\<close> succeeds at that moment, and then it leases the task.\<close>

theorem pending_iff_claimable:
  assumes "tasks_ok s" "\<forall>i t. map_of (tasks s) i = Some t \<longrightarrow> tk_ExpiresAt t \<noteq> 0"
  shows "i \<in> set (PendingTasks E d s) \<longleftrightarrow>
     (\<exists>t s'. ClaimTask E i d s = (Inr t, s') \<and> task_status s' (i, d) = Some TaskLeased)"
proof -
  have "i \<in> set (PendingTasks E d s) \<longleftrightarrow>
    (\<exists>t v. map_of (tasks s) i = Some t \<and> now E \<le> tk_ExpiresAt t \<and> map_of (Devices t) d = Some v \<and>
      Status v = TaskQueued)"
    (is "_ \<longleftrightarrow> (\<exists>t v. _ \<and> ?P t v)")
  proof -
    have mok: "mok (tasks s)" using assms(1) by (simp add: tasks_ok_def)
    have "i \<in> set (PendingTasks E d s) \<longleftrightarrow> (\<exists>t v. (i, t) \<in> set (tasks s) \<and> ?P t v)"
      by (force simp: PendingTasks_def not_less split: option.splits)
    then show ?thesis by (simp only: map_of_set [OF mok])
  qed
  also have "\<dots> \<longleftrightarrow> (\<exists>t s'. ClaimTask E i d s = (Inr t, s') \<and> task_status s' (i, d) = Some TaskLeased)"
    unfolding ClaimTask_Inr using assms(2) by (fastforce simp: task_status_def)
  finally show ?thesis .
qed

definition demo_task :: Task where
  "demo_task = \<lparr>tk_ID = ''t1'', Type = ''shell'', Payload = ''ls'', AssetID = '''', DestPath = '''',
     tk_CreatedBy = ''root'', tk_CreatedAt = 5, tk_ExpiresAt = 99,
     Devices = [(''d1'', \<lparr>td_DeviceID = ''d1'', Status = TaskQueued, Result = '''', UpdatedAt = 5\<rparr>)]\<rparr>"

definition demo_tasks :: store where
  "demo_tasks = demo_store\<lparr>tasks := [(''t1'', demo_task)]\<rparr>"

theorem pending_iff_claimable_witness:
  "''t1'' \<in> set (PendingTasks (demo_env 50 1) ''d1'' demo_tasks) \<longleftrightarrow>
     (\<exists>t s'. ClaimTask (demo_env 50 1) ''t1'' ''d1'' demo_tasks = (Inr t, s') \<and>
        task_status s' (''t1'', ''d1'') = Some TaskLeased)"
  by (rule pending_iff_claimable) (simp_all add: tasks_ok_def demo_tasks_def demo_task_def)

end
