(* ===== verification/Float64.thy ===== *)
theory Float64
  imports Prelude
begin

text \<open>
  IEEE 754 binary64 as the sources use it: a finite \<open>float64\<close> is the rational number it denotes, and
  an arithmetic operation is the exact operation followed by \<open>fl\<close>, rounding to the nearest
  representable number, ties to even. Magnitudes stay far below the overflow threshold in all
  uses here, so \<open>fl\<close> has no overflow case. \<open>math.Round\<close> rounds halves away from zero,
  \<open>math.Trunc\<close> and the conversion to an integer type truncate.
\<close>

definition exp2 :: "int \<Rightarrow> rat" where
  "exp2 e = (if 0 \<le> e then 2 ^ nat e else 1 / 2 ^ nat (- e))"

definition ilog2 :: "rat \<Rightarrow> int" where
  "ilog2 x =
     (let (p, q) = quotient_of x; k = int (floorlog 2 (nat p)) - int (floorlog 2 (nat q)) in
      if x < exp2 k then k - 1 else k)"

definition round_even :: "rat \<Rightarrow> int" where
  "round_even x =
     (let f = \<lfloor>x\<rfloor>; d = x - of_int f in
      if d < 1 / 2 then f else if 1 / 2 < d then f + 1 else if even f then f else f + 1)"

definition fl :: "rat \<Rightarrow> rat" where
  "fl x =
     (if x = 0 then 0
      else
        (let u = exp2 (max (ilog2 \<bar>x\<bar>) (-1022) - 52) in of_int (round_even (x / u)) * u))"

definition round_away :: "rat \<Rightarrow> int" where
  "round_away x = (if 0 \<le> x then \<lfloor>x + 1 / 2\<rfloor> else - \<lfloor>- x + 1 / 2\<rfloor>)"

definition trunc_rat :: "rat \<Rightarrow> int" where
  "trunc_rat x = (if 0 \<le> x then \<lfloor>x\<rfloor> else \<lceil>x\<rceil>)"

text \<open>\<open>Duration.Seconds\<close>: whole seconds plus the remaining nanoseconds divided by 1e9.\<close>

definition duration_seconds :: "duration \<Rightarrow> rat" where
  "duration_seconds d =
     (let sec = trunc_div d 1000000000; nsec = d - sec * 1000000000 in
      fl (fl (of_int sec) + fl (of_int nsec / 1000000000)))"

lemma exp2_pos [simp]: "0 < exp2 e"
  by (simp add: exp2_def)

lemma round_even_int [simp]: "round_even (of_int n) = n"
  by (simp add: round_even_def)

lemma round_even_mono: "x \<le> y \<Longrightarrow> round_even x \<le> round_even y"
proof -
  assume xy: "x \<le> y"
  then have f: "\<lfloor>x\<rfloor> \<le> \<lfloor>y\<rfloor>" by (rule floor_mono)
  show ?thesis
  proof (cases "\<lfloor>x\<rfloor> = \<lfloor>y\<rfloor>")
    case True
    with xy show ?thesis by (auto simp: round_even_def Let_def)
  next
    case False
    with f have "\<lfloor>x\<rfloor> + 1 \<le> \<lfloor>y\<rfloor>" by simp
    moreover have "round_even x \<le> \<lfloor>x\<rfloor> + 1" "\<lfloor>y\<rfloor> \<le> round_even y"
      by (simp_all add: round_even_def Let_def)
    ultimately show ?thesis by linarith
  qed
qed

lemma fl_0 [simp]: "fl 0 = 0"
  by (simp add: fl_def)

lemma fl_nonneg: "0 \<le> x \<Longrightarrow> 0 \<le> fl x"
proof -
  assume x: "0 \<le> x"
  have "round_even 0 \<le> round_even (x / exp2 e)" for e
    using x by (intro round_even_mono) (simp add: less_imp_le)
  moreover have "round_even 0 = 0" using round_even_int [of 0] by simp
  ultimately show ?thesis by (simp add: fl_def Let_def less_imp_le)
qed

section \<open>Rounding\<close>

lemma exp2_nat: "0 \<le> e \<Longrightarrow> exp2 e = 2 ^ nat e"
  by (simp add: exp2_def)

lemma exp2_powi: "exp2 e = 2 powi e"
  by (simp add: exp2_def power_int_def field_simps)

lemma exp2_add: "exp2 (a + b) = exp2 a * exp2 b"
  by (simp add: exp2_powi power_int_add)

lemma exp2_mono: "a \<le> b \<Longrightarrow> exp2 a \<le> exp2 b"
  by (simp add: exp2_powi power_int_increasing)

lemma exp2_less_cancel: "exp2 a < exp2 b \<Longrightarrow> a < b"
  using exp2_mono [of b a] by linarith

text \<open>\<open>ilog2\<close> is at most the binary logarithm.\<close>

lemma ilog2_le:
  assumes "0 < x"
  shows "exp2 (ilog2 x) \<le> x"
proof -
  obtain p q where pq: "quotient_of x = (p, q)" by (cases "quotient_of x")
  have q: "0 < q" using quotient_of_denom_pos [OF pq] .
  have x: "x = of_int p / of_int q" using quotient_of_div [OF pq] .
  have p: "0 < p" using assms q unfolding x by (simp add: zero_less_divide_iff)
  define fp fq where "fp = floorlog 2 (nat p)" and "fq = floorlog 2 (nat q)"
  have b: "2 ^ (fp - 1) \<le> nat p" "nat q \<le> 2 ^ fq"
    using floorlog_bounds [of "nat p" 2] floorlog_bounds [of "nat q" 2] p q by (simp_all add: fp_def fq_def)
  have "0 < fp" using p floorlog_eq_zero_iff [of 2 "nat p"] by (simp add: fp_def)
  have "(of_nat (2 ^ (fp - 1)) :: rat) \<le> of_nat (nat p)" "(of_nat (nat q) :: rat) \<le> of_nat (2 ^ fq)"
    using b by (simp_all only: of_nat_le_iff)
  then have P: "exp2 (int fp - 1) \<le> of_int p" and Q: "of_int q \<le> exp2 (int fq)"
    using p q \<open>0 < fp\<close> by (simp_all add: exp2_nat nat_diff_distrib)
  have "exp2 (int fp - int fq - 1) * exp2 (int fq) = exp2 (int fp - 1)" by (simp add: exp2_add [symmetric])
  then have "exp2 (int fp - int fq - 1) * of_int q \<le> of_int p"
    using mult_left_mono [OF Q, of "exp2 (int fp - int fq - 1)"] P by (simp add: less_imp_le)
  then have "exp2 (int fp - int fq - 1) \<le> x" using q unfolding x by (simp add: le_divide_eq)
  then show ?thesis unfolding ilog2_def pq by (auto simp: Let_def fp_def fq_def not_less)
qed

definition ulp :: "rat \<Rightarrow> rat" where
  "ulp x = exp2 (max (ilog2 \<bar>x\<bar>) (-1022) - 52)"

lemma ulp_pos [simp]: "0 < ulp x"
  by (simp add: ulp_def)

lemma fl_ulp: "x \<noteq> 0 \<Longrightarrow> fl x = of_int (round_even (x / ulp x)) * ulp x"
  by (simp add: fl_def ulp_def Let_def)

text \<open>Rounding does not leave the range below a small integer.\<close>

lemma fl_le_int:
  assumes "0 \<le> x" "x \<le> of_int n" "n < 2 ^ 53"
  shows "fl x \<le> of_int n"
proof (cases "x = 0")
  case False
  define k where "k = 52 - max (ilog2 \<bar>x\<bar>) (-1022)"
  have "(of_int n :: rat) < of_int (2 ^ 53)" using assms(3) by (simp only: of_int_less_iff)
  then have "of_int n < exp2 53" by (simp add: exp2_def)
  then have "exp2 (ilog2 \<bar>x\<bar>) < exp2 53" using ilog2_le [of "\<bar>x\<bar>"] False assms(1,2) by simp
  then have k: "0 \<le> k" using exp2_less_cancel by (force simp: k_def)
  have u: "ulp x * exp2 k = 1" by (simp add: ulp_def k_def exp2_add [symmetric] exp2_def)
  then have inv: "y / ulp x = y * exp2 k" for y
    using ulp_pos [of x] by (simp add: divide_eq_eq mult.assoc mult.commute [of "ulp x"] del: ulp_pos)
  have "round_even (x / ulp x) \<le> round_even (of_int n / ulp x)" using assms(2) by (intro round_even_mono divide_right_mono) (auto intro: less_imp_le)
  also have "of_int n / ulp x = of_int (n * 2 ^ nat k)" using k by (simp add: inv exp2_nat)
  finally have "round_even (x / ulp x) \<le> n * 2 ^ nat k" by (simp only: round_even_int)
  then have "(of_int (round_even (x / ulp x)) :: rat) \<le> of_int (n * 2 ^ nat k)" by (simp only: of_int_le_iff)
  then have "of_int (round_even (x / ulp x)) \<le> of_int n * exp2 k" using k by (simp add: exp2_nat)
  then have "of_int (round_even (x / ulp x)) * ulp x \<le> of_int n * exp2 k * ulp x" by (rule mult_right_mono) (simp add: less_imp_le)
  also have "\<dots> = of_int n * (ulp x * exp2 k)" by (simp add: mult.commute mult.left_commute)
  finally show ?thesis using u False by (simp add: fl_ulp)
qed (use assms in simp)

text \<open>Rounding makes a number larger by at most one part in $2^{52}$.\<close>

lemma round_even_upper: "of_int (round_even x) \<le> x + 1 / 2"
  by (simp add: round_even_def Let_def) linarith

lemma fl_relative:
  assumes "exp2 (-1022) \<le> x"
  shows "fl x \<le> x * (1 + exp2 (-52))"
proof -
  have x: "0 < x" using assms exp2_pos [of "-1022"] by linarith
  have "exp2 (max (ilog2 \<bar>x\<bar>) (-1022)) \<le> x" using ilog2_le [of x] assms x by (simp add: max_def)
  then have "ulp x \<le> x * exp2 (-52)" by (simp add: ulp_def exp2_add diff_conv_add_uminus del: add_uminus_conv_diff)
  have "fl x = of_int (round_even (x / ulp x)) * ulp x" using x by (simp add: fl_ulp)
  also have "\<dots> \<le> (x / ulp x + 1 / 2) * ulp x"
    by (rule mult_right_mono [OF round_even_upper]) (simp add: less_imp_le)
  also have "\<dots> = x + ulp x / 2" using ulp_pos [of x] by (simp add: field_simps del: ulp_pos)
  also have "\<dots> \<le> x + ulp x" using ulp_pos [of x] by (simp del: ulp_pos)
  also note \<open>ulp x \<le> _\<close>
  finally have "fl x \<le> x + x * exp2 (-52)" by simp
  then show ?thesis by (simp add: distrib_left)
qed

lemma fl_between: "0 \<le> x \<Longrightarrow> x \<le> of_int n \<Longrightarrow> n < 2 ^ 53 \<Longrightarrow> 0 \<le> fl x \<and> fl x \<le> of_int n"
  by (simp add: fl_nonneg fl_le_int)

lemma fl_unit: "0 \<le> x \<Longrightarrow> x \<le> 1 \<Longrightarrow> 0 \<le> fl x \<and> fl x \<le> 1"
  using fl_between [of x 1] by simp

lemma fl_int:
  assumes "0 \<le> n" "n < 2 ^ 53"
  shows "fl (of_int n) = of_int n"
proof (rule antisym)
  show "fl (of_int n) \<le> of_int n" using assms by (intro fl_le_int) auto
  show "of_int n \<le> fl (of_int n)"
  proof (cases "n = 0")
    case False
    define x :: rat where "x = of_int n"
    define k where "k = 52 - max (ilog2 \<bar>x\<bar>) (-1022)"
    have x: "0 < x" using False assms(1) by (simp add: x_def)
    have "x < of_int (2 ^ 53)" using assms(2) unfolding x_def by (simp only: of_int_less_iff)
    then have "exp2 (ilog2 \<bar>x\<bar>) < exp2 53" using ilog2_le [of "\<bar>x\<bar>"] x by (simp add: exp2_def [of 53])
    then have k: "0 \<le> k" using exp2_less_cancel by (force simp: k_def)
    have u: "ulp x * exp2 k = 1" by (simp add: ulp_def k_def exp2_add [symmetric] exp2_def)
    then have "x / ulp x = of_int (n * 2 ^ nat k)"
      using ulp_pos [of x] k by (simp add: divide_eq_eq mult.assoc mult.commute [of "2 ^ nat k"] exp2_nat x_def del: ulp_pos)
    then have "fl x = of_int (n * 2 ^ nat k) * ulp x" using x by (simp only: fl_ulp round_even_int)
    also have "\<dots> = x * (ulp x * exp2 k)" using k by (simp add: exp2_nat x_def)
    finally show ?thesis using u by (simp add: x_def)
  qed simp
qed

end
