(* ===== verification/Hub.thy ===== *)
theory Hub
  imports Model Store Contracts Float64
begin

text \<open>
  \<open>realtime.go\<close>, the hub half of \<open>audio_stream.go\<close> and \<open>deviceClients\<close> of \<open>telemetry.go\<close>: the
  registry of connected agents and browsers and the preview and audio subscriptions. A
  \<open>*browserPeer\<close> is represented by its random id; the objects themselves live in \<open>peers\<close>, which
  plays the part of the Go heap, so that a subscription and the registry share one object as
  they do in the source. A socket is a number; \<open>W\<close> says which sockets accept a write, and what an
  operation sends is returned as the list of the delivered frames.
\<close>

text \<open>
  The JSON messages of the server. \<open>MObj\<close> is a \<open>map[string]any\<close> of plain values; the messages with
  typed payloads have constructors of their own; \<open>MBad t\<close> is a message of type \<open>t\<close> from Redis whose
  payload does not decode.
\<close>

datatype message =
    MObj obj
  | MDevices "Device list"
  | MTask Task
  | MTags "Tag list" "string list gomap"
  | MConfig obj "DeviceInfo option"
  | MBad string

datatype out =
    Json nat message
  | Binary nat "byte list"
  | Close nat
  | PublishAgent string message
  | PublishBroadcast message

record browserPeer =
  bp_id :: string
  bp_user :: User
  bp_socket :: nat
  bp_deviceID :: string
  bp_viewOnly :: bool
  bp_accessToken :: string
  audioFrames :: "byte list list"

record previewRequest =
  order :: "64 word"
  message :: obj

record realtimeHub =
  agents :: "nat gomap"
  peers :: "browserPeer gomap"
  browsers :: "unit gomap"
  previewSubscribers :: "unit gomap gomap"
  previewRequests :: "previewRequest gomap gomap"
  previewOrder :: "64 word"
  audioSubscribers :: "unit gomap gomap"

definition newRealtimeHub :: realtimeHub where
  "newRealtimeHub = \<lparr>agents = [], peers = [], browsers = [], previewSubscribers = [], previewRequests = [],
     previewOrder = 0, audioSubscribers = []\<rparr>"

text \<open>Reading a map of maps: a missing key gives the nil map, which reads as empty.\<close>

definition sub :: "string \<Rightarrow> 'v gomap gomap \<Rightarrow> 'v gomap" where
  "sub k m = (case map_of m k of None \<Rightarrow> [] | Some x \<Rightarrow> x)"

text \<open>Deleting a key from an inner map, which is shared with the outer one; nothing happens on nil.\<close>

definition sub_delete :: "string \<Rightarrow> string \<Rightarrow> 'v gomap gomap \<Rightarrow> 'v gomap gomap" where
  "sub_delete k i m = (case map_of m k of None \<Rightarrow> m | Some x \<Rightarrow> mput k (mdel i x) m)"

definition withClient :: "obj \<Rightarrow> string \<Rightarrow> obj" where
  "withClient msg clientID = mput ''client_id'' (AStr clientID) (mover [] msg)"

section \<open>Browsers and agents\<close>

definition addBrowser :: "browserPeer \<Rightarrow> realtimeHub \<Rightarrow> realtimeHub" where
  "addBrowser peer h =
     h\<lparr>peers := mput (bp_id peer) peer (peers h), browsers := mput (bp_id peer) () (browsers h)\<rparr>"

text \<open>The loop of \<open>removeBrowser\<close> over the devices that the browser subscribed to.\<close>

definition drop_preview :: "string \<Rightarrow> string \<Rightarrow> realtimeHub \<Rightarrow> realtimeHub" where
  "drop_preview browserID deviceID h =
     (let h = h\<lparr>previewSubscribers := sub_delete deviceID browserID (previewSubscribers h),
                 previewRequests := sub_delete deviceID browserID (previewRequests h)\<rparr> in
      if sub deviceID (previewSubscribers h) = [] then
        h\<lparr>previewSubscribers := mdel deviceID (previewSubscribers h),
           previewRequests := mdel deviceID (previewRequests h)\<rparr>
      else h)"

definition preview_devices :: "string \<Rightarrow> realtimeHub \<Rightarrow> string list" where
  "preview_devices browserID h =
     map fst (filter (\<lambda>(_, subscribers). map_of subscribers browserID \<noteq> None) (previewSubscribers h))"

definition removeBrowser :: "string \<Rightarrow> realtimeHub \<Rightarrow> string list \<times> realtimeHub" where
  "removeBrowser browserID h =
     (let h = h\<lparr>browsers := mdel browserID (browsers h)\<rparr>;
          stopped = preview_devices browserID h
      in (stopped, fold (drop_preview browserID) stopped h))"

definition bindBrowser :: "string \<Rightarrow> string \<Rightarrow> realtimeHub \<Rightarrow> realtimeHub" where
  "bindBrowser browserID deviceID h =
     (if map_of (browsers h) browserID = None then h
      else case map_of (peers h) browserID of
        None \<Rightarrow> h
      | Some peer \<Rightarrow> h\<lparr>peers := mput browserID (peer\<lparr>bp_deviceID := deviceID\<rparr>) (peers h)\<rparr>)"

definition setAgent :: "string \<Rightarrow> nat \<Rightarrow> realtimeHub \<Rightarrow> nat option \<times> realtimeHub" where
  "setAgent deviceID peer h = (map_of (agents h) deviceID, h\<lparr>agents := mput deviceID peer (agents h)\<rparr>)"

definition removeAgent :: "string \<Rightarrow> nat \<Rightarrow> realtimeHub \<Rightarrow> bool \<times> realtimeHub" where
  "removeAgent deviceID peer h =
     (if map_of (agents h) deviceID = Some peer then (True, h\<lparr>agents := mdel deviceID (agents h)\<rparr>)
      else (False, h))"

text \<open>The peer objects that the registry holds, in the order of the iteration.\<close>

definition registered :: "realtimeHub \<Rightarrow> browserPeer list" where
  "registered h = List.map_filter (\<lambda>i. map_of (peers h) i) (mkeys (browsers h))"

definition sendAgent :: "(nat \<Rightarrow> bool) \<Rightarrow> string \<Rightarrow> message \<Rightarrow> realtimeHub \<Rightarrow> bool \<times> out list" where
  "sendAgent W deviceID msg h =
     (case map_of (agents h) deviceID of
        None \<Rightarrow> (False, [])
      | Some sock \<Rightarrow> if W sock then (True, [Json sock msg]) else (False, []))"

definition write_peer :: "(nat \<Rightarrow> bool) \<Rightarrow> message \<Rightarrow> browserPeer \<Rightarrow> out list" where
  "write_peer W msg peer = (if W (bp_socket peer) then [Json (bp_socket peer) msg] else [])"

definition sendBrowser :: "(nat \<Rightarrow> bool) \<Rightarrow> string \<Rightarrow> message \<Rightarrow> realtimeHub \<Rightarrow> bool \<times> out list" where
  "sendBrowser W browserID msg h =
     (if map_of (browsers h) browserID = None then (False, [])
      else case map_of (peers h) browserID of
        None \<Rightarrow> (False, [])
      | Some peer \<Rightarrow> (W (bp_socket peer), write_peer W msg peer))"

section \<open>Previews\<close>

definition subscribePreview :: "string \<Rightarrow> string \<Rightarrow> realtimeHub \<Rightarrow> realtimeHub" where
  "subscribePreview browserID deviceID h =
     (if map_of (browsers h) browserID = None then h
      else h\<lparr>previewSubscribers :=
              mput deviceID (mput browserID () (sub deviceID (previewSubscribers h))) (previewSubscribers h)\<rparr>)"

definition unsubscribePreview :: "string \<Rightarrow> string \<Rightarrow> realtimeHub \<Rightarrow> bool \<times> realtimeHub" where
  "unsubscribePreview browserID deviceID h =
     (case map_of (previewSubscribers h) deviceID of
        None \<Rightarrow> (False, h)
      | Some _ \<Rightarrow>
          (let h' = drop_preview browserID deviceID h in
           (map_of (previewSubscribers h') deviceID = None, h')))"

definition setPreviewRequest :: "string \<Rightarrow> string \<Rightarrow> obj \<Rightarrow> realtimeHub \<Rightarrow> realtimeHub" where
  "setPreviewRequest browserID deviceID msg h =
     (let n = previewOrder h + 1 in
      h\<lparr>previewOrder := n,
         previewRequests :=
           mput deviceID (mput browserID \<lparr>order = n, message = withClient msg browserID\<rparr>
             (sub deviceID (previewRequests h))) (previewRequests h)\<rparr>)"

definition foreground :: "previewRequest \<Rightarrow> bool" where
  "foreground r \<longleftrightarrow> map_of (message r) ''preview'' = Some (ABool False)"

definition beats :: "previewRequest \<Rightarrow> previewRequest \<Rightarrow> bool" where
  "beats r s \<longleftrightarrow> (foreground r \<and> \<not> foreground s) \<or> (foreground r = foreground s \<and> order s < order r)"

definition selectedPreviewRequest :: "string \<Rightarrow> realtimeHub \<Rightarrow> obj option" where
  "selectedPreviewRequest deviceID h =
     (let requests = map snd (sub deviceID (previewRequests h));
          awake = list_ex (\<lambda>r. map_of (message r) ''stay_awake'' = Some (ABool True)) requests
      in case select beats None requests of
           None \<Rightarrow> None
         | Some selected \<Rightarrow>
             Some (mput ''device_id'' (AStr deviceID) (mput ''stay_awake'' (ABool awake)
                (cloneMap (message selected)))))"

definition publishPreview :: "(nat \<Rightarrow> bool) \<Rightarrow> string \<Rightarrow> byte list \<Rightarrow> realtimeHub \<Rightarrow> out list" where
  "publishPreview W deviceID frame h =
     List.map_filter (\<lambda>i. case map_of (peers h) i of
         None \<Rightarrow> None
       | Some peer \<Rightarrow> if W (bp_socket peer) then Some (Binary (bp_socket peer) frame) else None)
       (mkeys (sub deviceID (previewSubscribers h)))"

section \<open>Audio\<close>

definition subscribeAudio :: "string \<Rightarrow> string \<Rightarrow> realtimeHub \<Rightarrow> realtimeHub" where
  "subscribeAudio browserID deviceID h =
     (if map_of (browsers h) browserID = None then h
      else h\<lparr>audioSubscribers :=
              mput deviceID (mput browserID () (sub deviceID (audioSubscribers h))) (audioSubscribers h)\<rparr>)"

definition drop_audio :: "string \<Rightarrow> string \<Rightarrow> realtimeHub \<Rightarrow> realtimeHub" where
  "drop_audio browserID deviceID h =
     (let h = h\<lparr>audioSubscribers := sub_delete deviceID browserID (audioSubscribers h)\<rparr> in
      if sub deviceID (audioSubscribers h) = []
      then h\<lparr>audioSubscribers := mdel deviceID (audioSubscribers h)\<rparr> else h)"

definition unsubscribeAudio :: "string \<Rightarrow> string \<Rightarrow> realtimeHub \<Rightarrow> bool \<times> realtimeHub" where
  "unsubscribeAudio browserID deviceID h =
     (if map_of (sub deviceID (audioSubscribers h)) browserID = None then (False, h)
      else
        (let h' = drop_audio browserID deviceID h in
         (map_of (audioSubscribers h') deviceID = None, h')))"

definition removeAudioBrowser :: "string \<Rightarrow> realtimeHub \<Rightarrow> string list \<times> realtimeHub" where
  "removeAudioBrowser browserID h =
     (let h' = fold (drop_audio browserID) (mkeys (audioSubscribers h)) h in
      (filter (\<lambda>d. map_of (audioSubscribers h') d = None) (mkeys (audioSubscribers h)), h'))"

text \<open>The channel \<open>audioFrames\<close> holds 5 frames; a full one loses its oldest frame.\<close>

definition audio_push :: "byte list \<Rightarrow> byte list list \<Rightarrow> byte list list" where
  "audio_push frame q = (if length q < 5 then q @ [frame] else tl q @ [frame])"

definition push_peer :: "byte list \<Rightarrow> string \<Rightarrow> realtimeHub \<Rightarrow> realtimeHub" where
  "push_peer frame browserID h =
     (case map_of (peers h) browserID of
        None \<Rightarrow> h
      | Some peer \<Rightarrow>
          h\<lparr>peers := mput browserID (peer\<lparr>audioFrames := audio_push frame (audioFrames peer)\<rparr>) (peers h)\<rparr>)"

definition publishAudio :: "string \<Rightarrow> byte list \<Rightarrow> realtimeHub \<Rightarrow> realtimeHub" where
  "publishAudio deviceID frame h = fold (push_peer frame) (mkeys (sub deviceID (audioSubscribers h))) h"

text \<open>One iteration of \<open>writeAudio\<close>: the oldest frame goes out; a failed write closes the socket.\<close>

definition writeAudio_step :: "(nat \<Rightarrow> bool) \<Rightarrow> string \<Rightarrow> realtimeHub \<Rightarrow> out list \<times> realtimeHub" where
  "writeAudio_step W browserID h =
     (case map_of (peers h) browserID of
        None \<Rightarrow> ([], h)
      | Some peer \<Rightarrow>
          (case audioFrames peer of
             [] \<Rightarrow> ([], h)
           | frame # rest \<Rightarrow>
               (if W (bp_socket peer) then [Binary (bp_socket peer) frame] else [Close (bp_socket peer)],
                h\<lparr>peers := mput browserID (peer\<lparr>audioFrames := rest\<rparr>) (peers h)\<rparr>)))"

section \<open>Broadcasts and presence\<close>

definition broadcast ::
  "(nat \<Rightarrow> bool) \<Rightarrow> (browserPeer \<Rightarrow> message \<Rightarrow> message option) \<Rightarrow> message \<Rightarrow> realtimeHub \<Rightarrow> out list" where
  "broadcast W flt msg h =
     concat (map (\<lambda>peer. case flt peer msg of None \<Rightarrow> [] | Some m \<Rightarrow> write_peer W m peer) (registered h))"

definition disconnectBrowsers :: "string \<Rightarrow> string \<Rightarrow> realtimeHub \<Rightarrow> out list" where
  "disconnectBrowsers username deviceID h =
     map (\<lambda>peer. Close (bp_socket peer))
       (filter (\<lambda>peer. Username (bp_user peer) = username \<and> (deviceID = '''' \<or> bp_deviceID peer = deviceID))
         (registered h))"

definition disconnectToken :: "string \<Rightarrow> realtimeHub \<Rightarrow> out list" where
  "disconnectToken digest h =
     map (\<lambda>peer. Close (bp_socket peer)) (filter (\<lambda>peer. bp_accessToken peer = digest) (registered h))"

record userPresence =
  up_User :: User
  up_Online :: bool
  ActiveDevices :: "string list"

definition usersWithPresence :: "User list \<Rightarrow> realtimeHub \<Rightarrow> userPresence list" where
  "usersWithPresence us h =
     map (\<lambda>u. let own = filter (\<lambda>peer. u_ID (bp_user peer) = u_ID u) (registered h) in
        \<lparr>up_User = u, up_Online = (own \<noteq> []),
         ActiveDevices = sort (remdups (map bp_deviceID
           (filter (\<lambda>peer. bp_deviceID peer \<noteq> '''' \<and> \<not> bp_viewOnly peer) own)))\<rparr>) us"

definition publishClipboard :: "(nat \<Rightarrow> bool) \<Rightarrow> string \<Rightarrow> message \<Rightarrow> realtimeHub \<Rightarrow> out list" where
  "publishClipboard W deviceID msg h =
     concat (map (write_peer W msg)
       (filter (\<lambda>peer. bp_deviceID peer = deviceID \<and> \<not> bp_viewOnly peer) (registered h)))"

text \<open>The name shown for visitors of a share (four Chinese characters in UTF-8).\<close>

definition guest_name :: string where
  "guest_name = [CHR 0xE5, CHR 0x88, CHR 0x86, CHR 0xE4, CHR 0xBA, CHR 0xAB, CHR 0xE8, CHR 0xAE, CHR 0xBF,
     CHR 0xE5, CHR 0xAE, CHR 0xA2]"

text \<open>\<open>int64(time.Until(t).Seconds())\<close>: the saturated difference in seconds as a \<open>float64\<close>, truncated.\<close>

definition remaining_seconds :: "time \<Rightarrow> time \<Rightarrow> int" where
  "remaining_seconds t n = trunc_rat (duration_seconds (time_sub t n))"

definition deviceClients :: "env \<Rightarrow> string \<Rightarrow> realtimeHub \<Rightarrow> obj list" where
  "deviceClients E deviceID h =
     map (\<lambda>peer.
         [(''name'', AStr (if Username (bp_user peer) = ''share'' then guest_name else Username (bp_user peer))),
          (''remaining_seconds'', AInt (case u_ExpiresAt (bp_user peer) of
             None \<Rightarrow> -1 | Some t \<Rightarrow> max 0 (remaining_seconds t (now E)))),
          (''view_only'', ABool (bp_viewOnly peer))])
       (filter (\<lambda>peer. bp_deviceID peer = deviceID) (registered h))"

end
