(* ===== verification/HubProps.thy ===== *)
theory HubProps
  imports Hub
begin

text \<open>
  The hub's invariant over all interleavings of its operations, and what it gives the server: no
  subscription outlives its browser, the preview request that reaches the agent does not depend
  on Go's map iteration order, and a slow audio listener gets the most recent frames.
\<close>

section \<open>Maps of maps\<close>

lemma sub_put [simp]: "sub k (mput d x m) = (if k = d then x else sub k m)"
  by (simp add: sub_def)

lemma sub_del [simp]: "sub k (mdel d m) = (if k = d then [] else sub k m)"
  by (simp add: sub_def restrict_map_def)

lemma sub_sub_delete [simp]: "sub k (sub_delete d i m) = (if k = d then mdel i (sub d m) else sub k m)"
  by (simp add: sub_delete_def sub_def split: option.split)

lemma mok_sub_delete [simp]: "mok m \<Longrightarrow> mok (sub_delete d i m)"
  by (simp add: sub_delete_def split: option.split)

lemma mok_sub: "(\<And>k x. map_of m k = Some x \<Longrightarrow> mok x) \<Longrightarrow> mok (sub d m)"
  by (simp add: sub_def split: option.split)

text \<open>\<open>inside m d i\<close>: the inner map of \<open>d\<close> has the key \<open>i\<close>.\<close>

definition inside :: "'v gomap gomap \<Rightarrow> string \<Rightarrow> string \<Rightarrow> bool" where
  "inside m d i \<longleftrightarrow> map_of (sub d m) i \<noteq> None"

definition nested_ok :: "'v gomap gomap \<Rightarrow> bool" where
  "nested_ok m \<longleftrightarrow> mok m \<and> (\<forall>d x. map_of m d = Some x \<longrightarrow> mok x \<and> x \<noteq> [])"

lemma nested_ok_put: "nested_ok m \<Longrightarrow> nested_ok (mput d (mput i v (sub d m)) m)"
proof -
  assume ok: "nested_ok m"
  have "mok (sub d m)" using ok by (intro mok_sub) (auto simp: nested_ok_def)
  moreover have "AList.update i v (sub d m) \<noteq> []" by (cases "sub d m") auto
  ultimately show ?thesis using ok by (simp add: nested_ok_def)
qed

lemma nested_ok_del: "nested_ok m \<Longrightarrow> nested_ok (mdel d m)"
  by (simp add: nested_ok_def restrict_map_def)

text \<open>Deleting an entry and then the inner map if it is empty, as the hub always does.\<close>

definition drop_entry :: "string \<Rightarrow> string \<Rightarrow> 'v gomap gomap \<Rightarrow> 'v gomap gomap" where
  "drop_entry i d m =
     (if sub d (sub_delete d i m) = [] then mdel d (sub_delete d i m) else sub_delete d i m)"

lemma sub_drop_entry [simp]: "sub k (drop_entry i d m) = (if k = d then mdel i (sub d m) else sub k m)"
  by (auto simp: drop_entry_def)

lemma inside_drop_entry [simp]: "inside (drop_entry i d m) k j \<longleftrightarrow> inside m k j \<and> \<not> (k = d \<and> j = i)"
  by (auto simp: inside_def restrict_map_def)

lemma nested_ok_drop_entry: "nested_ok m \<Longrightarrow> nested_ok (drop_entry i d m)"
proof -
  assume ok: "nested_ok m"
  have "mok (mdel i x)" if "map_of m d = Some x" for x
    using ok that by (simp add: nested_ok_def)
  with ok show ?thesis
    by (auto simp: nested_ok_def drop_entry_def sub_delete_def sub_def restrict_map_def split: option.splits if_splits)
qed

lemma inside_put [simp]: "inside (mput d (mput i v (sub d m)) m) k j \<longleftrightarrow> inside m k j \<or> (k = d \<and> j = i)"
  by (auto simp: inside_def)

lemma inside_del [simp]: "inside (mdel d m) k j \<longleftrightarrow> inside m k j \<and> k \<noteq> d"
  by (auto simp: inside_def)

lemma inside_sub_delete [simp]: "inside (sub_delete d i m) k j \<longleftrightarrow> inside m k j \<and> \<not> (k = d \<and> j = i)"
  by (auto simp: inside_def restrict_map_def)

section \<open>The invariant\<close>

definition requests_of :: "realtimeHub \<Rightarrow> string \<Rightarrow> previewRequest list" where
  "requests_of h d = map snd (sub d (previewRequests h))"

definition registry_ok :: "realtimeHub \<Rightarrow> bool" where
  "registry_ok h \<longleftrightarrow> mok (peers h) \<and> mok (browsers h) \<and> mok (agents h) \<and>
     (\<forall>i p. map_of (peers h) i = Some p \<longrightarrow> bp_id p = i \<and> length (audioFrames p) \<le> 5) \<and>
     (\<forall>i. map_of (browsers h) i \<noteq> None \<longrightarrow> map_of (peers h) i \<noteq> None)"

definition audio_ok :: "realtimeHub \<Rightarrow> bool" where
  "audio_ok h \<longleftrightarrow> nested_ok (audioSubscribers h) \<and>
     (\<forall>d i. inside (audioSubscribers h) d i \<longrightarrow> map_of (browsers h) i \<noteq> None)"

definition preview_ok :: "realtimeHub \<Rightarrow> bool" where
  "preview_ok h \<longleftrightarrow> nested_ok (previewSubscribers h) \<and> mok (previewRequests h) \<and>
     (\<forall>d. mok (sub d (previewRequests h))) \<and>
     (\<forall>d i. inside (previewSubscribers h) d i \<longrightarrow> map_of (browsers h) i \<noteq> None) \<and>
     (\<forall>d i. inside (previewRequests h) d i \<longrightarrow> inside (previewSubscribers h) d i)"

text \<open>No two requests carry the same order, and none one above the counter.\<close>

definition orders_ok :: "realtimeHub \<Rightarrow> bool" where
  "orders_ok h \<longleftrightarrow>
     (\<forall>d i r. map_of (sub d (previewRequests h)) i = Some r \<longrightarrow> order r \<le> previewOrder h) \<and>
     (\<forall>d e i j r t. map_of (sub d (previewRequests h)) i = Some r \<longrightarrow> map_of (sub e (previewRequests h)) j = Some t \<longrightarrow>
        order r = order t \<longrightarrow> d = e \<and> i = j)"

definition hub_ok :: "realtimeHub \<Rightarrow> bool" where
  "hub_ok h \<longleftrightarrow> registry_ok h \<and> audio_ok h \<and> preview_ok h \<and> orders_ok h"

text \<open>
  The events of the hub. \<open>Disconnect\<close> is the deferred function of \<open>connectClient\<close>, which drops the
  audio subscriptions, the registration and the preview subscriptions of a browser;
  \<open>StartPreview\<close> is the pair of calls that \<open>handleBrowserMessage\<close> makes.
\<close>

datatype hub_op =
    Connect browserPeer
  | Disconnect string
  | Bind string string
  | SetAgent string nat
  | RemoveAgent string nat
  | StartPreview string string obj
  | StopPreview string string
  | StartAudio string string
  | StopAudio string string
  | AudioFrame string "byte list"
  | WriteAudio "nat \<Rightarrow> bool" string

fun exec_hub :: "hub_op \<Rightarrow> realtimeHub \<Rightarrow> realtimeHub" where
  "exec_hub (Connect p) h = addBrowser p h"
| "exec_hub (Disconnect i) h = snd (removeBrowser i (snd (removeAudioBrowser i h)))"
| "exec_hub (Bind i d) h = bindBrowser i d h"
| "exec_hub (SetAgent d p) h = snd (setAgent d p h)"
| "exec_hub (RemoveAgent d p) h = snd (removeAgent d p h)"
| "exec_hub (StartPreview i d m) h = setPreviewRequest i d m (subscribePreview i d h)"
| "exec_hub (StopPreview i d) h = snd (unsubscribePreview i d h)"
| "exec_hub (StartAudio i d) h = subscribeAudio i d h"
| "exec_hub (StopAudio i d) h = snd (unsubscribeAudio i d h)"
| "exec_hub (AudioFrame d f) h = publishAudio d f h"
| "exec_hub (WriteAudio W i) h = snd (writeAudio_step W i h)"

text \<open>
  A new peer has a fresh id and an empty channel; a preview is started by a connected browser, and
  the 64-bit order counter has not reached its end.
\<close>

fun hub_op_ok :: "hub_op \<Rightarrow> realtimeHub \<Rightarrow> bool" where
  "hub_op_ok (Connect p) h = (map_of (peers h) (bp_id p) = None \<and> audioFrames p = [])"
| "hub_op_ok (StartPreview i d m) h = (map_of (browsers h) i \<noteq> None \<and> previewOrder h \<noteq> - 1)"
| "hub_op_ok _ h = True"

lemma drop_audio_eq: "drop_audio i d h = h\<lparr>audioSubscribers := drop_entry i d (audioSubscribers h)\<rparr>"
  by (simp add: drop_audio_def drop_entry_def Let_def)

lemma drop_preview_subscribers:
  "previewSubscribers (drop_preview i d h) = drop_entry i d (previewSubscribers h)"
  "browsers (drop_preview i d h) = browsers h" "peers (drop_preview i d h) = peers h"
  "agents (drop_preview i d h) = agents h" "audioSubscribers (drop_preview i d h) = audioSubscribers h"
  "previewOrder (drop_preview i d h) = previewOrder h"
  by (simp_all add: drop_preview_def drop_entry_def Let_def)

lemma drop_preview_requests:
  "map_of (sub k (previewRequests (drop_preview i d h))) j = Some r \<Longrightarrow>
     map_of (sub k (previewRequests h)) j = Some r \<and> \<not> (k = d \<and> j = i)"
  "mok (previewRequests h) \<Longrightarrow> mok (previewRequests (drop_preview i d h))"
  "mok (sub k (previewRequests h)) \<Longrightarrow> mok (sub k (previewRequests (drop_preview i d h)))"
  by (auto simp: drop_preview_def Let_def restrict_map_def split: if_splits)

section \<open>Preservation\<close>

text \<open>The hub operations that only touch one group of fields.\<close>

lemma push_peer_frame [simp]:
  "browsers (push_peer f i h) = browsers h" "agents (push_peer f i h) = agents h"
  "previewSubscribers (push_peer f i h) = previewSubscribers h" "previewRequests (push_peer f i h) = previewRequests h"
  "previewOrder (push_peer f i h) = previewOrder h" "audioSubscribers (push_peer f i h) = audioSubscribers h"
  by (simp_all add: push_peer_def split: option.split)

lemma fold_push_frame [simp]:
  "browsers (fold (push_peer f) is h) = browsers h" "agents (fold (push_peer f) is h) = agents h"
  "previewSubscribers (fold (push_peer f) is h) = previewSubscribers h"
  "previewRequests (fold (push_peer f) is h) = previewRequests h"
  "previewOrder (fold (push_peer f) is h) = previewOrder h"
  "audioSubscribers (fold (push_peer f) is h) = audioSubscribers h"
  by (induction "is" arbitrary: h) simp_all

lemma audio_push_length: "length q \<le> 5 \<Longrightarrow> length (audio_push f q) \<le> 5"
  by (auto simp: audio_push_def)

lemma push_peer_registry: "registry_ok h \<Longrightarrow> registry_ok (push_peer f i h)"
  using audio_push_length by (auto simp: registry_ok_def push_peer_def split: option.split)

lemma fold_push_registry: "registry_ok h \<Longrightarrow> registry_ok (fold (push_peer f) is h)"
  by (induction "is" arbitrary: h) (simp_all add: push_peer_registry)

lemma fold_drop_audio:
  "fold (drop_audio i) ds h = h\<lparr>audioSubscribers := fold (drop_entry i) ds (audioSubscribers h)\<rparr>"
  by (induction ds arbitrary: h) (simp_all add: drop_audio_eq)

lemma fold_drop_entry:
  "nested_ok m \<Longrightarrow> nested_ok (fold (drop_entry i) ds m)"
  "inside (fold (drop_entry i) ds m) k j \<longleftrightarrow> inside m k j \<and> \<not> (k \<in> set ds \<and> j = i)"
  by (induction ds arbitrary: m) (auto simp: nested_ok_drop_entry)

lemma removeAudioBrowser_subs:
  "snd (removeAudioBrowser i h) =
     h\<lparr>audioSubscribers := fold (drop_entry i) (mkeys (audioSubscribers h)) (audioSubscribers h)\<rparr>"
  by (simp add: removeAudioBrowser_def Let_def fold_drop_audio)

lemma inside_key: "inside m d i \<Longrightarrow> d \<in> set (mkeys m)"
  by (force simp: inside_def sub_def split: option.splits dest: map_of_SomeD)

lemma removeAudioBrowser_inside:
  "inside (audioSubscribers (snd (removeAudioBrowser i h))) d j \<longleftrightarrow> inside (audioSubscribers h) d j \<and> j \<noteq> i"
  using inside_key [of "audioSubscribers h" d j] by (auto simp: removeAudioBrowser_subs fold_drop_entry)

lemma fold_drop_preview:
  "previewSubscribers (fold (drop_preview i) ds h) = fold (drop_entry i) ds (previewSubscribers h)"
  "browsers (fold (drop_preview i) ds h) = browsers h" "peers (fold (drop_preview i) ds h) = peers h"
  "agents (fold (drop_preview i) ds h) = agents h"
  "audioSubscribers (fold (drop_preview i) ds h) = audioSubscribers h"
  "previewOrder (fold (drop_preview i) ds h) = previewOrder h"
  by (induction ds arbitrary: h) (simp_all add: drop_preview_subscribers)

lemma fold_drop_requests:
  "map_of (sub k (previewRequests (fold (drop_preview i) ds h))) j = Some r \<Longrightarrow>
     map_of (sub k (previewRequests h)) j = Some r \<and> \<not> (k \<in> set ds \<and> j = i)"
proof (induction ds arbitrary: h)
  case (Cons d ds)
  then show ?case using drop_preview_requests(1) [of k i d h j r] by fastforce
qed simp

lemma fold_drop_requests_mok:
  "mok (previewRequests h) \<Longrightarrow> mok (previewRequests (fold (drop_preview i) ds h))"
  "mok (sub k (previewRequests h)) \<Longrightarrow> mok (sub k (previewRequests (fold (drop_preview i) ds h)))"
  by (induction ds arbitrary: h) (simp_all add: drop_preview_requests)

lemma preview_devices_set: "d \<in> set (preview_devices i h) \<longleftrightarrow> inside (previewSubscribers h) d i"
  if "mok (previewSubscribers h)"
proof -
  have "d \<in> set (preview_devices i h) \<longleftrightarrow> (\<exists>x. (d, x) \<in> set (previewSubscribers h) \<and> map_of x i \<noteq> None)"
    by (force simp: preview_devices_def)
  also have "\<dots> \<longleftrightarrow> (\<exists>x. map_of (previewSubscribers h) d = Some x \<and> map_of x i \<noteq> None)"
    by (simp only: map_of_set [OF that])
  also have "\<dots> \<longleftrightarrow> inside (previewSubscribers h) d i"
    by (simp add: inside_def sub_def split: option.split)
  finally show ?thesis .
qed

lemma removeBrowser_inside:
  assumes "mok (previewSubscribers h)"
  shows "inside (previewSubscribers (snd (removeBrowser i h))) d j \<longleftrightarrow> inside (previewSubscribers h) d j \<and> j \<noteq> i"
  using assms preview_devices_set [of "h\<lparr>browsers := mdel i (browsers h)\<rparr>" d i]
  by (auto simp: removeBrowser_def Let_def fold_drop_preview fold_drop_entry)

lemma removeBrowser_requests:
  assumes "map_of (sub d (previewRequests (snd (removeBrowser i h)))) j = Some r"
  shows "map_of (sub d (previewRequests h)) j = Some r"
  using fold_drop_requests [of d i "preview_devices i (h\<lparr>browsers := mdel i (browsers h)\<rparr>)"
      "h\<lparr>browsers := mdel i (browsers h)\<rparr>" j r] assms
  by (simp add: removeBrowser_def Let_def)

lemma registry_keep:
  assumes "registry_ok h" "hub_op_ok op h"
  shows "registry_ok (exec_hub op h)"
proof (cases op)
  case (AudioFrame d f)
  with assms show ?thesis by (simp add: publishAudio_def fold_push_registry)
next
  case (Disconnect i)
  with assms show ?thesis
    by (simp add: registry_ok_def removeBrowser_def removeAudioBrowser_subs Let_def fold_drop_preview restrict_map_def)
next
  case (StopPreview i d)
  with assms show ?thesis
    by (simp add: registry_ok_def unsubscribePreview_def drop_preview_subscribers Let_def split: option.split)
next
  case (WriteAudio W i)
  with assms show ?thesis
    by (auto simp: registry_ok_def writeAudio_step_def split: option.split list.split) (metis Suc_leD length_Cons)
qed (use assms in \<open>auto simp: registry_ok_def addBrowser_def bindBrowser_def setAgent_def removeAgent_def
      subscribePreview_def setPreviewRequest_def subscribeAudio_def unsubscribeAudio_def drop_audio_eq Let_def
      split: option.split\<close>)

lemma audio_keep:
  assumes "audio_ok h"
  shows "audio_ok (exec_hub op h)"
proof (cases op)
  case (Disconnect i)
  have "nested_ok (audioSubscribers (snd (removeAudioBrowser i h)))"
    using assms by (simp add: audio_ok_def removeAudioBrowser_subs fold_drop_entry)
  moreover have "audioSubscribers (snd (removeBrowser i g)) = audioSubscribers g"
    "browsers (snd (removeBrowser i g)) = mdel i (browsers g)" for g
    by (simp_all add: removeBrowser_def Let_def fold_drop_preview)
  moreover have "browsers (snd (removeAudioBrowser i h)) = browsers h" by (simp add: removeAudioBrowser_subs)
  ultimately show ?thesis
    using assms by (auto simp: Disconnect audio_ok_def removeAudioBrowser_inside restrict_map_def)
next
  case (StartAudio i d)
  with assms show ?thesis by (auto simp: audio_ok_def subscribeAudio_def nested_ok_put)
next
  case (StopAudio i d)
  with assms show ?thesis
    by (auto simp: audio_ok_def unsubscribeAudio_def drop_audio_eq Let_def nested_ok_drop_entry)
next
  case (StopPreview i d)
  with assms show ?thesis
    by (simp add: audio_ok_def unsubscribePreview_def drop_preview_subscribers Let_def split: option.split)
next
  case (AudioFrame d f)
  with assms show ?thesis by (simp add: audio_ok_def publishAudio_def)
next
  case (WriteAudio W i)
  with assms show ?thesis by (simp add: audio_ok_def writeAudio_step_def split: option.split list.split)
qed (use assms in \<open>simp_all add: audio_ok_def addBrowser_def bindBrowser_def setAgent_def removeAgent_def
      subscribePreview_def setPreviewRequest_def Let_def split: option.split\<close>)

lemma inside_requests: "inside m d i \<longleftrightarrow> (\<exists>r. map_of (sub d m) i = Some r)"
  by (auto simp: inside_def)

lemma drop_preview_ok:
  assumes "preview_ok h"
  shows "preview_ok (drop_preview i d h)"
  unfolding preview_ok_def
proof (intro conjI allI)
  show "nested_ok (previewSubscribers (drop_preview i d h))"
    using assms by (simp add: preview_ok_def drop_preview_subscribers nested_ok_drop_entry)
  show "mok (previewRequests (drop_preview i d h))" "mok (sub k (previewRequests (drop_preview i d h)))" for k
    using assms drop_preview_requests(2,3) by (auto simp: preview_ok_def)
  fix k j
  show "inside (previewSubscribers (drop_preview i d h)) k j \<longrightarrow> map_of (browsers (drop_preview i d h)) j \<noteq> None"
    using assms by (auto simp: preview_ok_def drop_preview_subscribers)
  show "inside (previewRequests (drop_preview i d h)) k j \<longrightarrow> inside (previewSubscribers (drop_preview i d h)) k j"
  proof
    assume "inside (previewRequests (drop_preview i d h)) k j"
    then obtain r where "map_of (sub k (previewRequests (drop_preview i d h))) j = Some r"
      by (auto simp: inside_requests)
    from drop_preview_requests(1) [OF this] assms
    show "inside (previewSubscribers (drop_preview i d h)) k j"
      by (auto simp: preview_ok_def inside_requests [of "previewRequests h"] drop_preview_subscribers)
  qed
qed

lemma preview_keep:
  assumes "preview_ok h" "hub_op_ok op h"
  shows "preview_ok (exec_hub op h)"
proof (cases op)
  case (Disconnect i)
  let ?g = "snd (removeAudioBrowser i h)"
  have g: "preview_ok ?g" "browsers ?g = browsers h"
    using assms by (simp_all add: preview_ok_def removeAudioBrowser_subs)
  have mok: "mok (previewSubscribers ?g)" using g(1) by (simp add: preview_ok_def nested_ok_def)
  have "inside (previewSubscribers (snd (removeBrowser i ?g))) d j"
    if r: "map_of (sub d (previewRequests (snd (removeBrowser i ?g)))) j = Some r" for d j r
  proof -
    have "inside (previewSubscribers ?g) d j"
      using removeBrowser_requests [OF r] g(1) by (auto simp: preview_ok_def inside_requests)
    moreover have "j \<noteq> i"
    proof
      assume "j = i"
      with \<open>inside (previewSubscribers ?g) d j\<close> have "d \<in> set (preview_devices i (?g\<lparr>browsers := mdel i (browsers ?g)\<rparr>))"
        using mok by (simp add: preview_devices_set)
      with r \<open>j = i\<close> show False
        using fold_drop_requests [of d i _ "?g\<lparr>browsers := mdel i (browsers ?g)\<rparr>" j r]
        by (auto simp: removeBrowser_def Let_def)
    qed
    ultimately show ?thesis by (simp add: removeBrowser_inside mok)
  qed
  moreover have "nested_ok (previewSubscribers (snd (removeBrowser i ?g)))"
    using g(1) by (simp add: removeBrowser_def Let_def fold_drop_preview fold_drop_entry preview_ok_def)
  moreover have "mok (previewRequests (snd (removeBrowser i ?g)))"
    "mok (sub d (previewRequests (snd (removeBrowser i ?g))))" for d
    using g(1) by (simp_all add: removeBrowser_def Let_def fold_drop_requests_mok preview_ok_def)
  moreover have "browsers (snd (removeBrowser i ?g)) = mdel i (browsers ?g)"
    by (simp add: removeBrowser_def Let_def fold_drop_preview)
  ultimately show ?thesis
    using g(1) by (auto simp: Disconnect preview_ok_def removeBrowser_inside mok restrict_map_def inside_requests [of "previewRequests _"])
next
  case (StopPreview i d)
  with assms show ?thesis
    by (simp add: unsubscribePreview_def Let_def drop_preview_ok split: option.split)
next
  case (StartPreview i d m)
  have "nested_ok (mput d (mput i () (sub d (previewSubscribers h))) (previewSubscribers h))"
    using assms by (intro nested_ok_put) (simp add: preview_ok_def)
  with StartPreview assms show ?thesis
    by (auto simp: preview_ok_def subscribePreview_def setPreviewRequest_def Let_def)
next
  case (AudioFrame d f)
  with assms show ?thesis by (simp add: preview_ok_def publishAudio_def)
next
  case (WriteAudio W i)
  with assms show ?thesis by (simp add: preview_ok_def writeAudio_step_def split: option.split list.split)
qed (use assms in \<open>simp_all add: preview_ok_def addBrowser_def bindBrowser_def setAgent_def removeAgent_def
      subscribeAudio_def unsubscribeAudio_def drop_audio_eq Let_def split: option.split\<close>)

lemma word_next: "w \<noteq> - 1 \<Longrightarrow> w < w + (1 :: 64 word)"
proof -
  assume "w \<noteq> - 1"
  then have "1 + w \<noteq> 0" by (metis add_eq_0_iff)
  then have "unat (1 + w) = Suc (unat w)" by (rule unatSuc)
  then show ?thesis by (simp add: word_less_nat_alt add.commute)
qed

lemma orders_shrink:
  assumes "orders_ok h" "previewOrder g = previewOrder h"
    and "\<And>d i r. map_of (sub d (previewRequests g)) i = Some r \<Longrightarrow> map_of (sub d (previewRequests h)) i = Some r"
  shows "orders_ok g"
  using assms unfolding orders_ok_def by metis

lemma orders_keep:
  assumes "orders_ok h" "hub_op_ok op h"
  shows "orders_ok (exec_hub op h)"
proof (cases op)
  case (Disconnect i)
  show ?thesis
    by (rule orders_shrink [OF assms(1)])
       (auto simp: Disconnect removeBrowser_def Let_def fold_drop_preview removeAudioBrowser_subs dest: fold_drop_requests)
next
  case (StopPreview i d)
  show ?thesis
    by (rule orders_shrink [OF assms(1)])
       (auto simp: StopPreview unsubscribePreview_def Let_def drop_preview_subscribers
         dest: drop_preview_requests(1) split: option.splits)
next
  case (StartPreview i d m)
  have "previewOrder h < previewOrder h + 1"
    using assms(2) StartPreview by (intro word_next) simp
  then have less: "x \<noteq> previewOrder h + 1" if "x \<le> previewOrder h" for x
    using that by auto
  have step: "previewOrder h \<le> previewOrder h + 1"
    using \<open>previewOrder h < previewOrder h + 1\<close> by simp
  have new: "previewOrder (exec_hub op h) = previewOrder h + 1"
    "map_of (sub e (previewRequests (exec_hub op h))) j =
       (if e = d \<and> j = i then Some \<lparr>order = previewOrder h + 1, message = withClient m i\<rparr>
        else map_of (sub e (previewRequests h)) j)" for e j
    by (simp_all add: StartPreview setPreviewRequest_def subscribePreview_def Let_def)
  have old: "order r \<le> previewOrder h" if "map_of (sub e (previewRequests h)) j = Some r" for e j r
    using assms(1) that by (simp add: orders_ok_def)
  have uniq: "e = f \<and> j = k" if "map_of (sub e (previewRequests h)) j = Some r"
    "map_of (sub f (previewRequests h)) k = Some t" "order r = order t" for e f j k r t
    using assms(1) that unfolding orders_ok_def by blast
  have bound: "order r \<le> previewOrder h + 1"
    if "map_of (sub e (previewRequests (exec_hub op h))) j = Some r" for e j r
    using that old [of e j r] step by (auto simp: new split: if_splits)
  have "e = f \<and> j = k" if "map_of (sub e (previewRequests (exec_hub op h))) j = Some r"
    "map_of (sub f (previewRequests (exec_hub op h))) k = Some t" "order r = order t" for e f j k r t
    using that uniq [of e j r f k t] less [OF old [of e j r]] less [OF old [of f k t]]
    by (auto simp: new split: if_splits)
  with bound show ?thesis unfolding orders_ok_def new(1) by blast
qed (use assms(1) in \<open>simp_all add: orders_ok_def addBrowser_def bindBrowser_def setAgent_def removeAgent_def
      subscribeAudio_def unsubscribeAudio_def drop_audio_eq publishAudio_def writeAudio_step_def Let_def
      split: option.split list.split\<close>)

lemma hub_keep: "hub_ok h \<Longrightarrow> hub_op_ok op h \<Longrightarrow> hub_ok (exec_hub op h)"
  by (simp add: hub_ok_def registry_keep audio_keep preview_keep orders_keep)

interpretation hub_runs: machine exec_hub hub_op_ok hub_ok
  by unfold_locales (rule hub_keep)

lemma newRealtimeHub_ok: "hub_ok newRealtimeHub"
  by (simp add: hub_ok_def registry_ok_def audio_ok_def preview_ok_def orders_ok_def nested_ok_def
      newRealtimeHub_def inside_def sub_def)

section \<open>The selected preview request\<close>

interpretation preview_choice: selection beats
  by unfold_locales (auto simp: beats_def)

lemma requests_distinct:
  assumes "orders_ok h" "r \<in> set (requests_of h d)" "t \<in> set (requests_of h d)" "r \<noteq> t" "preview_ok h"
  shows "order r \<noteq> order t"
proof
  assume eq: "order r = order t"
  have mok: "mok (sub d (previewRequests h))" using assms(5) by (simp add: preview_ok_def)
  from assms(2,3) obtain i j where "(i, r) \<in> set (sub d (previewRequests h))" "(j, t) \<in> set (sub d (previewRequests h))"
    by (auto simp: requests_of_def)
  then have "map_of (sub d (previewRequests h)) i = Some r" "map_of (sub d (previewRequests h)) j = Some t"
    by (simp_all only: map_of_set [OF mok])
  with eq assms(1) have "i = j" by (simp only: orders_ok_def)
  with \<open>map_of _ i = Some r\<close> \<open>map_of _ j = Some t\<close> \<open>r \<noteq> t\<close> show False by simp
qed

lemma beats_total: "order r \<noteq> order t \<Longrightarrow> beats r t \<or> beats t r"
  by (auto simp: beats_def)

section \<open>Audio queues\<close>

lemma fold_audio_push:
  "length q \<le> 5 \<Longrightarrow> fold audio_push fs q = drop (length q + length fs - 5) (q @ fs)"
proof (induction fs arbitrary: q)
  case (Cons f fs)
  show ?case
  proof (cases "length q < 5")
    case True
    with Cons.IH [of "q @ [f]"] show ?thesis by (simp add: audio_push_def)
  next
    case False
    with Cons.prems have q: "length q = 5" by simp
    then obtain x r where "q = x # r" by (cases q) auto
    with q Cons.IH [of "r @ [f]"] show ?thesis by (simp add: audio_push_def)
  qed
qed simp

section \<open>Properties\<close>

text \<open>The hub keeps its invariant in every run: registered browsers have their object, every preview
  and audio subscription belongs to a registered browser, every preview request to a
  subscription, no empty subscriber map is left behind, the request orders are distinct and no
  audio channel exceeds its five frames.\<close>

theorem hub_runs_ok:
  assumes "admissible exec_hub hub_op_ok newRealtimeHub ops"
  shows "hub_ok (fold exec_hub ops newRealtimeHub)"
proof (rule hub_runs.run_keeps [OF _ assms])
  show "hub_ok newRealtimeHub" by (rule newRealtimeHub_ok)
qed

definition demo_peer :: "string \<Rightarrow> nat \<Rightarrow> browserPeer" where
  "demo_peer i k = \<lparr>bp_id = i, bp_user = no_user, bp_socket = k, bp_deviceID = '''', bp_viewOnly = False,
     bp_accessToken = '''', audioFrames = []\<rparr>"

theorem hub_runs_ok_witness:
  "hub_ok (fold exec_hub [Connect (demo_peer ''b1'' 1), StartPreview ''b1'' ''d'' [], StartAudio ''b1'' ''d'',
     AudioFrame ''d'' [1, 2], Disconnect ''b1''] newRealtimeHub)"
  by (rule hub_runs_ok) (simp add: addBrowser_def newRealtimeHub_def demo_peer_def)

text \<open>The preview request sent to the agent is well defined although the code loops over a Go map: in
  every state of the hub it does not depend on the order of the iteration, and it is the most
  recent foreground request if there is one, else the most recent request.\<close>

theorem selectedPreviewRequest_best:
  assumes "hub_ok h"
  shows "(\<forall>h'. set (sub d (previewRequests h')) = set (sub d (previewRequests h)) \<longrightarrow>
       selectedPreviewRequest d h' = selectedPreviewRequest d h) \<and>
    (case selectedPreviewRequest d h of
       None \<Rightarrow> requests_of h d = []
     | Some m \<Rightarrow> (\<exists>r \<in> set (requests_of h d).
         m = mput ''device_id'' (AStr d) (mput ''stay_awake''
           (ABool (\<exists>t \<in> set (requests_of h d). map_of (message t) ''stay_awake'' = Some (ABool True)))
           (cloneMap (message r))) \<and>
         (\<forall>t \<in> set (requests_of h d). t \<noteq> r \<longrightarrow>
            (foreground r \<and> \<not> foreground t) \<or> (foreground r = foreground t \<and> order t < order r))))"
proof -
  have total: "beats r t \<or> beats t r" if "r \<in> set (requests_of h d)" "t \<in> set (requests_of h d)" "r \<noteq> t" for r t
    using that assms requests_distinct [of h r d t] beats_total by (simp add: hub_ok_def)
  have "selectedPreviewRequest d h' = selectedPreviewRequest d h"
    if eq: "set (sub d (previewRequests h')) = set (sub d (previewRequests h))" for h'
  proof -
    have snds: "set (map snd (sub d (previewRequests h))) = set (map snd (sub d (previewRequests h')))"
      using eq by simp
    then have "select beats None (map snd (sub d (previewRequests h))) = select beats None (map snd (sub d (previewRequests h')))"
      using total by (intro preview_choice.select_order_free) (auto simp: requests_of_def)
    then show ?thesis by (simp only: selectedPreviewRequest_def Let_def list_ex_iff snds)
  qed
  moreover have "case selectedPreviewRequest d h of
       None \<Rightarrow> requests_of h d = []
     | Some m \<Rightarrow> (\<exists>r \<in> set (requests_of h d).
         m = mput ''device_id'' (AStr d) (mput ''stay_awake''
           (ABool (\<exists>t \<in> set (requests_of h d). map_of (message t) ''stay_awake'' = Some (ABool True)))
           (cloneMap (message r))) \<and>
         (\<forall>t \<in> set (requests_of h d). t \<noteq> r \<longrightarrow> beats r t))"
  proof (cases "select beats None (requests_of h d)")
    case None
    then show ?thesis
      by (simp add: selectedPreviewRequest_def requests_of_def [symmetric] Let_def preview_choice.select_None_iff)
  next
    case (Some r)
    from preview_choice.select_best [OF Some] total
    have "r \<in> set (requests_of h d)" "\<forall>t \<in> set (requests_of h d). t \<noteq> r \<longrightarrow> beats r t" by blast+
    with Some show ?thesis
      unfolding selectedPreviewRequest_def requests_of_def [symmetric] Let_def list_ex_iff
      by (intro option.case_eq_if [THEN iffD2, simplified]) auto
  qed
  ultimately show ?thesis unfolding beats_def by blast
qed

definition demo_hub :: realtimeHub where
  "demo_hub = fold exec_hub [Connect (demo_peer ''b1'' 1), StartPreview ''b1'' ''d'' []] newRealtimeHub"

lemma demo_hub_ok: "hub_ok demo_hub"
  unfolding demo_hub_def
  by (rule hub_runs.run_keeps [OF newRealtimeHub_ok]) (simp add: newRealtimeHub_def addBrowser_def demo_peer_def)

theorem selectedPreviewRequest_best_witness:
  "selectedPreviewRequest ''d'' (demo_hub\<lparr>previewOrder := 9\<rparr>) = selectedPreviewRequest ''d'' demo_hub"
  by (rule selectedPreviewRequest_best [OF demo_hub_ok, THEN conjunct1, rule_format]) simp

text \<open>A disconnected browser leaves nothing behind: after the deferred cleanup of \<open>connectClient\<close> its id is
  in no registry, no preview or audio subscription and no preview request, and the subscriptions
  of all other browsers are unchanged.\<close>

theorem disconnect_complete:
  assumes "hub_ok h" "h' = exec_hub (Disconnect i) h"
  shows "map_of (browsers h') i = None \<and>
    (\<forall>d j. inside (previewSubscribers h') d j \<longleftrightarrow> inside (previewSubscribers h) d j \<and> j \<noteq> i) \<and>
    (\<forall>d j. inside (audioSubscribers h') d j \<longleftrightarrow> inside (audioSubscribers h) d j \<and> j \<noteq> i) \<and>
    (\<forall>d. \<not> inside (previewRequests h') d i)"
proof -
  let ?g = "snd (removeAudioBrowser i h)"
  have same: "previewSubscribers ?g = previewSubscribers h" by (simp add: removeAudioBrowser_subs)
  have mok: "mok (previewSubscribers ?g)"
    using assms(1) by (simp add: same hub_ok_def preview_ok_def nested_ok_def)
  have ok: "preview_ok h'" using assms hub_keep [of h "Disconnect i"] by (simp add: hub_ok_def)
  have sub: "inside (previewSubscribers h') d j \<longleftrightarrow> inside (previewSubscribers h) d j \<and> j \<noteq> i" for d j
    using removeBrowser_inside [OF mok] by (simp add: assms(2) same)
  moreover have "audioSubscribers h' = audioSubscribers ?g" "map_of (browsers h') i = None"
    by (simp_all add: assms(2) removeBrowser_def Let_def fold_drop_preview restrict_map_def)
  moreover have "\<not> inside (previewRequests h') d i" for d
    using ok sub by (auto simp: preview_ok_def)
  ultimately show ?thesis using removeAudioBrowser_inside [of i h] by simp
qed

theorem disconnect_complete_witness:
  "map_of (browsers (exec_hub (Disconnect ''b1'') demo_hub)) ''b1'' = None"
  using disconnect_complete [OF demo_hub_ok refl] by blast

text \<open>A listener that does not read loses the oldest audio frames only: after any sequence of frames
  its channel holds the last five of what it held and what was published, in order.\<close>

theorem audio_push_keeps_latest:
  "length q \<le> 5 \<Longrightarrow> fold audio_push fs q = drop (length q + length fs - 5) (q @ fs)"
  by (rule fold_audio_push)

theorem audio_push_keeps_latest_witness:
  "fold audio_push [[1], [2], [3]] [[4], [5], [6]] = drop (3 + 3 - 5) ([[4], [5], [6 :: byte]] @ [[1], [2], [3]])"
  using audio_push_keeps_latest [of "[[4], [5], [6 :: byte]]" "[[1], [2], [3]]"] by simp

end
