(* ===== verification/Config.thy ===== *)
theory Config
  imports Model ShellV2 Float64
begin

text \<open>
  \<open>config.go\<close>: the configuration of the control plane and how it is read from the environment.
  \<open>strconv.ParseBool\<close>, \<open>strconv.ParseInt\<close> and \<open>time.ParseDuration\<close> are modelled; the CIDR parser of
  \<open>net/netip\<close> is a parameter that yields some representation \<open>'p\<close> of a masked prefix.
\<close>

record 'p Config =
  ListenAddress :: string
  JWTSecret :: string
  BootstrapAdminUser :: string
  BootstrapAdminPass :: string
  AllowRegistration :: bool
  PublicURL :: string
  TurnURLs :: "string list"
  TurnUsername :: string
  TurnCredential :: string
  CORSOrigins :: "string list"
  PostgresDSN :: string
  RedisURL :: string
  AssetDir :: string
  AgentDir :: string
  ScrcpyJar :: string
  TaskTTL :: duration
  AuditRetention :: duration
  MaxAssetBytes :: int
  AgentHelloTimeout :: duration
  AgentHelloMaxBytes :: int
  MaxPendingAgentHandshakes :: int
  LoginAttemptWindow :: duration
  LoginMaxAttemptsPerAccount :: int
  LoginMaxAttemptsPerIP :: int
  TrustedProxyCIDRs :: "'p list"

definition defaultAgentHelloTimeout :: duration where "defaultAgentHelloTimeout = 10000000000"
definition defaultAgentHelloMaxBytes :: int where "defaultAgentHelloMaxBytes = 65536"
definition defaultMaxPendingAgentHandshakes :: int where "defaultMaxPendingAgentHandshakes = 64"
definition defaultLoginAttemptWindow :: duration where "defaultLoginAttemptWindow = 15 * Minute"
definition defaultLoginMaxAttemptsPerAccount :: int where "defaultLoginMaxAttemptsPerAccount = 10"
definition defaultLoginMaxAttemptsPerIP :: int where "defaultLoginMaxAttemptsPerIP = 60"

section \<open>Parsers of the standard library\<close>

definition parse_bool :: "string \<Rightarrow> bool option" where
  "parse_bool s =
     (if s \<in> set [''1'', ''t'', ''T'', ''true'', ''TRUE'', ''True''] then Some True
      else if s \<in> set [''0'', ''f'', ''F'', ''false'', ''FALSE'', ''False''] then Some False
      else None)"

definition is_digit :: "char \<Rightarrow> bool" where
  "is_digit c \<longleftrightarrow> CHR 0x30 \<le> c \<and> c \<le> CHR 0x39"

text \<open>\<open>leadingInt\<close>: the value of the leading digits, which must stay within 2^63.\<close>

definition leading_int :: "string \<Rightarrow> (nat \<times> string) option" where
  "leading_int s =
     (let ds = takeWhile is_digit s; v = the (digits_val 0 ds) in
      if 2 ^ 63 < v then None else Some (v, dropWhile is_digit s))"

text \<open>\<open>leadingFraction\<close>: value and scale of the leading digits, ignoring those that no longer fit.\<close>

fun fraction :: "nat \<Rightarrow> nat \<Rightarrow> bool \<Rightarrow> string \<Rightarrow> nat \<times> nat" where
  "fraction x scale full [] = (x, scale)"
| "fraction x scale full (c # s) =
     (if full \<or> (2 ^ 63 - 1) div 10 < x then fraction x scale True s
      else
        (let y = x * 10 + (of_char c - 48) in
         if 2 ^ 63 < y then fraction x scale True s else fraction y (scale * 10) False s))"

definition unit_ns :: "string \<Rightarrow> nat option" where
  "unit_ns u =
     map_of [(''ns'', 1), (''us'', 1000), ([CHR 0xC2, CHR 0xB5, CHR ''s''], 1000),
       ([CHR 0xCE, CHR 0xBC, CHR ''s''], 1000), (''ms'', 1000000), (''s'', 1000000000),
       (''m'', 60000000000), (''h'', 3600000000000)] u"

lemma take_drop_while_length: "length (takeWhile P xs) + length (dropWhile P xs) = length xs"
  by (induction xs) auto

text \<open>One term of a duration, such as \<open>1.5h\<close>: its nanoseconds and the rest of the string.\<close>

definition duration_term :: "string \<Rightarrow> (nat \<times> string) option" where
  "duration_term s =
     (if \<not> (hd s = CHR ''.'' \<or> is_digit (hd s)) then None
      else
        (case leading_int s of
           None \<Rightarrow> None
         | Some (v, s1) \<Rightarrow>
             (let pre = (length s1 \<noteq> length s);
                  dot = (s1 \<noteq> [] \<and> hd s1 = CHR ''.'');
                  fs = (if dot then takeWhile is_digit (tl s1) else []);
                  s2 = (if dot then dropWhile is_digit (tl s1) else s1);
                  (f, scale) = fraction 0 1 False fs;
                  u = takeWhile (\<lambda>c. c \<noteq> CHR ''.'' \<and> \<not> is_digit c) s2;
                  s3 = dropWhile (\<lambda>c. c \<noteq> CHR ''.'' \<and> \<not> is_digit c) s2
              in if \<not> pre \<and> fs = [] then None
                 else if u = [] then None
                 else
                   (case unit_ns u of
                      None \<Rightarrow> None
                    | Some unit \<Rightarrow>
                        (if 2 ^ 63 div unit < v then None
                         else
                           (let w = v * unit
                                  + (if 0 < f then nat (trunc_rat (fl (fl (of_nat f) * fl (fl (of_nat unit) / fl (of_nat scale)))))
                                     else 0) in
                            if 2 ^ 63 < w then None else Some (w, s3)))))))"

lemma duration_term_shorter:
  assumes "duration_term s = Some (w, r)"
  shows "length r < length s"
proof -
  obtain v s1 where s1: "leading_int s = Some (v, s1)"
    using assms by (auto simp: duration_term_def split: option.splits if_splits)
  define s2 where "s2 = (if s1 \<noteq> [] \<and> hd s1 = CHR ''.'' then dropWhile is_digit (tl s1) else s1)"
  let ?P = "\<lambda>c. c \<noteq> CHR ''.'' \<and> \<not> is_digit c"
  have r: "r = dropWhile ?P s2" "takeWhile ?P s2 \<noteq> []"
    using assms s1 by (auto simp: duration_term_def Let_def s2_def split: option.splits if_splits prod.splits)
  have le: "length (dropWhile P t) \<le> length t" for P and t :: string by (rule length_dropWhile_le)
  have "s1 = dropWhile is_digit s" using s1 by (auto simp: leading_int_def Let_def split: if_splits)
  then have "length s1 \<le> length s" by (simp add: le)
  moreover have "length s2 \<le> length s1" using le [of is_digit "tl s1"] by (auto simp: s2_def le_diff_conv)
  moreover have "0 < length (takeWhile ?P s2)" using r(2) by (rule length_greater_0_conv [THEN iffD2])
  ultimately show ?thesis using take_drop_while_length [of ?P s2] unfolding r(1) by linarith
qed

function duration_terms :: "nat \<Rightarrow> string \<Rightarrow> nat option" where
  "duration_terms d s =
     (if s = [] then Some d
      else
        (case duration_term s of
           None \<Rightarrow> None
         | Some (w, r) \<Rightarrow> if 2 ^ 63 < d + w then None else duration_terms (d + w) r))"
  by pat_completeness auto
termination
  by (relation "measure (\<lambda>(d, s). length s)") (auto dest: duration_term_shorter)

declare duration_terms.simps [simp del]

definition parse_duration :: "string \<Rightarrow> duration option" where
  "parse_duration s =
     (let neg = (s \<noteq> [] \<and> hd s = CHR ''-'');
          r = (if s \<noteq> [] \<and> (hd s = CHR ''-'' \<or> hd s = CHR ''+'') then tl s else s) in
      if r = ''0'' then Some 0
      else if r = [] then None
      else
        (case duration_terms 0 r of
           None \<Rightarrow> None
         | Some d \<Rightarrow> if neg then Some (- int d) else if 2 ^ 63 - 1 < d then None else Some (int d)))"

section \<open>Reading the environment\<close>

definition valueOr :: "(string \<Rightarrow> string) \<Rightarrow> string \<Rightarrow> string \<Rightarrow> string" where
  "valueOr getenv key fallback = (let v = trim_space (getenv key) in if v \<noteq> '''' then v else fallback)"

definition splitCSV :: "string \<Rightarrow> string list" where
  "splitCSV v = filter (\<lambda>item. item \<noteq> '''') (map trim_space (split_on (CHR '','') v))"

fun parse_all :: "('a \<Rightarrow> 'b option) \<Rightarrow> 'a list \<Rightarrow> 'b list option" where
  "parse_all f [] = Some []"
| "parse_all f (x # xs) =
     (case f x of
        None \<Rightarrow> None
      | Some y \<Rightarrow> (case parse_all f xs of None \<Rightarrow> None | Some ys \<Rightarrow> Some (y # ys)))"

definition parseCIDRs :: "(string \<Rightarrow> 'p option) \<Rightarrow> string \<Rightarrow> 'p list option" where
  "parseCIDRs parse_prefix v = parse_all parse_prefix (splitCSV v)"

definition trim_slashes :: "string \<Rightarrow> string" where
  "trim_slashes s = rev (dropWhile (\<lambda>c. c = CHR ''/'') (rev s))"

text \<open>A parsed value that must be positive.\<close>

definition positive :: "int option \<Rightarrow> int option" where
  "positive v = (case v of Some n \<Rightarrow> if n \<le> 0 then None else Some n | None \<Rightarrow> None)"

text \<open>
  \<open>LoadConfigFromEnv\<close>; \<open>rand48\<close> are the random bytes drawn when no secret is configured, and
  \<open>None\<close> is any of the parse errors. The defaults of durations and numbers are written as the
  source prints them (\<open>10s\<close>, \<open>15m0s\<close>).
\<close>

definition LoadConfigFromEnv ::
  "(string \<Rightarrow> string) \<Rightarrow> (string \<Rightarrow> 'p option) \<Rightarrow> byte list \<Rightarrow> 'p Config option" where
  "LoadConfigFromEnv getenv parse_prefix rand48 =
     (let secret = trim_space (getenv ''SCRCPYCAT_JWT_SECRET'');
          secret = (if secret = '''' then b64url rand48 else secret) in
      do {
        allow \<leftarrow> parse_bool (valueOr getenv ''SCRCPYCAT_ALLOW_REGISTRATION'' ''false'');
        taskTTL \<leftarrow> positive (parse_duration (valueOr getenv ''SCRCPYCAT_TASK_TTL'' ''24h''));
        retention \<leftarrow> positive (parse_duration (valueOr getenv ''SCRCPYCAT_AUDIT_RETENTION'' ''2160h''));
        maxAsset \<leftarrow> positive (atoi (valueOr getenv ''SCRCPYCAT_MAX_ASSET_BYTES'' ''2147483648''));
        helloTimeout \<leftarrow> positive (parse_duration (valueOr getenv ''SCRCPYCAT_AGENT_HELLO_TIMEOUT'' ''10s''));
        helloBytes \<leftarrow> positive (atoi (valueOr getenv ''SCRCPYCAT_AGENT_HELLO_MAX_BYTES'' ''65536''));
        pending \<leftarrow> positive (atoi (valueOr getenv ''SCRCPYCAT_MAX_PENDING_AGENT_HANDSHAKES'' ''64''));
        window \<leftarrow> positive (parse_duration (valueOr getenv ''SCRCPYCAT_LOGIN_ATTEMPT_WINDOW'' ''15m0s''));
        perAccount \<leftarrow> positive (atoi (valueOr getenv ''SCRCPYCAT_LOGIN_MAX_ATTEMPTS_PER_ACCOUNT'' ''10''));
        perIP \<leftarrow> positive (atoi (valueOr getenv ''SCRCPYCAT_LOGIN_MAX_ATTEMPTS_PER_IP'' ''60''));
        trusted \<leftarrow> parseCIDRs parse_prefix (getenv ''SCRCPYCAT_TRUSTED_PROXY_CIDRS'');
        Some \<lparr>ListenAddress = valueOr getenv ''SCRCPYCAT_LISTEN_ADDRESS'' '':8443'',
        JWTSecret = secret,
        BootstrapAdminUser = valueOr getenv ''SCRCPYCAT_ADMIN_USERNAME'' ''admin'',
        BootstrapAdminPass = valueOr getenv ''SCRCPYCAT_ADMIN_PASSWORD'' ''change-me-before-production'',
        AllowRegistration = allow,
        PublicURL = trim_slashes (valueOr getenv ''SCRCPYCAT_PUBLIC_URL'' ''https://localhost:8443''),
        TurnURLs = splitCSV (getenv ''SCRCPYCAT_TURN_URLS''),
        TurnUsername = getenv ''SCRCPYCAT_TURN_USERNAME'',
        TurnCredential = getenv ''SCRCPYCAT_TURN_CREDENTIAL'',
        CORSOrigins = splitCSV (getenv ''SCRCPYCAT_CORS_ORIGINS''),
        PostgresDSN = trim_space (getenv ''SCRCPYCAT_POSTGRES_DSN''),
        RedisURL = trim_space (getenv ''SCRCPYCAT_REDIS_URL''),
        AssetDir = valueOr getenv ''SCRCPYCAT_ASSET_DIR'' ''/var/lib/scrcpycat/assets'',
        AgentDir = valueOr getenv ''SCRCPYCAT_AGENT_DIR'' ''bin/agent'',
        ScrcpyJar = valueOr getenv ''SCRCPYCAT_SCRCPY_JAR'' ''bin/scrcpy-server/scrcpy-server'',
        TaskTTL = taskTTL, AuditRetention = retention, MaxAssetBytes = maxAsset,
        AgentHelloTimeout = helloTimeout, AgentHelloMaxBytes = helloBytes,
        MaxPendingAgentHandshakes = pending, LoginAttemptWindow = window,
        LoginMaxAttemptsPerAccount = perAccount, LoginMaxAttemptsPerIP = perIP,
        TrustedProxyCIDRs = trusted\<rparr> })"

definition withSecurityDefaults :: "'p Config \<Rightarrow> 'p Config" where
  "withSecurityDefaults c =
     (let c = (if AgentHelloTimeout c \<le> 0 then c\<lparr>AgentHelloTimeout := defaultAgentHelloTimeout\<rparr> else c);
          c = (if AgentHelloMaxBytes c \<le> 0 then c\<lparr>AgentHelloMaxBytes := defaultAgentHelloMaxBytes\<rparr> else c);
          c = (if MaxPendingAgentHandshakes c \<le> 0
               then c\<lparr>MaxPendingAgentHandshakes := defaultMaxPendingAgentHandshakes\<rparr> else c);
          c = (if LoginAttemptWindow c \<le> 0 then c\<lparr>LoginAttemptWindow := defaultLoginAttemptWindow\<rparr> else c);
          c = (if LoginMaxAttemptsPerAccount c \<le> 0
               then c\<lparr>LoginMaxAttemptsPerAccount := defaultLoginMaxAttemptsPerAccount\<rparr> else c);
          c = (if LoginMaxAttemptsPerIP c \<le> 0
               then c\<lparr>LoginMaxAttemptsPerIP := defaultLoginMaxAttemptsPerIP\<rparr> else c)
      in c)"

text \<open>The limits that protect the server are all positive.\<close>

definition limits_positive :: "'p Config \<Rightarrow> bool" where
  "limits_positive c \<longleftrightarrow> 0 < AgentHelloTimeout c \<and> 0 < AgentHelloMaxBytes c \<and> 0 < MaxPendingAgentHandshakes c \<and>
     0 < LoginAttemptWindow c \<and> 0 < LoginMaxAttemptsPerAccount c \<and> 0 < LoginMaxAttemptsPerIP c"

lemmas config_defaults = defaultAgentHelloTimeout_def defaultAgentHelloMaxBytes_def
  defaultMaxPendingAgentHandshakes_def defaultLoginAttemptWindow_def Minute_def
  defaultLoginMaxAttemptsPerAccount_def defaultLoginMaxAttemptsPerIP_def

lemma withSecurityDefaults_positive: "limits_positive (withSecurityDefaults c)"
  by (simp add: limits_positive_def withSecurityDefaults_def Let_def config_defaults)

lemma withSecurityDefaults_id: "limits_positive c \<Longrightarrow> withSecurityDefaults c = c"
  by (simp add: limits_positive_def withSecurityDefaults_def)

lemma positive_Some: "positive v = Some n \<longleftrightarrow> v = Some n \<and> 0 < n"
  by (auto simp: positive_def split: option.split)

text \<open>Whatever the environment holds, a configuration that loads has positive limits for hello
  messages, pending handshakes and login attempts, a positive task lifetime, retention and asset
  size; and the server's defaulting then leaves it as it is, while it repairs any other
  configuration.\<close>

theorem loaded_config_positive:
  assumes "LoadConfigFromEnv getenv parse_prefix rand48 = Some c"
  shows "limits_positive c \<and> 0 < TaskTTL c \<and> 0 < AuditRetention c \<and> 0 < MaxAssetBytes c \<and>
     withSecurityDefaults c = c \<and> limits_positive (withSecurityDefaults c')"
proof -
  have "limits_positive c \<and> 0 < TaskTTL c \<and> 0 < AuditRetention c \<and> 0 < MaxAssetBytes c"
    using assms unfolding LoadConfigFromEnv_def Let_def limits_positive_def
    by (auto simp: bind_eq_Some_conv positive_Some)
  then show ?thesis by (simp add: withSecurityDefaults_id withSecurityDefaults_positive)
qed

text \<open>The defaults of the source, parsed.\<close>

lemma trim_space_Nil [simp]: "trim_space [] = []"
  by (simp add: trim_space_def trim_with.simps)

lemma valueOr_default: "getenv key = '''' \<Longrightarrow> valueOr getenv key d = d"
  by (simp add: valueOr_def)

lemmas eval_duration = parse_duration_def duration_terms.simps duration_term_def leading_int_def
  is_digit_def less_eq_char_def unit_ns_def

lemma default_durations:
  "parse_duration ''24h'' = Some 86400000000000" "parse_duration ''2160h'' = Some 7776000000000000"
  "parse_duration ''10s'' = Some 10000000000" "parse_duration ''15m0s'' = Some 900000000000"
  by (simp_all add: eval_duration Let_def)

lemma default_numbers:
  "atoi ''2147483648'' = Some 2147483648" "atoi ''65536'' = Some 65536" "atoi ''64'' = Some 64"
  "atoi ''10'' = Some 10" "atoi ''60'' = Some 60"
  by (simp_all add: atoi_def less_eq_char_def)

theorem loaded_config_positive_witness:
  "\<exists>c. LoadConfigFromEnv (\<lambda>_. '''') (\<lambda>_. None :: unit option) (replicate 48 7) = Some c \<and>
     limits_positive c \<and> 0 < TaskTTL c \<and> withSecurityDefaults c = c"
proof -
  have "LoadConfigFromEnv (\<lambda>_. '''') (\<lambda>_. None :: unit option) (replicate 48 7) \<noteq> None"
    by (simp add: LoadConfigFromEnv_def valueOr_default default_durations default_numbers positive_def
        parse_bool_def parseCIDRs_def splitCSV_def)
  then obtain c where "LoadConfigFromEnv (\<lambda>_. '''') (\<lambda>_. None :: unit option) (replicate 48 7) = Some c" by blast
  with loaded_config_positive [OF this] show ?thesis by blast
qed

end
