(* ===== verification/Auth.thy ===== *)
theory Auth
  imports StoreProps HubProps Config
begin

text \<open>
  \<open>auth.go\<close>, \<open>browser_ticket.go\<close>, \<open>browser_access.go\<close> and the settings half of
  \<open>device_settings.go\<close>: login tokens, the short-lived tickets for web sockets, the access that a
  ticket or a login gives, and the stream options a restricted user may choose. The JWT package is
  the parameter \<open>jwt\<close>: signing and parsing of the registered claims together with the private
  claims of the two claim types, whose JSON form is modelled. HMAC is built from the parameter
  SHA-256.
\<close>

unbundle bit_operations_syntax

section \<open>Signed tokens\<close>

record RegisteredClaims =
  rc_ID :: string
  Subject :: string
  Audience :: "string list"
  IssuedAt :: "time option"
  rc_ExpiresAt :: "time option"

definition no_registered :: RegisteredClaims where
  "no_registered = \<lparr>rc_ID = '''', Subject = '''', Audience = [], IssuedAt = None, rc_ExpiresAt = None\<rparr>"

text \<open>
  \<open>jwt_sign secret registered private\<close> is \<open>SignedString\<close> with HS256; \<open>jwt_parse now secret raw\<close> is
  \<open>ParseWithClaims\<close> with the key function of the sources, which accepts the HMAC methods only.
\<close>

record jwt =
  jwt_sign :: "string \<Rightarrow> RegisteredClaims \<Rightarrow> obj \<Rightarrow> string option"
  jwt_parse :: "time \<Rightarrow> string \<Rightarrow> string \<Rightarrow> (RegisteredClaims \<times> obj) option"

text \<open>\<open>jwt.NewNumericDate\<close> keeps whole seconds.\<close>

definition numeric_date :: "time \<Rightarrow> time" where
  "numeric_date t = t - t mod 1000000000"

text \<open>
  The documented behaviour the sources rely on: a signed token is parsed to its claims, until it
  expires; its compact form has no white space.
\<close>

definition unexpired :: "time \<Rightarrow> RegisteredClaims \<Rightarrow> bool" where
  "unexpired t r \<longleftrightarrow> (case rc_ExpiresAt r of None \<Rightarrow> True | Some e \<Rightarrow> t < e)"

definition jwt_ok :: "jwt \<Rightarrow> bool" where
  "jwt_ok J \<longleftrightarrow>
     (\<forall>secret r p raw. jwt_sign J secret r p = Some raw \<longrightarrow>
        raw \<noteq> [] \<and> list_all plain_char raw \<and>
        (\<forall>t. jwt_parse J t secret raw = (if unexpired t r then Some (r, p) else None)))"

text \<open>A string or number of the private claims, as \<open>encoding/json\<close> stores it into a struct field.\<close>

definition json_string :: "obj \<Rightarrow> string \<Rightarrow> string option" where
  "json_string p k =
     (case map_of p k of
        None \<Rightarrow> Some ''''
      | Some ANil \<Rightarrow> Some ''''
      | Some (AStr s) \<Rightarrow> Some s
      | Some _ \<Rightarrow> None)"

definition json_uint64 :: "obj \<Rightarrow> string \<Rightarrow> 64 word option" where
  "json_uint64 p k =
     (case map_of p k of
        None \<Rightarrow> Some 0
      | Some ANil \<Rightarrow> Some 0
      | Some (AUint64 w) \<Rightarrow> Some w
      | Some (AInt n) \<Rightarrow> if 0 \<le> n \<and> n < 2 ^ 64 then Some (of_int n) else None
      | Some _ \<Rightarrow> None)"

section \<open>Login tokens\<close>

record claims = RegisteredClaims +
  cl_Role :: Role
  cl_TokenVersion :: "64 word"
  TokenUse :: string

definition userTokenTTL :: duration where "userTokenTTL = 7 * 24 * Hour"

definition userTokenUse :: string where "userTokenUse = ''user_access''"

definition issueUserToken :: "jwt \<Rightarrow> env \<Rightarrow> string \<Rightarrow> User \<Rightarrow> string option" where
  "issueUserToken J E secret user =
     jwt_sign J secret
       \<lparr>rc_ID = randomID E 0, Subject = u_ID user, Audience = [], IssuedAt = Some (numeric_date (now E)),
        rc_ExpiresAt = Some (numeric_date (now E + userTokenTTL))\<rparr>
       [(''role'', AStr (u_Role user)), (''token_version'', AUint64 (TokenVersion user)),
        (''token_use'', AStr userTokenUse)]"

definition decode_claims :: "RegisteredClaims \<Rightarrow> obj \<Rightarrow> claims option" where
  "decode_claims r p =
     do {
       role \<leftarrow> json_string p ''role'';
       version \<leftarrow> json_uint64 p ''token_version'';
       use \<leftarrow> json_string p ''token_use'';
       Some (RegisteredClaims.extend r (claims.fields role version use))
     }"

definition parseUserToken :: "jwt \<Rightarrow> env \<Rightarrow> string \<Rightarrow> string \<Rightarrow> claims result" where
  "parseUserToken J E secret raw =
     (case Option.bind (jwt_parse J (now E) secret raw) (\<lambda>(r, p). decode_claims r p) of
        None \<Rightarrow> Inl ErrInvalidAuth
      | Some c \<Rightarrow>
          (if Subject c = '''' \<or> TokenUse c \<noteq> userTokenUse then Inl ErrInvalidAuth else Inr c))"

definition bearerToken :: "string \<Rightarrow> string" where
  "bearerToken header =
     (let parts = Prelude.fields header in
      if length parts = 2 \<and> map lower_char (parts ! 0) = ''bearer'' then parts ! 1 else '''')"

definition userForToken :: "env \<Rightarrow> string \<Rightarrow> 64 word \<Rightarrow> store \<Rightarrow> User result" where
  "userForToken E userID tokenVersion s =
     (case User_get userID s of
        Inl _ \<Rightarrow> Inl ErrInvalidAuth
      | Inr user \<Rightarrow>
          (if TokenVersion user \<noteq> tokenVersion \<or> after_opt (now E) (u_ExpiresAt user)
           then Inl ErrInvalidAuth else Inr user))"

definition userFromRequest :: "jwt \<Rightarrow> env \<Rightarrow> string \<Rightarrow> string \<Rightarrow> store \<Rightarrow> User result" where
  "userFromRequest J E secret authorization s =
     (let token = bearerToken authorization in
      if token = '''' \<or> UserTokenRevoked E (tokenDigest E token) s then Inl ErrInvalidAuth
      else
        (case parseUserToken J E secret token of
           Inl e \<Rightarrow> Inl e
         | Inr parsed \<Rightarrow> userForToken E (Subject parsed) (cl_TokenVersion parsed) s))"

section \<open>Tickets for web sockets\<close>

definition browserTicketAudience :: string where "browserTicketAudience = ''connect_client''"

definition browserTicketTTL :: duration where "browserTicketTTL = Minute"

definition browserAccessUser :: string where "browserAccessUser = ''user''"

definition browserAccessShare :: string where "browserAccessShare = ''share''"

record browserTicketClaims = RegisteredClaims +
  Kind :: string
  bt_TokenVersion :: "64 word"
  AccessToken :: string

text \<open>The fields marked \<open>omitempty\<close> are left out of the JSON when they are zero.\<close>

definition issueBrowserTicket ::
  "jwt \<Rightarrow> env \<Rightarrow> string \<Rightarrow> string \<Rightarrow> string \<Rightarrow> 64 word \<Rightarrow> string list \<Rightarrow> string option \<times> time" where
  "issueBrowserTicket J E secret kind subject tokenVersion accessTokens =
     (let expiresAt = now E + browserTicketTTL;
          accessToken = (if 0 < length accessTokens then accessTokens ! 0 else '''')
      in (jwt_sign J secret
            \<lparr>rc_ID = '''', Subject = subject, Audience = [browserTicketAudience],
             IssuedAt = Some (numeric_date (now E)), rc_ExpiresAt = Some (numeric_date expiresAt)\<rparr>
            ((''kind'', AStr kind)
               # (if tokenVersion = 0 then [] else [(''token_version'', AUint64 tokenVersion)])
               @ (if accessToken = '''' then [] else [(''access_token'', AStr accessToken)])),
          expiresAt))"

definition decode_ticket :: "RegisteredClaims \<Rightarrow> obj \<Rightarrow> browserTicketClaims option" where
  "decode_ticket r p =
     do {
       kind \<leftarrow> json_string p ''kind'';
       version \<leftarrow> json_uint64 p ''token_version'';
       access \<leftarrow> json_string p ''access_token'';
       Some (RegisteredClaims.extend r (browserTicketClaims.fields kind version access))
     }"

definition containsAudience :: "string list \<Rightarrow> string \<Rightarrow> bool" where
  "containsAudience audiences expected \<longleftrightarrow> list_ex (\<lambda>audience. audience = expected) audiences"

definition parseBrowserTicket :: "jwt \<Rightarrow> env \<Rightarrow> string \<Rightarrow> string \<Rightarrow> browserTicketClaims result" where
  "parseBrowserTicket J E secret raw =
     (case Option.bind (jwt_parse J (now E) secret raw) (\<lambda>(r, p). decode_ticket r p) of
        None \<Rightarrow> Inl ErrInvalidAuth
      | Some c \<Rightarrow>
          (if Subject c = '''' \<or> (Kind c \<noteq> browserAccessUser \<and> Kind c \<noteq> browserAccessShare)
              \<or> \<not> containsAudience (Audience c) browserTicketAudience
           then Inl ErrInvalidAuth else Inr c))"

text \<open>HMAC with SHA-256: a key of at most 64 bytes is padded, a longer one is hashed first.\<close>

definition hmac :: "env \<Rightarrow> string \<Rightarrow> string \<Rightarrow> byte list" where
  "hmac E key msg =
     (let k = (if 64 < length key then sha256 E key else bytes key);
          k = k @ replicate (64 - length k) 0
      in sha256 E (string_of (map (\<lambda>b. b XOR 0x5C) k @ sha256 E (string_of (map (\<lambda>b. b XOR 0x36) k @ bytes msg)))))"

definition shareTicketSubject :: "env \<Rightarrow> string \<Rightarrow> string \<Rightarrow> string" where
  "shareTicketSubject E secret token = b64url (hmac E secret (''scrcpycat-share-websocket-ticket:'' @ token))"

section \<open>Access of a browser\<close>

record browserAccess =
  ba_kind :: string
  ba_subject :: string
  ba_tokenVersion :: "64 word"
  ba_accessToken :: string

definition userForShare :: "Share \<Rightarrow> User" where
  "userForShare share =
     no_user\<lparr>u_ID := ''share:'' @ sh_Token share, Username := ''share'', u_Role := RoleUser,
       AssignedDevices := [sh_DeviceID share], u_ExpiresAt := sh_ExpiresAt share,
       Settings := GuestSettings share, u_ForbidBitrate := sh_ForbidBitrate share,
       u_ForbidFPS := sh_ForbidFPS share, u_ForbidResolution := sh_ForbidResolution share,
       u_ForbidAudio := sh_ForbidAudio share\<rparr>"

text \<open>\<open>SharesFor\<close> also drops the expired shares, so looking up a share is a step of the store.\<close>

definition shareForTicket :: "env \<Rightarrow> string \<Rightarrow> string \<Rightarrow> store \<Rightarrow> Share result \<times> store" where
  "shareForTicket E secret subject s =
     (case SharesFor E '''' s of
        (all, s') \<Rightarrow>
          (case find (\<lambda>share. subject = shareTicketSubject E secret (sh_Token share)) all of
             None \<Rightarrow> (Inl ErrInvalidAuth, s')
           | Some share \<Rightarrow> (Inr share, s')))"

definition validateBrowserAccess ::
  "env \<Rightarrow> string \<Rightarrow> browserAccess \<Rightarrow> store \<Rightarrow> (User \<times> bool) result \<times> store" where
  "validateBrowserAccess E secret access s =
     (if ba_kind access = browserAccessUser then
        (if UserTokenRevoked E (ba_accessToken access) s then (Inl ErrInvalidAuth, s)
         else
           (case userForToken E (ba_subject access) (ba_tokenVersion access) s of
              Inl e \<Rightarrow> (Inl e, s)
            | Inr user \<Rightarrow> (Inr (user, False), s)))
      else if ba_kind access = browserAccessShare then
        (case shareForTicket E secret (ba_subject access) s of
           (Inl e, s') \<Rightarrow> (Inl e, s')
         | (Inr share, s') \<Rightarrow> (Inr (userForShare share, ViewOnly share), s'))
      else (Inl ErrInvalidAuth, s))"

definition browserAccessFromTicket ::
  "jwt \<Rightarrow> env \<Rightarrow> string \<Rightarrow> string \<Rightarrow> store \<Rightarrow> (User \<times> bool \<times> browserAccess) result \<times> store" where
  "browserAccessFromTicket J E secret ticket s =
     (case parseBrowserTicket J E secret ticket of
        Inl e \<Rightarrow> (Inl e, s)
      | Inr c \<Rightarrow>
          (let access = \<lparr>ba_kind = Kind c, ba_subject = Subject c, ba_tokenVersion = bt_TokenVersion c,
                          ba_accessToken = AccessToken c\<rparr> in
           case validateBrowserAccess E secret access s of
             (Inl e, s') \<Rightarrow> (Inl e, s')
           | (Inr (user, viewOnly), s') \<Rightarrow> (Inr (user, viewOnly, access), s')))"

definition browserAccessFromRequest ::
  "jwt \<Rightarrow> env \<Rightarrow> string \<Rightarrow> string \<Rightarrow> string \<Rightarrow> store \<Rightarrow> (User \<times> bool \<times> browserAccess) result \<times> store" where
  "browserAccessFromRequest J E secret ticket authorization s =
     (if ticket \<noteq> '''' then browserAccessFromTicket J E secret ticket s
      else
        (case userFromRequest J E secret authorization s of
           Inl e \<Rightarrow> (Inl e, s)
         | Inr user \<Rightarrow>
             (Inr (user, False,
                \<lparr>ba_kind = browserAccessUser, ba_subject = u_ID user, ba_tokenVersion = TokenVersion user,
                 ba_accessToken = tokenDigest E (bearerToken authorization)\<rparr>), s)))"

text \<open>
  \<open>reflect.DeepEqual\<close> on two users compares the settings as maps, so the order of their entries
  does not matter.
\<close>

definition same_map :: "obj \<Rightarrow> obj \<Rightarrow> bool" where
  "same_map a b \<longleftrightarrow> list_all (\<lambda>k. map_of a k = map_of b k) (mkeys a @ mkeys b)"

definition deep_equal :: "User \<Rightarrow> User \<Rightarrow> bool" where
  "deep_equal a b \<longleftrightarrow> a\<lparr>Settings := []\<rparr> = b\<lparr>Settings := []\<rparr> \<and> same_map (Settings a) (Settings b)"

text \<open>One tick of the goroutine of \<open>watchBrowserAccess\<close>: the socket is closed, or the watch goes on.\<close>

definition watchBrowserAccess_tick ::
  "env \<Rightarrow> string \<Rightarrow> browserAccess \<Rightarrow> browserPeer \<Rightarrow> store \<Rightarrow> out list \<times> store" where
  "watchBrowserAccess_tick E secret access peer s =
     (case validateBrowserAccess E secret access s of
        (Inl _, s') \<Rightarrow> ([Close (bp_socket peer)], s')
      | (Inr (user, viewOnly), s') \<Rightarrow>
          (if viewOnly \<noteq> bp_viewOnly peer \<or> \<not> deep_equal user (bp_user peer)
           then ([Close (bp_socket peer)], s') else ([], s')))"

section \<open>Settings and stream options\<close>

text \<open>A number that came from JSON is a \<open>float64\<close>; the check rejects every other dynamic type.\<close>

definition validateDeviceSettings :: "obj \<Rightarrow> bool" where
  "validateDeviceSettings settings \<longleftrightarrow>
     (case map_of settings ''snapshotInterval'' of
        None \<Rightarrow> True
      | Some (AFloat q) \<Rightarrow> q = of_int (trunc_rat q) \<and> \<not> q < -1 \<and> \<not> 3600 < q
      | Some _ \<Rightarrow> False)"

definition agentSettings :: "string \<Rightarrow> store \<Rightarrow> obj" where
  "agentSettings deviceID s =
     (let settings = DefaultSettings s;
          settings = (if map_of settings ''snapshotInterval'' = None
                      then mput ''snapshotInterval'' (AFloat 10) settings else settings)
      in mover settings (DeviceSettings deviceID s))"

definition fixed_bitrate :: "any \<Rightarrow> any" where
  "fixed_bitrate v =
     (let bitrate = (case v of AFloat q \<Rightarrow> q | _ \<Rightarrow> 4) in
      AFloat (if bitrate < 10000 then fl (bitrate * 1000000) else bitrate))"

definition constrainedStreamOptions :: "User \<Rightarrow> string \<Rightarrow> obj \<Rightarrow> store \<Rightarrow> obj" where
  "constrainedStreamOptions user deviceID raw s =
     (let result = cloneMap raw;
          result = (if u_Role user \<noteq> RoleAdmin
                    then mdel ''snapshotInterval'' (mdel ''snapshot_interval'' result) else result);
          settings = mover (agentSettings deviceID s) (Settings user);
          setting = (\<lambda>key fallback. case map_of settings key of Some v \<Rightarrow> v | None \<Rightarrow> fallback);
          result = (if u_ForbidResolution user
                    then mput ''max_size'' (setting ''size'' (AFloat 0)) result else result);
          result = (if u_ForbidFPS user
                    then mput ''fps'' (setting ''fps'' (AFloat 0)) (mput ''max_fps'' (setting ''fps'' (AFloat 0)) result)
                    else result);
          result = (if u_ForbidBitrate user
                    then (let b = fixed_bitrate (setting ''bitrate'' (AFloat 4)) in
                          mput ''bwe'' (ABool False) (mput ''max_bitrate'' b (mput ''min_bitrate'' b
                            (mput ''bitrate'' b result))))
                    else result);
          result = (if u_ForbidAudio user
                    then mput ''audio'' (setting ''audio'' (ABool False)) result else result)
      in result)"

section \<open>Lemmas\<close>

lemma map_of_if: "map_of (if b then m else n) k = (if b then map_of m k else map_of n k)"
  by simp

lemma fields_acc_plain: "list_all plain_char w \<Longrightarrow> fields_acc (w @ r) acc = fields_acc r (acc @ w)"
  by (induction w arbitrary: acc) (simp_all add: space_len_plain del: space_len.simps)

lemma fields_pair:
  assumes "list_all plain_char v" "v \<noteq> []" "list_all plain_char w" "w \<noteq> []"
  shows "Prelude.fields (v @ CHR '' '' # w) = [v, w]"
proof -
  have "Prelude.fields (v @ CHR '' '' # w) = fields_acc (CHR '' '' # w) v"
    unfolding Prelude.fields_def by (simp only: fields_acc_plain [OF assms(1)] append_Nil)
  also have "\<dots> = [v] @ fields_acc w []" using assms(2) by (simp add: ascii_space_def)
  also have "fields_acc w [] = [w]" using fields_acc_plain [OF assms(3), of "[]" "[]"] assms(4) by simp
  finally show ?thesis by simp
qed

lemma bearer_header:
  assumes "list_all plain_char token" "token \<noteq> []"
  shows "bearerToken (''Bearer '' @ token) = token"
proof -
  have "Prelude.fields (''Bearer'' @ CHR '' '' # token) = [''Bearer'', token]"
    by (rule fields_pair) (simp_all add: assms plain_char_def less_eq_char_def)
  moreover have "map lower_char ''Bearer'' = ''bearer''" by code_simp
  ultimately show ?thesis by (simp add: bearerToken_def)
qed

lemma jwt_okD:
  assumes "jwt_ok J" "jwt_sign J secret r p = Some raw"
  shows "raw \<noteq> []" "list_all plain_char raw"
    "jwt_parse J t secret raw = (if unexpired t r then Some (r, p) else None)"
  using assms unfolding jwt_ok_def by blast+

lemma parseUserToken_issued:
  assumes "jwt_ok J" "issueUserToken J E secret user = Some token" "u_ID user \<noteq> ''''"
  shows "parseUserToken J E' secret token =
    (if now E' < numeric_date (now E + userTokenTTL)
     then Inr \<lparr>rc_ID = randomID E 0, Subject = u_ID user, Audience = [], IssuedAt = Some (numeric_date (now E)),
            rc_ExpiresAt = Some (numeric_date (now E + userTokenTTL)), cl_Role = u_Role user,
            cl_TokenVersion = TokenVersion user, TokenUse = userTokenUse\<rparr>
     else Inl ErrInvalidAuth)"
  using jwt_okD(3) [OF assms(1) assms(2) [unfolded issueUserToken_def]] assms(3)
  by (simp add: parseUserToken_def unexpired_def decode_claims_def json_string_def json_uint64_def
      RegisteredClaims.defs claims.defs)

lemma parseBrowserTicket_issued:
  assumes "jwt_ok J" "issueBrowserTicket J E secret kind subject v access = (Some ticket, x)" "subject \<noteq> ''''"
    and "kind = browserAccessUser \<or> kind = browserAccessShare" "access = [] \<or> access = [a]"
  shows "parseBrowserTicket J E' secret ticket =
    (if now E' < numeric_date (now E + browserTicketTTL)
     then Inr \<lparr>rc_ID = '''', Subject = subject, Audience = [browserTicketAudience],
            IssuedAt = Some (numeric_date (now E)),
            rc_ExpiresAt = Some (numeric_date (now E + browserTicketTTL)), Kind = kind,
            bt_TokenVersion = v, AccessToken = (if access = [] then '''' else a)\<rparr>
     else Inl ErrInvalidAuth)"
proof -
  from assms(2) have sign: "jwt_sign J secret
      \<lparr>rc_ID = '''', Subject = subject, Audience = [browserTicketAudience],
       IssuedAt = Some (numeric_date (now E)), rc_ExpiresAt = Some (numeric_date (now E + browserTicketTTL))\<rparr>
      ((''kind'', AStr kind) # (if v = 0 then [] else [(''token_version'', AUint64 v)])
         @ (if (if access = [] then '''' else a) = '''' then []
            else [(''access_token'', AStr (if access = [] then '''' else a))])) = Some ticket"
    using assms(5) by (auto simp: issueBrowserTicket_def Let_def)
  show ?thesis
    using jwt_okD(3) [OF assms(1) sign] assms(3,4)
    by (auto simp: parseBrowserTicket_def unexpired_def decode_ticket_def json_string_def json_uint64_def
        RegisteredClaims.defs browserTicketClaims.defs containsAudience_def)
qed

section \<open>Logging out\<close>

text \<open>
  A run with its clock: the state is the store and the time of the last operation, which never
  goes back. A logged-out token stays revoked until it has expired: every entry written for its
  digest lasts at least as long, as the handler writes the expiry of the token itself.
\<close>

fun exec_clock :: "env \<times> store_op \<Rightarrow> store \<times> time \<Rightarrow> store \<times> time" where
  "exec_clock (E, op) (s, t) = (exec_op (E, op) s, now E)"

fun clock_ok :: "string \<Rightarrow> time \<Rightarrow> env \<times> store_op \<Rightarrow> store \<times> time \<Rightarrow> bool" where
  "clock_ok digest expires (E, op) (s, t) =
     (t \<le> now E \<and> (case op of OpRevokeUserToken d x \<Rightarrow> d \<noteq> digest \<or> expires \<le> x | _ \<Rightarrow> True))"

fun logged_out :: "string \<Rightarrow> time \<Rightarrow> store \<times> time \<Rightarrow> bool" where
  "logged_out digest expires (s, t) =
     (mok (revokedUserTokens s) \<and>
      (expires \<le> t \<or> (case map_of (revokedUserTokens s) digest of None \<Rightarrow> False | Some x \<Rightarrow> expires \<le> x)))"

lemma sessions_frame [frames]:
  "(case op of OpRevokeUserToken _ _ \<Rightarrow> False | OpClean _ \<Rightarrow> False | _ \<Rightarrow> True) \<Longrightarrow>
   revokedUserTokens (exec_op (E, op) s) = revokedUserTokens s"
  by (cases op) (simp_all add: op_defs split: option.split sum.split if_split)

lemma logged_out_stays:
  assumes "logged_out digest expires st" "clock_ok digest expires e st"
  shows "logged_out digest expires (exec_clock e st)"
proof -
  obtain E op s t where e: "e = (E, op)" and st: "st = (s, t)" by (metis surj_pair)
  consider (revoke) d x where "op = OpRevokeUserToken d x" | (clean) b where "op = OpClean b"
    | (other) "case op of OpRevokeUserToken _ _ \<Rightarrow> False | OpClean _ \<Rightarrow> False | _ \<Rightarrow> True"
    by (cases op) auto
  then show ?thesis
  proof cases
    case revoke
    with assms show ?thesis by (auto simp: e st RevokeUserToken_def split: option.splits)
  next
    case clean
    with assms show ?thesis by (auto simp: e st Clean_def split: option.splits)
  next
    case other
    with assms sessions_frame [OF other, of E s] show ?thesis by (auto simp: e st split: option.splits)
  qed
qed

interpretation sessions: machine exec_clock "clock_ok digest expires" "logged_out digest expires" for digest expires
  by unfold_locales (rule logged_out_stays)

lemma logged_out_rejected:
  assumes "jwt_ok J" "issueUserToken J E secret user = Some token" "u_ID user \<noteq> ''''"
    and "logged_out (tokenDigest E' token) (numeric_date (now E + userTokenTTL)) (s, t)" "t \<le> now E'"
  shows "userFromRequest J E' secret (''Bearer '' @ token) s = Inl ErrInvalidAuth"
  using assms(4,5) parseUserToken_issued [OF assms(1-3), of E']
    bearer_header [OF jwt_okD(2,1) [OF assms(1) assms(2) [unfolded issueUserToken_def]]]
  by (auto simp: userFromRequest_def UserTokenRevoked_def split: option.splits)

section \<open>A concrete token package\<close>

text \<open>
  An instance of the parameter for the witnesses: the tokens are numbered entries of a table, the
  \<open>n\<close>-th one written in unary.
\<close>

definition demo_jwt :: "(RegisteredClaims \<times> obj) list \<Rightarrow> jwt" where
  "demo_jwt tbl =
     \<lparr>jwt_sign = (\<lambda>k r p. if (r, p) \<in> set tbl
        then Some (replicate (Suc (length (takeWhile (\<lambda>x. x \<noteq> (r, p)) tbl))) (CHR ''x'')) else None),
      jwt_parse = (\<lambda>t k raw. if raw \<noteq> [] \<and> length raw \<le> length tbl \<and> unexpired t (fst (tbl ! (length raw - 1)))
        then Some (tbl ! (length raw - 1)) else None)\<rparr>"

lemma takeWhile_index: "x \<in> set xs \<Longrightarrow> length (takeWhile (\<lambda>y. y \<noteq> x) xs) < length xs \<and> xs ! length (takeWhile (\<lambda>y. y \<noteq> x) xs) = x"
  by (induction xs) auto

lemma demo_jwt_ok: "jwt_ok (demo_jwt tbl)"
  unfolding jwt_ok_def
proof (intro allI impI)
  fix secret r p raw
  assume "jwt_sign (demo_jwt tbl) secret r p = Some raw"
  then have mem: "(r, p) \<in> set tbl"
    and raw: "raw = replicate (Suc (length (takeWhile (\<lambda>x. x \<noteq> (r, p)) tbl))) (CHR ''x'')"
    by (auto simp: demo_jwt_def split: if_splits)
  from takeWhile_index [OF mem]
  show "raw \<noteq> [] \<and> list_all plain_char raw \<and>
    (\<forall>t. jwt_parse (demo_jwt tbl) t secret raw = (if unexpired t r then Some (r, p) else None))"
    by (simp add: raw demo_jwt_def list_all_iff plain_char_def less_eq_char_def)
qed

definition demo_user :: User where
  "demo_user = no_user\<lparr>u_ID := ''u1'', Username := ''ann'', u_Role := RoleUser, TokenVersion := 3\<rparr>"

definition demo_users :: store where
  "demo_users = demo_store\<lparr>users := mput ''u1'' demo_user (users demo_store),
     usersByName := mput ''ann'' ''u1'' (usersByName demo_store)\<rparr>"

lemma demo_users_sel [simp]:
  "map_of (users demo_users) ''u1'' = Some demo_user" "map_of (usersByName demo_users) ''ann'' = Some ''u1''"
  "revokedUserTokens demo_users = []" "shares demo_users = []"
  by (simp_all add: demo_users_def demo_store_def CreateUser_def trim_root empty_store_def Let_def)

lemma demo_user_sel [simp]:
  "u_ID demo_user = ''u1''" "Username demo_user = ''ann''" "TokenVersion demo_user = 3"
  "u_Role demo_user = RoleUser" "u_ExpiresAt demo_user = None"
  by (simp_all add: demo_user_def no_user_def)

definition login_claims :: "env \<Rightarrow> User \<Rightarrow> RegisteredClaims \<times> obj" where
  "login_claims E user =
     (\<lparr>rc_ID = randomID E 0, Subject = u_ID user, Audience = [], IssuedAt = Some (numeric_date (now E)),
        rc_ExpiresAt = Some (numeric_date (now E + userTokenTTL))\<rparr>,
      [(''role'', AStr (u_Role user)), (''token_version'', AUint64 (TokenVersion user)),
       (''token_use'', AStr userTokenUse)])"

lemma demo_login: "issueUserToken (demo_jwt [login_claims E user]) E secret user = Some ''x''"
  by (simp add: issueUserToken_def demo_jwt_def login_claims_def)

section \<open>Properties\<close>

text \<open>C5. A login token is accepted exactly as long as it should be: a request with it is answered as the
  current account of the user it was issued to while the token is younger than seven days (to the
  second), it has not been logged out, the account exists with the token version of the login and
  has not expired, and it is refused in every other case.\<close>

theorem user_token_decides:
  assumes "jwt_ok J" "issueUserToken J E secret user = Some token" "u_ID user \<noteq> ''''"
  shows "userFromRequest J E' secret (''Bearer '' @ token) s =
    (case map_of (users s) (u_ID user) of
       None \<Rightarrow> Inl ErrInvalidAuth
     | Some u \<Rightarrow>
         (if now E' < numeric_date (now E + userTokenTTL) \<and> \<not> UserTokenRevoked E' (tokenDigest E' token) s \<and>
             TokenVersion u = TokenVersion user \<and> \<not> after_opt (now E') (u_ExpiresAt u)
          then Inr (sanitizeUser u) else Inl ErrInvalidAuth))"
  using parseUserToken_issued [OF assms, of E'] jwt_okD(1) [OF assms(1) assms(2) [unfolded issueUserToken_def]]
    bearer_header [OF jwt_okD(2,1) [OF assms(1) assms(2) [unfolded issueUserToken_def]]]
  by (auto simp: userFromRequest_def userForToken_def User_get_def sanitizeUser_def split: option.splits)

theorem user_token_decides_witness:
  "userFromRequest (demo_jwt [login_claims (demo_env 10 5) demo_user]) (demo_env 20 6) ''key'' ''Bearer x'' demo_users =
     Inr (sanitizeUser demo_user)"
  using user_token_decides [OF demo_jwt_ok demo_login [of "demo_env 10 5" demo_user],
      where E' = "demo_env 20 6" and s = demo_users and secret = "''key''"]
  by (simp add: numeric_date_def userTokenTTL_def Hour_def UserTokenRevoked_def after_opt_def)

text \<open>The two kinds of signed tokens cannot be used for each other: a login token is never accepted as a
  web socket ticket, and a ticket never authenticates an HTTP request, although both are signed
  with the same key.\<close>

theorem token_kinds_separate:
  assumes "jwt_ok J"
  shows "(issueUserToken J E secret user = Some token \<longrightarrow>
            parseBrowserTicket J E' secret token = Inl ErrInvalidAuth) \<and>
         (issueBrowserTicket J E secret kind subject v access = (Some ticket, x) \<longrightarrow>
            userFromRequest J E' secret (''Bearer '' @ ticket) s = Inl ErrInvalidAuth)"
proof (intro conjI impI)
  assume "issueUserToken J E secret user = Some token"
  from jwt_okD(3) [OF assms this [unfolded issueUserToken_def], of "now E'"]
  show "parseBrowserTicket J E' secret token = Inl ErrInvalidAuth"
    by (simp add: parseBrowserTicket_def decode_ticket_def json_string_def json_uint64_def
        RegisteredClaims.defs browserTicketClaims.defs containsAudience_def)
next
  assume "issueBrowserTicket J E secret kind subject v access = (Some ticket, x)"
  then obtain r a where sign: "jwt_sign J secret r ((''kind'', AStr kind)
      # (if v = 0 then [] else [(''token_version'', AUint64 v)])
      @ (if a = '''' then [] else [(''access_token'', AStr a)])) = Some ticket"
    by (auto simp: issueBrowserTicket_def Let_def)
  from jwt_okD(3) [OF assms sign, of "now E'"]
  have "parseUserToken J E' secret ticket = Inl ErrInvalidAuth"
    by (auto simp: parseUserToken_def decode_claims_def json_string_def json_uint64_def userTokenUse_def
        RegisteredClaims.defs claims.defs)
  with bearer_header [OF jwt_okD(2,1) [OF assms sign]]
  show "userFromRequest J E' secret (''Bearer '' @ ticket) s = Inl ErrInvalidAuth"
    by (simp add: userFromRequest_def Let_def)
qed

theorem token_kinds_separate_witness:
  "parseBrowserTicket (demo_jwt [login_claims (demo_env 10 5) demo_user]) (demo_env 20 6) ''key'' ''x'' =
     Inl ErrInvalidAuth"
  using token_kinds_separate [OF demo_jwt_ok, of "[login_claims (demo_env 10 5) demo_user]" "demo_env 10 5" "''key''"
      demo_user "''x''" "demo_env 20 6"] demo_login by blast

text \<open>Resetting a password ends every session of the account: a token issued for the account as it was
  before is refused from then on.\<close>

theorem password_reset_ends_sessions:
  assumes "jwt_ok J" "issueUserToken J E secret user = Some token" "u_ID user \<noteq> ''''"
    and "users_ok s" "map_of (users s) (u_ID user) = Some user"
    and "ResetPassword E1 (Username user) password s = (Inr (), s')"
  shows "userFromRequest J E' secret (''Bearer '' @ token) s' = Inl ErrInvalidAuth"
proof -
  from users_okD(3) [OF assms(4,5)] have "map_of (usersByName s) (Username user) = Some (u_ID user)" by simp
  with assms(5,6) obtain u where "map_of (users s') (u_ID user) = Some u" "TokenVersion u = TokenVersion user + 1"
    by (auto simp: ResetPassword_def UpdateUser_def split: if_splits option.splits)
  then have "userForToken E' (u_ID user) (TokenVersion user) s' = Inl ErrInvalidAuth"
    by (auto simp: userForToken_def User_get_def sanitizeUser_def)
  with parseUserToken_issued [OF assms(1-3), of E']
    bearer_header [OF jwt_okD(2,1) [OF assms(1) assms(2) [unfolded issueUserToken_def]]]
  show ?thesis by (simp add: userFromRequest_def Let_def)
qed

lemma demo_users_ok: "users_ok demo_users"
proof -
  have "randomID (demo_env 10 1) 0 \<noteq> ''u1''"
  proof
    assume "randomID (demo_env 10 1) 0 = ''u1''"
    then have "length (randomID (demo_env 10 1) 0) = length ''u1''" by (simp only:)
    then show False by (simp add: length_randomID)
  qed
  then show ?thesis
    by (auto simp: users_ok_def demo_users_def demo_store_def CreateUser_def trim_root empty_store_def Let_def
        demo_user_def no_user_def RoleUser_def RoleAdmin_def split: if_splits)
qed

theorem password_reset_ends_sessions_witness:
  "userFromRequest (demo_jwt [login_claims (demo_env 10 5) demo_user]) (demo_env 30 6) ''key'' ''Bearer x''
     (snd (ResetPassword (demo_env 20 7) ''ann'' ''new'' demo_users)) = Inl ErrInvalidAuth"
proof -
  let ?r = "ResetPassword (demo_env 20 7) (Username demo_user) ''new'' demo_users"
  have "?r = (Inr (), snd ?r)"
    by (simp add: ResetPassword_def UpdateUser_def)
  from password_reset_ends_sessions [OF demo_jwt_ok demo_login _ demo_users_ok _ this]
  show ?thesis by simp
qed

text \<open>What a restricted user may not choose is not influenced by the request: the stream options that
  reach the agent carry the value from the settings of the device and the user for every
  forbidden option, nothing that steers the snapshot interval unless the user is an
  administrator, and every other option as the client sent it.\<close>

theorem constrained_options:
  assumes "mok raw"
  shows "map_of (constrainedStreamOptions user deviceID raw s) k =
    (let settings = mover (agentSettings deviceID s) (Settings user);
         setting = (\<lambda>key fallback. case map_of settings key of Some v \<Rightarrow> v | None \<Rightarrow> fallback)
     in if u_ForbidAudio user \<and> k = ''audio'' then Some (setting ''audio'' (ABool False))
        else if u_ForbidBitrate user \<and> k = ''bwe'' then Some (ABool False)
        else if u_ForbidBitrate user \<and> k \<in> {''bitrate'', ''min_bitrate'', ''max_bitrate''}
          then Some (fixed_bitrate (setting ''bitrate'' (AFloat 4)))
        else if u_ForbidFPS user \<and> k \<in> {''fps'', ''max_fps''} then Some (setting ''fps'' (AFloat 0))
        else if u_ForbidResolution user \<and> k = ''max_size'' then Some (setting ''size'' (AFloat 0))
        else if u_Role user \<noteq> RoleAdmin \<and> k \<in> {''snapshot_interval'', ''snapshotInterval''} then None
        else map_of raw k)"
proof -
  have "map_of (cloneMap raw) j = map_of raw j" for j
    using map_of_rev_mok [OF assms] by (simp add: cloneMap_def split: option.split)
  note opts = constrainedStreamOptions_def Let_def restrict_map_def map_of_if this
  let ?A = "{''audio'', ''bwe'', ''bitrate'', ''min_bitrate'', ''max_bitrate''}"
  let ?B = "{''fps'', ''max_fps'', ''max_size'', ''snapshot_interval'', ''snapshotInterval''}"
  show ?thesis
  proof (cases "k \<in> ?A")
    case True
    then show ?thesis by (elim insertE emptyE) (simp_all add: opts)
  next
    case notA: False
    show ?thesis
    proof (cases "k \<in> ?B")
      case True
      then show ?thesis by (elim insertE emptyE) (simp_all add: opts)
    next
      case False
      with notA show ?thesis by (simp add: opts)
    qed
  qed
qed

theorem constrained_options_witness:
  "map_of (constrainedStreamOptions (demo_user\<lparr>u_ForbidBitrate := True\<rparr>) ''d1'' [(''bitrate'', AFloat 99)] demo_users)
     ''bwe'' = Some (ABool False)"
  by (subst constrained_options) (simp_all add: Let_def)

lemma find_unique:
  "x \<in> set xs \<Longrightarrow> P x \<Longrightarrow> (\<And>y. y \<in> set xs \<Longrightarrow> P y \<Longrightarrow> y = x) \<Longrightarrow> find P xs = Some x"
  by (metis find_None_iff find_Some_iff nth_mem option.exhaust)

text \<open>A ticket for a share gives exactly the access of the share: while the share exists and has not
  expired its visitor acts as a plain user with this one device, the restrictions of the share
  and no operation permission, view-only when the share says so; once the share is revoked or
  expired the access is refused. (No other share of the store may have the same keyed digest.)\<close>

theorem share_ticket_access:
  assumes "shares_ok s"
    and distinct: "\<And>t. map_of (shares s) t \<noteq> None \<Longrightarrow> shareTicketSubject E secret t = shareTicketSubject E secret token \<Longrightarrow> t = token"
  shows "fst (validateBrowserAccess E secret
      \<lparr>ba_kind = browserAccessShare, ba_subject = shareTicketSubject E secret token, ba_tokenVersion = 0, ba_accessToken = ''''\<rparr> s) =
    (case map_of (shares s) token of
       None \<Rightarrow> Inl ErrInvalidAuth
     | Some h \<Rightarrow> if after_opt (now E) (sh_ExpiresAt h) then Inl ErrInvalidAuth
         else Inr (userForShare h, ViewOnly h))"
proof -
  let ?all = "fst (SharesFor E '''' s)"
  let ?P = "\<lambda>share. shareTicketSubject E secret token = shareTicketSubject E secret (sh_Token share)"
  have mok: "mok (shares s)" and key: "map_of (shares s) k = Some h \<Longrightarrow> sh_Token h = k" for k h
    using assms(1) by (auto simp: shares_ok_def)
  have all: "h \<in> set ?all \<longleftrightarrow> map_of (shares s) (sh_Token h) = Some h \<and> \<not> after_opt (now E) (sh_ExpiresAt h)" for h
    using SharesFor_set [OF mok, of h E "''''"] key by auto
  have tok: "h \<in> set ?all \<Longrightarrow> ?P h \<Longrightarrow> sh_Token h = token" for h
    using all [of h] distinct [of "sh_Token h"] by auto
  have "find ?P ?all = (case map_of (shares s) token of None \<Rightarrow> None
      | Some h \<Rightarrow> if after_opt (now E) (sh_ExpiresAt h) then None else Some h)"
  proof (cases "\<exists>h. map_of (shares s) token = Some h \<and> \<not> after_opt (now E) (sh_ExpiresAt h)")
    case True
    then obtain h where h: "map_of (shares s) token = Some h" "\<not> after_opt (now E) (sh_ExpiresAt h)" by blast
    with key all have "h \<in> set ?all" "?P h" by auto
    moreover have "y = h" if "y \<in> set ?all" "?P y" for y
      using tok [OF that] all [of y] that h by auto
    ultimately have "find ?P ?all = Some h" by (rule find_unique)
    with h show ?thesis by simp
  next
    case False
    then have "\<not> ?P h" if "h \<in> set ?all" for h using tok [OF that] all [of h] that by auto
    then have "find ?P ?all = None" unfolding find_None_iff by blast
    with False show ?thesis by (auto split: option.splits)
  qed
  then show ?thesis
    by (auto simp: validateBrowserAccess_def browserAccessShare_def browserAccessUser_def shareForTicket_def
        split: prod.splits option.splits)
qed

definition demo_share :: Share where
  "demo_share = \<lparr>sh_Token = ''t1'', CardCode = ''c1'', sh_DeviceID = ''d1'', ViewOnly = True, sh_PasswordHash = '''',
     Description = '''', sh_ExpiresAt = Some 50, sh_CreatedBy = ''root'', sh_CreatedAt = 1,
     sh_ForbidBitrate = False, sh_ForbidFPS = False, sh_ForbidResolution = False, sh_ForbidAudio = True,
     GuestSettings = []\<rparr>"

theorem share_ticket_access_witness:
  "fst (validateBrowserAccess (demo_env 20 1) ''key''
      \<lparr>ba_kind = browserAccessShare, ba_subject = shareTicketSubject (demo_env 20 1) ''key'' ''t1'', ba_tokenVersion = 0,
       ba_accessToken = ''''\<rparr> (demo_users\<lparr>shares := [(''t1'', demo_share)]\<rparr>)) = Inr (userForShare demo_share, True)"
  by (subst share_ticket_access) (auto simp: shares_ok_def demo_share_def after_opt_def split: if_splits)

text \<open>C6. A web socket ticket survives the logout of the login it was issued for: the revocation of the login
  lapses when the login token expires, and a ticket issued within its last minute is then
  accepted again for the rest of its own minute.\<close>

theorem ticket_survives_logout:
  assumes "jwt_ok J" "issueBrowserTicket J E secret browserAccessUser (u_ID user) (TokenVersion user) [digest] = (Some ticket, x)"
    and "map_of (users s) (u_ID user) = Some user" "u_ExpiresAt user = None" "u_ID user \<noteq> ''''"
    and "RevokeUserToken digest expires s = (Inr (), s')"
    and "expires \<le> now E'" "now E' < numeric_date (now E + browserTicketTTL)"
  shows "browserAccessFromTicket J E' secret ticket s' =
    (Inr (sanitizeUser user, False, \<lparr>ba_kind = browserAccessUser, ba_subject = u_ID user,
       ba_tokenVersion = TokenVersion user, ba_accessToken = digest\<rparr>), s')"
  using parseBrowserTicket_issued [OF assms(1,2,5), of digest E'] assms(3-8)
  by (auto simp: browserAccessFromTicket_def validateBrowserAccess_def UserTokenRevoked_def RevokeUserToken_def
      userForToken_def User_get_def sanitizeUser_def after_opt_def)

definition ticket_claims :: "env \<Rightarrow> string \<Rightarrow> string \<Rightarrow> 64 word \<Rightarrow> string \<Rightarrow> RegisteredClaims \<times> obj" where
  "ticket_claims E kind subject v access =
     (\<lparr>rc_ID = '''', Subject = subject, Audience = [browserTicketAudience], IssuedAt = Some (numeric_date (now E)),
        rc_ExpiresAt = Some (numeric_date (now E + browserTicketTTL))\<rparr>,
      (''kind'', AStr kind) # (if v = 0 then [] else [(''token_version'', AUint64 v)])
        @ (if access = '''' then [] else [(''access_token'', AStr access)]))"

theorem ticket_survives_logout_witness:
  "fst (browserAccessFromTicket (demo_jwt [ticket_claims (demo_env 10 1) browserAccessUser ''u1'' 3 ''dg'']) (demo_env 30 3) ''key'' ''x''
     (snd (RevokeUserToken ''dg'' 25 demo_users))) =
   Inr (sanitizeUser demo_user, False, \<lparr>ba_kind = browserAccessUser, ba_subject = ''u1'', ba_tokenVersion = 3, ba_accessToken = ''dg''\<rparr>)"
proof -
  let ?J = "demo_jwt [ticket_claims (demo_env 10 1) browserAccessUser ''u1'' 3 ''dg'']"
  have "issueBrowserTicket ?J (demo_env 10 1) ''key'' browserAccessUser (u_ID demo_user) (TokenVersion demo_user) [''dg''] =
      (Some ''x'', 10 + browserTicketTTL)"
    by (simp add: issueBrowserTicket_def demo_jwt_def ticket_claims_def Let_def)
  from ticket_survives_logout [OF demo_jwt_ok this, of demo_users 25 _ "demo_env 30 3"]
  show ?thesis by (simp add: RevokeUserToken_def numeric_date_def browserTicketTTL_def Minute_def)
qed

end
