(* ===== verification/Limiter.thy ===== *)
theory Limiter
  imports Config
begin

text \<open>
  \<open>login_limiter.go\<close>: failed logins are counted per account and per client address within a
  window, and the client address is taken from \<open>X-Forwarded-For\<close> behind a trusted proxy only.
\<close>

record loginAttempt =
  count :: int
  resetAt :: time

record loginLimiter =
  window :: duration
  accountLimit :: int
  ipLimit :: int
  accounts :: "loginAttempt gomap"
  ips :: "loginAttempt gomap"

definition newLoginLimiter :: "'p Config \<Rightarrow> loginLimiter" where
  "newLoginLimiter config =
     \<lparr>window = LoginAttemptWindow config, accountLimit = LoginMaxAttemptsPerAccount config,
      ipLimit = LoginMaxAttemptsPerIP config, accounts = [], ips = []\<rparr>"

text \<open>Reading a missing entry of the map gives the zero value.\<close>

definition attempt_of :: "string \<Rightarrow> loginAttempt gomap \<Rightarrow> loginAttempt" where
  "attempt_of k m = (case map_of m k of None \<Rightarrow> \<lparr>count = 0, resetAt = 0\<rparr> | Some a \<Rightarrow> a)"

definition cleanExpired :: "time \<Rightarrow> loginLimiter \<Rightarrow> loginLimiter" where
  "cleanExpired t l =
     l\<lparr>accounts := mfilter (\<lambda>_ a. t < resetAt a) (accounts l), ips := mfilter (\<lambda>_ a. t < resetAt a) (ips l)\<rparr>"

definition allow :: "time \<Rightarrow> string \<Rightarrow> string \<Rightarrow> loginLimiter \<Rightarrow> (duration \<times> bool) \<times> loginLimiter" where
  "allow t account ip l =
     (let l = cleanExpired t l;
          a = attempt_of account (accounts l);
          retryAfter = (if accountLimit l \<le> count a \<and> t < resetAt a then time_sub (resetAt a) t else 0);
          b = attempt_of ip (ips l);
          retryAfter = (if ipLimit l \<le> count b \<and> t < resetAt b \<and> retryAfter < time_sub (resetAt b) t
                        then time_sub (resetAt b) t else retryAfter)
      in ((retryAfter, 0 < retryAfter), l))"

definition nextLoginAttempt :: "loginAttempt \<Rightarrow> time \<Rightarrow> duration \<Rightarrow> loginAttempt" where
  "nextLoginAttempt a t w =
     (if \<not> t < resetAt a then \<lparr>count = 1, resetAt = t + w\<rparr> else a\<lparr>count := count a + 1\<rparr>)"

definition recordFailure :: "time \<Rightarrow> string \<Rightarrow> string \<Rightarrow> loginLimiter \<Rightarrow> loginLimiter" where
  "recordFailure t account ip l =
     (let l = cleanExpired t l in
      l\<lparr>accounts := mput account (nextLoginAttempt (attempt_of account (accounts l)) t (window l)) (accounts l),
         ips := mput ip (nextLoginAttempt (attempt_of ip (ips l)) t (window l)) (ips l)\<rparr>)"

definition clearAccount :: "string \<Rightarrow> loginLimiter \<Rightarrow> loginLimiter" where
  "clearAccount account l = l\<lparr>accounts := mdel account (accounts l)\<rparr>"

text \<open>
  The operations of \<open>net\<close> and \<open>net/netip\<close> that \<open>requestClientIP\<close> calls: splitting host and port,
  parsing and printing an address, and membership of an address in a prefix.
\<close>

record ('a, 'p) netip =
  split_host_port :: "string \<Rightarrow> string option"
  parse_addr :: "string \<Rightarrow> 'a option"
  addr_string :: "'a \<Rightarrow> string"
  prefix_contains :: "'p \<Rightarrow> 'a \<Rightarrow> bool"

definition trustedProxy :: "('a, 'p) netip \<Rightarrow> 'a \<Rightarrow> 'p list \<Rightarrow> bool" where
  "trustedProxy N address trusted \<longleftrightarrow> list_ex (\<lambda>p. prefix_contains N p address) trusted"

definition requestClientIP :: "('a, 'p) netip \<Rightarrow> string \<Rightarrow> string \<Rightarrow> 'p list \<Rightarrow> string" where
  "requestClientIP N remoteAddr forwardedFor trusted =
     (let host = (case split_host_port N remoteAddr of None \<Rightarrow> remoteAddr | Some h \<Rightarrow> h) in
      case parse_addr N host of
        None \<Rightarrow> host
      | Some direct \<Rightarrow>
          (let forwarded = trim_space (hd (split_on (CHR '','') forwardedFor)) in
           case (if trustedProxy N direct trusted \<and> forwarded \<noteq> '''' then parse_addr N forwarded else None) of
             Some client \<Rightarrow> addr_string N client
           | None \<Rightarrow> addr_string N direct))"

section \<open>Lemmas\<close>

definition limiter_ok :: "loginLimiter \<Rightarrow> bool" where
  "limiter_ok l \<longleftrightarrow> mok (accounts l) \<and> mok (ips l) \<and> 0 < window l \<and> window l < 2 ^ 63"

lemma cleanExpired_ok: "limiter_ok l \<Longrightarrow> limiter_ok (cleanExpired t l)"
  by (simp add: limiter_ok_def cleanExpired_def)

lemma recordFailure_ok: "limiter_ok l \<Longrightarrow> limiter_ok (recordFailure t a i l)"
  by (simp add: limiter_ok_def recordFailure_def cleanExpired_def Let_def)

lemma attempt_cleaned:
  "mok m \<Longrightarrow> attempt_of k (mfilter (\<lambda>_ a. t < resetAt a) m) =
     (if t < resetAt (attempt_of k m) \<and> map_of m k \<noteq> None then attempt_of k m else \<lparr>count = 0, resetAt = 0\<rparr>)"
  by (simp add: attempt_of_def split: option.split)

text \<open>One failure more, within the window of the first one.\<close>

lemma recordFailure_counts:
  assumes "limiter_ok l" "map_of (accounts l) a = Some \<lparr>count = c, resetAt = r\<rparr>" "t < r"
  shows "map_of (accounts (recordFailure t a ip l)) a = Some \<lparr>count = c + 1, resetAt = r\<rparr>"
    and "window (recordFailure t a ip l) = window l" "accountLimit (recordFailure t a ip l) = accountLimit l"
  using assms
  by (simp_all add: recordFailure_def cleanExpired_def limiter_ok_def attempt_of_def nextLoginAttempt_def Let_def)

lemma recordFailure_first:
  assumes "limiter_ok l" "map_of (accounts l) a = None" "0 \<le> t"
  shows "map_of (accounts (recordFailure t a ip l)) a = Some \<lparr>count = 1, resetAt = t + window l\<rparr>"
    and "window (recordFailure t a ip l) = window l" "accountLimit (recordFailure t a ip l) = accountLimit l"
  using assms
  by (simp_all add: recordFailure_def cleanExpired_def limiter_ok_def attempt_of_def nextLoginAttempt_def Let_def)

definition failures :: "string \<Rightarrow> (time \<times> string) list \<Rightarrow> loginLimiter \<Rightarrow> loginLimiter" where
  "failures a ts l = fold (\<lambda>(t, ip). recordFailure t a ip) ts l"

lemma failures_count:
  assumes "limiter_ok l" "map_of (accounts l) a = Some \<lparr>count = c, resetAt = r\<rparr>" "\<forall>(t, ip) \<in> set ts. t < r"
  shows "map_of (accounts (failures a ts l)) a = Some \<lparr>count = c + int (length ts), resetAt = r\<rparr> \<and>
    limiter_ok (failures a ts l) \<and> accountLimit (failures a ts l) = accountLimit l"
  using assms
proof (induction ts arbitrary: l c)
  case Nil
  then show ?case by (simp add: failures_def)
next
  case (Cons x ts)
  obtain t ip where x: "x = (t, ip)" by (cases x)
  let ?l = "recordFailure t a ip l"
  have "map_of (accounts ?l) a = Some \<lparr>count = c + 1, resetAt = r\<rparr>" "accountLimit ?l = accountLimit l"
    using Cons.prems x recordFailure_counts [of l a c r t ip] by auto
  with Cons.IH [of ?l "c + 1"] Cons.prems show ?case
    by (simp add: x failures_def recordFailure_ok algebra_simps)
qed

text \<open>The account limit blocks: after as many failed logins as the limit within one window of the first
  one, from whatever addresses, every further attempt on that account is refused until the window
  ends, and the time to wait it reports is at least the rest of the window.\<close>

theorem limiter_blocks:
  assumes "limiter_ok l" "map_of (accounts l) a = None" "0 \<le> t0"
    and "\<forall>(t, ip) \<in> set ts. t < t0 + window l" "accountLimit l \<le> int (length ts) + 1"
    and "t < t0 + window l" "0 \<le> t"
  shows "\<exists>retry l'. allow t a ip (failures a ((t0, ip0) # ts) l) = ((retry, True), l') \<and>
    min (t0 + window l - t) (2 ^ 63 - 1) \<le> retry"
proof -
  let ?l1 = "recordFailure t0 a ip0 l"
  let ?l = "failures a ts ?l1"
  have first: "map_of (accounts ?l1) a = Some \<lparr>count = 1, resetAt = t0 + window l\<rparr>"
    "accountLimit ?l1 = accountLimit l" "limiter_ok ?l1"
    using recordFailure_first [OF assms(1-3), of ip0] recordFailure_ok [OF assms(1)] by simp_all
  from failures_count [OF first(3,1) assms(4)] first(2)
  have entry: "map_of (accounts ?l) a = Some \<lparr>count = 1 + int (length ts), resetAt = t0 + window l\<rparr>"
    and ok: "limiter_ok ?l" and lim: "accountLimit ?l = accountLimit l" by simp_all
  have eq: "failures a ((t0, ip0) # ts) l = ?l" by (simp add: failures_def)
  have "attempt_of a (accounts (cleanExpired t ?l)) = \<lparr>count = 1 + int (length ts), resetAt = t0 + window l\<rparr>"
    using ok entry assms(6) by (simp add: cleanExpired_def limiter_ok_def attempt_of_def)
  moreover have "accountLimit (cleanExpired t ?l) \<le> 1 + int (length ts)"
    using assms(5) lim by (simp add: cleanExpired_def)
  moreover have "time_sub (t0 + window l) t = min (t0 + window l - t) (2 ^ 63 - 1)" "0 < time_sub (t0 + window l) t"
    using assms(6) by (auto simp: time_sub_def)
  ultimately show ?thesis
    unfolding eq allow_def Let_def using assms(6) by auto
qed

theorem limiter_blocks_witness:
  "\<exists>retry l'. allow 7 ''bob'' ''2.2.2.2''
     (failures ''bob'' [(5, ''1.1.1.1''), (6, ''3.3.3.3'')]
        \<lparr>window = 100, accountLimit = 2, ipLimit = 60, accounts = [], ips = []\<rparr>) = ((retry, True), l') \<and>
     min (5 + 100 - 7) (2 ^ 63 - 1) \<le> retry"
  using limiter_blocks [of "\<lparr>window = 100, accountLimit = 2, ipLimit = 60, accounts = [], ips = []\<rparr>" "''bob''" 5
      "[(6, ''3.3.3.3'')]" 7 "''2.2.2.2''" "''1.1.1.1''"]
  by (simp add: limiter_ok_def)

end
