(* ===== verification/Server.thy ===== *)
theory Server
  imports Auth Limiter ScrcpyProtocol
begin

text \<open>
  The state of the server and its realtime half: \<open>telemetry.go\<close>, \<open>preview.go\<close>, the audio start of
  \<open>audio_stream.go\<close>, \<open>redis_bus.go\<close>, the download grants of \<open>operations.go\<close> and, of \<open>server.go\<close>, the
  broadcasts, the life of a browser and of an agent connection and the handling of their messages.
  A handler is one step on the server state; what it sends is returned as a list of frames. It
  reads the clock once, and the calls it makes draw their random identifiers one after the other
  from the same source.
\<close>

section \<open>State and parameters\<close>

record 'p server =
  config :: "'p Config"
  sv_store :: store
  hub :: realtimeHub
  deviceMetrics :: "obj gomap"
  pendingAgentHandshakes :: nat
  sv_limiter :: loginLimiter
  blobs :: "byte list gomap"
  redis :: bool

text \<open>
  The parts of the standard library that are parameters: decoding of JSON into the typed structs,
  the PNG header reader, the file name functions and the URL parser; \<open>W\<close> says which sockets
  accept a write, \<open>R\<close> whether a file operation succeeds.
\<close>

record downloadGrant =
  g_AssetID :: string
  g_TaskID :: string
  g_DeviceID :: string
  Expires :: int

record web =
  decode_info :: "obj \<Rightarrow> DeviceInfo option"
  grant_json :: "downloadGrant \<Rightarrow> string"
  grant_unjson :: "string \<Rightarrow> downloadGrant option"
  png_size :: "byte list \<Rightarrow> (int \<times> int) option"
  path_join :: "string list \<Rightarrow> string"
  url_parts :: "string \<Rightarrow> (string \<times> string \<times> string) option"

definition skip :: "nat \<Rightarrow> env \<Rightarrow> env" where
  "skip k E = E\<lparr>rand := (\<lambda>i. rand E (i + k))\<rparr>"

definition newServer :: "'p Config \<Rightarrow> store \<Rightarrow> bool \<Rightarrow> 'p server" where
  "newServer c s requireRedis =
     (let c = withSecurityDefaults c in
      \<lparr>config = c, sv_store = s, hub = newRealtimeHub, deviceMetrics = [], pendingAgentHandshakes = 0,
       sv_limiter = newLoginLimiter c, blobs = [], redis = requireRedis\<rparr>)"

text \<open>One round of \<open>startMaintenance\<close>.\<close>

definition maintenance :: "env \<Rightarrow> 'p server \<Rightarrow> 'p server" where
  "maintenance E sv =
     (let retention = (if AuditRetention (config sv) \<le> 0 then 90 * 24 * Hour else AuditRetention (config sv)) in
      sv\<lparr>sv_store := Clean E (now E - retention) (sv_store sv)\<rparr>)"

section \<open>Escaping\<close>

definition hex_digit :: "bool \<Rightarrow> nat \<Rightarrow> char" where
  "hex_digit upper n = (if upper then ''0123456789ABCDEF'' else ''0123456789abcdef'') ! (n mod 16)"

definition hex_bytes :: "byte list \<Rightarrow> string" where
  "hex_bytes bs = concat (map (\<lambda>b. [hex_digit False (unat b div 16), hex_digit False (unat b)]) bs)"

definition unreserved :: "char \<Rightarrow> bool" where
  "unreserved c \<longleftrightarrow> CHR 0x30 \<le> c \<and> c \<le> CHR 0x39 \<or> CHR 0x41 \<le> c \<and> c \<le> CHR 0x5A \<or> CHR 0x61 \<le> c \<and> c \<le> CHR 0x7A
     \<or> c \<in> set ''-_.~''"

definition percent :: "char \<Rightarrow> string" where
  "percent c = [CHR ''%'', hex_digit True (of_char c div 16), hex_digit True (of_char c)]"

text \<open>\<open>url.PathEscape\<close> and \<open>url.QueryEscape\<close>.\<close>

definition path_escape :: "string \<Rightarrow> string" where
  "path_escape s = concat (map (\<lambda>c. if unreserved c \<or> c \<in> set ''$&+=:@'' then [c] else percent c) s)"

definition query_escape :: "string \<Rightarrow> string" where
  "query_escape s =
     concat (map (\<lambda>c. if c = CHR '' '' then ''+'' else if unreserved c then [c] else percent c) s)"

text \<open>\<open>filepath.Base\<close>: the last element after removing trailing slashes.\<close>

definition path_base :: "string \<Rightarrow> string" where
  "path_base p =
     (if p = '''' then ''.''
      else
        (let q = rev (dropWhile (\<lambda>c. c = CHR ''/'') (rev p)) in
         if q = '''' then ''/'' else last (split_on (CHR ''/'') q)))"

section \<open>Telemetry\<close>

definition snapshotPath :: "web \<Rightarrow> env \<Rightarrow> string \<Rightarrow> 'p server \<Rightarrow> string" where
  "snapshotPath L E deviceID sv =
     path_join L [AssetDir (config sv), ''snapshots'', hex_bytes (sha256 E deviceID) @ ''.png'']"

definition snapshot_url :: "string \<Rightarrow> string" where
  "snapshot_url deviceID = ''/api/devices/'' @ path_escape deviceID @ ''/snapshot''"

definition to_kib :: "string \<Rightarrow> obj \<Rightarrow> obj" where
  "to_kib key metrics =
     (case map_of metrics key of Some (AFloat v) \<Rightarrow> mput key (AFloat (fl (v / 1024))) metrics | _ \<Rightarrow> metrics)"

definition normalizeNetworkMetrics :: "obj \<Rightarrow> obj" where
  "normalizeNetworkMetrics raw =
     (let metrics = cloneMap raw; unit = stringField metrics ''network_speed_unit'' in
      if unit = '''' \<or> unit = ''B/s'' then
        mput ''network_speed_unit'' (AStr ''KiB/s'') (to_kib ''upload_speed'' (to_kib ''download_speed'' metrics))
      else metrics)"

definition devicesFor :: "web \<Rightarrow> env \<Rightarrow> User \<Rightarrow> 'p server \<Rightarrow> Device list" where
  "devicesFor L E user sv =
     map (\<lambda>d.
       let d = (if map_of (blobs sv) (snapshotPath L E (d_ID d) sv) \<noteq> None
                then d\<lparr>SnapshotURL := snapshot_url (d_ID d)\<rparr> else d)
       in if Online d then
            (let clients = deviceClients E (d_ID d) (hub sv);
                 d = d\<lparr>Clients := clients, ClientCount := int (length clients)\<rparr>
             in case map_of (deviceMetrics sv) (d_ID d) of None \<Rightarrow> d | Some m \<Rightarrow> d\<lparr>Metrics := m\<rparr>)
          else d)
       (DevicesFor user (sv_store sv))"

definition canSeeTask :: "User \<Rightarrow> Task \<Rightarrow> bool" where
  "canSeeTask user task \<longleftrightarrow>
     (if u_Role user = RoleAdmin \<or> tk_CreatedBy task = Username user then True
      else if \<not> Can user ''batch_tasks'' then False
      else list_all (\<lambda>i. CanAccessDevice user i) (mkeys (Devices task)))"

text \<open>
  Messages with a typed payload have constructors of their own, so a plain \<open>MObj\<close> falls through
  the switch of the source and is returned as it is once its \<open>device_id\<close> has been checked.
\<close>

fun filterBroadcast :: "browserPeer \<Rightarrow> message \<Rightarrow> message option" where
  "filterBroadcast peer (MObj m) =
     (let i = stringField m ''device_id'' in
      if i \<noteq> '''' \<and> \<not> CanAccessDevice (bp_user peer) i then None else Some (MObj m))"
| "filterBroadcast peer (MDevices ds) =
     (if bp_deviceID peer \<noteq> '''' then None
      else Some (MDevices (filter (\<lambda>d. CanAccessDevice (bp_user peer) (d_ID d)) ds)))"
| "filterBroadcast peer (MTask task) = (if canSeeTask (bp_user peer) task then Some (MTask task) else None)"
| "filterBroadcast peer (MTags ts assignments) =
     Some (MTags ts (mfilter (\<lambda>i _. CanAccessDevice (bp_user peer) i) assignments))"
| "filterBroadcast peer (MConfig c i) = Some (MConfig c i)"
| "filterBroadcast peer (MBad t) =
     (if t = ''device_list_update'' \<or> t = ''task_status_updated'' then None else Some (MBad t))"

definition broadcast_all :: "(nat \<Rightarrow> bool) \<Rightarrow> message \<Rightarrow> 'p server \<Rightarrow> out list" where
  "broadcast_all W msg sv = broadcast W filterBroadcast msg (hub sv)"

definition broadcastTask :: "(nat \<Rightarrow> bool) \<Rightarrow> Task \<Rightarrow> 'p server \<Rightarrow> out list" where
  "broadcastTask W task sv =
     broadcast_all W (MTask task) sv @ (if redis sv then [PublishBroadcast (MTask task)] else [])"

definition broadcastDeviceList :: "web \<Rightarrow> (nat \<Rightarrow> bool) \<Rightarrow> env \<Rightarrow> 'p server \<Rightarrow> out list" where
  "broadcastDeviceList L W E sv =
     broadcast_all W (MDevices (devicesFor L E (no_user\<lparr>u_Role := RoleAdmin\<rparr>) sv)) sv"

definition to_agent :: "(nat \<Rightarrow> bool) \<Rightarrow> string \<Rightarrow> obj \<Rightarrow> 'p server \<Rightarrow> out list" where
  "to_agent W deviceID m sv = snd (sendAgent W deviceID (MObj m) (hub sv))"

text \<open>\<open>redisBus.consume\<close> for one decoded envelope, and the two publishers.\<close>

record redisEnvelope =
  Source :: string
  TargetDevice :: string
  Broadcast :: bool
  Message :: Hub.message

definition consume :: "(nat \<Rightarrow> bool) \<Rightarrow> string \<Rightarrow> redisEnvelope \<Rightarrow> 'p server \<Rightarrow> out list" where
  "consume W busID env sv =
     (if Source env = busID then []
      else (if Broadcast env then broadcast_all W (Message env) sv else []) @
           (if TargetDevice env \<noteq> '''' then snd (sendAgent W (TargetDevice env) (Message env) (hub sv)) else []))"

definition iceServers :: "'p Config \<Rightarrow> any" where
  "iceServers c =
     AArr [AObj (if TurnURLs c = [] then [(''urls'', AStr ''stun:stun.l.google.com:19302'')]
       else (''urls'', AArr (map AStr (TurnURLs c))) #
         (if TurnUsername c \<noteq> '''' \<and> TurnCredential c \<noteq> ''''
          then [(''username'', AStr (TurnUsername c)), (''credential'', AStr (TurnCredential c))] else []))]"

definition audit :: "env \<Rightarrow> User \<Rightarrow> string \<Rightarrow> string \<Rightarrow> obj \<Rightarrow> 'p server \<Rightarrow> 'p server" where
  "audit E user act target metadata sv =
     sv\<lparr>sv_store := Audit E (audit_event (Username user) act target metadata) (sv_store sv)\<rparr>"

section \<open>Base64 and download grants\<close>

definition b64_index :: "string \<Rightarrow> char \<Rightarrow> nat option" where
  "b64_index alphabet c = map_of (zip alphabet [0..<64]) c"

fun b64_groups :: "nat list \<Rightarrow> byte list option" where
  "b64_groups [] = Some []"
| "b64_groups [a] = None"
| "b64_groups [a, b] = Some [of_nat (a * 4 + b div 16)]"
| "b64_groups [a, b, c] = Some [of_nat (a * 4 + b div 16), of_nat (b mod 16 * 16 + c div 4)]"
| "b64_groups (a # b # c # d # r) =
     map_option (\<lambda>bs. of_nat (a * 4 + b div 16) # of_nat (b mod 16 * 16 + c div 4) # of_nat (c mod 4 * 64 + d) # bs)
       (b64_groups r)"

text \<open>The decoders skip line breaks; the padding of the standard form must be exact.\<close>

definition b64_decode :: "string \<Rightarrow> string \<Rightarrow> byte list option" where
  "b64_decode alphabet s = Option.bind (parse_all (b64_index alphabet) s) b64_groups"

definition no_breaks :: "string \<Rightarrow> string" where
  "no_breaks s = filter (\<lambda>c. c \<noteq> CHR 0x0A \<and> c \<noteq> CHR 0x0D) s"

definition raw_url_decode :: "string \<Rightarrow> byte list option" where
  "raw_url_decode s =
     b64_decode ''ABCDEFGHIJKLMNOPQRSTUVWXYZabcdefghijklmnopqrstuvwxyz0123456789-_'' (no_breaks s)"

definition std_decode :: "string \<Rightarrow> byte list option" where
  "std_decode s =
     (let s = no_breaks s in
      if length s mod 4 \<noteq> 0 then None
      else b64_decode ''ABCDEFGHIJKLMNOPQRSTUVWXYZabcdefghijklmnopqrstuvwxyz0123456789+/''
        (if suffix ''=='' s then trim_suffix ''=='' s else trim_suffix ''='' s))"

definition unix :: "time \<Rightarrow> int" where
  "unix t = t div 1000000000 - 62135596800"

definition issueDownloadGrant :: "web \<Rightarrow> env \<Rightarrow> string \<Rightarrow> string \<Rightarrow> string \<Rightarrow> string \<Rightarrow> string" where
  "issueDownloadGrant L E secret assetID taskID deviceID =
     (let encoded = b64url (bytes (grant_json L \<lparr>g_AssetID = assetID, g_TaskID = taskID, g_DeviceID = deviceID,
                      Expires = unix (now E + 15 * Minute)\<rparr>))
      in encoded @ ''.'' @ b64url (hmac E secret encoded))"

definition parseDownloadGrant :: "web \<Rightarrow> env \<Rightarrow> string \<Rightarrow> string \<Rightarrow> downloadGrant result" where
  "parseDownloadGrant L E secret raw =
     (let parts = split_on (CHR ''.'') raw in
      if length parts \<noteq> 2 then Inl ErrInvalidToken
      else if raw_url_decode (parts ! 1) \<noteq> Some (hmac E secret (parts ! 0)) then Inl ErrInvalidToken
      else
        (case Option.bind (raw_url_decode (parts ! 0)) (\<lambda>payload. grant_unjson L (string_of payload)) of
           None \<Rightarrow> Inl ErrInvalidToken
         | Some grant \<Rightarrow>
             (if g_AssetID grant = '''' \<or> Expires grant < unix (now E) then Inl ErrInvalidToken else Inr grant)))"

text \<open>
  \<open>saveSnapshot\<close>: a thumbnail of at most 1 MiB of base64 and 720 pixels per side replaces the one
  of the device in one rename, and the browsers are told.
\<close>

definition saveSnapshot ::
  "web \<Rightarrow> (nat \<Rightarrow> bool) \<Rightarrow> (string \<Rightarrow> bool) \<Rightarrow> env \<Rightarrow> string \<Rightarrow> string \<Rightarrow> 'p server \<Rightarrow> bool \<times> out list \<times> 'p server" where
  "saveSnapshot L W R E deviceID encoded sv =
     (if 2 ^ 20 < length encoded then (False, [], sv)
      else
        (case std_decode encoded of
           None \<Rightarrow> (False, [], sv)
         | Some data \<Rightarrow>
             (case png_size L data of
                None \<Rightarrow> (False, [], sv)
              | Some (width, height) \<Rightarrow>
                  (if width \<le> 0 \<or> height \<le> 0 \<or> 720 < width \<or> 720 < height then (False, [], sv)
                   else if \<not> R ''mkdir'' \<or> \<not> R ''create'' \<or> \<not> R ''write'' \<or> \<not> R ''close'' \<or> \<not> R ''rename''
                   then (False, [], sv)
                   else
                     (let sv = sv\<lparr>blobs := mput (snapshotPath L E deviceID sv) data (blobs sv)\<rparr> in
                      (True,
                       broadcast_all W (MObj [(''message_type'', AStr ''snapshot_updated''),
                         (''device_id'', AStr deviceID), (''url'', AStr (snapshot_url deviceID))]) sv,
                       sv))))))"

section \<open>Messages of a browser\<close>

definition audio_denied :: string where
  "audio_denied =
     [CHR 0xE6, CHR 0x97, CHR 0xA0, CHR 0xE6, CHR 0x9D, CHR 0x83, CHR 0xE8, CHR 0xAE, CHR 0xBF, CHR 0xE9,
      CHR 0x97, CHR 0xAE, CHR 0xE8, CHR 0xAE, CHR 0xBE, CHR 0xE5, CHR 0xA4, CHR 0x87, CHR 0xE9, CHR 0x9F,
      CHR 0xB3, CHR 0xE9, CHR 0xA2, CHR 0x91]"

definition audio_locked :: string where
  "audio_locked =
     [CHR 0xE7, CHR 0xAE, CHR 0xA1, CHR 0xE7, CHR 0x90, CHR 0x86, CHR 0xE5, CHR 0x91, CHR 0x98, CHR 0xE5,
      CHR 0xB7, CHR 0xB2, CHR 0xE5, CHR 0x85, CHR 0xB3, CHR 0xE9, CHR 0x97, CHR 0xAD, CHR 0xE9, CHR 0x9F,
      CHR 0xB3, CHR 0xE9, CHR 0xA2, CHR 0x91, CHR 0xE5, CHR 0xB9, CHR 0xB6, CHR 0xE9, CHR 0x94, CHR 0x81,
      CHR 0xE5, CHR 0xAE, CHR 0x9A, CHR 0xE8, CHR 0xAE, CHR 0xBE, CHR 0xE7, CHR 0xBD, CHR 0xAE]"

definition audio_offline :: string where
  "audio_offline =
     [CHR 0xE8, CHR 0xAE, CHR 0xBE, CHR 0xE5, CHR 0xA4, CHR 0x87, CHR 0xE7, CHR 0xA6, CHR 0xBB, CHR 0xE7,
      CHR 0xBA, CHR 0xBF, CHR 0xEF, CHR 0xBC, CHR 0x8C, CHR 0xE6, CHR 0x97, CHR 0xA0, CHR 0xE6, CHR 0xB3,
      CHR 0x95, CHR 0xE5, CHR 0xBC, CHR 0x80, CHR 0xE5, CHR 0x90, CHR 0xAF, CHR 0xE9, CHR 0x9F, CHR 0xB3,
      CHR 0xE9, CHR 0xA2, CHR 0x91]"

definition error_message :: "string \<Rightarrow> string \<Rightarrow> Hub.message" where
  "error_message t reason = MObj [(''message_type'', AStr t), (''error'', AStr reason)]"

definition syncPreview :: "(nat \<Rightarrow> bool) \<Rightarrow> string \<Rightarrow> 'p server \<Rightarrow> out list" where
  "syncPreview W deviceID sv =
     to_agent W deviceID
       (case selectedPreviewRequest deviceID (hub sv) of
          None \<Rightarrow> [(''message_type'', AStr ''stop_preview''), (''device_id'', AStr deviceID)]
        | Some m \<Rightarrow> m) sv"

text \<open>\<open>decodeRealtimeValue\<close> of a list of strings.\<close>

fun string_targets :: "any \<Rightarrow> string list option" where
  "string_targets ANil = Some []"
| "string_targets (AArr xs) =
     parse_all (\<lambda>x. case x of AStr s \<Rightarrow> Some s | ANil \<Rightarrow> Some '''' | _ \<Rightarrow> None) xs"
| "string_targets _ = None"

fun inject_each :: "(nat \<Rightarrow> bool) \<Rightarrow> browserPeer \<Rightarrow> obj \<Rightarrow> string list \<Rightarrow> string list \<Rightarrow> 'p server \<Rightarrow> out list" where
  "inject_each W peer m seen [] sv = []"
| "inject_each W peer m seen (i # targets) sv =
     (if i = '''' \<or> \<not> CanAccessDevice (bp_user peer) i \<or> i \<in> set seen then inject_each W peer m seen targets sv
      else
        to_agent W i (mdel ''target_device_ids'' (mput ''device_id'' (AStr i) (withClient m (bp_id peer)))) sv
          @ inject_each W peer m (i # seen) targets sv)"

definition injectData :: "(nat \<Rightarrow> bool) \<Rightarrow> browserPeer \<Rightarrow> string \<Rightarrow> obj \<Rightarrow> 'p server \<Rightarrow> out list" where
  "injectData W peer deviceID m sv =
     (if bp_viewOnly peer then write_peer W (error_message ''error'' ''device control denied'') peer
      else
        (case map_of m ''target_device_ids'' of
           None \<Rightarrow> inject_each W peer m [] [deviceID] sv
         | Some raw \<Rightarrow>
             (case string_targets raw of
                None \<Rightarrow> write_peer W (error_message ''error'' ''invalid injection targets'') peer
              | Some targets \<Rightarrow>
                  (if length targets = 0 \<or> 1000 < length targets
                   then write_peer W (error_message ''error'' ''invalid injection targets'') peer
                   else inject_each W peer m [] targets sv))))"

definition startBrowserAudio ::
  "(nat \<Rightarrow> bool) \<Rightarrow> browserPeer \<Rightarrow> string \<Rightarrow> obj \<Rightarrow> 'p server \<Rightarrow> out list \<times> 'p server" where
  "startBrowserAudio W peer deviceID m sv =
     (if deviceID = '''' \<or> \<not> CanAccessDevice (bp_user peer) deviceID
      then (write_peer W (error_message ''audio_error'' audio_denied) peer, sv)
      else
        (let options = constrainedStreamOptions (bp_user peer) deviceID (mput ''audio'' (ABool True) m) (sv_store sv) in
         if map_of options ''audio'' \<noteq> Some (ABool True)
         then (write_peer W (error_message ''audio_error'' audio_locked) peer, sv)
         else
           (let sv = sv\<lparr>hub := subscribeAudio (bp_id peer) deviceID (hub sv)\<rparr> in
            case sendAgent W deviceID (MObj (withClient options (bp_id peer))) (hub sv) of
              (True, outs) \<Rightarrow> (outs, sv)
            | (False, outs) \<Rightarrow>
                (outs @ write_peer W (error_message ''audio_error'' audio_offline) peer,
                 sv\<lparr>hub := snd (unsubscribeAudio (bp_id peer) deviceID (hub sv))\<rparr>))))"

definition browser_connect ::
  "web \<Rightarrow> (nat \<Rightarrow> bool) \<Rightarrow> env \<Rightarrow> browserPeer \<Rightarrow> obj \<Rightarrow> 'p server \<Rightarrow> out list \<times> 'p server" where
  "browser_connect L W E peer m sv =
     (let deviceID = stringField m ''device_id'' in
      if deviceID = '''' \<or> \<not> CanAccessDevice (bp_user peer) deviceID
      then (write_peer W (error_message ''error'' ''device access denied'') peer, sv)
      else
        (let sv = sv\<lparr>hub := bindBrowser (bp_id peer) deviceID (hub sv)\<rparr>;
             info = map_option Info (find (\<lambda>d. d_ID d = deviceID) (DevicesFor (bp_user peer) (sv_store sv)))
         in (write_peer W (MConfig [(''message_type'', AStr ''config''), (''ice_servers'', iceServers (config sv))] info) peer
               @ to_agent W deviceID [(''message_type'', AStr ''client_connected''), (''client_id'', AStr (bp_id peer)),
                   (''user_id'', AStr (u_ID (bp_user peer)))] sv
               @ broadcastDeviceList L W E sv,
             sv)))"

definition browser_forward :: "(nat \<Rightarrow> bool) \<Rightarrow> browserPeer \<Rightarrow> string \<Rightarrow> obj \<Rightarrow> 'p server \<Rightarrow> out list" where
  "browser_forward W peer deviceID m sv =
     (if deviceID = '''' \<or> \<not> CanAccessDevice (bp_user peer) deviceID then []
      else
        (let forwarded = mput ''permissions''
               (AObj [(''control'', ABool (\<not> bp_viewOnly peer)), (''shell'', ABool (Can (bp_user peer) ''shell''))])
               (withClient m (bp_id peer));
             forwarded = (case objField forwarded ''payload'' of
                 Some payload \<Rightarrow>
                   if stringField payload ''type'' = ''request-offer''
                   then mput ''payload'' (AObj (mput ''scrcpy_options'' (AObj (constrainedStreamOptions (bp_user peer) deviceID
                       (case objField payload ''scrcpy_options'' of None \<Rightarrow> [] | Some raw \<Rightarrow> raw) (sv_store sv))) payload)) forwarded
                   else forwarded
               | None \<Rightarrow> forwarded)
         in to_agent W deviceID forwarded sv))"

definition browser_file ::
  "(nat \<Rightarrow> bool) \<Rightarrow> env \<Rightarrow> browserPeer \<Rightarrow> string \<Rightarrow> string \<Rightarrow> obj \<Rightarrow> 'p server \<Rightarrow> out list \<times> 'p server" where
  "browser_file W E peer messageType deviceID m sv =
     (if deviceID = '''' \<or> bp_deviceID peer \<noteq> deviceID \<or> \<not> CanAccessDevice (bp_user peer) deviceID
         \<or> \<not> Can (bp_user peer) ''file_library''
      then (write_peer W (error_message ''file_error'' ''file access denied'') peer, sv)
      else if messageType = ''file_chunk'' \<and> 88 * 1024 < length (stringField m ''data'') then ([], sv)
      else
        (let payload = (case objField m ''payload'' of None \<Rightarrow> [] | Some p \<Rightarrow> p);
             sv = (if messageType = ''file_command''
                   then sv\<lparr>sv_store := Audit E (audit_event (u_ID (bp_user peer)) (''device_file.'' @ stringField payload ''type'')
                          deviceID [(''path'', AStr (stringField payload ''path''))]) (sv_store sv)\<rparr>
                   else sv)
         in case sendAgent W deviceID (MObj (withClient m (bp_id peer))) (hub sv) of
              (True, outs) \<Rightarrow> (outs, sv)
            | (False, outs) \<Rightarrow> (outs @ write_peer W (error_message ''file_error'' ''device is offline'') peer, sv)))"

definition group_targets :: "obj \<Rightarrow> string list" where
  "group_targets m =
     (case map_of m ''target_device_ids'' of
        Some (AArr xs) \<Rightarrow> map (\<lambda>x. case x of AStr s \<Rightarrow> s | _ \<Rightarrow> '''') xs
      | _ \<Rightarrow> [])"

definition group_control :: "(nat \<Rightarrow> bool) \<Rightarrow> browserPeer \<Rightarrow> obj \<Rightarrow> 'p server \<Rightarrow> out list" where
  "group_control W peer m sv =
     (if bp_viewOnly peer then []
      else concat (map (\<lambda>i. if i \<noteq> '''' \<and> CanAccessDevice (bp_user peer) i
                            then to_agent W i (withClient m (bp_id peer)) sv else []) (group_targets m)))"

definition handleBrowserMessage ::
  "web \<Rightarrow> (nat \<Rightarrow> bool) \<Rightarrow> env \<Rightarrow> browserPeer \<Rightarrow> obj \<Rightarrow> 'p server \<Rightarrow> out list \<times> 'p server" where
  "handleBrowserMessage L W E peer m sv =
     (let messageType = stringField m ''message_type'';
          deviceID = stringField m ''device_id'';
          deviceID = (if deviceID = '''' then bp_deviceID peer else deviceID);
          access = (deviceID \<noteq> '''' \<and> CanAccessDevice (bp_user peer) deviceID)
      in if messageType = ''connect'' then browser_connect L W E peer m sv
         else if messageType = ''start_audio'' then startBrowserAudio W peer deviceID m sv
         else if messageType = ''stop_audio'' then
           (if access then
              (case unsubscribeAudio (bp_id peer) deviceID (hub sv) of
                 (stopped, h) \<Rightarrow>
                   (let sv = sv\<lparr>hub := h\<rparr> in
                    (if stopped then to_agent W deviceID (withClient m (bp_id peer)) sv else [], sv)))
            else ([], sv))
         else if messageType = ''start_preview'' then
           (if \<not> access then ([], sv)
            else
              (let sv = sv\<lparr>hub := setPreviewRequest (bp_id peer) deviceID
                     (constrainedStreamOptions (bp_user peer) deviceID m (sv_store sv))
                     (subscribePreview (bp_id peer) deviceID (hub sv))\<rparr>
               in (syncPreview W deviceID sv, sv)))
         else if messageType = ''stop_preview'' then
           (if \<not> access then ([], sv)
            else
              (let sv = sv\<lparr>hub := snd (unsubscribePreview (bp_id peer) deviceID (hub sv))\<rparr>
               in (syncPreview W deviceID sv, sv)))
         else if messageType = ''inject_data'' then (injectData W peer deviceID m sv, sv)
         else if messageType = ''forward'' then (browser_forward W peer deviceID m sv, sv)
         else if messageType = ''quit_agent'' then
           (if deviceID = '''' \<or> u_Role (bp_user peer) \<noteq> RoleAdmin \<or> \<not> CanAccessDevice (bp_user peer) deviceID
            then (write_peer W (error_message ''error'' ''admin permission required'') peer, sv)
            else
              (let sv = audit E (bp_user peer) ''agent.stop'' deviceID [] sv
               in (to_agent W deviceID (withClient m (bp_id peer)) sv, sv)))
         else if messageType = ''screenshot_request'' then
           (if access then (to_agent W deviceID (withClient m (bp_id peer)) sv, sv) else ([], sv))
         else if messageType \<in> set [''file_open'', ''file_command'', ''file_chunk'']
           then browser_file W E peer messageType deviceID m sv
         else if messageType \<in> set [''command'', ''pty_open'', ''pty_input'', ''pty_resize'', ''pty_close''] then
           (if \<not> access \<or> \<not> Can (bp_user peer) ''shell'' then ([], sv)
            else (to_agent W deviceID (withClient m (bp_id peer)) sv, sv))
         else if messageType = ''group_control_event'' then (group_control W peer m sv, sv)
         else ([], sv))"

section \<open>The life of a browser connection\<close>

text \<open>
  \<open>connectClient\<close> up to its read loop: the access is checked, the web socket is opened (with the
  given socket number), and the browser is registered under a random id. The result is the
  status of a refusal, or the id with the access that \<open>watchBrowserAccess\<close> keeps checking.
\<close>

definition connectClient_open ::
  "jwt \<Rightarrow> (string \<Rightarrow> bool) \<Rightarrow> env \<Rightarrow> string \<Rightarrow> string \<Rightarrow> nat \<Rightarrow> 'p server \<Rightarrow>
     (nat + string \<times> browserAccess) \<times> 'p server" where
  "connectClient_open J R E ticket authorization sock sv =
     (case browserAccessFromRequest J E (JWTSecret (config sv)) ticket authorization (sv_store sv) of
        (Inl _, s) \<Rightarrow> (Inl 401, sv\<lparr>sv_store := s\<rparr>)
      | (Inr (user, viewOnly, access), s) \<Rightarrow>
          (let sv = sv\<lparr>sv_store := s\<rparr> in
           if \<not> R ''upgrade'' then (Inl 400, sv)
           else
             (let peer = \<lparr>bp_id = randomID E 0, bp_user = user, bp_socket = sock, bp_deviceID = '''',
                           bp_viewOnly = viewOnly, bp_accessToken = ba_accessToken access, audioFrames = []\<rparr>
              in (Inr (bp_id peer, access), sv\<lparr>hub := addBrowser peer (hub sv)\<rparr>))))"

text \<open>The deferred clean-up of \<open>connectClient\<close>.\<close>

definition connectClient_close ::
  "web \<Rightarrow> (nat \<Rightarrow> bool) \<Rightarrow> env \<Rightarrow> string \<Rightarrow> 'p server \<Rightarrow> out list \<times> 'p server" where
  "connectClient_close L W E browserID sv =
     (case map_of (peers (hub sv)) browserID of
        None \<Rightarrow> ([], sv)
      | Some peer \<Rightarrow>
          (let o1 = to_agent W (bp_deviceID peer) [(''message_type'', AStr ''client_disconnected''),
                      (''client_id'', AStr browserID)] sv;
               (stopped, h) = removeAudioBrowser browserID (hub sv);
               sv = sv\<lparr>hub := h\<rparr>;
               o2 = concat (map (\<lambda>d. to_agent W d [(''message_type'', AStr ''stop_audio''), (''device_id'', AStr d)] sv) stopped);
               (previews, h) = removeBrowser browserID (hub sv);
               sv = sv\<lparr>hub := h\<rparr>;
               o3 = concat (map (\<lambda>d. syncPreview W d sv) previews)
           in (o1 @ o2 @ o3 @ [Close (bp_socket peer)] @ broadcastDeviceList L W E sv, sv)))"

section \<open>The life of an agent connection\<close>

record agentHello =
  h_MessageType :: string
  h_DeviceID :: string
  EnrollmentToken :: string
  AgentToken :: string
  h_DeviceInfo :: DeviceInfo

definition registerAgent_reserve :: "'p server \<Rightarrow> bool \<times> 'p server" where
  "registerAgent_reserve sv =
     (if int (pendingAgentHandshakes sv) < MaxPendingAgentHandshakes (config sv)
      then (True, sv\<lparr>pendingAgentHandshakes := pendingAgentHandshakes sv + 1\<rparr>) else (False, sv))"

definition release :: "'p server \<Rightarrow> 'p server" where
  "release sv = sv\<lparr>pendingAgentHandshakes := pendingAgentHandshakes sv - 1\<rparr>"

text \<open>
  The handshake on a reserved slot. \<open>hello\<close> is the decoded first message; \<open>None\<close> stands for a
  failed upgrade, read or decoding, after which the socket is closed and the slot is free again.
  The result says for which device the agent is registered.
\<close>

definition agent_credentials :: "env \<Rightarrow> agentHello \<Rightarrow> store \<Rightarrow> string option \<times> store" where
  "agent_credentials E hello s =
     (if ValidateAgentToken E (AgentToken hello) (h_DeviceID hello) s then (Some (AgentToken hello), s)
      else
        (case ExchangeEnrollment E (EnrollmentToken hello) (h_DeviceID hello) s of
           (Inl _, s') \<Rightarrow> (None, s')
         | (Inr credential, s') \<Rightarrow> (Some (ac_Token credential), s')))"

definition agent_admitted ::
  "web \<Rightarrow> (nat \<Rightarrow> bool) \<Rightarrow> env \<Rightarrow> nat \<Rightarrow> agentHello \<Rightarrow> string \<Rightarrow> 'p server \<Rightarrow> out list \<times> 'p server" where
  "agent_admitted L W E sock hello agentToken sv =
     (let deviceID = h_DeviceID hello;
          sv = sv\<lparr>sv_store := snd (UpsertAgentDevice E deviceID (h_DeviceInfo hello) (sv_store sv))\<rparr>;
          (previous, h) = setAgent deviceID sock (hub sv);
          sv = sv\<lparr>hub := h\<rparr>;
          closed = (case previous of Some p \<Rightarrow> if p \<noteq> sock then [Close p] else [] | None \<Rightarrow> []);
          greeting = map MObj
            ([(''message_type'', AStr ''agent_config''), (''agent_token'', AStr agentToken),
              (''ice_servers'', iceServers (config sv)), (''default_settings'', AObj (agentSettings deviceID (sv_store sv)))]
             # map (\<lambda>t. [(''message_type'', AStr ''task_available''), (''task_id'', AStr t), (''device_id'', AStr deviceID)])
                 (PendingTasks E deviceID (sv_store sv)))
      in (closed @ (if W sock then map (Json sock) greeting else []) @ broadcastDeviceList L W E sv, sv))"

definition registerAgent_hello ::
  "web \<Rightarrow> (nat \<Rightarrow> bool) \<Rightarrow> env \<Rightarrow> nat \<Rightarrow> agentHello option \<Rightarrow> 'p server \<Rightarrow> string option \<times> out list \<times> 'p server" where
  "registerAgent_hello L W E sock hello sv =
     (case hello of
        None \<Rightarrow> (None, [Close sock], release sv)
      | Some hello \<Rightarrow>
          (if h_MessageType hello \<noteq> ''agent_hello'' \<or> trim_space (h_DeviceID hello) = ''''
           then (None, [Close sock], release sv)
           else
             (case agent_credentials E hello (sv_store sv) of
                (None, s) \<Rightarrow>
                  (None,
                   (if W sock then [Json sock (error_message ''error'' ''agent enrollment rejected'')] else []) @ [Close sock],
                   release (sv\<lparr>sv_store := s\<rparr>))
              | (Some agentToken, s) \<Rightarrow>
                  (case agent_admitted L W E sock hello agentToken (release (sv\<lparr>sv_store := s\<rparr>)) of
                     (outs, sv') \<Rightarrow> (Some (h_DeviceID hello), outs, sv')))))"

definition registerAgent_binary :: "(nat \<Rightarrow> bool) \<Rightarrow> string \<Rightarrow> byte list \<Rightarrow> 'p server \<Rightarrow> out list \<times> 'p server" where
  "registerAgent_binary W deviceID raw sv =
     (if validPreviewFrame deviceID raw then (publishPreview W deviceID raw (hub sv), sv)
      else if validAudioFrame deviceID raw then ([], sv\<lparr>hub := publishAudio deviceID raw (hub sv)\<rparr>)
      else ([], sv))"

text \<open>The deferred functions of \<open>registerAgent\<close>, the removal before the closing of the socket.\<close>

definition registerAgent_close ::
  "web \<Rightarrow> (nat \<Rightarrow> bool) \<Rightarrow> env \<Rightarrow> nat \<Rightarrow> string \<Rightarrow> 'p server \<Rightarrow> out list \<times> 'p server" where
  "registerAgent_close L W E sock deviceID sv =
     (case removeAgent deviceID sock (hub sv) of
        (False, h) \<Rightarrow> ([Close sock], sv\<lparr>hub := h\<rparr>)
      | (True, h) \<Rightarrow>
          (let sv = sv\<lparr>hub := h, sv_store := MarkLeasedUnknown E deviceID (MarkOffline E deviceID (sv_store sv))\<rparr>
           in (broadcastDeviceList L W E sv @ [Close sock], sv)))"

section \<open>Messages of an agent\<close>

definition client_messages :: "string list" where
  "client_messages = [''device_msg'', ''command_result'', ''screenshot_response'', ''file_message'', ''pty_data'',
     ''pty_opened'', ''pty_closed'', ''pty_error'', ''audio_error'', ''capability_error'']"

definition task_claim ::
  "web \<Rightarrow> (nat \<Rightarrow> bool) \<Rightarrow> env \<Rightarrow> string \<Rightarrow> string \<Rightarrow> 'p server \<Rightarrow> out list \<times> 'p server" where
  "task_claim L W E deviceID taskID sv =
     (case ClaimTask E taskID deviceID (sv_store sv) of
        (Inl _, s) \<Rightarrow> ([], sv\<lparr>sv_store := s\<rparr>)
      | (Inr task, s) \<Rightarrow>
          (let sv = sv\<lparr>sv_store := s\<rparr>;
               dispatch = [(''message_type'', AStr ''task_dispatch''), (''task_id'', AStr (tk_ID task)), (''type'', AStr (Type task)),
                 (''payload'', AStr (Payload task)), (''dest_path'', AStr (DestPath task))]
           in if AssetID task = '''' then (to_agent W deviceID dispatch sv @ broadcastTask W task sv, sv)
              else
                (case Asset_get (AssetID task) s of
                   Inl _ \<Rightarrow> ([], sv\<lparr>sv_store := snd (SetTaskStatus E (tk_ID task) deviceID TaskFailed ''asset unavailable'' s)\<rparr>)
                 | Inr asset \<Rightarrow>
                     (let dispatch = dispatch @ [(''asset_sha256'', AStr (SHA256 asset)),
                            (''download_url'', AStr (trim_slashes (PublicURL (config sv)) @ ''/downloads/''
                               @ path_escape (a_Name asset) @ ''?grant=''
                               @ query_escape (issueDownloadGrant L E (JWTSecret (config sv)) (a_ID asset) (tk_ID task) deviceID)))]
                      in (to_agent W deviceID dispatch sv @ broadcastTask W task sv, sv)))))"

definition set_status ::
  "(nat \<Rightarrow> bool) \<Rightarrow> env \<Rightarrow> string \<Rightarrow> string \<Rightarrow> TaskStatus \<Rightarrow> string \<Rightarrow> 'p server \<Rightarrow> out list \<times> 'p server" where
  "set_status W E deviceID taskID status result sv =
     (case SetTaskStatus E taskID deviceID status result (sv_store sv) of
        (Inl _, s) \<Rightarrow> ([], sv\<lparr>sv_store := s\<rparr>)
      | (Inr task, s) \<Rightarrow> (let sv = sv\<lparr>sv_store := s\<rparr> in (broadcastTask W task sv, sv)))"

definition handleAgentMessage ::
  "web \<Rightarrow> (nat \<Rightarrow> bool) \<Rightarrow> (string \<Rightarrow> bool) \<Rightarrow> env \<Rightarrow> string \<Rightarrow> obj \<Rightarrow> 'p server \<Rightarrow> out list \<times> 'p server" where
  "handleAgentMessage L W R E deviceID m sv =
     (let t = stringField m ''message_type'' in
      if t = ''heartbeat'' then ([], sv\<lparr>sv_store := TouchDevice E deviceID (sv_store sv)\<rparr>)
      else if t = ''clipboard'' then (publishClipboard W deviceID (MObj m) (hub sv), sv)
      else if t = ''device_info'' then
        (case Option.bind (objField m ''device_info'') (decode_info L) of
           None \<Rightarrow> ([], sv)
         | Some info \<Rightarrow>
             (let sv = sv\<lparr>sv_store := snd (UpsertAgentDevice E deviceID info (sv_store sv))\<rparr>
              in (broadcastDeviceList L W E sv, sv)))
      else if t \<in> set client_messages then
        (let clientID = stringField m ''client_id'' in
         if clientID = '''' then ([], sv)
         else (snd (sendBrowser W clientID (MObj (mdel ''client_id'' m)) (hub sv)), sv))
      else if t = ''device_metrics'' then
        (case objField m ''metrics'' of
           None \<Rightarrow> ([], sv)
         | Some metrics \<Rightarrow>
             (let metrics = normalizeNetworkMetrics metrics;
                  sv = sv\<lparr>deviceMetrics := mput deviceID metrics (deviceMetrics sv)\<rparr>
              in (broadcast_all W (MObj [(''type'', AStr ''device_metrics''), (''device_id'', AStr deviceID),
                    (''metrics'', AObj metrics)]) sv, sv)))
      else if t = ''snapshot_update'' then snd (saveSnapshot L W R E deviceID (stringField m ''data'') sv)
      else if t = ''task_claim'' then task_claim L W E deviceID (stringField m ''task_id'') sv
      else if t = ''task_started'' then set_status W E deviceID (stringField m ''task_id'') TaskRunning '''' sv
      else if t = ''task_result'' then
        set_status W E deviceID (stringField m ''task_id'')
          (if stringField m ''status'' = TaskSuccess then TaskSuccess else TaskFailed) (stringField m ''result'') sv
      else ([], sv))"

end
