(* ===== verification/Api.thy ===== *)
theory Api
  imports Server
begin

text \<open>
  The HTTP half of the server: the handlers of \<open>server.go\<close>, \<open>admin.go\<close>, \<open>operations.go\<close>,
  \<open>telemetry.go\<close>, \<open>browser_ticket.go\<close>, \<open>device_settings.go\<close> and \<open>deployment_credentials.go\<close>, with
  \<open>requireUser\<close> and \<open>requireAdmin\<close>, the routes of \<open>Handler\<close> and the CORS wrapper. A request body is
  what \<open>decodeJSON\<close> makes of it: the typed struct, or \<open>None\<close> when it does not decode. A handler
  returns the response, the frames it sends to web sockets, and the server state.
\<close>

section \<open>Requests and responses\<close>

record request =
  Method :: string
  Authorization :: string
  Origin :: string
  RemoteAddr :: string
  ForwardedFor :: string
  URLPath :: string
  Query :: "string gomap"
  ContentLength :: int

definition query :: "request \<Rightarrow> string \<Rightarrow> string" where
  "query r k = (case map_of (Query r) k of None \<Rightarrow> '''' | Some v \<Rightarrow> v)"

text \<open>\<open>PError\<close> is a literal error text, \<open>PFailure e\<close> the text of the error value \<open>e\<close>,
  and \<open>PShares\<close> the object with code 0 and the list of shares as its data.\<close>

datatype payload =
    PEmpty
  | PError string
  | PFailure error
  | PObj obj
  | PValue any
  | PUser User
  | PPresence "userPresence list"
  | PDevices "Device list"
  | PTags "Tag list" "string list gomap"
  | PSettings "obj gomap"
  | PCredentials "DeploymentCredential list"
  | PCredential DeploymentCredential
  | PNewCredential DeploymentCredential string
  | PShortcuts "Shortcut list"
  | PAssets "Asset list"
  | PAsset Asset
  | PTasks "Task list"
  | PTask Task
  | PShares "obj list"
  | PFile string "byte list"

record response =
  status :: nat
  body :: payload
  headers :: "string gomap"

type_synonym 'p reply = "response \<times> out list \<times> 'p server"

definition reply :: "nat \<Rightarrow> payload \<Rightarrow> response" where
  "reply code p = \<lparr>status = code, body = p, headers = []\<rparr>"

definition writeError :: "nat \<Rightarrow> string \<Rightarrow> response" where
  "writeError code msg = reply code (PError msg)"

definition fail :: "nat \<Rightarrow> string \<Rightarrow> 'p server \<Rightarrow> 'p reply" where
  "fail code msg sv = (writeError code msg, [], sv)"

definition methodNotAllowed :: "'p server \<Rightarrow> 'p reply" where
  "methodNotAllowed sv = fail 405 ''method not allowed'' sv"

definition done_with :: "nat \<Rightarrow> payload \<Rightarrow> 'p server \<Rightarrow> 'p reply" where
  "done_with code p sv = (reply code p, [], sv)"

definition status_ok :: payload where
  "status_ok = PObj [(''status'', AStr ''ok'')]"

definition no_store :: "'p reply \<Rightarrow> 'p reply" where
  "no_store r = ((fst r)\<lparr>headers := mput ''Cache-Control'' ''no-store'' (headers (fst r))\<rparr>, snd r)"

definition requireUser :: "jwt \<Rightarrow> env \<Rightarrow> request \<Rightarrow> (User \<Rightarrow> 'p server \<Rightarrow> 'p reply) \<Rightarrow> 'p server \<Rightarrow> 'p reply" where
  "requireUser J E r next sv =
     (case userFromRequest J E (JWTSecret (config sv)) (Authorization r) (sv_store sv) of
        Inl _ \<Rightarrow> fail 401 ''unauthorized'' sv
      | Inr user \<Rightarrow> next user sv)"

definition requireAdmin :: "jwt \<Rightarrow> env \<Rightarrow> request \<Rightarrow> (User \<Rightarrow> 'p server \<Rightarrow> 'p reply) \<Rightarrow> 'p server \<Rightarrow> 'p reply" where
  "requireAdmin J E r next sv =
     requireUser J E r (\<lambda>user sv.
       if u_Role user \<noteq> RoleAdmin then fail 403 ''admin permission required'' sv else next user sv) sv"

text \<open>\<open>strconv.FormatInt\<close> in base 10.\<close>

definition show_int :: "int \<Rightarrow> string" where
  "show_int n = (if n < 0 then CHR ''-'' # show_nat (nat (- n)) else show_nat (nat n))"

section \<open>Sessions\<close>

definition health :: "(string \<Rightarrow> bool) \<Rightarrow> 'p server \<Rightarrow> 'p reply" where
  "health R sv =
     (if healthErr (sv_store sv) then fail 503 ''persistent store unavailable'' sv
      else if redis sv \<and> \<not> R ''redis'' then fail 503 ''redis unavailable'' sv
      else done_with 200 (PObj [(''status'', AStr ''ok''), (''service'', AStr ''scrcpycat-controlplane'')]) sv)"

definition authStatus :: "'p server \<Rightarrow> 'p reply" where
  "authStatus sv = done_with 200 (PObj [(''noAuth'', ABool False)]) sv"

definition login ::
  "jwt \<Rightarrow> ('a, 'p) netip \<Rightarrow> env \<Rightarrow> request \<Rightarrow> (string \<times> string) option \<Rightarrow> 'p server \<Rightarrow> 'p reply" where
  "login J N E r decoded sv =
     (if Method r \<noteq> ''POST'' then methodNotAllowed sv
      else case decoded of
        None \<Rightarrow> fail 400 ''invalid login request'' sv
      | Some (username, password) \<Rightarrow>
          (let clientIP = requestClientIP N (RemoteAddr r) (ForwardedFor r) (TrustedProxyCIDRs (config sv)) in
           case allow (now E) username clientIP (sv_limiter sv) of
             ((retryAfter, limited), l) \<Rightarrow>
               (let sv = sv\<lparr>sv_limiter := l\<rparr> in
                if limited then
                  ((writeError 429 ''too many login attempts'')\<lparr>headers :=
                     [(''Retry-After'', show_int (trunc_rat (duration_seconds retryAfter) + 1))]\<rparr>, [], sv)
                else case Authenticate E username password (sv_store sv) of
                  Inl _ \<Rightarrow> fail 401 ''invalid username or password''
                             (sv\<lparr>sv_limiter := recordFailure (now E) username clientIP l\<rparr>)
                | Inr user \<Rightarrow>
                    (let sv = sv\<lparr>sv_limiter := clearAccount username l\<rparr> in
                     case issueUserToken J E (JWTSecret (config sv)) user of
                       None \<Rightarrow> fail 500 ''issue access token'' sv
                     | Some token \<Rightarrow>
                         done_with 200 (PObj [(''token'', AStr token), (''username'', AStr (Username user)), (''role'', AStr (u_Role user)),
                           (''assigned_devices'', AArr (map AStr (AssignedDevices user)))]) sv))))"

definition register :: "env \<Rightarrow> request \<Rightarrow> (string \<times> string) option \<Rightarrow> 'p server \<Rightarrow> 'p reply" where
  "register E r decoded sv =
     (if Method r \<noteq> ''POST'' then methodNotAllowed sv
      else if \<not> AllowRegistration (config sv) then fail 403 ''registration is disabled'' sv
      else case decoded of
        None \<Rightarrow> fail 400 ''invalid registration request'' sv
      | Some (username, password) \<Rightarrow>
          (case CreateUser E username password RoleUser [] (sv_store sv) of
             (Inl ErrAlreadyExists, s) \<Rightarrow> fail 409 ''username already exists'' (sv\<lparr>sv_store := s\<rparr>)
           | (Inl _, s) \<Rightarrow> fail 400 ''invalid registration request'' (sv\<lparr>sv_store := s\<rparr>)
           | (Inr _, s) \<Rightarrow> done_with 201 status_ok (sv\<lparr>sv_store := s\<rparr>)))"

definition logout :: "jwt \<Rightarrow> env \<Rightarrow> request \<Rightarrow> 'p server \<Rightarrow> 'p reply" where
  "logout J E r sv =
     (if Method r \<noteq> ''POST'' then methodNotAllowed sv
      else
        (let token = bearerToken (Authorization r) in
         case parseUserToken J E (JWTSecret (config sv)) token of
           Inl _ \<Rightarrow> fail 401 ''unauthorized'' sv
         | Inr parsed \<Rightarrow>
             (case rc_ExpiresAt parsed of
                None \<Rightarrow> fail 401 ''unauthorized'' sv
              | Some expires \<Rightarrow>
                  (case RevokeUserToken (tokenDigest E token) expires (sv_store sv) of
                     (Inl _, s) \<Rightarrow> fail 503 ''save logout'' (sv\<lparr>sv_store := s\<rparr>)
                   | (Inr _, s) \<Rightarrow>
                       (reply 200 status_ok, disconnectToken (tokenDigest E token) (hub sv), sv\<lparr>sv_store := s\<rparr>)))))"

definition me :: "User \<Rightarrow> 'p server \<Rightarrow> 'p reply" where
  "me user sv = done_with 200 (PObj [(''username'', AStr (Username user)), (''role'', AStr (u_Role user)),
     (''assigned_devices'', AArr (map AStr (AssignedDevices user))),
     (''permissions'', AObj [(''shell'', ABool (Shell (Permissions user))), (''file_library'', ABool (FileLibrary (Permissions user))),
        (''batch_tasks'', ABool (BatchTasks (Permissions user)))]),
     (''forbid_bitrate'', ABool (u_ForbidBitrate user)), (''forbid_fps'', ABool (u_ForbidFPS user)),
     (''forbid_resolution'', ABool (u_ForbidResolution user)), (''forbid_audio'', ABool (u_ForbidAudio user)),
     (''settings'', AObj (Settings user)), (''expires_at'', ATime (u_ExpiresAt user))]) sv"

definition websocketTicket ::
  "jwt \<Rightarrow> env \<Rightarrow> request \<Rightarrow> (string \<times> string) option \<Rightarrow> 'p server \<Rightarrow> 'p reply" where
  "websocketTicket J E r decoded sv =
     (if Method r \<noteq> ''POST'' then methodNotAllowed sv
      else case (if ContentLength r \<noteq> 0 then decoded else Some ('''', '''')) of
        None \<Rightarrow> fail 400 ''invalid websocket ticket request'' sv
      | Some (shareToken, sharePassword) \<Rightarrow>
          (let secret = JWTSecret (config sv);
               answer = (\<lambda>(ticket, expiresAt) sv.
                 case ticket of
                   None \<Rightarrow> fail 500 ''issue websocket ticket'' sv
                 | Some t \<Rightarrow> done_with 200 (PObj [(''ticket'', AStr t), (''expires_at'', ATime (Some expiresAt))]) sv)
           in if trim_space shareToken \<noteq> '''' then
                (case AuthorizeShare E shareToken sharePassword (sv_store sv) of
                   (Inl _, s) \<Rightarrow> fail 401 ''unauthorized'' (sv\<lparr>sv_store := s\<rparr>)
                 | (Inr share, s) \<Rightarrow>
                     answer (issueBrowserTicket J E secret browserAccessShare
                       (shareTicketSubject E secret (sh_Token share)) 0 []) (sv\<lparr>sv_store := s\<rparr>))
              else
                (case userFromRequest J E secret (Authorization r) (sv_store sv) of
                   Inl _ \<Rightarrow> fail 401 ''unauthorized'' sv
                 | Inr user \<Rightarrow>
                     answer (issueBrowserTicket J E secret browserAccessUser (u_ID user) (TokenVersion user)
                       [tokenDigest E (bearerToken (Authorization r))]) sv)))"

section \<open>Settings, tags and devices\<close>

definition defaultSettings_handler ::
  "(nat \<Rightarrow> bool) \<Rightarrow> request \<Rightarrow> User \<Rightarrow> obj option \<Rightarrow> 'p server \<Rightarrow> 'p reply" where
  "defaultSettings_handler W r user decoded sv =
     (if Method r = ''GET'' then done_with 200 (PObj (DefaultSettings (sv_store sv))) sv
      else if Method r = ''PUT'' \<or> Method r = ''POST'' then
        (if u_Role user \<noteq> RoleAdmin then fail 403 ''admin permission required'' sv
         else case decoded of
           None \<Rightarrow> fail 400 ''invalid settings'' sv
         | Some settings \<Rightarrow>
             (if \<not> validateDeviceSettings settings
              then fail 400 ''snapshotInterval must be an integer between -1 and 3600'' sv
              else
                (let sv = sv\<lparr>sv_store := SetDefaultSettings settings (sv_store sv)\<rparr> in
                 if healthErr (sv_store sv) then fail 503 ''save settings'' sv
                 else
                   (reply 200 (PObj settings),
                    concat (map (\<lambda>d. to_agent W (d_ID d) [(''message_type'', AStr ''agent_settings''),
                        (''settings'', AObj (agentSettings (d_ID d) (sv_store sv)))] sv)
                      (DevicesFor (no_user\<lparr>u_Role := RoleAdmin\<rparr>) (sv_store sv)))
                    @ broadcast_all W (MObj [(''message_type'', AStr ''global_settings_updated''), (''settings'', AObj settings)]) sv,
                    sv))))
      else methodNotAllowed sv)"

definition allDeviceSettings :: "request \<Rightarrow> User \<Rightarrow> 'p server \<Rightarrow> 'p reply" where
  "allDeviceSettings r user sv =
     (if Method r \<noteq> ''GET'' then methodNotAllowed sv
      else done_with 200 (PSettings (filter (\<lambda>kv. 0 < length (snd kv))
        (map (\<lambda>d. (d_ID d, DeviceSettings (d_ID d) (sv_store sv))) (DevicesFor user (sv_store sv))))) sv)"

definition deviceSettings_handler ::
  "(nat \<Rightarrow> bool) \<Rightarrow> request \<Rightarrow> User \<Rightarrow> string \<Rightarrow> obj option \<Rightarrow> 'p server \<Rightarrow> 'p reply" where
  "deviceSettings_handler W r user deviceID decoded sv =
     (if \<not> CanAccessDevice user deviceID then fail 403 ''device access denied'' sv
      else case Device_get deviceID (sv_store sv) of
        Inl _ \<Rightarrow> fail 404 ''device not found'' sv
      | Inr _ \<Rightarrow>
          (if Method r = ''GET'' then done_with 200 (PObj (DeviceSettings deviceID (sv_store sv))) sv
           else if u_Role user \<noteq> RoleAdmin then fail 403 ''admin permission required'' sv
           else
             (let store_settings = (\<lambda>settings sv.
                case SetDeviceSettings deviceID settings (sv_store sv) of
                  (Inl _, s) \<Rightarrow> fail 503 ''save device settings'' (sv\<lparr>sv_store := s\<rparr>)
                | (Inr _, s) \<Rightarrow>
                    (let sv = sv\<lparr>sv_store := s\<rparr> in
                     (reply 200 (PObj settings),
                      to_agent W deviceID [(''message_type'', AStr ''agent_settings''),
                        (''settings'', AObj (agentSettings deviceID s))] sv
                      @ broadcast_all W (MObj [(''message_type'', AStr ''device_settings_updated''),
                          (''device_id'', AStr deviceID), (''settings'', AObj settings)]) sv,
                      sv)))
              in if Method r = ''POST'' \<or> Method r = ''PUT'' then
                   (case decoded of
                      None \<Rightarrow> fail 400 ''invalid settings'' sv
                    | Some settings \<Rightarrow>
                        (if \<not> validateDeviceSettings settings
                         then fail 400 ''snapshotInterval must be an integer between -1 and 3600'' sv
                         else store_settings settings sv))
                 else if Method r = ''DELETE'' then store_settings [] sv
                 else methodNotAllowed sv)))"

definition tagsFor :: "User \<Rightarrow> 'p server \<Rightarrow> payload" where
  "tagsFor user sv =
     (case Tags (sv_store sv) of
        (ts, assignments) \<Rightarrow> PTags ts (mfilter (\<lambda>i _. CanAccessDevice user i) assignments))"

text \<open>The two spellings of the assignment field; \<open>None\<close> is an absent one.\<close>

record tags_body =
  b_Tags :: "Tag list"
  b_DeviceTags :: "string list gomap option"
  FrontendDeviceTags :: "string list gomap option"

definition tags_handler ::
  "(nat \<Rightarrow> bool) \<Rightarrow> env \<Rightarrow> request \<Rightarrow> User \<Rightarrow> tags_body option \<Rightarrow> 'p server \<Rightarrow> 'p reply" where
  "tags_handler W E r user decoded sv =
     (if Method r = ''GET'' then done_with 200 (tagsFor user sv) sv
      else if Method r = ''PUT'' \<or> Method r = ''POST'' then
        (if u_Role user \<noteq> RoleAdmin then fail 403 ''admin permission required'' sv
         else case decoded of
           None \<Rightarrow> fail 400 ''invalid tags request'' sv
         | Some b \<Rightarrow>
             (if b_DeviceTags b \<noteq> None \<and> FrontendDeviceTags b \<noteq> None
              then fail 400 ''specify only one device tags field'' sv
              else
                (let assignments = (case FrontendDeviceTags b of Some a \<Rightarrow> Some a | None \<Rightarrow> b_DeviceTags b);
                     sv = sv\<lparr>sv_store := ReplaceTags E (b_Tags b) (case assignments of None \<Rightarrow> [] | Some a \<Rightarrow> a) (sv_store sv)\<rparr>
                 in if healthErr (sv_store sv) then fail 503 ''save tags'' sv
                    else
                      (case Tags (sv_store sv) of
                         (ts, assigned) \<Rightarrow>
                           (reply 200 (tagsFor user sv), broadcast_all W (MTags ts assigned) sv, sv)))))
      else methodNotAllowed sv)"

definition deviceSnapshot :: "web \<Rightarrow> env \<Rightarrow> request \<Rightarrow> User \<Rightarrow> string \<Rightarrow> 'p server \<Rightarrow> 'p reply" where
  "deviceSnapshot L E r user deviceID sv =
     (if Method r \<noteq> ''GET'' then methodNotAllowed sv
      else if \<not> CanAccessDevice user deviceID then fail 403 ''device access denied'' sv
      else
        ((case map_of (blobs sv) (snapshotPath L E deviceID sv) of
            None \<Rightarrow> reply 404 PEmpty
          | Some data \<Rightarrow> reply 200 (PFile ''image/png'' data))
           \<lparr>headers := [(''Cache-Control'', ''private, no-cache'')]\<rparr>, [], sv))"

definition deviceByID ::
  "web \<Rightarrow> (nat \<Rightarrow> bool) \<Rightarrow> env \<Rightarrow> request \<Rightarrow> User \<Rightarrow> obj option \<Rightarrow> 'p server \<Rightarrow> 'p reply" where
  "deviceByID L W E r user decoded sv =
     (let path = URLPath r; tail = trim_prefix ''/api/devices/'' path in
      if suffix ''/settings'' path then deviceSettings_handler W r user (trim_suffix ''/settings'' tail) decoded sv
      else if suffix ''/snapshot'' path then deviceSnapshot L E r user (trim_suffix ''/snapshot'' tail) sv
      else if Method r \<noteq> ''DELETE'' then methodNotAllowed sv
      else if u_Role user \<noteq> RoleAdmin then fail 403 ''admin permission required'' sv
      else if tail = '''' then fail 400 ''device must exist and be offline'' sv
      else
        (case DeleteOfflineDevice tail (sv_store sv) of
           (Inl _, s) \<Rightarrow> fail 400 ''device must exist and be offline'' (sv\<lparr>sv_store := s\<rparr>)
         | (Inr _, s) \<Rightarrow> done_with 204 PEmpty (sv\<lparr>sv_store := s\<rparr>)))"

definition devices_handler :: "web \<Rightarrow> env \<Rightarrow> request \<Rightarrow> User \<Rightarrow> 'p server \<Rightarrow> 'p reply" where
  "devices_handler L E r user sv =
     (if Method r \<noteq> ''GET'' then methodNotAllowed sv
      else done_with 200 (PDevices (devicesFor L E user sv)) sv)"

definition serverAddresses :: "'p server \<Rightarrow> 'p reply" where
  "serverAddresses sv =
     (let address = trim_prefix ''http://'' (trim_prefix ''https://'' (PublicURL (config sv))) in
      done_with 200 (PObj [(''code'', AInt 0),
        (''data'', AObj [(''addresses'', AArr [AStr address]), (''current'', AStr address)]),
        (''public_url'', AStr (PublicURL (config sv))), (''signaling_url'', AStr (PublicURL (config sv)))]) sv)"

definition iceServerList :: "'p server \<Rightarrow> 'p reply" where
  "iceServerList sv = done_with 200 (PValue (iceServers (config sv))) sv"

section \<open>Accounts\<close>

record adminUsers_body =
  au_Username :: string
  au_Password :: string
  au_Role :: Role
  au_AssignedDevices :: "string list"

definition adminUsers :: "env \<Rightarrow> request \<Rightarrow> adminUsers_body option \<Rightarrow> 'p server \<Rightarrow> 'p reply" where
  "adminUsers E r decoded sv =
     (if Method r = ''GET'' then done_with 200 (PPresence (usersWithPresence (Users (sv_store sv)) (hub sv))) sv
      else if Method r = ''POST'' then
        (case decoded of
           None \<Rightarrow> fail 400 ''invalid user request'' sv
         | Some b \<Rightarrow>
             (case CreateUser E (au_Username b) (au_Password b) (if au_Role b = '''' then RoleUser else au_Role b)
                     (au_AssignedDevices b) (sv_store sv) of
                (Inl e, s) \<Rightarrow> done_with 400 (PFailure e) (sv\<lparr>sv_store := s\<rparr>)
              | (Inr user, s) \<Rightarrow> done_with 201 (PUser user) (sv\<lparr>sv_store := s\<rparr>)))
      else methodNotAllowed sv)"

text \<open>The endpoints that update an account through \<open>UpdateUser\<close> share their answer.\<close>

definition update_user :: "string \<Rightarrow> (User \<Rightarrow> User) \<Rightarrow> 'p server \<Rightarrow> 'p reply" where
  "update_user username f sv =
     (case UpdateUser username (\<lambda>u. Inr (f u)) (sv_store sv) of
        (Inl _, s) \<Rightarrow> fail 404 ''user not found'' (sv\<lparr>sv_store := s\<rparr>)
      | (Inr user, s) \<Rightarrow> done_with 200 (PUser user) (sv\<lparr>sv_store := s\<rparr>))"

definition adminAssign :: "request \<Rightarrow> (string \<times> string list) option \<Rightarrow> 'p server \<Rightarrow> 'p reply" where
  "adminAssign r decoded sv =
     (if Method r \<noteq> ''POST'' then methodNotAllowed sv
      else case decoded of
        None \<Rightarrow> fail 400 ''invalid assignment'' sv
      | Some (username, ds) \<Rightarrow> update_user username (\<lambda>u. u\<lparr>AssignedDevices := ds\<rparr>) sv)"

record adminCreateUser_body =
  cu_Username :: string
  cu_Password :: string
  cu_Role :: Role
  cu_Note :: string
  cu_ExpireSeconds :: int

definition adminCreateUser :: "env \<Rightarrow> request \<Rightarrow> adminCreateUser_body option \<Rightarrow> 'p server \<Rightarrow> 'p reply" where
  "adminCreateUser E r decoded sv =
     (if Method r \<noteq> ''POST'' then methodNotAllowed sv
      else case decoded of
        None \<Rightarrow> fail 400 ''invalid user request'' sv
      | Some b \<Rightarrow>
          (case CreateUser E (cu_Username b) (cu_Password b) (if cu_Role b = '''' then RoleUser else cu_Role b) []
                  (sv_store sv) of
             (Inl e, s) \<Rightarrow> done_with 400 (PFailure e) (sv\<lparr>sv_store := s\<rparr>)
           | (Inr user, s) \<Rightarrow>
               (case UpdateUser (Username user)
                       (\<lambda>u. let u = u\<lparr>Note := cu_Note b\<rparr> in
                          Inr (if 0 < cu_ExpireSeconds b
                               then u\<lparr>u_ExpiresAt := Some (now E + seconds (cu_ExpireSeconds b))\<rparr> else u)) s of
                  (Inl _, s') \<Rightarrow> fail 500 ''save user'' (sv\<lparr>sv_store := s'\<rparr>)
                | (Inr user, s') \<Rightarrow> done_with 201 (PUser user) (sv\<lparr>sv_store := s'\<rparr>))))"

definition adminDeleteUser :: "request \<Rightarrow> string option \<Rightarrow> 'p server \<Rightarrow> 'p reply" where
  "adminDeleteUser r decoded sv =
     (case (if Method r \<noteq> ''POST'' then None else decoded) of
        None \<Rightarrow> fail 400 ''invalid user request'' sv
      | Some username \<Rightarrow>
          (case DeleteUser username (sv_store sv) of
             (Inl _, s) \<Rightarrow> fail 400 ''cannot delete user'' (sv\<lparr>sv_store := s\<rparr>)
           | (Inr _, s) \<Rightarrow> done_with 204 PEmpty (sv\<lparr>sv_store := s\<rparr>)))"

definition adminResetPassword :: "env \<Rightarrow> request \<Rightarrow> (string \<times> string) option \<Rightarrow> 'p server \<Rightarrow> 'p reply" where
  "adminResetPassword E r decoded sv =
     (case (if Method r \<noteq> ''POST'' then None else decoded) of
        None \<Rightarrow> fail 400 ''invalid password reset'' sv
      | Some (username, password) \<Rightarrow>
          (case ResetPassword E username password (sv_store sv) of
             (Inl _, s) \<Rightarrow> fail 400 ''password reset failed'' (sv\<lparr>sv_store := s\<rparr>)
           | (Inr _, s) \<Rightarrow> done_with 200 status_ok (sv\<lparr>sv_store := s\<rparr>)))"

definition adminUpdateNote :: "request \<Rightarrow> (string \<times> string) option \<Rightarrow> 'p server \<Rightarrow> 'p reply" where
  "adminUpdateNote r decoded sv =
     (case (if Method r \<noteq> ''POST'' then None else decoded) of
        None \<Rightarrow> fail 400 ''invalid note request'' sv
      | Some (username, note) \<Rightarrow> update_user username (\<lambda>u. u\<lparr>Note := note\<rparr>) sv)"

definition adminRenameUser :: "request \<Rightarrow> (string \<times> string) option \<Rightarrow> 'p server \<Rightarrow> 'p reply" where
  "adminRenameUser r decoded sv =
     (case (if Method r \<noteq> ''POST'' then None else decoded) of
        None \<Rightarrow> fail 400 ''invalid rename request'' sv
      | Some (oldUsername, newUsername) \<Rightarrow>
          (case RenameUser oldUsername newUsername (sv_store sv) of
             (Inl _, s) \<Rightarrow> fail 400 ''rename failed'' (sv\<lparr>sv_store := s\<rparr>)
           | (Inr user, s) \<Rightarrow> done_with 200 (PUser user) (sv\<lparr>sv_store := s\<rparr>)))"

record adminUpdateUser_body =
  uu_Username :: string
  uu_ForbidBitrate :: bool
  uu_ForbidFPS :: bool
  uu_ForbidResolution :: bool
  uu_ForbidAudio :: bool
  uu_Permissions :: OperationPermissions
  uu_Settings :: obj
  uu_ExpireSeconds :: int

definition adminUpdateUser :: "env \<Rightarrow> request \<Rightarrow> adminUpdateUser_body option \<Rightarrow> 'p server \<Rightarrow> 'p reply" where
  "adminUpdateUser E r decoded sv =
     (case (if Method r \<noteq> ''POST'' then None else decoded) of
        None \<Rightarrow> fail 400 ''invalid user update'' sv
      | Some b \<Rightarrow>
          update_user (uu_Username b)
            (\<lambda>u. let u = u\<lparr>u_ForbidBitrate := uu_ForbidBitrate b, u_ForbidFPS := uu_ForbidFPS b,
                    u_ForbidResolution := uu_ForbidResolution b, u_ForbidAudio := uu_ForbidAudio b,
                    Permissions := uu_Permissions b, Settings := cloneMap (uu_Settings b)\<rparr> in
               if uu_ExpireSeconds b = 0 then u\<lparr>u_ExpiresAt := None\<rparr>
               else if 0 < uu_ExpireSeconds b then u\<lparr>u_ExpiresAt := Some (now E + seconds (uu_ExpireSeconds b))\<rparr>
               else u) sv)"

definition adminKickUser :: "request \<Rightarrow> (string \<times> string) option \<Rightarrow> 'p server \<Rightarrow> 'p reply" where
  "adminKickUser r decoded sv =
     (case (if Method r \<noteq> ''POST'' then None else decoded) of
        None \<Rightarrow> fail 400 ''invalid kick request'' sv
      | Some (username, deviceID) \<Rightarrow> (reply 200 status_ok, disconnectBrowsers username deviceID (hub sv), sv))"

section \<open>Enrollment and deployment credentials\<close>

definition enrollmentTokens :: "env \<Rightarrow> request \<Rightarrow> (string \<times> int) option \<Rightarrow> 'p server \<Rightarrow> 'p reply" where
  "enrollmentTokens E r decoded sv =
     (if Method r \<noteq> ''POST'' then methodNotAllowed sv
      else case decoded of
        None \<Rightarrow> fail 400 ''invalid enrollment request'' sv
      | Some (deviceID, ttl_seconds) \<Rightarrow>
          (let ttl = seconds ttl_seconds;
               ttl = (if ttl \<le> 0 \<or> 24 * Hour < ttl then 15 * Minute else ttl)
           in case CreateEnrollment E deviceID ttl (sv_store sv) of
                (enrollment, s) \<Rightarrow>
                  done_with 201 (PObj [(''token'', AStr (e_Token enrollment)), (''expires_at'', ATime (Some (e_ExpiresAt enrollment)))])
                    (sv\<lparr>sv_store := s\<rparr>)))"

text \<open>The largest number of seconds that fits a \<open>time.Duration\<close>.\<close>

definition max_seconds :: int where "max_seconds = (2 ^ 63 - 1) div 1000000000"

definition deploymentCredentials_handler ::
  "env \<Rightarrow> request \<Rightarrow> User \<Rightarrow> (string \<times> int) option \<Rightarrow> 'p server \<Rightarrow> 'p reply" where
  "deploymentCredentials_handler E r user decoded sv =
     no_store
      (if healthErr (sv_store sv) then fail 503 ''deployment credential store unavailable'' sv
       else if Method r = ''GET'' then done_with 200 (PCredentials (DeploymentCredentials (sv_store sv))) sv
       else if Method r = ''POST'' then
         (case decoded of
            None \<Rightarrow> fail 400 ''name and a nonnegative ttl_seconds are required'' sv
          | Some (name, ttl_seconds) \<Rightarrow>
              (if ttl_seconds < 0 \<or> max_seconds < ttl_seconds
               then fail 400 ''name and a nonnegative ttl_seconds are required'' sv
               else
                 (case CreateDeploymentCredential E name (Username user) (seconds ttl_seconds) (sv_store sv) of
                    (Inl ErrInvalidDeploymentRequest, s) \<Rightarrow>
                      fail 400 ''name must contain 1 to 80 characters'' (sv\<lparr>sv_store := s\<rparr>)
                  | (Inl _, s) \<Rightarrow> fail 503 ''deployment credential store unavailable'' (sv\<lparr>sv_store := s\<rparr>)
                  | (Inr (credential, token), s) \<Rightarrow> done_with 201 (PNewCredential credential token) (sv\<lparr>sv_store := s\<rparr>))))
       else methodNotAllowed sv)"

definition revokeDeploymentCredential ::
  "env \<Rightarrow> request \<Rightarrow> User \<Rightarrow> string option \<Rightarrow> 'p server \<Rightarrow> 'p reply" where
  "revokeDeploymentCredential E r user decoded sv =
     no_store
      (if Method r \<noteq> ''POST'' then methodNotAllowed sv
       else case decoded of
         None \<Rightarrow> fail 400 ''credential id is required'' sv
       | Some cid \<Rightarrow>
           (if cid = '''' then fail 400 ''credential id is required'' sv
            else
              (case RevokeDeploymentCredential E cid (Username user) (sv_store sv) of
                 (Inl ErrNotFound, s) \<Rightarrow> fail 404 ''deployment credential not found'' (sv\<lparr>sv_store := s\<rparr>)
               | (Inl _, s) \<Rightarrow> fail 503 ''deployment credential store unavailable'' (sv\<lparr>sv_store := s\<rparr>)
               | (Inr credential, s) \<Rightarrow> done_with 200 (PCredential credential) (sv\<lparr>sv_store := s\<rparr>))))"

definition deploymentEnrollmentTokens ::
  "env \<Rightarrow> request \<Rightarrow> (string \<times> int) option \<Rightarrow> 'p server \<Rightarrow> 'p reply" where
  "deploymentEnrollmentTokens E r decoded sv =
     no_store
      (let token = bearerToken (Authorization r); limit = maxDeploymentEnrollmentTTL div 1000000000 in
       if Method r \<noteq> ''POST'' then methodNotAllowed sv
       else if token = '''' then fail 401 ''deployment credential required'' sv
       else case decoded of
         None \<Rightarrow> fail 400 ''device_id and ttl_seconds from 1 to 900 are required'' sv
       | Some (deviceID, ttl_seconds) \<Rightarrow>
           (if ttl_seconds < 0 \<or> limit < ttl_seconds
            then fail 400 ''device_id and ttl_seconds from 1 to 900 are required'' sv
            else
              (case IssueDeploymentEnrollment E token deviceID (seconds (if ttl_seconds = 0 then limit else ttl_seconds))
                      (sv_store sv) of
                 (Inl ErrInvalidAuth, s) \<Rightarrow>
                   fail 401 ''deployment credential is invalid, expired or revoked'' (sv\<lparr>sv_store := s\<rparr>)
               | (Inl ErrInvalidDeploymentRequest, s) \<Rightarrow> fail 400 ''a valid device_id is required'' (sv\<lparr>sv_store := s\<rparr>)
               | (Inl _, s) \<Rightarrow> fail 503 ''deployment credential store unavailable'' (sv\<lparr>sv_store := s\<rparr>)
               | (Inr enrollment, s) \<Rightarrow>
                   done_with 201 (PObj [(''token'', AStr (e_Token enrollment)),
                     (''expires_at'', ATime (Some (e_ExpiresAt enrollment)))]) (sv\<lparr>sv_store := s\<rparr>))))"

section \<open>Shares\<close>

definition shareJSON :: "Share \<Rightarrow> obj" where
  "shareJSON h =
     [(''token'', AStr (sh_Token h)), (''token_id'', AStr (sh_Token h)), (''card_code'', AStr (CardCode h)),
      (''device_id'', AStr (sh_DeviceID h)), (''view_only'', ABool (ViewOnly h)),
      (''access_mode'', AStr (if ViewOnly h then ''view_only'' else ''full'')), (''description'', AStr (Description h)),
      (''expires_at'', ATime (sh_ExpiresAt h)), (''created_at'', ATime (Some (sh_CreatedAt h))),
      (''created_by'', AStr (sh_CreatedBy h)), (''has_password'', ABool (0 < length (sh_PasswordHash h))),
      (''forbid_bitrate'', ABool (sh_ForbidBitrate h)), (''forbid_fps'', ABool (sh_ForbidFPS h)),
      (''forbid_resolution'', ABool (sh_ForbidResolution h)), (''forbid_audio'', ABool (sh_ForbidAudio h)),
      (''guest_settings'', AObj (GuestSettings h))]"

definition share_data :: "obj \<Rightarrow> payload" where
  "share_data d = PObj [(''code'', AInt 0), (''data'', AObj d)]"

definition share_code :: "int \<Rightarrow> string \<Rightarrow> payload" where
  "share_code code msg = PObj [(''code'', AInt code), (''msg'', AStr msg)]"

record shareCreate_body =
  sc_DeviceID :: string
  sc_ExpireSeconds :: int
  AccessMode :: string
  sc_Password :: string
  sc_Description :: string
  sc_ForbidBitrate :: bool
  sc_ForbidFPS :: bool
  sc_ForbidResolution :: bool
  sc_ForbidAudio :: bool

definition shareCreate :: "env \<Rightarrow> request \<Rightarrow> User \<Rightarrow> shareCreate_body option \<Rightarrow> 'p server \<Rightarrow> 'p reply" where
  "shareCreate E r user decoded sv =
     (if Method r \<noteq> ''POST'' then methodNotAllowed sv
      else case decoded of
        None \<Rightarrow> fail 400 ''invalid share request'' sv
      | Some b \<Rightarrow>
          (if \<not> CanAccessDevice user (sc_DeviceID b) then fail 400 ''invalid share request'' sv
           else if AccessMode b \<notin> set ['''', ''full'', ''view'', ''view_only''] then fail 400 ''invalid access mode'' sv
           else
             (let expiresAt = (if 0 < sc_ExpireSeconds b then Some (now E + seconds (sc_ExpireSeconds b)) else None) in
              case CreateShare E (sc_DeviceID b) (Username user) (sc_Password b) (sc_Description b)
                     (AccessMode b = ''view'' \<or> AccessMode b = ''view_only'') expiresAt (sv_store sv) of
                (Inl _, s) \<Rightarrow> fail 500 ''create share'' (sv\<lparr>sv_store := s\<rparr>)
              | (Inr share, s) \<Rightarrow>
                  (case UpdateShare (sh_Token share)
                          (\<lambda>h. Inr (h\<lparr>sh_ForbidBitrate := sc_ForbidBitrate b, sh_ForbidFPS := sc_ForbidFPS b,
                             sh_ForbidResolution := sc_ForbidResolution b, sh_ForbidAudio := sc_ForbidAudio b\<rparr>)) s of
                     (Inl _, s') \<Rightarrow> fail 500 ''save share settings'' (sv\<lparr>sv_store := s'\<rparr>)
                   | (Inr share, s') \<Rightarrow>
                       done_with 201 (share_data (shareJSON share))
                         (audit (skip 2 E) user ''share.create'' (sh_Token share) [(''device_id'', AStr (sh_DeviceID share))]
                           (sv\<lparr>sv_store := s'\<rparr>))))))"

definition shareList :: "env \<Rightarrow> request \<Rightarrow> User \<Rightarrow> 'p server \<Rightarrow> 'p reply" where
  "shareList E r user sv =
     (if Method r \<noteq> ''GET'' then methodNotAllowed sv
      else case SharesFor E (query r ''device_id'') (sv_store sv) of
        (all, s) \<Rightarrow>
          done_with 200 (PShares (map shareJSON (filter (\<lambda>h. CanAccessDevice user (sh_DeviceID h)) all)))
            (sv\<lparr>sv_store := s\<rparr>))"

definition shareRevoke :: "request \<Rightarrow> User \<Rightarrow> string option \<Rightarrow> 'p server \<Rightarrow> 'p reply" where
  "shareRevoke r user decoded sv =
     (case (if Method r \<noteq> ''POST'' then None else decoded) of
        None \<Rightarrow> fail 400 ''invalid share revoke'' sv
      | Some token \<Rightarrow>
          (if token = '''' then fail 400 ''invalid share revoke'' sv
           else if (case Share_get token (sv_store sv) of Inl _ \<Rightarrow> False | Inr h \<Rightarrow> \<not> CanAccessDevice user (sh_DeviceID h))
           then fail 403 ''share access denied'' sv
           else
             (case RevokeShare token (sv_store sv) of
                (Inl e, s) \<Rightarrow>
                  (if e \<noteq> ErrNotFound then fail 400 ''revoke share'' (sv\<lparr>sv_store := s\<rparr>)
                   else done_with 200 (PObj [(''code'', AInt 0)]) (sv\<lparr>sv_store := s\<rparr>))
              | (Inr _, s) \<Rightarrow> done_with 200 (PObj [(''code'', AInt 0)]) (sv\<lparr>sv_store := s\<rparr>))))"

text \<open>The common part of \<open>shareUpdate\<close> and \<open>shareExtend\<close>: the check, the update and the audit.\<close>

definition update_share ::
  "env \<Rightarrow> User \<Rightarrow> string \<Rightarrow> (Share \<Rightarrow> Share) \<Rightarrow> string \<Rightarrow> string \<Rightarrow> obj \<Rightarrow> 'p server \<Rightarrow> 'p reply" where
  "update_share E user token f failure act metadata sv =
     (case Share_get token (sv_store sv) of
        Inl _ \<Rightarrow> fail 403 ''share access denied'' sv
      | Inr h \<Rightarrow>
          (if \<not> CanAccessDevice user (sh_DeviceID h) then fail 403 ''share access denied'' sv
           else
             (case UpdateShare token (\<lambda>h. Inr (f h)) (sv_store sv) of
                (Inl _, s) \<Rightarrow> fail 500 failure (sv\<lparr>sv_store := s\<rparr>)
              | (Inr updated, s) \<Rightarrow>
                  done_with 200 (share_data (shareJSON updated))
                    (audit E user act (sh_Token updated) metadata (sv\<lparr>sv_store := s\<rparr>)))))"

record shareUpdate_body =
  su_Token :: string
  su_ForbidBitrate :: bool
  su_ForbidFPS :: bool
  su_ForbidResolution :: bool
  su_ForbidAudio :: bool
  su_GuestSettings :: obj

definition shareUpdate :: "env \<Rightarrow> request \<Rightarrow> User \<Rightarrow> shareUpdate_body option \<Rightarrow> 'p server \<Rightarrow> 'p reply" where
  "shareUpdate E r user decoded sv =
     (case (if Method r \<noteq> ''POST'' then None else decoded) of
        None \<Rightarrow> fail 400 ''invalid share update'' sv
      | Some b \<Rightarrow>
          (if su_Token b = '''' then fail 400 ''invalid share update'' sv
           else update_share E user (su_Token b)
             (\<lambda>h. h\<lparr>sh_ForbidBitrate := su_ForbidBitrate b, sh_ForbidFPS := su_ForbidFPS b,
                sh_ForbidResolution := su_ForbidResolution b, sh_ForbidAudio := su_ForbidAudio b,
                GuestSettings := cloneMap (su_GuestSettings b)\<rparr>)
             ''update share'' ''share.update'' [] sv))"

definition extended :: "env \<Rightarrow> int \<Rightarrow> Share \<Rightarrow> Share" where
  "extended E n h =
     (let base = (case sh_ExpiresAt h of Some t \<Rightarrow> if now E < t then t else now E | None \<Rightarrow> now E)
      in h\<lparr>sh_ExpiresAt := Some (base + seconds n)\<rparr>)"

definition shareExtend :: "env \<Rightarrow> request \<Rightarrow> User \<Rightarrow> (string \<times> int) option \<Rightarrow> 'p server \<Rightarrow> 'p reply" where
  "shareExtend E r user decoded sv =
     (case (if Method r \<noteq> ''POST'' then None else decoded) of
        None \<Rightarrow> fail 400 ''invalid share extension'' sv
      | Some (token, extendSeconds) \<Rightarrow>
          (if token = '''' \<or> extendSeconds \<le> 0 then fail 400 ''invalid share extension'' sv
           else update_share E user token (extended E extendSeconds) ''extend share'' ''share.extend''
             [(''seconds'', AInt extendSeconds)] sv))"

definition shareRedeemCard :: "env \<Rightarrow> request \<Rightarrow> (string \<times> string) option \<Rightarrow> 'p server \<Rightarrow> 'p reply" where
  "shareRedeemCard E r decoded sv =
     (case (if Method r \<noteq> ''POST'' then None else decoded) of
        None \<Rightarrow> done_with 400 (share_code 400 ''invalid card'') sv
      | Some (cardCode, password) \<Rightarrow>
          (if cardCode = '''' then done_with 400 (share_code 400 ''invalid card'') sv
           else case ShareByCard E cardCode (sv_store sv) of
             (Inl _, s) \<Rightarrow> done_with 200 (share_code 404 ''card not found'') (sv\<lparr>sv_store := s\<rparr>)
           | (Inr share, s) \<Rightarrow>
               (case AuthorizeShare E (sh_Token share) password s of
                  (Inl e, s') \<Rightarrow>
                    (if e = ErrInvalidAuth
                     then done_with 200 (share_code 401 ''password required or incorrect'') (sv\<lparr>sv_store := s'\<rparr>)
                     else done_with 200 (share_code 404 ''card not found'') (sv\<lparr>sv_store := s'\<rparr>))
                | (Inr _, s') \<Rightarrow>
                    done_with 200 (share_data [(''token'', AStr (sh_Token share))]) (sv\<lparr>sv_store := s'\<rparr>))))"

definition shareInfo :: "env \<Rightarrow> request \<Rightarrow> (string \<times> string) option \<Rightarrow> 'p server \<Rightarrow> 'p reply" where
  "shareInfo E r decoded sv =
     (if Method r \<noteq> ''POST'' then methodNotAllowed sv
      else case decoded of
        None \<Rightarrow> done_with 400 (share_code 400 ''invalid share request'') sv
      | Some (token, password) \<Rightarrow>
          (case AuthorizeShare E token password (sv_store sv) of
             (Inl e, s) \<Rightarrow>
               (if e = ErrInvalidAuth
                then done_with 200 (share_code 401 ''password required or incorrect'') (sv\<lparr>sv_store := s\<rparr>)
                else done_with 404 (share_code 404 ''share not found'') (sv\<lparr>sv_store := s\<rparr>))
           | (Inr share, s) \<Rightarrow>
               (let remaining = (case sh_ExpiresAt share of
                      None \<Rightarrow> -1 | Some t \<Rightarrow> max 0 (remaining_seconds t (now E)))
                in done_with 200 (share_data (mput ''remaining_seconds'' (AInt remaining) (shareJSON share)))
                     (sv\<lparr>sv_store := s\<rparr>))))"

section \<open>Shortcuts, files and tasks\<close>

definition requireCapability :: "User \<Rightarrow> string \<Rightarrow> 'p reply \<Rightarrow> 'p server \<Rightarrow> 'p reply" where
  "requireCapability user capability next sv =
     (if Can user capability then next else fail 403 (capability @ '' permission required'') sv)"

definition shortcuts_handler ::
  "env \<Rightarrow> request \<Rightarrow> User \<Rightarrow> Shortcut list option \<Rightarrow> 'p server \<Rightarrow> 'p reply" where
  "shortcuts_handler E r user decoded sv =
     requireCapability user ''shell''
      (if Method r = ''GET'' then done_with 200 (PShortcuts (Shortcuts (u_ID user) (sv_store sv))) sv
       else if Method r = ''POST'' then
         (case decoded of
            None \<Rightarrow> fail 400 ''invalid shortcuts'' sv
          | Some xs \<Rightarrow>
              (let sv = audit E user ''shortcuts.replace'' '''' [(''count'', AInt (int (length xs)))]
                          (sv\<lparr>sv_store := ReplaceShortcuts (u_ID user) xs (sv_store sv)\<rparr>)
               in done_with 200 (PShortcuts (Shortcuts (u_ID user) (sv_store sv))) sv))
       else methodNotAllowed sv) sv"

definition files :: "request \<Rightarrow> User \<Rightarrow> 'p server \<Rightarrow> 'p reply" where
  "files r user sv =
     (if Method r \<noteq> ''GET'' then methodNotAllowed sv
      else requireCapability user ''file_library'' (done_with 200 (PAssets (Assets (sv_store sv))) sv) sv)"

text \<open>
  \<open>upload\<close> with the request body as a list of bytes. The temporary file never outlives the
  handler; the blob of a rejected asset is removed again.
\<close>

definition upload ::
  "web \<Rightarrow> (string \<Rightarrow> bool) \<Rightarrow> env \<Rightarrow> request \<Rightarrow> User \<Rightarrow> byte list \<Rightarrow> 'p server \<Rightarrow> 'p reply" where
  "upload L R E r user data sv =
     (let name = path_base (trim_space (query r ''name''));
          limit = MaxAssetBytes (config sv)
      in if Method r \<noteq> ''POST'' then methodNotAllowed sv
         else if \<not> Can user ''file_library'' then fail 403 ''file_library permission required'' sv
         else if name = ''.'' \<or> name = '''' \<or> name = ''/'' then fail 400 ''invalid file name'' sv
         else if query r ''type'' \<noteq> ''file'' then fail 400 ''unsupported upload type'' sv
         else if limit < ContentLength r then fail 413 ''file exceeds configured size limit'' sv
         else if \<not> R ''mkdir'' then fail 500 ''create asset directory'' sv
         else if \<not> R ''create'' then fail 500 ''create temporary upload'' sv
         else if \<not> R ''write'' \<or> \<not> R ''close'' then fail 400 ''read upload'' sv
         else
           (let data = take (nat (limit + 1)) data; n = int (length data) in
            if limit < n then fail 413 ''file exceeds configured size limit'' sv
            else
              (let aid = randomID E 0;
                   asset = \<lparr>a_ID = aid, a_Name = name, Path = path_join L [AssetDir (config sv), aid @ ''.blob''],
                             SHA256 = hex_bytes (sha256 E (string_of data)), Size = n, a_CreatedBy = Username user,
                             a_CreatedAt = now E\<rparr>
               in if \<not> R ''rename'' then fail 500 ''finalize upload'' sv
                  else
                    (case CreateAsset (skip 2 E) asset (sv_store sv) of
                       (Inl e, s) \<Rightarrow>
                         (let sv = sv\<lparr>sv_store := s, blobs := mdel (Path asset) (blobs sv)\<rparr> in
                          if e = ErrAlreadyExists then fail 409 ''file name already exists'' sv
                          else fail 500 ''store asset'' sv)
                     | (Inr stored, s) \<Rightarrow>
                         done_with 200 (PAsset stored)
                           (audit (skip 2 E) user ''asset.upload'' (a_ID stored)
                             [(''name'', AStr (a_Name stored)), (''size'', AInt (Size stored)), (''sha256'', AStr (SHA256 stored))]
                             (sv\<lparr>sv_store := s, blobs := mput (Path asset) data (blobs sv)\<rparr>))))))"

definition download :: "web \<Rightarrow> env \<Rightarrow> request \<Rightarrow> 'p server \<Rightarrow> 'p reply" where
  "download L E r sv =
     (if Method r \<noteq> ''GET'' then methodNotAllowed sv
      else case parseDownloadGrant L E (JWTSecret (config sv)) (query r ''grant'') of
        Inl _ \<Rightarrow> fail 401 ''invalid download grant'' sv
      | Inr grant \<Rightarrow>
          (case Asset_get (g_AssetID grant) (sv_store sv) of
             Inl _ \<Rightarrow> fail 404 ''asset not found'' sv
           | Inr asset \<Rightarrow>
               (case Task_get (g_TaskID grant) (sv_store sv) of
                  Inl _ \<Rightarrow> fail 401 ''invalid download grant'' sv
                | Inr task \<Rightarrow>
                    (if AssetID task \<noteq> a_ID asset then fail 401 ''invalid download grant'' sv
                     else if (case map_of (Devices task) (g_DeviceID grant) of
                                None \<Rightarrow> True | Some d \<Rightarrow> Status d \<noteq> TaskLeased \<and> Status d \<noteq> TaskRunning)
                     then fail 401 ''invalid download grant'' sv
                     else if path_base (URLPath r) \<noteq> a_Name asset then fail 404 ''asset not found'' sv
                     else
                       (case map_of (blobs sv) (Path asset) of
                          None \<Rightarrow> fail 404 ''asset content unavailable'' sv
                        | Some data \<Rightarrow>
                            ((reply 200 (PFile ''application/octet-stream'' data))\<lparr>headers :=
                               [(''Content-Length'', show_int (Size asset)),
                                (''Content-Disposition'',
                                 ''attachment; filename='' @ [CHR 0x22] @ filter (\<lambda>c. c \<noteq> CHR 0x22) (a_Name asset) @ [CHR 0x22])]\<rparr>,
                             [], sv))))))"

record task_body =
  tb_Type :: string
  Targets :: "string list"
  tb_Payload :: string
  tb_DestPath :: string

definition notifyTask :: "(nat \<Rightarrow> bool) \<Rightarrow> string \<Rightarrow> string \<Rightarrow> 'p server \<Rightarrow> out list" where
  "notifyTask W deviceID taskID sv =
     (let m = [(''message_type'', AStr ''task_available''), (''task_id'', AStr taskID), (''device_id'', AStr deviceID)] in
      to_agent W deviceID m sv @ (if redis sv then [PublishAgent deviceID (MObj m)] else []))"

text \<open>The asset of an install or push task is named by the last path element of the payload URL.\<close>

definition task_asset :: "web \<Rightarrow> User \<Rightarrow> Task \<Rightarrow> store \<Rightarrow> (nat \<times> string) + Task" where
  "task_asset L user task s =
     (if Type task = ''install'' \<or> Type task = ''push_file'' then
        (if \<not> Can user ''file_library'' then Inl (403, ''file_library permission required'')
         else
           (case url_parts L (Payload task) of
              None \<Rightarrow> Inl (400, ''invalid asset URL'')
            | Some (_, _, path) \<Rightarrow>
                (case AssetByName (path_base path) s of
                   Inl _ \<Rightarrow> Inl (400, ''asset not found'')
                 | Inr asset \<Rightarrow> Inr (task\<lparr>AssetID := a_ID asset, Payload := ''''\<rparr>))))
      else Inr task)"

definition createTask ::
  "web \<Rightarrow> (nat \<Rightarrow> bool) \<Rightarrow> env \<Rightarrow> User \<Rightarrow> task_body option \<Rightarrow> 'p server \<Rightarrow> 'p reply" where
  "createTask L W E user decoded sv =
     requireCapability user ''batch_tasks''
      (case decoded of
         None \<Rightarrow> fail 400 ''invalid task request'' sv
       | Some b \<Rightarrow>
           (if tb_Type b \<notin> set [''shell'', ''install'', ''push_file'', ''open_app'', ''uninstall''] \<or> Targets b = []
            then fail 400 ''unsupported task'' sv
            else if tb_Type b = ''shell'' \<and> \<not> Can user ''shell'' then fail 403 ''shell permission required'' sv
            else if list_ex (\<lambda>d. d = '''' \<or> \<not> CanAccessDevice user d) (Targets b)
            then fail 403 ''target device access denied'' sv
            else
              (let ds = fold (\<lambda>d m. mput d \<lparr>td_DeviceID = d, Status = '''', Result = '''', UpdatedAt = 0\<rparr> m) (Targets b) [];
                   task = \<lparr>tk_ID = '''', Type = tb_Type b, Payload = tb_Payload b, AssetID = '''', DestPath = tb_DestPath b,
                            tk_CreatedBy = Username user, tk_CreatedAt = now E, tk_ExpiresAt = now E + TaskTTL (config sv),
                            Devices = ds\<rparr>
               in case task_asset L user task (sv_store sv) of
                    Inl (code, msg) \<Rightarrow> fail code msg sv
                  | Inr task \<Rightarrow>
                      (case CreateTask E task (sv_store sv) of
                         (Inl _, s) \<Rightarrow> fail 500 ''create task'' (sv\<lparr>sv_store := s\<rparr>)
                       | (Inr stored, s) \<Rightarrow>
                           (let sv = audit (skip 1 E) user ''task.create'' (tk_ID stored)
                                  [(''type'', AStr (Type stored)), (''target_count'', AInt (int (length (Devices stored))))]
                                  (sv\<lparr>sv_store := s\<rparr>)
                            in (reply 201 (PObj [(''status'', AStr ''success''), (''task_id'', AStr (tk_ID stored))]),
                                concat (map (\<lambda>d. notifyTask W d (tk_ID stored) sv) (mkeys (Devices stored))), sv)))))) sv"

definition tasks_handler ::
  "web \<Rightarrow> (nat \<Rightarrow> bool) \<Rightarrow> env \<Rightarrow> request \<Rightarrow> User \<Rightarrow> task_body option \<Rightarrow> 'p server \<Rightarrow> 'p reply" where
  "tasks_handler L W E r user decoded sv =
     (if Method r = ''GET'' then done_with 200 (PTasks (TasksFor user (sv_store sv))) sv
      else if Method r = ''POST'' then createTask L W E user decoded sv
      else methodNotAllowed sv)"

definition taskDetails :: "request \<Rightarrow> User \<Rightarrow> 'p server \<Rightarrow> 'p reply" where
  "taskDetails r user sv =
     (if Method r \<noteq> ''GET'' then methodNotAllowed sv
      else case Task_get (query r ''task_id'') (sv_store sv) of
        Inl _ \<Rightarrow> fail 404 ''task not found'' sv
      | Inr task \<Rightarrow>
          (if \<not> canSeeTask user task then fail 403 ''task access denied'' sv
           else done_with 200 (PTask task) sv))"

section \<open>Routes\<close>

text \<open>
  One constructor per route of \<open>Handler\<close> that is modelled, with the decoded body. \<open>serve\<close> applies
  the wrapper the route is registered with.
\<close>

datatype call =
    Health | AuthStatus | Me | ServerAddresses | IceServers | DevicesCall | AllDeviceSettings | Logout
  | Files | TaskDetails | ShareList | Download
  | Login "(string \<times> string) option"
  | WsTicket "(string \<times> string) option"
  | Register "(string \<times> string) option"
  | DefaultSettingsCall "obj option"
  | TagsCall "tags_body option"
  | AdminUsers "adminUsers_body option"
  | AdminAssign "(string \<times> string list) option"
  | AdminCreateUser "adminCreateUser_body option"
  | AdminDeleteUser "string option"
  | AdminResetPassword "(string \<times> string) option"
  | AdminUpdateNote "(string \<times> string) option"
  | AdminRenameUser "(string \<times> string) option"
  | AdminUpdateUser "adminUpdateUser_body option"
  | AdminKickUser "(string \<times> string) option"
  | EnrollmentTokens "(string \<times> int) option"
  | DeploymentCredentialsCall "(string \<times> int) option"
  | RevokeCredential "string option"
  | DeployEnrollmentTokens "(string \<times> int) option"
  | TasksCall "task_body option"
  | ShortcutsCall "Shortcut list option"
  | Upload "byte list"
  | DeviceByID "obj option"
  | ShareCreate "shareCreate_body option"
  | ShareRevoke "string option"
  | ShareUpdate "shareUpdate_body option"
  | ShareExtend "(string \<times> int) option"
  | ShareRedeemCard "(string \<times> string) option"
  | ShareInfo "(string \<times> string) option"

text \<open>What the server takes from outside: the token and address packages, the sockets, the files.\<close>

record ('a, 'p) world =
  w_jwt :: jwt
  w_net :: "('a, 'p) netip"
  w_web :: web
  w_sockets :: "nat \<Rightarrow> bool"
  w_files :: "string \<Rightarrow> bool"

fun user_route :: "('a, 'p) world \<Rightarrow> env \<Rightarrow> request \<Rightarrow> call \<Rightarrow> (User \<Rightarrow> 'p server \<Rightarrow> 'p reply) option" where
  "user_route G E r DevicesCall = Some (devices_handler (w_web G) E r)"
| "user_route G E r Logout = Some (\<lambda>_. logout (w_jwt G) E r)"
| "user_route G E r Me = Some me"
| "user_route G E r ServerAddresses = Some (\<lambda>_. serverAddresses)"
| "user_route G E r IceServers = Some (\<lambda>_. iceServerList)"
| "user_route G E r (DefaultSettingsCall b) = Some (\<lambda>u. defaultSettings_handler (w_sockets G) r u b)"
| "user_route G E r AllDeviceSettings = Some (allDeviceSettings r)"
| "user_route G E r (TagsCall b) = Some (\<lambda>u. tags_handler (w_sockets G) E r u b)"
| "user_route G E r (TasksCall b) = Some (\<lambda>u. tasks_handler (w_web G) (w_sockets G) E r u b)"
| "user_route G E r TaskDetails = Some (taskDetails r)"
| "user_route G E r (ShortcutsCall b) = Some (\<lambda>u. shortcuts_handler E r u b)"
| "user_route G E r Files = Some (files r)"
| "user_route G E r (Upload data) = Some (\<lambda>u. upload (w_web G) (w_files G) E r u data)"
| "user_route G E r (DeviceByID b) = Some (\<lambda>u. deviceByID (w_web G) (w_sockets G) E r u b)"
| "user_route G E r (ShareCreate b) = Some (\<lambda>u. shareCreate E r u b)"
| "user_route G E r ShareList = Some (shareList E r)"
| "user_route G E r (ShareRevoke b) = Some (\<lambda>u. shareRevoke r u b)"
| "user_route G E r (ShareUpdate b) = Some (\<lambda>u. shareUpdate E r u b)"
| "user_route G E r (ShareExtend b) = Some (\<lambda>u. shareExtend E r u b)"
| "user_route G E r _ = None"

fun admin_route :: "env \<Rightarrow> request \<Rightarrow> call \<Rightarrow> (User \<Rightarrow> 'p server \<Rightarrow> 'p reply) option" where
  "admin_route E r (AdminUsers b) = Some (\<lambda>_. adminUsers E r b)"
| "admin_route E r (AdminAssign b) = Some (\<lambda>_. adminAssign r b)"
| "admin_route E r (AdminCreateUser b) = Some (\<lambda>_. adminCreateUser E r b)"
| "admin_route E r (AdminDeleteUser b) = Some (\<lambda>_. adminDeleteUser r b)"
| "admin_route E r (AdminResetPassword b) = Some (\<lambda>_. adminResetPassword E r b)"
| "admin_route E r (AdminUpdateNote b) = Some (\<lambda>_. adminUpdateNote r b)"
| "admin_route E r (AdminRenameUser b) = Some (\<lambda>_. adminRenameUser r b)"
| "admin_route E r (AdminUpdateUser b) = Some (\<lambda>_. adminUpdateUser E r b)"
| "admin_route E r (AdminKickUser b) = Some (\<lambda>_. adminKickUser r b)"
| "admin_route E r (EnrollmentTokens b) = Some (\<lambda>_. enrollmentTokens E r b)"
| "admin_route E r (DeploymentCredentialsCall b) = Some (\<lambda>u. deploymentCredentials_handler E r u b)"
| "admin_route E r (RevokeCredential b) = Some (\<lambda>u. revokeDeploymentCredential E r u b)"
| "admin_route E r _ = None"

fun open_route :: "('a, 'p) world \<Rightarrow> env \<Rightarrow> request \<Rightarrow> call \<Rightarrow> 'p server \<Rightarrow> 'p reply" where
  "open_route G E r AuthStatus = authStatus"
| "open_route G E r (Login b) = login (w_jwt G) (w_net G) E r b"
| "open_route G E r (WsTicket b) = websocketTicket (w_jwt G) E r b"
| "open_route G E r (Register b) = register E r b"
| "open_route G E r (DeployEnrollmentTokens b) = deploymentEnrollmentTokens E r b"
| "open_route G E r Download = download (w_web G) E r"
| "open_route G E r (ShareRedeemCard b) = shareRedeemCard E r b"
| "open_route G E r (ShareInfo b) = shareInfo E r b"
| "open_route G E r _ = health (w_files G)"

definition serve :: "('a, 'p) world \<Rightarrow> env \<Rightarrow> request \<Rightarrow> call \<Rightarrow> 'p server \<Rightarrow> 'p reply" where
  "serve G E r c sv =
     (case admin_route E r c of
        Some handler \<Rightarrow> requireAdmin (w_jwt G) E r handler sv
      | None \<Rightarrow>
          (case user_route G E r c of
             Some handler \<Rightarrow> requireUser (w_jwt G) E r handler sv
           | None \<Rightarrow> open_route G E r c sv))"

definition originAllowed :: "web \<Rightarrow> 'p Config \<Rightarrow> string \<Rightarrow> bool" where
  "originAllowed L c origin \<longleftrightarrow>
     (if origin \<in> set (CORSOrigins c) then True
      else if (case url_parts L (PublicURL c) of
                 None \<Rightarrow> False
               | Some (scheme, host, _) \<Rightarrow> scheme \<noteq> '''' \<and> host \<noteq> '''' \<and> origin = scheme @ ''://'' @ host) then True
      else if CORSOrigins c = [] then prefix ''http://localhost:'' origin \<or> prefix ''http://127.0.0.1:'' origin
      else False)"

definition withCORS :: "('a, 'p) world \<Rightarrow> env \<Rightarrow> request \<Rightarrow> call \<Rightarrow> 'p server \<Rightarrow> 'p reply" where
  "withCORS G E r c sv =
     (let cors = (if Origin r \<noteq> '''' \<and> originAllowed (w_web G) (config sv) (Origin r)
            then [(''Access-Control-Allow-Origin'', Origin r), (''Vary'', ''Origin''),
                  (''Access-Control-Allow-Headers'', ''Authorization, Content-Type''),
                  (''Access-Control-Allow-Methods'', ''GET, POST, PUT, PATCH, DELETE, OPTIONS'')] else [])
      in if Method r = ''OPTIONS'' then ((reply 204 PEmpty)\<lparr>headers := cors\<rparr>, [], sv)
         else
           (case serve G E r c sv of
              (response, outs, sv') \<Rightarrow> (response\<lparr>headers := mover cors (headers response)\<rparr>, outs, sv')))"

end
