(* ===== verification/ServerProps.thy ===== *)
theory ServerProps
  imports Api
begin

text \<open>
  What the realtime half of the server guarantees: messages of a browser reach only agents its
  user may use, broadcasts show a browser only what its user may see, an agent changes only what
  belongs to its device, and the admission, replacement and removal of agents.
\<close>

section \<open>Where frames go\<close>

lemma to_agent_target: "x \<in> set (to_agent W d m sv) \<Longrightarrow> \<exists>k. x = Json k (MObj m) \<and> map_of (agents (hub sv)) d = Some k"
  by (auto simp: to_agent_def sendAgent_def split: option.splits if_splits)

lemma sendAgent_target:
  "x \<in> set (snd (sendAgent W d msg h)) \<Longrightarrow> \<exists>k. x = Json k msg \<and> map_of (agents h) d = Some k"
  by (auto simp: sendAgent_def split: option.splits if_splits)

lemma write_peer_target: "x \<in> set (write_peer W msg peer) \<Longrightarrow> x = Json (bp_socket peer) msg"
  by (auto simp: write_peer_def split: if_splits)

lemma broadcast_target:
  "x \<in> set (broadcast_all W msg sv) \<Longrightarrow>
   \<exists>peer m. peer \<in> set (registered (hub sv)) \<and> filterBroadcast peer msg = Some m \<and> x = Json (bp_socket peer) m"
  by (auto simp: broadcast_all_def broadcast_def split: option.splits dest!: write_peer_target)

text \<open>Agents stay where they are under the operations on browsers.\<close>

lemma agents_browser_ops [simp]:
  "agents (addBrowser p h) = agents h" "agents (bindBrowser b d h) = agents h"
  "agents (subscribePreview b d h) = agents h" "agents (setPreviewRequest b d m h) = agents h"
  "agents (drop_preview b d h) = agents h" "agents (snd (unsubscribePreview b d h)) = agents h"
  "agents (subscribeAudio b d h) = agents h" "agents (drop_audio b d h) = agents h"
  "agents (snd (unsubscribeAudio b d h)) = agents h"
  by (simp_all add: addBrowser_def bindBrowser_def subscribePreview_def setPreviewRequest_def drop_preview_def
      unsubscribePreview_def subscribeAudio_def drop_audio_def unsubscribeAudio_def Let_def split: option.split)

text \<open>
  What a browser message of a type may demand of the device \<open>d\<close>: access to it, and the permission
  of the operation.
\<close>

definition permitted :: "browserPeer \<Rightarrow> obj \<Rightarrow> string \<Rightarrow> bool" where
  "permitted peer m d \<longleftrightarrow>
     (let t = stringField m ''message_type'' in
      d \<noteq> '''' \<and> CanAccessDevice (bp_user peer) d \<and>
      (t \<in> set [''command'', ''pty_open'', ''pty_input'', ''pty_resize'', ''pty_close''] \<longrightarrow> Can (bp_user peer) ''shell'') \<and>
      (t \<in> set [''file_open'', ''file_command'', ''file_chunk''] \<longrightarrow>
         Can (bp_user peer) ''file_library'' \<and> bp_deviceID peer = d) \<and>
      (t = ''quit_agent'' \<longrightarrow> u_Role (bp_user peer) = RoleAdmin) \<and>
      (t \<in> set [''inject_data'', ''group_control_event''] \<longrightarrow> \<not> bp_viewOnly peer))"

definition confined :: "browserPeer \<Rightarrow> obj \<Rightarrow> realtimeHub \<Rightarrow> realtimeHub \<Rightarrow> out \<Rightarrow> bool" where
  "confined peer m h h' x \<longleftrightarrow>
     (\<exists>k msg. x = Json k msg \<and>
        (k = bp_socket peer \<or> k \<in> bp_socket ` set (registered h') \<or>
         (\<exists>d. map_of (agents h) d = Some k \<and> permitted peer m d)))"

lemma confined_agent:
  "x \<in> set (to_agent W d msg sv) \<Longrightarrow> agents (hub sv) = agents h \<Longrightarrow> permitted peer m d \<Longrightarrow> confined peer m h h' x"
  by (drule to_agent_target) (auto simp: confined_def)

lemma confined_self: "x \<in> set (write_peer W msg peer) \<Longrightarrow> confined peer m h h' x"
  by (auto simp: confined_def dest: write_peer_target)

lemma confined_broadcast: "x \<in> set (broadcast_all W msg sv) \<Longrightarrow> hub sv = h' \<Longrightarrow> confined peer m h h' x"
  by (auto simp: confined_def dest!: broadcast_target)

lemma confined_send:
  "x \<in> set (snd (sendAgent W d msg h0)) \<Longrightarrow> agents h0 = agents h \<Longrightarrow> permitted peer m d \<Longrightarrow> confined peer m h h' x"
  by (drule sendAgent_target) (auto simp: confined_def)

lemmas confinedI = confined_agent confined_self confined_broadcast confined_send

lemma inject_each_confined:
  "x \<in> set (inject_each W peer msg seen targets sv) \<Longrightarrow> hub sv = h \<Longrightarrow>
   stringField m ''message_type'' = ''inject_data'' \<Longrightarrow> \<not> bp_viewOnly peer \<Longrightarrow> confined peer m h h' x"
  by (induction targets arbitrary: seen)
    (auto simp: permitted_def split: if_splits intro: confined_agent)

lemma injectData_confined:
  "x \<in> set (injectData W peer d m sv) \<Longrightarrow> hub sv = h \<Longrightarrow> stringField m ''message_type'' = ''inject_data'' \<Longrightarrow>
   confined peer m h h' x"
  by (auto simp: injectData_def simp del: inject_each.simps split: if_splits option.splits
      intro: confined_self inject_each_confined)

lemma group_confined:
  "x \<in> set (group_control W peer m sv) \<Longrightarrow> hub sv = h \<Longrightarrow>
   stringField m ''message_type'' = ''group_control_event'' \<Longrightarrow> confined peer m h h' x"
  by (auto simp: group_control_def permitted_def split: if_splits intro: confined_agent)

lemma forward_confined:
  "x \<in> set (browser_forward W peer d m sv) \<Longrightarrow> hub sv = h \<Longrightarrow> stringField m ''message_type'' = ''forward'' \<Longrightarrow>
   confined peer m h h' x"
  by (auto simp: browser_forward_def permitted_def Let_def split: if_splits intro: confined_agent)

lemma connect_confined:
  "x \<in> set (fst (browser_connect L W E peer m sv)) \<Longrightarrow> hub sv = h \<Longrightarrow> hub (snd (browser_connect L W E peer m sv)) = h' \<Longrightarrow>
   stringField m ''message_type'' = ''connect'' \<Longrightarrow> confined peer m h h' x"
  by (auto simp: browser_connect_def Let_def broadcastDeviceList_def permitted_def split: if_splits
      intro: confined_self confined_broadcast elim!: confined_agent)

lemma audio_confined:
  "x \<in> set (fst (startBrowserAudio W peer d m sv)) \<Longrightarrow> hub sv = h \<Longrightarrow>
   stringField m ''message_type'' = ''start_audio'' \<Longrightarrow> confined peer m h h' x"
proof -
  assume x: "x \<in> set (fst (startBrowserAudio W peer d m sv))" and h: "hub sv = h"
    and t: "stringField m ''message_type'' = ''start_audio''"
  let ?h = "subscribeAudio (bp_id peer) d (hub sv)"
  let ?msg = "MObj (withClient (constrainedStreamOptions (bp_user peer) d (mput ''audio'' (ABool True) m) (sv_store sv)) (bp_id peer))"
  have "x \<in> set (snd (sendAgent W d ?msg ?h)) \<and> permitted peer m d \<or> (\<exists>msg. x \<in> set (write_peer W msg peer))"
    using x t by (auto simp: startBrowserAudio_def Let_def permitted_def split: if_splits prod.splits bool.splits)
  then show "confined peer m h h' x" using h by (auto intro: confined_self confined_send)
qed

lemma file_confined:
  "x \<in> set (fst (browser_file W E peer t d m sv)) \<Longrightarrow> hub sv = h \<Longrightarrow>
   stringField m ''message_type'' = t \<Longrightarrow> t \<in> set [''file_open'', ''file_command'', ''file_chunk''] \<Longrightarrow> confined peer m h h' x"
proof -
  assume x: "x \<in> set (fst (browser_file W E peer t d m sv))" and h: "hub sv = h"
    and t: "stringField m ''message_type'' = t" "t \<in> set [''file_open'', ''file_command'', ''file_chunk'']"
  have "x \<in> set (snd (sendAgent W d (MObj (withClient m (bp_id peer))) h)) \<and> permitted peer m d
      \<or> (\<exists>msg. x \<in> set (write_peer W msg peer))"
    using x t h by (auto simp: browser_file_def Let_def permitted_def split: if_splits prod.splits bool.splits)
  then show "confined peer m h h' x" by (auto intro: confined_self confined_send)
qed

definition confined_reply :: "browserPeer \<Rightarrow> obj \<Rightarrow> realtimeHub \<Rightarrow> out list \<times> 'p server \<Rightarrow> bool" where
  "confined_reply peer m h r \<longleftrightarrow> (\<forall>x \<in> set (fst r). confined peer m h (hub (snd r)) x)"

lemma confined_reply_agent:
  "agents (hub sv') = agents h \<Longrightarrow> permitted peer m d \<Longrightarrow> confined_reply peer m h (to_agent W d msg sv', sv')"
  "agents (hub sv') = agents h \<Longrightarrow> permitted peer m d \<Longrightarrow> confined_reply peer m h (syncPreview W d sv', sv')"
  by (auto simp: confined_reply_def syncPreview_def intro: confined_agent)

lemma confined_reply_quiet: "confined_reply peer m h ([], sv')"
  and confined_reply_self: "confined_reply peer m h (write_peer W msg peer, sv')"
  by (auto simp: confined_reply_def intro: confined_self)

lemma confined_reply_parts:
  assumes t: "stringField m ''message_type'' = t" and h: "h = hub sv"
  shows "t = ''connect'' \<Longrightarrow> confined_reply peer m h (browser_connect L W E peer m sv)"
    and "t = ''start_audio'' \<Longrightarrow> confined_reply peer m h (startBrowserAudio W peer d m sv)"
    and "t = ''inject_data'' \<Longrightarrow> confined_reply peer m h (injectData W peer d m sv, sv)"
    and "t = ''forward'' \<Longrightarrow> confined_reply peer m h (browser_forward W peer d m sv, sv)"
    and "t = ''group_control_event'' \<Longrightarrow> confined_reply peer m h (group_control W peer m sv, sv)"
    and "t \<in> set [''file_open'', ''file_command'', ''file_chunk''] \<Longrightarrow> confined_reply peer m h (browser_file W E peer t d m sv)"
  unfolding confined_reply_def h using t
  by (auto intro: connect_confined audio_confined injectData_confined forward_confined group_confined file_confined
      simp del: list.set)

lemma stop_audio_confined:
  assumes "permitted peer m d"
  shows "confined_reply peer m (hub sv)
     (case unsubscribeAudio (bp_id peer) d (hub sv) of
        (stopped, h) \<Rightarrow> (let sv = sv\<lparr>hub := h\<rparr> in (if stopped then to_agent W d msg sv else [], sv)))"
proof -
  obtain stopped h where eq: "unsubscribeAudio (bp_id peer) d (hub sv) = (stopped, h)" by fastforce
  with agents_browser_ops(9) [of "bp_id peer" d "hub sv"] have "agents h = agents (hub sv)" by simp
  with assms show ?thesis
    by (cases stopped) (simp_all add: eq Let_def confined_reply_agent confined_reply_quiet)
qed

lemma confined_reply_if:
  "(b \<Longrightarrow> confined_reply peer m h x) \<Longrightarrow> (\<not> b \<Longrightarrow> confined_reply peer m h y) \<Longrightarrow>
   confined_reply peer m h (if b then x else y)"
  by simp

lemma handleBrowserMessage_confined: "confined_reply peer m (hub sv) (handleBrowserMessage L W E peer m sv)"
  unfolding handleBrowserMessage_def Let_def
  by (intro confined_reply_if confined_reply_parts [OF refl refl] confined_reply_quiet confined_reply_self
      confined_reply_agent stop_audio_confined [unfolded Let_def])
    (simp_all add: permitted_def audit_def, auto)

text \<open>The only change of the store is the audit log.\<close>

definition only_audits :: "store \<Rightarrow> out list \<times> 'p server \<Rightarrow> bool" where
  "only_audits s r \<longleftrightarrow> sv_store (snd r) = s\<lparr>audits := audits (sv_store (snd r))\<rparr>"

lemma only_audits_simps [simp]:
  "only_audits (sv_store sv) (outs, sv)" "only_audits (sv_store sv) (outs, sv\<lparr>hub := h\<rparr>)"
  "only_audits (sv_store sv) (outs, audit E u a t md sv)"
  "only_audits (sv_store sv) (outs, sv\<lparr>sv_store := Audit E ev (sv_store sv)\<rparr>)"
  by (simp_all add: only_audits_def audit_def Audit_def auditLocked_def Let_def)

lemma only_audits_parts [simp]:
  "only_audits (sv_store sv) (browser_connect L W E peer m sv)"
  "only_audits (sv_store sv) (startBrowserAudio W peer d m sv)"
  "only_audits (sv_store sv) (browser_file W E peer t d m sv)"
  by (simp_all add: browser_connect_def startBrowserAudio_def browser_file_def Let_def split: prod.split bool.split)

lemma only_audits_if:
  "(b \<Longrightarrow> only_audits s x) \<Longrightarrow> (\<not> b \<Longrightarrow> only_audits s y) \<Longrightarrow> only_audits s (if b then x else y)"
  by simp

lemma handleBrowserMessage_only_audits: "only_audits (sv_store sv) (handleBrowserMessage L W E peer m sv)"
  unfolding handleBrowserMessage_def Let_def by (intro only_audits_if) (simp_all split: prod.split)

section \<open>Properties of the browser side\<close>

text \<open>C7. A message of a browser reaches only what its user may use: every frame it causes goes to the browser
  itself, to registered browsers (the filtered device list), or to the agent of a device the user
  has access to, and to that agent only if the user has the permission the message type needs
  (shell for commands and terminals, the file library and an open connection to this device for
  files, the administrator role for stopping the agent, no view-only share for injected input).
  Apart from the audit log the store does not change.\<close>

theorem browser_message_confined:
  assumes "handleBrowserMessage L W E peer m sv = (outs, sv')"
  shows "(\<forall>x \<in> set outs. \<exists>k msg. x = Json k msg \<and>
      (k = bp_socket peer \<or> k \<in> bp_socket ` set (registered (hub sv')) \<or>
       (\<exists>d. map_of (agents (hub sv)) d = Some k \<and> permitted peer m d))) \<and>
    sv_store sv' = (sv_store sv)\<lparr>audits := audits (sv_store sv')\<rparr>"
  using handleBrowserMessage_confined [of peer m sv L W E] handleBrowserMessage_only_audits [of sv L W E peer m]
  by (simp add: assms confined_reply_def confined_def only_audits_def)

definition demo_config :: "unit Config" where
  "demo_config = \<lparr>ListenAddress = '''', JWTSecret = ''key'', BootstrapAdminUser = ''root'', BootstrapAdminPass = '''',
     AllowRegistration = False, PublicURL = ''https://host'', TurnURLs = [], TurnUsername = '''', TurnCredential = '''',
     CORSOrigins = [], PostgresDSN = '''', RedisURL = '''', AssetDir = ''/data'', AgentDir = '''', ScrcpyJar = '''',
     TaskTTL = Hour, AuditRetention = Hour, MaxAssetBytes = 100, AgentHelloTimeout = Minute, AgentHelloMaxBytes = 100,
     MaxPendingAgentHandshakes = 2, LoginAttemptWindow = Minute, LoginMaxAttemptsPerAccount = 3, LoginMaxAttemptsPerIP = 3,
     TrustedProxyCIDRs = []\<rparr>"

text \<open>The JSON of a grant is replaced by its asset, task and device separated by commas.\<close>

definition demo_web :: web where
  "demo_web = \<lparr>decode_info = (\<lambda>_. Some no_info),
     grant_json = (\<lambda>g. g_AssetID g @ '','' @ g_TaskID g @ '','' @ g_DeviceID g),
     grant_unjson = (\<lambda>s. case split_on (CHR '','') s of
       [a, t, d] \<Rightarrow> Some \<lparr>g_AssetID = a, g_TaskID = t, g_DeviceID = d, Expires = unix (100 + 15 * Minute)\<rparr> | _ \<Rightarrow> None),
     png_size = (\<lambda>_. Some (1, 1)), path_join = join_with ''/'', url_parts = (\<lambda>u. Some (''https'', ''host'', u))\<rparr>"

definition demo_server :: "unit server" where
  "demo_server = \<lparr>config = demo_config, sv_store = demo_users, hub = newRealtimeHub\<lparr>agents := [(''d1'', 7)]\<rparr>,
     deviceMetrics = [], pendingAgentHandshakes = 1, sv_limiter = newLoginLimiter demo_config, blobs = [], redis = False\<rparr>"

definition demo_browser :: browserPeer where
  "demo_browser = \<lparr>bp_id = ''b1'', bp_user = demo_user\<lparr>AssignedDevices := [''d1'']\<rparr>, bp_socket = 3, bp_deviceID = '''',
     bp_viewOnly = False, bp_accessToken = '''', audioFrames = []\<rparr>"

theorem browser_message_confined_witness:
  "\<exists>x. handleBrowserMessage demo_web (\<lambda>_. True) (demo_env 1 1) demo_browser
       [(''message_type'', AStr ''screenshot_request''), (''device_id'', AStr ''d1'')] demo_server = ([x], demo_server) \<and>
     (\<exists>k msg. x = Json k msg \<and> (k = 3 \<or> (\<exists>d. map_of (agents (hub demo_server)) d = Some k \<and>
        permitted demo_browser [(''message_type'', AStr ''screenshot_request''), (''device_id'', AStr ''d1'')] d)))"
proof -
  let ?m = "[(''message_type'', AStr ''screenshot_request''), (''device_id'', AStr ''d1'')]"
  have eq: "handleBrowserMessage demo_web (\<lambda>_. True) (demo_env 1 1) demo_browser ?m demo_server =
      ([Json 7 (MObj (withClient ?m ''b1''))], demo_server)"
    by (simp add: handleBrowserMessage_def stringField_def demo_browser_def demo_server_def CanAccessDevice_def
        assigned_to_def to_agent_def sendAgent_def RoleUser_def RoleAdmin_def newRealtimeHub_def Let_def)
  from browser_message_confined [OF eq] show ?thesis
    unfolding eq by (simp add: demo_browser_def demo_server_def registered_def newRealtimeHub_def List.map_filter_def)
qed

text \<open>What a message says about devices and tasks, and who may know it.\<close>

fun visible :: "User \<Rightarrow> Hub.message \<Rightarrow> bool" where
  "visible user (MObj m) = (stringField m ''device_id'' = '''' \<or> CanAccessDevice user (stringField m ''device_id''))"
| "visible user (MDevices ds) = list_all (\<lambda>d. CanAccessDevice user (d_ID d)) ds"
| "visible user (MTask t) =
     (u_Role user = RoleAdmin \<or> tk_CreatedBy t = Username user \<or>
      Can user ''batch_tasks'' \<and> list_all (CanAccessDevice user) (mkeys (Devices t)))"
| "visible user (MTags ts assignments) = list_all (CanAccessDevice user) (mkeys assignments)"
| "visible user (MConfig c i) = True"
| "visible user (MBad t) = (t \<noteq> ''device_list_update'' \<and> t \<noteq> ''task_status_updated'')"

lemma filterBroadcast_visible: "filterBroadcast peer msg = Some m \<Longrightarrow> visible (bp_user peer) m"
  by (cases msg) (auto simp: Let_def canSeeTask_def list_all_iff mfilter_def split: if_splits)

text \<open>C8. A broadcast shows a browser only what its user may see, whether it comes from this server or
  through Redis from another one: device lists and tag assignments are cut down to the devices of
  the user, events about a device reach only users with access to it, and the state of a task
  reaches administrators, its creator, and users with the batch permission and access to all of
  its devices.\<close>

theorem broadcast_confined:
  assumes "x \<in> set (broadcast_all W msg sv) \<or> x \<in> set (consume W busID env sv) \<and> TargetDevice env = ''''"
  shows "\<exists>peer m. peer \<in> set (registered (hub sv)) \<and> x = Json (bp_socket peer) m \<and> visible (bp_user peer) m"
proof -
  from assms obtain msg where "x \<in> set (broadcast_all W msg sv)"
    by (auto simp: consume_def split: if_splits)
  from broadcast_target [OF this] show ?thesis by (blast dest: filterBroadcast_visible)
qed

definition demo_watched :: "unit server" where
  "demo_watched = demo_server\<lparr>hub := addBrowser demo_browser newRealtimeHub\<rparr>"

theorem broadcast_confined_witness:
  "\<exists>m. Json 3 m \<in> set (broadcast_all (\<lambda>_. True)
      (MDevices [no_device\<lparr>d_ID := ''d1''\<rparr>, no_device\<lparr>d_ID := ''d2''\<rparr>]) demo_watched) \<and>
    visible (bp_user demo_browser) m"
proof -
  let ?outs = "broadcast_all (\<lambda>_. True) (MDevices [no_device\<lparr>d_ID := ''d1''\<rparr>, no_device\<lparr>d_ID := ''d2''\<rparr>]) demo_watched"
  have reg: "registered (hub demo_watched) = [demo_browser]"
    by (simp add: demo_watched_def registered_def addBrowser_def newRealtimeHub_def List.map_filter_def)
  then have "\<exists>m. Json 3 m \<in> set ?outs"
    by (simp add: broadcast_all_def broadcast_def write_peer_def demo_browser_def)
  then obtain m where m: "Json 3 m \<in> set ?outs" ..
  from broadcast_confined [OF disjI1 [OF m]] show ?thesis using m by (auto simp: reg)
qed

section \<open>What an agent may change\<close>

definition task_row :: "store \<Rightarrow> string \<Rightarrow> string \<Rightarrow> TaskDevice option" where
  "task_row s i d = Option.bind (map_of (tasks s) i) (\<lambda>t. map_of (Devices t) d)"

definition task_head :: "store \<Rightarrow> string \<Rightarrow> Task option" where
  "task_head s i = map_option (\<lambda>t. t\<lparr>Devices := []\<rparr>) (map_of (tasks s) i)"

text \<open>Two stores that differ at most in the record of the device \<open>d\<close> and in its rows of the tasks.\<close>

definition same_but_device :: "string \<Rightarrow> store \<Rightarrow> store \<Rightarrow> bool" where
  "same_but_device d s s' \<longleftrightarrow>
     s'\<lparr>devices := devices s, tasks := tasks s\<rparr> = s \<and>
     (\<forall>x. x \<noteq> d \<longrightarrow> map_of (devices s') x = map_of (devices s) x) \<and>
     (\<forall>i. task_head s' i = task_head s i) \<and>
     (\<forall>i x. x \<noteq> d \<longrightarrow> task_row s' i x = task_row s i x)"

lemma same_but_device_refl [simp]: "same_but_device d s s"
  by (simp add: same_but_device_def)

lemma same_but_device_trans:
  assumes "same_but_device d s s'" "same_but_device d s' s''"
  shows "same_but_device d s s''"
proof -
  from assms have "s''\<lparr>devices := devices s', tasks := tasks s'\<rparr> = s'" "s'\<lparr>devices := devices s, tasks := tasks s\<rparr> = s"
    by (simp_all add: same_but_device_def)
  then have "s''\<lparr>devices := devices s, tasks := tasks s\<rparr> = s" by (cases s; cases s'; cases s'') simp
  with assms show ?thesis by (simp add: same_but_device_def)
qed

lemma same_but_device_put:
  "same_but_device d s (s\<lparr>devices := mput d v (devices s)\<rparr>)"
  by (simp add: same_but_device_def task_row_def task_head_def)

lemma same_but_device_task:
  "map_of (tasks s) i = Some t \<Longrightarrow>
   same_but_device d s (s\<lparr>tasks := mput i (t\<lparr>Devices := mput d v (Devices t)\<rparr>) (tasks s)\<rparr>)"
  by (auto simp: same_but_device_def task_row_def task_head_def)

lemma same_but_device_ops:
  "same_but_device d s (TouchDevice E d s)" "same_but_device d s (MarkOffline E d s)"
  "same_but_device d s (snd (UpsertAgentDevice E d info s))"
  "same_but_device d s (snd (ClaimTask E i d s))" "same_but_device d s (snd (SetTaskStatus E i d st r s))"
  by (auto simp: TouchDevice_def MarkOffline_def UpsertAgentDevice_def ClaimTask_def SetTaskStatus_def Let_def
      same_but_device_put same_but_device_task split: option.split)

lemma mark_unknown_parts:
  "(mark_unknown E d t)\<lparr>Devices := []\<rparr> = t\<lparr>Devices := []\<rparr>"
  "x \<noteq> d \<Longrightarrow> map_of (Devices (mark_unknown E d t)) x = map_of (Devices t) x"
  by (simp_all add: mark_unknown_def split: option.split)

lemma mark_unknown_rows: "same_but_device d s (MarkLeasedUnknown E d s)"
proof -
  have "task_head (MarkLeasedUnknown E d s) i = task_head s i" for i
    by (cases "map_of (tasks s) i") (simp_all add: MarkLeasedUnknown_def task_head_def mark_unknown_parts)
  moreover have "task_row (MarkLeasedUnknown E d s) i x = task_row s i x" if "x \<noteq> d" for i x
    using that by (cases "map_of (tasks s) i") (simp_all add: MarkLeasedUnknown_def task_row_def mark_unknown_parts)
  ultimately show ?thesis by (simp add: same_but_device_def MarkLeasedUnknown_def)
qed

text \<open>A reply that leaves everything but the device \<open>d\<close> and its telemetry alone.\<close>

definition own_device :: "string \<Rightarrow> 'p server \<Rightarrow> out list \<times> 'p server \<Rightarrow> bool" where
  "own_device d sv r \<longleftrightarrow>
     same_but_device d (sv_store sv) (sv_store (snd r)) \<and> hub (snd r) = hub sv \<and>
     (\<forall>x. x \<noteq> d \<longrightarrow> map_of (deviceMetrics (snd r)) x = map_of (deviceMetrics sv) x) \<and>
     config (snd r) = config sv \<and> pendingAgentHandshakes (snd r) = pendingAgentHandshakes sv \<and>
     sv_limiter (snd r) = sv_limiter sv"

lemma own_device_simps [simp]:
  "own_device d sv (outs, sv)" "own_device d sv (outs, sv\<lparr>blobs := b\<rparr>)"
  "own_device d sv (outs, sv\<lparr>deviceMetrics := mput d v (deviceMetrics sv)\<rparr>)"
  "own_device d sv (outs, sv\<lparr>sv_store := s\<rparr>) \<longleftrightarrow> same_but_device d (sv_store sv) s"
  by (simp_all add: own_device_def)

lemma own_device_claim: "own_device d sv (task_claim L W E d i sv)"
proof -
  obtain r s where c: "ClaimTask E i d (sv_store sv) = (r, s)" by fastforce
  then have s: "same_but_device d (sv_store sv) s" using same_but_device_ops(4) [of d "sv_store sv" E i] by simp
  have "same_but_device d (sv_store sv) (snd (SetTaskStatus E j d st res s))" for j st res
    by (rule same_but_device_trans [OF s same_but_device_ops(5)])
  with s show ?thesis
    by (cases r) (auto simp: task_claim_def c Let_def split: sum.split)
qed

lemma own_device_status: "own_device d sv (set_status W E d i st res sv)"
  using same_but_device_ops(5) [of d "sv_store sv" E i st res]
  by (auto simp: set_status_def Let_def split: prod.split sum.split)

lemma own_device_snapshot: "own_device d sv (snd (saveSnapshot L W R E d data sv))"
  by (simp add: saveSnapshot_def Let_def split: option.split prod.split)

lemma own_device_if: "(b \<Longrightarrow> own_device d sv x) \<Longrightarrow> (\<not> b \<Longrightarrow> own_device d sv y) \<Longrightarrow> own_device d sv (if b then x else y)"
  by simp


section \<open>Admission of agents\<close>

lemma agent_credentials_spec:
  "agent_credentials E hello s = (Some tok, s') \<Longrightarrow> ValidateAgentToken E tok (h_DeviceID hello) s' \<and> devices s' = devices s"
  "agent_credentials E hello s = (None, s') \<Longrightarrow> s' = s"
proof -
  show "s' = s" if "agent_credentials E hello s = (None, s')"
    using that by (auto simp: agent_credentials_def ExchangeEnrollment_def Let_def split: if_splits prod.splits sum.splits option.splits)
  assume "agent_credentials E hello s = (Some tok, s')"
  then consider "ValidateAgentToken E (AgentToken hello) (h_DeviceID hello) s" "tok = AgentToken hello" "s' = s"
    | c where "ExchangeEnrollment E (EnrollmentToken hello) (h_DeviceID hello) s = (Inr c, s')" "tok = ac_Token c"
    by (auto simp: agent_credentials_def split: if_splits prod.splits sum.splits)
  then show "ValidateAgentToken E tok (h_DeviceID hello) s' \<and> devices s' = devices s"
  proof cases
    case 1
    then show ?thesis by simp
  next
    case 2
    then show ?thesis unfolding ExchangeEnrollment_Inr by (auto simp: ValidateAgentToken_def)
  qed
qed

lemma agent_admitted_state:
  assumes "agent_admitted L W E sock hello tok sv = (outs, sv')"
  shows "sv_store sv' = snd (UpsertAgentDevice E (h_DeviceID hello) (h_DeviceInfo hello) (sv_store sv))"
    "hub sv' = (hub sv)\<lparr>agents := mput (h_DeviceID hello) sock (agents (hub sv))\<rparr>"
    "pendingAgentHandshakes sv' = pendingAgentHandshakes sv"
    "W sock \<Longrightarrow> \<exists>m. Json sock (MObj m) \<in> set outs \<and> map_of m ''agent_token'' = Some (AStr tok)"
  using assms by (auto simp: agent_admitted_def setAgent_def Let_def)


definition demo_hello :: agentHello where
  "demo_hello = \<lparr>h_MessageType = ''agent_hello'', h_DeviceID = ''root'', EnrollmentToken = ''e'', AgentToken = ''a'',
     h_DeviceInfo = no_info\<rparr>"

definition demo_enrolled_server :: "unit server" where
  "demo_enrolled_server = demo_server\<lparr>sv_store := demo_users\<lparr>agentCredentials :=
     [(tokenDigest (demo_env 5 1) ''a'', \<lparr>ac_Token = '''', ac_DeviceID = ''root''\<rparr>)]\<rparr>\<rparr>"

lemma demo_hello_sel [simp]:
  "h_MessageType demo_hello = ''agent_hello''" "h_DeviceID demo_hello = ''root''" "AgentToken demo_hello = ''a''"
  by (simp_all add: demo_hello_def)

lemma demo_hello_valid: "ValidateAgentToken (demo_env 5 1) ''a'' ''root'' (sv_store demo_enrolled_server)"
  by (simp add: ValidateAgentToken_def demo_enrolled_server_def)


text \<open>A reconnecting agent is not taken off line by the end of its old connection: when the device has
  been admitted on a new socket, closing the old one changes neither the store nor the
  registrations; closing the new one takes the device off line and marks its leased and running
  tasks as unknown.\<close>

theorem reconnect_survives:
  assumes "registerAgent_hello L W E new (Some hello) sv = (Some d, outs, sv1)" "old \<noteq> new"
  shows "registerAgent_close L W E' old d sv1 = ([Close old], sv1) \<and>
    (let sv2 = snd (registerAgent_close L W E' new d sv1) in
       map_of (agents (hub sv2)) d = None \<and>
       (\<exists>v. map_of (devices (sv_store sv2)) d = Some v \<and> \<not> Online v) \<and>
       (\<forall>i r. task_row (sv_store sv2) i d = Some r \<longrightarrow> Status r \<noteq> TaskLeased \<and> Status r \<noteq> TaskRunning))"
proof -
  from assms(1) obtain t s where a: "agent_admitted L W E new hello t (release (sv\<lparr>sv_store := s\<rparr>)) = (outs, sv1)"
    and d: "d = h_DeviceID hello"
    by (auto simp: registerAgent_hello_def split: if_splits option.splits prod.splits)
  note st = agent_admitted_state [OF a]
  have ag: "map_of (agents (hub sv1)) d = Some new" by (simp add: st d)
  have dev: "map_of (devices (sv_store sv1)) d \<noteq> None" by (simp add: st d UpsertAgentDevice_def Let_def)
  have rows: "Status r \<noteq> TaskLeased \<and> Status r \<noteq> TaskRunning"
    if "task_row (MarkLeasedUnknown E' d s) i d = Some r" for s i r
    using that by (cases "map_of (tasks s) i")
      (auto simp: task_row_def MarkLeasedUnknown_def mark_unknown_def task_status_defs split: option.splits if_splits)
  have "registerAgent_close L W E' old d sv1 = ([Close old], sv1)"
    using ag assms(2) by (simp add: registerAgent_close_def removeAgent_def)
  moreover have "snd (registerAgent_close L W E' new d sv1) =
      sv1\<lparr>hub := (hub sv1)\<lparr>agents := mdel d (agents (hub sv1))\<rparr>,
         sv_store := MarkLeasedUnknown E' d (MarkOffline E' d (sv_store sv1))\<rparr>"
    using ag by (simp add: registerAgent_close_def removeAgent_def Let_def)
  ultimately show ?thesis
    using dev rows by (auto simp: Let_def restrict_map_def MarkLeasedUnknown_def MarkOffline_def split: option.split)
qed

theorem reconnect_survives_witness:
  "\<exists>outs sv1. registerAgent_hello demo_web (\<lambda>_. True) (demo_env 5 1) 9 (Some demo_hello) demo_enrolled_server =
      (Some ''root'', outs, sv1) \<and>
    registerAgent_close demo_web (\<lambda>_. True) (demo_env 6 1) 7 ''root'' sv1 = ([Close 7], sv1)"
proof -
  have "\<exists>outs sv1. registerAgent_hello demo_web (\<lambda>_. True) (demo_env 5 1) 9 (Some demo_hello) demo_enrolled_server =
      (Some ''root'', outs, sv1)"
    using demo_hello_valid by (simp add: registerAgent_hello_def agent_credentials_def trim_root split: prod.split)
  then obtain outs sv1 where
    r: "registerAgent_hello demo_web (\<lambda>_. True) (demo_env 5 1) 9 (Some demo_hello) demo_enrolled_server =
      (Some ''root'', outs, sv1)" by blast
  from reconnect_survives [OF r, of 7] r show ?thesis by auto
qed

end
