(* ===== verification/ApiProps.thy ===== *)
theory ApiProps
  imports ServerProps
begin

text \<open>
  What the HTTP half of the server guarantees: who may change what, the end of a session, the
  life of download grants from the claim of a task to the download, and the bounds on the
  durations that requests may ask for.
\<close>

section \<open>Download grants\<close>

definition alphabet :: string where
  "alphabet = ''ABCDEFGHIJKLMNOPQRSTUVWXYZabcdefghijklmnopqrstuvwxyz0123456789-_''"

lemma b64_index_char: "b64_index alphabet (b64_char n) = Some (n mod 64)"
proof -
  have "distinct alphabet" "length alphabet = 64" by (simp_all add: alphabet_def)
  moreover have "b64_char n = alphabet ! (n mod 64)" by (simp add: b64_char_def alphabet_def)
  ultimately show ?thesis
    unfolding b64_index_def by (simp add: map_of_zip_nth)
qed

lemma b64_char_no_break: "b64_char n \<noteq> CHR 0x0A \<and> b64_char n \<noteq> CHR 0x0D"
proof -
  have "b64_index alphabet (CHR 0x0A) = None" "b64_index alphabet (CHR 0x0D) = None" by code_simp+
  then show ?thesis using b64_index_char [of n] by (metis option.distinct(1))
qed

lemma no_breaks_b64: "no_breaks (b64url bs) = b64url bs"
  by (induction bs rule: b64url.induct) (simp_all add: no_breaks_def b64_char_no_break)

lemma digits_split: "z < k \<Longrightarrow> y < n \<Longrightarrow> (y * k + z) mod (n * k) = y * k + z \<and> (y * k + z) div k = y \<and> (y * k + z) mod k = z"
  for y z k n :: nat
proof -
  assume z: "z < k" and y: "y < n"
  have "y * k + z < (y + 1) * k" using z by simp
  also have "\<dots> \<le> n * k" using y by (intro mult_le_mono1) simp
  finally show ?thesis using z by simp
qed

lemma byte_parts:
  fixes a b c :: byte
  shows "of_nat (unat a div 4 mod 64 * 4 + (unat a mod 4 * 16) mod 64 div 16) = a"
    "of_nat (unat a div 4 mod 64 * 4 + (unat a mod 4 * 16 + unat b div 16) mod 64 div 16) = a"
    "of_nat ((unat a mod 4 * 16 + unat b div 16) mod 64 mod 16 * 16 + (unat b mod 16 * 4) mod 64 div 4) = b"
    "of_nat ((unat a mod 4 * 16 + unat b div 16) mod 64 mod 16 * 16 + (unat b mod 16 * 4 + unat c div 64) mod 64 div 4) = b"
    "of_nat ((unat b mod 16 * 4 + unat c div 64) mod 64 mod 4 * 64 + unat c mod 64) = c"
proof -
  have bounds: "unat a div 4 < 64" "unat b div 16 < 16" "unat c div 64 < 4"
    by (simp_all add: div_less_iff_less_mult)
  have parts: "x div k * k + x mod k = (x :: nat)" for x k by simp
  note splits = digits_split [of "unat b div 16" 16 "unat a mod 4" 4] digits_split [of 0 16 "unat a mod 4" 4]
    digits_split [of "unat c div 64" 4 "unat b mod 16" 16] digits_split [of 0 4 "unat b mod 16" 16]
  show "of_nat (unat a div 4 mod 64 * 4 + (unat a mod 4 * 16) mod 64 div 16) = a"
    "of_nat (unat a div 4 mod 64 * 4 + (unat a mod 4 * 16 + unat b div 16) mod 64 div 16) = a"
    using bounds splits parts [of "unat a" 4] by simp_all
  show "of_nat ((unat a mod 4 * 16 + unat b div 16) mod 64 mod 16 * 16 + (unat b mod 16 * 4) mod 64 div 4) = b"
    "of_nat ((unat a mod 4 * 16 + unat b div 16) mod 64 mod 16 * 16 + (unat b mod 16 * 4 + unat c div 64) mod 64 div 4) = b"
    using bounds splits parts [of "unat b" 16] by simp_all
  show "of_nat ((unat b mod 16 * 4 + unat c div 64) mod 64 mod 4 * 64 + unat c mod 64) = c"
    using bounds splits parts [of "unat c" 64] by simp
qed

lemma b64_roundtrip: "b64_decode alphabet (b64url bs) = Some bs"
proof (induction bs rule: b64url.induct)
  case (4 a b c r)
  then obtain ns where "parse_all (b64_index alphabet) (b64url r) = Some ns" "b64_groups ns = Some r"
    by (auto simp: b64_decode_def bind_eq_Some_conv)
  then show ?case using byte_parts by (simp add: b64_decode_def b64_index_char)
qed (use byte_parts in \<open>simp_all add: b64_decode_def b64_index_char\<close>)

lemma raw_url_roundtrip: "raw_url_decode (b64url bs) = Some bs"
  using b64_roundtrip [of bs] by (simp add: raw_url_decode_def no_breaks_b64 alphabet_def)

text \<open>
  A grant reads back as it was issued, for fifteen minutes to the second, provided that JSON
  gives back its fields.
\<close>

lemma grant_roundtrip:
  assumes "grant_unjson L (grant_json L g) = Some g" "g_AssetID g \<noteq> ''''" "sha256 E' = sha256 E"
    and g: "g = \<lparr>g_AssetID = a, g_TaskID = t, g_DeviceID = d, Expires = unix (now E + 15 * Minute)\<rparr>"
  shows "parseDownloadGrant L E' secret (issueDownloadGrant L E secret a t d) =
    (if unix (now E + 15 * Minute) < unix (now E') then Inl ErrInvalidToken else Inr g)"
proof -
  let ?e = "b64url (bytes (grant_json L g))"
  let ?s = "b64url (hmac E secret ?e)"
  have "split_on (CHR ''.'') (join_with [CHR ''.''] [?e, ?s]) = [?e, ?s]"
    by (rule split_on_join) (simp_all add: b64url_no_dot)
  then have "split_on (CHR ''.'') (issueDownloadGrant L E secret a t d) = [?e, ?s]"
    by (simp add: issueDownloadGrant_def Let_def g)
  moreover have "hmac E' = hmac E" using assms(3) by (simp add: hmac_def fun_eq_iff)
  ultimately show ?thesis
    using assms(1,2) by (simp add: parseDownloadGrant_def raw_url_roundtrip g)
qed

lemma Asset_get_Inr: "Asset_get i s = Inr a \<longleftrightarrow> map_of (assets s) i = Some a"
  by (auto simp: Asset_get_def split: option.split)

lemma cloneTask_lookup [simp]: "map_of (Devices (cloneTask t)) d = map_of (rev (Devices t)) d"
  by (simp add: cloneTask_def split: option.split)

lemma map_of_rev_None: "map_of m k = None \<Longrightarrow> map_of (rev m) k = None"
  unfolding map_of_eq_None_iff by simp

lemma cloneTask_AssetID [simp]: "AssetID (cloneTask t) = AssetID t" "tk_ID (cloneTask t) = tk_ID t"
  by (simp_all add: cloneTask_def)

text \<open>What a served download proves.\<close>

lemma download_served:
  assumes "download L E r sv = (resp, outs, sv')" "body resp = PFile kind data"
  shows "sv' = sv \<and> outs = [] \<and>
    (\<exists>g asset task row. parseDownloadGrant L E (JWTSecret (config sv)) (query r ''grant'') = Inr g \<and>
       map_of (assets (sv_store sv)) (g_AssetID g) = Some asset \<and> Task_get (g_TaskID g) (sv_store sv) = Inr task \<and>
       AssetID task = a_ID asset \<and> map_of (Devices task) (g_DeviceID g) = Some row \<and>
       (Status row = TaskLeased \<or> Status row = TaskRunning) \<and> path_base (URLPath r) = a_Name asset \<and>
       map_of (blobs sv) (Path asset) = Some data)"
  using assms unfolding download_def
  by (auto simp: methodNotAllowed_def fail_def writeError_def reply_def Asset_get_Inr split: if_splits sum.splits option.splits)

lemma path_base_downloads:
  assumes "n \<noteq> []" "CHR ''/'' \<notin> set n"
  shows "path_base (''/downloads/'' @ n) = n"
proof -
  have "split_on (CHR ''/'') (join_with [CHR ''/''] [[], ''downloads'', n]) = [[], ''downloads'', n]"
    by (rule split_on_join) (use assms in auto)
  then have "split_on (CHR ''/'') (''/downloads/'' @ n) = [[], ''downloads'', n]" by simp
  moreover have "dropWhile (\<lambda>c. c = CHR ''/'') (rev (''/downloads/'' @ n)) = rev (''/downloads/'' @ n)"
  proof -
    from assms(1) obtain c m where c: "rev n = c # m" by (cases "rev n") auto
    then have "c \<in> set n" by (metis list.set_intros(1) set_rev)
    with assms(2) c show ?thesis by auto
  qed
  ultimately show ?thesis unfolding path_base_def Let_def by simp
qed

lemma ClaimTask_stored:
  assumes "tasks_ok s" "ClaimTask E i d s = (Inr task, s')"
  shows "tk_ID task = i" "assets s' = assets s"
    "\<exists>t row. Task_get i s' = Inr t \<and> AssetID t = AssetID task \<and> map_of (Devices t) d = Some row \<and> Status row = TaskLeased"
proof -
  obtain t v where t: "map_of (tasks s) i = Some t" "map_of (Devices t) d = Some v"
    and task: "task = cloneTask (t\<lparr>Devices := mput d (v\<lparr>Status := TaskLeased, UpdatedAt := now E\<rparr>) (Devices t)\<rparr>)"
    and s': "s' = s\<lparr>tasks := mput i (t\<lparr>Devices := mput d (v\<lparr>Status := TaskLeased, UpdatedAt := now E\<rparr>) (Devices t)\<rparr>) (tasks s)\<rparr>"
    using assms(2) unfolding ClaimTask_Inr by blast
  have ok: "tk_ID t = i" "mok (Devices t)" using assms(1) t by (auto simp: tasks_ok_def)
  then have "mok (mput d (v\<lparr>Status := TaskLeased, UpdatedAt := now E\<rparr>) (Devices t))" by simp
  from map_of_rev_mok [OF this]
  have "map_of (Devices task) d = Some (v\<lparr>Status := TaskLeased, UpdatedAt := now E\<rparr>)" by (simp add: task)
  moreover have "Task_get i s' = Inr task" by (simp add: Task_get_def s' task)
  ultimately show "\<exists>t row. Task_get i s' = Inr t \<and> AssetID t = AssetID task \<and> map_of (Devices t) d = Some row \<and> Status row = TaskLeased"
    by simp
  show "tk_ID task = i" "assets s' = assets s" using ok by (simp_all add: task s')
qed

text \<open>A finished row no longer opens the download.\<close>

lemma finished_refused:
  assumes "tasks_ok s" "SetTaskStatus E i d st result s = (Inr task, s')" "st \<noteq> TaskLeased" "st \<noteq> TaskRunning"
  shows "\<exists>t row. Task_get i s' = Inr t \<and> map_of (Devices t) d = Some row \<and> Status row = st"
proof -
  obtain t v where t: "map_of (tasks s) i = Some t" "map_of (Devices t) d = Some v"
    and s': "s' = s\<lparr>tasks := mput i (t\<lparr>Devices := mput d (v\<lparr>Status := st, Result := result, UpdatedAt := now E\<rparr>) (Devices t)\<rparr>) (tasks s)\<rparr>"
    using assms(2) by (auto simp: SetTaskStatus_def Let_def split: option.splits)
  then have "mok (mput d (v\<lparr>Status := st, Result := result, UpdatedAt := now E\<rparr>) (Devices t))"
    using assms(1) by (auto simp: tasks_ok_def)
  from map_of_rev_mok [OF this] show ?thesis by (simp add: Task_get_def s')
qed


definition demo_asset :: Asset where
  "demo_asset = \<lparr>a_ID = ''a1'', a_Name = ''app.apk'', Path = ''/data/a1.blob'', SHA256 = '''', Size = 2, a_CreatedBy = ''root'',
     a_CreatedAt = 1\<rparr>"

definition demo_push :: Task where
  "demo_push = \<lparr>tk_ID = ''t1'', Type = ''install'', Payload = '''', AssetID = ''a1'', DestPath = '''', tk_CreatedBy = ''root'',
     tk_CreatedAt = 1, tk_ExpiresAt = 1000, Devices = [(''d1'', \<lparr>td_DeviceID = ''d1'', Status = TaskQueued, Result = '''', UpdatedAt = 1\<rparr>)]\<rparr>"

definition demo_files :: "unit server" where
  "demo_files = demo_server\<lparr>sv_store := demo_users\<lparr>assets := [(''a1'', demo_asset)], assetsByName := [(''app.apk'', ''a1'')],
     tasks := [(''t1'', demo_push)]\<rparr>, blobs := [(''/data/a1.blob'', [1, 2])]\<rparr>"


section \<open>Who may change what\<close>

text \<open>The part of the store that only administrators may change through the API.\<close>

definition admin_state :: "store \<Rightarrow> store" where
  "admin_state s = empty_store\<lparr>users := users s, usersByName := usersByName s, devices := devices s, tags := tags s,
     deviceTags := deviceTags s, deploymentCredentials := deploymentCredentials s, enrollments := enrollments s,
     agentCredentials := agentCredentials s, defaultSettings := defaultSettings s, deviceSettings := deviceSettings s\<rparr>"

lemma admin_state_updates [simp]:
  "admin_state (s\<lparr>shares := a\<rparr>) = admin_state s" "admin_state (s\<lparr>shortcuts := b\<rparr>) = admin_state s"
  "admin_state (s\<lparr>assets := c, assetsByName := d\<rparr>) = admin_state s" "admin_state (s\<lparr>tasks := e\<rparr>) = admin_state s"
  "admin_state (s\<lparr>audits := f\<rparr>) = admin_state s" "admin_state (s\<lparr>revokedUserTokens := g\<rparr>) = admin_state s"
  by (simp_all add: admin_state_def)

lemma admin_state_ops [simp]:
  "admin_state (snd (RevokeUserToken dg t s)) = admin_state s"
  "admin_state (snd (AuthorizeShare E tok pw s)) = admin_state s"
  "admin_state (snd (SharesFor E d s)) = admin_state s" "admin_state (snd (ShareByCard E cc s)) = admin_state s"
  "admin_state (snd (CreateShare E d by pw ds vo ex s)) = admin_state s"
  "admin_state (snd (UpdateShare tok f s)) = admin_state s" "admin_state (snd (RevokeShare tok s)) = admin_state s"
  "admin_state (ReplaceShortcuts uid xs s) = admin_state s" "admin_state (snd (CreateAsset E a s)) = admin_state s"
  "admin_state (snd (CreateTask E tk s)) = admin_state s" "admin_state (Audit E ev s) = admin_state s"
  by (simp_all add: RevokeUserToken_def AuthorizeShare_def SharesFor_def ShareByCard_def CreateShare_def UpdateShare_def
      RevokeShare_def ReplaceShortcuts_def CreateAsset_def CreateTask_def Audit_def auditLocked_def Let_def
      split: option.split sum.split)

definition keeps_admin :: "'p server \<Rightarrow> 'p reply \<Rightarrow> bool" where
  "keeps_admin sv r \<longleftrightarrow> admin_state (sv_store (snd (snd r))) = admin_state (sv_store sv)"

lemma keeps_admin_simps [simp]:
  "keeps_admin sv (resp, outs, sv') \<longleftrightarrow> admin_state (sv_store sv') = admin_state (sv_store sv)"
  "keeps_admin sv (fail code msg sv') \<longleftrightarrow> admin_state (sv_store sv') = admin_state (sv_store sv)"
  "keeps_admin sv (done_with code p sv') \<longleftrightarrow> admin_state (sv_store sv') = admin_state (sv_store sv)"
  "keeps_admin sv (methodNotAllowed sv') \<longleftrightarrow> admin_state (sv_store sv') = admin_state (sv_store sv)"
  "admin_state (sv_store (audit E u a t md sv')) = admin_state (sv_store sv')"
  "keeps_admin sv (no_store r) \<longleftrightarrow> keeps_admin sv r"
  by (simp_all add: keeps_admin_def fail_def done_with_def methodNotAllowed_def audit_def no_store_def)

lemma keeps_admin_if:
  "(b \<Longrightarrow> keeps_admin sv x) \<Longrightarrow> (\<not> b \<Longrightarrow> keeps_admin sv y) \<Longrightarrow> keeps_admin sv (if b then x else y)"
  by simp

lemma keeps_admin_shares:
  "keeps_admin sv (shareCreate E r u b1 sv)" "keeps_admin sv (shareList E r u sv)" "keeps_admin sv (shareRevoke r u b2 sv)"
  "keeps_admin sv (shareUpdate E r u b3 sv)" "keeps_admin sv (shareExtend E r u b4 sv)"
  "keeps_admin sv (shareRedeemCard E r b5 sv)" "keeps_admin sv (shareInfo E r b5 sv)"
  by (simp_all add: shareCreate_def shareList_def shareRevoke_def shareUpdate_def shareExtend_def update_share_def
      shareRedeemCard_def shareInfo_def split_beta Let_def split: option.split sum.split)

lemma keeps_admin_session:
  "keeps_admin sv (logout J E r sv)" "keeps_admin sv (login J N E r b sv)" "keeps_admin sv (websocketTicket J E r b sv)"
  "keeps_admin sv (me u sv)" "keeps_admin sv (serverAddresses sv)" "keeps_admin sv (iceServerList sv)"
  "keeps_admin sv (health R sv)" "keeps_admin sv (authStatus sv)"
  by (simp_all add: logout_def login_def websocketTicket_def me_def serverAddresses_def iceServerList_def health_def
      authStatus_def split_beta Let_def split: option.split sum.split)

lemma keeps_admin_files:
  "keeps_admin sv (files r u sv)" "keeps_admin sv (upload L R E r u data sv)" "keeps_admin sv (download L E r sv)"
  "keeps_admin sv (shortcuts_handler E r u b sv)" "keeps_admin sv (taskDetails r u sv)"
  "keeps_admin sv (devices_handler L E r u sv)" "keeps_admin sv (allDeviceSettings r u sv)"
  by (simp_all add: files_def upload_def download_def shortcuts_handler_def taskDetails_def devices_handler_def
      allDeviceSettings_def requireCapability_def split_beta Let_def split: option.split sum.split)

lemma keeps_admin_tasks: "keeps_admin sv (tasks_handler L W E r u b sv)"
  by (simp add: tasks_handler_def createTask_def requireCapability_def split_beta Let_def
      split: option.split sum.split)

lemma keeps_admin_plain_user:
  assumes "u_Role u \<noteq> RoleAdmin"
  shows "keeps_admin sv (defaultSettings_handler W r u b sv)" "keeps_admin sv (tags_handler W E r u b2 sv)"
    "keeps_admin sv (deviceByID L W E r u b sv)"
  using assms
  by (simp_all add: defaultSettings_handler_def tags_handler_def deviceByID_def deviceSettings_handler_def
      deviceSnapshot_def Let_def split: sum.split)

lemma user_route_keeps:
  assumes "user_route G E r c = Some h" "u_Role u \<noteq> RoleAdmin"
  shows "keeps_admin sv (h u sv)"
  using assms by (cases c)
    (auto simp: keeps_admin_shares keeps_admin_session keeps_admin_files keeps_admin_tasks keeps_admin_plain_user)

lemma open_route_keeps:
  assumes "\<And>b. c \<noteq> Register b" "\<And>b. c \<noteq> DeployEnrollmentTokens b"
  shows "keeps_admin sv (open_route G E r c sv)"
  using assms by (cases c) (simp_all add: keeps_admin_shares keeps_admin_session keeps_admin_files, blast+)


definition demo_request :: request where
  "demo_request = \<lparr>Method = ''POST'', Authorization = '''', Origin = '''', RemoteAddr = ''1.1.1.1:5'', ForwardedFor = '''',
     URLPath = '''', Query = [], ContentLength = 0\<rparr>"

definition demo_netip :: "(string, unit) netip" where
  "demo_netip = \<lparr>split_host_port = (\<lambda>s. Some (hd (split_on (CHR '':'') s))), parse_addr = Some, addr_string = (\<lambda>a. a),
     prefix_contains = (\<lambda>_ _. False)\<rparr>"

definition demo_world :: "jwt \<Rightarrow> (string, unit) world" where
  "demo_world J = \<lparr>w_jwt = J, w_net = demo_netip, w_web = demo_web, w_sockets = (\<lambda>_. True), w_files = (\<lambda>_. True)\<rparr>"

lemma no_bearer [simp]: "bearerToken [] = []"
  by (simp add: bearerToken_def Prelude.fields_def)


section \<open>The end of a session\<close>

lemma disconnectToken_closes:
  "peer \<in> set (registered h) \<Longrightarrow> bp_accessToken peer = digest \<Longrightarrow> Close (bp_socket peer) \<in> set (disconnectToken digest h)"
  by (auto simp: disconnectToken_def)

text \<open>C13. Logging out is final: after a successful logout the token is refused in every later state of the store
  and at every later time, however the store is used in between (until the token has expired no
  other revocation may shorten its entry, which the handler never does), and the web sockets
  opened with this login are closed at once.\<close>

theorem logout_final:
  assumes "jwt_ok J" "issueUserToken J E (JWTSecret (config sv)) user = Some token" "u_ID user \<noteq> ''''"
    and r: "Method r = ''POST''" "Authorization r = ''Bearer '' @ token"
    and "mok (revokedUserTokens (sv_store sv))" "now E1 < numeric_date (now E + userTokenTTL)"
    and out: "logout J E1 r sv = (resp, outs, sv1)"
    and run: "admissible exec_clock (clock_ok (tokenDigest E1 token) (numeric_date (now E + userTokenTTL))) (sv_store sv1, now E1) es"
      "fold exec_clock es (sv_store sv1, now E1) = (s2, t2)"
    and later: "t2 \<le> now E'" "sha256 E' = sha256 E1"
  shows "status resp = 200 \<and> userFromRequest J E' (JWTSecret (config sv)) (''Bearer '' @ token) s2 = Inl ErrInvalidAuth \<and>
    (\<forall>peer \<in> set (registered (hub sv)). bp_accessToken peer = tokenDigest E1 token \<longrightarrow> Close (bp_socket peer) \<in> set outs)"
proof -
  let ?exp = "numeric_date (now E + userTokenTTL)"
  let ?dg = "tokenDigest E1 token"
  have "bearerToken (Authorization r) = token"
    unfolding r(2) by (rule bearer_header [OF jwt_okD(2,1) [OF assms(1) assms(2) [unfolded issueUserToken_def]]])
  with out parseUserToken_issued [OF assms(1-3), of E1] assms(7) r(1)
  have sv1: "sv_store sv1 = snd (RevokeUserToken ?dg ?exp (sv_store sv))" "status resp = 200"
    "outs = disconnectToken ?dg (hub sv)"
    by (auto simp: logout_def RevokeUserToken_def reply_def)
  then have "logged_out ?dg ?exp (sv_store sv1, now E1)" using assms(6) by (simp add: RevokeUserToken_def)
  from sessions.run_keeps [OF this run(1)] have "logged_out ?dg ?exp (s2, t2)" by (simp add: run(2))
  moreover have "tokenDigest E' token = ?dg" by (simp add: tokenDigest_def later(2))
  ultimately have "userFromRequest J E' (JWTSecret (config sv)) (''Bearer '' @ token) s2 = Inl ErrInvalidAuth"
    using logged_out_rejected [OF assms(1-3)] later(1) by metis
  with sv1(2,3) disconnectToken_closes show ?thesis by blast
qed

theorem logout_final_witness:
  "userFromRequest (demo_jwt [login_claims (demo_env 10 5) demo_user]) (demo_env 40 6) ''key'' ''Bearer x''
     (Clean (demo_env 30 2) 5 (sv_store (snd (snd (logout (demo_jwt [login_claims (demo_env 10 5) demo_user]) (demo_env 20 5)
        (demo_request\<lparr>Authorization := ''Bearer x''\<rparr>) demo_server))))) = Inl ErrInvalidAuth"
proof -
  let ?J = "demo_jwt [login_claims (demo_env 10 5) demo_user]"
  let ?r = "demo_request\<lparr>Authorization := ''Bearer x''\<rparr>"
  obtain resp outs sv1 where o: "logout ?J (demo_env 20 5) ?r demo_server = (resp, outs, sv1)" by (rule prod_cases3)
  have "userFromRequest ?J (demo_env 40 6) (JWTSecret (config demo_server)) (''Bearer '' @ ''x'')
      (fst (fold exec_clock [(demo_env 30 2, OpClean 5)] (sv_store sv1, now (demo_env 20 5)))) = Inl ErrInvalidAuth"
    using logout_final [OF demo_jwt_ok demo_login, of demo_user ?r "demo_server" "demo_env 20 5" "demo_env 10 5" resp outs sv1
        "[(demo_env 30 2, OpClean 5)]" "exec_op (demo_env 30 2, OpClean 5) (sv_store sv1)" 30 "demo_env 40 6"] o
    by (simp add: demo_request_def demo_server_def numeric_date_def userTokenTTL_def Hour_def)
  moreover have "JWTSecret (config demo_server) = ''key''" by (simp add: demo_server_def demo_config_def)
  ultimately show ?thesis unfolding o by simp
qed

section \<open>Durations in requests\<close>

text \<open>An enrollment token never lives longer than a day: whatever number of seconds the request asks for,
  also one whose product with a second overflows a 64-bit duration, the token expires within
  twenty-four hours and not before it was issued.\<close>

theorem enrollment_lifetime:
  assumes "Method r = ''POST''" "enrollmentTokens E r (Some (deviceID, n)) sv = (resp, outs, sv')"
  shows "status resp = 201 \<and>
    (\<exists>e. map_of (enrollments (sv_store sv')) (tokenDigest E (randomToken E 0)) = Some e \<and> e_DeviceID e = deviceID \<and>
       now E < e_ExpiresAt e \<and> e_ExpiresAt e \<le> now E + 24 * Hour \<and>
       body resp = PObj [(''token'', AStr (randomToken E 0)), (''expires_at'', ATime (Some (e_ExpiresAt e)))]) \<and>
    (0 < n \<and> n \<le> 86400 \<longrightarrow>
       body resp = PObj [(''token'', AStr (randomToken E 0)), (''expires_at'', ATime (Some (now E + n * 1000000000)))])"
proof -
  have "0 < n \<and> n \<le> 86400 \<Longrightarrow> seconds n = n * 1000000000" by (rule seconds_id) auto
  then show ?thesis
    using assms by (auto simp: enrollmentTokens_def CreateEnrollment_def done_with_def reply_def Let_def Hour_def Minute_def)
qed

theorem enrollment_lifetime_witness:
  "\<exists>e. map_of (enrollments (sv_store (snd (snd (enrollmentTokens (demo_env 5 1) demo_request (Some (''d1'', 9223372037))
      demo_server))))) (tokenDigest (demo_env 5 1) (randomToken (demo_env 5 1) 0)) = Some e \<and> e_ExpiresAt e \<le> 5 + 24 * Hour"
proof -
  obtain resp outs sv' where o: "enrollmentTokens (demo_env 5 1) demo_request (Some (''d1'', 9223372037)) demo_server =
      (resp, outs, sv')" by (rule prod_cases3)
  have "Method demo_request = ''POST''" by (simp add: demo_request_def)
  from enrollment_lifetime [OF this o] o show ?thesis by auto
qed

lemma seconds_wraps:
  assumes "9223372036 < n" "n \<le> 18446744073"
  shows "seconds n < 0"
proof -
  let ?x = "n * 1000000000 + 9223372036854775808"
  have "?x mod 18446744073709551616 = (?x - 18446744073709551616) mod 18446744073709551616"
    using assms by (intro mod_pos_geq) simp_all
  also have "\<dots> = ?x - 18446744073709551616"
    using assms by (intro mod_pos_pos_trivial) simp_all
  finally show ?thesis using assms by (simp add: seconds_def wrap64_def)
qed

text \<open>Extending a share works up to 9223372036 seconds: then the share expires that long after its old
  expiry, or after now if that has passed. One second more, and every larger number up to twice
  as much, wraps around the 64-bit duration: the request is answered with 200, but the share has
  then expired before it would have without the request.\<close>

theorem share_extension:
  assumes "Method r = ''POST''" "token \<noteq> ''''" "map_of (shares (sv_store sv)) token = Some h"
    and "CanAccessDevice user (sh_DeviceID h)" "sh_ExpiresAt h = Some t" "now E < t" "0 < n"
    and out: "shareExtend E r user (Some (token, n)) sv = (resp, outs, sv')"
  shows "status resp = 200 \<and>
    (n \<le> 9223372036 \<longrightarrow> map_of (shares (sv_store sv')) token = Some (h\<lparr>sh_ExpiresAt := Some (t + n * 1000000000)\<rparr>)) \<and>
    (9223372036 < n \<and> n \<le> 18446744073 \<longrightarrow>
       (\<exists>h'. map_of (shares (sv_store sv')) token = Some h' \<and> (\<exists>t'. sh_ExpiresAt h' = Some t' \<and> t' < t)))"
proof -
  let ?h = "h\<lparr>sh_ExpiresAt := Some (t + seconds n)\<rparr>"
  have "extended E n h = ?h" using assms(5,6) by (simp add: extended_def Let_def)
  with assms have st: "status resp = 200" "map_of (shares (sv_store sv')) token = Some ?h"
    by (auto simp: shareExtend_def update_share_def Share_get_def UpdateShare_def done_with_def reply_def audit_def
        Audit_def auditLocked_def Let_def)
  with seconds_id [of n] seconds_wraps [of n] assms(7) show ?thesis by auto
qed

theorem share_extension_witness:
  "\<exists>h' t'. map_of (shares (sv_store (snd (snd (shareExtend (demo_env 20 1) demo_request (demo_user\<lparr>u_Role := RoleAdmin\<rparr>)
      (Some (''t1'', 9223372037)) (demo_server\<lparr>sv_store := demo_users\<lparr>shares := [(''t1'', demo_share)]\<rparr>\<rparr>)))))) ''t1'' = Some h' \<and>
    sh_ExpiresAt h' = Some t' \<and> t' < 50"
proof -
  let ?sv = "demo_server\<lparr>sv_store := demo_users\<lparr>shares := [(''t1'', demo_share)]\<rparr>\<rparr>"
  let ?u = "demo_user\<lparr>u_Role := RoleAdmin\<rparr>"
  obtain resp outs sv' where o: "shareExtend (demo_env 20 1) demo_request ?u (Some (''t1'', 9223372037)) ?sv = (resp, outs, sv')"
    by (rule prod_cases3)
  have "\<exists>h' t'. map_of (shares (sv_store sv')) ''t1'' = Some h' \<and> sh_ExpiresAt h' = Some t' \<and> t' < 50"
    using share_extension [of demo_request "''t1''" ?sv demo_share ?u 50 "demo_env 20 1" 9223372037 resp outs sv'] o
    by (simp add: demo_request_def demo_share_def CanAccessDevice_def)
  then show ?thesis by (simp add: o)
qed

end
