(* ===== verification/Persist.thy ===== *)
theory Persist
  imports StoreRuns Float64 ShellV2
begin

text \<open>
  \<open>postgres_store.go\<close> and the persistent halves of \<open>deployment_credentials_store.go\<close>,
  \<open>user_sessions.go\<close> and \<open>device_settings.go\<close>: the store that keeps an in-memory store \<open>inner\<close> and
  writes all of it as one JSON document into a row of PostgreSQL after a change. The state \<open>pg\<close>
  holds the in-memory store, the document in the row (\<open>None\<close> before the first write) and the health
  error. What the database answers to a statement is a parameter of each operation: \<open>ExecOk\<close> wrote
  the row, \<open>ExecFailed\<close> did not, \<open>ExecLost\<close> wrote it although the client got an error.

  A document is represented by the Go value that \<open>json.Unmarshal\<close> makes of it: \<open>json_state\<close> is
  \<open>json.Marshal\<close> followed by \<open>json.Unmarshal\<close>. Fields tagged \<open>json:"-"\<close> come back with their zero
  value, numbers inside \<open>map[string]any\<close> as \<open>float64\<close>, times inside it as RFC 3339 text, and
  \<open>Marshal\<close> fails when a time lies outside the years 0 to 9999. Strings are UTF-8, which JSON
  leaves as it is. A mutation and its write are one step here; the code takes the snapshot of a
  write under the lock of the in-memory store, so a write always saves a state of some prefix of
  the mutations that includes its own.
\<close>

section \<open>JSON and times\<close>

text \<open>
  \<open>time.Time.MarshalJSON\<close> accepts the years 0 to 9999 only. The proleptic Gregorian year 0 has 366
  days, and year 10000 begins 3652059 days after Go's zero time.
\<close>

definition time_json_ok :: "time \<Rightarrow> bool" where
  "time_json_ok t \<longleftrightarrow> - 366 * 24 * Hour \<le> t \<and> t < 3652059 * 24 * Hour"

definition pad :: "nat \<Rightarrow> int \<Rightarrow> string" where
  "pad k n = (let s = show_nat (nat n) in replicate (k - length s) CHR ''0'' @ s)"

text \<open>Year, month and day of a number of days after 1 January of year 1, counted in years that start in March.\<close>

definition civil :: "int \<Rightarrow> int \<times> int \<times> int" where
  "civil days =
     (let z = days + 306; era = z div 146097; doe = z mod 146097;
          yoe = (doe - doe div 1460 + doe div 36524 - doe div 146096) div 365;
          doy = doe - (365 * yoe + yoe div 4 - yoe div 100);
          mp = (5 * doy + 2) div 153;
          m = (if mp < 10 then mp + 3 else mp - 9)
      in (yoe + era * 400 + (if m \<le> 2 then 1 else 0), m, doy - (153 * mp + 2) div 5 + 1))"

definition rfc3339 :: "time \<Rightarrow> string" where
  "rfc3339 t =
     (let (y, m, d) = civil (t div (24 * Hour)); r = t mod (24 * Hour); s = r div 1000000000;
          frac = rev (dropWhile (\<lambda>c. c = CHR ''0'') (rev (pad 9 (r mod 1000000000))))
      in pad 4 y @ ''-'' @ pad 2 m @ ''-'' @ pad 2 d @ ''T'' @
         pad 2 (s div 3600) @ '':'' @ pad 2 (s div 60 mod 60) @ '':'' @ pad 2 (s mod 60) @
         (if frac = [] then [] else CHR ''.'' # frac) @ ''Z'')"

fun any_json :: "any \<Rightarrow> any" where
  "any_json (AInt n) = AFloat (fl (of_int n))"
| "any_json (AUint32 w) = AFloat (of_nat (unat w))"
| "any_json (AUint64 w) = AFloat (fl (of_nat (unat w)))"
| "any_json (ATime None) = ANil"
| "any_json (ATime (Some t)) = AStr (rfc3339 t)"
| "any_json (AArr xs) = AArr (map any_json xs)"
| "any_json (AObj m) = AObj (map (\<lambda>kv. (fst kv, any_json (snd kv))) m)"
| "any_json v = v"

definition obj_json :: "obj \<Rightarrow> obj" where
  "obj_json m = mmap (\<lambda>_ v. any_json v) m"

fun any_times_ok :: "any \<Rightarrow> bool" where
  "any_times_ok (ATime (Some t)) = time_json_ok t"
| "any_times_ok (AArr xs) = list_all any_times_ok xs"
| "any_times_ok (AObj m) = list_all (\<lambda>kv. any_times_ok (snd kv)) m"
| "any_times_ok _ = True"

definition obj_times_ok :: "obj \<Rightarrow> bool" where
  "obj_times_ok m \<longleftrightarrow> list_all (\<lambda>kv. any_times_ok (snd kv)) m"

definition opt_time_ok :: "time option \<Rightarrow> bool" where
  "opt_time_ok t \<longleftrightarrow> (case t of None \<Rightarrow> True | Some x \<Rightarrow> time_json_ok x)"

section \<open>The document\<close>

record persistedUser =
  pu_User :: User
  pu_PasswordHash :: string
  pu_TokenVersion :: "64 word"

record persistedState =
  p_Users :: "persistedUser gomap"
  p_UsersByName :: "string gomap"
  p_Devices :: "Device gomap"
  p_Tags :: "Tag gomap"
  p_DeviceTags :: "unit gomap gomap"
  p_Shares :: "Share gomap"
  p_DeploymentCredentials :: "storedDeploymentCredential gomap"
  p_Enrollments :: "Enrollment gomap"
  p_AgentCredentials :: "AgentCredential gomap"
  p_DefaultSettings :: obj
  p_DeviceSettings :: "obj gomap"
  p_Shortcuts :: "Shortcut list gomap"
  p_Assets :: "Asset gomap"
  p_AssetsByName :: "string gomap"
  p_Tasks :: "Task gomap"
  p_Audits :: "AuditEvent list"
  p_RevokedUserTokens :: "time gomap"

text \<open>The entities after a round trip: the fields tagged \<open>json:"-"\<close> are gone.\<close>

definition User_json :: "User \<Rightarrow> User" where
  "User_json u = u\<lparr>u_PasswordHash := '''', TokenVersion := 0, Settings := obj_json (Settings u)\<rparr>"

definition Device_json :: "Device \<Rightarrow> Device" where
  "Device_json d = d\<lparr>Clients := map obj_json (Clients d), Metrics := obj_json (Metrics d)\<rparr>"

definition Share_json :: "Share \<Rightarrow> Share" where
  "Share_json h = h\<lparr>sh_PasswordHash := '''', GuestSettings := obj_json (GuestSettings h)\<rparr>"

definition Asset_json :: "Asset \<Rightarrow> Asset" where
  "Asset_json a = a\<lparr>Path := ''''\<rparr>"

definition Task_json :: "Task \<Rightarrow> Task" where
  "Task_json t = t\<lparr>Payload := ''''\<rparr>"

definition AuditEvent_json :: "AuditEvent \<Rightarrow> AuditEvent" where
  "AuditEvent_json e = e\<lparr>Metadata := obj_json (Metadata e)\<rparr>"

definition times_ok :: "persistedState \<Rightarrow> bool" where
  "times_ok d \<longleftrightarrow>
     list_all (\<lambda>(_, p). opt_time_ok (u_ExpiresAt (pu_User p)) \<and> time_json_ok (u_CreatedAt (pu_User p)) \<and>
                 obj_times_ok (Settings (pu_User p))) (p_Users d) \<and>
     list_all (\<lambda>(_, v). time_json_ok (FirstSeen v) \<and> time_json_ok (LastSeen v) \<and>
                 list_all obj_times_ok (Clients v) \<and> obj_times_ok (Metrics v)) (p_Devices d) \<and>
     list_all (\<lambda>(_, h). opt_time_ok (sh_ExpiresAt h) \<and> time_json_ok (sh_CreatedAt h) \<and>
                 obj_times_ok (GuestSettings h)) (p_Shares d) \<and>
     list_all (\<lambda>(_, c). time_json_ok (dc_CreatedAt c) \<and> opt_time_ok (dc_ExpiresAt c) \<and> opt_time_ok (RevokedAt c) \<and>
                 opt_time_ok (LastUsedAt c)) (p_DeploymentCredentials d) \<and>
     list_all (\<lambda>(_, e). time_json_ok (e_ExpiresAt e)) (p_Enrollments d) \<and>
     obj_times_ok (p_DefaultSettings d) \<and>
     list_all (\<lambda>(_, m). obj_times_ok m) (p_DeviceSettings d) \<and>
     list_all (\<lambda>(_, a). time_json_ok (a_CreatedAt a)) (p_Assets d) \<and>
     list_all (\<lambda>(_, t). time_json_ok (tk_CreatedAt t) \<and> time_json_ok (tk_ExpiresAt t) \<and>
                 list_all (\<lambda>(_, r). time_json_ok (UpdatedAt r)) (Devices t)) (p_Tasks d) \<and>
     list_all (\<lambda>e. time_json_ok (ae_CreatedAt e) \<and> obj_times_ok (Metadata e)) (p_Audits d) \<and>
     list_all (\<lambda>(_, t). time_json_ok t) (p_RevokedUserTokens d)"

definition json_state :: "persistedState \<Rightarrow> persistedState option" where
  "json_state d =
     (if times_ok d then
        Some (d\<lparr>p_Users := mmap (\<lambda>_ p. p\<lparr>pu_User := User_json (pu_User p)\<rparr>) (p_Users d),
          p_Devices := mmap (\<lambda>_ v. Device_json v) (p_Devices d),
          p_Shares := mmap (\<lambda>_ h. Share_json h) (p_Shares d),
          p_DefaultSettings := obj_json (p_DefaultSettings d),
          p_DeviceSettings := mmap (\<lambda>_ m. obj_json m) (p_DeviceSettings d),
          p_Assets := mmap (\<lambda>_ a. Asset_json a) (p_Assets d),
          p_Tasks := mmap (\<lambda>_ t. Task_json t) (p_Tasks d),
          p_Audits := map AuditEvent_json (p_Audits d)\<rparr>)
      else None)"

definition persisted_of :: "User \<Rightarrow> persistedUser" where
  "persisted_of u = \<lparr>pu_User = u, pu_PasswordHash = u_PasswordHash u, pu_TokenVersion = TokenVersion u\<rparr>"

definition snapshot_state :: "store \<Rightarrow> persistedState" where
  "snapshot_state s =
     \<lparr>p_Users = mmap (\<lambda>_ u. persisted_of u) (users s), p_UsersByName = usersByName s, p_Devices = devices s,
      p_Tags = tags s, p_DeviceTags = deviceTags s, p_Shares = shares s,
      p_DeploymentCredentials = deploymentCredentials s, p_Enrollments = enrollments s,
      p_AgentCredentials = agentCredentials s, p_DefaultSettings = defaultSettings s,
      p_DeviceSettings = deviceSettings s, p_Shortcuts = shortcuts s, p_Assets = assets s,
      p_AssetsByName = assetsByName s, p_Tasks = tasks s, p_Audits = audits s,
      p_RevokedUserTokens = revokedUserTokens s\<rparr>"

definition snapshotJSON :: "store \<Rightarrow> persistedState option" where
  "snapshotJSON s = json_state (snapshot_state s)"

section \<open>Writing and loading\<close>

datatype exec_result = ExecOk | ExecFailed | ExecLost

record pg =
  inner :: store
  row :: "persistedState option"
  pg_healthErr :: bool

definition persist :: "exec_result \<Rightarrow> pg \<Rightarrow> unit result \<times> pg" where
  "persist r p =
     (case snapshotJSON (inner p) of
        None \<Rightarrow> (Inl ErrStore, p\<lparr>pg_healthErr := True\<rparr>)
      | Some raw \<Rightarrow>
          (case r of
             ExecOk \<Rightarrow> (Inr (), p\<lparr>row := Some raw, pg_healthErr := False\<rparr>)
           | ExecFailed \<Rightarrow> (Inl ErrStore, p\<lparr>pg_healthErr := True\<rparr>)
           | ExecLost \<Rightarrow> (Inl ErrStore, p\<lparr>row := Some raw, pg_healthErr := True\<rparr>)))"

definition mutate :: "exec_result \<Rightarrow> pg \<Rightarrow> pg" where
  "mutate r p = snd (persist r p)"

definition pg_Healthy :: "pg \<Rightarrow> unit result" where
  "pg_Healthy p = (if pg_healthErr p then Inl ErrStore else Inr ())"

text \<open>
  One account of the document: hash and token version are put back, and an account named like the
  bootstrap administrator that was saved without a hash gets one. The flag says whether it did.
\<close>

definition load_user :: "env \<Rightarrow> string \<Rightarrow> string \<Rightarrow> persistedUser \<Rightarrow> (User \<times> bool) result" where
  "load_user E adminUsername adminPassword saved =
     (let user = (pu_User saved)\<lparr>u_PasswordHash := pu_PasswordHash saved, TokenVersion := pu_TokenVersion saved\<rparr> in
      if length (u_PasswordHash user) = 0 \<and> Username user = adminUsername then
        (case gen_hash E adminPassword of
           None \<Rightarrow> Inl ErrHash
         | Some hash \<Rightarrow> Inr (user\<lparr>u_PasswordHash := hash\<rparr>, True))
      else Inr (user, False))"

fun load_users :: "env \<Rightarrow> string \<Rightarrow> string \<Rightarrow> persistedUser gomap \<Rightarrow> (User gomap \<times> bool) result" where
  "load_users E adminUsername adminPassword [] = Inr ([], False)"
| "load_users E adminUsername adminPassword ((i, saved) # rest) =
     (case load_user E adminUsername adminPassword saved of
        Inl e \<Rightarrow> Inl e
      | Inr (user, fixed) \<Rightarrow>
          (case load_users E adminUsername adminPassword rest of
             Inl e \<Rightarrow> Inl e
           | Inr (more_users, repaired) \<Rightarrow> Inr ((i, user) # more_users, fixed \<or> repaired)))"

definition adopt :: "User gomap \<Rightarrow> persistedState \<Rightarrow> store \<Rightarrow> store" where
  "adopt us d s =
     s\<lparr>users := us, usersByName := p_UsersByName d, devices := p_Devices d, tags := p_Tags d,
        deviceTags := p_DeviceTags d, shares := p_Shares d, deploymentCredentials := p_DeploymentCredentials d,
        enrollments := p_Enrollments d, agentCredentials := p_AgentCredentials d,
        defaultSettings := p_DefaultSettings d, deviceSettings := p_DeviceSettings d, shortcuts := p_Shortcuts d,
        assets := p_Assets d, assetsByName := p_AssetsByName d, tasks := p_Tasks d, audits := p_Audits d,
        revokedUserTokens := p_RevokedUserTokens d\<rparr>"

definition load :: "exec_result \<Rightarrow> bool \<Rightarrow> env \<Rightarrow> string \<Rightarrow> string \<Rightarrow> pg \<Rightarrow> unit result \<times> pg" where
  "load r query_ok E adminUsername adminPassword p =
     (if \<not> query_ok then (Inl ErrStore, p)
      else
        (case row p of
           None \<Rightarrow> persist r p
         | Some state \<Rightarrow>
             (case load_users E adminUsername adminPassword (p_Users state) of
                Inl e \<Rightarrow> (Inl e, p)
              | Inr (us, repaired) \<Rightarrow>
                  (let p = p\<lparr>inner := adopt us state (inner p)\<rparr> in
                   if repaired then persist r p else (Inr (), p)))))"

text \<open>
  \<open>migrate\<close> takes the lock, creates the two tables and records the version; \<open>stmt k\<close> says whether the
  \<open>k\<close>-th statement succeeds. It never touches the row of the state.
\<close>

definition migrate :: "(nat \<Rightarrow> bool) \<Rightarrow> unit result" where
  "migrate stmt = (if stmt 0 \<and> stmt 1 \<and> stmt 2 \<and> stmt 3 then Inr () else Inl ErrStore)"

definition NewPostgresStore ::
  "bool \<Rightarrow> (nat \<Rightarrow> bool) \<Rightarrow> exec_result \<Rightarrow> bool \<Rightarrow> env \<Rightarrow> env \<Rightarrow> string \<Rightarrow> string \<Rightarrow> string \<Rightarrow>
   persistedState option \<Rightarrow> pg result \<times> persistedState option" where
  "NewPostgresStore dialed stmt r query_ok E0 E dsn adminUsername adminPassword saved =
     (if dsn = '''' \<or> \<not> dialed then (Inl ErrStore, saved)
      else
        (case migrate stmt of
           Inl e \<Rightarrow> (Inl e, saved)
         | Inr _ \<Rightarrow>
             (case NewMemoryStore E0 adminUsername adminPassword of
                Inl e \<Rightarrow> (Inl e, saved)
              | Inr fresh \<Rightarrow>
                  (case load r query_ok E adminUsername adminPassword
                          \<lparr>inner = fresh, row = saved, pg_healthErr = False\<rparr> of
                     (Inl e, p) \<Rightarrow> (Inl e, row p)
                   | (Inr _, p) \<Rightarrow> (Inr p, row p)))))"

section \<open>The methods\<close>

text \<open>
  A method that changes the in-memory store and ignores what becomes of the write (\<open>saved_after\<close>),
  one that does so whether or not the change succeeded on this branch (\<open>mutate\<close>), and one that
  reports success only after an acknowledged write (\<open>durable_after\<close>).
\<close>

definition saved_after :: "exec_result \<Rightarrow> 'a result \<times> store \<Rightarrow> pg \<Rightarrow> 'a result \<times> pg" where
  "saved_after r out p =
     (case out of
        (Inl e, s) \<Rightarrow> (Inl e, p\<lparr>inner := s\<rparr>)
      | (Inr v, s) \<Rightarrow> (Inr v, mutate r (p\<lparr>inner := s\<rparr>)))"

definition durable_after :: "exec_result \<Rightarrow> 'a result \<times> store \<Rightarrow> pg \<Rightarrow> 'a result \<times> pg" where
  "durable_after r out p =
     (case out of
        (Inl e, s) \<Rightarrow> (Inl e, p\<lparr>inner := s\<rparr>)
      | (Inr v, s) \<Rightarrow>
          (case persist r (p\<lparr>inner := s\<rparr>) of
             (Inl e, p') \<Rightarrow> (Inl e, p')
           | (Inr _, p') \<Rightarrow> (Inr v, p')))"

definition pg_CreateUser :: "exec_result \<Rightarrow> env \<Rightarrow> string \<Rightarrow> string \<Rightarrow> Role \<Rightarrow> string list \<Rightarrow> pg \<Rightarrow> User result \<times> pg" where
  "pg_CreateUser r E a b c d p = saved_after r (CreateUser E a b c d (inner p)) p"

definition pg_UpsertAgentDevice :: "exec_result \<Rightarrow> env \<Rightarrow> string \<Rightarrow> DeviceInfo \<Rightarrow> pg \<Rightarrow> Device \<times> pg" where
  "pg_UpsertAgentDevice r E a b p =
     (let (v, s) = UpsertAgentDevice E a b (inner p) in (v, mutate r (p\<lparr>inner := s\<rparr>)))"

definition pg_MarkOffline :: "exec_result \<Rightarrow> env \<Rightarrow> string \<Rightarrow> pg \<Rightarrow> pg" where
  "pg_MarkOffline r E a p = mutate r (p\<lparr>inner := MarkOffline E a (inner p)\<rparr>)"

definition pg_TouchDevice :: "exec_result \<Rightarrow> env \<Rightarrow> string \<Rightarrow> pg \<Rightarrow> pg" where
  "pg_TouchDevice r E a p = mutate r (p\<lparr>inner := TouchDevice E a (inner p)\<rparr>)"

definition pg_DeleteOfflineDevice :: "exec_result \<Rightarrow> string \<Rightarrow> pg \<Rightarrow> unit result \<times> pg" where
  "pg_DeleteOfflineDevice r a p = saved_after r (DeleteOfflineDevice a (inner p)) p"

definition pg_DeleteUser :: "exec_result \<Rightarrow> string \<Rightarrow> pg \<Rightarrow> unit result \<times> pg" where
  "pg_DeleteUser r a p = saved_after r (DeleteUser a (inner p)) p"

definition pg_UpdateUser :: "exec_result \<Rightarrow> string \<Rightarrow> (User \<Rightarrow> User result) \<Rightarrow> pg \<Rightarrow> User result \<times> pg" where
  "pg_UpdateUser r a f p = saved_after r (UpdateUser a f (inner p)) p"

definition pg_RenameUser :: "exec_result \<Rightarrow> string \<Rightarrow> string \<Rightarrow> pg \<Rightarrow> User result \<times> pg" where
  "pg_RenameUser r a b p = saved_after r (RenameUser a b (inner p)) p"

definition pg_ResetPassword :: "exec_result \<Rightarrow> env \<Rightarrow> string \<Rightarrow> string \<Rightarrow> pg \<Rightarrow> unit result \<times> pg" where
  "pg_ResetPassword r E a b p = saved_after r (ResetPassword E a b (inner p)) p"

definition pg_RevokeUserToken :: "exec_result \<Rightarrow> string \<Rightarrow> time \<Rightarrow> pg \<Rightarrow> unit result \<times> pg" where
  "pg_RevokeUserToken r digest expires p = durable_after r (RevokeUserToken digest expires (inner p)) p"

definition pg_CreateShare ::
  "exec_result \<Rightarrow> env \<Rightarrow> string \<Rightarrow> string \<Rightarrow> string \<Rightarrow> string \<Rightarrow> bool \<Rightarrow> time option \<Rightarrow> pg \<Rightarrow> Share result \<times> pg" where
  "pg_CreateShare r E a b c d e f p = saved_after r (CreateShare E a b c d e f (inner p)) p"

definition pg_UpdateShare :: "exec_result \<Rightarrow> string \<Rightarrow> (Share \<Rightarrow> Share result) \<Rightarrow> pg \<Rightarrow> Share result \<times> pg" where
  "pg_UpdateShare r a f p = saved_after r (UpdateShare a f (inner p)) p"

definition pg_RevokeShare :: "exec_result \<Rightarrow> string \<Rightarrow> pg \<Rightarrow> unit result \<times> pg" where
  "pg_RevokeShare r a p = saved_after r (RevokeShare a (inner p)) p"

text \<open>The readers that drop expired shares change the in-memory store without a write.\<close>

definition pg_SharesFor :: "env \<Rightarrow> string \<Rightarrow> pg \<Rightarrow> Share list \<times> pg" where
  "pg_SharesFor E a p = (let (v, s) = SharesFor E a (inner p) in (v, p\<lparr>inner := s\<rparr>))"

definition pg_ShareByCard :: "env \<Rightarrow> string \<Rightarrow> pg \<Rightarrow> Share result \<times> pg" where
  "pg_ShareByCard E a p = (let (v, s) = ShareByCard E a (inner p) in (v, p\<lparr>inner := s\<rparr>))"

definition pg_AuthorizeShare :: "env \<Rightarrow> string \<Rightarrow> string \<Rightarrow> pg \<Rightarrow> Share result \<times> pg" where
  "pg_AuthorizeShare E a b p = (let (v, s) = AuthorizeShare E a b (inner p) in (v, p\<lparr>inner := s\<rparr>))"

definition pg_ReplaceTags :: "exec_result \<Rightarrow> env \<Rightarrow> Tag list \<Rightarrow> string list gomap \<Rightarrow> pg \<Rightarrow> pg" where
  "pg_ReplaceTags r E a b p = mutate r (p\<lparr>inner := ReplaceTags E a b (inner p)\<rparr>)"

definition pg_SetDefaultSettings :: "exec_result \<Rightarrow> obj \<Rightarrow> pg \<Rightarrow> pg" where
  "pg_SetDefaultSettings r a p = mutate r (p\<lparr>inner := SetDefaultSettings a (inner p)\<rparr>)"

definition pg_SetDeviceSettings :: "exec_result \<Rightarrow> string \<Rightarrow> obj \<Rightarrow> pg \<Rightarrow> unit result \<times> pg" where
  "pg_SetDeviceSettings r i settings p = durable_after r (SetDeviceSettings i settings (inner p)) p"

definition pg_CreateEnrollment :: "exec_result \<Rightarrow> env \<Rightarrow> string \<Rightarrow> duration \<Rightarrow> pg \<Rightarrow> Enrollment \<times> pg" where
  "pg_CreateEnrollment r E a b p =
     (let (v, s) = CreateEnrollment E a b (inner p) in (v, mutate r (p\<lparr>inner := s\<rparr>)))"

definition pg_ExchangeEnrollment :: "exec_result \<Rightarrow> env \<Rightarrow> string \<Rightarrow> string \<Rightarrow> pg \<Rightarrow> AgentCredential result \<times> pg" where
  "pg_ExchangeEnrollment r E a b p =
     (case pg_Healthy p of
        Inl e \<Rightarrow> (Inl e, p)
      | Inr _ \<Rightarrow> durable_after r (ExchangeEnrollment E a b (inner p)) p)"

definition pg_CreateDeploymentCredential ::
  "exec_result \<Rightarrow> env \<Rightarrow> string \<Rightarrow> string \<Rightarrow> duration \<Rightarrow> pg \<Rightarrow> (DeploymentCredential \<times> string) result \<times> pg" where
  "pg_CreateDeploymentCredential r E name actor ttl p =
     (case pg_Healthy p of
        Inl e \<Rightarrow> (Inl e, p)
      | Inr _ \<Rightarrow> durable_after r (CreateDeploymentCredential E name actor ttl (inner p)) p)"

definition pg_RevokeDeploymentCredential ::
  "exec_result \<Rightarrow> env \<Rightarrow> string \<Rightarrow> string \<Rightarrow> pg \<Rightarrow> DeploymentCredential result \<times> pg" where
  "pg_RevokeDeploymentCredential r E cid actor p =
     durable_after r (RevokeDeploymentCredential E cid actor (inner p)) p"

definition pg_IssueDeploymentEnrollment ::
  "exec_result \<Rightarrow> env \<Rightarrow> string \<Rightarrow> string \<Rightarrow> duration \<Rightarrow> pg \<Rightarrow> Enrollment result \<times> pg" where
  "pg_IssueDeploymentEnrollment r E token deviceID ttl p =
     (case pg_Healthy p of
        Inl e \<Rightarrow> (Inl e, p)
      | Inr _ \<Rightarrow> durable_after r (IssueDeploymentEnrollment E token deviceID ttl (inner p)) p)"

definition pg_ReplaceShortcuts :: "exec_result \<Rightarrow> string \<Rightarrow> Shortcut list \<Rightarrow> pg \<Rightarrow> pg" where
  "pg_ReplaceShortcuts r a b p = mutate r (p\<lparr>inner := ReplaceShortcuts a b (inner p)\<rparr>)"

definition pg_CreateAsset :: "exec_result \<Rightarrow> env \<Rightarrow> Asset \<Rightarrow> pg \<Rightarrow> Asset result \<times> pg" where
  "pg_CreateAsset r E a p = saved_after r (CreateAsset E a (inner p)) p"

definition pg_CreateTask :: "exec_result \<Rightarrow> env \<Rightarrow> Task \<Rightarrow> pg \<Rightarrow> Task result \<times> pg" where
  "pg_CreateTask r E a p = saved_after r (CreateTask E a (inner p)) p"

definition pg_ClaimTask :: "exec_result \<Rightarrow> env \<Rightarrow> string \<Rightarrow> string \<Rightarrow> pg \<Rightarrow> Task result \<times> pg" where
  "pg_ClaimTask r E a b p = saved_after r (ClaimTask E a b (inner p)) p"

definition pg_SetTaskStatus ::
  "exec_result \<Rightarrow> env \<Rightarrow> string \<Rightarrow> string \<Rightarrow> TaskStatus \<Rightarrow> string \<Rightarrow> pg \<Rightarrow> Task result \<times> pg" where
  "pg_SetTaskStatus r E a b c d p = saved_after r (SetTaskStatus E a b c d (inner p)) p"

definition pg_MarkLeasedUnknown :: "exec_result \<Rightarrow> env \<Rightarrow> string \<Rightarrow> pg \<Rightarrow> pg" where
  "pg_MarkLeasedUnknown r E a p = mutate r (p\<lparr>inner := MarkLeasedUnknown E a (inner p)\<rparr>)"

definition pg_Audit :: "exec_result \<Rightarrow> env \<Rightarrow> AuditEvent \<Rightarrow> pg \<Rightarrow> pg" where
  "pg_Audit r E a p = mutate r (p\<lparr>inner := Audit E a (inner p)\<rparr>)"

definition pg_Clean :: "exec_result \<Rightarrow> env \<Rightarrow> time \<Rightarrow> pg \<Rightarrow> pg" where
  "pg_Clean r E a p = mutate r (p\<lparr>inner := Clean E a (inner p)\<rparr>)"

text \<open>The remaining readers, among them \<open>Authenticate\<close>, hand the call on to \<open>inner\<close>.\<close>

definition pg_reader :: "(store \<Rightarrow> 'a) \<Rightarrow> pg \<Rightarrow> 'a" where
  "pg_reader read p = read (inner p)"

section \<open>Runs\<close>

fun exec_pg :: "exec_result \<times> env \<times> store_op \<Rightarrow> pg \<Rightarrow> pg" where
  "exec_pg (r, E, OpCreateUser a b c d) p = snd (pg_CreateUser r E a b c d p)"
| "exec_pg (r, E, OpDeleteUser a) p = snd (pg_DeleteUser r a p)"
| "exec_pg (r, E, OpUpdateUser a f) p = snd (pg_UpdateUser r a f p)"
| "exec_pg (r, E, OpRenameUser a b) p = snd (pg_RenameUser r a b p)"
| "exec_pg (r, E, OpResetPassword a b) p = snd (pg_ResetPassword r E a b p)"
| "exec_pg (r, E, OpRevokeUserToken a b) p = snd (pg_RevokeUserToken r a b p)"
| "exec_pg (r, E, OpUpsertAgentDevice a b) p = snd (pg_UpsertAgentDevice r E a b p)"
| "exec_pg (r, E, OpMarkOffline a) p = pg_MarkOffline r E a p"
| "exec_pg (r, E, OpTouchDevice a) p = pg_TouchDevice r E a p"
| "exec_pg (r, E, OpDeleteOfflineDevice a) p = snd (pg_DeleteOfflineDevice r a p)"
| "exec_pg (r, E, OpSetDefaultSettings a) p = pg_SetDefaultSettings r a p"
| "exec_pg (r, E, OpSetDeviceSettings a b) p = snd (pg_SetDeviceSettings r a b p)"
| "exec_pg (r, E, OpCreateShare a b c d e f) p = snd (pg_CreateShare r E a b c d e f p)"
| "exec_pg (r, E, OpSharesFor a) p = snd (pg_SharesFor E a p)"
| "exec_pg (r, E, OpShareByCard a) p = snd (pg_ShareByCard E a p)"
| "exec_pg (r, E, OpUpdateShare a f) p = snd (pg_UpdateShare r a f p)"
| "exec_pg (r, E, OpRevokeShare a) p = snd (pg_RevokeShare r a p)"
| "exec_pg (r, E, OpAuthorizeShare a b) p = snd (pg_AuthorizeShare E a b p)"
| "exec_pg (r, E, OpReplaceTags a b) p = pg_ReplaceTags r E a b p"
| "exec_pg (r, E, OpCreateDeploymentCredential a b c) p = snd (pg_CreateDeploymentCredential r E a b c p)"
| "exec_pg (r, E, OpRevokeDeploymentCredential a b) p = snd (pg_RevokeDeploymentCredential r E a b p)"
| "exec_pg (r, E, OpIssueDeploymentEnrollment a b c) p = snd (pg_IssueDeploymentEnrollment r E a b c p)"
| "exec_pg (r, E, OpCreateEnrollment a b) p = snd (pg_CreateEnrollment r E a b p)"
| "exec_pg (r, E, OpExchangeEnrollment a b) p = snd (pg_ExchangeEnrollment r E a b p)"
| "exec_pg (r, E, OpReplaceShortcuts a b) p = pg_ReplaceShortcuts r a b p"
| "exec_pg (r, E, OpCreateAsset a) p = snd (pg_CreateAsset r E a p)"
| "exec_pg (r, E, OpCreateTask a) p = snd (pg_CreateTask r E a p)"
| "exec_pg (r, E, OpClaimTask a b) p = snd (pg_ClaimTask r E a b p)"
| "exec_pg (r, E, OpSetTaskStatus a b c d) p = snd (pg_SetTaskStatus r E a b c d p)"
| "exec_pg (r, E, OpMarkLeasedUnknown a) p = pg_MarkLeasedUnknown r E a p"
| "exec_pg (r, E, OpAudit a) p = pg_Audit r E a p"
| "exec_pg (r, E, OpClean a) p = pg_Clean r E a p"

end
