(* ===== verification/PersistProps.thy ===== *)
theory PersistProps
  imports Persist StoreProps
begin

text \<open>
  What the persistent store promises: it refines the in-memory store, and a restart brings back the
  saved state up to the fields that the document does not hold. \<open>recovered\<close> is that state.
  The properties at the end state what is lost, what an acknowledged answer guarantees, and when
  nothing is saved any more.
\<close>

section \<open>The document of a store\<close>

lemma list_all_mmap [simp]: "list_all P (mmap f m) = list_all (\<lambda>kv. P (fst kv, f (fst kv) (snd kv))) m"
  by (simp add: mmap_def list_all_iff)

lemma mmap_mmap [simp]: "mmap f (mmap g m) = mmap (\<lambda>k v. f k (g k v)) m"
  by (simp add: mmap_def)

lemma any_json_idem [simp]: "any_json (any_json v) = any_json v"
  by (induction v rule: any_json.induct) auto

lemma any_json_times [simp]: "any_times_ok (any_json v)"
  by (induction v rule: any_json.induct) (auto simp: list_all_iff)

lemma obj_json_idem [simp]: "obj_json (obj_json m) = obj_json m"
  by (simp add: obj_json_def)

lemma obj_json_times [simp]: "obj_times_ok (obj_json m)"
  by (simp add: obj_json_def obj_times_ok_def list.pred_True)

definition restored_user :: "string \<Rightarrow> string \<Rightarrow> User \<Rightarrow> User" where
  "restored_user admin hash u =
     (if u_PasswordHash u = '''' \<and> Username u = admin then u\<lparr>u_PasswordHash := hash\<rparr> else u)\<lparr>Settings := obj_json (Settings u)\<rparr>"

definition recovered :: "string \<Rightarrow> string \<Rightarrow> store \<Rightarrow> store" where
  "recovered admin hash s =
     s\<lparr>users := mmap (\<lambda>_ u. restored_user admin hash u) (users s), devices := mmap (\<lambda>_ d. Device_json d) (devices s),
        shares := mmap (\<lambda>_ h. Share_json h) (shares s), defaultSettings := obj_json (defaultSettings s),
        deviceSettings := mmap (\<lambda>_ m. obj_json m) (deviceSettings s), assets := mmap (\<lambda>_ a. Asset_json a) (assets s),
        tasks := mmap (\<lambda>_ t. Task_json t) (tasks s), audits := map AuditEvent_json (audits s), healthErr := False\<rparr>"

lemmas json_defs = User_json_def Device_json_def Share_json_def Asset_json_def Task_json_def AuditEvent_json_def

lemma recovered_times:
  "times_ok (snapshot_state s) \<Longrightarrow> times_ok (snapshot_state (recovered admin hash s))"
  by (simp add: times_ok_def snapshot_state_def recovered_def restored_user_def persisted_of_def json_defs
      split_beta list.pred_map comp_def set_mmap list_all_iff)

lemma load_user_trip:
  "gen_hash E pw = Some hash \<Longrightarrow>
   load_user E admin pw (persisted_of u\<lparr>pu_User := User_json (pu_User (persisted_of u))\<rparr>) =
     Inr (restored_user admin hash u, u_PasswordHash u = '''' \<and> Username u = admin)"
  by (auto simp: load_user_def restored_user_def persisted_of_def User_json_def Let_def)

lemma load_users_trip:
  "gen_hash E pw = Some hash \<Longrightarrow>
   load_users E admin pw (mmap (\<lambda>_ u. persisted_of u\<lparr>pu_User := User_json (pu_User (persisted_of u))\<rparr>) us) =
     Inr (mmap (\<lambda>_ u. restored_user admin hash u) us, \<exists>kv \<in> set us. u_PasswordHash (snd kv) = '''' \<and> Username (snd kv) = admin)"
  by (induction us) (auto simp: mmap_def load_user_trip)

lemma load_users_unrepaired:
  "load_users E admin pw (mmap (\<lambda>_ u. persisted_of u\<lparr>pu_User := User_json (pu_User (persisted_of u))\<rparr>) us) = Inr (vs, False) \<Longrightarrow>
   vs = mmap (\<lambda>_ u. restored_user admin hash u) us \<and>
   \<not> (\<exists>kv \<in> set us. u_PasswordHash (snd kv) = '''' \<and> Username (snd kv) = admin)"
proof (induction us arbitrary: vs)
  case (Cons kv us)
  then show ?case
    by (auto simp: mmap_def load_user_def restored_user_def persisted_of_def User_json_def Let_def
        split: sum.splits if_splits option.splits prod.splits)
qed (simp add: mmap_def)

lemma snapshotJSON_Some:
  "snapshotJSON s = Some d \<Longrightarrow> times_ok (snapshot_state s) \<and>
     p_Users d = mmap (\<lambda>_ u. persisted_of u\<lparr>pu_User := User_json (pu_User (persisted_of u))\<rparr>) (users s)"
  by (auto simp: snapshotJSON_def json_state_def snapshot_state_def split: if_splits)

lemma adopt_recovered:
  assumes "snapshotJSON s = Some d" "\<not> healthErr fresh"
  shows "adopt (mmap (\<lambda>_ u. restored_user admin hash u) (users s)) d fresh = recovered admin hash s"
  using assms by (auto simp: snapshotJSON_def json_state_def snapshot_state_def adopt_def recovered_def split: if_splits)

lemma snapshotJSON_total: "times_ok (snapshot_state s) \<Longrightarrow> \<exists>d. snapshotJSON s = Some d"
  by (simp add: snapshotJSON_def json_state_def)

lemma persist_Ok:
  "times_ok (snapshot_state (inner p)) \<Longrightarrow>
   persist ExecOk p = (Inr (), p\<lparr>row := snapshotJSON (inner p), pg_healthErr := False\<rparr>)"
  using snapshotJSON_total by (fastforce simp: persist_def)

text \<open>Saving what was loaded gives the same document, unless an account was repaired.\<close>

lemma recovered_saved:
  assumes "snapshotJSON s = Some d" "\<not> (\<exists>kv \<in> set (users s). u_PasswordHash (snd kv) = '''' \<and> Username (snd kv) = admin)"
  shows "snapshotJSON (recovered admin hash s) = Some d"
proof -
  have us: "mmap (\<lambda>_ u. restored_user admin hash u) (users s) = mmap (\<lambda>_ u. u\<lparr>Settings := obj_json (Settings u)\<rparr>) (users s)"
    using assms(2) by (auto simp: mmap_def restored_user_def)
  have "times_ok (snapshot_state (recovered admin hash s))"
    using assms(1) snapshotJSON_Some recovered_times by blast
  then have "snapshotJSON (recovered admin hash s) = Some (the (snapshotJSON (recovered admin hash s)))"
    by (simp add: snapshotJSON_def json_state_def)
  also have "the (snapshotJSON (recovered admin hash s)) = d"
    using assms(1) recovered_times [of s admin hash]
    by (auto simp: snapshotJSON_def json_state_def snapshot_state_def recovered_def us persisted_of_def json_defs comp_def
        split: if_splits)
  finally show ?thesis .
qed

section \<open>A restart\<close>

text \<open>
  \<open>load\<close> on a fresh store and a document that was saved for \<open>s\<close>: the in-memory store becomes
  \<open>recovered s\<close>, and the row holds its document.
\<close>

lemma load_saved:
  assumes "snapshotJSON s = Some d" "gen_hash E pw = Some hash" "\<not> healthErr fresh"
  shows "\<exists>p'. load ExecOk True E admin pw \<lparr>inner = fresh, row = Some d, pg_healthErr = False\<rparr> = (Inr (), p') \<and>
    inner p' = recovered admin hash s \<and> row p' = snapshotJSON (inner p') \<and> row p' \<noteq> None \<and> \<not> pg_healthErr p'"
proof -
  let ?R = "\<exists>kv \<in> set (users s). u_PasswordHash (snd kv) = '''' \<and> Username (snd kv) = admin"
  note s = snapshotJSON_Some [OF assms(1)]
  have t: "times_ok (snapshot_state (recovered admin hash s))" using s recovered_times by blast
  with snapshotJSON_total obtain d' where "snapshotJSON (recovered admin hash s) = Some d'" by blast
  moreover have "\<not> ?R \<Longrightarrow> snapshotJSON (recovered admin hash s) = Some d" by (rule recovered_saved [OF assms(1)])
  ultimately show ?thesis
    using s adopt_recovered [OF assms(1,3)] load_users_trip [OF assms(2)] persist_Ok t
    by (cases ?R) (simp_all add: load_def Let_def)
qed

section \<open>Refinement of the in-memory store\<close>

text \<open>\<open>forgets t s s'\<close>: \<open>s'\<close> is \<open>s\<close> without some shares that have expired at \<open>t\<close>.\<close>

definition forgets :: "time \<Rightarrow> store \<Rightarrow> store \<Rightarrow> bool" where
  "forgets t s s' \<longleftrightarrow> s' = s\<lparr>shares := shares s'\<rparr> \<and>
     (\<forall>k h. map_of (shares s') k = Some h \<longrightarrow> map_of (shares s) k = Some h) \<and>
     (\<forall>k h. map_of (shares s) k = Some h \<longrightarrow> map_of (shares s') k = Some h \<or> after_opt t (sh_ExpiresAt h))"

lemma forgets_refl [simp]: "forgets t s s"
  by (simp add: forgets_def)

lemma after_opt_mono: "after_opt t x \<Longrightarrow> t \<le> u \<Longrightarrow> after_opt u x"
  by (auto simp: after_opt_def split: option.splits)

lemma forgets_trans:
  assumes "forgets t s s'" "forgets u s' s''" "t \<le> v" "u \<le> v"
  shows "forgets v s s''"
proof -
  have "s'' = s\<lparr>shares := shares s''\<rparr>" using assms(1,2) unfolding forgets_def by (metis store.surjective store.update_convs(6))
  moreover have "\<And>k h. map_of (shares s'') k = Some h \<Longrightarrow> map_of (shares s) k = Some h"
    using assms(1,2) by (auto simp: forgets_def)
  moreover have "\<And>k h. map_of (shares s) k = Some h \<Longrightarrow> map_of (shares s'') k = Some h \<or> after_opt v (sh_ExpiresAt h)"
    using assms(1,2) after_opt_mono [OF _ assms(3)] after_opt_mono [OF _ assms(4)] unfolding forgets_def by blast
  ultimately show ?thesis by (auto simp: forgets_def)
qed

text \<open>The operations that are refused while the store is unhealthy.\<close>

fun guarded :: "store_op \<Rightarrow> bool" where
  "guarded (OpExchangeEnrollment _ _) = True"
| "guarded (OpCreateDeploymentCredential _ _ _) = True"
| "guarded (OpIssueDeploymentEnrollment _ _ _) = True"
| "guarded _ = False"

lemma snd_saved_after:
  "snd (saved_after r out p) = (if isl (fst out) then p\<lparr>inner := snd out\<rparr> else mutate r (p\<lparr>inner := snd out\<rparr>))"
  by (auto simp: saved_after_def split: prod.split sum.split)

lemma snd_durable_after:
  "snd (durable_after r out p) = (if isl (fst out) then p\<lparr>inner := snd out\<rparr> else mutate r (p\<lparr>inner := snd out\<rparr>))"
  by (auto simp: durable_after_def mutate_def split: prod.split sum.split)

text \<open>An operation that fails leaves the in-memory store as it was.\<close>

definition fails_clean :: "store \<Rightarrow> 'a result \<times> store \<Rightarrow> bool" where
  "fails_clean s out \<longleftrightarrow> (isl (fst out) \<longrightarrow> snd out = s)"

lemma fails_clean_leaf [simp]: "fails_clean s (Inl e, s)" "fails_clean s (Inr v, s')"
  by (simp_all add: fails_clean_def)

lemma fails_clean_UpdateUser [simp]: "fails_clean s (UpdateUser a f s)"
  by (simp add: UpdateUser_def split: option.split sum.split)

lemma fails_clean_ResetPassword: "fails_clean s (ResetPassword E a b s)"
  by (simp add: ResetPassword_def UpdateUser_def split: option.split)

lemma fails_clean_ops:
  "fails_clean s (CreateUser E a b c d s)"
  "fails_clean s (DeleteUser a s)"
  "fails_clean s (RenameUser a b s)"
  "fails_clean s (RevokeUserToken a t s)"
  "fails_clean s (DeleteOfflineDevice a s)"
  "fails_clean s (SetDeviceSettings a m s)"
  "fails_clean s (CreateShare E a b x y v t' s)"
  "fails_clean s (UpdateShare a g s)"
  "fails_clean s (RevokeShare a s)"
  "fails_clean s (CreateDeploymentCredential E a b t s)"
  "fails_clean s (RevokeDeploymentCredential E a b s)"
  "fails_clean s (IssueDeploymentEnrollment E a b t s)"
  "fails_clean s (ExchangeEnrollment E a b s)"
  "fails_clean s (CreateAsset E asset s)"
  "fails_clean s (CreateTask E task s)"
  "fails_clean s (ClaimTask E a b s)"
  "fails_clean s (SetTaskStatus E a b st res s)"
  by (simp_all add: CreateUser_def DeleteUser_def RenameUser_def RevokeUserToken_def DeleteOfflineDevice_def SetDeviceSettings_def CreateShare_def UpdateShare_def RevokeShare_def CreateDeploymentCredential_def RevokeDeploymentCredential_def IssueDeploymentEnrollment_def ExchangeEnrollment_def CreateAsset_def CreateTask_def ClaimTask_def SetTaskStatus_def Let_def
      split: option.split sum.split)

lemmas failed_same = fails_clean_ops [unfolded fails_clean_def, rule_format]
  fails_clean_UpdateUser [unfolded fails_clean_def, rule_format] fails_clean_ResetPassword [unfolded fails_clean_def, rule_format]

lemma share_readers_forget:
  assumes "mok (shares s)"
  shows "forgets (now E) s (snd (SharesFor E a s))" "forgets (now E) s (snd (ShareByCard E a s))"
    "forgets (now E) s (snd (AuthorizeShare E a b s))"
proof -
  show 1: "forgets (now E) s (snd (SharesFor E a s))" for a
    using assms by (auto simp: forgets_def SharesFor_def Let_def split: option.splits if_splits)
  show "forgets (now E) s (snd (ShareByCard E a s))"
    using 1 [of "''''"] by (auto simp: ShareByCard_def split: prod.split option.split)
  show "forgets (now E) s (snd (AuthorizeShare E a b s))"
    using assms by (auto simp: forgets_def AuthorizeShare_def split: option.splits if_splits)
qed

lemmas pg_defs = pg_CreateUser_def pg_UpsertAgentDevice_def pg_MarkOffline_def pg_TouchDevice_def
  pg_DeleteOfflineDevice_def pg_DeleteUser_def pg_UpdateUser_def pg_RenameUser_def pg_ResetPassword_def
  pg_RevokeUserToken_def pg_CreateShare_def pg_UpdateShare_def pg_RevokeShare_def pg_SharesFor_def
  pg_ShareByCard_def pg_AuthorizeShare_def pg_ReplaceTags_def pg_SetDefaultSettings_def pg_SetDeviceSettings_def
  pg_CreateEnrollment_def pg_ExchangeEnrollment_def pg_CreateDeploymentCredential_def
  pg_RevokeDeploymentCredential_def pg_IssueDeploymentEnrollment_def pg_ReplaceShortcuts_def pg_CreateAsset_def
  pg_CreateTask_def pg_ClaimTask_def pg_SetTaskStatus_def pg_MarkLeasedUnknown_def pg_Audit_def pg_Clean_def

text \<open>
  One step: a refused operation changes nothing; any other does to \<open>inner\<close> what the in-memory store
  does, and either writes the result or has at most dropped expired shares.
\<close>

lemma exec_pg_step:
  assumes "mok (shares (inner p))"
  shows "(guarded op \<and> pg_healthErr p \<longrightarrow> exec_pg (r, E, op) p = p) \<and>
    (\<not> (guarded op \<and> pg_healthErr p) \<longrightarrow>
      exec_pg (r, E, op) p = mutate r (p\<lparr>inner := exec_op (E, op) (inner p)\<rparr>) \<or>
      exec_pg (r, E, op) p = p\<lparr>inner := exec_op (E, op) (inner p)\<rparr> \<and> forgets (now E) (inner p) (exec_op (E, op) (inner p)))"
  using share_readers_forget [OF assms]
  by (cases op) (auto simp: pg_defs pg_Healthy_def snd_saved_after snd_durable_after failed_same split_beta)

lemma exec_op_shares: "mok (shares s) \<Longrightarrow> mok (shares (exec_op e s))"
  by (cases e; cases "snd e")
    (auto simp: CreateUser_def DeleteUser_def UpdateUser_def RenameUser_def ResetPassword_def RevokeUserToken_def
      DeleteOfflineDevice_def SetDeviceSettings_def CreateShare_def UpdateShare_def RevokeShare_def SharesFor_def
      ShareByCard_def AuthorizeShare_def ReplaceTags_def CreateEnrollment_def UpsertAgentDevice_def MarkOffline_def
      TouchDevice_def SetDefaultSettings_def ReplaceShortcuts_def MarkLeasedUnknown_def Audit_def auditLocked_def
      Clean_def CreateDeploymentCredential_def RevokeDeploymentCredential_def IssueDeploymentEnrollment_def
      ExchangeEnrollment_def CreateAsset_def CreateTask_def ClaimTask_def SetTaskStatus_def Let_def
      split: if_splits option.splits sum.splits prod.splits)

lemma persist_cases:
  "mutate r p = p\<lparr>pg_healthErr := True\<rparr> \<or>
   (\<exists>d. snapshotJSON (inner p) = Some d \<and> mutate r p = p\<lparr>row := Some d, pg_healthErr := r \<noteq> ExecOk\<rparr>)"
  by (auto simp: mutate_def persist_def split: option.split exec_result.split)

text \<open>The operations of a run that are not refused, in order.\<close>

fun accepted :: "(exec_result \<times> env \<times> store_op) list \<Rightarrow> pg \<Rightarrow> (env \<times> store_op) list" where
  "accepted [] p = []"
| "accepted (e # es) p =
     (if guarded (snd (snd e)) \<and> pg_healthErr p then [] else [snd e]) @ accepted es (exec_pg e p)"

text \<open>While the store is healthy, the row holds the document of \<open>inner\<close> or of \<open>inner\<close> before expired shares were dropped.\<close>

definition saved :: "time \<Rightarrow> pg \<Rightarrow> bool" where
  "saved t p \<longleftrightarrow> mok (shares (inner p)) \<and>
     (\<not> pg_healthErr p \<longrightarrow> (\<exists>s d. row p = Some d \<and> snapshotJSON s = Some d \<and> forgets t s (inner p)))"

lemma saved_now: "mok (shares (inner p)) \<Longrightarrow> snapshotJSON (inner p) = Some d \<Longrightarrow> row p = Some d \<Longrightarrow> saved t p"
  unfolding saved_def using forgets_refl by blast

lemma saved_failed: "mok (shares (inner p)) \<Longrightarrow> pg_healthErr p \<Longrightarrow> saved t p"
  by (simp add: saved_def)

lemma saved_persist: "mok (shares (inner p)) \<Longrightarrow> saved t (mutate r p)"
  using persist_cases [of r p] by (auto intro: saved_now saved_failed)

lemma inner_mutate [simp]: "inner (mutate r p) = inner p"
  by (auto simp: mutate_def persist_def split: option.split exec_result.split)

lemma saved_step:
  assumes "saved t p" "now (fst (snd e)) \<le> t"
  shows "saved t (exec_pg e p) \<and> inner (exec_pg e p) = fold exec_op (accepted [e] p) (inner p)"
proof -
  obtain r E op where e: "e = (r, E, op)" by (cases e)
  let ?s = "exec_op (E, op) (inner p)"
  have m: "mok (shares (inner p))" "mok (shares ?s)" using assms(1) exec_op_shares by (auto simp: saved_def)
  consider (refused) "guarded op" "pg_healthErr p" "exec_pg e p = p"
    | (wrote) "\<not> (guarded op \<and> pg_healthErr p)" "exec_pg e p = mutate r (p\<lparr>inner := ?s\<rparr>)"
    | (dropped) "\<not> (guarded op \<and> pg_healthErr p)" "exec_pg e p = p\<lparr>inner := ?s\<rparr>" "forgets (now E) (inner p) ?s"
    using exec_pg_step [OF m(1), of op r E] by (auto simp: e)
  then show ?thesis
  proof cases
    case refused
    with assms show ?thesis by (simp add: e)
  next
    case wrote
    with m saved_persist show ?thesis by (auto simp: e)
  next
    case dropped
    with assms m show ?thesis by (auto simp: e saved_def intro: forgets_trans [of t _ "inner p" "now E"])
  qed
qed

lemma saved_run:
  "saved t p \<Longrightarrow> \<forall>e \<in> set es. now (fst (snd e)) \<le> t \<Longrightarrow>
   saved t (fold exec_pg es p) \<and> inner (fold exec_pg es p) = fold exec_op (accepted es p) (inner p)"
proof (induction es arbitrary: p)
  case (Cons e es)
  with saved_step [of t p e] show ?case by auto
qed simp

lemma NewMemoryStore_fresh: "NewMemoryStore E a b = Inr s \<Longrightarrow> shares s = [] \<and> \<not> healthErr s"
  by (auto simp: NewMemoryStore_def CreateUser_def empty_store_def Let_def split: if_splits option.splits)

text \<open>A store that has started is saved, whether the database was empty or held an earlier document.\<close>

lemma started_saved:
  assumes "NewPostgresStore c stmt r q E0 E dsn admin pw doc = (Inr p, doc')"
    and "doc = None \<or> (\<exists>s. doc = snapshotJSON s \<and> mok (shares s))"
  shows "saved t p"
proof -
  from assms(1) obtain fresh where f: "NewMemoryStore E0 admin pw = Inr fresh"
    and l: "load r q E admin pw \<lparr>inner = fresh, row = doc, pg_healthErr = False\<rparr> = (Inr (), p)"
    by (auto simp: NewPostgresStore_def split: if_splits sum.splits prod.splits)
  note fresh = NewMemoryStore_fresh [OF f]
  show ?thesis
  proof (cases doc)
    case None
    with l fresh show ?thesis
      by (auto simp: load_def persist_def intro: saved_now split: if_splits option.splits exec_result.splits)
  next
    case (Some d)
    with assms(2) obtain s where s: "snapshotJSON s = Some d" "mok (shares s)" by auto
    obtain us rep where u: "load_users E admin pw (p_Users d) = Inr (us, rep)"
      using l Some by (auto simp: load_def split: if_splits sum.splits)
    have sh: "shares (adopt us d fresh) = mmap (\<lambda>_ h. Share_json h) (shares s)"
      using s(1) by (auto simp: adopt_def snapshotJSON_def json_state_def snapshot_state_def split: if_splits)
    show ?thesis
    proof (cases rep)
      case True
      with l Some u sh s(2) show ?thesis
        by (auto simp: load_def persist_def Let_def intro: saved_now split: if_splits option.splits exec_result.splits)
    next
      case False
      from u False snapshotJSON_Some [OF s(1)]
      have "load_users E admin pw (mmap (\<lambda>_ u. persisted_of u\<lparr>pu_User := User_json (pu_User (persisted_of u))\<rparr>) (users s)) =
        Inr (us, False)" by simp
      from load_users_unrepaired [OF this, of "''''"]
      have us: "us = mmap (\<lambda>_ u. restored_user admin '''' u) (users s)"
        and none: "\<not> (\<exists>kv \<in> set (users s). u_PasswordHash (snd kv) = '''' \<and> Username (snd kv) = admin)"
        by (rule conjunct1, rule conjunct2)
      have "inner p = recovered admin '''' s" "row p = Some d"
        using l Some u False fresh us adopt_recovered [OF s(1), of fresh admin "''''"] by (auto simp: load_def split: if_splits)
      moreover from this recovered_saved [OF s(1) none] have "snapshotJSON (inner p) = Some d" by simp
      moreover have "mok (shares (recovered admin '''' s))" using s(2) by (simp add: recovered_def)
      ultimately show ?thesis by (auto intro: saved_now)
    qed
  qed
qed

section \<open>What a restart brings back\<close>

text \<open>C14. The persistent store refines the in-memory store and survives a restart: after any run of operations,
  whatever the database answered to each write, its contents are those of the in-memory store
  after the same operations, without the credential operations that were refused while it was
  unhealthy. When the last write went through, a new process that starts on the same database has
  again these contents: every account with its password, every device, tag, credential,
  enrollment, revocation and audit event, apart from shares that had expired and from the fields
  that the document leaves out.\<close>

theorem pg_restart:
  assumes start: "NewPostgresStore c stmt r q E0 E1 dsn admin pw doc = (Inr p0, doc')"
    and earlier: "doc = None \<or> (\<exists>s. doc = snapshotJSON s \<and> mok (shares s))"
    and clock: "\<forall>e \<in> set es. now (fst (snd e)) \<le> t"
    and run: "p = fold exec_pg es p0" "\<not> pg_healthErr p"
    and restart: "migrate stmt' = Inr ()" "NewMemoryStore E2 admin' pw' = Inr fresh" "gen_hash E3 pw' = Some hash"
  shows "inner p = fold exec_op (accepted es p0) (inner p0) \<and>
    (\<exists>s p'. forgets t s (inner p) \<and>
       NewPostgresStore True stmt' ExecOk True E2 E3 dsn admin' pw' (row p) = (Inr p', row p') \<and>
       inner p' = recovered admin' hash s)"
proof -
  from saved_run [OF started_saved [OF start earlier] clock] run(1)
  have sv: "saved t p" and inner: "inner p = fold exec_op (accepted es p0) (inner p0)" by auto
  from sv run(2) obtain s d where s: "row p = Some d" "snapshotJSON s = Some d" "forgets t s (inner p)"
    by (auto simp: saved_def)
  have "\<not> healthErr fresh" "dsn \<noteq> ''''"
    using NewMemoryStore_fresh [OF restart(2)] start by (auto simp: NewPostgresStore_def split: if_splits)
  with load_saved [OF s(2) restart(3), of fresh admin'] obtain p' where
    "load ExecOk True E3 admin' pw' \<lparr>inner = fresh, row = Some d, pg_healthErr = False\<rparr> = (Inr (), p')"
    "inner p' = recovered admin' hash s" by blast
  with \<open>dsn \<noteq> ''''\<close> restart(1,2) s inner show ?thesis
    by (intro conjI exI [of _ s] exI [of _ p']) (simp_all add: NewPostgresStore_def)
qed

text \<open>A persistent store that has just started on an empty database.\<close>

definition demo_pg :: pg where
  "demo_pg = \<lparr>inner = demo_store, row = snapshotJSON demo_store, pg_healthErr = False\<rparr>"

lemma demo_store_times [simp]: "times_ok (snapshot_state demo_store)"
  by (simp add: times_ok_def snapshot_state_def demo_store_def CreateUser_def trim_root empty_store_def initial_settings_def
      obj_times_ok_def persisted_of_def no_user_def opt_time_ok_def time_json_ok_def Hour_def mmap_def Let_def)

lemma demo_pg_start:
  "NewPostgresStore True (\<lambda>_. True) ExecOk True (demo_env 10 1) (demo_env 10 1) ''dsn'' ''root'' ''secret'' None =
     (Inr demo_pg, row demo_pg)"
  by (simp add: NewPostgresStore_def migrate_def demo_store_new load_def persist_Ok demo_pg_def)

lemma demo_restart:
  assumes "snapshotJSON s = Some d"
  shows "\<exists>p' d'. NewPostgresStore True (\<lambda>_. True) ExecOk True (demo_env 10 1) (demo_env 50 5) ''dsn'' ''root'' ''secret'' (Some d) = (Inr p', d')"
proof -
  have "\<not> healthErr demo_store" using NewMemoryStore_fresh [OF demo_store_new] by simp
  from load_saved [OF assms, of "demo_env 50 5" "''secret''" _ demo_store "''root''"] this
  show ?thesis by (auto simp: NewPostgresStore_def migrate_def demo_store_new)
qed

theorem pg_restart_witness:
  "\<exists>s p'. forgets 20 s (exec_op (demo_env 20 2, OpSetDefaultSettings []) demo_store) \<and>
     NewPostgresStore True (\<lambda>_. True) ExecOk True (demo_env 10 1) (demo_env 50 5) ''dsn'' ''root'' ''secret''
       (row (exec_pg (ExecOk, demo_env 20 2, OpSetDefaultSettings []) demo_pg)) = (Inr p', row p') \<and>
     inner p' = recovered ''root'' ''hsecret'' s"
proof -
  let ?es = "[(ExecOk, demo_env 20 2, OpSetDefaultSettings [])]"
  have t: "times_ok (snapshot_state (demo_store\<lparr>defaultSettings := cloneMap []\<rparr>))"
    using demo_store_times by (simp add: times_ok_def snapshot_state_def cloneMap_def mover_def obj_times_ok_def)
  have h: "\<not> pg_healthErr (fold exec_pg ?es demo_pg)"
    using t by (simp add: pg_SetDefaultSettings_def SetDefaultSettings_def mutate_def persist_Ok demo_pg_def)
  from pg_restart [OF demo_pg_start _ _ refl h _ demo_store_new, of 20 "\<lambda>_. True" "demo_env 50 5" "''hsecret''"]
  show ?thesis by (auto simp: migrate_def demo_pg_def)
qed

text \<open>What every restart keeps exactly, also one that repairs an account or whose first write fails.\<close>

lemma restart_keeps:
  assumes "NewPostgresStore c stmt r q E0 E1 dsn admin pw (Some d) = (Inr p, doc)"
  shows "agentCredentials (inner p) = p_AgentCredentials d" "enrollments (inner p) = p_Enrollments d"
    "revokedUserTokens (inner p) = p_RevokedUserTokens d" "deploymentCredentials (inner p) = p_DeploymentCredentials d"
    "shares (inner p) = p_Shares d"
  using assms
  by (auto simp: NewPostgresStore_def load_def adopt_def persist_def Let_def
      split: if_splits sum.splits prod.splits option.splits exec_result.splits)

lemma durable_acknowledged:
  assumes "durable_after r out p = (Inr v, p1)"
  shows "out = (Inr v, inner p1)" "snapshotJSON (inner p1) \<noteq> None" "row p1 = snapshotJSON (inner p1)"
  using assms by (auto simp: durable_after_def persist_def split: prod.splits sum.splits option.splits exec_result.splits)

lemma snapshotJSON_same:
  assumes "snapshotJSON s = Some d"
  shows "p_AgentCredentials d = agentCredentials s" "p_Enrollments d = enrollments s"
    "p_RevokedUserTokens d = revokedUserTokens s" "p_DeploymentCredentials d = deploymentCredentials s"
    "p_Shares d = mmap (\<lambda>_ h. Share_json h) (shares s)"
  using assms by (auto simp: snapshotJSON_def json_state_def snapshot_state_def split: if_splits)

lemma ack_restart:
  assumes "durable_after w out p = (Inr v, p1)"
    and "NewPostgresStore c stmt r q E0 E1 dsn admin pw (row p1) = (Inr p2, doc)"
  shows "out = (Inr v, inner p1)" "agentCredentials (inner p2) = agentCredentials (inner p1)"
    "enrollments (inner p2) = enrollments (inner p1)" "revokedUserTokens (inner p2) = revokedUserTokens (inner p1)"
    "deploymentCredentials (inner p2) = deploymentCredentials (inner p1)"
proof -
  note ack = durable_acknowledged [OF assms(1)]
  then obtain d where d: "snapshotJSON (inner p1) = Some d" "row p1 = Some d" by auto
  note keep = restart_keeps [OF assms(2) [unfolded d(2)]] snapshotJSON_same [OF d(1)]
  show "out = (Inr v, inner p1)" by (rule ack(1))
  show "agentCredentials (inner p2) = agentCredentials (inner p1)"
    "enrollments (inner p2) = enrollments (inner p1)" "revokedUserTokens (inner p2) = revokedUserTokens (inner p1)"
    "deploymentCredentials (inner p2) = deploymentCredentials (inner p1)" by (simp_all only: keep)
qed

lemma exchanged_state:
  assumes "ExchangeEnrollment E tok dev s = (Inr cred, s')" "tokenDigest E' = tokenDigest E"
    and "agentCredentials s2 = agentCredentials s'" "enrollments s2 = enrollments s'"
  shows "ValidateAgentToken E' (ac_Token cred) dev s2 \<and> fst (ExchangeEnrollment E' tok dev' s2) = Inl ErrInvalidToken"
proof -
  from assms(1) have "enrollments s' = mdel (tokenDigest E tok) (enrollments s)"
    "agentCredentials s' = mput (tokenDigest E (ac_Token cred)) \<lparr>ac_Token = '''', ac_DeviceID = dev\<rparr> (agentCredentials s)"
    by (auto simp: ExchangeEnrollment_def Let_def split: option.split_asm if_split_asm)
  with assms(2-4) show ?thesis by (simp add: ValidateAgentToken_def ExchangeEnrollment_def)
qed

lemma revoked_state:
  "RevokeDeploymentCredential E cid actor s = (Inr dc, s') \<Longrightarrow>
   \<exists>saved. map_of (deploymentCredentials s') cid = Some saved \<and> RevokedAt saved \<noteq> None"
  by (auto simp: RevokeDeploymentCredential_def auditLocked_def Let_def split: option.splits if_splits)

text \<open>C15. What the store has acknowledged survives a restart, whatever happens to the database afterwards: an
  exchanged enrollment stays exchanged and the agent token that was handed out stays valid, a
  logout stays in force until the token expires, and a revoked deployment credential stays
  revoked.\<close>

theorem acknowledged_survives:
  assumes restart: "NewPostgresStore c stmt r q E0 E1 dsn admin pw (row p1) = (Inr p2, doc)" "sha256 E' = sha256 E"
  shows "(pg_ExchangeEnrollment w E tok dev p = (Inr cred, p1) \<longrightarrow>
       ValidateAgentToken E' (ac_Token cred) dev (inner p2) \<and>
       fst (ExchangeEnrollment E' tok dev' (inner p2)) = Inl ErrInvalidToken) \<and>
    (pg_RevokeUserToken w digest expires p = (Inr (), p1) \<longrightarrow>
       UserTokenRevoked E' digest (inner p2) = (now E' < expires)) \<and>
    (pg_RevokeDeploymentCredential w E cid actor p = (Inr dc, p1) \<longrightarrow>
       (\<exists>saved. map_of (deploymentCredentials (inner p2)) cid = Some saved \<and> RevokedAt saved \<noteq> None))"
proof (intro conjI impI)
  have dig: "tokenDigest E' = tokenDigest E" by (simp add: tokenDigest_def restart(2) fun_eq_iff)
  assume "pg_ExchangeEnrollment w E tok dev p = (Inr cred, p1)"
  then have "durable_after w (ExchangeEnrollment E tok dev (inner p)) p = (Inr cred, p1)"
    by (auto simp: pg_ExchangeEnrollment_def pg_Healthy_def split: if_splits)
  note ack = ack_restart [OF this restart(1)]
  from exchanged_state [OF ack(1) dig ack(2,3)]
  show "ValidateAgentToken E' (ac_Token cred) dev (inner p2)"
    "fst (ExchangeEnrollment E' tok dev' (inner p2)) = Inl ErrInvalidToken" by auto
next
  assume "pg_RevokeUserToken w digest expires p = (Inr (), p1)"
  then have "durable_after w (RevokeUserToken digest expires (inner p)) p = (Inr (), p1)"
    by (simp add: pg_RevokeUserToken_def)
  note ack = ack_restart [OF this restart(1)]
  from ack(1) have "inner p1 = (inner p)\<lparr>revokedUserTokens := mput digest expires (revokedUserTokens (inner p))\<rparr>"
    by (simp add: RevokeUserToken_def)
  with ack(4) show "UserTokenRevoked E' digest (inner p2) = (now E' < expires)" by (simp add: UserTokenRevoked_def)
next
  assume "pg_RevokeDeploymentCredential w E cid actor p = (Inr dc, p1)"
  then have "durable_after w (RevokeDeploymentCredential E cid actor (inner p)) p = (Inr dc, p1)"
    by (simp add: pg_RevokeDeploymentCredential_def)
  note ack = ack_restart [OF this restart(1)]
  from revoked_state [OF ack(1)] ack(5)
  show "\<exists>saved. map_of (deploymentCredentials (inner p2)) cid = Some saved \<and> RevokedAt saved \<noteq> None" by simp
qed

theorem acknowledged_survives_witness:
  "\<exists>p1 p2 d. pg_RevokeUserToken ExecOk ''t'' 100 demo_pg = (Inr (), p1) \<and>
     NewPostgresStore True (\<lambda>_. True) ExecOk True (demo_env 10 1) (demo_env 50 5) ''dsn'' ''root'' ''secret'' (row p1) = (Inr p2, d) \<and>
     UserTokenRevoked (demo_env 60 1) ''t'' (inner p2)"
proof -
  let ?s = "demo_store\<lparr>revokedUserTokens := mput ''t'' 100 (revokedUserTokens demo_store)\<rparr>"
  let ?p1 = "\<lparr>inner = ?s, row = snapshotJSON ?s, pg_healthErr = False\<rparr>"
  have "revokedUserTokens demo_store = []" by (simp add: demo_store_def CreateUser_def trim_root empty_store_def Let_def)
  then have t: "times_ok (snapshot_state ?s)"
    using demo_store_times by (simp add: times_ok_def snapshot_state_def time_json_ok_def Hour_def)
  then have r: "pg_RevokeUserToken ExecOk ''t'' 100 demo_pg = (Inr (), ?p1)"
    by (simp add: pg_RevokeUserToken_def RevokeUserToken_def durable_after_def persist_Ok demo_pg_def)
  from t obtain d where d: "snapshotJSON ?s = Some d" using snapshotJSON_total by blast
  from demo_restart [OF d] obtain p2 d' where n: "NewPostgresStore True (\<lambda>_. True) ExecOk True (demo_env 10 1) (demo_env 50 5)
      ''dsn'' ''root'' ''secret'' (row ?p1) = (Inr p2, d')" by (auto simp: d)
  from acknowledged_survives [OF n, of "demo_env 60 1" "demo_env 60 1" ExecOk _ _ demo_pg _ _ "''t''" 100] r n
  show ?thesis by auto
qed

text \<open>C16. A restart removes the passwords of shares: the document does not hold them. A share that was created
  with a password, was saved and has not expired is there again after the restart, but every
  visitor is let in, with any password or none.\<close>

theorem share_password_lost:
  assumes restart: "NewPostgresStore c stmt r q E0 E1 dsn admin pw (row p1) = (Inr p2, doc)"
    and "pg_CreateShare ExecOk E d user password desc vo expires p = (Inr h, p1)" "\<not> pg_healthErr p1"
    and "\<not> after_opt (now E') expires"
  shows "(\<exists>s. pg_AuthorizeShare E' (sh_Token h) attempt p2 = (Inr (Share_json h), s))"
proof -
  from assms(2) obtain s where c: "CreateShare E d user password desc vo expires (inner p) = (Inr h, s)"
    and p1: "p1 = mutate ExecOk (p\<lparr>inner := s\<rparr>)"
    by (auto simp: pg_CreateShare_def saved_after_def split: prod.splits sum.splits)
  from p1 assms(3) persist_cases [of ExecOk "p\<lparr>inner := s\<rparr>"] obtain x
    where x: "snapshotJSON s = Some x" "row p1 = Some x" by auto
  from c have s: "map_of (shares s) (sh_Token h) = Some h" "sh_ExpiresAt h = expires"
    by (auto simp: CreateShare_def Let_def split: option.splits if_splits)
  have "map_of (shares (inner p2)) (sh_Token h) = Some (Share_json h)"
    using restart_keeps(5) [OF restart [unfolded x(2)]] snapshotJSON_same(5) [OF x(1)] s by simp
  then show ?thesis
    using s(2) assms(4) by (simp add: pg_AuthorizeShare_def AuthorizeShare_def Share_json_def)
qed

definition demo_locked_share :: Share where
  "demo_locked_share =
     \<lparr>sh_Token = randomToken (demo_env 20 2) 0, CardCode = take 10 (randomToken (demo_env 20 2) 1), sh_DeviceID = ''d1'',
      ViewOnly = True, sh_PasswordHash = ''hpw'', Description = '''', sh_ExpiresAt = None, sh_CreatedBy = ''root'',
      sh_CreatedAt = 20, sh_ForbidBitrate = False, sh_ForbidFPS = False, sh_ForbidResolution = False,
      sh_ForbidAudio = False, GuestSettings = []\<rparr>"

lemma demo_locked_share_times:
  "times_ok (snapshot_state (demo_store\<lparr>shares := [(k, demo_locked_share\<lparr>sh_ExpiresAt := None\<rparr>)]\<rparr>))"
  using demo_store_times
  by (simp add: times_ok_def snapshot_state_def demo_locked_share_def opt_time_ok_def time_json_ok_def Hour_def obj_times_ok_def)

theorem share_password_lost_witness:
  "\<exists>p1 p2 d s. pg_CreateShare ExecOk (demo_env 20 2) ''d1'' ''root'' ''pw'' '''' True None demo_pg = (Inr demo_locked_share, p1) \<and>
     fst (pg_AuthorizeShare (demo_env 60 1) (sh_Token demo_locked_share) ''guess'' p1) = Inl ErrInvalidAuth \<and>
     NewPostgresStore True (\<lambda>_. True) ExecOk True (demo_env 10 1) (demo_env 50 5) ''dsn'' ''root'' ''secret'' (row p1) = (Inr p2, d) \<and>
     pg_AuthorizeShare (demo_env 60 1) (sh_Token demo_locked_share) ''guess'' p2 = (Inr (Share_json demo_locked_share), s)"
proof -
  let ?k = "sh_Token demo_locked_share"
  let ?s = "demo_store\<lparr>shares := [(?k, demo_locked_share)]\<rparr>"
  let ?p1 = "\<lparr>inner = ?s, row = snapshotJSON ?s, pg_healthErr = False\<rparr>"
  have t: "times_ok (snapshot_state ?s)"
    using demo_locked_share_times [of ?k] by (simp add: demo_locked_share_def)
  have c: "pg_CreateShare ExecOk (demo_env 20 2) ''d1'' ''root'' ''pw'' '''' True None demo_pg = (Inr demo_locked_share, ?p1)"
    using t by (simp add: pg_CreateShare_def CreateShare_def saved_after_def mutate_def persist_Ok demo_pg_def demo_store_fields
        demo_locked_share_def Let_def)
  from t obtain d where d: "snapshotJSON ?s = Some d" using snapshotJSON_total by blast
  from demo_restart [OF d] obtain p2 d' where n: "NewPostgresStore True (\<lambda>_. True) ExecOk True (demo_env 10 1) (demo_env 50 5)
      ''dsn'' ''root'' ''secret'' (row ?p1) = (Inr p2, d')" by (auto simp: d)
  have "fst (pg_AuthorizeShare (demo_env 60 1) ?k ''guess'' ?p1) = Inl ErrInvalidAuth"
    by (simp add: pg_AuthorizeShare_def AuthorizeShare_def after_opt_def demo_locked_share_def)
  with share_password_lost [OF n c, of "demo_env 60 1" "''guess''"] c n show ?thesis by (auto simp: after_opt_def)
qed

lemma times_ok_share:
  assumes "times_ok (snapshot_state s)" "map_of (shares s) k = Some h"
  shows "opt_time_ok (sh_ExpiresAt h)"
proof -
  have "list_all (\<lambda>(_, h). opt_time_ok (sh_ExpiresAt h) \<and> time_json_ok (sh_CreatedAt h) \<and> obj_times_ok (GuestSettings h)) (shares s)"
    using assms(1) by (simp add: times_ok_def snapshot_state_def)
  with map_of_SomeD [OF assms(2)] show ?thesis by (auto simp: list_all_iff)
qed

text \<open>One time beyond the year 9999 stops all saving: while a share expires that late, which repeated
  extensions reach, no write succeeds, whatever the database does; the store is unhealthy, the
  row keeps the last earlier state, and the credential operations are refused.\<close>

theorem far_expiry_stops_saving:
  assumes "map_of (shares (inner p)) k = Some h" "sh_ExpiresAt h = Some t" "3652059 * 24 * Hour \<le> t"
  shows "persist r p = (Inl ErrStore, p\<lparr>pg_healthErr := True\<rparr>) \<and>
    (guarded op \<longrightarrow> exec_pg (w, E, op) (snd (persist r p)) = snd (persist r p))"
proof -
  from times_ok_share [OF _ assms(1)] assms(2,3) have "\<not> times_ok (snapshot_state (inner p))"
    by (auto simp: opt_time_ok_def time_json_ok_def)
  then have "persist r p = (Inl ErrStore, p\<lparr>pg_healthErr := True\<rparr>)"
    by (simp add: persist_def snapshotJSON_def json_state_def)
  then show ?thesis by (cases op) (simp_all add: pg_defs pg_Healthy_def)
qed

theorem far_expiry_stops_saving_witness:
  "persist ExecOk (demo_pg\<lparr>inner := demo_store\<lparr>shares := [(''k'', demo_locked_share\<lparr>sh_ExpiresAt := Some (3652059 * 24 * Hour)\<rparr>)]\<rparr>\<rparr>) =
     (Inl ErrStore, demo_pg\<lparr>inner := demo_store\<lparr>shares := [(''k'', demo_locked_share\<lparr>sh_ExpiresAt := Some (3652059 * 24 * Hour)\<rparr>)]\<rparr>,
        pg_healthErr := True\<rparr>)"
  using far_expiry_stops_saving [of "demo_pg\<lparr>inner := demo_store\<lparr>shares := [(''k'', demo_locked_share\<lparr>sh_ExpiresAt := Some (3652059 * 24 * Hour)\<rparr>)]\<rparr>\<rparr>"
      "''k''" "demo_locked_share\<lparr>sh_ExpiresAt := Some (3652059 * 24 * Hour)\<rparr>" "3652059 * 24 * Hour" ExecOk] by simp

end
