(* ===== verification/Control.thy ===== *)
theory Control
  imports Wire Utf8 Float64
begin

text \<open>
  \<open>control.go\<close> of the agent and the reader at the other end of the control socket,
  \<open>ControlMessageReader.java\<close> of the scrcpy server. Browser events are \<open>obj\<close> values decoded from
  JSON; the encoder turns them into the byte messages of the scrcpy control protocol. The reader is
  modelled on the list of bytes still to come; Java's \<open>int\<close>, \<open>long\<close> and \<open>short\<close> are words.

  Converting a \<open>float64\<close> that is not below 2^64 to \<open>uint64\<close> has an implementation-specific result
  in Go; the range check of the source lets exactly 2^64 pass, and \<open>oor\<close> is what the conversion
  gives there.
\<close>

section \<open>Fields of an event\<close>

datatype control_error = ErrField string | ErrControl string

type_synonym 'a fallible = "control_error + 'a"

definition float_to_u64 :: "64 word \<Rightarrow> rat \<Rightarrow> 64 word" where
  "float_to_u64 oor q = (if q < 2 ^ 64 then of_int (trunc_rat q) else oor)"

definition uint64FieldDefault :: "64 word \<Rightarrow> obj \<Rightarrow> string \<Rightarrow> 64 word \<Rightarrow> (64 word) fallible" where
  "uint64FieldDefault oor event key fallback =
     (case map_of event key of
        None \<Rightarrow> Inr fallback
      | Some (AFloat q) \<Rightarrow>
          (if q < 0 \<or> q \<noteq> of_int (trunc_rat q) \<or> 2 ^ 64 < q then Inl (ErrField key) else Inr (float_to_u64 oor q))
      | Some (AInt n) \<Rightarrow> (if n < 0 then Inl (ErrField key) else Inr (of_int n))
      | Some (AUint64 w) \<Rightarrow> Inr w
      | Some (AUint32 w) \<Rightarrow> Inr (ucast w)
      | Some _ \<Rightarrow> Inl (ErrField key))"

definition uint8Field :: "64 word \<Rightarrow> obj \<Rightarrow> string \<Rightarrow> (8 word) fallible" where
  "uint8Field oor event key =
     (case uint64FieldDefault oor event key (-1) of
        Inl _ \<Rightarrow> Inl (ErrField key)
      | Inr v \<Rightarrow> (if 0xFF < v then Inl (ErrField key) else Inr (ucast v)))"

definition uint16Field :: "64 word \<Rightarrow> obj \<Rightarrow> string \<Rightarrow> (16 word) fallible" where
  "uint16Field oor event key =
     (case uint64FieldDefault oor event key (-1) of
        Inl _ \<Rightarrow> Inl (ErrField key)
      | Inr v \<Rightarrow> (if 0xFFFF < v then Inl (ErrField key) else Inr (ucast v)))"

definition uint32Field :: "64 word \<Rightarrow> obj \<Rightarrow> string \<Rightarrow> (32 word) fallible" where
  "uint32Field oor event key =
     (case uint64FieldDefault oor event key (-1) of
        Inl _ \<Rightarrow> Inl (ErrField key)
      | Inr v \<Rightarrow> (if 0xFFFFFFFF < v then Inl (ErrField key) else Inr (ucast v)))"

definition uint32FieldDefault :: "64 word \<Rightarrow> obj \<Rightarrow> string \<Rightarrow> 32 word \<Rightarrow> (32 word) fallible" where
  "uint32FieldDefault oor event key fallback =
     (case uint64FieldDefault oor event key (ucast fallback) of
        Inl _ \<Rightarrow> Inl (ErrField key)
      | Inr v \<Rightarrow> (if 0xFFFFFFFF < v then Inl (ErrField key) else Inr (ucast v)))"

definition floatFieldDefault :: "obj \<Rightarrow> string \<Rightarrow> rat \<Rightarrow> rat" where
  "floatFieldDefault event key fallback =
     (case map_of event key of Some (AFloat q) \<Rightarrow> q | _ \<Rightarrow> fallback)"

definition clamp :: "rat \<Rightarrow> rat \<Rightarrow> rat \<Rightarrow> rat" where
  "clamp v lo hi = max lo (min hi v)"

text \<open>
  The pointer id: \<open>-1\<close> is the mouse and \<open>-2\<close> a virtual finger, written as the two's complement.
\<close>

definition pointerIDField :: "64 word \<Rightarrow> obj \<Rightarrow> (64 word) fallible" where
  "pointerIDField oor event =
     (case map_of event ''id'' of
        Some (AFloat q) \<Rightarrow>
          (if q = -1 then Inr (-1) else if q = -2 then Inr (-1 - 1) else uint64FieldDefault oor event ''id'' 0)
      | Some (AInt n) \<Rightarrow>
          (if n = -1 then Inr (-1) else if n = -2 then Inr (-1 - 1) else uint64FieldDefault oor event ''id'' 0)
      | _ \<Rightarrow> uint64FieldDefault oor event ''id'' 0)"

definition positionFromEvent ::
  "64 word \<Rightarrow> obj \<Rightarrow> (32 word \<times> 32 word \<times> 16 word \<times> 16 word) fallible" where
  "positionFromEvent oor event =
     (case uint32Field oor event ''x'' of
        Inl e \<Rightarrow> Inl e
      | Inr x \<Rightarrow>
          (case uint32Field oor event ''y'' of
             Inl e \<Rightarrow> Inl e
           | Inr y \<Rightarrow>
               (case uint16Field oor event ''w'' of
                  Inl _ \<Rightarrow> Inl (ErrControl ''invalid control width'')
                | Inr w \<Rightarrow>
                    (if w = 0 then Inl (ErrControl ''invalid control width'')
                     else
                       (case uint16Field oor event ''h'' of
                          Inl _ \<Rightarrow> Inl (ErrControl ''invalid control height'')
                        | Inr h \<Rightarrow>
                            (if h = 0 then Inl (ErrControl ''invalid control height'')
                             else Inr (x, y, w, h)))))))"

text \<open>Cutting a string to at most \<open>n\<close> bytes and then to valid UTF-8, one byte at a time.\<close>

function shrink_valid :: "string \<Rightarrow> string" where
  "shrink_valid s = (if s = [] \<or> utf8_valid s then s else shrink_valid (butlast s))"
  by pat_completeness auto
termination
  by (relation "measure length") auto

declare shrink_valid.simps [simp del]

definition truncateUTF8 :: "string \<Rightarrow> nat \<Rightarrow> string" where
  "truncateUTF8 s n = shrink_valid (take n s)"

section \<open>Encoding\<close>

definition writePosition :: "32 word \<Rightarrow> 32 word \<Rightarrow> 16 word \<Rightarrow> 16 word \<Rightarrow> byte list" where
  "writePosition x y width height =
     put_be 4 (unat x) @ put_be 4 (unat y) @ put_be 2 (unat width) @ put_be 2 (unat height)"

definition encodeKeycode :: "64 word \<Rightarrow> obj \<Rightarrow> (byte list) fallible" where
  "encodeKeycode oor event =
     (case uint8Field oor event ''action'' of
        Inl e \<Rightarrow> Inl e
      | Inr action \<Rightarrow>
          (case uint32Field oor event ''keycode'' of
             Inl e \<Rightarrow> Inl e
           | Inr keycode \<Rightarrow>
               (case uint32FieldDefault oor event ''repeat'' 0 of
                  Inl e \<Rightarrow> Inl e
                | Inr repeat \<Rightarrow>
                    (case uint32FieldDefault oor event ''meta'' 0 of
                       Inl e \<Rightarrow> Inl e
                     | Inr meta \<Rightarrow>
                         Inr ([0, action] @ put_be 4 (unat keycode) @ put_be 4 (unat repeat) @ put_be 4 (unat meta))))))"

definition encodeText :: "obj \<Rightarrow> (byte list) fallible" where
  "encodeText event =
     (let text = stringField event ''text'' in
      if text = '''' then Inl (ErrControl ''control text is empty'')
      else
        (let contents = truncateUTF8 text 300 in
         Inr ([1] @ put_be 4 (length contents) @ bytes contents)))"

definition pressure_bits :: "rat \<Rightarrow> 16 word" where
  "pressure_bits p = of_int (round_away (fl (clamp p 0 1 * 65535)))"

definition encodeTouch :: "64 word \<Rightarrow> obj \<Rightarrow> (byte list) fallible" where
  "encodeTouch oor event =
     (case uint8Field oor event ''action'' of
        Inl e \<Rightarrow> Inl e
      | Inr action \<Rightarrow>
          (case pointerIDField oor event of
             Inl e \<Rightarrow> Inl e
           | Inr pointerID \<Rightarrow>
               (case positionFromEvent oor event of
                  Inl e \<Rightarrow> Inl e
                | Inr (x, y, width, height) \<Rightarrow>
                    (let pressure = (if action = 1 \<or> action = 3 then 0 else floatFieldDefault event ''pressure'' 1);
                         mouse = (pointerID = -1);
                         actionButton = (if mouse then 1 else 0);
                         buttons = (if mouse \<and> action \<noteq> 1 \<and> action \<noteq> 3 then 1 else 0)
                     in Inr ([2, action] @ put_be 8 (unat pointerID) @ writePosition x y width height @
                          put_be 2 (unat (pressure_bits pressure)) @ put_be 4 actionButton @ put_be 4 buttons)))))"

definition scroll_bits :: "rat \<Rightarrow> 16 word" where
  "scroll_bits v = of_int (round_away (fl (clamp (fl (v / 16)) (-1) 1 * 32767)))"

definition encodeScroll :: "64 word \<Rightarrow> obj \<Rightarrow> (byte list) fallible" where
  "encodeScroll oor event =
     (case positionFromEvent oor event of
        Inl e \<Rightarrow> Inl e
      | Inr (x, y, width, height) \<Rightarrow>
          (let horizontal = floatFieldDefault event ''scroll_h'' (floatFieldDefault event ''scrollH'' 0);
               vertical = floatFieldDefault event ''scroll_v'' (floatFieldDefault event ''scrollV'' 0)
           in Inr ([3] @ writePosition x y width height @ put_be 2 (unat (scroll_bits horizontal)) @
                put_be 2 (unat (scroll_bits vertical)) @ put_be 4 0)))"

definition encodeClipboard :: "64 word \<Rightarrow> obj \<Rightarrow> (byte list) fallible" where
  "encodeClipboard oor event =
     (let contents = truncateUTF8 (stringField event ''text'') (2 ^ 18 - 14) in
      case uint64FieldDefault oor event ''sequence'' 0 of
        Inl e \<Rightarrow> Inl e
      | Inr sequence \<Rightarrow>
          Inr ([9] @ put_be 8 (unat sequence) @ [if boolField event ''paste'' then 1 else 0] @
            put_be 4 (length contents) @ bytes contents))"

definition browserControlAllowed :: "obj \<Rightarrow> bool" where
  "browserControlAllowed event \<longleftrightarrow>
     stringField event ''type'' \<in> {''touch'', ''inject_keycode'', ''inject_text'', ''set_clipboard'', ''get_clipboard'',
       ''reset_video'', ''rotate_device'', ''set_display_power'', ''camera_zoom_in'', ''camera_zoom_out'',
       ''camera_torch'', ''scroll'', ''inject_scroll''}"

definition encodeControlEvent :: "64 word \<Rightarrow> obj \<Rightarrow> (byte list) fallible" where
  "encodeControlEvent oor event =
     (let t = stringField event ''type'' in
      if t = ''touch'' then encodeTouch oor event
      else if t = ''inject_keycode'' then encodeKeycode oor event
      else if t = ''inject_text'' then
        encodeClipboard oor [(''text'', AStr (stringField event ''text'')), (''paste'', ABool True)]
      else if t = ''set_clipboard'' then encodeClipboard oor event
      else if t = ''get_clipboard'' then Inr [8, 0]
      else if t = ''reset_video'' then Inr [17]
      else if t = ''request_keyframe'' then Inr [24]
      else if t = ''set_video_bitrate'' then
        (case uint32Field oor event ''bitrate'' of
           Inl _ \<Rightarrow> Inl (ErrControl ''invalid video bitrate'')
         | Inr bitrate \<Rightarrow>
             (if bitrate < 100000 \<or> 100000000 < bitrate then Inl (ErrControl ''invalid video bitrate'')
              else Inr ([23] @ put_be 4 (unat bitrate))))
      else if t = ''rotate_device'' then Inr [11]
      else if t = ''set_display_power'' then Inr [10, if boolField event ''on'' then 1 else 0]
      else if t = ''camera_zoom_in'' then Inr [19]
      else if t = ''camera_zoom_out'' then Inr [20]
      else if t = ''camera_torch'' then Inr [18, if boolField event ''on'' then 1 else 0]
      else if t = ''scroll'' \<or> t = ''inject_scroll'' then encodeScroll oor event
      else Inl (ErrControl ''unsupported scrcpy control event''))"

section \<open>The reader of the scrcpy server\<close>

record position =
  pos_x :: "32 word"
  pos_y :: "32 word"
  screenWidth :: "16 word"
  screenHeight :: "16 word"

datatype control_message =
    InjectKeycode "8 word" "32 word" "32 word" "32 word"
  | InjectText string
  | InjectTouchEvent "8 word" "64 word" position "16 word" "32 word" "32 word"
  | InjectScrollEvent position "16 word" "16 word" "32 word"
  | BackOrScreenOn "8 word"
  | GetClipboard "8 word"
  | SetClipboard "64 word" string bool
  | SetDisplayPower bool
  | Empty nat
  | UhidCreate "16 word" "16 word" "16 word" string "byte list"
  | UhidInput "16 word" "byte list"
  | UhidDestroy "16 word"
  | StartApp string
  | CameraSetTorch bool
  | ResizeDisplay "16 word" "16 word"
  | ScanFile string
  | VideoBitrate "32 word"

text \<open>
  A reader takes the bytes still to come and returns a value with the rest, or \<open>None\<close> when the
  stream ends or the message is malformed (the reader throws then). \<open>then_read\<close> runs one after
  another, \<open>readBytes n\<close> is \<open>readFully\<close>, and \<open>readWord n\<close> a big-endian integer of \<open>n\<close> bytes.
\<close>

type_synonym 'a reader = "byte list \<Rightarrow> ('a \<times> byte list) option"

definition then_read :: "'a reader \<Rightarrow> ('a \<Rightarrow> 'b reader) \<Rightarrow> 'b reader" where
  "then_read f g r = (case f r of None \<Rightarrow> None | Some (v, r') \<Rightarrow> g v r')"

definition readBytes :: "nat \<Rightarrow> (byte list) reader" where
  "readBytes n r = (case read_full n r of Inl _ \<Rightarrow> None | Inr out \<Rightarrow> Some out)"

definition readWord :: "nat \<Rightarrow> ('a :: len word) reader" where
  "readWord n = then_read (readBytes n) (\<lambda>bs r. Some (of_nat (get_be bs), r))"

definition give :: "'a \<Rightarrow> 'a reader" where
  "give v r = Some (v, r)"

definition parsePosition :: "position reader" where
  "parsePosition =
     then_read (readWord 4) (\<lambda>x. then_read (readWord 4) (\<lambda>y.
     then_read (readWord 2) (\<lambda>w. then_read (readWord 2) (\<lambda>h.
       give \<lparr>pos_x = x, pos_y = y, screenWidth = w, screenHeight = h\<rparr>))))"

text \<open>
  \<open>parseByteArray\<close> reads a length of \<open>sizeBytes\<close> bytes into an \<open>int\<close>; a length whose top bit is set
  is negative, and allocating the array throws.
\<close>

definition parseByteArray :: "nat \<Rightarrow> (byte list) reader" where
  "parseByteArray sizeBytes =
     then_read (readBytes sizeBytes) (\<lambda>bs r. if 2 ^ 31 \<le> get_be bs then None else readBytes (get_be bs) r)"

definition parseString :: "nat \<Rightarrow> string reader" where
  "parseString sizeBytes = then_read (parseByteArray sizeBytes) (\<lambda>bs. give (string_of bs))"

definition parseInjectKeycode :: "control_message reader" where
  "parseInjectKeycode =
     then_read (readWord 1) (\<lambda>action. then_read (readWord 4) (\<lambda>keycode.
     then_read (readWord 4) (\<lambda>repeat. then_read (readWord 4) (\<lambda>meta.
       give (InjectKeycode action keycode repeat meta)))))"

definition parseInjectTouchEvent :: "control_message reader" where
  "parseInjectTouchEvent =
     then_read (readWord 1) (\<lambda>action. then_read (readWord 8) (\<lambda>pointerId.
     then_read parsePosition (\<lambda>position. then_read (readWord 2) (\<lambda>pressure.
     then_read (readWord 4) (\<lambda>actionButton. then_read (readWord 4) (\<lambda>buttons.
       give (InjectTouchEvent action pointerId position pressure actionButton buttons)))))))"

definition parseInjectScrollEvent :: "control_message reader" where
  "parseInjectScrollEvent =
     then_read parsePosition (\<lambda>position. then_read (readWord 2) (\<lambda>hScroll.
     then_read (readWord 2) (\<lambda>vScroll. then_read (readWord 4) (\<lambda>buttons.
       give (InjectScrollEvent position hScroll vScroll buttons)))))"

definition parseSetClipboard :: "control_message reader" where
  "parseSetClipboard =
     then_read (readWord 8) (\<lambda>sequence. then_read (readWord 1) (\<lambda>paste :: 8 word.
     then_read (parseString 4) (\<lambda>text. give (SetClipboard sequence text (paste \<noteq> 0)))))"

definition parseUhidCreate :: "control_message reader" where
  "parseUhidCreate =
     then_read (readWord 2) (\<lambda>i. then_read (readWord 2) (\<lambda>vendorId. then_read (readWord 2) (\<lambda>productId.
     then_read (parseString 1) (\<lambda>name. then_read (parseByteArray 2) (\<lambda>descriptor.
       give (UhidCreate i vendorId productId name descriptor))))))"

definition read_control :: "control_message reader" where
  "read_control =
     then_read (readWord 1) (\<lambda>b :: 8 word.
       (let t = unat b in
        if t = 0 then parseInjectKeycode
        else if t = 1 then then_read (parseString 4) (\<lambda>text. give (InjectText text))
        else if t = 2 then parseInjectTouchEvent
        else if t = 3 then parseInjectScrollEvent
        else if t = 4 then then_read (readWord 1) (\<lambda>action. give (BackOrScreenOn action))
        else if t = 8 then then_read (readWord 1) (\<lambda>copyKey. give (GetClipboard copyKey))
        else if t = 9 then parseSetClipboard
        else if t = 10 then then_read (readWord 1) (\<lambda>on :: 8 word. give (SetDisplayPower (on \<noteq> 0)))
        else if t \<in> {5, 6, 7, 11, 15, 17, 24, 19, 20} then give (Empty t)
        else if t = 12 then parseUhidCreate
        else if t = 13 then
          then_read (readWord 2) (\<lambda>i. then_read (parseByteArray 2) (\<lambda>payload. give (UhidInput i payload)))
        else if t = 14 then then_read (readWord 2) (\<lambda>i. give (UhidDestroy i))
        else if t = 16 then then_read (parseString 1) (\<lambda>name. give (StartApp name))
        else if t = 18 then then_read (readWord 1) (\<lambda>on :: 8 word. give (CameraSetTorch (on \<noteq> 0)))
        else if t = 21 then
          then_read (readWord 2) (\<lambda>width. then_read (readWord 2) (\<lambda>height. give (ResizeDisplay width height)))
        else if t = 22 then then_read (parseString 4) (\<lambda>path. give (ScanFile path))
        else if t = 23 then then_read (readWord 4) (\<lambda>bitrate. give (VideoBitrate bitrate))
        else (\<lambda>_. None)))"

section \<open>What an event means\<close>

text \<open>
  The message that the server should see for an event, without any byte layout: the meaning of
  the encoder.
\<close>

definition touch_message :: "8 word \<Rightarrow> 64 word \<Rightarrow> position \<Rightarrow> rat \<Rightarrow> control_message" where
  "touch_message action pointer pos pressure =
     (let up = (action = 1 \<or> action = 3); mouse = (pointer = -1) in
      InjectTouchEvent action pointer pos (pressure_bits (if up then 0 else pressure)) (if mouse then 1 else 0)
        (if mouse \<and> \<not> up then 1 else 0))"

definition event_position :: "64 word \<Rightarrow> obj \<Rightarrow> position option" where
  "event_position oor event =
     (case positionFromEvent oor event of
        Inl _ \<Rightarrow> None
      | Inr (x, y, w, h) \<Rightarrow> Some \<lparr>pos_x = x, pos_y = y, screenWidth = w, screenHeight = h\<rparr>)"

definition ok_of :: "'a fallible \<Rightarrow> 'a option" where
  "ok_of v = (case v of Inl _ \<Rightarrow> None | Inr a \<Rightarrow> Some a)"

definition meaning :: "64 word \<Rightarrow> obj \<Rightarrow> control_message option" where
  "meaning oor event =
     (let t = stringField event ''type'' in
      if t = ''touch'' then
        do { action \<leftarrow> ok_of (uint8Field oor event ''action''); pointer \<leftarrow> ok_of (pointerIDField oor event);
             pos \<leftarrow> event_position oor event;
             Some (touch_message action pointer pos (floatFieldDefault event ''pressure'' 1)) }
      else if t = ''inject_keycode'' then
        do { action \<leftarrow> ok_of (uint8Field oor event ''action''); keycode \<leftarrow> ok_of (uint32Field oor event ''keycode'');
             repeat \<leftarrow> ok_of (uint32FieldDefault oor event ''repeat'' 0);
             meta \<leftarrow> ok_of (uint32FieldDefault oor event ''meta'' 0);
             Some (InjectKeycode action keycode repeat meta) }
      else if t = ''inject_text'' then
        Some (SetClipboard 0 (truncateUTF8 (stringField event ''text'') (2 ^ 18 - 14)) True)
      else if t = ''set_clipboard'' then
        do { sequence \<leftarrow> ok_of (uint64FieldDefault oor event ''sequence'' 0);
             Some (SetClipboard sequence (truncateUTF8 (stringField event ''text'') (2 ^ 18 - 14)) (boolField event ''paste'')) }
      else if t = ''get_clipboard'' then Some (GetClipboard 0)
      else if t = ''reset_video'' then Some (Empty 17)
      else if t = ''request_keyframe'' then Some (Empty 24)
      else if t = ''set_video_bitrate'' then
        do { bitrate \<leftarrow> ok_of (uint32Field oor event ''bitrate'');
             (if bitrate < 100000 \<or> 100000000 < bitrate then None else Some (VideoBitrate bitrate)) }
      else if t = ''rotate_device'' then Some (Empty 11)
      else if t = ''set_display_power'' then Some (SetDisplayPower (boolField event ''on''))
      else if t = ''camera_zoom_in'' then Some (Empty 19)
      else if t = ''camera_zoom_out'' then Some (Empty 20)
      else if t = ''camera_torch'' then Some (CameraSetTorch (boolField event ''on''))
      else if t = ''scroll'' \<or> t = ''inject_scroll'' then
        do { pos \<leftarrow> event_position oor event;
             Some (InjectScrollEvent pos
               (scroll_bits (floatFieldDefault event ''scroll_h'' (floatFieldDefault event ''scrollH'' 0)))
               (scroll_bits (floatFieldDefault event ''scroll_v'' (floatFieldDefault event ''scrollV'' 0))) 0) }
      else None)"

section \<open>Reading back what was written\<close>

lemma read_bytes [simp]: "length bs = n \<Longrightarrow> readBytes n (bs @ r) = Some (bs, r)"
  by (simp add: readBytes_def read_full_append)

lemma read_word [simp]: "readWord n (put_be n v @ r) = Some (of_nat (v mod 256 ^ n) :: 'a :: len word, r)"
  by (simp add: readWord_def then_read_def)

lemma read_byte [simp]: "readWord (Suc 0) (b # r) = Some (b :: 8 word, r)"
  using read_bytes [of "[b]" 1 r] by (simp add: readWord_def then_read_def get_be_Cons)

lemma then_read_word [simp]:
  "then_read (readWord n) f (put_be n v @ r) = f (of_nat (v mod 256 ^ n) :: 'a :: len word) r"
  by (simp add: then_read_def)

lemma then_read_byte [simp]: "then_read (readWord (Suc 0)) f (b # r) = f (b :: 8 word) r"
  by (simp add: then_read_def)

lemma then_give [simp]: "then_read (give v) f r = f v r" "give v r = Some (v, r)"
  by (simp_all add: then_read_def give_def)

lemma unat_small_16 [simp]: "unat (w :: 16 word) mod 65536 = unat w"
proof -
  have "unat w < 65536" using unsigned_less [of w] by simp
  then show ?thesis by simp
qed

lemma unat_small_32 [simp]: "unat (w :: 32 word) mod 4294967296 = unat w"
proof -
  have "unat w < 4294967296" using unsigned_less [of w] by simp
  then show ?thesis by simp
qed

lemma unat_small_64 [simp]: "unat (w :: 64 word) mod 18446744073709551616 = unat w"
proof -
  have "unat w < 18446744073709551616" using unsigned_less [of w] by simp
  then show ?thesis by simp
qed

lemma then_read_position [simp]:
  "then_read parsePosition f (writePosition x y w h @ r) =
     f \<lparr>pos_x = x, pos_y = y, screenWidth = w, screenHeight = h\<rparr> r"
  by (simp add: parsePosition_def writePosition_def then_read_def give_def)

lemma then_read_string [simp]:
  "length s < 2 ^ 31 \<Longrightarrow> then_read (parseString 4) f (put_be 4 (length s) @ bytes s @ r) = f s r"
  by (simp add: parseString_def parseByteArray_def then_read_def give_def)

lemma length_shrink_valid: "length (shrink_valid s) \<le> length s"
proof (induction s rule: shrink_valid.induct)
  case (1 s)
  show ?case
  proof (cases "s = [] \<or> utf8_valid s")
    case True
    then show ?thesis by (simp add: shrink_valid.simps [of s])
  next
    case False
    with 1 have "length (shrink_valid (butlast s)) \<le> length s" by simp
    with False show ?thesis by (simp add: shrink_valid.simps [of s])
  qed
qed

lemma length_truncateUTF8: "length (truncateUTF8 s n) \<le> n"
  using length_shrink_valid [of "take n s"] by (simp add: truncateUTF8_def)

text \<open>\<open>faithful out m\<close>: \<open>out\<close> is an error exactly if there is no message \<open>m\<close>, and otherwise bytes that the server reads as \<open>m\<close>.\<close>

definition faithful :: "(byte list) fallible \<Rightarrow> control_message option \<Rightarrow> bool" where
  "faithful out meant \<longleftrightarrow>
     (case out of
        Inl _ \<Rightarrow> meant = None
      | Inr bs \<Rightarrow> (\<exists>m. meant = Some m \<and> (\<forall>rest. read_control (bs @ rest) = Some (m, rest))))"

lemma faithful_leaf [simp]:
  "faithful (Inl e) None" "faithful (Inr bs) (Some m) \<longleftrightarrow> (\<forall>rest. read_control (bs @ rest) = Some (m, rest))"
  by (simp_all add: faithful_def)

lemma ok_of_simps [simp]: "ok_of (Inl e) = None" "ok_of (Inr v) = Some v"
  by (simp_all add: ok_of_def)

lemma encodeKeycode_faithful:
  "faithful (encodeKeycode oor event)
     (do { action \<leftarrow> ok_of (uint8Field oor event ''action''); keycode \<leftarrow> ok_of (uint32Field oor event ''keycode'');
           repeat \<leftarrow> ok_of (uint32FieldDefault oor event ''repeat'' 0);
           meta \<leftarrow> ok_of (uint32FieldDefault oor event ''meta'' 0);
           Some (InjectKeycode action keycode repeat meta) })"
  by (simp add: encodeKeycode_def read_control_def parseInjectKeycode_def split: sum.split)

lemma encodeTouch_faithful:
  "faithful (encodeTouch oor event)
     (do { action \<leftarrow> ok_of (uint8Field oor event ''action''); pointer \<leftarrow> ok_of (pointerIDField oor event);
           pos \<leftarrow> event_position oor event;
           Some (touch_message action pointer pos (floatFieldDefault event ''pressure'' 1)) })"
  by (cases "positionFromEvent oor event")
    (auto simp: encodeTouch_def event_position_def touch_message_def read_control_def parseInjectTouchEvent_def Let_def
      split: sum.split)

lemma encodeScroll_faithful:
  "faithful (encodeScroll oor event)
     (do { pos \<leftarrow> event_position oor event;
           Some (InjectScrollEvent pos
             (scroll_bits (floatFieldDefault event ''scroll_h'' (floatFieldDefault event ''scrollH'' 0)))
             (scroll_bits (floatFieldDefault event ''scroll_v'' (floatFieldDefault event ''scrollV'' 0))) 0) })"
  by (cases "positionFromEvent oor event")
    (auto simp: encodeScroll_def event_position_def read_control_def parseInjectScrollEvent_def Let_def)

lemma encodeClipboard_faithful:
  "faithful (encodeClipboard oor event)
     (do { sequence \<leftarrow> ok_of (uint64FieldDefault oor event ''sequence'' 0);
           Some (SetClipboard sequence (truncateUTF8 (stringField event ''text'') (2 ^ 18 - 14)) (boolField event ''paste'')) })"
proof -
  have "length (truncateUTF8 (stringField event ''text'') 262130) < 2 ^ 31"
    using length_truncateUTF8 [of "stringField event ''text''" 262130] by simp
  then show ?thesis
    by (simp add: encodeClipboard_def read_control_def parseSetClipboard_def Let_def split: sum.split)
qed

lemma encodeControlEvent_faithful: "faithful (encodeControlEvent oor event) (meaning oor event)"
proof -
  let ?paste = "[(''text'', AStr (stringField event ''text'')), (''paste'', ABool True)]"
  have "uint64FieldDefault oor ?paste ''sequence'' 0 = Inr 0" by (simp add: uint64FieldDefault_def)
  then have "faithful (encodeClipboard oor ?paste) (Some (SetClipboard 0 (truncateUTF8 (stringField event ''text'') (2 ^ 18 - 14)) True))"
    using encodeClipboard_faithful [of oor ?paste] by (simp add: stringField_def boolField_def)
  moreover have "faithful
     (case uint32Field oor event ''bitrate'' of
        Inl _ \<Rightarrow> Inl (ErrControl ''invalid video bitrate'')
      | Inr bitrate \<Rightarrow>
          (if bitrate < 100000 \<or> 100000000 < bitrate then Inl (ErrControl ''invalid video bitrate'')
           else Inr ([23] @ put_be 4 (unat bitrate))))
     (do { bitrate \<leftarrow> ok_of (uint32Field oor event ''bitrate'');
           (if bitrate < 100000 \<or> 100000000 < bitrate then None else Some (VideoBitrate bitrate)) })"
    by (simp add: read_control_def split: sum.split)
  ultimately show ?thesis
    using encodeTouch_faithful encodeKeycode_faithful encodeClipboard_faithful encodeScroll_faithful
    unfolding encodeControlEvent_def meaning_def Let_def by (simp add: read_control_def)
qed



end
