(* ===== verification/MediaOptions.thy ===== *)
theory MediaOptions
  imports Control ShellV2
begin

text \<open>
  \<open>media_options.go\<close>, the option half of \<open>bandwidth.go\<close> and \<open>captureArguments\<close> of
  \<open>device_capture.go\<close>: from the raw stream options of a browser to the command line of the scrcpy
  server. The loops over the map literals \<open>numeric\<close> and the bit-rate fields visit a fixed set of
  keys; they are modelled in one order, and another order changes at most which of several
  errors is reported.
\<close>

record bitrateOptions =
  Enabled :: bool
  Initial :: int
  Minimum :: int
  Maximum :: int

record streamOptions =
  Reconfigure :: bool
  Preview :: bool
  PowerOff :: bool
  Debug :: bool
  Bitrate :: bitrateOptions
  Audio :: bool
  Source :: string
  Values :: "string gomap"

definition no_bitrate :: bitrateOptions where
  "no_bitrate = \<lparr>Enabled = False, Initial = 0, Minimum = 0, Maximum = 0\<rparr>"

definition no_options :: streamOptions where
  "no_options = \<lparr>Reconfigure = False, Preview = False, PowerOff = False, Debug = False, Bitrate = no_bitrate,
     Audio = False, Source = '''', Values = []\<rparr>"

text \<open>Reading a key of a \<open>map[string]string\<close>: a missing key gives the empty string.\<close>

definition value_of :: "string gomap \<Rightarrow> string \<Rightarrow> string" where
  "value_of m k = (case map_of m k of None \<Rightarrow> '''' | Some v \<Rightarrow> v)"

section \<open>Bit rates\<close>

definition bitrate_field :: "64 word \<Rightarrow> obj \<Rightarrow> string \<Rightarrow> int \<Rightarrow> int fallible" where
  "bitrate_field oor raw key fallback =
     (if map_of raw key = None then Inr fallback
      else
        (case uint32Field oor raw key of
           Inl e \<Rightarrow> Inl (ErrField key)
         | Inr v \<Rightarrow> (if v < 100000 \<or> 100000000 < v then Inl (ErrField key) else Inr (uint v))))"

definition parseBitrateOptions :: "64 word \<Rightarrow> obj \<Rightarrow> bitrateOptions fallible" where
  "parseBitrateOptions oor raw =
     (let enabled = boolField raw ''bwe'' in
      case bitrate_field oor raw ''bitrate'' 4000000 of
        Inl e \<Rightarrow> Inl e
      | Inr initial \<Rightarrow>
          (case bitrate_field oor raw ''min_bitrate'' 100000 of
             Inl e \<Rightarrow> Inl e
           | Inr minimum \<Rightarrow>
               (case bitrate_field oor raw ''max_bitrate'' 20000000 of
                  Inl e \<Rightarrow> Inl e
                | Inr maximum \<Rightarrow>
                    (if enabled \<and> maximum < minimum then Inl (ErrControl ''minimum bitrate exceeds maximum'')
                     else
                       Inr \<lparr>Enabled = enabled,
                            Initial = (if enabled then max minimum (min initial maximum) else initial),
                            Minimum = minimum, Maximum = maximum\<rparr>))))"

section \<open>Stream options\<close>

definition format_bool :: "bool \<Rightarrow> string" where
  "format_bool b = (if b then ''true'' else ''false'')"

fun numeric_values :: "64 word \<Rightarrow> obj \<Rightarrow> (string \<times> 32 word) list \<Rightarrow> string gomap \<Rightarrow> (string gomap) fallible" where
  "numeric_values oor raw [] vs = Inr vs"
| "numeric_values oor raw ((key, maximum) # rest) vs =
     (if map_of raw key = None then numeric_values oor raw rest vs
      else
        (case uint32Field oor raw key of
           Inl e \<Rightarrow> Inl (ErrField key)
         | Inr v \<Rightarrow>
             (if maximum < v then Inl (ErrField key)
              else numeric_values oor raw rest (mput key (show_nat (unat v)) vs))))"

definition numeric_keys :: "(string \<times> 32 word) list" where
  "numeric_keys = [(''max_fps'', 240), (''max_size'', 8192), (''camera_fps'', 240)]"

definition fps_value :: "64 word \<Rightarrow> obj \<Rightarrow> string gomap \<Rightarrow> (string gomap) fallible" where
  "fps_value oor raw vs =
     (if map_of raw ''max_fps'' = None \<and> map_of raw ''fps'' \<noteq> None then
        (case uint32Field oor raw ''fps'' of
           Inl e \<Rightarrow> Inl (ErrControl ''invalid fps'')
         | Inr v \<Rightarrow>
             (if 240 < v then Inl (ErrControl ''invalid fps'') else Inr (mput ''max_fps'' (show_nat (unat v)) vs)))
      else Inr vs)"

fun bool_values :: "obj \<Rightarrow> string list \<Rightarrow> string gomap \<Rightarrow> string gomap" where
  "bool_values raw [] vs = vs"
| "bool_values raw (key # rest) vs =
     (case map_of raw key of
        Some (ABool b) \<Rightarrow> bool_values raw rest (mput key (format_bool b) vs)
      | _ \<Rightarrow> bool_values raw rest vs)"

definition line_break :: "char \<Rightarrow> bool" where
  "line_break c \<longleftrightarrow> c = CHR 0x00 \<or> c = CHR 0x0D \<or> c = CHR 0x0A"

fun string_values :: "obj \<Rightarrow> string list \<Rightarrow> string gomap \<Rightarrow> (string gomap) fallible" where
  "string_values raw [] vs = Inr vs"
| "string_values raw (key # rest) vs =
     (let v = stringField raw key in
      if v = '''' then string_values raw rest vs
      else if 1024 < length v \<or> list_ex line_break v then Inl (ErrField key)
      else string_values raw rest (mput key v vs))"

definition size_digit :: "char \<Rightarrow> bool" where
  "size_digit c \<longleftrightarrow> CHR ''0'' \<le> c \<and> c \<le> CHR ''9''"

text \<open>The pattern \<open>^[0-9]{1,5}x[0-9]{1,5}$\<close>.\<close>

definition size_pattern :: "string \<Rightarrow> bool" where
  "size_pattern s \<longleftrightarrow>
     (case split_on (CHR ''x'') s of
        [a, b] \<Rightarrow> list_all size_digit a \<and> list_all size_digit b \<and> 1 \<le> length a \<and> length a \<le> 5 \<and> 1 \<le> length b \<and> length b \<le> 5
      | _ \<Rightarrow> False)"

text \<open>
  \<open>strconv.FormatFloat(v, 'f', -1, 64)\<close> for a positive \<open>v\<close>: the fewest decimals that still denote the
  same \<open>float64\<close>. Seventeen significant digits always do, so 20 decimals are enough for a zoom of
  at least 0.1.
\<close>

fun shortest_decimals :: "nat \<Rightarrow> nat \<Rightarrow> rat \<Rightarrow> nat" where
  "shortest_decimals 0 k v = k"
| "shortest_decimals (Suc n) k v =
     (if fl (of_int (round_even (v * 10 ^ k)) / 10 ^ k) = v then k else shortest_decimals n (Suc k) v)"

definition format_float :: "rat \<Rightarrow> string" where
  "format_float v =
     (let k = shortest_decimals 20 0 v; m = nat (round_even (v * 10 ^ k)); whole = show_nat (m div 10 ^ k);
          frac = show_nat (m mod 10 ^ k)
      in if k = 0 then whole else whole @ ''.'' @ replicate (k - length frac) CHR ''0'' @ frac)"

definition zoom_value :: "obj \<Rightarrow> string gomap \<Rightarrow> (string gomap) fallible" where
  "zoom_value raw vs =
     (case map_of raw ''camera_zoom'' of
        Some (AFloat v) \<Rightarrow>
          (if v < fl (1 / 10) \<or> 100 < v then Inl (ErrControl ''invalid camera_zoom'')
           else Inr (mput ''camera_zoom'' (format_float v) vs))
      | _ \<Rightarrow> Inr vs)"

definition orientation_value :: "obj \<Rightarrow> string gomap \<Rightarrow> (string gomap) fallible" where
  "orientation_value raw vs =
     (let o1 = stringField raw ''camera_orientation'' in
      if o1 \<noteq> '''' \<and> o1 \<noteq> ''auto'' then
        (if o1 \<in> {''0'', ''90'', ''180'', ''270''} then Inr (mput ''capture_orientation'' o1 vs)
         else Inl (ErrControl ''invalid camera_orientation''))
      else Inr vs)"

text \<open>Duplication applies to playback only: it selects playback when no source is given, and is dropped for another source.\<close>

definition audio_source_values :: "string gomap \<Rightarrow> string gomap" where
  "audio_source_values vs =
     (let vs = (if value_of vs ''audio_dup'' = ''true'' \<and> value_of vs ''audio_source'' = ''''
                then mput ''audio_source'' ''playback'' vs else vs)
      in if value_of vs ''audio_source'' \<noteq> ''playback'' then mdel ''audio_dup'' vs else vs)"

definition string_keys :: "string list" where
  "string_keys = [''audio_source'', ''camera_facing'', ''camera_id'', ''camera_size'', ''camera_ar'', ''video_codec_options'']"

definition option_values :: "64 word \<Rightarrow> obj \<Rightarrow> int \<Rightarrow> string gomap \<Rightarrow> (string gomap) fallible" where
  "option_values oor raw initial vs =
     (case numeric_values oor raw numeric_keys vs of
        Inl e \<Rightarrow> Inl e
      | Inr vs \<Rightarrow>
          (case fps_value oor raw vs of
             Inl e \<Rightarrow> Inl e
           | Inr vs \<Rightarrow>
               (case string_values raw string_keys
                       (bool_values raw [''audio_dup'', ''camera_high_speed'']
                         (mput ''video_bit_rate'' (show_nat (nat initial)) vs)) of
                  Inl e \<Rightarrow> Inl e
                | Inr vs \<Rightarrow>
                    (if value_of vs ''camera_size'' \<noteq> '''' \<and> \<not> size_pattern (value_of vs ''camera_size'')
                     then Inl (ErrControl ''invalid camera_size'')
                     else
                       (case zoom_value raw vs of
                          Inl e \<Rightarrow> Inl e
                        | Inr vs \<Rightarrow>
                            (case orientation_value raw vs of
                               Inl e \<Rightarrow> Inl e
                             | Inr vs \<Rightarrow> Inr (audio_source_values vs)))))))"

definition parseStreamOptions :: "64 word \<Rightarrow> obj \<Rightarrow> bool \<Rightarrow> streamOptions fallible" where
  "parseStreamOptions oor raw preview0 =
     (let preview = (case map_of raw ''preview'' of Some (ABool b) \<Rightarrow> b | _ \<Rightarrow> preview0);
          awake = (case map_of raw ''stay_awake'' of Some (ABool b) \<Rightarrow> b | _ \<Rightarrow> \<not> preview);
          vs = mput ''power_on'' (format_bool (\<not> preview \<or> awake)) (mput ''keep_active'' (format_bool awake) []);
          source = stringField raw ''video_source''
      in case parseBitrateOptions oor raw of
           Inl e \<Rightarrow> Inl e
         | Inr bitrate \<Rightarrow>
             (if source \<noteq> '''' \<and> source \<noteq> ''display'' \<and> source \<noteq> ''camera'' then Inl (ErrControl ''unsupported video source'')
              else
                (case option_values oor raw (Initial bitrate) vs of
                   Inl e \<Rightarrow> Inl e
                 | Inr vs \<Rightarrow>
                     Inr \<lparr>Reconfigure = True, Preview = preview, PowerOff = boolField raw ''power_off'',
                          Debug = boolField raw ''debug'', Bitrate = bitrate, Audio = boolField raw ''audio'',
                          Source = (if source \<noteq> '''' then source else ''display''), Values = vs\<rparr>)))"

definition arguments :: "streamOptions \<Rightarrow> string list" where
  "arguments options =
     (let source = (if Source options = '''' then ''display'' else Source options);
          values = mover [(''video_codec_options'', ''i-frame-interval=1'')] (Values options)
      in [''video=true'', ''audio='' @ format_bool (Audio options), ''video_source='' @ source] @
         map (\<lambda>key. key @ ''='' @ value_of values key) (sort (mkeys values)))"

definition captureArguments :: "string \<Rightarrow> string \<Rightarrow> streamOptions \<Rightarrow> bool \<Rightarrow> string list" where
  "captureArguments version scid options cleanup =
     [''/'', ''com.genymobile.scrcpy.Server'', version, ''scid='' @ scid,
      ''log_level='' @ (if Debug options then ''debug'' else ''info''), ''tunnel_forward=true'',
      ''cleanup='' @ format_bool cleanup, ''control=true'', ''video_codec=h264'', ''audio_codec=opus'',
      ''send_frame_meta=true'', ''send_device_meta=true'', ''send_stream_meta=true''] @ arguments options"

section \<open>What the server is started with\<close>

text \<open>What holds of every option value: no line breaks, and numbers within their limits.\<close>

definition value_ok :: "string \<Rightarrow> string \<Rightarrow> bool" where
  "value_ok k v \<longleftrightarrow> \<not> list_ex line_break v \<and>
     (k \<in> {''max_fps'', ''camera_fps''} \<longrightarrow> (\<exists>n \<le> 240. v = show_nat n)) \<and>
     (k = ''max_size'' \<longrightarrow> (\<exists>n \<le> 8192. v = show_nat n)) \<and>
     (k = ''video_bit_rate'' \<longrightarrow> (\<exists>n. 100000 \<le> n \<and> n \<le> 100000000 \<and> v = show_nat n))"

definition known_keys :: "string set" where
  "known_keys = {''keep_active'', ''power_on'', ''max_fps'', ''max_size'', ''camera_fps'', ''video_bit_rate'', ''audio_dup'',
     ''camera_high_speed'', ''camera_zoom'', ''capture_orientation''} \<union> set string_keys"

definition values_ok :: "string gomap \<Rightarrow> bool" where
  "values_ok vs \<longleftrightarrow> mok vs \<and> (\<forall>k v. map_of vs k = Some v \<longrightarrow> value_ok k v \<and> k \<in> known_keys)"

lemma values_ok_mput [intro]: "values_ok vs \<Longrightarrow> value_ok k v \<Longrightarrow> k \<in> known_keys \<Longrightarrow> values_ok (mput k v vs)"
  by (auto simp: values_ok_def)

lemma values_ok_mdel [intro]: "values_ok vs \<Longrightarrow> values_ok (mdel k vs)"
  by (auto simp: values_ok_def restrict_map_def split: if_splits)

lemma show_nat_plain: "\<not> list_ex line_break (show_nat n)"
proof
  assume "list_ex line_break (show_nat n)"
  then obtain c where "c \<in> set (show_nat n)" "line_break c" by (auto simp: list_ex_iff)
  with show_nat_digits [of c n] show False by (auto simp: line_break_def less_eq_char_def)
qed

lemma value_ok_plain:
  "k \<notin> {''max_fps'', ''camera_fps'', ''max_size'', ''video_bit_rate''} \<Longrightarrow> \<not> list_ex line_break v \<Longrightarrow> value_ok k v"
  by (simp add: value_ok_def)

lemma format_bool_plain [simp]: "\<not> list_ex line_break (format_bool b)"
  by (simp add: format_bool_def line_break_def)

lemma value_ok_number:
  "unat v \<le> (if k = ''max_size'' then 8192 else 240) \<Longrightarrow> k \<in> {''max_fps'', ''camera_fps'', ''max_size''} \<Longrightarrow>
   value_ok k (show_nat (unat (v :: 32 word)))"
  by (auto simp: value_ok_def show_nat_plain)

lemma numeric_values_ok:
  "numeric_values oor raw ks vs = Inr vs' \<Longrightarrow> values_ok vs \<Longrightarrow>
   (\<And>k m. (k, m) \<in> set ks \<Longrightarrow> k \<in> {''max_fps'', ''camera_fps'', ''max_size''} \<and>
      unat m \<le> (if k = ''max_size'' then 8192 else 240)) \<Longrightarrow> values_ok vs'"
proof (induction oor raw ks vs rule: numeric_values.induct)
  case (2 oor raw key m rest vs)
  have k: "key \<in> {''max_fps'', ''camera_fps'', ''max_size''}" "unat m \<le> (if key = ''max_size'' then 8192 else 240)"
    using 2(5) [of key m] by auto
  have rest: "\<And>k m. (k, m) \<in> set rest \<Longrightarrow> k \<in> {''max_fps'', ''camera_fps'', ''max_size''} \<and>
      unat m \<le> (if k = ''max_size'' then 8192 else 240)" using 2(5) by auto
  show ?case
  proof (cases "map_of raw key = None")
    case True
    with 2(1,3,4) rest show ?thesis by simp
  next
    case False
    with 2(3) obtain v where v: "uint32Field oor raw key = Inr v" "\<not> m < v"
      "numeric_values oor raw rest (mput key (show_nat (unat v)) vs) = Inr vs'"
      by (auto split: sum.splits if_splits)
    from v(2) have "v \<le> m" by simp
    then have "unat v \<le> unat m" by (simp add: word_le_nat_alt)
    with k have "value_ok key (show_nat (unat v))" by (intro value_ok_number) auto
    with k 2(4) have "values_ok (mput key (show_nat (unat v)) vs)" by (auto simp: known_keys_def)
    with 2(2) [OF False v(1,2)] v(3) rest show ?thesis by blast
  qed
qed simp

lemma string_values_ok:
  "string_values raw ks vs = Inr vs' \<Longrightarrow> values_ok vs \<Longrightarrow> set ks \<subseteq> set string_keys \<Longrightarrow> values_ok vs'"
proof (induction ks arbitrary: vs)
  case (Cons key ks)
  let ?v = "stringField raw key"
  have "key \<in> set string_keys" using Cons.prems(3) by simp
  then have "key \<in> known_keys" "\<not> list_ex line_break ?v \<Longrightarrow> value_ok key ?v"
    by (auto simp: known_keys_def string_keys_def intro: value_ok_plain)
  with Cons show ?case by (cases "?v = ''''") (auto simp: Let_def split: if_splits)
qed simp

lemma bool_values_ok:
  "values_ok vs \<Longrightarrow> set ks \<subseteq> {''audio_dup'', ''camera_high_speed''} \<Longrightarrow> values_ok (bool_values raw ks vs)"
proof (induction ks arbitrary: vs)
  case (Cons key ks)
  then have "values_ok (mput key (format_bool b) vs)" for b
    by (intro values_ok_mput value_ok_plain) (auto simp: known_keys_def)
  with Cons show ?case by (auto split: option.split any.split)
qed simp

lemma audio_source_values_ok:
  "values_ok vs \<Longrightarrow> values_ok (audio_source_values vs) \<and>
   (map_of (audio_source_values vs) ''audio_dup'' \<noteq> None \<longrightarrow> value_of (audio_source_values vs) ''audio_source'' = ''playback'')"
proof -
  assume vs: "values_ok vs"
  have "value_ok ''audio_source'' ''playback''" by (rule value_ok_plain) (simp_all add: line_break_def)
  then have "values_ok (mput ''audio_source'' ''playback'' vs)"
    using vs by (intro values_ok_mput) (simp_all add: known_keys_def string_keys_def)
  with vs show ?thesis
    by (auto simp: audio_source_values_def value_of_def Let_def restrict_map_def)
qed

lemma format_float_plain: "\<not> list_ex line_break (format_float v)"
proof -
  have "\<not> list_ex line_break (show_nat a @ ''.'' @ replicate n CHR ''0'' @ show_nat b)" for a b n
  proof -
    have "\<not> list_ex line_break (replicate n CHR ''0'')" by (induction n) (simp_all add: line_break_def)
    moreover have "\<not> line_break CHR ''.''" by (simp add: line_break_def)
    ultimately show ?thesis by (simp add: show_nat_plain)
  qed
  then show ?thesis unfolding format_float_def Let_def using show_nat_plain by (simp only: split: if_split) blast
qed

lemma bitrate_field_range:
  assumes "bitrate_field oor raw key fallback = Inr v" "100000 \<le> fallback" "fallback \<le> 100000000"
  shows "100000 \<le> v \<and> v \<le> 100000000"
proof (cases "map_of raw key = None")
  case False
  with assms obtain w :: "32 word" where w: "\<not> w < 100000" "\<not> 100000000 < w" "v = uint w"
    by (auto simp: bitrate_field_def split: sum.splits if_splits)
  then show ?thesis by (simp add: word_less_def)
qed (use assms in \<open>simp add: bitrate_field_def\<close>)

definition bitrate_ok :: "bitrateOptions \<Rightarrow> bool" where
  "bitrate_ok b \<longleftrightarrow> (\<forall>x \<in> {Initial b, Minimum b, Maximum b}. 100000 \<le> x \<and> x \<le> 100000000) \<and>
     (Enabled b \<longrightarrow> Minimum b \<le> Initial b \<and> Initial b \<le> Maximum b)"

lemma parseBitrateOptions_ok:
  assumes "parseBitrateOptions oor raw = Inr b"
  shows "bitrate_ok b"
proof -
  from assms obtain i m x where f: "bitrate_field oor raw ''bitrate'' 4000000 = Inr i"
    "bitrate_field oor raw ''min_bitrate'' 100000 = Inr m" "bitrate_field oor raw ''max_bitrate'' 20000000 = Inr x"
    and b: "b = \<lparr>Enabled = boolField raw ''bwe'', Initial = (if boolField raw ''bwe'' then max m (min i x) else i),
      Minimum = m, Maximum = x\<rparr>" "\<not> (boolField raw ''bwe'' \<and> x < m)"
    by (auto simp: parseBitrateOptions_def Let_def split: sum.splits if_splits)
  from bitrate_field_range [OF f(1)] bitrate_field_range [OF f(2)] bitrate_field_range [OF f(3)] b
  show ?thesis by (auto simp: bitrate_ok_def)
qed

lemma option_values_ok:
  assumes out: "option_values oor raw initial vs = Inr vs'" and vs: "values_ok vs" and i: "100000 \<le> initial" "initial \<le> 100000000"
  shows "values_ok vs' \<and> (map_of vs' ''audio_dup'' \<noteq> None \<longrightarrow> value_of vs' ''audio_source'' = ''playback'')"
proof -
  from out obtain v1 v2 v3 v4 v5 where s: "numeric_values oor raw numeric_keys vs = Inr v1" "fps_value oor raw v1 = Inr v2"
    "string_values raw string_keys (bool_values raw [''audio_dup'', ''camera_high_speed'']
       (mput ''video_bit_rate'' (show_nat (nat initial)) v2)) = Inr v3" "zoom_value raw v3 = Inr v4"
    "orientation_value raw v4 = Inr v5" "vs' = audio_source_values v5"
    by (auto simp: option_values_def split: sum.splits if_splits)
  have "values_ok v1"
    by (rule numeric_values_ok [OF s(1) vs]) (auto simp: numeric_keys_def)
  moreover have "value_ok ''max_fps'' (show_nat (unat v))" if "\<not> (240 :: 32 word) < v" for v
  proof -
    from that have "v \<le> 240" by simp
    then have "unat v \<le> unat (240 :: 32 word)" by (simp only: word_le_nat_alt)
    then show ?thesis by (intro value_ok_number) simp_all
  qed
  ultimately have "values_ok v2"
    using s(2) by (auto simp: fps_value_def known_keys_def split: sum.splits if_splits)
  moreover have "value_ok ''video_bit_rate'' (show_nat (nat initial))"
    using i by (auto simp: value_ok_def show_nat_plain intro!: exI [of _ "nat initial"])
  ultimately have "values_ok (mput ''video_bit_rate'' (show_nat (nat initial)) v2)"
    by (intro values_ok_mput) (simp_all add: known_keys_def)
  then have "values_ok (bool_values raw [''audio_dup'', ''camera_high_speed'']
       (mput ''video_bit_rate'' (show_nat (nat initial)) v2))" by (rule bool_values_ok) simp
  then have "values_ok v3" using s(3) string_values_ok by blast
  then have "values_ok v4"
    using s(4) by (auto simp: zoom_value_def known_keys_def intro!: values_ok_mput value_ok_plain format_float_plain
        split: option.splits any.splits if_splits)
  then have "values_ok v5"
    using s(5) by (auto simp: orientation_value_def known_keys_def line_break_def Let_def intro!: values_ok_mput value_ok_plain
        split: if_splits)
  then show ?thesis unfolding s(6) by (rule audio_source_values_ok)
qed

lemma parseStreamOptions_ok:
  assumes "parseStreamOptions oor raw preview = Inr options"
  shows "bitrate_ok (Bitrate options) \<and> Source options \<in> {''display'', ''camera''} \<and> values_ok (Values options) \<and>
    (map_of (Values options) ''audio_dup'' \<noteq> None \<longrightarrow> value_of (Values options) ''audio_source'' = ''playback'')"
proof -
  from assms obtain b vs p a where b: "parseBitrateOptions oor raw = Inr b" "Bitrate options = b"
    and vs: "option_values oor raw (Initial b) (mput ''power_on'' (format_bool p) (mput ''keep_active'' (format_bool a) [])) = Inr vs"
      "Values options = vs"
    and src: "Source options \<in> {''display'', ''camera''}"
    by (auto simp: parseStreamOptions_def Let_def split: sum.splits if_splits)
  note ok = parseBitrateOptions_ok [OF b(1)]
  have "values_ok (mput ''power_on'' (format_bool p) (mput ''keep_active'' (format_bool a) []))"
    by (auto simp: values_ok_def known_keys_def intro: value_ok_plain split: if_splits)
  from option_values_ok [OF vs(1) this] ok src b(2) vs(2) show ?thesis by (simp add: bitrate_ok_def)
qed

text \<open>C18. Options that parse are well formed: every bit rate lies between 100 kbit/s and 100 Mbit/s, with
  bandwidth estimation the initial one between the two limits; the source is the display or a
  camera; every value belongs to a known option, frame rates are at most 240, sizes at most 8192
  and no value holds a line break or a NUL byte; audio duplication is on only together with the playback
  source.\<close>

theorem parsed_options_ok:
  assumes "parseStreamOptions oor raw preview = Inr options"
  shows "bitrate_ok (Bitrate options) \<and> Source options \<in> {''display'', ''camera''} \<and> values_ok (Values options) \<and>
    (map_of (Values options) ''audio_dup'' \<noteq> None \<longrightarrow> value_of (Values options) ''audio_source'' = ''playback'')"
  using assms by (rule parseStreamOptions_ok)

theorem parsed_options_ok_witness:
  "\<exists>options. parseStreamOptions 0 [(''fps'', AFloat 60), (''audio_dup'', ABool True)] False = Inr options \<and>
     values_ok (Values options) \<and> value_of (Values options) ''audio_source'' = ''playback''"
proof -
  let ?raw = "[(''fps'', AFloat 60), (''audio_dup'', ABool True)]"
  have "\<exists>options. parseStreamOptions 0 ?raw False = Inr options \<and> map_of (Values options) ''audio_dup'' \<noteq> None"
    by (simp add: parseStreamOptions_def parseBitrateOptions_def bitrate_field_def option_values_def numeric_keys_def
        fps_value_def uint32Field_def uint64FieldDefault_def float_to_u64_def trunc_rat_def string_keys_def stringField_def
        boolField_def zoom_value_def orientation_value_def audio_source_values_def value_of_def format_bool_def)
  then obtain options where o: "parseStreamOptions 0 ?raw False = Inr options" "map_of (Values options) ''audio_dup'' \<noteq> None" by blast
  from parsed_options_ok [OF o(1)] o show ?thesis by blast
qed

text \<open>The sorted keys and hence the arguments do not depend on the order in which Go visits the map.\<close>

lemma arguments_order_free:
  assumes "mok (Values options)" "mok vs" "map_of vs = map_of (Values options)"
  shows "arguments (options\<lparr>Values := vs\<rparr>) = arguments options"
proof -
  let ?b = "[(''video_codec_options'', ''i-frame-interval=1'')]"
  have rev: "map_of (rev vs) = map_of (Values options)" "map_of (rev (Values options)) = map_of (Values options)"
    using assms by (simp_all add: map_of_rev_mok fun_eq_iff)
  have same: "value_of (mover ?b vs) = value_of (mover ?b (Values options))"
    using rev by (simp add: value_of_def fun_eq_iff)
  have "set (mkeys vs) = set (mkeys (Values options))"
    using assms(3) by (metis dom_map_of_conv_image_fst set_map)
  then have "set (mkeys (mover ?b vs)) = set (mkeys (mover ?b (Values options)))"
    by (simp only: mkeys_mover_set)
  moreover have "mok (mover ?b vs)" "mok (mover ?b (Values options))" by simp_all
  ultimately have "sort (mkeys (mover ?b vs)) = sort (mkeys (mover ?b (Values options)))"
    by (intro sorted_distinct_set_unique) simp_all
  with same show ?thesis by (simp add: arguments_def Let_def)
qed

section \<open>Launching through ADB\<close>

text \<open>
  The shell line of \<open>adbDevice.Launch\<close> for a staged server at \<open>path\<close>; \<open>None\<close> when \<open>Command\<close> refuses
  an argument.
\<close>

definition launch_line :: "string \<Rightarrow> string \<Rightarrow> string \<Rightarrow> streamOptions \<Rightarrow> string option" where
  "launch_line path version scid options =
     map_option (\<lambda>line. ''CLASSPATH='' @ quote path @ '' exec '' @ line)
       (command ''app_process'' (captureArguments version scid options True))"

lemma in_mkeys_iff: "k \<in> set (mkeys m) \<longleftrightarrow> (\<exists>v. map_of m k = Some v)"
  by (metis map_of_eq_None_iff not_None_eq set_map)

lemma known_keys_plain: "k \<in> known_keys \<Longrightarrow> CHR 0x00 \<notin> set k"
proof -
  have "list_all (\<lambda>k. CHR 0x00 \<notin> set k)
    ([''keep_active'', ''power_on'', ''max_fps'', ''max_size'', ''camera_fps'', ''video_bit_rate'', ''audio_dup'',
     ''camera_high_speed'', ''camera_zoom'', ''capture_orientation''] @ string_keys)"
    by (simp add: string_keys_def)
  moreover assume "k \<in> known_keys"
  ultimately show ?thesis unfolding known_keys_def by (elim UnE insertE) (simp_all add: list_all_iff)
qed

lemma mover_values_ok:
  assumes "values_ok vs" "map_of (mover [(''video_codec_options'', ''i-frame-interval=1'')] vs) k = Some v"
  shows "CHR 0x00 \<notin> set k \<and> CHR 0x00 \<notin> set v"
proof -
  have "\<not> list_ex line_break v \<and> k \<in> known_keys"
  proof (cases "map_of (rev vs) k")
    case None
    with assms(2) show ?thesis by (auto simp: line_break_def known_keys_def string_keys_def split: if_splits)
  next
    case (Some w)
    with assms have "map_of vs k = Some v" by (simp add: values_ok_def map_of_rev_mok)
    with assms(1) show ?thesis by (auto simp: values_ok_def value_ok_def)
  qed
  moreover have "CHR 0x00 \<notin> set v" if "\<not> list_ex line_break v"
  proof
    assume "CHR 0x00 \<in> set v"
    then have "list_ex line_break v" unfolding list_ex_iff line_break_def by blast
    with that show False by simp
  qed
  ultimately show ?thesis using known_keys_plain by blast
qed

lemma arguments_no_nul:
  assumes "values_ok (Values options)" "Source options \<in> {''display'', ''camera''}" "a \<in> set (arguments options)"
  shows "CHR 0x00 \<notin> set a"
proof -
  let ?vs = "mover [(''video_codec_options'', ''i-frame-interval=1'')] (Values options)"
  have "a \<in> {''video=true'', ''audio='' @ format_bool (Audio options), ''video_source='' @ Source options} \<or>
      (\<exists>k \<in> set (mkeys ?vs). a = k @ ''='' @ value_of ?vs k)"
    using assms(2,3) by (fastforce simp: arguments_def Let_def)
  then show ?thesis
  proof (elim disjE bexE)
    assume "a \<in> {''video=true'', ''audio='' @ format_bool (Audio options), ''video_source='' @ Source options}"
    moreover have "CHR 0x00 \<notin> set (Source options)" using assms(2) by (elim insertE) simp_all
    moreover have "CHR 0x00 \<notin> set (format_bool (Audio options))" by (simp add: format_bool_def)
    ultimately show ?thesis by (elim insertE) simp_all
  next
    fix k assume k: "k \<in> set (mkeys ?vs)" "a = k @ ''='' @ value_of ?vs k"
    from k(1) obtain v where v: "map_of ?vs k = Some v" unfolding in_mkeys_iff by blast
    have "value_of ?vs k = v" by (simp only: value_of_def v option.case)
    with mover_values_ok [OF assms(1) v] show ?thesis unfolding k(2) by simp
  qed
qed

text \<open>The shell starts the scrcpy server with exactly the arguments meant: for parsed options, a version
  and an identifier without NUL bytes, the line that the agent hands to the shell assigns
  \<open>CLASSPATH\<close> the staged path and executes \<open>app_process\<close> with the arguments one by one, whatever
  quotes, blanks or operators a browser put into its option values. Every option appears as
  one \<open>key=value\<close> argument, and the arguments do not depend on the order of the map.\<close>

theorem launch_line_words:
  assumes parsed: "parseStreamOptions oor raw preview = Inr options"
    and "CHR 0x00 \<notin> set version" "CHR 0x00 \<notin> set scid"
  shows "\<exists>rest. launch_line path version scid options = Some (''CLASSPATH='' @ rest) \<and>
      sh_words rest = Some (path # ''exec'' # ''app_process'' # captureArguments version scid options True) \<and>
      (\<forall>k v. map_of (Values options) k = Some v \<longrightarrow> (k @ ''='' @ v) \<in> set (captureArguments version scid options True)) \<and>
      (\<forall>vs. mok vs \<and> map_of vs = map_of (Values options) \<longrightarrow> arguments (options\<lparr>Values := vs\<rparr>) = arguments options)"
proof -
  let ?args = "captureArguments version scid options True"
  note ok = parseStreamOptions_ok [OF parsed]
  have "\<forall>w \<in> set (''app_process'' # ?args). CHR 0x00 \<notin> set w"
    using arguments_no_nul [of options] ok assms(2,3) by (simp add: captureArguments_def format_bool_def)
  then have line: "command ''app_process'' ?args = Some (join_with [CHR 0x20] (map quote (''app_process'' # ?args)))"
    unfolding command_def Let_def list_ex_iff by (simp only: if_not_P bex_simps not_False_eq_True ball_simps)
  have "sh_words (quote path @ '' exec '' @ join_with [CHR 0x20] (map quote (''app_process'' # ?args))) =
      Some (path # ''exec'' # ''app_process'' # ?args)"
    using sh_words_quotes [of "''app_process'' # ?args"] by (simp add: sh_words_def sh_plain_quote sh_special_def del: list.map)
  moreover have "(k @ ''='' @ v) \<in> set ?args" if "map_of (Values options) k = Some v" for k v
  proof -
    let ?vs = "mover [(''video_codec_options'', ''i-frame-interval=1'')] (Values options)"
    have "mok (Values options)" using ok by (simp add: values_ok_def)
    with that have v: "map_of ?vs k = Some v" by (simp add: map_of_rev_mok)
    have "k \<in> set (sort (mkeys ?vs))" unfolding set_sort in_mkeys_iff using v by blast
    moreover have "value_of ?vs k = v" by (simp only: value_of_def v option.case)
    ultimately have "k @ ''='' @ v \<in> set (map (\<lambda>key. key @ ''='' @ value_of ?vs key) (sort (mkeys ?vs)))" by force
    then show ?thesis by (simp add: captureArguments_def arguments_def Let_def)
  qed
  ultimately show ?thesis
    using line arguments_order_free [of options] ok by (auto simp: launch_line_def values_ok_def)
qed

theorem launch_line_words_witness:
  "\<exists>options rest args. parseStreamOptions 0 [(''camera_id'', AStr ''0; reboot'')] False = Inr options \<and>
     launch_line ''/data/x.jar'' ''4.1'' ''1f'' options = Some (''CLASSPATH='' @ rest) \<and>
     sh_words rest = Some (''/data/x.jar'' # ''exec'' # ''app_process'' # args)"
proof -
  let ?raw = "[(''camera_id'', AStr ''0; reboot'')]"
  have "\<exists>options. parseStreamOptions 0 ?raw False = Inr options"
    by (simp add: parseStreamOptions_def parseBitrateOptions_def bitrate_field_def option_values_def numeric_keys_def
        fps_value_def string_keys_def stringField_def boolField_def zoom_value_def orientation_value_def
        audio_source_values_def value_of_def format_bool_def line_break_def)
  then obtain options where o: "parseStreamOptions 0 ?raw False = Inr options" ..
  from launch_line_words [OF o, of "''4.1''" "''1f''" "''/data/x.jar''"] o show ?thesis by auto
qed

end
