(* ===== verification/Bridge.thy ===== *)
theory Bridge
  imports MediaOptions ScrcpyProtocol
begin

text \<open>
  \<open>scrcpy.go\<close> and \<open>VideoCodec\<close> of \<open>h264.go\<close>: the bridge between the agent and one scrcpy server. Its
  state is the record \<open>bridge\<close>: the running capture process (a number that no other capture has),
  the options it was started with, the control queue, the control connection, the codec of the
  stream and its size. Launching, stopping and the wait for the first codec configuration reach
  outside the program; what they answer is a parameter. The goroutines of a capture appear as
  the steps they take under the lock: \<open>video_packet\<close> for a packet that \<open>attachVideo\<close> has read,
  \<open>captureFailed\<close> for its end, \<open>write_control\<close> for the control writer.
\<close>

record bridge =
  process :: "nat option"
  br_control :: "obj list"
  controlConn :: "nat option"
  br_options :: streamOptions
  videoCodec :: string
  videoReady :: bool
  captureErr :: "string option"
  br_width :: "32 word"
  br_height :: "32 word"

definition newScrcpyBridge :: bridge where
  "newScrcpyBridge =
     \<lparr>process = None, br_control = [], controlConn = None, br_options = no_options, videoCodec = '''',
      videoReady = False, captureErr = None, br_width = 0, br_height = 0\<rparr>"

text \<open>What the outside answers to one call: the server file, the launched process, the end of the stopped one.\<close>

record capture_env =
  jar_ok :: bool
  launched :: "nat option"
  stop_ok :: bool

section \<open>Starting and stopping\<close>

text \<open>
  \<open>stopLocked\<close> closes the control connection, on the device itself after switching the display on
  again when it was switched off for this capture, and waits for the process; the second component
  is what was written to the control connection.
\<close>

definition stopLocked :: "capture_env \<Rightarrow> bool \<Rightarrow> bridge \<Rightarrow> bool \<times> byte list \<times> bridge" where
  "stopLocked C adb b =
     (let farewell = (if controlConn b \<noteq> None \<and> \<not> adb \<and> PowerOff (br_options b) \<and> Source (br_options b) \<noteq> ''camera''
                      then [10, 1] else []);
          b' = b\<lparr>process := None, videoReady := False, controlConn := None\<rparr>
      in (process b = None \<or> stop_ok C, farewell, b'))"

definition startLocked :: "capture_env \<Rightarrow> streamOptions \<Rightarrow> bridge \<Rightarrow> string option \<times> bridge" where
  "startLocked C options b =
     (if \<not> jar_ok C then (Some ''scrcpy server jar is missing'', b)
      else
        (case launched C of
           None \<Rightarrow> (Some ''launch'', b)
         | Some pid \<Rightarrow>
             (None, b\<lparr>process := Some pid, br_options := options, videoCodec := '''', videoReady := True, captureErr := None\<rparr>)))"

definition Start :: "capture_env \<Rightarrow> bool \<Rightarrow> streamOptions \<Rightarrow> bridge \<Rightarrow> string option \<times> byte list \<times> bridge" where
  "Start C adb options b =
     (if process b \<noteq> None then
        (if Preview options \<and> \<not> Reconfigure options then (None, [], b)
         else if PowerOff options = PowerOff (br_options b) \<and> Debug options = Debug (br_options b) \<and>
             join_with '' '' (arguments options) = join_with '' '' (arguments (br_options b))
         then (None, [], b\<lparr>br_options := options\<rparr>)
         else
           (case stopLocked C adb b of
              (ok, farewell, b') \<Rightarrow>
                (if \<not> ok then (Some ''scrcpy did not stop'', farewell, b')
                 else (let (e, b'') = startLocked C options b' in (e, farewell, b'')))))
      else (let (e, b') = startLocked C options b in (e, [], b')))"

definition bridge_Stop :: "capture_env \<Rightarrow> bool \<Rightarrow> bridge \<Rightarrow> bool \<times> byte list \<times> bridge" where
  "bridge_Stop C adb b = stopLocked C adb b"

text \<open>The report of a failed capture counts only while that capture is the current one.\<close>

definition captureFailed :: "capture_env \<Rightarrow> bool \<Rightarrow> nat \<Rightarrow> string \<Rightarrow> bridge \<Rightarrow> bool \<times> bridge" where
  "captureFailed C adb pid err b =
     (if process b \<noteq> Some pid then (False, b)
      else (True, snd (snd (stopLocked C adb (b\<lparr>captureErr := Some err\<rparr>)))))"

definition currentOptions :: "bridge \<Rightarrow> streamOptions" where
  "currentOptions b = (if process b = None then no_options else br_options b)"

text \<open>\<open>VideoCodec\<close> after its wait; \<open>waited\<close> says that the configuration arrived in time.\<close>

definition VideoCodec :: "bool \<Rightarrow> bridge \<Rightarrow> string + string" where
  "VideoCodec waited b =
     (if videoReady b \<and> \<not> waited then Inl ''waiting for scrcpy H.264 configuration timed out''
      else
        (case captureErr b of
           Some e \<Rightarrow> Inl e
         | None \<Rightarrow>
             (if process b = None \<or> videoCodec b = '''' then Inl ''scrcpy has no H.264 configuration''
              else Inr (videoCodec b))))"

section \<open>The video stream\<close>

text \<open>
  One packet in the loop of \<open>attachVideo\<close> for the capture \<open>pid\<close>; \<open>cfg\<close> is the codec configuration
  seen last. A configuration is remembered and sets the codec, a session packet sets the size, and
  a media packet is published, a key frame with the configuration in front unless it has it.
\<close>

definition video_packet ::
  "nat \<Rightarrow> mediaPacket \<Rightarrow> byte list \<times> bridge \<Rightarrow> mediaPacket option \<times> byte list \<times> bridge" where
  "video_packet pid pkt st =
     (let (cfg, b) = st in
      if Config pkt then
        (None, Data pkt,
         (if process b = Some pid then
            (let codec = h264ProfileLevel (Data pkt) in
             b\<lparr>videoCodec := codec, videoReady := (videoReady b \<and> codec = '''')\<rparr>)
          else b))
      else if Session pkt then (None, cfg, b\<lparr>br_width := Width pkt, br_height := Height pkt\<rparr>)
      else
        (let pkt = (if KeyFrame pkt \<and> cfg \<noteq> [] \<and> \<not> prefix cfg (Data pkt)
                       then pkt\<lparr>Data := cfg @ Data pkt\<rparr> else pkt)
         in (Some pkt, cfg, b)))"

fun video_packets :: "nat \<Rightarrow> mediaPacket list \<Rightarrow> byte list \<times> bridge \<Rightarrow> mediaPacket list \<times> byte list \<times> bridge" where
  "video_packets pid [] st = ([], st)"
| "video_packets pid (p # ps) st =
     (let (out, st1) = video_packet pid p st; (rest, st2) = video_packets pid ps st1 in
      ((case out of None \<Rightarrow> rest | Some q \<Rightarrow> q # rest), st2))"

section \<open>The control connection\<close>

definition float_to_u32 :: "32 word \<Rightarrow> rat \<Rightarrow> 32 word" where
  "float_to_u32 oor q = (if q < 2 ^ 32 then of_int (trunc_rat q) else oor)"

text \<open>
  A position is scaled from the size of the browser's view to the size of the stream.
\<close>

definition scale :: "32 word \<Rightarrow> 32 word \<Rightarrow> 32 word \<Rightarrow> 16 word \<Rightarrow> rat" where
  "scale oor x full w = of_nat (unat (float_to_u32 oor (fl (fl (of_nat (unat x) * of_nat (unat full)) / of_nat (unat w)))))"

definition remapControlPosition :: "64 word \<Rightarrow> 32 word \<Rightarrow> obj \<Rightarrow> 32 word \<Rightarrow> 32 word \<Rightarrow> obj" where
  "remapControlPosition oor oor32 event width height =
     (if stringField event ''type'' \<notin> {''touch'', ''scroll'', ''inject_scroll''} then event
      else
        (case positionFromEvent oor event of
           Inl _ \<Rightarrow> event
         | Inr (x, y, w, h) \<Rightarrow>
             mput ''h'' (AFloat (of_nat (unat height))) (mput ''w'' (AFloat (of_nat (unat width)))
               (mput ''y'' (AFloat (scale oor32 y height h)) (mput ''x'' (AFloat (scale oor32 x width w)) (mover [] event))))))"

definition EnqueueControl :: "64 word \<Rightarrow> 32 word \<Rightarrow> obj \<Rightarrow> bridge \<Rightarrow> bool \<times> bridge" where
  "EnqueueControl oor oor32 message b =
     (let message = (if 0 < br_width b \<and> 0 < br_height b
                     then remapControlPosition oor oor32 message (br_width b) (br_height b) else message)
      in if length (br_control b) < 256 then (True, b\<lparr>br_control := br_control b @ [message]\<rparr>) else (False, b))"

definition setControlConn :: "bool \<Rightarrow> nat \<Rightarrow> bridge \<Rightarrow> bool \<times> bridge" where
  "setControlConn cancelled conn b = (if cancelled then (False, b) else (True, b\<lparr>controlConn := Some conn\<rparr>))"

definition clearControlConn :: "nat \<Rightarrow> bridge \<Rightarrow> bridge" where
  "clearControlConn conn b = (if controlConn b = Some conn then b\<lparr>controlConn := None\<rparr> else b)"

text \<open>One turn of \<open>writeControls\<close>: the bytes for the event at the head of the queue, none if it does not encode.\<close>

definition write_control :: "64 word \<Rightarrow> bridge \<Rightarrow> byte list \<times> bridge" where
  "write_control oor b =
     (case br_control b of
        [] \<Rightarrow> ([], b)
      | event # rest \<Rightarrow>
          ((case encodeControlEvent oor event of Inl _ \<Rightarrow> [] | Inr bs \<Rightarrow> bs), b\<lparr>br_control := rest\<rparr>))"

text \<open>Messages of the server on the control connection.\<close>

definition readDeviceMessage :: "byte list \<Rightarrow> (obj option \<times> byte list) option" where
  "readDeviceMessage r =
     (case r of
        [] \<Rightarrow> None
      | kind # r \<Rightarrow>
          (if kind = 0 then
             (case read_full 4 r of
                Inl _ \<Rightarrow> None
              | Inr (bs, r) \<Rightarrow>
                  (if 2 ^ 18 - 5 < get_be bs then None
                   else
                     (case read_full (get_be bs) r of
                        Inl _ \<Rightarrow> None
                      | Inr (text, r) \<Rightarrow>
                          Some (Some [(''type'', AStr ''clipboard''), (''text'', AStr (string_of text)), (''source'', AStr ''device'')], r))))
           else if kind = 1 then
             (case read_full 8 r of Inl _ \<Rightarrow> None | Inr (_, r) \<Rightarrow> Some (None, r))
           else if kind = 2 then
             (case read_full 4 r of
                Inl _ \<Rightarrow> None
              | Inr (bs, r) \<Rightarrow>
                  (case read_full (get_be (drop 2 bs)) r of Inl _ \<Rightarrow> None | Inr (_, r) \<Rightarrow> Some (None, r)))
           else None))"

lemma readDeviceMessage_shorter: "readDeviceMessage r = Some (m, r') \<Longrightarrow> length r' < length r"
  by (auto simp: readDeviceMessage_def read_full_Inr split: list.splits if_splits sum.splits prod.splits)

function readDeviceMessages :: "byte list \<Rightarrow> obj list" where
  "readDeviceMessages r =
     (case readDeviceMessage r of
        None \<Rightarrow> []
      | Some (m, r') \<Rightarrow> (case m of None \<Rightarrow> [] | Some message \<Rightarrow> [message]) @ readDeviceMessages r')"
  by pat_completeness auto
termination
  by (relation "measure length") (auto dest: readDeviceMessage_shorter)

declare readDeviceMessages.simps [simp del]

section \<open>What viewers and browsers receive\<close>

text \<open>\<open>DeviceMessageWriter\<close> of the scrcpy server: clipboard texts, acknowledgements and output of virtual devices.\<close>

datatype device_message = DeviceClipboard string | AckClipboard "64 word" | UhidOutput "16 word" "byte list"

text \<open>The length to which a text is cut, at the start of a character; Java strings encode to valid UTF-8.\<close>

fun character_start :: "byte list \<Rightarrow> nat \<Rightarrow> nat" where
  "character_start bs 0 = 0"
| "character_start bs (Suc n) = (if 0x80 \<le> bs ! Suc n \<and> bs ! Suc n < 0xC0 then character_start bs n else Suc n)"

definition getUtf8TruncationIndex :: "byte list \<Rightarrow> nat \<Rightarrow> nat" where
  "getUtf8TruncationIndex bs limit = (if length bs \<le> limit then length bs else character_start bs limit)"

definition sent_text :: "string \<Rightarrow> string" where
  "sent_text text = take (getUtf8TruncationIndex (bytes text) (2 ^ 18 - 5)) text"

fun write_device_message :: "device_message \<Rightarrow> byte list" where
  "write_device_message (DeviceClipboard text) = [0] @ put_be 4 (length (sent_text text)) @ bytes (sent_text text)"
| "write_device_message (AckClipboard sequence) = [1] @ put_be 8 (unat sequence)"
| "write_device_message (UhidOutput i payload) = [2] @ put_be 2 (unat i) @ put_be 2 (length payload) @ payload"

fun device_message_ok :: "device_message \<Rightarrow> bool" where
  "device_message_ok (DeviceClipboard text) = True"
| "device_message_ok (AckClipboard _) = True"
| "device_message_ok (UhidOutput _ payload) = (length payload < 2 ^ 16)"

definition clipboard_event :: "string \<Rightarrow> obj" where
  "clipboard_event text = [(''type'', AStr ''clipboard''), (''text'', AStr text), (''source'', AStr ''device'')]"

fun clipboard_texts :: "device_message list \<Rightarrow> string list" where
  "clipboard_texts [] = []"
| "clipboard_texts (DeviceClipboard text # ms) = sent_text text # clipboard_texts ms"
| "clipboard_texts (_ # ms) = clipboard_texts ms"

lemma character_start_le: "character_start bs n \<le> n"
  by (induction n) auto

lemma sent_text_length: "length (sent_text text) \<le> 2 ^ 18 - 5"
  using character_start_le [of "bytes text" "2 ^ 18 - 5"] by (simp add: sent_text_def getUtf8TruncationIndex_def)

lemma sent_text_short: "length text \<le> 2 ^ 18 - 5 \<Longrightarrow> sent_text text = text"
  by (simp add: sent_text_def getUtf8TruncationIndex_def)

lemma readDeviceMessage_written:
  assumes "device_message_ok m"
  shows "readDeviceMessage (write_device_message m @ r) =
     Some (case m of DeviceClipboard text \<Rightarrow> Some (clipboard_event (sent_text text)) | _ \<Rightarrow> None, r)"
proof (cases m)
  case (DeviceClipboard t)
  with sent_text_length [of t] show ?thesis
    by (simp add: readDeviceMessage_def clipboard_event_def read_full_append)
next
  case (AckClipboard s)
  then show ?thesis by (simp add: readDeviceMessage_def read_full_append)
next
  case (UhidOutput i payload)
  with assms read_full_append [of "put_be 2 (unat i) @ put_be 2 (length payload)" 4 "payload @ r"]
  show ?thesis by (simp add: readDeviceMessage_def read_full_append)
qed

text \<open>Clipboard texts of the device reach the publisher complete and in order: from the byte stream that the
  server's writer makes of any sequence of messages, the reader publishes exactly the clipboard
  texts, each cut to the limit of the writer, skips acknowledgements and output of virtual devices, and stops at the end of the stream
  or at a message it does not know.\<close>

theorem device_messages_published:
  assumes "list_all device_message_ok ms" "rest = [] \<or> 2 < unat (hd rest)"
  shows "readDeviceMessages (concat (map write_device_message ms) @ rest) = map clipboard_event (clipboard_texts ms)"
  using assms(1)
proof (induction ms)
  case Nil
  have "readDeviceMessage rest = None" using assms(2) by (cases rest) (auto simp: readDeviceMessage_def)
  then show ?case by (subst readDeviceMessages.simps) simp
next
  case (Cons m ms)
  then have "readDeviceMessages (write_device_message m @ concat (map write_device_message ms) @ rest) =
      (case m of DeviceClipboard text \<Rightarrow> [clipboard_event (sent_text text)] | _ \<Rightarrow> []) @ map clipboard_event (clipboard_texts ms)"
    by (subst readDeviceMessages.simps) (simp add: readDeviceMessage_written split: device_message.split)
  then show ?case by (cases m) simp_all
qed

theorem device_messages_published_witness:
  "readDeviceMessages (concat (map write_device_message [AckClipboard 7, DeviceClipboard ''hi'']) @ [9]) =
     [clipboard_event ''hi'']"
  using device_messages_published [of "[AckClipboard 7, DeviceClipboard ''hi'']" "[9]"] by (simp add: sent_text_short)

text \<open>The packets of a stream that are published, as they come from the server.\<close>

definition media_only :: "mediaPacket list \<Rightarrow> mediaPacket list" where
  "media_only ps = filter (\<lambda>p. \<not> Config p \<and> \<not> Session p) ps"

text \<open>The frame of a packet as it is published when \<open>cfg\<close> is the current configuration.\<close>

definition published :: "byte list \<Rightarrow> mediaPacket \<Rightarrow> mediaPacket \<Rightarrow> bool" where
  "published cfg p q \<longleftrightarrow> (if KeyFrame p then \<exists>d. q = p\<lparr>Data := d\<rparr> \<and> suffix (Data p) d \<and> prefix cfg d else q = p)"

lemma video_packets_append:
  "video_packets pid (xs @ ys) st =
     (let (o1, st1) = video_packets pid xs st; (o2, st2) = video_packets pid ys st1 in (o1 @ o2, st2))"
  by (induction xs arbitrary: st) (auto simp: split_beta Let_def split: option.split)

lemma video_packets_media:
  "list_all (\<lambda>p. \<not> Config p) ps \<Longrightarrow> cfg \<noteq> [] \<Longrightarrow>
   list_all2 (published cfg) (media_only ps) (fst (video_packets pid ps (cfg, b)))"
proof (induction ps arbitrary: b)
  case (Cons p ps)
  show ?case
  proof (cases "Session p")
    case True
    with Cons show ?thesis by (simp add: media_only_def video_packet_def split_beta Let_def)
  next
    case False
    let ?q = "if KeyFrame p \<and> \<not> prefix cfg (Data p) then p\<lparr>Data := cfg @ Data p\<rparr> else p"
    have "published cfg p ?q"
      by (cases "prefix cfg (Data p)") (auto simp: published_def suffix_def intro: exI [of _ "Data p"])
    with False Cons show ?thesis by (auto simp: media_only_def video_packet_def split_beta Let_def split: if_splits)
  qed
qed (simp add: media_only_def)

lemma media_packets_before:
  "length (fst (video_packets pid ps st)) = length (media_only ps)"
  by (induction ps arbitrary: st) (auto simp: media_only_def video_packet_def split_beta Let_def)

lemma video_packets_process [simp]: "process (snd (snd (video_packets pid ps st))) = process (snd st)"
  by (induction ps arbitrary: st) (simp_all add: video_packet_def split_beta Let_def)

lemma video_packets_codec:
  "list_all (\<lambda>p. \<not> Config p) ps \<Longrightarrow> videoCodec (snd (snd (video_packets pid ps st))) = videoCodec (snd st)"
  by (induction ps arbitrary: st) (simp_all add: video_packet_def split_beta Let_def)

text \<open>A viewer can start decoding at any key frame: after the server has sent a codec configuration, every
  packet of the stream is published in order with its time stamp, and every key frame starts
  with that configuration and ends with the encoder's data, until another configuration comes.
  The codec of the running capture is then the profile of that configuration.\<close>

theorem key_frames_carry_configuration:
  assumes "Config c" "Data c \<noteq> []" "list_all (\<lambda>p. \<not> Config p) ps"
  shows "\<exists>before after cfg b'. video_packets pid (earlier @ c # ps) (cfg0, b) = (before @ after, cfg, b') \<and>
    length before = length (media_only earlier) \<and> list_all2 (published (Data c)) (media_only ps) after \<and>
    (process b = Some pid \<longrightarrow> videoCodec b' = h264ProfileLevel (Data c))"
proof -
  obtain o1 cfg1 b1 where e: "video_packets pid earlier (cfg0, b) = (o1, cfg1, b1)" by (rule prod_cases3)
  let ?b2 = "snd (snd (video_packet pid c (cfg1, b1)))"
  obtain o2 cfg2 b2 where m: "video_packets pid ps (Data c, ?b2) = (o2, cfg2, b2)" by (rule prod_cases3)
  have "video_packets pid (c # ps) (cfg1, b1) = (o2, cfg2, b2)"
    using m assms(1) by (simp add: video_packet_def split_beta Let_def)
  with e have "video_packets pid (earlier @ c # ps) (cfg0, b) = (o1 @ o2, cfg2, b2)"
    by (simp add: video_packets_append)
  moreover have "length o1 = length (media_only earlier)" using media_packets_before [of pid earlier "(cfg0, b)"] e by simp
  moreover have "list_all2 (published (Data c)) (media_only ps) o2"
    using video_packets_media [OF assms(3,2), of pid ?b2] m by simp
  moreover have "videoCodec b2 = h264ProfileLevel (Data c)" if "process b = Some pid"
  proof -
    have "process b1 = Some pid" using video_packets_process [of pid earlier "(cfg0, b)"] e that by simp
    then have "videoCodec ?b2 = h264ProfileLevel (Data c)" using assms(1) by (simp add: video_packet_def Let_def)
    with video_packets_codec [OF assms(3), of pid "(Data c, ?b2)"] m show ?thesis by simp
  qed
  ultimately show ?thesis by blast
qed

definition demo_packet :: "bool \<Rightarrow> bool \<Rightarrow> byte list \<Rightarrow> mediaPacket" where
  "demo_packet config key payload = no_packet\<lparr>Config := config, KeyFrame := key, Data := payload\<rparr>"

theorem key_frames_carry_configuration_witness:
  "\<exists>before after cfg b'. video_packets 1 ([] @ demo_packet True False [0, 0, 1, 7, 66, 192, 31] # [demo_packet False True [5]])
      ([], newScrcpyBridge\<lparr>process := Some 1\<rparr>) = (before @ after, cfg, b') \<and>
    list_all2 (published [0, 0, 1, 7, 66, 192, 31]) [demo_packet False True [5]] after \<and> videoCodec b' = ''42c01f''"
proof -
  let ?c = "demo_packet True False [0, 0, 1, 7, 66, 192, 31]"
  have s: "Config ?c" "Data ?c = [0, 0, 1, 7, 66, 192, 31]" "list_all (\<lambda>p. \<not> Config p) [demo_packet False True [5]]"
    "media_only [demo_packet False True [5]] = [demo_packet False True [5]]"
    by (simp_all add: demo_packet_def no_packet_def media_only_def)
  have h: "h264ProfileLevel [0, 0, 1, 7, 66, 192, 31] = ''42c01f''"
    by (simp add: hex2_def hex_digit_def)
  have n: "Data ?c \<noteq> []" by (simp add: s)
  from key_frames_carry_configuration [OF s(1) n s(3), of 1 "[]" "[]" "newScrcpyBridge\<lparr>process := Some 1\<rparr>"]
  show ?thesis unfolding s(2,4) h by (elim exE conjE, intro exI conjI) (assumption | simp)+
qed

end
