(* ===== verification/Viewers.thy ===== *)
theory Viewers
  imports Bridge Contracts
begin

text \<open>
  \<open>webrtc.go\<close>, \<open>media.go\<close> and \<open>updateBitrate\<close> of \<open>bandwidth.go\<close>: the viewers of one capture source
  and the manager that runs the display and the camera capture for them. The state \<open>rtc\<close> is the
  record \<open>webRTCManager\<close> without the tracks and packetizers, which belong to the WebRTC library. A
  peer connection of that library is a number, \<open>None\<close> is a nil pointer; whether creating a peer, an
  offer or a description succeeds is a parameter. An operation that gives up the manager's lock
  in the middle is split there: \<open>setAnswer_apply\<close> and \<open>setAnswer_finish\<close> are the two halves of
  \<open>setAnswer\<close> around the call of the library.
\<close>

record 'c webRTCSession =
  peer :: "nat option"
  clipboard :: bool
  withVideo :: bool
  withAudio :: bool
  ws_bitrate :: bitrateOptions
  captureOptions :: streamOptions
  order :: nat
  targetBitrate :: int
  pendingCandidates :: "'c list"

record 'c rtc =
  sessions :: "'c webRTCSession gomap"
  videoProfile :: string
  nextOrder :: nat
  currentBitrate :: int
  lastBitrateUpdate :: time
  lastKeyframeRequest :: time
  lastPTS :: "64 word"

text \<open>The zero value of a session.\<close>

definition no_session :: "'c webRTCSession" where
  "no_session = \<lparr>peer = None, clipboard = False, withVideo = False, withAudio = False, ws_bitrate = no_bitrate,
     captureOptions = no_options, order = 0, targetBitrate = 0, pendingCandidates = []\<rparr>"

definition newWebRTCManager :: "'c rtc" where
  "newWebRTCManager = \<lparr>sessions = [], videoProfile = ''42e01f'', nextOrder = 0, currentBitrate = 0,
     lastBitrateUpdate = 0, lastKeyframeRequest = 0, lastPTS = 0\<rparr>"

section \<open>Codec and key frames\<close>

definition SetVideoCodec :: "string \<Rightarrow> 'c rtc \<Rightarrow> bool \<times> 'c rtc" where
  "SetVideoCodec profile m =
     (if profile = videoProfile m then (True, m)
      else if list_ex (\<lambda>kv. withVideo (snd kv)) (sessions m) then
        (length profile = 6 \<and> length (videoProfile m) = 6 \<and> take 4 profile = take 4 (videoProfile m), m)
      else (True, m\<lparr>videoProfile := profile\<rparr>))"

text \<open>At most one request for a key frame in two seconds goes to the encoder.\<close>

definition requestKeyframe :: "time \<Rightarrow> 'c rtc \<Rightarrow> obj option \<times> 'c rtc" where
  "requestKeyframe t m =
     (if time_sub t (lastKeyframeRequest m) < 2 * 1000000000 then (None, m)
      else (Some [(''type'', AStr ''request_keyframe'')], m\<lparr>lastKeyframeRequest := t\<rparr>))"

text \<open>The duration of a frame in units of the 90 kHz clock; \<open>uint64\<close> arithmetic wraps around.\<close>

definition PushH264 :: "mediaPacket \<Rightarrow> 'c rtc \<Rightarrow> (32 word) option \<times> 'c rtc" where
  "PushH264 pkt m =
     (if sessions m = [] then (None, m)
      else
        (let delta = (PTS pkt - lastPTS m) * 90 div 1000;
             duration = (if 0 < lastPTS m \<and> lastPTS m < PTS pkt \<and> 0 < delta \<and> delta < 90000 then ucast delta else 3000)
         in (Some duration, m\<lparr>lastPTS := PTS pkt\<rparr>)))"

section \<open>Sessions\<close>

text \<open>\<open>LatestVideoOptions\<close>: the options of the newest viewer with video, and whether there is one.\<close>

definition latest_of :: "('c webRTCSession \<Rightarrow> bool) \<Rightarrow> 'c rtc \<Rightarrow> 'c webRTCSession" where
  "latest_of P m =
     fold (\<lambda>kv latest. if P (snd kv) \<and> order latest < order (snd kv) then snd kv else latest) (sessions m) no_session"

definition LatestVideoOptions :: "'c rtc \<Rightarrow> streamOptions \<times> bool" where
  "LatestVideoOptions m =
     (let latest = latest_of withVideo m; options = captureOptions latest in
      (options\<lparr>Values := mover [] (Values options)\<rparr>, withVideo latest))"

definition copy_key :: "string gomap \<Rightarrow> string \<Rightarrow> string gomap \<Rightarrow> string gomap" where
  "copy_key from key vs = (let vs = mdel key vs; v = value_of from key in if v \<noteq> '''' then mput key v vs else vs)"

definition copy_audio :: "string gomap \<Rightarrow> string gomap \<Rightarrow> string gomap" where
  "copy_audio from vs = copy_key from ''audio_dup'' (copy_key from ''audio_source'' vs)"

definition mergeCaptureNeeds :: "'c rtc \<Rightarrow> streamOptions \<Rightarrow> streamOptions" where
  "mergeCaptureNeeds m options =
     (let active = list_ex (\<lambda>kv. withVideo (snd kv) \<and> value_of (Values (captureOptions (snd kv))) ''keep_active'' = ''true'') (sessions m);
          options = (if active then options\<lparr>Values := mput ''keep_active'' ''true'' (Values options)\<rparr> else options);
          audio = latest_of (\<lambda>s. withVideo s \<and> withAudio s) m
      in if \<not> Audio options \<and> withAudio audio
         then options\<lparr>Audio := True, Values := copy_audio (Values (captureOptions audio)) (Values options)\<rparr>
         else options)"

text \<open>What creating a peer and its offer answers: the new peer if it could be created, and whether the rest succeeded.\<close>

record offer_env =
  new_peer :: "nat option"
  offer_ok :: bool

definition obj_of :: "any option \<Rightarrow> obj" where
  "obj_of v = (case v of Some (AObj m) \<Rightarrow> m | _ \<Rightarrow> [])"

text \<open>
  \<open>createOffer\<close>: a client that already has a session is left alone; otherwise the options are parsed
  and the peer is created and registered. The Boolean says that an offer was sent.
\<close>

definition createOffer ::
  "64 word \<Rightarrow> offer_env \<Rightarrow> string \<Rightarrow> obj \<Rightarrow> obj \<Rightarrow> 'c rtc \<Rightarrow> bool fallible \<times> 'c rtc" where
  "createOffer oor OE clientID permissions payload m =
     (let options = obj_of (map_of payload ''scrcpy_options'');
          video = (map_of options ''video'' \<noteq> Some (ABool False));
          audio = boolField options ''audio'';
          canControl = boolField permissions ''control''
      in if map_of (sessions m) clientID \<noteq> None then (Inr False, m)
         else
           (case parseBitrateOptions oor options of
              Inl e \<Rightarrow> (Inl e, m)
            | Inr bitrate \<Rightarrow>
                (case parseStreamOptions oor options False of
                   Inl e \<Rightarrow> (Inl e, m)
                 | Inr capture \<Rightarrow>
                     (let bitrate = (if video then bitrate else bitrate\<lparr>Enabled := False\<rparr>) in
                      case new_peer OE of
                        None \<Rightarrow> (Inl (ErrControl ''peer''), m)
                      | Some p \<Rightarrow>
                          (if \<not> offer_ok OE then (Inl (ErrControl ''offer''), m)
                           else
                             (Inr True,
                              m\<lparr>nextOrder := nextOrder m + 1,
                                 sessions := mput clientID
                                   \<lparr>peer = Some p, clipboard = canControl, withVideo = video, withAudio = audio,
                                    ws_bitrate = bitrate, captureOptions = capture, order = nextOrder m + 1,
                                    targetBitrate = Initial bitrate, pendingCandidates = []\<rparr> (sessions m)\<rparr>))))))"

text \<open>The first half of \<open>setAnswer\<close> finds the peer to which the answer is applied, without the lock.\<close>

definition setAnswer_apply :: "string \<Rightarrow> string \<Rightarrow> 'c rtc \<Rightarrow> nat option" where
  "setAnswer_apply clientID sdp m =
     (if sdp = '''' then None
      else (case map_of (sessions m) clientID of None \<Rightarrow> None | Some s \<Rightarrow> peer s))"

text \<open>The second half takes the candidates that came early and hands them to the peer.\<close>

definition setAnswer_finish :: "string \<Rightarrow> 'c rtc \<Rightarrow> 'c list \<times> 'c rtc" where
  "setAnswer_finish clientID m =
     (let s = (case map_of (sessions m) clientID of None \<Rightarrow> no_session | Some s \<Rightarrow> s) in
      (pendingCandidates s, m\<lparr>sessions := mput clientID (s\<lparr>pendingCandidates := []\<rparr>) (sessions m)\<rparr>))"

text \<open>\<open>described\<close> says that the peer already has a remote description; the result is the candidate to add now.\<close>

definition addCandidate :: "bool \<Rightarrow> string \<Rightarrow> 'c \<Rightarrow> 'c rtc \<Rightarrow> 'c option \<times> 'c rtc" where
  "addCandidate described clientID candidate m =
     (case map_of (sessions m) clientID of
        None \<Rightarrow> (None, m)
      | Some s \<Rightarrow>
          (if \<not> described
           then (None, m\<lparr>sessions := mput clientID (s\<lparr>pendingCandidates := pendingCandidates s @ [candidate]\<rparr>) (sessions m)\<rparr>)
           else (Some candidate, m)))"

text \<open>The end of a peer removes its session, unless the client has another one by now.\<close>

definition removeSession :: "string \<Rightarrow> nat \<Rightarrow> 'c rtc \<Rightarrow> bool \<times> 'c rtc" where
  "removeSession clientID p m =
     (case map_of (sessions m) clientID of
        Some s \<Rightarrow> (if peer s = Some p then (True, m\<lparr>sessions := mdel clientID (sessions m)\<rparr>) else (False, m))
      | None \<Rightarrow> (False, m))"

text \<open>\<open>CloseSession\<close> forgets the client at once; the result is the peer that is closed in the background.\<close>

definition CloseSession :: "string \<Rightarrow> 'c rtc \<Rightarrow> nat option option \<times> 'c rtc" where
  "CloseSession clientID m =
     (map_option peer (map_of (sessions m) clientID), m\<lparr>sessions := mdel clientID (sessions m)\<rparr>)"

definition rtc_Close :: "'c rtc \<Rightarrow> nat option list \<times> 'c rtc" where
  "rtc_Close m = (map (\<lambda>kv. peer (snd kv)) (sessions m), m\<lparr>sessions := []\<rparr>)"

definition HasClient :: "string \<Rightarrow> 'c rtc \<Rightarrow> bool" where
  "HasClient clientID m \<longleftrightarrow> map_of (sessions m) clientID \<noteq> None"

definition HasSessions :: "'c rtc \<Rightarrow> bool" where
  "HasSessions m \<longleftrightarrow> sessions m \<noteq> []"

definition HasAudioSessions :: "'c rtc \<Rightarrow> bool" where
  "HasAudioSessions m \<longleftrightarrow> list_ex (\<lambda>kv. withAudio (snd kv)) (sessions m)"

definition PublishDeviceMessage :: "'c rtc \<Rightarrow> string list" where
  "PublishDeviceMessage m = map fst (filter (\<lambda>kv. clipboard (snd kv)) (sessions m))"

definition PublishError :: "'c rtc \<Rightarrow> string list" where
  "PublishError m = mkeys (sessions m)"

section \<open>Data channels\<close>

text \<open>
  The handlers that \<open>createOffer\<close> installs on the channels of peer \<open>p\<close>, with the permission they
  captured: the event handed to the encoder, if any.
\<close>

definition sessionActive :: "string \<Rightarrow> nat \<Rightarrow> 'c rtc \<Rightarrow> bool" where
  "sessionActive clientID p m \<longleftrightarrow>
     (case map_of (sessions m) clientID of None \<Rightarrow> False | Some s \<Rightarrow> peer s = Some p)"

definition input_channel :: "bool \<Rightarrow> string \<Rightarrow> nat \<Rightarrow> obj option \<Rightarrow> 'c rtc \<Rightarrow> obj option" where
  "input_channel canControl clientID p message m =
     (if \<not> canControl \<or> \<not> sessionActive clientID p m then None
      else (case message of Some event \<Rightarrow> (if browserControlAllowed event then Some event else None) | None \<Rightarrow> None))"

definition clipboard_channel :: "bool \<Rightarrow> string \<Rightarrow> nat \<Rightarrow> obj option \<Rightarrow> 'c rtc \<Rightarrow> obj option" where
  "clipboard_channel canControl clientID p message m =
     (if \<not> canControl \<or> \<not> sessionActive clientID p m then None
      else
        (case message of
           Some event \<Rightarrow> (if stringField event ''type'' \<in> {''set_clipboard'', ''get_clipboard''} then Some event else None)
         | None \<Rightarrow> None))"

text \<open>A new channel of the peer: the terminal session it may open.\<close>

definition data_channel :: "bool \<Rightarrow> string \<Rightarrow> nat \<Rightarrow> string \<Rightarrow> 'c rtc \<Rightarrow> string option" where
  "data_channel canShell clientID p label m =
     (if \<not> canShell \<or> \<not> sessionActive clientID p m \<or> \<not> prefix ''adb-channel-'' label then None
      else Some (trim_prefix ''adb-channel-'' label))"

section \<open>The bit rate of the encoder\<close>

definition updateBitrate :: "time \<Rightarrow> string \<Rightarrow> nat \<Rightarrow> int \<Rightarrow> 'c rtc \<Rightarrow> obj option \<times> 'c rtc" where
  "updateBitrate t clientID p bitrate m =
     (case map_of (sessions m) clientID of
        None \<Rightarrow> (None, m)
      | Some s \<Rightarrow>
          (if peer s \<noteq> Some p \<or> \<not> withVideo s then (None, m)
           else
             (let bitrate = (if Enabled (ws_bitrate s) then max (Minimum (ws_bitrate s)) (min bitrate (Maximum (ws_bitrate s)))
                             else Initial (ws_bitrate s));
                  m = m\<lparr>sessions := mput clientID (s\<lparr>targetBitrate := bitrate\<rparr>) (sessions m)\<rparr>;
                  target = fold (\<lambda>kv target. if withVideo (snd kv) \<and> 0 < targetBitrate (snd kv)
                                             then min target (targetBitrate (snd kv)) else target) (sessions m) bitrate;
                  delta = \<bar>target - currentBitrate m\<bar>
              in if 0 < currentBitrate m \<and>
                    (delta < trunc_div (currentBitrate m) 10 \<or> time_sub t (lastBitrateUpdate m) < 1000000000)
                 then (None, m)
                 else
                   (Some [(''type'', AStr ''set_video_bitrate''), (''bitrate'', AInt target)],
                    m\<lparr>currentBitrate := target, lastBitrateUpdate := t\<rparr>))))"

text \<open>
  \<open>HandleForward\<close> of one source. \<open>cand\<close> decodes the candidate of the message, \<open>described\<close> says whether
  the peer has a remote description, \<open>applied\<close> whether the library accepted the answer and \<open>added\<close>
  whether it accepted the candidates; the two halves of \<open>setAnswer\<close> follow each other directly here.
\<close>

record 'c forward_env =
  offer :: offer_env
  cand :: "any option \<Rightarrow> 'c option"
  described :: bool
  applied :: bool
  added :: bool

definition rtc_HandleForward :: "64 word \<Rightarrow> 'c forward_env \<Rightarrow> obj \<Rightarrow> 'c rtc \<Rightarrow> control_error option \<times> 'c rtc" where
  "rtc_HandleForward oor F message m =
     (let clientID = stringField message ''client_id''; payload = map_of message ''payload'' in
      case payload of
        Some (AObj payload) \<Rightarrow>
          (if clientID = '''' then (None, m)
           else if stringField payload ''type'' = ''request-offer'' then
             (case createOffer oor (offer F) clientID (obj_of (map_of message ''permissions'')) payload m of
                (Inl e, m') \<Rightarrow> (Some e, m')
              | (Inr _, m') \<Rightarrow> (None, m'))
           else if stringField payload ''type'' = ''answer'' then
             (case setAnswer_apply clientID (stringField payload ''sdp'') m of
                None \<Rightarrow> (None, m)
              | Some _ \<Rightarrow>
                  (if \<not> applied F then (Some (ErrControl ''answer''), m)
                   else
                     (case setAnswer_finish clientID m of
                        (early, m) \<Rightarrow> (if early \<noteq> [] \<and> \<not> added F then (Some (ErrControl ''candidate''), m) else (None, m)))))
           else if stringField payload ''type'' = ''ice-candidate'' then
             (case cand F (map_of payload ''candidate'') of
                None \<Rightarrow> (Some (ErrControl ''candidate''), m)
              | Some c \<Rightarrow>
                  (case addCandidate (described F) clientID c m of
                     (now_added, m) \<Rightarrow>
                       (if now_added \<noteq> None \<and> \<not> added F then (Some (ErrControl ''candidate''), m) else (None, m))))
           else (None, m))
      | _ \<Rightarrow> (None, m))"

section \<open>The media manager\<close>

record 'c media =
  md_closed :: bool
  previewOptions :: "streamOptions option"
  display :: "'c rtc"
  camera :: "'c rtc"
  displayBridge :: bridge
  cameraBridge :: bridge
  wsAudioActive :: bool
  wsAudioOptions :: "string gomap"

text \<open>
  The environment of one call: the answers to the captures it starts or stops (\<open>cap 0\<close>, \<open>cap 1\<close> in
  order for the display, \<open>cap 2\<close> for the camera), whether the device is reached through ADB, its
  SDK level (0 if unknown), whether a codec configuration arrived in time, and the WebRTC answers.
\<close>

record 'c media_env =
  cap :: "nat \<Rightarrow> capture_env"
  adb :: bool
  sdk :: int
  waited :: bool
  fwd :: "'c forward_env"

definition newMediaManager :: "'c media" where
  "newMediaManager = \<lparr>md_closed = False, previewOptions = None, display = newWebRTCManager, camera = newWebRTCManager,
     displayBridge = newScrcpyBridge, cameraBridge = newScrcpyBridge, wsAudioActive = False, wsAudioOptions = []\<rparr>"

definition displayOptions :: "'c media \<Rightarrow> streamOptions \<Rightarrow> streamOptions" where
  "displayOptions md options =
     (let options = mergeCaptureNeeds (display md) (options\<lparr>Values := mover [] (Values options)\<rparr>);
          options = (case previewOptions md of
                       Some p \<Rightarrow> (if value_of (Values p) ''keep_active'' = ''true''
                                  then options\<lparr>Values := mput ''keep_active'' ''true'' (Values options)\<rparr> else options)
                     | None \<Rightarrow> options)
      in if wsAudioActive md \<and> \<not> Audio options
         then options\<lparr>Audio := True, Values := copy_audio (wsAudioOptions md) (Values options)\<rparr>
         else options)"

definition start_display :: "'c media_env \<Rightarrow> nat \<Rightarrow> streamOptions \<Rightarrow> 'c media \<Rightarrow> bool \<times> 'c media" where
  "start_display M k options md =
     (case Start (cap M k) (adb M) options (displayBridge md) of
        (e, _, b) \<Rightarrow> (e = None, md\<lparr>displayBridge := b\<rparr>))"

definition audio_only_options :: "64 word \<Rightarrow> streamOptions" where
  "audio_only_options oor =
     (case parseStreamOptions oor [(''audio'', ABool True), (''stay_awake'', ABool False)] True of
        Inl _ \<Rightarrow> no_options | Inr options \<Rightarrow> options)"

definition reconcileDisplay :: "64 word \<Rightarrow> 'c media_env \<Rightarrow> 'c media \<Rightarrow> bool \<times> 'c media" where
  "reconcileDisplay oor M md =
     (let (options, connected) = LatestVideoOptions (display md) in
      if connected then start_display M 0 (displayOptions md options) md
      else
        (case previewOptions md of
           Some p \<Rightarrow> start_display M 0 (displayOptions md (p\<lparr>Values := mover [] (Values p)\<rparr>)) md
         | None \<Rightarrow>
             (if wsAudioActive md then start_display M 0 (displayOptions md (audio_only_options oor)) md
              else
                (case bridge_Stop (cap M 0) (adb M) (displayBridge md) of
                   (ok, _, b) \<Rightarrow> (ok, md\<lparr>displayBridge := b\<rparr>)))))"

definition StopIdle :: "64 word \<Rightarrow> bool \<Rightarrow> 'c media_env \<Rightarrow> 'c media \<Rightarrow> 'c media" where
  "StopIdle oor cancelled M md =
     (if md_closed md \<or> cancelled then md
      else
        (let md = snd (reconcileDisplay oor M md); (options, connected) = LatestVideoOptions (camera md) in
         if connected
         then md\<lparr>cameraBridge := snd (snd (Start (cap M 2) (adb M) (mergeCaptureNeeds (camera md) options) (cameraBridge md)))\<rparr>
         else md\<lparr>cameraBridge := snd (snd (bridge_Stop (cap M 2) (adb M) (cameraBridge md)))\<rparr>))"

definition StartPreview :: "64 word \<Rightarrow> 'c media_env \<Rightarrow> streamOptions \<Rightarrow> 'c media \<Rightarrow> bool \<times> 'c media" where
  "StartPreview oor M options md = reconcileDisplay oor M (md\<lparr>previewOptions := Some options\<rparr>)"

definition StopPreview :: "64 word \<Rightarrow> 'c media_env \<Rightarrow> 'c media \<Rightarrow> bool \<times> 'c media" where
  "StopPreview oor M md = reconcileDisplay oor M (md\<lparr>previewOptions := None\<rparr>)"

definition StartAudio :: "64 word \<Rightarrow> 'c media_env \<Rightarrow> obj \<Rightarrow> 'c media \<Rightarrow> bool \<times> 'c media" where
  "StartAudio oor M raw md =
     (case parseStreamOptions oor raw True of
        Inl _ \<Rightarrow> (False, md)
      | Inr requested \<Rightarrow>
          (if 0 < sdk M \<and> sdk M < 30 then (False, md)
           else
             (let options = currentOptions (displayBridge md);
                  options = (if Source options = '''' then requested else options);
                  options = options\<lparr>Audio := True, Reconfigure := True,
                                     Values := copy_audio (Values requested) (mover [] (Values options))\<rparr>
              in case start_display M 0 options md of
                   (ok, md) \<Rightarrow>
                     (if \<not> ok then (False, md)
                      else (True, md\<lparr>wsAudioOptions := Values requested, wsAudioActive := True\<rparr>)))))"

definition StopAudio :: "64 word \<Rightarrow> 'c media_env \<Rightarrow> 'c media \<Rightarrow> bool \<times> 'c media" where
  "StopAudio oor M md = reconcileDisplay oor M (md\<lparr>wsAudioActive := False, wsAudioOptions := []\<rparr>)"

definition media_CloseSession :: "string \<Rightarrow> 'c media \<Rightarrow> 'c media" where
  "media_CloseSession clientID md =
     md\<lparr>display := snd (CloseSession clientID (display md)), camera := snd (CloseSession clientID (camera md))\<rparr>"

definition media_Close :: "'c media \<Rightarrow> 'c media" where
  "media_Close md = md\<lparr>md_closed := True, display := snd (rtc_Close (display md)), camera := snd (rtc_Close (camera md))\<rparr>"

text \<open>
  \<open>HandleForward\<close>: an offer for a new viewer starts or reconfigures the capture of its source first
  (\<open>cap 0\<close>), waits for the codec, and goes back to the earlier options (\<open>cap 1\<close>) when the encoder's
  profile no longer suits the viewers that are there.
\<close>

definition start_source :: "bool \<Rightarrow> 'c media_env \<Rightarrow> nat \<Rightarrow> streamOptions \<Rightarrow> 'c media \<Rightarrow> bool \<times> 'c media" where
  "start_source use_camera M k options md =
     (if use_camera
      then (case Start (cap M k) (adb M) options (cameraBridge md) of (e, _, b) \<Rightarrow> (e = None, md\<lparr>cameraBridge := b\<rparr>))
      else start_display M k options md)"

definition source_bridge :: "bool \<Rightarrow> 'c media \<Rightarrow> bridge" where
  "source_bridge use_camera md = (if use_camera then cameraBridge md else displayBridge md)"

definition source_rtc :: "bool \<Rightarrow> 'c media \<Rightarrow> 'c rtc" where
  "source_rtc use_camera md = (if use_camera then camera md else display md)"

definition set_rtc :: "bool \<Rightarrow> 'c rtc \<Rightarrow> 'c media \<Rightarrow> 'c media" where
  "set_rtc use_camera m md = (if use_camera then md\<lparr>camera := m\<rparr> else md\<lparr>display := m\<rparr>)"

definition forward_to :: "64 word \<Rightarrow> 'c media_env \<Rightarrow> bool \<Rightarrow> obj \<Rightarrow> 'c media \<Rightarrow> control_error option \<times> 'c media" where
  "forward_to oor M use_camera message md =
     (case rtc_HandleForward oor (fwd M) message (source_rtc use_camera md) of
        (e, m) \<Rightarrow> (e, set_rtc use_camera m md))"

definition prepare_video :: "'c media_env \<Rightarrow> bool \<Rightarrow> streamOptions \<Rightarrow> 'c media \<Rightarrow> control_error option \<times> 'c media" where
  "prepare_video M use_camera options md =
     (let previous = currentOptions (source_bridge use_camera md); active = snd (LatestVideoOptions (source_rtc use_camera md)) in
      if active \<and> value_of (Values previous) ''video_codec_options'' \<noteq> value_of (Values options) ''video_codec_options''
      then (Some (ErrControl ''encoder options changed; reconnect the existing viewers first''), md)
      else
        (case start_source use_camera M 0 options md of
           (False, md) \<Rightarrow> (Some (ErrControl ''start''), md)
         | (True, md) \<Rightarrow>
             (case VideoCodec (waited M) (source_bridge use_camera md) of
                Inl e \<Rightarrow> (Some (ErrControl e), md)
              | Inr profile \<Rightarrow>
                  (case SetVideoCodec profile (source_rtc use_camera md) of
                     (True, m) \<Rightarrow> (None, set_rtc use_camera m md)
                   | (False, m) \<Rightarrow>
                       (Some (ErrControl ''encoder profile changed; reconnect the existing viewers first''),
                        (if active then snd (start_source use_camera M 1 previous md) else md))))))"

definition media_HandleForward :: "64 word \<Rightarrow> 'c media_env \<Rightarrow> obj \<Rightarrow> 'c media \<Rightarrow> control_error option \<times> 'c media" where
  "media_HandleForward oor M message md =
     (let clientID = stringField message ''client_id''; payload = obj_of (map_of message ''payload'') in
      if stringField payload ''type'' \<noteq> ''request-offer'' then forward_to oor M (HasClient clientID (camera md)) message md
      else
        (let raw = obj_of (map_of payload ''scrcpy_options'') in
         case parseStreamOptions oor raw False of
           Inl e \<Rightarrow> (Some e, md)
         | Inr options \<Rightarrow>
             (let use_camera = (Source options = ''camera'') in
              if use_camera \<and> 0 < sdk M \<and> sdk M < 31
              then (Some (ErrControl ''camera capture requires Android 12 or newer''), md)
              else if Audio options \<and> 0 < sdk M \<and> sdk M < 30
              then (Some (ErrControl ''audio capture requires Android 11 or newer''), md)
              else if HasClient clientID (source_rtc use_camera md) then forward_to oor M use_camera message md
              else
                (let options = (if use_camera then mergeCaptureNeeds (camera md) options else displayOptions md options) in
                 if map_of raw ''video'' \<noteq> Some (ABool False) then
                   (case prepare_video M use_camera options md of
                      (Some e, md) \<Rightarrow> (Some e, md)
                    | (None, md) \<Rightarrow> forward_to oor M use_camera message md)
                 else forward_to oor M use_camera message md))))"

end
