(* ===== verification/ViewersProps.thy ===== *)
theory ViewersProps
  imports Viewers
begin

text \<open>
  Runs of a viewer manager and what they promise: \<open>rtc_op\<close> lists the operations that change it, in
  the order in which the goroutines take the lock. \<open>rtc_ok\<close> is the invariant; the machine \<open>viewers\<close>
  keeps it, the machine \<open>closed_peer\<close> keeps a closed peer out of the sessions.
\<close>

section \<open>Runs\<close>

datatype 'c rtc_op =
    ROffer "64 word" offer_env string obj obj
  | RAnswer string
  | RCandidate bool string 'c
  | RRemove string nat
  | RClose string
  | RBitrate time string nat int
  | RKeyframe time
  | RCodec string
  | RPush mediaPacket

fun exec_rtc :: "'c rtc_op \<Rightarrow> 'c rtc \<Rightarrow> 'c rtc" where
  "exec_rtc (ROffer oor OE c perms payload) m = snd (createOffer oor OE c perms payload m)"
| "exec_rtc (RAnswer c) m = snd (setAnswer_finish c m)"
| "exec_rtc (RCandidate d c x) m = snd (addCandidate d c x m)"
| "exec_rtc (RRemove c p) m = snd (removeSession c p m)"
| "exec_rtc (RClose c) m = snd (CloseSession c m)"
| "exec_rtc (RBitrate t c p x) m = snd (updateBitrate t c p x m)"
| "exec_rtc (RKeyframe t) m = snd (requestKeyframe t m)"
| "exec_rtc (RCodec profile) m = snd (SetVideoCodec profile m)"
| "exec_rtc (RPush pkt) m = snd (PushH264 pkt m)"

text \<open>A viewer's bit rate stays within the limits it was given; a session with a peer has a positive number.\<close>

definition session_ok :: "nat \<Rightarrow> 'c webRTCSession \<Rightarrow> bool" where
  "session_ok n s \<longleftrightarrow> order s \<le> n \<and> mok (Values (captureOptions s)) \<and> (peer s \<noteq> None \<longrightarrow> 0 < order s) \<and> (peer s = None \<longrightarrow> \<not> withVideo s \<and> \<not> withAudio s) \<and>
     (withVideo s \<longrightarrow> bitrate_ok (ws_bitrate s) \<and>
        (if Enabled (ws_bitrate s) then Minimum (ws_bitrate s) \<le> targetBitrate s \<and> targetBitrate s \<le> Maximum (ws_bitrate s)
         else targetBitrate s = Initial (ws_bitrate s)))"

definition rtc_ok :: "'c rtc \<Rightarrow> bool" where
  "rtc_ok m \<longleftrightarrow> mok (sessions m) \<and> (\<forall>c s. map_of (sessions m) c = Some s \<longrightarrow> session_ok (nextOrder m) s) \<and>
     (\<forall>c d s u. map_of (sessions m) c = Some s \<and> map_of (sessions m) d = Some u \<and> peer s \<noteq> None \<and> order s = order u \<longrightarrow> c = d)"

lemma new_manager_ok: "rtc_ok newWebRTCManager"
  by (simp add: rtc_ok_def newWebRTCManager_def)

lemma session_ok_mono: "session_ok n s \<Longrightarrow> n \<le> k \<Longrightarrow> session_ok k s"
  by (auto simp: session_ok_def)

lemma no_session_ok [simp]: "session_ok n (no_session\<lparr>pendingCandidates := xs\<rparr>)"
  by (simp add: session_ok_def no_session_def no_options_def)

lemma session_ok_candidates [simp]: "session_ok n (s\<lparr>pendingCandidates := xs\<rparr>) = session_ok n s"
  by (simp add: session_ok_def)

lemma rtc_ok_session: "rtc_ok m \<Longrightarrow> map_of (sessions m) c = Some s \<Longrightarrow> session_ok (nextOrder m) s"
  by (auto simp: rtc_ok_def)

lemma rtc_ok_order: "rtc_ok m \<Longrightarrow> map_of (sessions m) c = Some s \<Longrightarrow> order s \<le> nextOrder m"
  by (auto simp: rtc_ok_def session_ok_def)

lemma rtc_ok_new:
  assumes "rtc_ok m" "session_ok (nextOrder m + 1) s" "order s = nextOrder m + 1"
  shows "rtc_ok (m\<lparr>nextOrder := nextOrder m + 1, sessions := mput c s (sessions m)\<rparr>)"
proof -
  have "session_ok (nextOrder m + 1) u" if "map_of (sessions m) d = Some u" for d u
    using session_ok_mono [OF rtc_ok_session [OF assms(1) that]] by simp
  moreover have "order u \<noteq> nextOrder m + 1" if "map_of (sessions m) d = Some u" for d u
    using rtc_ok_order [OF assms(1) that] by simp
  moreover have "mok (sessions m)" using assms(1) by (simp add: rtc_ok_def)
  moreover have "d = e" if "map_of (sessions m) d = Some u" "map_of (sessions m) e = Some v" "peer u \<noteq> None" "order u = order v" for d e u v
    using assms(1) that unfolding rtc_ok_def by blast
  ultimately show ?thesis using assms(2,3) unfolding rtc_ok_def by (auto split: if_splits) metis+
qed

lemma rtc_ok_replace:
  assumes "rtc_ok m" "map_of (sessions m) c = Some s0" "session_ok (nextOrder m) s" "order s = order s0" "peer s = peer s0"
  shows "rtc_ok (m\<lparr>sessions := mput c s (sessions m)\<rparr>)"
proof -
  have "d = e" if "map_of (sessions m) d = Some u" "map_of (sessions m) e = Some v" "peer u \<noteq> None" "order u = order v" for d e u v
    using assms(1) that unfolding rtc_ok_def by blast
  moreover have "session_ok (nextOrder m) u" if "map_of (sessions m) d = Some u" for d u
    by (rule rtc_ok_session [OF assms(1) that])
  moreover have "mok (sessions m)" using assms(1) by (simp add: rtc_ok_def)
  ultimately show ?thesis using assms(2-5) unfolding rtc_ok_def by (auto split: if_splits) metis+
qed

lemma rtc_ok_ghost:
  assumes "rtc_ok m" "map_of (sessions m) c = None"
  shows "rtc_ok (m\<lparr>sessions := mput c (no_session\<lparr>pendingCandidates := []\<rparr>) (sessions m)\<rparr>)"
proof -
  define g :: "'a webRTCSession" where "g = no_session\<lparr>pendingCandidates := []\<rparr>"
  have g: "session_ok (nextOrder m) g" "peer g = None" "order g = 0"
    by (simp_all add: g_def no_session_def no_options_def session_ok_def)
  have "order u \<noteq> 0" if "map_of (sessions m) d = Some u" "peer u \<noteq> None" for d u
    using rtc_ok_session [OF assms(1) that(1)] that(2) by (auto simp: session_ok_def)
  moreover have "d = e" if "map_of (sessions m) d = Some u" "map_of (sessions m) e = Some v" "peer u \<noteq> None" "order u = order v" for d e u v
    using assms(1) that unfolding rtc_ok_def by blast
  moreover have "session_ok (nextOrder m) u" if "map_of (sessions m) d = Some u" for d u
    by (rule rtc_ok_session [OF assms(1) that])
  moreover have "mok (sessions m)" using assms(1) by (simp add: rtc_ok_def)
  ultimately have "rtc_ok (m\<lparr>sessions := mput c g (sessions m)\<rparr>)"
    using g unfolding rtc_ok_def by (simp split: if_splits) (metis not_None_eq)
  then show ?thesis by (simp add: g_def)
qed

lemma rtc_ok_del: "rtc_ok m \<Longrightarrow> rtc_ok (m\<lparr>sessions := mdel c (sessions m)\<rparr>)"
  by (auto simp: rtc_ok_def restrict_map_def split: if_splits)

lemma parsed_values_mok: "parseStreamOptions oor raw preview = Inr options \<Longrightarrow> mok (Values options)"
  by (drule parseStreamOptions_ok) (simp add: values_ok_def)

lemma createOffer_ok:
  assumes "rtc_ok m"
  shows "rtc_ok (snd (createOffer oor OE c perms payload m))"
proof (cases "createOffer oor OE c perms payload m")
  case (Pair r m')
  let ?opts = "obj_of (map_of payload ''scrcpy_options'')"
  show ?thesis
  proof (cases "m' = m")
    case False
    with Pair obtain b cap p where b: "parseBitrateOptions oor ?opts = Inr b" and cap: "parseStreamOptions oor ?opts False = Inr cap" and new: "map_of (sessions m) c = None"
      and m': "m' = m\<lparr>nextOrder := nextOrder m + 1, sessions := mput c
          \<lparr>peer = Some p, clipboard = boolField perms ''control'', withVideo = (map_of ?opts ''video'' \<noteq> Some (ABool False)),
           withAudio = boolField ?opts ''audio'', ws_bitrate = (if map_of ?opts ''video'' \<noteq> Some (ABool False) then b else b\<lparr>Enabled := False\<rparr>),
           captureOptions = cap, order = nextOrder m + 1,
           targetBitrate = Initial (if map_of ?opts ''video'' \<noteq> Some (ABool False) then b else b\<lparr>Enabled := False\<rparr>),
           pendingCandidates = []\<rparr> (sessions m)\<rparr>" (is "_ = m\<lparr>nextOrder := _, sessions := mput c ?s (sessions m)\<rparr>")
      by (auto simp: createOffer_def Let_def split: if_splits sum.splits option.splits)
    from parseBitrateOptions_ok [OF b] parsed_values_mok [OF cap] have "session_ok (nextOrder m + 1) ?s"
      by (auto simp: session_ok_def bitrate_ok_def)
    from rtc_ok_new [OF assms this, of c] Pair show ?thesis by (simp add: m')
  next
    case True
    with assms Pair show ?thesis by simp
  qed
qed

lemma setAnswer_finish_ok: "rtc_ok m \<Longrightarrow> rtc_ok (snd (setAnswer_finish c m))"
  by (auto simp: setAnswer_finish_def Let_def rtc_ok_ghost rtc_ok_session intro!: rtc_ok_replace split: option.splits)

lemma addCandidate_ok: "rtc_ok m \<Longrightarrow> rtc_ok (snd (addCandidate d c x m))"
  by (auto simp: addCandidate_def rtc_ok_session intro!: rtc_ok_replace split: option.splits)

lemma clamped_ok: "session_ok n s \<Longrightarrow> withVideo s \<Longrightarrow>
   session_ok n (s\<lparr>targetBitrate := if Enabled (ws_bitrate s) then max (Minimum (ws_bitrate s)) (min x (Maximum (ws_bitrate s)))
                                   else Initial (ws_bitrate s)\<rparr>)"
  by (auto simp: session_ok_def)

text \<open>The session of the viewer after a call of \<open>updateBitrate\<close>, and the rate asked of the encoder.\<close>

definition clamped :: "int \<Rightarrow> 'c webRTCSession \<Rightarrow> 'c webRTCSession" where
  "clamped x s = s\<lparr>targetBitrate := if Enabled (ws_bitrate s) then max (Minimum (ws_bitrate s)) (min x (Maximum (ws_bitrate s)))
                                   else Initial (ws_bitrate s)\<rparr>"

lemma updateBitrate_sessions:
  "sessions (snd (updateBitrate t c p x m)) =
     (case map_of (sessions m) c of None \<Rightarrow> sessions m
      | Some s \<Rightarrow> if peer s \<noteq> Some p \<or> \<not> withVideo s then sessions m else mput c (clamped x s) (sessions m))"
  by (simp add: updateBitrate_def clamped_def Let_def split: option.splits)

lemma updateBitrate_nextOrder [simp]: "nextOrder (snd (updateBitrate t c p x m)) = nextOrder m"
  by (simp add: updateBitrate_def Let_def split: option.splits)

lemma rtc_ok_cong: "sessions m = sessions k \<Longrightarrow> nextOrder m = nextOrder k \<Longrightarrow> rtc_ok m = rtc_ok k"
  by (simp add: rtc_ok_def)

lemma updateBitrate_ok:
  assumes "rtc_ok m"
  shows "rtc_ok (snd (updateBitrate t c p x m))"
proof (cases "sessions (snd (updateBitrate t c p x m)) = sessions m")
  case True
  then show ?thesis using assms by (simp add: rtc_ok_def)
next
  case False
  then obtain s where s: "map_of (sessions m) c = Some s" "withVideo s"
    and upd: "sessions (snd (updateBitrate t c p x m)) = mput c (clamped x s) (sessions m)"
    by (auto simp: updateBitrate_sessions split: option.splits if_splits)
  have "rtc_ok (m\<lparr>sessions := mput c (clamped x s) (sessions m)\<rparr>)"
    using rtc_ok_replace [OF assms s(1)] clamped_ok [OF rtc_ok_session [OF assms s(1)] s(2)]
    by (simp add: clamped_def)
  then show ?thesis by (subst rtc_ok_cong [of _ "m\<lparr>sessions := mput c (clamped x s) (sessions m)\<rparr>"]) (simp_all add: upd)
qed

lemma rtc_ok_upd [simp]:
  "rtc_ok (m\<lparr>lastKeyframeRequest := t\<rparr>) = rtc_ok m" "rtc_ok (m\<lparr>videoProfile := v\<rparr>) = rtc_ok m" "rtc_ok (m\<lparr>lastPTS := w\<rparr>) = rtc_ok m"
  by (simp_all add: rtc_ok_def)

interpretation viewers: machine exec_rtc "\<lambda>_ _. True" rtc_ok
proof unfold_locales
  fix m :: "'a rtc" and e assume "rtc_ok m"
  then show "rtc_ok (exec_rtc e m)"
    by (cases e)
      (auto simp: createOffer_ok setAnswer_finish_ok addCandidate_ok updateBitrate_ok removeSession_def CloseSession_def rtc_ok_del
        requestKeyframe_def SetVideoCodec_def PushH264_def Let_def split: option.splits)
qed

lemma admissible_any [simp]: "admissible exec (\<lambda>_ _. True) s es"
  by (induction es arbitrary: s) auto

lemma reachable_ok: "rtc_ok (fold exec_rtc es newWebRTCManager)"
  using viewers.run_keeps [OF new_manager_ok] by simp

section \<open>The rate of the encoder\<close>

lemma fold_min_le: "fold (\<lambda>x t. if P x then min t (f x) else t) xs (b :: int) \<le> b \<and>
   (\<forall>x \<in> set xs. P x \<longrightarrow> fold (\<lambda>x t. if P x then min t (f x) else t) xs b \<le> f x)"
proof (induction xs arbitrary: b)
  case (Cons x xs)
  from Cons [of "min b (f x)"] Cons [of b] show ?case by auto
qed simp

lemma fold_min_in: "fold (\<lambda>x t. if P x then min t (f x) else t) xs (b :: int) \<in> insert b (f ` {x \<in> set xs. P x})"
proof (induction xs arbitrary: b)
  case (Cons x xs)
  from Cons [of "min b (f x)"] Cons [of b] show ?case by (auto simp: min_def split: if_splits)
qed simp

lemma updateBitrate_event:
  assumes "updateBitrate t c p x m = (Some ev, m')"
  obtains s where "map_of (sessions m) c = Some s" "withVideo s" "sessions m' = mput c (clamped x s) (sessions m)"
    and "ev = [(''type'', AStr ''set_video_bitrate''), (''bitrate'', AInt (currentBitrate m'))]"
    and "currentBitrate m' = fold (\<lambda>kv r. if withVideo (snd kv) \<and> 0 < targetBitrate (snd kv) then min r (targetBitrate (snd kv)) else r)
           (sessions m') (targetBitrate (clamped x s))"
  using assms by (auto simp: updateBitrate_def clamped_def Let_def split: option.splits if_splits)

lemma session_rate: "session_ok n s \<Longrightarrow> withVideo s \<Longrightarrow> 100000 \<le> targetBitrate s \<and> targetBitrate s \<le> 100000000"
  by (auto simp: session_ok_def bitrate_ok_def split: if_splits)

lemma rate_encodes:
  assumes "100000 \<le> r" "r \<le> 100000000"
  shows "encodeControlEvent oor [(''type'', AStr ''set_video_bitrate''), (''bitrate'', AInt r)] = Inr ([23] @ put_be 4 (nat r))"
proof -
  have r: "uint (word_of_int r :: 64 word) = r" "uint (word_of_int r :: 32 word) = r"
    using assms by (simp_all add: uint_word_of_int_eq take_bit_int_eq_self)
  have "\<not> (0xFFFFFFFF :: 64 word) < word_of_int r" using r(1) assms by (simp add: word_less_alt)
  moreover have "ucast (word_of_int r :: 64 word) = (word_of_int r :: 32 word)"
    by (metis r(1) word_of_int_uint ucast_eq)
  moreover have "\<not> (word_of_int r :: 32 word) < 100000" "\<not> (100000000 :: 32 word) < word_of_int r"
    using r(2) assms by (simp_all add: word_less_alt)
  moreover have "unat (word_of_int r :: 32 word) = nat r" using r(2) by (simp add: unat_eq_nat_uint)
  ultimately show ?thesis using assms
    by (simp add: encodeControlEvent_def stringField_def uint32Field_def uint64FieldDefault_def Let_def)
qed

lemma rate_of_sessions:
  assumes "rtc_ok m" "updateBitrate t c p x m = (Some ev, m')"
  shows "(\<forall>d s. map_of (sessions m') d = Some s \<and> withVideo s \<longrightarrow> currentBitrate m' \<le> targetBitrate s) \<and>
         (\<exists>d s. map_of (sessions m') d = Some s \<and> withVideo s \<and> targetBitrate s = currentBitrate m')"
proof -
  from updateBitrate_ok [OF assms(1), of t c p x] assms(2) have ok: "rtc_ok m'" by simp
  obtain s where s: "map_of (sessions m) c = Some s" "withVideo s" and put: "sessions m' = mput c (clamped x s) (sessions m)"
    and "ev = [(''type'', AStr ''set_video_bitrate''), (''bitrate'', AInt (currentBitrate m'))]"
    and r: "currentBitrate m' = fold (\<lambda>kv r. if withVideo (snd kv) \<and> 0 < targetBitrate (snd kv) then min r (targetBitrate (snd kv)) else r)
           (sessions m') (targetBitrate (clamped x s))"
    by (rule updateBitrate_event [OF assms(2)])
  have mine: "map_of (sessions m') c = Some (clamped x s)" "withVideo (clamped x s)" using put s(2) by (simp_all add: clamped_def)
  have "currentBitrate m' \<le> targetBitrate u" if u: "map_of (sessions m') d = Some u" "withVideo u" for d u
  proof -
    have "0 < targetBitrate u" using session_rate [OF rtc_ok_session [OF ok u(1)] u(2)] by simp
    with fold_min_le [of "\<lambda>kv. withVideo (snd kv) \<and> 0 < targetBitrate (snd kv)" "\<lambda>kv. targetBitrate (snd kv)" "sessions m'"] u map_of_SomeD [OF u(1)]
    show ?thesis unfolding r by fastforce
  qed
  moreover have "\<exists>d u. map_of (sessions m') d = Some u \<and> withVideo u \<and> targetBitrate u = currentBitrate m'"
  proof -
    have "currentBitrate m' = targetBitrate (clamped x s) \<or>
      (\<exists>kv \<in> set (sessions m'). withVideo (snd kv) \<and> targetBitrate (snd kv) = currentBitrate m')"
      using fold_min_in [of "\<lambda>kv. withVideo (snd kv) \<and> 0 < targetBitrate (snd kv)" "\<lambda>kv. targetBitrate (snd kv)" "sessions m'"]
      unfolding r by fastforce
    moreover have "mok (sessions m')" using ok by (simp add: rtc_ok_def)
    ultimately show ?thesis using mine by (metis map_of_eq_Some_iff prod.collapse)
  qed
  ultimately show ?thesis by blast
qed

text \<open>
  C19. Whatever the viewers do, the rate asked of the encoder is the smallest rate of the viewers
  with video: no viewer gets more than its link was estimated to carry or its options allow, one of
  them gets exactly its rate, the rate is between 100 kbit/s and 100 Mbit/s, and the control encoder
  accepts the request and writes that rate.
\<close>

theorem encoder_rate_bounded:
  assumes "updateBitrate t c p x (fold exec_rtc es newWebRTCManager) = (Some ev, m')"
  shows "\<exists>r. 100000 \<le> r \<and> r \<le> 100000000 \<and>
     (\<forall>d s. map_of (sessions m') d = Some s \<and> withVideo s \<longrightarrow> r \<le> targetBitrate s \<and> (Enabled (ws_bitrate s) \<longrightarrow> r \<le> Maximum (ws_bitrate s))) \<and>
     (\<exists>d s. map_of (sessions m') d = Some s \<and> withVideo s \<and> targetBitrate s = r) \<and>
     encodeControlEvent oor ev = Inr ([23] @ put_be 4 (nat r))"
proof -
  let ?r = "currentBitrate m'"
  from updateBitrate_ok [OF reachable_ok, of t c p x es] assms have ok: "rtc_ok m'" by simp
  note rate = rate_of_sessions [OF reachable_ok assms]
  then obtain d s where d: "map_of (sessions m') d = Some s" "withVideo s" "targetBitrate s = ?r" by blast
  have b: "100000 \<le> ?r" "?r \<le> 100000000" using session_rate [OF rtc_ok_session [OF ok d(1)] d(2)] d(3) by simp_all
  have "?r \<le> Maximum (ws_bitrate u)" if "map_of (sessions m') e = Some u" "withVideo u" "Enabled (ws_bitrate u)" for e u
    using rtc_ok_session [OF ok that(1)] that rate by (fastforce simp: session_ok_def)
  moreover have "ev = [(''type'', AStr ''set_video_bitrate''), (''bitrate'', AInt ?r)]" by (rule updateBitrate_event [OF assms])
  then have "encodeControlEvent oor ev = Inr ([23] @ put_be 4 (nat ?r))" by (simp only: rate_encodes [OF b])
  ultimately show ?thesis using b rate by blast
qed

text \<open>Two viewers join, the second one on a slow link.\<close>

definition demo_viewers :: "unit rtc_op list" where
  "demo_viewers = (let payload = [(''scrcpy_options'', AObj [(''bwe'', ABool True)])] in
     [ROffer 0 \<lparr>new_peer = Some 1, offer_ok = True\<rparr> ''a'' [(''control'', ABool True)] payload,
      ROffer 0 \<lparr>new_peer = Some 2, offer_ok = True\<rparr> ''b'' [] payload])"

lemma demo_parse:
  "parseBitrateOptions 0 [(''bwe'', ABool True)] = Inr \<lparr>Enabled = True, Initial = 4000000, Minimum = 100000, Maximum = 20000000\<rparr>"
  "\<exists>options. parseStreamOptions 0 [(''bwe'', ABool True)] False = Inr options"
  by (simp_all add: parseStreamOptions_def parseBitrateOptions_def bitrate_field_def option_values_def numeric_keys_def
        fps_value_def string_keys_def stringField_def boolField_def zoom_value_def orientation_value_def
        audio_source_values_def value_of_def format_bool_def line_break_def)

lemma demo_viewers_run:
  "\<exists>ca cb. fold exec_rtc demo_viewers newWebRTCManager = newWebRTCManager\<lparr>nextOrder := 2, sessions :=
     mput ''b'' \<lparr>peer = Some 2, clipboard = False, withVideo = True, withAudio = False,
        ws_bitrate = \<lparr>Enabled = True, Initial = 4000000, Minimum = 100000, Maximum = 20000000\<rparr>, captureOptions = cb, order = 2,
        targetBitrate = 4000000, pendingCandidates = []\<rparr>
     [(''a'', \<lparr>peer = Some 1, clipboard = True, withVideo = True, withAudio = False,
        ws_bitrate = \<lparr>Enabled = True, Initial = 4000000, Minimum = 100000, Maximum = 20000000\<rparr>, captureOptions = ca, order = 1,
        targetBitrate = 4000000, pendingCandidates = []\<rparr>)]\<rparr>"
  using demo_parse
  by (auto simp: demo_viewers_def newWebRTCManager_def createOffer_def obj_of_def boolField_def Let_def)

theorem encoder_rate_bounded_witness:
  "\<exists>ev m'. updateBitrate 5 ''b'' 2 1500000 (fold exec_rtc demo_viewers newWebRTCManager) = (Some ev, m') \<and>
     currentBitrate m' = 1500000 \<and> (\<exists>r. encodeControlEvent 0 ev = Inr ([23] @ put_be 4 (nat r)) \<and> 100000 \<le> r)"
proof -
  from demo_viewers_run have "\<exists>ev m'. updateBitrate 5 ''b'' 2 1500000 (fold exec_rtc demo_viewers newWebRTCManager) = (Some ev, m') \<and>
     currentBitrate m' = 1500000" by (auto simp: updateBitrate_def newWebRTCManager_def Let_def)
  then obtain ev m' where u: "updateBitrate 5 ''b'' 2 1500000 (fold exec_rtc demo_viewers newWebRTCManager) = (Some ev, m')"
     "currentBitrate m' = 1500000" by blast
  from encoder_rate_bounded [OF u(1), of 0] u show ?thesis by blast
qed

section \<open>Closed and lost peers\<close>

definition peer_gone :: "string \<Rightarrow> nat \<Rightarrow> 'c rtc \<Rightarrow> bool" where
  "peer_gone c p m \<longleftrightarrow> \<not> sessionActive c p m"

text \<open>The WebRTC library never gives the same peer connection twice.\<close>

fun other_peer :: "nat \<Rightarrow> 'c rtc_op \<Rightarrow> 'c rtc \<Rightarrow> bool" where
  "other_peer p (ROffer oor OE c perms payload) m = (new_peer OE \<noteq> Some p)"
| "other_peer p _ m = True"

lemma createOffer_peer:
  "sessionActive d p (snd (createOffer oor OE c perms payload m)) \<Longrightarrow> new_peer OE \<noteq> Some p \<Longrightarrow> sessionActive d p m"
  by (auto simp: createOffer_def sessionActive_def Let_def split: if_splits sum.splits option.splits)

interpretation closed_peer: machine exec_rtc "other_peer p" "peer_gone d p" for d p
proof unfold_locales
  fix m :: "'a rtc" and e assume inv: "peer_gone d p m" and ok: "other_peer p e m"
  then show "peer_gone d p (exec_rtc e m)"
  proof (cases e)
    case (ROffer oor OE c perms payload)
    with inv ok createOffer_peer show ?thesis by (fastforce simp: peer_gone_def)
  next
    case (RBitrate t c q x)
    with inv show ?thesis
      by (auto simp: peer_gone_def sessionActive_def updateBitrate_sessions clamped_def split: option.splits if_splits)
  qed (auto simp: peer_gone_def sessionActive_def setAnswer_finish_def addCandidate_def removeSession_def CloseSession_def no_session_def
      requestKeyframe_def SetVideoCodec_def PushH264_def Let_def restrict_map_def split: option.splits if_splits)
qed



text \<open>
  C21. An answer that races with the end of its peer leaves a viewer that is not there: the answer is
  applied to the peer without the lock, the peer ends and its session is removed, and then the
  second half of \<open>setAnswer\<close> writes the session back as the zero value. From then on the client
  counts as connected without a peer, every later request for an offer is ignored, and closing the
  session closes a nil peer.
\<close>

theorem lost_viewer_blocks_client:
  assumes "setAnswer_apply c sdp m = Some p"
  shows "let m' = snd (setAnswer_finish c (snd (removeSession c p m))) in
     \<not> HasClient c (snd (removeSession c p m)) \<and> HasClient c m' \<and> \<not> sessionActive c q m' \<and>
     (\<forall>oor OE perms payload. createOffer oor OE c perms payload m' = (Inr False, m')) \<and>
     fst (CloseSession c m') = Some None"
proof -
  from assms obtain s where "map_of (sessions m) c = Some s" "peer s = Some p"
    by (auto simp: setAnswer_apply_def split: if_splits option.splits)
  then show ?thesis
    by (simp add: HasClient_def sessionActive_def removeSession_def setAnswer_finish_def createOffer_def CloseSession_def no_session_def Let_def)
qed

theorem lost_viewer_blocks_client_witness:
  "setAnswer_apply ''a'' ''v=0'' (fold exec_rtc demo_viewers newWebRTCManager) = Some 1 \<and>
   HasClient ''a'' (snd (setAnswer_finish ''a'' (snd (removeSession ''a'' 1 (fold exec_rtc demo_viewers newWebRTCManager)))))"
proof -
  from demo_viewers_run have a: "setAnswer_apply ''a'' ''v=0'' (fold exec_rtc demo_viewers newWebRTCManager) = Some 1"
    by (auto simp: setAnswer_apply_def)
  from lost_viewer_blocks_client [OF a] a show ?thesis by (simp add: Let_def)
qed

section \<open>What the capture is asked for\<close>

lemma latest_of_fold:
  assumes "\<forall>kv \<in> set xs. P (snd kv) \<longrightarrow> 0 < order (snd kv)"
  shows "let l = fold (\<lambda>kv l. if P (snd kv) \<and> order l < order (snd kv) then snd kv else l) xs b in
     (\<forall>kv \<in> set xs. P (snd kv) \<longrightarrow> order (snd kv) \<le> order l) \<and> order b \<le> order l \<and> (l = b \<or> l \<in> snd ` set xs \<and> P l)"
  using assms
proof (induction xs arbitrary: b)
  case (Cons kv xs)
  from Cons.IH [of "snd kv"] Cons.IH [of b] Cons.prems show ?case by (auto simp: Let_def)
qed simp

lemma latest_of_newest:
  assumes "rtc_ok m" "\<And>s. P s \<Longrightarrow> withVideo s" "map_of (sessions m) c = Some s" "P s"
  obtains d where "map_of (sessions m) d = Some (latest_of P m)" "P (latest_of P m)" "order s \<le> order (latest_of P m)"
proof -
  have mok: "mok (sessions m)" using assms(1) by (simp add: rtc_ok_def)
  have pos: "0 < order u" if "map_of (sessions m) d = Some u" "P u" for d u
    using rtc_ok_session [OF assms(1) that(1)] assms(2) [OF that(2)] by (auto simp: session_ok_def)
  then have "\<forall>kv \<in> set (sessions m). P (snd kv) \<longrightarrow> 0 < order (snd kv)"
    using mok by (metis map_of_eq_Some_iff prod.collapse)
  from latest_of_fold [OF this, of no_session]
  have l: "\<forall>kv \<in> set (sessions m). P (snd kv) \<longrightarrow> order (snd kv) \<le> order (latest_of P m)"
    "latest_of P m = no_session \<or> latest_of P m \<in> snd ` set (sessions m) \<and> P (latest_of P m)"
    by (simp_all add: latest_of_def Let_def)
  have le: "order s \<le> order (latest_of P m)" using l(1) map_of_SomeD [OF assms(3)] assms(4) by fastforce
  with pos [OF assms(3,4)] have "latest_of P m \<noteq> no_session" by (auto simp: no_session_def)
  with l(2) obtain d where "(d, latest_of P m) \<in> set (sessions m)" "P (latest_of P m)" by force
  with that le mok show thesis by (metis map_of_eq_Some_iff)
qed

lemma copy_key_value [simp]: "value_of (copy_key from key vs) k = (if k = key then value_of from key else value_of vs k)"
  by (auto simp: copy_key_def value_of_def Let_def)

lemma merge_keeps:
  assumes "rtc_ok m" "map_of (sessions m) c = Some s" "withVideo s"
  shows "value_of (Values (captureOptions s)) ''keep_active'' = ''true'' \<Longrightarrow>
           value_of (Values (mergeCaptureNeeds m options)) ''keep_active'' = ''true''"
    and "withAudio s \<Longrightarrow> Audio (mergeCaptureNeeds m options)"
    and "key \<notin> {''keep_active'', ''audio_source'', ''audio_dup''} \<Longrightarrow>
           value_of (Values (mergeCaptureNeeds m options)) key = value_of (Values options) key"
proof -
  assume "value_of (Values (captureOptions s)) ''keep_active'' = ''true''"
  with assms(3) map_of_SomeD [OF assms(2)]
  have "list_ex (\<lambda>kv. withVideo (snd kv) \<and> value_of (Values (captureOptions (snd kv))) ''keep_active'' = ''true'') (sessions m)"
    by (force simp: list_ex_iff)
  then show "value_of (Values (mergeCaptureNeeds m options)) ''keep_active'' = ''true''"
    by (simp add: mergeCaptureNeeds_def copy_audio_def Let_def) (simp add: value_of_def)
next
  assume "withAudio s"
  with latest_of_newest [OF assms(1) _ assms(2), of "\<lambda>s. withVideo s \<and> withAudio s"] assms(3)
  have "withAudio (latest_of (\<lambda>s. withVideo s \<and> withAudio s) m)" by blast
  then show "Audio (mergeCaptureNeeds m options)" by (simp add: mergeCaptureNeeds_def Let_def)
next
  assume "key \<notin> {''keep_active'', ''audio_source'', ''audio_dup''}"
  then show "value_of (Values (mergeCaptureNeeds m options)) key = value_of (Values options) key"
    by (auto simp: mergeCaptureNeeds_def copy_audio_def Let_def) (auto simp: value_of_def)
qed

lemma value_of_copy [simp]: "mok vs \<Longrightarrow> value_of (mover [] vs) k = value_of vs k"
  by (simp add: value_of_def map_of_rev_mok split: option.splits)

text \<open>
  The options the capture runs with suit every viewer: a viewer with video that asked to keep the
  device active has that, one that asked for sound gets sound, and apart from these shared needs the
  options are those of the newest viewer.
\<close>

theorem capture_needs_met:
  fixes es :: "'c rtc_op list"
  defines "m \<equiv> fold exec_rtc es newWebRTCManager"
  defines "options \<equiv> mergeCaptureNeeds m (fst (LatestVideoOptions m))"
  assumes "map_of (sessions m) c = Some s" "withVideo s"
  shows "snd (LatestVideoOptions m) \<and>
     (value_of (Values (captureOptions s)) ''keep_active'' = ''true'' \<longrightarrow> value_of (Values options) ''keep_active'' = ''true'') \<and>
     (withAudio s \<longrightarrow> Audio options) \<and>
     (\<exists>d u. map_of (sessions m) d = Some u \<and> withVideo u \<and>
        (\<forall>e v. map_of (sessions m) e = Some v \<and> withVideo v \<longrightarrow> order v \<le> order u) \<and>
        (\<forall>key. key \<notin> {''keep_active'', ''audio_source'', ''audio_dup''} \<longrightarrow>
           value_of (Values options) key = value_of (Values (captureOptions u)) key))"
proof -
  have ok: "rtc_ok m" unfolding m_def by (rule reachable_ok)
  obtain d where d: "map_of (sessions m) d = Some (latest_of withVideo m)" "withVideo (latest_of withVideo m)"
    by (rule latest_of_newest [OF ok, of withVideo, OF _ assms(3,4)])
  have newest: "order v \<le> order (latest_of withVideo m)" if "map_of (sessions m) e = Some v" "withVideo v" for e v
    using latest_of_newest [OF ok, of withVideo, OF _ that] by blast
  have "mok (Values (captureOptions (latest_of withVideo m)))" using rtc_ok_session [OF ok d(1)] by (simp add: session_ok_def)
  then have "value_of (Values options) key = value_of (Values (captureOptions (latest_of withVideo m))) key"
    if "key \<notin> {''keep_active'', ''audio_source'', ''audio_dup''}" for key
    unfolding options_def merge_keeps(3) [OF ok assms(3,4) that] by (simp add: LatestVideoOptions_def Let_def)
  with d newest merge_keeps(1,2) [OF ok assms(3,4), of "fst (LatestVideoOptions m)"] show ?thesis
    unfolding options_def by (auto simp: LatestVideoOptions_def Let_def)
qed

theorem capture_needs_met_witness:
  "\<exists>s. map_of (sessions (fold exec_rtc demo_viewers newWebRTCManager)) ''a'' = Some s \<and> withVideo s \<and>
     snd (LatestVideoOptions (fold exec_rtc demo_viewers newWebRTCManager))"
proof -
  from demo_viewers_run have "\<exists>s. map_of (sessions (fold exec_rtc demo_viewers newWebRTCManager)) ''a'' = Some s \<and> withVideo s" by auto
  then obtain s where s: "map_of (sessions (fold exec_rtc demo_viewers newWebRTCManager)) ''a'' = Some s" "withVideo s" by blast
  from capture_needs_met [OF s] s show ?thesis by blast
qed

end
