(* ===== verification/Paths.thy ===== *)
theory Paths
  imports Prelude
begin

text \<open>
  File names on Unix, the parts of \<open>path/filepath\<close> that the agent and the deployer use, and what a
  cleaned absolute path denotes.
\<close>

text \<open>\<open>filepath.Join\<close> of two elements with \<open>filepath.Clean\<close>, on Unix.\<close>

fun clean_step :: "bool \<Rightarrow> string \<Rightarrow> string list \<Rightarrow> string list" where
  "clean_step rooted piece acc =
     (if piece = '''' \<or> piece = ''.'' then acc
      else if piece = ''..'' then
        (case acc of [] \<Rightarrow> (if rooted then [] else [''..'']) | p # ps \<Rightarrow> (if p = ''..'' then ''..'' # acc else ps))
      else piece # acc)"

definition Clean :: "string \<Rightarrow> string" where
  "Clean path =
     (let rooted = (path \<noteq> [] \<and> hd path = CHR ''/'');
          body = join_with ''/'' (rev (fold (clean_step rooted) (split_on (CHR ''/'') path) []))
      in if rooted then CHR ''/'' # body else if body = '''' then ''.'' else body)"

definition Join :: "string \<Rightarrow> string \<Rightarrow> string" where
  "Join a b = (if a \<noteq> '''' then Clean (a @ ''/'' @ b) else if b \<noteq> '''' then Clean b else '''')"

definition IsAbs :: "string \<Rightarrow> bool" where
  "IsAbs path \<longleftrightarrow> path \<noteq> [] \<and> hd path = CHR ''/''"

text \<open>\<open>filepath.Dir\<close> and \<open>filepath.Ext\<close>.\<close>

definition Dir :: "string \<Rightarrow> string" where
  "Dir path = Clean (rev (dropWhile (\<lambda>c. c \<noteq> CHR ''/'') (rev path)))"

definition Ext :: "string \<Rightarrow> string" where
  "Ext path =
     (let base = rev (takeWhile (\<lambda>c. c \<noteq> CHR ''/'') (rev path)) in
      if CHR ''.'' \<in> set base then CHR ''.'' # rev (takeWhile (\<lambda>c. c \<noteq> CHR ''.'') (rev base)) else [])"

text \<open>The place an absolute path denotes, links aside: the names from the root down, after \<open>.\<close> and \<open>..\<close>.\<close>

definition place :: "string \<Rightarrow> string list" where
  "place path = rev (fold (clean_step True) (split_on (CHR ''/'') path) [])"

definition proper :: "string \<Rightarrow> bool" where
  "proper p \<longleftrightarrow> p \<noteq> [] \<and> p \<noteq> ''.'' \<and> p \<noteq> ''..'' \<and> CHR ''/'' \<notin> set p"

lemma clean_step_proper: "list_all proper acc \<Longrightarrow> CHR ''/'' \<notin> set p \<Longrightarrow> list_all proper (clean_step True p acc)"
  by (cases acc) (auto simp: proper_def)

lemma clean_fold_proper:
  "list_all proper acc \<Longrightarrow> \<forall>p \<in> set ps. CHR ''/'' \<notin> set p \<Longrightarrow> list_all proper (fold (clean_step True) ps acc)"
  by (induction ps arbitrary: acc) (simp_all add: clean_step_proper del: clean_step.simps)

lemma place_proper: "list_all proper (place path)"
  unfolding place_def list_all_iff set_rev using clean_fold_proper [of "[]" "split_on (CHR ''/'') path"]
  by (simp add: list_all_iff split_on_pieces)

lemma clean_fold_id: "list_all proper ps \<Longrightarrow> fold (clean_step True) ps acc = rev ps @ acc"
  by (induction ps arbitrary: acc) (auto simp: proper_def)

lemma Clean_absolute: "IsAbs path \<Longrightarrow> Clean path = CHR ''/'' # join_with ''/'' (place path)"
  by (simp add: Clean_def place_def IsAbs_def Let_def)

lemma place_Clean:
  assumes "IsAbs path"
  shows "place (Clean path) = place path"
proof (cases "place path = []")
  case True
  then show ?thesis by (simp add: Clean_absolute [OF assms]) (simp add: place_def)
next
  case False
  have "split_on (CHR ''/'') (join_with ''/'' (place path)) = place path"
    using split_on_join [of "place path" "CHR ''/''"] False place_proper [of path] by (auto simp: list_all_iff proper_def)
  then show ?thesis using clean_fold_id [OF place_proper [of path], of "[]"]
    by (simp add: Clean_absolute [OF assms]) (simp add: place_def [of "_ # _"])
qed

end
