(* ===== verification/Deployer.thy ===== *)
theory Deployer
  imports Config ShellV2 Contracts Paths
begin

text \<open>
  The ADB deployer, \<open>deployer.go\<close>, \<open>host.go\<close> and \<open>adb.go\<close>: it scans the devices of an ADB server and
  keeps one agent per device running, either a process of its own host for every USB device or a
  program installed on the device. The state \<open>runner\<close> is the record \<open>runner\<close> of the code; the
  goroutines it has started appear as the list of host workers, addressed by their position as the
  code addresses them by pointer, and as the list of deployments under way. What the devices, the
  files and the control plane answer is a parameter; the calls that change something outside are
  listed in the order in which they are made. The hash of the state directory is a parameter.
\<close>

section \<open>Configuration\<close>

record deploy_config =
  Mode :: string
  ADBServer :: string
  HostAgent :: string
  StateDir :: string
  ADBPath :: string
  ArtifactDir :: string
  ScrcpyJar :: string
  SignalingURL :: string
  ControlPlaneURL :: string
  DeploymentToken :: string
  AdminToken :: string
  EnrollmentToken :: string
  Interval :: int
  InsecureTLS :: bool
  Force :: bool

definition ModeHost :: string where "ModeHost = ''host''"
definition ModeDevice :: string where "ModeDevice = ''device''"
definition DefaultServer :: string where "DefaultServer = ''127.0.0.1:5037''"

definition default_to :: "string \<Rightarrow> string \<Rightarrow> string" where
  "default_to d v = (if v = '''' then d else v)"

definition ResolveDefaults :: "deploy_config \<Rightarrow> deploy_config" where
  "ResolveDefaults c =
     c\<lparr>Mode := default_to ModeHost (Mode c), ADBServer := default_to DefaultServer (ADBServer c),
       HostAgent := default_to ''/usr/local/bin/scrcpycat-agent'' (HostAgent c),
       StateDir := default_to ''/var/lib/scrcpycat/adb-deployer'' (StateDir c),
       Interval := (if Interval c = 0 then 10 * 1000000000 else Interval c)\<rparr>"

text \<open>\<open>net.SplitHostPort\<close>: the port follows the last colon; a host with colons is in brackets.\<close>

definition SplitHostPort :: "string \<Rightarrow> (string \<times> string) option" where
  "SplitHostPort s =
     (if CHR '':'' \<notin> set s then None
      else
        (let rest = rev (dropWhile (\<lambda>c. c \<noteq> CHR '':'') (rev s)); i = length rest - 1; port = drop (i + 1) s;
             brackets = (\<lambda>t. CHR 0x5B \<in> set t \<or> CHR 0x5D \<in> set t)
         in if s \<noteq> [] \<and> hd s = CHR 0x5B then
              (let e = length (takeWhile (\<lambda>c. c \<noteq> CHR 0x5D) s) in
               if e + 1 = i \<and> CHR 0x5B \<notin> set (drop 1 s) \<and> CHR 0x5D \<notin> set (drop (e + 1) s)
               then Some (take (e - 1) (drop 1 s), port) else None)
            else
              (let host = take i s in
               if CHR '':'' \<in> set host \<or> brackets s then None else Some (host, port))))"

text \<open>\<open>adb.New\<close>: the address of the ADB server.\<close>

definition adb_New :: "string \<Rightarrow> (string \<times> int) option" where
  "adb_New address =
     (case SplitHostPort (default_to DefaultServer address) of
        None \<Rightarrow> None
      | Some (host, rawPort) \<Rightarrow>
          (case atoi rawPort of
             None \<Rightarrow> None
           | Some port \<Rightarrow> (if port < 1 \<or> 65535 < port \<or> host = '''' then None else Some (host, port))))"

definition Validate :: "deploy_config \<Rightarrow> string option" where
  "Validate c0 =
     (let c = ResolveDefaults c0 in
      if Mode c \<noteq> ModeHost \<and> Mode c \<noteq> ModeDevice then Some ''--mode must be host or device''
      else if Mode c = ModeHost \<and> Force c then Some ''--force is only supported in device mode''
      else if Interval c < 100 * 1000000 then Some ''--interval must be at least 100ms''
      else if adb_New (ADBServer c) = None then Some ''invalid ADB server address''
      else if ADBPath c = '''' \<or> Mode c = ModeDevice \<and> ArtifactDir c = '''' \<or> ScrcpyJar c = '''' \<or> SignalingURL c = ''''
      then Some ''adb, artifact-dir, scrcpy-jar and signaling are required''
      else if ControlPlaneURL c = '''' \<and> EnrollmentToken c = ''''
      then Some ''control-plane/admin-token or enrollment-token is required''
      else if ControlPlaneURL c \<noteq> '''' \<and> AdminToken c = '''' \<and> DeploymentToken c = ''''
      then Some ''--deployment-token or --admin-token is required with --control-plane''
      else if AdminToken c \<noteq> '''' \<and> DeploymentToken c \<noteq> ''''
      then Some ''configure only one of deployment-token and admin-token''
      else None)"

section \<open>The runner and its workers\<close>

record worker =
  w_serial :: string
  w_cancelled :: bool
  w_done :: bool

record runner =
  busy :: "unit gomap"
  hosts :: "nat gomap"
  workers :: "worker list"
  deploying :: "string list"

definition new_runner :: runner where
  "new_runner = \<lparr>busy = [], hosts = [], workers = [], deploying = []\<rparr>"

definition acquire :: "string \<Rightarrow> runner \<Rightarrow> bool \<times> runner" where
  "acquire serial r =
     (if map_of (busy r) serial \<noteq> None then (False, r) else (True, r\<lparr>busy := mput serial () (busy r)\<rparr>))"

definition release :: "string \<Rightarrow> runner \<Rightarrow> runner" where
  "release serial r = r\<lparr>busy := mdel serial (busy r)\<rparr>"

text \<open>Cancelling the context of a worker; the goroutine ends some time later.\<close>

definition cancel :: "nat \<Rightarrow> runner \<Rightarrow> runner" where
  "cancel w r = r\<lparr>workers := (workers r)[w := (workers r ! w)\<lparr>w_cancelled := True\<rparr>]\<rparr>"

text \<open>The first loop of \<open>reconcileHosts\<close> for one entry, the second one for one serial.\<close>

definition reconcile_worker :: "string list \<Rightarrow> string \<times> nat \<Rightarrow> runner \<Rightarrow> runner" where
  "reconcile_worker present entry r =
     (case entry of (serial, w) \<Rightarrow>
        (if w_done (workers r ! w) then (cancel w r)\<lparr>hosts := mdel serial (hosts r)\<rparr>
         else if serial \<notin> set present then cancel w r else r))"

definition start_worker :: "string \<Rightarrow> runner \<Rightarrow> runner" where
  "start_worker serial r =
     (if map_of (hosts r) serial \<noteq> None then r
      else r\<lparr>hosts := mput serial (length (workers r)) (hosts r),
             workers := workers r @ [\<lparr>w_serial = serial, w_cancelled = False, w_done = False\<rparr>]\<rparr>)"

definition reconcileHosts :: "string list \<Rightarrow> runner \<Rightarrow> runner" where
  "reconcileHosts serials r = fold start_worker serials (fold (reconcile_worker serials) (hosts r) r)"

text \<open>\<open>connectedSerials\<close>: the host mode looks after USB devices only.\<close>

definition connectedSerials :: "deploy_config \<Rightarrow> (string \<times> bool) list \<Rightarrow> string list" where
  "connectedSerials c devices = map fst (filter (\<lambda>d. \<not> (Mode c = ModeHost \<and> \<not> snd d)) devices)"

definition start_deployment :: "string \<Rightarrow> runner \<Rightarrow> runner" where
  "start_deployment serial r =
     (case acquire serial r of (False, r) \<Rightarrow> r | (True, r) \<Rightarrow> r\<lparr>deploying := serial # deploying r\<rparr>)"

text \<open>A scan that could not list the devices only looks after the ADB server.\<close>

definition scan :: "deploy_config \<Rightarrow> (string \<times> bool) list option \<Rightarrow> runner \<Rightarrow> runner" where
  "scan c devices r =
     (case devices of
        None \<Rightarrow> r
      | Some devices \<Rightarrow>
          (let serials = connectedSerials c devices in
           if Mode c = ModeHost then reconcileHosts serials r else fold start_deployment serials r))"

text \<open>The end of a worker's goroutine and of a deployment.\<close>

definition worker_ends :: "nat \<Rightarrow> runner \<Rightarrow> runner" where
  "worker_ends w r = (if w < length (workers r) then r\<lparr>workers := (workers r)[w := (workers r ! w)\<lparr>w_done := True\<rparr>]\<rparr> else r)"

definition deployment_ends :: "string \<Rightarrow> runner \<Rightarrow> runner" where
  "deployment_ends serial r = (release serial r)\<lparr>deploying := remove1 serial (deploying r)\<rparr>"

section \<open>The loop of a host worker\<close>

datatype run_error = RunFailed string | ExitCode int

text \<open>
  What one turn of \<open>hostLoop\<close> leaves for the next: the attempt counter, whether the identity is
  renewed, and the delay in seconds. \<open>lasted\<close> is the running time in nanoseconds.
\<close>

definition host_turn :: "int \<Rightarrow> run_error option \<Rightarrow> nat \<Rightarrow> nat \<times> bool \<times> nat" where
  "host_turn lasted err attempt =
     (let renewIdentity = (err = Some (ExitCode 3));
          attempt = (if 60 * 1000000000 < lasted then 0 else attempt)
      in (attempt + 1, renewIdentity, min (attempt + 1) 15))"

fun host_delays :: "(int \<times> run_error option) list \<Rightarrow> nat \<Rightarrow> (bool \<times> nat) list" where
  "host_delays [] attempt = []"
| "host_delays ((lasted, err) # runs) attempt =
     (case host_turn lasted err attempt of
        (next_attempt, renewIdentity, delay) \<Rightarrow> (renewIdentity, delay) # host_delays runs next_attempt)"

section \<open>Enrollment tokens\<close>

record token_request =
  tr_url :: string
  tr_authorization :: string
  tr_body :: obj

text \<open>
  The answer of the control plane: no answer at all, or its status and the token in a body that
  decodes (empty if there is none).
\<close>

type_synonym token_reply = "(nat \<times> string option) option"

definition token_request_for :: "deploy_config \<Rightarrow> string \<Rightarrow> token_request" where
  "token_request_for c deviceID =
     (let (path, credential) = (if DeploymentToken c \<noteq> '''' then (''/api/deploy/enrollment-tokens'', DeploymentToken c)
                                else (''/api/agents/enrollment-tokens'', AdminToken c))
      in \<lparr>tr_url = trim_slashes (ControlPlaneURL c) @ path, tr_authorization = ''Bearer '' @ credential,
          tr_body = [(''device_id'', AStr deviceID), (''ttl_seconds'', AInt 900)]\<rparr>)"

definition enrollmentToken :: "(token_request \<Rightarrow> token_reply) \<Rightarrow> deploy_config \<Rightarrow> string \<Rightarrow> string + string" where
  "enrollmentToken post c deviceID =
     (if ControlPlaneURL c = '''' then Inr (EnrollmentToken c)
      else
        (case post (token_request_for c deviceID) of
           None \<Rightarrow> Inl ''request''
         | Some (status, token) \<Rightarrow>
             (if status \<noteq> 201 then Inl ''issue enrollment token''
              else
                (case token of
                   Some token \<Rightarrow> (if token = '''' then Inl ''control plane returned an invalid enrollment token'' else Inr token)
                 | None \<Rightarrow> Inl ''control plane returned an invalid enrollment token''))))"

section \<open>The agent on the host\<close>

definition hostStateDirectory :: "(string \<Rightarrow> byte list) \<Rightarrow> string \<Rightarrow> string \<Rightarrow> string" where
  "hostStateDirectory hash dir serial = Join dir (hex_string (take 16 (hash serial)))"

definition entry_name :: "string \<Rightarrow> string" where
  "entry_name entry = takeWhile (\<lambda>c. c \<noteq> CHR ''='') entry"

definition agentEnvironment :: "string list \<Rightarrow> string \<Rightarrow> string list" where
  "agentEnvironment environment token =
     filter (\<lambda>entry. entry_name entry \<notin> {''SCRCPYCAT_ENROLLMENT_TOKEN'', ''SCRCPYCAT_DEPLOYMENT_TOKEN'', ''SCRCPYCAT_ADMIN_TOKEN''})
       environment @ [''SCRCPYCAT_ENROLLMENT_TOKEN='' @ token]"

text \<open>
  What the outside answers to one run of the host agent: the kind of a file (\<open>None\<close> if there is none,
  else whether it is regular), Shell v2, the token in a readable identity file, the control plane,
  the directory, the old agent, the log file, the environment and how the process ended.
\<close>

record host_env =
  file_kind :: "string \<Rightarrow> bool option"
  shell_v2 :: bool
  identity_token :: "string option"
  post :: "token_request \<Rightarrow> token_reply"
  mkdir_ok :: bool
  stopped :: bool
  log_ok :: bool
  environ :: "string list"
  ended :: "run_error option"

datatype action = StopAgent string | Spawn string "string list" "string list"
  | Push string string nat | Reverse string | Shell string

definition hasHostIdentity :: "string option \<Rightarrow> bool" where
  "hasHostIdentity token = (case token of None \<Rightarrow> False | Some t \<Rightarrow> t \<noteq> '''')"

definition host_args :: "deploy_config \<Rightarrow> string \<Rightarrow> string \<Rightarrow> string list" where
  "host_args c state serial =
     [''--adb-serial'', serial, ''--adb-server'', ADBServer c, ''--device-id'', serial,
      ''--identity-file'', Join state ''identity.json'', ''--pid-file'', Join state ''agent.pid'', ''--scrcpy-jar'', ScrcpyJar c,
      ''--signaling'', SignalingURL c]"

definition runHostAgent ::
  "(string \<Rightarrow> byte list) \<Rightarrow> host_env \<Rightarrow> deploy_config \<Rightarrow> string \<Rightarrow> bool \<Rightarrow> action list \<times> run_error option" where
  "runHostAgent hash H c serial renewIdentity =
     (case find (\<lambda>path. file_kind H path \<noteq> Some True) [HostAgent c, ScrcpyJar c] of
        Some path \<Rightarrow> ([], Some (RunFailed path))
      | None \<Rightarrow>
          (if \<not> shell_v2 H then ([], Some (RunFailed ''shell v2''))
           else
             (let state = hostStateDirectory hash (StateDir c) serial in
              case (if renewIdentity \<or> \<not> hasHostIdentity (identity_token H) then enrollmentToken (post H) c serial else Inr '''') of
                Inl e \<Rightarrow> ([], Some (RunFailed e))
              | Inr token \<Rightarrow>
                  (if \<not> mkdir_ok H then ([], Some (RunFailed ''mkdir''))
                   else if \<not> stopped H then ([StopAgent serial], Some (RunFailed ''stop''))
                   else if \<not> log_ok H then ([StopAgent serial], Some (RunFailed ''log''))
                   else ([StopAgent serial, Spawn (HostAgent c) (host_args c state serial) (agentEnvironment (environ H) token)],
                         ended H)))))"

section \<open>The agent on the device\<close>

definition supported_abis :: "string list" where
  "supported_abis = [''arm64-v8a'', ''armeabi-v7a'', ''x86'', ''x86_64'']"

definition deviceABI :: "string option \<Rightarrow> string option" where
  "deviceABI output =
     (case output of
        None \<Rightarrow> None
      | Some output \<Rightarrow> (let abi = trim_space output in if abi \<in> set supported_abis then Some abi else None))"

text \<open>The parts of a parsed signaling address: scheme, host name and port.\<close>

definition loopbackSignalingPort :: "(string \<times> string \<times> string) option \<Rightarrow> (string option) option" where
  "loopbackSignalingPort endpoint =
     (case endpoint of
        None \<Rightarrow> None
      | Some (scheme, host, port) \<Rightarrow>
          (if host \<notin> {''127.0.0.1'', ''localhost'', ''::1''} then Some None
           else Some (Some (if port \<noteq> '''' then port else if scheme = ''wss'' then ''443'' else ''80''))))"

text \<open>\<open>shellQuote\<close> is the quoting of the ADB client.\<close>

definition shellQuote :: "string \<Rightarrow> string" where
  "shellQuote value = [CHR 0x27] @ escape_quotes value @ [CHR 0x27]"

definition agent_args :: "deploy_config \<Rightarrow> string \<Rightarrow> string \<Rightarrow> string" where
  "agent_args c serial token =
     ''/data/local/tmp/scrcpycat-agent --device-id '' @ shellQuote serial @ '' --signaling '' @ shellQuote (SignalingURL c) @
     '' --enrollment-token '' @ shellQuote token @ '' --scrcpy-jar /data/local/tmp/scrcpy-server.jar''"

definition agent_command :: "string \<Rightarrow> string" where
  "agent_command args =
     ''chmod 700 /data/local/tmp/scrcpycat-agent || exit $?; (trap '' @ [CHR 0x27, CHR 0x27] @
     '' HUP; if command -v setsid >/dev/null 2>&1; then exec setsid '' @ args @ ''; else exec '' @ args @
     ''; fi) </dev/null >>/data/local/tmp/scrcpycat-agent.log 2>&1 & '' @
     ''for attempt in 1 2 3 4 5 6 7 8 9 10; do /data/local/tmp/scrcpycat-agent --health >/dev/null 2>&1 && exit 0; sleep 0.5; done; exit 1''"

text \<open>
  What the outside answers to one deployment: the health check before and after, the ABI, the
  files, the control plane, the parsed signaling address, whether stopping, pushing, forwarding and
  the launch succeeded, and whether the launch ran into its deadline.
\<close>

record device_env =
  healthy :: bool
  healthy_after :: bool
  abi_output :: "string option"
  file_there :: "string \<Rightarrow> bool"
  dv_post :: "token_request \<Rightarrow> token_reply"
  signaling :: "(string \<times> string \<times> string) option"
  agent_stopped :: bool
  pushed :: "string \<Rightarrow> bool"
  reversed :: bool
  launch_error :: "string option"
  deadline :: bool

definition ensureAgent :: "device_env \<Rightarrow> deploy_config \<Rightarrow> string \<Rightarrow> action list \<times> string option" where
  "ensureAgent D c serial =
     (if \<not> Force c \<and> healthy D then ([], None)
      else
        (case deviceABI (abi_output D) of
           None \<Rightarrow> ([], Some ''abi'')
         | Some abi \<Rightarrow>
             (let agentBinary = Join (Join (ArtifactDir c) abi) ''scrcpycat-agent'' in
              if \<not> file_there D agentBinary then ([], Some ''agent artifact'')
              else if \<not> file_there D (ScrcpyJar c) then ([], Some ''scrcpy jar'')
              else
                (case enrollmentToken (dv_post D) c serial of
                   Inl e \<Rightarrow> ([], Some e)
                 | Inr token \<Rightarrow>
                     (let stop = [StopAgent serial];
                          agent = [Push agentBinary ''/data/local/tmp/scrcpycat-agent'' 448];
                          jar = [Push (ScrcpyJar c) ''/data/local/tmp/scrcpy-server.jar'' 420]
                      in if \<not> agent_stopped D then (stop, Some ''stop'')
                         else if \<not> pushed D agentBinary then (stop @ agent, Some ''push'')
                         else if \<not> pushed D (ScrcpyJar c) then (stop @ agent @ jar, Some ''push'')
                         else
                           (case loopbackSignalingPort (signaling D) of
                              None \<Rightarrow> (stop @ agent @ jar, Some ''parse signaling URL'')
                            | Some port \<Rightarrow>
                                (let reverse = (case port of None \<Rightarrow> [] | Some p \<Rightarrow> [Reverse p]);
                                     launch = [Shell (agent_command (agent_args c serial token))]
                                 in if reverse \<noteq> [] \<and> \<not> reversed D then (stop @ agent @ jar @ reverse, Some ''reverse'')
                                    else
                                      (stop @ agent @ jar @ reverse @ launch,
                                       (if deadline D \<and> healthy_after D then None else launch_error D)))))))))"

text \<open>\<open>ensureADBServer\<close>: the answers to the two pings and of starting the server; \<open>loopback\<close> is \<open>ParseIP\<close> and \<open>IsLoopback\<close>.\<close>

definition ensureADBServer :: "(string \<Rightarrow> bool) \<Rightarrow> bool \<Rightarrow> bool \<Rightarrow> bool \<Rightarrow> deploy_config \<Rightarrow> action list \<times> string option" where
  "ensureADBServer loopback first_ping start second_ping c =
     (if first_ping then ([], None)
      else
        (case SplitHostPort (ADBServer c) of
           None \<Rightarrow> ([], Some ''address'')
         | Some (host, port) \<Rightarrow>
             (if host \<noteq> ''localhost'' \<and> \<not> loopback host then ([], Some ''external ADB server is unavailable'')
              else
                ([Spawn (ADBPath c) [''-L'', ''tcp:'' @ port, ''start-server''] []],
                 (if \<not> start then Some ''start ADB server'' else if second_ping then None else Some ''ping'')))))"

end
