(* ===== verification/DeployerProps.thy ===== *)
theory DeployerProps
  imports Deployer
begin

text \<open>
  Runs of the deployer: \<open>runner_op\<close> lists what happens to its state, a scan, the end of a worker's
  goroutine and the end of a deployment. \<open>runner_ok\<close> is the invariant; it gives one agent per device.
  For promises about what happens in the end a run is infinite, a sequence of operations, and
  \<open>state_at\<close> is its state after so many operations.
\<close>

section \<open>Infinite runs\<close>

fun state_at :: "('e \<Rightarrow> 's \<Rightarrow> 's) \<Rightarrow> (nat \<Rightarrow> 'e) \<Rightarrow> 's \<Rightarrow> nat \<Rightarrow> 's" where
  "state_at exec es s 0 = s"
| "state_at exec es s (Suc n) = exec (es n) (state_at exec es s n)"

context machine
begin

lemma always: "inv s \<Longrightarrow> (\<And>n. ok (es n) (state_at exec es s n)) \<Longrightarrow> inv (state_at exec es s n)"
  by (induction n) (simp_all add: keep)

end

lemma stays_from:
  assumes "P (state_at exec es s k)" "\<And>n. k \<le> n \<Longrightarrow> P (state_at exec es s n) \<Longrightarrow> P (state_at exec es s (Suc n))" "k \<le> n"
  shows "P (state_at exec es s n)"
  using assms(3) by (induction rule: dec_induct) (use assms(1,2) in auto)

section \<open>The invariant of the runner\<close>

datatype runner_op = Scan "(string \<times> bool) list option" | WorkerEnds nat | DeploymentEnds string

fun exec_runner :: "deploy_config \<Rightarrow> runner_op \<Rightarrow> runner \<Rightarrow> runner" where
  "exec_runner c (Scan devices) r = scan c devices r"
| "exec_runner c (WorkerEnds w) r = worker_ends w r"
| "exec_runner c (DeploymentEnds serial) r = deployment_ends serial r"

text \<open>A worker's loop returns only after its context was cancelled; a deployment ends that is under way.\<close>

fun runner_op_ok :: "runner_op \<Rightarrow> runner \<Rightarrow> bool" where
  "runner_op_ok (Scan devices) r = True"
| "runner_op_ok (WorkerEnds w) r = (w < length (workers r) \<and> w_cancelled (workers r ! w))"
| "runner_op_ok (DeploymentEnds serial) r = (serial \<in> set (deploying r))"

definition workers_ok :: "nat gomap \<Rightarrow> worker list \<Rightarrow> bool" where
  "workers_ok hs ws \<longleftrightarrow> mok hs \<and> (\<forall>s w. map_of hs s = Some w \<longrightarrow> w < length ws \<and> w_serial (ws ! w) = s) \<and>
     (\<forall>w < length ws. \<not> w_done (ws ! w) \<longrightarrow> map_of hs (w_serial (ws ! w)) = Some w)"

definition runner_ok :: "runner \<Rightarrow> bool" where
  "runner_ok r \<longleftrightarrow> workers_ok (hosts r) (workers r) \<and> mok (busy r) \<and> distinct (deploying r) \<and>
     (\<forall>s. s \<in> set (deploying r) \<longleftrightarrow> map_of (busy r) s \<noteq> None)"

text \<open>Workers that differ at most in being cancelled, and the workers that were cancelled.\<close>

definition same_workers :: "worker list \<Rightarrow> worker list \<Rightarrow> bool" where
  "same_workers ws vs \<longleftrightarrow> length vs = length ws \<and> (\<forall>w < length ws. w_serial (vs ! w) = w_serial (ws ! w) \<and> w_done (vs ! w) = w_done (ws ! w))"

lemma cancel_fields [simp]: "hosts (cancel w r) = hosts r" "busy (cancel w r) = busy r" "deploying (cancel w r) = deploying r"
  by (simp_all add: cancel_def)

lemma cancel_same: "same_workers (workers r) (workers (cancel w r))"
proof -
  have "w_serial (workers (cancel w r) ! u) = w_serial (workers r ! u) \<and> w_done (workers (cancel w r) ! u) = w_done (workers r ! u)"
    if "u < length (workers r)" for u
    using that by (cases "w = u") (auto simp: cancel_def)
  then show ?thesis by (simp add: same_workers_def) (simp add: cancel_def)
qed

lemma cancel_cancelled: "u < length (workers r) \<Longrightarrow> w_cancelled (workers (cancel w r) ! u) = (w_cancelled (workers r ! u) \<or> u = w)"
  by (cases "w = u") (auto simp: cancel_def nth_list_update)

lemma same_workers_trans: "same_workers a b \<Longrightarrow> same_workers b c \<Longrightarrow> same_workers a c"
  by (simp add: same_workers_def)

lemma same_workers_refl [simp]: "same_workers a a"
  by (simp add: same_workers_def)

lemma workers_ok_same: "workers_ok hs ws \<Longrightarrow> same_workers ws vs \<Longrightarrow> workers_ok hs vs"
  by (auto simp: workers_ok_def same_workers_def)

lemma workers_ok_drop: "workers_ok hs ws \<Longrightarrow> map_of hs s = Some w \<Longrightarrow> w_done (ws ! w) \<Longrightarrow> workers_ok (mdel s hs) ws"
  by (fastforce simp: workers_ok_def restrict_map_def split: if_splits)

lemma workers_ok_start:
  assumes "workers_ok hs ws" "map_of hs s = None"
  shows "workers_ok (mput s (length ws) hs) (ws @ [\<lparr>w_serial = s, w_cancelled = False, w_done = False\<rparr>])"
proof -
  have "w < length ws \<and> w_serial (ws ! w) = t" if "map_of hs t = Some w" for t w
    using assms(1) that by (simp add: workers_ok_def)
  moreover have "map_of hs (w_serial (ws ! w)) = Some w" if "w < length ws" "\<not> w_done (ws ! w)" for w
    using assms(1) that by (simp add: workers_ok_def)
  moreover from this have "w_serial (ws ! w) \<noteq> s" if "w < length ws" "\<not> w_done (ws ! w)" for w
    using assms(2) that by fastforce
  moreover have "mok hs" using assms(1) by (simp add: workers_ok_def)
  ultimately show ?thesis unfolding workers_ok_def by (auto simp: nth_append less_Suc_eq)
qed

text \<open>The first loop of \<open>reconcileHosts\<close>.\<close>

lemma reconcile_worker_step:
  fixes present :: "string list"
  assumes "workers_ok (hosts r) (workers r)" "map_of (hosts r) s = Some w"
  defines "r' \<equiv> reconcile_worker present (s, w) r"
  shows "workers_ok (hosts r') (workers r')" "same_workers (workers r) (workers r')" "busy r' = busy r" "deploying r' = deploying r"
    and "map_of (hosts r') t = (if t = s \<and> w_done (workers r ! w) then None else map_of (hosts r) t)"
    and "u < length (workers r) \<Longrightarrow>
      w_cancelled (workers r' ! u) = (w_cancelled (workers r ! u) \<or> u = w \<and> (w_done (workers r ! w) \<or> s \<notin> set present))"
proof -
  show "same_workers (workers r) (workers r')" by (simp add: r'_def reconcile_worker_def cancel_same)
  with assms show "workers_ok (hosts r') (workers r')"
    by (auto simp: reconcile_worker_def intro: workers_ok_same workers_ok_drop)
qed (auto simp: r'_def reconcile_worker_def cancel_cancelled assms)

lemma reconcile_fold:
  fixes present :: "string list"
  assumes "workers_ok (hosts r) (workers r)" "mok es" "\<And>s w. (s, w) \<in> set es \<Longrightarrow> map_of (hosts r) s = Some w"
  defines "r' \<equiv> fold (reconcile_worker present) es r"
  shows "workers_ok (hosts r') (workers r') \<and> same_workers (workers r) (workers r') \<and> busy r' = busy r \<and> deploying r' = deploying r \<and>
    (\<forall>t. map_of (hosts r') t = (case map_of es t of Some w \<Rightarrow> if w_done (workers r ! w) then None else map_of (hosts r) t
        | None \<Rightarrow> map_of (hosts r) t)) \<and>
    (\<forall>u < length (workers r). w_cancelled (workers r' ! u) \<longrightarrow> w_cancelled (workers r ! u) \<or>
       (\<exists>s. (s, u) \<in> set es \<and> (w_done (workers r ! u) \<or> s \<notin> set present)))"
  using assms(1-3) unfolding r'_def
proof (induction es arbitrary: r)
  case Nil
  then show ?case by simp
next
  case (Cons e es)
  obtain s w where e: "e = (s, w)" by (cases e)
  with Cons.prems have s: "map_of (hosts r) s = Some w" by simp
  let ?r = "reconcile_worker present (s, w) r"
  note step = reconcile_worker_step [OF Cons.prems(1) s, where present = present]
  from Cons.prems(2) e have es: "mok es" "s \<notin> fst ` set es" by auto
  have "map_of (hosts ?r) t = Some v" if "(t, v) \<in> set es" for t v
    using Cons.prems(3) [of t v] that es(2) by (force simp: step(5))
  note IH = Cons.IH [OF step(1) es(1) this]
  have w: "w < length (workers r)" using Cons.prems(1) s by (auto simp: workers_ok_def)
  have dn: "w_done (workers ?r ! u) = w_done (workers r ! u)" if "u < length (workers r)" for u
    using step(2) that by (simp add: same_workers_def)
  have in_range: "v < length (workers r)" if "map_of es t = Some v" for t v
    using Cons.prems(1,3) map_of_SomeD [OF that] by (auto simp: workers_ok_def)
  have "map_of (hosts (fold (reconcile_worker present) (e # es) r)) t =
      (case map_of (e # es) t of Some w \<Rightarrow> if w_done (workers r ! w) then None else map_of (hosts r) t | None \<Rightarrow> map_of (hosts r) t)" for t
  proof (cases "t = s")
    case True
    have "map_of es s = None" using es(2) by (simp add: map_of_eq_None_iff)
    with True IH s show ?thesis by (simp add: e step(5))
  next
    case False
    with IH in_range [of t] show ?thesis by (simp add: e step(5) dn split: option.split)
  qed
  moreover have "w_cancelled (workers r ! u) \<or> (\<exists>s. (s, u) \<in> set (e # es) \<and> (w_done (workers r ! u) \<or> s \<notin> set present))"
    if "u < length (workers r)" "w_cancelled (workers (fold (reconcile_worker present) (e # es) r) ! u)" for u
  proof -
    have "u < length (workers ?r)" using that(1) step(2) by (simp add: same_workers_def)
    with that(2) IH [THEN conjunct2, THEN conjunct2, THEN conjunct2, THEN conjunct2, THEN conjunct2, rule_format, of u]
    have "w_cancelled (workers ?r ! u) \<or> (\<exists>s. (s, u) \<in> set es \<and> (w_done (workers ?r ! u) \<or> s \<notin> set present))" by (simp add: e)
    then show ?thesis unfolding dn [OF that(1)] step(6) [OF that(1)] by (auto simp: e)
  qed
  ultimately show ?case using IH step(2-4) same_workers_trans [OF step(2)] by (simp add: e)
qed

text \<open>The second loop.\<close>

lemma start_worker_step:
  assumes "workers_ok (hosts r) (workers r)"
  shows "workers_ok (hosts (start_worker s r)) (workers (start_worker s r))"
    and "prefix (workers r) (workers (start_worker s r))"
    and "map_of (hosts r) t = Some w \<Longrightarrow> map_of (hosts (start_worker s r)) t = Some w"
    and "busy (start_worker s r) = busy r" "deploying (start_worker s r) = deploying r"
  using workers_ok_start [OF assms] assms by (auto simp: start_worker_def)

lemma start_fold:
  assumes "workers_ok (hosts r) (workers r)"
  shows "workers_ok (hosts (fold start_worker ss r)) (workers (fold start_worker ss r)) \<and>
     prefix (workers r) (workers (fold start_worker ss r)) \<and>
     busy (fold start_worker ss r) = busy r \<and> deploying (fold start_worker ss r) = deploying r"
  using assms
proof (induction ss arbitrary: r)
  case (Cons s ss)
  from Cons.IH [OF start_worker_step(1) [OF Cons.prems, of s]] start_worker_step(2) [OF Cons.prems, of s]
  show ?case by (simp add: start_worker_step(4,5) [OF Cons.prems]) (meson prefix_order.trans)
qed simp

lemma start_keeps:
  "workers_ok (hosts r) (workers r) \<Longrightarrow> map_of (hosts r) t = Some w \<Longrightarrow> map_of (hosts (fold start_worker ss r)) t = Some w"
proof (induction ss arbitrary: r)
  case (Cons s ss)
  from Cons.IH [OF start_worker_step(1) [OF Cons.prems(1)] start_worker_step(3) [OF Cons.prems]] show ?case by simp
qed simp

text \<open>The device has a worker that was neither cancelled nor ended.\<close>

definition running :: "string \<Rightarrow> nat \<Rightarrow> runner \<Rightarrow> bool" where
  "running s w r \<longleftrightarrow> map_of (hosts r) s = Some w \<and> w < length (workers r) \<and> \<not> w_cancelled (workers r ! w) \<and> \<not> w_done (workers r ! w)"

lemma start_new:
  "workers_ok (hosts r) (workers r) \<Longrightarrow> t \<in> set ss \<Longrightarrow> map_of (hosts r) t = None \<Longrightarrow> \<exists>w. running t w (fold start_worker ss r)"
proof (induction ss arbitrary: r)
  case (Cons s ss)
  let ?r = "start_worker s r"
  note ok = start_worker_step(1) [OF Cons.prems(1), of s]
  show ?case
  proof (cases "s = t")
    case True
    let ?w = "length (workers r)"
    have new: "map_of (hosts ?r) t = Some ?w" "workers ?r = workers r @ [\<lparr>w_serial = s, w_cancelled = False, w_done = False\<rparr>]"
      using True Cons.prems(3) by (simp_all add: start_worker_def)
    from start_fold [OF ok, of ss] obtain later where "workers (fold start_worker ss ?r) = workers ?r @ later" by (auto simp: prefix_def)
    with new start_keeps [OF ok new(1), of ss] have "running t ?w (fold start_worker ss ?r)" by (simp add: running_def nth_append)
    then show ?thesis by auto
  next
    case False
    with Cons.prems have "t \<in> set ss" "map_of (hosts ?r) t = None" by (auto simp: start_worker_def)
    from Cons.IH [OF ok this] show ?thesis by simp
  qed
qed simp

lemma reconcileHosts_spec:
  assumes "workers_ok (hosts r) (workers r)"
  shows "workers_ok (hosts (reconcileHosts ss r)) (workers (reconcileHosts ss r))"
    and "busy (reconcileHosts ss r) = busy r" "deploying (reconcileHosts ss r) = deploying r"
    and "w < length (workers r) \<Longrightarrow> w < length (workers (reconcileHosts ss r)) \<and>
      w_done (workers (reconcileHosts ss r) ! w) = w_done (workers r ! w)"
    and "running s w r \<Longrightarrow> s \<in> set ss \<Longrightarrow> running s w (reconcileHosts ss r)"
    and "map_of (hosts r) s = Some w \<Longrightarrow> w_done (workers r ! w) \<Longrightarrow> s \<in> set ss \<Longrightarrow> \<exists>v. running s v (reconcileHosts ss r)"
    and "map_of (hosts r) s = None \<Longrightarrow> s \<in> set ss \<Longrightarrow> \<exists>v. running s v (reconcileHosts ss r)"
    and "map_of (hosts r) s = Some w \<Longrightarrow> \<not> w_done (workers r ! w) \<Longrightarrow> map_of (hosts (reconcileHosts ss r)) s = Some w"
proof -
  let ?m = "fold (reconcile_worker ss) (hosts r) r"
  have hs: "mok (hosts r)" using assms by (simp add: workers_ok_def)
  have "map_of (hosts r) t = Some v" if "(t, v) \<in> set (hosts r)" for t v using hs that by simp
  from reconcile_fold [OF assms hs this, where present = ss]
  have m: "workers_ok (hosts ?m) (workers ?m)" "same_workers (workers r) (workers ?m)" "busy ?m = busy r" "deploying ?m = deploying r"
    and look: "\<And>t. map_of (hosts ?m) t = (case map_of (hosts r) t of Some w \<Rightarrow> if w_done (workers r ! w) then None else Some w | None \<Rightarrow> None)"
    and canc: "\<And>u. u < length (workers r) \<Longrightarrow> w_cancelled (workers ?m ! u) \<Longrightarrow> w_cancelled (workers r ! u) \<or>
       (\<exists>s. (s, u) \<in> set (hosts r) \<and> (w_done (workers r ! u) \<or> s \<notin> set ss))"
    by (auto split: option.splits)
  have rec: "reconcileHosts ss r = fold start_worker ss ?m" by (simp add: reconcileHosts_def)
  note fin = start_fold [OF m(1), of ss]
  obtain later where later: "workers (fold start_worker ss ?m) = workers ?m @ later" using fin by (auto simp: prefix_def)
  show "workers_ok (hosts (reconcileHosts ss r)) (workers (reconcileHosts ss r))" "busy (reconcileHosts ss r) = busy r"
    "deploying (reconcileHosts ss r) = deploying r" using fin m by (simp_all add: rec)
  show "w < length (workers (reconcileHosts ss r)) \<and> w_done (workers (reconcileHosts ss r) ! w) = w_done (workers r ! w)"
    if "w < length (workers r)" using that m(2) later by (simp add: rec same_workers_def nth_append)
  show "running s w (reconcileHosts ss r)" if run: "running s w r" "s \<in> set ss"
  proof -
    have w: "w < length (workers r)" "map_of (hosts r) s = Some w" "\<not> w_cancelled (workers r ! w)" "\<not> w_done (workers r ! w)"
      using run by (auto simp: running_def)
    have "t = s" if "(t, w) \<in> set (hosts r)" for t
      using assms hs w(2) that unfolding workers_ok_def by (metis map_of_eq_Some_iff)
    with canc [OF w(1)] w run(2) have "\<not> w_cancelled (workers ?m ! w)" by blast
    moreover have "map_of (hosts ?m) s = Some w" using look w by simp
    ultimately show ?thesis using start_keeps [OF m(1), of s w ss] m(2) w later
      by (simp add: rec running_def same_workers_def nth_append)
  qed
  show "\<exists>v. running s v (reconcileHosts ss r)" if "map_of (hosts r) s = Some w" "w_done (workers r ! w)" "s \<in> set ss"
    using start_new [OF m(1) that(3)] that look by (simp add: rec)
  show "\<exists>v. running s v (reconcileHosts ss r)" if "map_of (hosts r) s = None" "s \<in> set ss"
    using start_new [OF m(1) that(2)] that look by (simp add: rec)
  show "map_of (hosts (reconcileHosts ss r)) s = Some w" if "map_of (hosts r) s = Some w" "\<not> w_done (workers r ! w)"
    using start_keeps [OF m(1), of s w ss] that look by (simp add: rec)
qed

text \<open>Deployments: the busy set and the goroutines that run them.\<close>

lemma start_deployment_ok: "runner_ok r \<Longrightarrow> runner_ok (start_deployment s r)"
  by (auto simp: runner_ok_def start_deployment_def acquire_def split: if_splits)

lemma start_deployments_ok: "runner_ok r \<Longrightarrow> runner_ok (fold start_deployment ss r)"
  by (induction ss arbitrary: r) (simp_all add: start_deployment_ok)

lemma worker_ends_ok: "runner_ok r \<Longrightarrow> runner_ok (worker_ends w r)"
  by (auto simp: runner_ok_def workers_ok_def worker_ends_def nth_list_update)

lemma reconcileHosts_ok: "runner_ok r \<Longrightarrow> runner_ok (reconcileHosts ss r)"
  using reconcileHosts_spec(1-3) [of r ss] by (simp add: runner_ok_def)

interpretation deployer: machine "exec_runner c" runner_op_ok runner_ok for c
proof unfold_locales
  fix r e assume "runner_ok r" "runner_op_ok e r"
  then show "runner_ok (exec_runner c e r)"
  proof (cases e)
    case (Scan devices)
    with \<open>runner_ok r\<close> show ?thesis by (simp add: scan_def start_deployments_ok reconcileHosts_ok Let_def split: option.splits)
  next
    case (WorkerEnds w)
    with \<open>runner_ok r\<close> show ?thesis by (simp add: worker_ends_ok)
  next
    case (DeploymentEnds serial)
    with \<open>runner_ok r\<close> show ?thesis by (auto simp: runner_ok_def deployment_ends_def release_def restrict_map_def)
  qed
qed

lemma new_runner_ok: "runner_ok new_runner"
  by (simp add: runner_ok_def workers_ok_def new_runner_def)

lemma distinct_map_filter:
  "(\<And>i j. i < length xs \<Longrightarrow> j < length xs \<Longrightarrow> P (xs ! i) \<Longrightarrow> P (xs ! j) \<Longrightarrow> f (xs ! i) = f (xs ! j) \<Longrightarrow> i = j) \<Longrightarrow>
   distinct (map f (filter P xs))"
proof (induction xs)
  case (Cons x xs)
  have "distinct (map f (filter P xs))"
  proof (rule Cons.IH)
    fix i j assume "i < length xs" "j < length xs" "P (xs ! i)" "P (xs ! j)" "f (xs ! i) = f (xs ! j)"
    with Cons.prems [of "Suc i" "Suc j"] show "i = j" by simp
  qed
  moreover have "f x \<noteq> f y" if "P x" "y \<in> set xs" "P y" for y
  proof -
    obtain j where "j < length xs" "xs ! j = y" using \<open>y \<in> set xs\<close> by (auto simp: in_set_conv_nth)
    with Cons.prems [of 0 "Suc j"] that show ?thesis by auto
  qed
  ultimately show ?case by auto
qed simp

text \<open>
  C22. At most one agent per device: in every run of the deployer, whatever the scans report and however
  long cancelled workers take to end, two workers that have not ended belong to different devices,
  also while a worker of an unplugged device is still winding down, and no device is deployed to
  twice at the same time.
\<close>

theorem one_agent_per_device:
  assumes "admissible (exec_runner c) runner_op_ok new_runner es"
  defines "r \<equiv> fold (exec_runner c) es new_runner"
  shows "distinct (map w_serial (filter (\<lambda>w. \<not> w_done w) (workers r))) \<and> distinct (deploying r)"
proof -
  have ok: "runner_ok r" unfolding r_def using new_runner_ok assms(1) by (rule deployer.run_keeps)
  then have "v = w" if "v < length (workers r)" "w < length (workers r)" "\<not> w_done (workers r ! v)" "\<not> w_done (workers r ! w)"
    "w_serial (workers r ! v) = w_serial (workers r ! w)" for v w
    using that unfolding runner_ok_def workers_ok_def by (metis option.inject)
  then have "distinct (map w_serial (filter (\<lambda>w. \<not> w_done w) (workers r)))" by (rule distinct_map_filter)
  with ok show ?thesis by (simp add: runner_ok_def)
qed

definition demo_deploy :: deploy_config where
  "demo_deploy = \<lparr>Mode = ''host'', ADBServer = ''127.0.0.1:5037'', HostAgent = ''/agent'', StateDir = ''/state'', ADBPath = ''adb'',
     ArtifactDir = '''', ScrcpyJar = ''/jar'', SignalingURL = ''wss://example'', ControlPlaneURL = ''https://example/'',
     DeploymentToken = ''d'', AdminToken = '''', EnrollmentToken = '''', Interval = 10000000000, InsecureTLS = False, Force = False\<rparr>"

theorem one_agent_per_device_witness:
  "let r = fold (exec_runner demo_deploy) [Scan (Some [(''a'', True), (''b'', True)]), Scan (Some [(''b'', True)]), Scan (Some [(''a'', True), (''b'', True)])]
       new_runner
   in length (workers r) = 2 \<and> w_cancelled (workers r ! 0) \<and> distinct (map w_serial (filter (\<lambda>w. \<not> w_done w) (workers r)))"
proof -
  let ?es = "[Scan (Some [(''a'', True), (''b'', True)]), Scan (Some [(''b'', True)]), Scan (Some [(''a'', True), (''b'', True)])]"
  have ws: "workers (fold (exec_runner demo_deploy) ?es new_runner) =
      [\<lparr>w_serial = ''a'', w_cancelled = True, w_done = False\<rparr>, \<lparr>w_serial = ''b'', w_cancelled = False, w_done = False\<rparr>]"
    by (simp add: scan_def connectedSerials_def demo_deploy_def ModeHost_def reconcileHosts_def reconcile_worker_def start_worker_def
        cancel_def new_runner_def)
  from one_agent_per_device [of demo_deploy ?es] ws show ?thesis by (simp add: Let_def)
qed

section \<open>Every device gets its agent back\<close>

text \<open>What one operation does for a device that every scan reports.\<close>

definition reports :: "string \<Rightarrow> runner_op \<Rightarrow> bool" where
  "reports s e \<longleftrightarrow> (\<forall>ds. e = Scan (Some ds) \<longrightarrow> (s, True) \<in> set ds)"

lemma reported_serial: "(s, True) \<in> set ds \<Longrightarrow> s \<in> set (connectedSerials c ds)"
  by (force simp: connectedSerials_def)

lemma running_stays:
  assumes "runner_ok r" "runner_op_ok e r" "Mode c = ModeHost" "reports s e" "running s w r"
  shows "running s w (exec_runner c e r)"
proof (cases e)
  case (Scan ds)
  with assms reconcileHosts_spec(5) [of r s w] reported_serial show ?thesis
    by (auto simp: reports_def scan_def runner_ok_def Let_def split: option.splits)
qed (use assms in \<open>auto simp: running_def worker_ends_def deployment_ends_def release_def nth_list_update\<close>)

lemma done_stays:
  assumes "runner_ok r" "Mode c = ModeHost" "w < length (workers r)" "w_done (workers r ! w)"
  shows "w < length (workers (exec_runner c e r)) \<and> w_done (workers (exec_runner c e r) ! w)"
proof (cases e)
  case (Scan ds)
  with assms reconcileHosts_spec(4) [of r w] show ?thesis
    by (auto simp: scan_def runner_ok_def Let_def split: option.splits)
qed (use assms in \<open>auto simp: worker_ends_def deployment_ends_def release_def nth_list_update\<close>)

lemma in_range_stays:
  assumes "runner_ok r" "Mode c = ModeHost" "w < length (workers r)"
  shows "w < length (workers (exec_runner c e r))"
proof (cases e)
  case (Scan ds)
  with assms reconcileHosts_spec(4) [of r w] show ?thesis
    by (auto simp: scan_def runner_ok_def Let_def split: option.splits)
qed (use assms in \<open>auto simp: worker_ends_def deployment_ends_def release_def\<close>)

lemma waiting_or_running:
  assumes "runner_ok r" "Mode c = ModeHost" "reports s e" "map_of (hosts r) s = Some w"
  shows "map_of (hosts (exec_runner c e r)) s = Some w \<or> (\<exists>v. running s v (exec_runner c e r))"
proof (cases e)
  case (Scan ds)
  with assms reconcileHosts_spec(6,8) [of r s w] reported_serial show ?thesis
    by (cases "w_done (workers r ! w)") (auto simp: reports_def scan_def runner_ok_def Let_def split: option.splits)
qed (use assms in \<open>auto simp: worker_ends_def deployment_ends_def release_def\<close>)

lemma scan_restarts:
  assumes "runner_ok r" "Mode c = ModeHost" "(s, True) \<in> set ds" "\<And>w. map_of (hosts r) s = Some w \<Longrightarrow> w_done (workers r ! w)"
  shows "\<exists>v. running s v (exec_runner c (Scan (Some ds)) r)"
  using assms reconcileHosts_spec(6,7) [of r s] reported_serial [OF assms(3), of c]
  by (cases "map_of (hosts r) s") (auto simp: scan_def runner_ok_def Let_def)

lemma scan_registers:
  assumes "runner_ok r" "Mode c = ModeHost" "(s, True) \<in> set ds"
  shows "\<exists>w. map_of (hosts (exec_runner c (Scan (Some ds)) r)) s = Some w"
proof (cases "\<exists>w. map_of (hosts r) s = Some w \<and> \<not> w_done (workers r ! w)")
  case True
  with assms reconcileHosts_spec(8) [of r s] show ?thesis by (auto simp: scan_def runner_ok_def Let_def)
next
  case False
  with scan_restarts [OF assms] show ?thesis by (auto simp: running_def)
qed

text \<open>
  C23. A device that stays connected gets its agent, and keeps it: if from some point on every scan
  that succeeds reports the device, scans keep succeeding, and every cancelled worker ends some time
  later, then from some point on the device has one and the same worker for ever, neither cancelled
  nor ended, whatever happened before, unplugging and plugging in during the end of an old worker
  included.
\<close>

theorem connected_device_served:
  fixes es :: "nat \<Rightarrow> runner_op" and c :: deploy_config
  defines "st \<equiv> state_at (exec_runner c) es new_runner"
  assumes mode: "Mode c = ModeHost"
    and ok: "\<And>n. runner_op_ok (es n) (st n)"
    and scans: "\<And>n. \<exists>k \<ge> n. \<exists>ds. es k = Scan (Some ds)"
    and present: "\<And>n. m \<le> n \<Longrightarrow> reports s (es n)"
    and fair: "\<And>n w. w < length (workers (st n)) \<Longrightarrow> w_cancelled (workers (st n) ! w) \<Longrightarrow> \<exists>k \<ge> n. w_done (workers (st k) ! w)"
  shows "\<exists>w k. \<forall>n \<ge> k. running s w (st n)"
proof -
  have inv: "runner_ok (st n)" for n unfolding st_def by (rule deployer.always [OF new_runner_ok ok [unfolded st_def]])
  have nxt: "st (Suc n) = exec_runner c (es n) (st n)" for n by (simp add: st_def)
  note forever = stays_from [where exec = "exec_runner c" and es = es and s = new_runner, folded st_def]
  have served: "\<exists>w k. \<forall>n \<ge> k. running s w (st n)" if "running s w (st k)" "m \<le> k" for w k
    using forever [of "running s w" k] that running_stays [OF inv ok mode present] nxt by (metis le_trans)
  obtain k ds where k: "m \<le> k" "es k = Scan (Some ds)" using scans by blast
  then have "(s, True) \<in> set ds" using present [of k] by (simp add: reports_def)
  from scan_registers [OF inv mode this] obtain w where w: "map_of (hosts (st (Suc k))) s = Some w" by (metis nxt k(2))
  then have w_in: "w < length (workers (st (Suc k)))" using inv [of "Suc k"] by (simp add: runner_ok_def workers_ok_def)
  show ?thesis
  proof (cases "w_done (workers (st (Suc k)) ! w) \<or> w_cancelled (workers (st (Suc k)) ! w)")
    case False
    with served [of w "Suc k"] k w w_in show ?thesis by (simp add: running_def)
  next
    case True
    with fair [OF w_in] obtain j where j: "Suc k \<le> j" "w_done (workers (st j) ! w)" by blast
    obtain i ds' where i: "j \<le> i" "es i = Scan (Some ds')" using scans by blast
    have mi: "m \<le> i" using i j k by simp
    have "w < length (workers (st j))"
      using forever [of "\<lambda>r. w < length (workers r)" "Suc k" j] w_in j in_range_stays [OF inv mode] by (simp add: nxt)
    with j(2) have ended: "w_done (workers (st i) ! w)"
      using forever [of "\<lambda>r. w < length (workers r) \<and> w_done (workers r ! w)" j i] i done_stays [OF inv mode] by (simp add: nxt)
    have wait: "map_of (hosts (st i)) s = Some w \<or> (\<exists>v. running s v (st i))"
    proof (rule forever [of "\<lambda>r. map_of (hosts r) s = Some w \<or> (\<exists>v. running s v r)" "Suc k" i])
      fix n assume n: "Suc k \<le> n" "map_of (hosts (st n)) s = Some w \<or> (\<exists>v. running s v (st n))"
      then have "m \<le> n" using k by simp
      with n(2) show "map_of (hosts (st (Suc n))) s = Some w \<or> (\<exists>v. running s v (st (Suc n)))" unfolding nxt
        using waiting_or_running [OF inv mode present] running_stays [OF inv ok mode present] by blast
    qed (use w i j in auto)
    have here: "(s, True) \<in> set ds'" using present [OF mi] i by (simp add: reports_def)
    from wait have "\<exists>v. running s v (st (Suc i))"
    proof
      assume "map_of (hosts (st i)) s = Some w"
      then show ?thesis using scan_restarts [OF inv mode here, of i] ended by (simp add: nxt i(2))
    next
      assume "\<exists>v. running s v (st i)"
      then show ?thesis using running_stays [OF inv ok mode present [OF mi]] nxt by metis
    qed
    then show ?thesis using served [of _ "Suc i"] mi by auto
  qed
qed

text \<open>A device is unplugged and plugged in again before its worker has ended.\<close>

definition demo_scans :: "nat \<Rightarrow> runner_op" where
  "demo_scans n = (if n = 1 then Scan (Some []) else if n = 3 then WorkerEnds 0 else Scan (Some [(''a'', True)]))"

definition demo_served :: runner where
  "demo_served = \<lparr>busy = [], hosts = [(''a'', 1)], workers = [\<lparr>w_serial = ''a'', w_cancelled = True, w_done = True\<rparr>,
     \<lparr>w_serial = ''a'', w_cancelled = False, w_done = False\<rparr>], deploying = []\<rparr>"

lemmas scan_defs = scan_def connectedSerials_def demo_deploy_def ModeHost_def reconcileHosts_def reconcile_worker_def start_worker_def
  cancel_def new_runner_def worker_ends_def demo_scans_def

lemma demo_states:
  defines "st \<equiv> state_at (exec_runner demo_deploy) demo_scans new_runner"
  shows "workers (st 0) = []" "workers (st (Suc 0)) = [\<lparr>w_serial = ''a'', w_cancelled = False, w_done = False\<rparr>]"
    and "workers (st (Suc (Suc 0))) = [\<lparr>w_serial = ''a'', w_cancelled = True, w_done = False\<rparr>]"
    and "workers (st (Suc (Suc (Suc 0)))) = [\<lparr>w_serial = ''a'', w_cancelled = True, w_done = False\<rparr>]"
    and "workers (st (Suc (Suc (Suc (Suc 0))))) = [\<lparr>w_serial = ''a'', w_cancelled = True, w_done = True\<rparr>]"
    and "st (5 + n) = demo_served"
proof -
  show "st (5 + n) = demo_served"
  proof (induction n)
    case 0
    show ?case by (simp add: st_def numeral_eq_Suc scan_defs demo_served_def)
  next
    case (Suc n)
    have "st (5 + Suc n) = exec_runner demo_deploy (demo_scans (5 + n)) (st (5 + n))" unfolding st_def add_Suc_right by (rule state_at.simps(2))
    also have "\<dots> = demo_served" unfolding Suc by (simp add: scan_defs demo_served_def)
    finally show ?case .
  qed
qed (simp_all add: st_def scan_defs)

lemma nat_cases5: "n = 0 \<or> n = Suc 0 \<or> n = Suc (Suc 0) \<or> n = Suc (Suc (Suc 0)) \<or> n = Suc (Suc (Suc (Suc 0))) \<or> (\<exists>k. n = 5 + k)"
  by presburger

theorem connected_device_served_witness:
  "\<exists>w k. \<forall>n \<ge> k. running ''a'' w (state_at (exec_runner demo_deploy) demo_scans new_runner n)"
proof (rule connected_device_served [where m = 4])
  let ?st = "state_at (exec_runner demo_deploy) demo_scans new_runner"
  show "runner_op_ok (demo_scans n) (?st n)" for n
    using demo_states(4) by (auto simp: demo_scans_def numeral_3_eq_3)
  show "\<exists>k \<ge> n. \<exists>ds. demo_scans k = Scan (Some ds)" for n
    by (rule exI [of _ "n + 4"]) (simp add: demo_scans_def)
  show "\<exists>k \<ge> n. w_done (workers (?st k) ! w)" if "w < length (workers (?st n))" "w_cancelled (workers (?st n) ! w)" for n w
  proof (rule exI [of _ "5 + n"])
    have "w = 0" using that nat_cases5 [of n] by (auto simp: demo_states demo_served_def less_Suc_eq simp del: state_at.simps)
    then show "n \<le> 5 + n \<and> w_done (workers (?st (5 + n)) ! w)" by (simp add: demo_states demo_served_def)
  qed
qed (simp_all add: reports_def demo_scans_def demo_deploy_def ModeHost_def)

section \<open>What the deployer does to a device\<close>

lemma agentEnvironment_secrets:
  "filter (\<lambda>e. entry_name e \<in> {''SCRCPYCAT_ENROLLMENT_TOKEN'', ''SCRCPYCAT_DEPLOYMENT_TOKEN'', ''SCRCPYCAT_ADMIN_TOKEN''}) (agentEnvironment env token) =
     [''SCRCPYCAT_ENROLLMENT_TOKEN='' @ token]"
proof -
  let ?secret = "\<lambda>e. entry_name e \<in> {''SCRCPYCAT_ENROLLMENT_TOKEN'', ''SCRCPYCAT_DEPLOYMENT_TOKEN'', ''SCRCPYCAT_ADMIN_TOKEN''}"
  have "filter ?secret (filter (\<lambda>e. \<not> ?secret e) env) = []" by (simp only: filter_empty_conv set_filter mem_Collect_eq) blast
  moreover have "?secret (''SCRCPYCAT_ENROLLMENT_TOKEN='' @ token)" by (simp add: entry_name_def)
  ultimately show ?thesis unfolding agentEnvironment_def filter_append by simp
qed

text \<open>
  Starting a host agent: the old agent on the device is stopped only when the program files are
  there, the device speaks Shell v2 and, if one is needed, an enrollment token has been obtained.
  The process gets the device's serial as ADB serial and device id, and of the three secrets in the
  deployer's environment it gets none; it gets exactly one enrollment token, the one just issued, or
  an empty one when it has an identity and need not renew it.
\<close>

theorem host_agent_started:
  assumes "runHostAgent hash H c serial renew = (actions, err)" "actions \<noteq> []"
  shows "file_kind H (HostAgent c) = Some True \<and> file_kind H (ScrcpyJar c) = Some True \<and> shell_v2 H \<and>
     (\<exists>token. (if renew \<or> \<not> hasHostIdentity (identity_token H) then enrollmentToken (post H) c serial = Inr token else token = '''') \<and>
        (actions = [StopAgent serial] \<or>
         (\<exists>args env. actions = [StopAgent serial, Spawn (HostAgent c) args env] \<and> err = ended H \<and>
            take 2 args = [''--adb-serial'', serial] \<and> take 2 (drop 4 args) = [''--device-id'', serial] \<and>
            filter (\<lambda>e. entry_name e \<in> {''SCRCPYCAT_ENROLLMENT_TOKEN'', ''SCRCPYCAT_DEPLOYMENT_TOKEN'', ''SCRCPYCAT_ADMIN_TOKEN''}) env =
              [''SCRCPYCAT_ENROLLMENT_TOKEN='' @ token])))"
proof -
  let ?need = "renew \<or> \<not> hasHostIdentity (identity_token H)"
  from assms have files: "file_kind H (HostAgent c) = Some True" "file_kind H (ScrcpyJar c) = Some True" "shell_v2 H"
    by (auto simp: runHostAgent_def split: if_splits)
  moreover from assms files obtain token where token: "(if ?need then enrollmentToken (post H) c serial else Inr '''') = Inr token"
    by (cases "(if ?need then enrollmentToken (post H) c serial else Inr '''')") (simp_all add: runHostAgent_def Let_def)
  moreover from assms files have "actions = [StopAgent serial] \<or>
      actions = [StopAgent serial, Spawn (HostAgent c) (host_args c (hostStateDirectory hash (StateDir c) serial) serial) (agentEnvironment (environ H) token)] \<and>
      err = ended H"
    using token by (auto simp: runHostAgent_def Let_def simp del: if_split split: if_splits)
  ultimately show ?thesis
    using agentEnvironment_secrets [of "environ H" token] by (intro conjI exI [of _ token]) (auto simp: host_args_def split: if_splits)
qed

definition demo_host :: host_env where
  "demo_host = \<lparr>file_kind = (\<lambda>_. Some True), shell_v2 = True, identity_token = None, post = (\<lambda>_. Some (201, Some ''t'')), mkdir_ok = True,
     stopped = True, log_ok = True, environ = [''PATH=/bin'', ''SCRCPYCAT_ADMIN_TOKEN=secret''], ended = None\<rparr>"

theorem host_agent_started_witness:
  "\<exists>args env. runHostAgent (\<lambda>_. []) demo_host demo_deploy ''a'' False = ([StopAgent ''a'', Spawn ''/agent'' args env], None) \<and>
     file_kind demo_host (HostAgent demo_deploy) = Some True \<and> env = [''PATH=/bin'', ''SCRCPYCAT_ENROLLMENT_TOKEN=t'']"
proof -
  have run: "runHostAgent (\<lambda>_. []) demo_host demo_deploy ''a'' False =
      ([StopAgent ''a'', Spawn ''/agent'' (host_args demo_deploy (hostStateDirectory (\<lambda>_. []) ''/state'' ''a'') ''a'')
          [''PATH=/bin'', ''SCRCPYCAT_ENROLLMENT_TOKEN=t'']], None)"
    by (simp add: runHostAgent_def demo_host_def demo_deploy_def hasHostIdentity_def enrollmentToken_def token_request_for_def
        agentEnvironment_def entry_name_def)
  from host_agent_started [OF run] run show ?thesis by simp
qed

lemma agent_args_words:
  "sh_words (agent_args c serial token) = Some [''/data/local/tmp/scrcpycat-agent'', ''--device-id'', serial, ''--signaling'', SignalingURL c,
     ''--enrollment-token'', token, ''--scrcpy-jar'', ''/data/local/tmp/scrcpy-server.jar'']"
  by (simp add: agent_args_def shellQuote_def sh_words_def sh_special_def sh_quoted_escape)

text \<open>
  Deploying to a device: a healthy agent is left alone unless replacement was asked for; otherwise
  the old agent is stopped only when the device's architecture is supported, the program files are
  there and an enrollment token has been obtained. The shell of the device then starts exactly the
  agent with the serial, the signaling address and the token as single words, whatever characters
  they hold.
\<close>

theorem device_agent_deployed:
  assumes "ensureAgent D c serial = (actions, err)" "actions \<noteq> []"
  shows "(Force c \<or> \<not> healthy D) \<and> file_there D (ScrcpyJar c) \<and>
     (\<exists>abi token. deviceABI (abi_output D) = Some abi \<and> file_there D (Join (Join (ArtifactDir c) abi) ''scrcpycat-agent'') \<and>
        enrollmentToken (dv_post D) c serial = Inr token \<and> hd actions = StopAgent serial \<and>
        (\<forall>cmd. Shell cmd \<in> set actions \<longrightarrow>
           (\<exists>args. cmd = agent_command args \<and>
              sh_words args = Some [''/data/local/tmp/scrcpycat-agent'', ''--device-id'', serial, ''--signaling'', SignalingURL c,
                ''--enrollment-token'', token, ''--scrcpy-jar'', ''/data/local/tmp/scrcpy-server.jar''])))"
proof -
  from assms obtain abi where abi: "deviceABI (abi_output D) = Some abi" "Force c \<or> \<not> healthy D"
      "file_there D (Join (Join (ArtifactDir c) abi) ''scrcpycat-agent'')" "file_there D (ScrcpyJar c)"
    by (auto simp: ensureAgent_def Let_def split: if_splits option.splits)
  moreover from assms abi obtain token where token: "enrollmentToken (dv_post D) c serial = Inr token"
    by (cases "enrollmentToken (dv_post D) c serial") (auto simp: ensureAgent_def Let_def)
  moreover from assms abi token have "hd actions = StopAgent serial"
      "\<forall>cmd. Shell cmd \<in> set actions \<longrightarrow> cmd = agent_command (agent_args c serial token)"
    by (auto simp: ensureAgent_def Let_def split: if_splits option.splits)
  ultimately show ?thesis using agent_args_words [of c serial token] by blast
qed

definition demo_target :: device_env where
  "demo_target = \<lparr>healthy = False, healthy_after = False, abi_output = Some ''x86'', file_there = (\<lambda>_. True),
     dv_post = (\<lambda>_. Some (201, Some ''t'')), signaling = Some (''wss'', ''localhost'', ''''), agent_stopped = True, pushed = (\<lambda>_. True),
     reversed = True, launch_error = None, deadline = False\<rparr>"

theorem device_agent_deployed_witness:
  "\<exists>actions args. ensureAgent demo_target demo_deploy ''a b'' = (actions, None) \<and> Reverse ''443'' \<in> set actions \<and>
     Shell (agent_command args) \<in> set actions \<and> hd actions = StopAgent ''a b''"
proof -
  have abi: "deviceABI (Some ''x86'') = Some ''x86''" by code_simp
  have "\<exists>actions args. ensureAgent demo_target demo_deploy ''a b'' = (actions, None) \<and> actions \<noteq> [] \<and> Reverse ''443'' \<in> set actions \<and>
      Shell (agent_command args) \<in> set actions"
    by (simp add: ensureAgent_def demo_target_def demo_deploy_def abi enrollmentToken_def token_request_for_def loopbackSignalingPort_def Let_def)
      blast
  then obtain actions args where a: "ensureAgent demo_target demo_deploy ''a b'' = (actions, None)" "actions \<noteq> []"
      "Reverse ''443'' \<in> set actions" "Shell (agent_command args) \<in> set actions" by blast
  from device_agent_deployed [OF a(1,2)] a show ?thesis by blast
qed

end
