(* ===== verification/Terminal.thy ===== *)
theory Terminal
  imports Server
begin

text \<open>
  \<open>terminal.go\<close>: the terminal sessions of the agent. The terminals themselves belong to the operating
  system or to the ADB client; each that was ever opened is an entry of \<open>handles\<close>, addressed by its
  position, with the client that opened it, its size, whether it is still open and what was written
  to it. \<open>tm_sessions\<close> is the map of the code from \<open>client:session\<close> to terminals. \<open>open\<close> gives up
  the lock between closing the old session and entering the new one; its two halves are
  \<open>open_begin\<close> and \<open>open_finish\<close>. Base64 is that of the control plane.
\<close>

record handle =
  h_client :: string
  h_rows :: "16 word"
  h_cols :: "16 word"
  h_open :: bool
  h_input :: "byte list"

record terminals =
  tm_closed :: bool
  tm_sessions :: "nat gomap"
  handles :: "handle list"

definition newTerminalManager :: terminals where
  "newTerminalManager = \<lparr>tm_closed = False, tm_sessions = [], handles = []\<rparr>"

definition session_key :: "string \<Rightarrow> string \<Rightarrow> string" where
  "session_key clientID sessionID = clientID @ '':'' @ sessionID"

definition on_handle :: "nat \<Rightarrow> (handle \<Rightarrow> handle) \<Rightarrow> terminals \<Rightarrow> terminals" where
  "on_handle t f m = m\<lparr>handles := (handles m)[t := f (handles m ! t)]\<rparr>"

text \<open>With an expected session only that one is closed: a reader that ends late leaves its successor alone.\<close>

definition closeSession :: "string \<Rightarrow> nat option \<Rightarrow> terminals \<Rightarrow> terminals" where
  "closeSession key expected m =
     (case map_of (tm_sessions m) key of
        None \<Rightarrow> m
      | Some t \<Rightarrow>
          (if expected \<noteq> None \<and> expected \<noteq> Some t then m
           else on_handle t (\<lambda>h. h\<lparr>h_open := False\<rparr>) (m\<lparr>tm_sessions := mdel key (tm_sessions m)\<rparr>)))"

definition term_Close :: "string \<Rightarrow> string \<Rightarrow> terminals \<Rightarrow> terminals" where
  "term_Close clientID sessionID m = closeSession (session_key clientID sessionID) None m"

definition open_begin :: "string \<Rightarrow> string \<Rightarrow> terminals \<Rightarrow> terminals" where
  "open_begin clientID sessionID m = (if sessionID = '''' then m else term_Close clientID sessionID m)"

text \<open>\<open>opened\<close> says that the terminal could be opened; the Boolean result that there was no error.\<close>

definition open_finish :: "bool \<Rightarrow> string \<Rightarrow> string \<Rightarrow> 16 word \<Rightarrow> 16 word \<Rightarrow> terminals \<Rightarrow> bool \<times> terminals" where
  "open_finish opened clientID sessionID rows cols m =
     (if sessionID = '''' then (True, m)
      else if \<not> opened then (False, m)
      else
        (let h = \<lparr>h_client = clientID, h_rows = (if rows = 0 then 24 else rows), h_cols = (if cols = 0 then 80 else cols),
                  h_open = True, h_input = []\<rparr>
         in if tm_closed m then (False, m\<lparr>handles := handles m @ [h\<lparr>h_open := False\<rparr>]\<rparr>)
            else
              (True, m\<lparr>handles := handles m @ [h],
                       tm_sessions := mput (session_key clientID sessionID) (length (handles m)) (tm_sessions m)\<rparr>)))"

definition term_open :: "bool \<Rightarrow> string \<Rightarrow> string \<Rightarrow> 16 word \<Rightarrow> 16 word \<Rightarrow> terminals \<Rightarrow> bool \<times> terminals" where
  "term_open opened clientID sessionID rows cols m =
     open_finish opened clientID sessionID rows cols (open_begin clientID sessionID m)"

text \<open>The end of the reader of terminal \<open>t\<close>.\<close>

definition read_ends :: "string \<Rightarrow> nat \<Rightarrow> terminals \<Rightarrow> terminals" where
  "read_ends key t m = closeSession key (Some t) m"

definition InputBytes :: "string \<Rightarrow> string \<Rightarrow> byte list \<Rightarrow> terminals \<Rightarrow> terminals" where
  "InputBytes clientID sessionID data m =
     (case map_of (tm_sessions m) (session_key clientID sessionID) of
        None \<Rightarrow> m
      | Some t \<Rightarrow> on_handle t (\<lambda>h. h\<lparr>h_input := h_input h @ data\<rparr>) m)"

definition raw_std_decode :: "string \<Rightarrow> byte list option" where
  "raw_std_decode s = b64_decode ''ABCDEFGHIJKLMNOPQRSTUVWXYZabcdefghijklmnopqrstuvwxyz0123456789+/'' (no_breaks s)"

definition Input :: "string \<Rightarrow> string \<Rightarrow> string \<Rightarrow> terminals \<Rightarrow> terminals" where
  "Input clientID sessionID raw m =
     (case (case std_decode raw of None \<Rightarrow> raw_std_decode raw | Some data \<Rightarrow> Some data) of
        None \<Rightarrow> m
      | Some data \<Rightarrow> InputBytes clientID sessionID data m)"

definition term_Resize :: "string \<Rightarrow> string \<Rightarrow> 16 word \<Rightarrow> 16 word \<Rightarrow> terminals \<Rightarrow> terminals" where
  "term_Resize clientID sessionID rows cols m =
     (if rows = 0 \<or> cols = 0 then m
      else
        (case map_of (tm_sessions m) (session_key clientID sessionID) of
           None \<Rightarrow> m
         | Some t \<Rightarrow> on_handle t (\<lambda>h. h\<lparr>h_rows := rows, h_cols := cols\<rparr>) m))"

definition term_CloseClient :: "string \<Rightarrow> terminals \<Rightarrow> terminals" where
  "term_CloseClient clientID m =
     fold (\<lambda>key. closeSession key None) (filter (prefix (clientID @ '':'')) (mkeys (tm_sessions m))) m"

definition CloseAll :: "terminals \<Rightarrow> terminals" where
  "CloseAll m = fold (\<lambda>key. closeSession key None) (mkeys (tm_sessions m)) (m\<lparr>tm_closed := True\<rparr>)"

section \<open>Runs\<close>

datatype term_op =
    TOpen bool string string "16 word" "16 word"
  | TEnds string nat
  | TInput string string string
  | TBytes string string "byte list"
  | TResize string string "16 word" "16 word"
  | TClose string string
  | TCloseClient string
  | TCloseAll

fun exec_term :: "term_op \<Rightarrow> terminals \<Rightarrow> terminals" where
  "exec_term (TOpen ok c s rows cols) m = snd (term_open ok c s rows cols m)"
| "exec_term (TEnds key t) m = read_ends key t m"
| "exec_term (TInput c s raw) m = Input c s raw m"
| "exec_term (TBytes c s data) m = InputBytes c s data m"
| "exec_term (TResize c s rows cols) m = term_Resize c s rows cols m"
| "exec_term (TClose c s) m = term_Close c s m"
| "exec_term (TCloseClient c) m = term_CloseClient c m"
| "exec_term TCloseAll m = CloseAll m"

text \<open>
  The client on whose behalf an operation acts. Client identifiers are random tokens of the control
  plane, without colons.
\<close>

fun acts_for :: "term_op \<Rightarrow> string option" where
  "acts_for (TOpen ok c s rows cols) = Some c"
| "acts_for (TInput c s raw) = Some c"
| "acts_for (TBytes c s data) = Some c"
| "acts_for (TResize c s rows cols) = Some c"
| "acts_for (TClose c s) = Some c"
| "acts_for (TCloseClient c) = Some c"
| "acts_for _ = None"

definition term_op_ok :: "term_op \<Rightarrow> terminals \<Rightarrow> bool" where
  "term_op_ok e m \<longleftrightarrow> (case acts_for e of None \<Rightarrow> True | Some c \<Rightarrow> CHR '':'' \<notin> set c)"

definition term_ok :: "terminals \<Rightarrow> bool" where
  "term_ok m \<longleftrightarrow> mok (tm_sessions m) \<and> (\<forall>t < length (handles m). CHR '':'' \<notin> set (h_client (handles m ! t))) \<and>
     (\<forall>k t. map_of (tm_sessions m) k = Some t \<longrightarrow>
        t < length (handles m) \<and> h_open (handles m ! t) \<and> prefix (h_client (handles m ! t) @ '':'') k) \<and>
     (\<forall>t < length (handles m). h_open (handles m ! t) \<longrightarrow> (\<exists>k. map_of (tm_sessions m) k = Some t)) \<and>
     (\<forall>j k t. map_of (tm_sessions m) j = Some t \<and> map_of (tm_sessions m) k = Some t \<longrightarrow> j = k)"

lemma new_terminals_ok: "term_ok newTerminalManager"
  by (simp add: term_ok_def newTerminalManager_def)

lemma colon_prefix: "CHR '':'' \<notin> set c \<Longrightarrow> CHR '':'' \<notin> set d \<Longrightarrow> prefix (c @ '':'') (d @ '':'' @ s) \<longleftrightarrow> c = d"
proof (induction c arbitrary: d)
  case Nil
  then show ?case by (cases d) auto
next
  case (Cons x c)
  then show ?case by (cases d) auto
qed

lemma colon_prefixes: "CHR '':'' \<notin> set c \<Longrightarrow> CHR '':'' \<notin> set d \<Longrightarrow> prefix (c @ '':'') k \<Longrightarrow> prefix (d @ '':'') k \<Longrightarrow> c = d"
  using colon_prefix by (metis append.assoc prefixE)

lemma on_handle_simps [simp]:
  "tm_sessions (on_handle t f m) = tm_sessions m" "tm_closed (on_handle t f m) = tm_closed m"
  "length (handles (on_handle t f m)) = length (handles m)"
  by (simp_all add: on_handle_def)

lemma on_handle_nth [simp]:
  "handles (on_handle t f m) ! u = (if u = t \<and> t < length (handles m) then f (handles m ! t) else handles m ! u)"
  by (cases "t < length (handles m)") (auto simp: on_handle_def nth_list_update list_update_beyond)

lemma term_ok_session: "term_ok m \<Longrightarrow> map_of (tm_sessions m) k = Some t \<Longrightarrow>
   t < length (handles m) \<and> h_open (handles m ! t) \<and> prefix (h_client (handles m ! t) @ '':'') k"
  by (simp add: term_ok_def)

lemma term_ok_client: "term_ok m \<Longrightarrow> t < length (handles m) \<Longrightarrow> CHR '':'' \<notin> set (h_client (handles m ! t))"
  by (simp add: term_ok_def)

lemma term_ok_unique: "term_ok m \<Longrightarrow> map_of (tm_sessions m) j = Some t \<Longrightarrow> map_of (tm_sessions m) k = Some t \<Longrightarrow> j = k"
  unfolding term_ok_def by blast

text \<open>A key of a client leads to a terminal of that client.\<close>

lemma session_owner:
  assumes "term_ok m" "map_of (tm_sessions m) k = Some t" "prefix (c @ '':'') k" "CHR '':'' \<notin> set c"
  shows "h_client (handles m ! t) = c"
  using colon_prefixes [OF term_ok_client [OF assms(1)] assms(4) _ assms(3)] term_ok_session [OF assms(1,2)] by blast

lemma key_prefix [simp]: "prefix (c @ '':'') (session_key c s)"
  by (simp add: session_key_def prefix_def)

lemma term_ok_write:
  assumes "term_ok m" "t < length (handles m)" "\<And>h. h_client (f h) = h_client h \<and> h_open (f h) = h_open h"
  shows "term_ok (on_handle t f m)"
  using assms unfolding term_ok_def by auto

lemma closeSession_ok:
  assumes "term_ok m"
  shows "term_ok (closeSession k ex m)"
proof (cases "closeSession k ex m = m")
  case False
  then obtain t where t: "map_of (tm_sessions m) k = Some t"
    and m': "closeSession k ex m = on_handle t (\<lambda>h. h\<lparr>h_open := False\<rparr>) (m\<lparr>tm_sessions := mdel k (tm_sessions m)\<rparr>)"
    by (auto simp: closeSession_def split: option.splits if_splits)
  have other: "u \<noteq> t" if "map_of (tm_sessions m) j = Some u" "j \<noteq> k" for j u
    using term_ok_unique [OF assms t] that by blast
  have "\<exists>j. j \<noteq> k \<and> (j \<noteq> k \<longrightarrow> map_of (tm_sessions m) j = Some u)" if "u < length (handles m)" "h_open (handles m ! u)" "u \<noteq> t" for u
    using assms that t unfolding term_ok_def by (metis option.inject)
  moreover have "t < length (handles m)" using term_ok_session [OF assms t] by simp
  ultimately show ?thesis
    using assms other unfolding m' term_ok_def by (auto simp: restrict_map_def)
qed (use assms in simp)

lemma closeSessions_ok: "term_ok m \<Longrightarrow> term_ok (fold (\<lambda>key. closeSession key None) ks m)"
  by (induction ks arbitrary: m) (simp_all add: closeSession_ok)

lemma term_ok_closed [simp]: "term_ok (m\<lparr>tm_closed := b\<rparr>) = term_ok m"
  by (simp add: term_ok_def)

lemma open_begin_gone: "s \<noteq> '''' \<Longrightarrow> map_of (tm_sessions (open_begin c s m)) (session_key c s) = None"
  by (auto simp: open_begin_def term_Close_def closeSession_def split: option.splits)

lemma term_ok_dead_handle: "term_ok m \<Longrightarrow> \<not> h_open h \<Longrightarrow> CHR '':'' \<notin> set (h_client h) \<Longrightarrow> term_ok (m\<lparr>handles := handles m @ [h]\<rparr>)"
  unfolding term_ok_def by (auto simp: nth_append less_Suc_eq)

lemma term_ok_new_handle:
  assumes "term_ok m" "map_of (tm_sessions m) k = None" "h_open h" "prefix (h_client h @ '':'') k" "CHR '':'' \<notin> set (h_client h)"
  shows "term_ok (m\<lparr>handles := handles m @ [h], tm_sessions := mput k (length (handles m)) (tm_sessions m)\<rparr>)"
proof -
  have old: "t < length (handles m)" if "map_of (tm_sessions m) j = Some t" for j t
    using term_ok_session [OF assms(1) that] by simp
  have "\<exists>j. j \<noteq> k \<and> map_of (tm_sessions m) j = Some t" if "t < length (handles m)" "h_open (handles m ! t)" for t
    using assms(1,2) that unfolding term_ok_def by (metis option.distinct(1))
  with old have "\<exists>j. (j = k \<longrightarrow> t = length (handles m)) \<and> (j \<noteq> k \<longrightarrow> map_of (tm_sessions m) j = Some t)"
    if "t < length (handles m)" "h_open (handles m ! t)" for t using that by blast
  moreover have "j = i" if "map_of (tm_sessions m) j = Some t" "map_of (tm_sessions m) i = Some t" for i j t
    using term_ok_unique [OF assms(1)] that by blast
  moreover note old
  ultimately show ?thesis using assms unfolding term_ok_def by (auto simp: nth_append less_Suc_eq)
qed

lemma open_finish_ok:
  assumes "term_ok m" "s \<noteq> [] \<longrightarrow> map_of (tm_sessions m) (session_key c s) = None" "CHR '':'' \<notin> set c"
  shows "term_ok (snd (open_finish b c s rows cols m))"
  using assms term_ok_dead_handle [OF assms(1)] term_ok_new_handle [OF assms(1), of "session_key c s"]
  by (simp add: open_finish_def Let_def)

lemma open_begin_ok: "term_ok m \<Longrightarrow> term_ok (open_begin c s m)"
  by (simp add: open_begin_def term_Close_def closeSession_ok)

lemma InputBytes_ok: "term_ok m \<Longrightarrow> term_ok (InputBytes c s data m)"
  by (auto simp: InputBytes_def term_ok_session intro!: term_ok_write split: option.split)

interpretation terminal: machine exec_term term_op_ok term_ok
proof unfold_locales
  fix m e assume ok: "term_ok m" and e: "term_op_ok e m"
  show "term_ok (exec_term e m)"
  proof (cases e)
    case (TOpen b c s rows cols)
    then show ?thesis using ok e open_begin_gone [of s c m]
      by (simp add: term_open_def term_op_ok_def open_finish_ok open_begin_ok)
  next
    case (TResize c s rows cols)
    then show ?thesis using ok by (auto simp: term_Resize_def term_ok_session intro!: term_ok_write split: option.split)
  qed (use ok in \<open>auto simp: read_ends_def Input_def term_Close_def term_CloseClient_def CloseAll_def InputBytes_ok closeSession_ok
      closeSessions_ok split: option.split\<close>)
qed

section \<open>Isolation and clean-up\<close>

lemma closeSession_other:
  assumes "term_ok m" "prefix (c @ '':'') k" "CHR '':'' \<notin> set c" "t < length (handles m)" "h_client (handles m ! t) \<noteq> c"
  shows "handles (closeSession k ex m) ! t = handles m ! t"
  using session_owner [OF assms(1) _ assms(2,3)] term_ok_session [OF assms(1)] assms(4,5)
  by (auto simp: closeSession_def split: option.split)

lemma closeSession_length [simp]: "length (handles (closeSession k ex m)) = length (handles m)"
  by (simp add: closeSession_def split: option.split)

lemma closeSession_keeps_client: "t < length (handles m) \<Longrightarrow> h_client (handles (closeSession k ex m) ! t) = h_client (handles m ! t)"
  by (auto simp: closeSession_def split: option.split)

lemma closeSessions_other:
  "term_ok m \<Longrightarrow> \<forall>k \<in> set ks. prefix (c @ '':'') k \<Longrightarrow> CHR '':'' \<notin> set c \<Longrightarrow> t < length (handles m) \<Longrightarrow> h_client (handles m ! t) \<noteq> c \<Longrightarrow>
   handles (fold (\<lambda>key. closeSession key None) ks m) ! t = handles m ! t"
proof (induction ks arbitrary: m)
  case (Cons k ks)
  then have "handles (closeSession k None m) ! t = handles m ! t" by (intro closeSession_other) auto
  with Cons.IH [OF closeSession_ok [OF Cons.prems(1), of k None]] Cons.prems show ?case by simp
qed simp

lemma closeSessions_gone:
  "map_of (tm_sessions (fold (\<lambda>key. closeSession key None) ks m)) j = (if j \<in> set ks then None else map_of (tm_sessions m) j)"
proof (induction ks arbitrary: m)
  case (Cons k ks)
  have "map_of (tm_sessions (closeSession k None m)) j = (if j = k then None else map_of (tm_sessions m) j)"
    by (auto simp: closeSession_def split: option.split)
  with Cons show ?case by auto
qed simp

lemma closeSessions_length [simp]: "length (handles (fold (\<lambda>key. closeSession key None) ks m)) = length (handles m)"
  by (induction ks arbitrary: m) simp_all

lemma open_needs_session: "term_ok m \<Longrightarrow> t < length (handles m) \<Longrightarrow> h_open (handles m ! t) \<Longrightarrow> \<exists>k. map_of (tm_sessions m) k = Some t"
  by (simp add: term_ok_def)

lemma term_isolated:
  assumes "term_ok m" "acts_for e = Some c" "CHR '':'' \<notin> set c" "t < length (handles m)" "h_client (handles m ! t) \<noteq> c"
  shows "handles (exec_term e m) ! t = handles m ! t"
proof -
  have own: "u \<noteq> t" if "map_of (tm_sessions m) (session_key c s) = Some u" for s u
    using session_owner [OF assms(1) that] assms(3,5) by auto
  have start: "handles (open_begin c s m) ! t = handles m ! t" for s
    using closeSession_other [OF assms(1) key_prefix assms(3-5)] by (simp add: open_begin_def term_Close_def)
  have "length (handles (open_begin c s m)) = length (handles m)" for s by (simp add: open_begin_def term_Close_def)
  with start have opens: "handles (snd (term_open b c s rows cols m)) ! t = handles m ! t" for b s rows cols
    using assms(4) by (simp add: term_open_def open_finish_def Let_def nth_append)
  have bytes: "handles (InputBytes c s data m) ! t = handles m ! t" for s data
    using own by (auto simp: InputBytes_def split: option.split)
  show ?thesis
  proof (cases e)
    case (TCloseClient d)
    with assms closeSessions_other [OF assms(1) _ assms(3-5)] show ?thesis by (simp add: term_CloseClient_def)
  qed (use assms(2) own opens bytes closeSession_other [OF assms(1) key_prefix assms(3-5)]
        in \<open>auto simp: Input_def term_Resize_def term_Close_def split: option.split\<close>)
qed

lemma closeSessions_client:
  "t < length (handles m) \<Longrightarrow> h_client (handles (fold (\<lambda>key. closeSession key None) ks m) ! t) = h_client (handles m ! t)"
  by (induction ks arbitrary: m) (simp_all add: closeSession_keeps_client)

lemma CloseClient_closes:
  assumes ok: "term_ok m" and t: "t < length (handles m)" and c: "h_client (handles m ! t) = c"
  shows "\<not> h_open (handles (term_CloseClient c m) ! t)"
proof
  have ok': "term_ok (term_CloseClient c m)" by (simp add: term_CloseClient_def closeSessions_ok ok)
  assume "h_open (handles (term_CloseClient c m) ! t)"
  with open_needs_session [OF ok'] t obtain k where k: "map_of (tm_sessions (term_CloseClient c m)) k = Some t"
    by (auto simp: term_CloseClient_def)
  moreover from term_ok_session [OF ok' k] c have "prefix (c @ '':'') k"
    by (simp add: term_CloseClient_def closeSessions_client [OF t])
  ultimately show False by (auto simp: term_CloseClient_def closeSessions_gone simp flip: dom_map_of_conv_image_fst split: if_splits)
qed

lemma CloseAll_closes:
  assumes ok: "term_ok m" and t: "t < length (handles m)"
  shows "\<not> h_open (handles (CloseAll m) ! t)"
proof
  have ok': "term_ok (CloseAll m)" by (simp add: CloseAll_def closeSessions_ok ok)
  assume "h_open (handles (CloseAll m) ! t)"
  with open_needs_session [OF ok'] t obtain k where "map_of (tm_sessions (CloseAll m)) k = Some t" by (auto simp: CloseAll_def)
  then show False by (auto simp: CloseAll_def closeSessions_gone simp flip: dom_map_of_conv_image_fst split: if_splits)
qed

text \<open>
  Terminals of different clients are kept apart, and none is lost: in every run, whatever a
  client opens, types, resizes or closes, under whatever session names, the terminals of the other
  clients stay as they are; when a client leaves, all its terminals are closed, and when the manager
  is closed, all terminals are.
\<close>

theorem terminals_isolated:
  assumes "admissible exec_term term_op_ok newTerminalManager es"
  defines "m \<equiv> fold exec_term es newTerminalManager"
  assumes "CHR '':'' \<notin> set c" "t < length (handles m)"
  shows "(\<forall>e. acts_for e = Some c \<and> h_client (handles m ! t) \<noteq> c \<longrightarrow> handles (exec_term e m) ! t = handles m ! t) \<and>
     (h_client (handles m ! t) = c \<longrightarrow> \<not> h_open (handles (term_CloseClient c m) ! t)) \<and> \<not> h_open (handles (CloseAll m) ! t)"
proof -
  have ok: "term_ok m" unfolding m_def using new_terminals_ok assms(1) by (rule terminal.run_keeps)
  show ?thesis using term_isolated [OF ok _ assms(3,4)] CloseClient_closes [OF ok assms(4)] CloseAll_closes [OF ok assms(4)] by blast
qed

theorem terminals_isolated_witness:
  "let m = fold exec_term [TOpen True ''a'' ''s'' 0 0, TOpen True ''b'' ''s'' 0 0] newTerminalManager in
     handles (exec_term (TBytes ''b'' ''s'' [108, 115]) m) ! 0 = handles m ! 0 \<and> h_open (handles m ! 0) \<and>
     h_input (handles (exec_term (TBytes ''b'' ''s'' [108, 115]) m) ! 1) = [108, 115]"
proof -
  let ?es = "[TOpen True ''a'' ''s'' 0 0, TOpen True ''b'' ''s'' 0 0]" and ?e = "TBytes ''b'' ''s'' [108, 115]"
  have m: "fold exec_term ?es newTerminalManager = \<lparr>tm_closed = False, tm_sessions = [(''a:s'', 0), (''b:s'', 1)],
      handles = [\<lparr>h_client = ''a'', h_rows = 24, h_cols = 80, h_open = True, h_input = []\<rparr>,
        \<lparr>h_client = ''b'', h_rows = 24, h_cols = 80, h_open = True, h_input = []\<rparr>]\<rparr>"
    by (simp add: newTerminalManager_def term_open_def open_begin_def open_finish_def term_Close_def closeSession_def session_key_def)
  have "admissible exec_term term_op_ok newTerminalManager ?es" by (simp add: term_op_ok_def)
  from terminals_isolated [OF this, of "''b''" 0] m have "handles (exec_term ?e (fold exec_term ?es newTerminalManager)) ! 0 =
      handles (fold exec_term ?es newTerminalManager) ! 0" by (simp add: acts_for.simps del: exec_term.simps)
  with m show ?thesis by (simp add: InputBytes_def session_key_def on_handle_def Let_def)
qed

text \<open>
  Two requests that open the same session at the same time lose a terminal: when both have closed
  the old session before either enters its own, the second entry overwrites the first, whose
  terminal stays open, is in no session, and is closed neither when its reader ends nor when the
  client leaves nor when the manager is closed.
\<close>

theorem concurrent_open_leaks:
  fixes rows rows' cols cols' :: "16 word"
  assumes "term_ok m" "\<not> tm_closed m" "s \<noteq> ''''" "CHR '':'' \<notin> set c"
  defines "m' \<equiv> snd (open_finish True c s rows' cols' (snd (open_finish True c s rows cols (open_begin c s (open_begin c s m)))))"
    and "t \<equiv> length (handles m)"
  shows "h_open (handles m' ! t) \<and> t \<notin> snd ` set (tm_sessions m') \<and>
     h_open (handles (read_ends (session_key c s) t m') ! t) \<and> h_open (handles (term_CloseClient c m') ! t) \<and>
     h_open (handles (CloseAll m') ! t)"
proof -
  let ?b = "open_begin c s (open_begin c s m)" and ?k = "session_key c s"
  have b: "term_ok ?b" "\<not> tm_closed ?b" "length (handles ?b) = t" "map_of (tm_sessions ?b) ?k = None"
    using open_begin_gone [OF assms(3)] open_begin_ok [OF open_begin_ok [OF assms(1)]] assms(2)
    by (simp_all add: t_def) (simp_all add: open_begin_def term_Close_def closeSession_def split: option.split)
  obtain h1 h2 where m': "m' = ?b\<lparr>handles := handles ?b @ [h1, h2], tm_sessions := mput ?k (t + 1) (mput ?k t (tm_sessions ?b))\<rparr>"
    and h: "h_open h1" using assms(3) b by (simp add: m'_def open_finish_def Let_def)
  have "map_of (tm_sessions ?b) j \<noteq> Some t" for j using term_ok_session [OF b(1), of j t] b(3) by auto
  then have lost: "map_of (tm_sessions m') j \<noteq> Some t" for j by (simp add: m')
  have "mok (tm_sessions m')" using b(1) by (simp add: m' term_ok_def)
  then have "t \<notin> snd ` set (tm_sessions m')" using lost by (metis imageE map_of_eq_Some_iff prod.collapse)
  moreover have "h_open (handles m' ! t)" using h b(3) by (simp add: m' nth_append)
  moreover have kept: "h_open (handles (fold (\<lambda>key. closeSession key None) ks n) ! t)"
    if "h_open (handles n ! t)" "\<forall>j. map_of (tm_sessions n) j \<noteq> Some t" for ks n
    using that
  proof (induction ks arbitrary: n)
    case (Cons k ks)
    then have "h_open (handles (closeSession k None n) ! t)" by (auto simp: closeSession_def split: option.split)
    moreover have "\<forall>j. map_of (tm_sessions (closeSession k None n)) j \<noteq> Some t"
      using Cons.prems(2) by (auto simp: closeSession_def restrict_map_def split: option.split)
    ultimately show ?case using Cons.IH by simp
  qed simp
  moreover have "read_ends ?k t m' = m'" by (simp add: read_ends_def closeSession_def m')
  ultimately show ?thesis using lost kept [of "m'\<lparr>tm_closed := True\<rparr>"] by (simp add: term_CloseClient_def CloseAll_def)
qed

theorem concurrent_open_leaks_witness:
  "h_open (handles (CloseAll (snd (open_finish True ''a'' ''s'' 0 0 (snd (open_finish True ''a'' ''s'' 0 0
     (open_begin ''a'' ''s'' (open_begin ''a'' ''s'' newTerminalManager))))))) ! 0)"
  using concurrent_open_leaks [OF new_terminals_ok, of "''s''" "''a''"] by (simp add: newTerminalManager_def)

end
