(* ===== verification/Files.thy ===== *)
theory Files
  imports Control ShellV2 Contracts Paths
begin

text \<open>
  \<open>files.go\<close>: the file manager of the agent. Sessions and uploads are shared objects in the code;
  here they are entries of \<open>fm_pool\<close> and \<open>fm_uploads\<close>, addressed by their position. \<open>Chunk\<close> gives up the
  lock before the upload is moved to its destination: \<open>chunk_write\<close> is its first half, under the
  lock, \<open>fm_pending\<close> holds the uploads between the two halves and \<open>chunk_commit\<close> is the second half.
  \<open>fm_stored\<close> lists what was moved to its destination, with the contents it had. What the device and
  the staging file answer is a parameter, as is the hash \<open>sha\<close>.
\<close>

section \<open>State\<close>

definition maxDeviceFileSize :: int where
  "maxDeviceFileSize = 2 ^ 31"

record upload =
  up_path :: string
  up_size :: int
  up_checksum :: string
  up_content :: "byte list"
  up_install :: bool
  up_finishing :: bool
  up_staged :: bool

record file_session =
  fs_cancelled :: bool
  fs_upload :: "nat option"
  fs_downloading :: bool

record files_mgr =
  fm_closed :: bool
  fm_sessions :: "nat gomap"
  fm_pool :: "file_session list"
  fm_uploads :: "upload list"
  fm_pending :: "(nat \<times> nat \<times> bool) list"
  fm_stored :: "(nat \<times> string \<times> byte list) list"

definition newDeviceFileManager :: files_mgr where
  "newDeviceFileManager =
     \<lparr>fm_closed = False, fm_sessions = [], fm_pool = [], fm_uploads = [], fm_pending = [], fm_stored = []\<rparr>"

section \<open>Sessions\<close>

definition files_Open :: "string \<Rightarrow> files_mgr \<Rightarrow> bool \<times> files_mgr" where
  "files_Open clientID m =
     (if fm_closed m then (False, m)
      else if map_of (fm_sessions m) clientID \<noteq> None then (True, m)
      else (True, m\<lparr>fm_sessions := mput clientID (length (fm_pool m)) (fm_sessions m),
                    fm_pool := fm_pool m @ [\<lparr>fs_cancelled = False, fs_upload = None, fs_downloading = False\<rparr>]\<rparr>))"

text \<open>\<open>discardUpload\<close> removes the staging file.\<close>

definition discardUpload :: "nat option \<Rightarrow> files_mgr \<Rightarrow> files_mgr" where
  "discardUpload u m =
     (case u of None \<Rightarrow> m | Some u \<Rightarrow> m\<lparr>fm_uploads := (fm_uploads m)[u := (fm_uploads m ! u)\<lparr>up_staged := False\<rparr>]\<rparr>)"

definition cancel_session :: "nat \<Rightarrow> files_mgr \<Rightarrow> files_mgr" where
  "cancel_session s m =
     discardUpload (fs_upload (fm_pool m ! s)) (m\<lparr>fm_pool := (fm_pool m)[s := (fm_pool m ! s)\<lparr>fs_cancelled := True\<rparr>]\<rparr>)"

definition files_CloseClient :: "string \<Rightarrow> files_mgr \<Rightarrow> files_mgr" where
  "files_CloseClient clientID m =
     (case map_of (fm_sessions m) clientID of
        None \<Rightarrow> m
      | Some s \<Rightarrow> (cancel_session s m)\<lparr>fm_sessions := mdel clientID (fm_sessions m)\<rparr>)"

definition files_Close :: "files_mgr \<Rightarrow> files_mgr" where
  "files_Close m = (fold cancel_session (map snd (fm_sessions m)) (m\<lparr>fm_closed := True\<rparr>))\<lparr>fm_sessions := []\<rparr>"

section \<open>Uploads\<close>

definition hex_char :: "char \<Rightarrow> bool" where
  "hex_char c \<longleftrightarrow> CHR ''0'' \<le> c \<and> c \<le> CHR ''9'' \<or> CHR ''a'' \<le> c \<and> c \<le> CHR ''f'' \<or> CHR ''A'' \<le> c \<and> c \<le> CHR ''F''"

definition deviceFilePath :: "string \<Rightarrow> string option" where
  "deviceFilePath raw = (if \<not> IsAbs raw \<or> CHR 0x00 \<in> set raw then None else Some (Clean raw))"

text \<open>\<open>stage\<close> says that the staging file could be created; \<open>s\<close> is the session found when the command arrived.\<close>

definition startUpload :: "64 word \<Rightarrow> bool \<Rightarrow> string \<Rightarrow> nat \<Rightarrow> string \<Rightarrow> obj \<Rightarrow> files_mgr \<Rightarrow> string option \<times> files_mgr" where
  "startUpload oor stage clientID s path cmd m =
     (let checksum = map lower_char (stringField cmd ''sha256'') in
      case uint64FieldDefault oor cmd ''size'' (-1) of
        Inl _ \<Rightarrow> (Some ''invalid file size'', m)
      | Inr sz \<Rightarrow>
          (if maxDeviceFileSize < uint sz then (Some ''invalid file size'', m)
           else if \<not> list_all hex_char checksum \<or> length checksum \<noteq> 64 then (Some ''SHA-256 is required'', m)
           else if \<not> stage then (Some ''stage'', m)
           else
             (let u = \<lparr>up_path = path, up_size = uint sz, up_checksum = checksum, up_content = [],
                       up_install = boolField cmd ''install_on_finish'', up_finishing = False, up_staged = True\<rparr>
              in if map_of (fm_sessions m) clientID \<noteq> Some s \<or> fs_cancelled (fm_pool m ! s) \<or> fs_upload (fm_pool m ! s) \<noteq> None
                 then (Some ''file session is busy or closed'', m\<lparr>fm_uploads := fm_uploads m @ [u\<lparr>up_staged := False\<rparr>]\<rparr>)
                 else
                   (None, m\<lparr>fm_uploads := fm_uploads m @ [u],
                             fm_pool := (fm_pool m)[s := (fm_pool m ! s)\<lparr>fs_upload := Some (length (fm_uploads m))\<rparr>]\<rparr>))))"

text \<open>
  The first half of \<open>Chunk\<close>. The staging file takes \<open>cnt\<close> bytes and reports success or not
  (\<open>written\<close>); \<open>synced\<close> says that setting its mode, syncing and closing it succeeded. The result is the
  acknowledgement: bytes uploaded, whether the upload is finished, and whether there was an error.
\<close>

record ack =
  ak_uploaded :: int
  ak_finished :: bool
  ak_success :: bool

definition chunk_write ::
  "(byte list \<Rightarrow> byte list) \<Rightarrow> nat \<Rightarrow> bool \<Rightarrow> bool \<Rightarrow> string \<Rightarrow> byte list \<Rightarrow> files_mgr \<Rightarrow> ack option \<times> files_mgr" where
  "chunk_write sha cnt written synced clientID data m =
     (case map_of (fm_sessions m) clientID of
        None \<Rightarrow> (None, m)
      | Some s \<Rightarrow>
          (case fs_upload (fm_pool m ! s) of
             None \<Rightarrow> (None, m)
           | Some i \<Rightarrow>
               (let u = fm_uploads m ! i in
                if up_finishing u then (None, m)
                else
                  (let (ok, u) =
                     (if 2 ^ 16 < length data \<or> up_size u < int (length (up_content u) + length data) then (False, u)
                      else (written \<and> cnt = length data, u\<lparr>up_content := up_content u @ take cnt data\<rparr>));
                     finished = (\<not> ok \<or> int (length (up_content u)) = up_size u);
                     ok = (if finished then ok \<and> hex_string (sha (up_content u)) = up_checksum u \<and> synced else ok);
                     u = (if finished then u\<lparr>up_finishing := True\<rparr> else u)
                   in (Some \<lparr>ak_uploaded = int (length (up_content u)), ak_finished = finished, ak_success = ok\<rparr>,
                       m\<lparr>fm_uploads := (fm_uploads m)[i := u],
                         fm_pending := (if finished then (s, i, ok) # fm_pending m else fm_pending m)\<rparr>)))))"

text \<open>
  The second half: an upload without error is moved to its destination, which fails when its staging
  file is gone; \<open>moved\<close> is what the device answers. The Boolean is the final success.
\<close>

definition chunk_commit :: "bool \<Rightarrow> nat \<times> nat \<times> bool \<Rightarrow> files_mgr \<Rightarrow> bool \<times> files_mgr" where
  "chunk_commit moved p m =
     (case p of (s, i, ok) \<Rightarrow>
        (let u = fm_uploads m ! i; ok = (ok \<and> up_staged u \<and> moved) in
         (ok,
          m\<lparr>fm_pending := remove1 p (fm_pending m),
            fm_stored := (if ok then (i, up_path u, up_content u) # fm_stored m else fm_stored m),
            fm_uploads := (fm_uploads m)[i := u\<lparr>up_staged := False\<rparr>],
            fm_pool := (if fs_upload (fm_pool m ! s) = Some i then (fm_pool m)[s := (fm_pool m ! s)\<lparr>fs_upload := None\<rparr>] else fm_pool m)\<rparr>)))"

section \<open>Downloads\<close>

datatype download_event = DownloadChunk "byte list" | DownloadFailed

text \<open>
  The loop of \<open>download\<close>: \<open>remaining\<close> bytes are still to be sent, \<open>data\<close> is what the file still
  gives, and \<open>cancelled k\<close> and \<open>sends k\<close> say whether the session was cancelled before the k-th turn
  and whether its message could be sent.
\<close>

function download_loop :: "(nat \<Rightarrow> bool) \<Rightarrow> (nat \<Rightarrow> bool) \<Rightarrow> nat \<Rightarrow> nat \<Rightarrow> byte list \<Rightarrow> download_event list" where
  "download_loop cancelled sends k remaining data =
     (if remaining = 0 \<or> cancelled k then []
      else
        (let chunk = min (2 ^ 14) remaining; got = take chunk data in
         if got \<noteq> [] \<and> \<not> sends k then []
         else
           (if got \<noteq> [] then [DownloadChunk got] else []) @
           (if length got < chunk then [DownloadFailed]
            else download_loop cancelled sends (k + 1) (remaining - chunk) (drop chunk data))))"
  by pat_completeness auto
termination
  by (relation "measure (\<lambda>(c, s, k, remaining, data). remaining)") auto

declare download_loop.simps [simp del]

text \<open>\<open>kind\<close> is what opening the file gives: whether it is regular, and its size.\<close>

definition download ::
  "(nat \<Rightarrow> bool) \<Rightarrow> (nat \<Rightarrow> bool) \<Rightarrow> (bool \<times> int) option \<Rightarrow> byte list \<Rightarrow> int option \<times> download_event list" where
  "download cancelled sends kind data =
     (case kind of
        None \<Rightarrow> (None, [])
      | Some (regular, sz) \<Rightarrow>
          (if \<not> regular \<or> maxDeviceFileSize < sz then (None, [])
           else (Some sz, (if sends 0 then download_loop cancelled sends 1 (nat sz) data else []))))"

section \<open>Commands\<close>

datatype device_action = DList string | DMkdir string | DRemove string | DDownload string | DInstall string

text \<open>What the device answers: the entries of a directory, and whether the operations succeed.\<close>

record files_env =
  entries :: "nat option"
  dir_made :: bool
  removed :: bool
  staged :: bool

definition storage_roots :: "string list" where
  "storage_roots = [''/'', ''/sdcard'', ''/storage'', ''/storage/emulated'', ''/storage/emulated/0'', ''/data'', ''/data/local'', ''/data/local/tmp'']"

text \<open>
  \<open>Command\<close> of a client with a session; the result is the error of the reply (\<open>None\<close> for success, or
  for an operation that replies later), the calls on the device and the state. An empty upload
  is finished at once by \<open>Chunk\<close>.
\<close>

definition files_Command :: "64 word \<Rightarrow> files_env \<Rightarrow> string \<Rightarrow> obj \<Rightarrow> files_mgr \<Rightarrow> string option \<times> device_action list \<times> files_mgr" where
  "files_Command oor F clientID cmd m =
     (case map_of (fm_sessions m) clientID of
        None \<Rightarrow> (None, [], m)
      | Some s \<Rightarrow>
          (let kind = stringField cmd ''type'' in
           case deviceFilePath (stringField cmd ''path'') of
             None \<Rightarrow> (Some ''file path must be absolute'', [], m)
           | Some path \<Rightarrow>
               (if kind = ''list'' then
                  (case entries F of
                     None \<Rightarrow> (Some ''list'', [DList path], m)
                   | Some n \<Rightarrow> ((if 20000 < n then Some ''directory contains too many entries'' else None), [DList path], m))
                else if kind = ''mkdir'' then ((if dir_made F then None else Some ''mkdir''), [DMkdir path], m)
                else if kind = ''delete'' then
                  (if path \<in> set storage_roots then (Some ''cannot delete a storage root'', [], m)
                   else ((if removed F then None else Some ''remove''), [DRemove path], m))
                else if kind = ''upload_start'' then (let (e, m) = startUpload oor (staged F) clientID s path cmd m in (e, [], m))
                else if kind = ''download_start'' then
                  (if fs_downloading (fm_pool m ! s) then (Some ''a download is already active'', [], m)
                   else (None, [DDownload path], m\<lparr>fm_pool := (fm_pool m)[s := (fm_pool m ! s)\<lparr>fs_downloading := True\<rparr>]\<rparr>))
                else if kind = ''install_apk'' then (None, [DInstall path], m)
                else (Some ''unsupported file operation'', [], m))))"

text \<open>The end of a download, and the check of \<open>install\<close> before the package manager is called.\<close>

definition download_ends :: "nat \<Rightarrow> files_mgr \<Rightarrow> files_mgr" where
  "download_ends s m = m\<lparr>fm_pool := (fm_pool m)[s := (fm_pool m ! s)\<lparr>fs_downloading := False\<rparr>]\<rparr>"

definition install_command :: "string \<Rightarrow> (string list) option" where
  "install_command path = (if map lower_char (Ext path) \<noteq> ''.apk'' then None else Some [''pm'', ''install'', ''-r'', path])"

end
