(* ===== verification/FilesProps.thy ===== *)
theory FilesProps
  imports Files
begin

text \<open>
  What the file manager promises in every run, with chunks, commits, closed sessions and commands
  in any order: only verified uploads reach their destination, and each at most once. Then the
  paths it deletes and the end of downloads.
\<close>

section \<open>Runs\<close>

datatype files_op =
    FOpen string
  | FCommand "64 word" files_env string obj
  | FStart "64 word" bool string nat string obj
  | FChunk nat bool bool string "byte list"
  | FCommit bool "nat \<times> nat \<times> bool"
  | FDownloadEnds nat
  | FCloseClient string
  | FClose

fun exec_files :: "(byte list \<Rightarrow> byte list) \<Rightarrow> files_op \<Rightarrow> files_mgr \<Rightarrow> files_mgr" where
  "exec_files sha (FOpen c) m = snd (files_Open c m)"
| "exec_files sha (FCommand oor F c cmd) m = snd (snd (files_Command oor F c cmd m))"
| "exec_files sha (FStart oor stage c s path cmd) m = snd (startUpload oor stage c s path cmd m)"
| "exec_files sha (FChunk cnt written synced c data) m = snd (chunk_write sha cnt written synced c data m)"
| "exec_files sha (FCommit moved p) m = snd (chunk_commit moved p m)"
| "exec_files sha (FDownloadEnds s) m = download_ends s m"
| "exec_files sha (FCloseClient c) m = files_CloseClient c m"
| "exec_files sha FClose m = files_Close m"

text \<open>Only an upload between the two halves of \<open>Chunk\<close> is committed.\<close>

fun files_op_ok :: "files_op \<Rightarrow> files_mgr \<Rightarrow> bool" where
  "files_op_ok (FCommit moved p) m = (p \<in> set (fm_pending m))"
| "files_op_ok _ m = True"

definition verified :: "(byte list \<Rightarrow> byte list) \<Rightarrow> upload \<Rightarrow> bool" where
  "verified sha u \<longleftrightarrow> int (length (up_content u)) = up_size u \<and> hex_string (sha (up_content u)) = up_checksum u"

definition upload_ok :: "upload \<Rightarrow> bool" where
  "upload_ok u \<longleftrightarrow> 0 \<le> up_size u \<and> up_size u \<le> maxDeviceFileSize \<and> int (length (up_content u)) \<le> up_size u"

definition jobs_ok :: "(byte list \<Rightarrow> byte list) \<Rightarrow> upload list \<Rightarrow> (nat \<times> nat \<times> bool) list \<Rightarrow> (nat \<times> string \<times> byte list) list \<Rightarrow> bool" where
  "jobs_ok sha us ps st \<longleftrightarrow> list_all upload_ok us \<and>
     (\<forall>(s, i, ok) \<in> set ps. i < length us \<and> up_finishing (us ! i) \<and> (ok \<longrightarrow> verified sha (us ! i))) \<and>
     (\<forall>(i, p, content) \<in> set st. i < length us \<and> up_finishing (us ! i) \<and> verified sha (us ! i) \<and>
        p = up_path (us ! i) \<and> content = up_content (us ! i)) \<and>
     distinct (map (\<lambda>p. fst (snd p)) ps @ map fst st)"

definition sessions_ok :: "nat gomap \<Rightarrow> file_session list \<Rightarrow> nat \<Rightarrow> bool" where
  "sessions_ok ss pool n \<longleftrightarrow> (\<forall>c s. map_of ss c = Some s \<longrightarrow> s < length pool) \<and> (\<forall>x \<in> set pool. \<forall>i. fs_upload x = Some i \<longrightarrow> i < n)"

definition files_ok :: "(byte list \<Rightarrow> byte list) \<Rightarrow> files_mgr \<Rightarrow> bool" where
  "files_ok sha m \<longleftrightarrow> mok (fm_sessions m) \<and> jobs_ok sha (fm_uploads m) (fm_pending m) (fm_stored m) \<and>
     sessions_ok (fm_sessions m) (fm_pool m) (length (fm_uploads m))"

lemma new_files_ok: "files_ok sha newDeviceFileManager"
  by (simp add: files_ok_def jobs_ok_def sessions_ok_def newDeviceFileManager_def)

text \<open>Uploads change only while they are not finishing, apart from losing their staging file.\<close>

lemma jobs_ok_append: "jobs_ok sha us ps st \<Longrightarrow> upload_ok u \<Longrightarrow> jobs_ok sha (us @ [u]) ps st"
  by (fastforce simp: jobs_ok_def nth_append)

lemma jobs_ok_change:
  assumes "jobs_ok sha us ps st" "upload_ok v"
    and "i < length us \<Longrightarrow> up_finishing (us ! i) \<Longrightarrow>
      up_finishing v \<and> up_path v = up_path (us ! i) \<and> up_content v = up_content (us ! i) \<and> verified sha v = verified sha (us ! i)"
  shows "jobs_ok sha (us[i := v]) ps st"
proof -
  have nth: "(us[i := v]) ! j = (if j = i then v else us ! j)" if "j < length us" for j using that by (cases "j = i") auto
  have "list_all upload_ok (us[i := v])"
    using assms(1,2) by (auto simp: jobs_ok_def list_all_iff dest!: set_update_subset_insert [THEN subsetD])
  with assms show ?thesis unfolding jobs_ok_def by (fastforce simp: nth)
qed

lemma jobs_ok_unstage: "jobs_ok sha us ps st \<Longrightarrow> jobs_ok sha (us[i := (us ! i)\<lparr>up_staged := b\<rparr>]) ps st"
proof (cases "i < length us")
  case True
  assume jobs: "jobs_ok sha us ps st"
  then have "upload_ok (us ! i)" using True by (simp add: jobs_ok_def list_all_length)
  with jobs show ?thesis by (intro jobs_ok_change) (auto simp: upload_ok_def verified_def)
qed (simp add: list_update_beyond)

lemma jobs_ok_finish:
  assumes "jobs_ok sha us ps st" "i < length us" "\<not> up_finishing (us ! i)" "upload_ok v" "up_finishing v" "ok \<longrightarrow> verified sha v"
  shows "jobs_ok sha (us[i := v]) ((s, i, ok) # ps) st"
proof -
  have "jobs_ok sha (us[i := v]) ps st" using assms by (intro jobs_ok_change) auto
  moreover have "i \<notin> set (map (\<lambda>p. fst (snd p)) ps @ map fst st)" using assms(1-3) by (fastforce simp: jobs_ok_def)
  ultimately show ?thesis using assms(2,5,6) by (simp add: jobs_ok_def)
qed

lemma jobs_ok_commit:
  assumes "jobs_ok sha us ps st" "(s, i, ok) \<in> set ps"
  shows "jobs_ok sha us (remove1 (s, i, ok) ps) (if ok \<and> b then (i, up_path (us ! i), up_content (us ! i)) # st else st)"
proof -
  have dist: "distinct (map (\<lambda>p. fst (snd p)) ps @ map fst st)" using assms(1) by (simp add: jobs_ok_def)
  let ?job = "\<lambda>p :: nat \<times> nat \<times> bool. fst (snd p)"
  define qs where "qs = remove1 (s, i, ok) ps"
  have sub: "set qs \<subseteq> set ps" unfolding qs_def by (rule set_remove1_subset)
  have "i \<notin> ?job ` set qs" "distinct (map ?job qs)" unfolding qs_def
    using dist assms(2) by (auto simp: distinct_map inj_on_def distinct_remove1 set_remove1_eq) (metis fst_conv snd_conv)+
  moreover have "i \<notin> fst ` set st" using dist assms(2) by force
  moreover have "?job ` set qs \<inter> fst ` set st = {}" using dist sub by (auto simp: disjoint_iff)
  ultimately have "distinct (map ?job qs @ map fst (if ok \<and> b then (i, up_path (us ! i), up_content (us ! i)) # st else st))"
    using dist by simp
  moreover have "i < length us \<and> up_finishing (us ! i) \<and> (ok \<longrightarrow> verified sha (us ! i))"
    using assms unfolding jobs_ok_def by fastforce
  moreover have "\<forall>(s, i, ok) \<in> set qs. i < length us \<and> up_finishing (us ! i) \<and> (ok \<longrightarrow> verified sha (us ! i))"
    using assms(1) sub unfolding jobs_ok_def by blast
  ultimately show ?thesis using assms(1) unfolding jobs_ok_def qs_def [symmetric] by simp
qed

text \<open>Sessions.\<close>

lemma sessions_ok_update:
  assumes "sessions_ok ss pool n" "s < length pool \<Longrightarrow> fs_upload x = fs_upload (pool ! s) \<or> fs_upload x = None \<or> (\<exists>i < n. fs_upload x = Some i)"
  shows "sessions_ok ss (pool[s := x]) n"
proof (cases "s < length pool")
  case True
  then have "pool ! s \<in> set pool" by simp
  with True assms show ?thesis unfolding sessions_ok_def
    by (fastforce dest!: set_update_subset_insert [THEN subsetD])
qed (use assms in \<open>simp add: list_update_beyond\<close>)

lemma sessions_ok_more: "sessions_ok ss pool n \<Longrightarrow> n \<le> k \<Longrightarrow> sessions_ok ss pool k"
  by (fastforce simp: sessions_ok_def)

lemma sessions_ok_del: "sessions_ok ss pool n \<Longrightarrow> sessions_ok (mdel c ss) pool n"
  by (auto simp: sessions_ok_def restrict_map_def split: if_splits)

lemma cancel_session_ok: "files_ok sha m \<Longrightarrow> files_ok sha (cancel_session s m)"
  by (auto simp: files_ok_def cancel_session_def discardUpload_def jobs_ok_unstage sessions_ok_update split: option.split)

lemma cancel_sessions_ok: "files_ok sha m \<Longrightarrow> files_ok sha (fold cancel_session ss m)"
  by (induction ss arbitrary: m) (simp_all add: cancel_session_ok)

lemma sessions_ok_open: "sessions_ok ss pool n \<Longrightarrow> fs_upload x = None \<Longrightarrow> sessions_ok (mput c (length pool) ss) (pool @ [x]) n"
  by (fastforce simp: sessions_ok_def split: if_splits)

lemma files_Open_ok: "files_ok sha m \<Longrightarrow> files_ok sha (snd (files_Open c m))"
  by (simp add: files_ok_def files_Open_def sessions_ok_open)

lemma files_ok_upload:
  assumes "files_ok sha m" "upload_ok u"
  shows "files_ok sha (m\<lparr>fm_uploads := fm_uploads m @ [u]\<rparr>)"
    and "files_ok sha (m\<lparr>fm_uploads := fm_uploads m @ [u], fm_pool := (fm_pool m)[s := (fm_pool m ! s)\<lparr>fs_upload := Some (length (fm_uploads m))\<rparr>]\<rparr>)"
  using assms jobs_ok_append [of sha "fm_uploads m" _ _ u] sessions_ok_more [of "fm_sessions m" "fm_pool m" _ "Suc (length (fm_uploads m))"]
  by (auto simp: files_ok_def intro!: sessions_ok_update)

lemma startUpload_ok:
  assumes "files_ok sha m"
  shows "files_ok sha (snd (startUpload oor stage c s path cmd m))"
proof (cases "uint64FieldDefault oor cmd ''size'' (-1)")
  case (Inr sz)
  show ?thesis
  proof (cases "maxDeviceFileSize < uint sz")
    case False
    then have "upload_ok \<lparr>up_path = path, up_size = uint sz, up_checksum = k, up_content = [], up_install = b, up_finishing = False, up_staged = d\<rparr>"
      for k b d by (simp add: upload_ok_def)
    from files_ok_upload [OF assms this] Inr False assms show ?thesis by (simp add: startUpload_def Let_def)
  qed (use assms Inr in \<open>simp add: startUpload_def Let_def\<close>)
qed (use assms in \<open>simp add: startUpload_def Let_def\<close>)

lemma chunk_write_ok:
  assumes "files_ok sha m"
  shows "files_ok sha (snd (chunk_write sha cnt written synced c data m))"
proof (cases "chunk_write sha cnt written synced c data m")
  case (Pair a m')
  show ?thesis
  proof (cases "m' = m")
    case False
    with Pair obtain s i where s: "map_of (fm_sessions m) c = Some s" "fs_upload (fm_pool m ! s) = Some i"
      and open_upload: "\<not> up_finishing (fm_uploads m ! i)"
      by (auto simp: chunk_write_def Let_def split: option.splits if_splits)
    let ?u = "fm_uploads m ! i"
    have sess: "sessions_ok (fm_sessions m) (fm_pool m) (length (fm_uploads m))" "mok (fm_sessions m)"
      and jobs: "jobs_ok sha (fm_uploads m) (fm_pending m) (fm_stored m)" using assms by (simp_all add: files_ok_def)
    have "s < length (fm_pool m)" using sess(1) s by (auto simp: sessions_ok_def)
    then have i: "i < length (fm_uploads m)" using sess(1) s by (auto simp: sessions_ok_def)
    then have u: "upload_ok ?u" using jobs by (simp add: jobs_ok_def list_all_length)
    define exceed where "exceed \<longleftrightarrow> 2 ^ 16 < length data \<or> up_size ?u < int (length (up_content ?u) + length data)"
    define w where "w = (if exceed then ?u else ?u\<lparr>up_content := up_content ?u @ take cnt data\<rparr>)"
    define ok where "ok \<longleftrightarrow> \<not> exceed \<and> written \<and> cnt = length data"
    define fin where "fin \<longleftrightarrow> \<not> ok \<or> int (length (up_content w)) = up_size w"
    define good where "good \<longleftrightarrow> ok \<and> (fin \<longrightarrow> hex_string (sha (up_content w)) = up_checksum w \<and> synced)"
    define v where "v = (if fin then w\<lparr>up_finishing := True\<rparr> else w)"
    have "m' = m\<lparr>fm_uploads := (fm_uploads m)[i := v], fm_pending := (if fin then (s, i, good) # fm_pending m else fm_pending m)\<rparr>"
      using Pair s open_upload
      by (auto simp: chunk_write_def Let_def exceed_def w_def ok_def fin_def good_def v_def split: if_splits)
    moreover have "upload_ok w" using u by (auto simp: upload_ok_def w_def exceed_def)
    then have v: "upload_ok v" "up_finishing v = fin" "fin \<longrightarrow> good \<longrightarrow> verified sha v"
      using open_upload by (auto simp: upload_ok_def verified_def v_def w_def good_def fin_def)
    moreover have "jobs_ok sha ((fm_uploads m)[i := v]) (if fin then (s, i, good) # fm_pending m else fm_pending m) (fm_stored m)"
      using jobs_ok_finish [OF jobs i open_upload v(1)] jobs_ok_change [OF jobs v(1), of i] open_upload v(2,3) by simp
    ultimately show ?thesis using sess by (simp add: Pair files_ok_def)
  qed (use assms Pair in simp)
qed

lemma chunk_commit_ok:
  assumes "files_ok sha m" "p \<in> set (fm_pending m)"
  shows "files_ok sha (snd (chunk_commit moved p m))"
proof -
  obtain s i ok where p: "p = (s, i, ok)" by (cases p)
  let ?u = "fm_uploads m ! i"
  from jobs_ok_commit [of sha "fm_uploads m" "fm_pending m" "fm_stored m" s i ok "up_staged ?u \<and> moved"] assms p
  have "jobs_ok sha (fm_uploads m) (remove1 p (fm_pending m))
      (if ok \<and> up_staged ?u \<and> moved then (i, up_path ?u, up_content ?u) # fm_stored m else fm_stored m)" by (simp add: files_ok_def)
  from jobs_ok_unstage [OF this] assms(1) show ?thesis
    by (auto simp: chunk_commit_def p files_ok_def Let_def intro!: sessions_ok_update)
qed

lemma files_Command_ok: "files_ok sha m \<Longrightarrow> files_ok sha (snd (snd (files_Command oor F c cmd m)))"
  using startUpload_ok by (auto simp: files_Command_def Let_def files_ok_def split_beta sessions_ok_update split: option.split)

lemma cancel_session_keys [simp]: "fm_sessions (cancel_session s m) = fm_sessions m"
  by (simp add: cancel_session_def discardUpload_def split: option.split)

lemma files_ok_forget: "files_ok sha m \<Longrightarrow> files_ok sha (m\<lparr>fm_sessions := mdel c (fm_sessions m)\<rparr>)"
  by (simp add: files_ok_def sessions_ok_del)

lemma files_close_ok: "files_ok sha m \<Longrightarrow> files_ok sha (files_CloseClient c m)" "files_ok sha m \<Longrightarrow> files_ok sha (files_Close m)"
  "files_ok sha m \<Longrightarrow> files_ok sha (download_ends s m)"
proof -
  assume ok: "files_ok sha m"
  show "files_ok sha (files_CloseClient c m)"
    using files_ok_forget [OF cancel_session_ok [OF ok], of c] ok by (simp add: files_CloseClient_def split: option.split)
  have "files_ok sha (m\<lparr>fm_closed := True\<rparr>)" using ok by (simp add: files_ok_def)
  from cancel_sessions_ok [OF this] show "files_ok sha (files_Close m)" by (simp add: files_Close_def files_ok_def sessions_ok_def)
  show "files_ok sha (download_ends s m)" using ok by (simp add: download_ends_def files_ok_def sessions_ok_update)
qed

interpretation files: machine "exec_files sha" files_op_ok "files_ok sha" for sha
proof unfold_locales
  fix m e assume "files_ok sha m" "files_op_ok e m"
  then show "files_ok sha (exec_files sha e m)"
    by (cases e) (simp_all add: files_Open_ok files_Command_ok startUpload_ok chunk_write_ok chunk_commit_ok files_close_ok)
qed

section \<open>What reaches its destination\<close>

text \<open>
  C24. Only verified uploads are stored: in every run, with chunks of several clients, commits, closed
  sessions and new uploads in any order and failing writes anywhere, everything that was moved to a
  destination is an upload to exactly that path whose contents have the announced size, at most
  2 GiB, and the announced SHA-256; and no upload is moved twice.
\<close>

theorem stored_uploads_verified:
  assumes "admissible (exec_files sha) files_op_ok newDeviceFileManager es"
  defines "m \<equiv> fold (exec_files sha) es newDeviceFileManager"
  shows "distinct (map fst (fm_stored m)) \<and>
     (\<forall>i path content. (i, path, content) \<in> set (fm_stored m) \<longrightarrow>
        (\<exists>u. i < length (fm_uploads m) \<and> u = fm_uploads m ! i \<and> path = up_path u \<and> int (length content) = up_size u \<and>
           up_size u \<le> 2 ^ 31 \<and> hex_string (sha content) = up_checksum u))"
proof -
  have "files_ok sha m" unfolding m_def using new_files_ok assms(1) by (rule files.run_keeps)
  then have jobs: "jobs_ok sha (fm_uploads m) (fm_pending m) (fm_stored m)" by (simp add: files_ok_def)
  then have "upload_ok (fm_uploads m ! i)" if "i < length (fm_uploads m)" for i
    using that by (simp add: jobs_ok_def list_all_length)
  with jobs show ?thesis by (fastforce simp: jobs_ok_def verified_def upload_ok_def maxDeviceFileSize_def)
qed

definition demo_upload :: obj where
  "demo_upload = [(''size'', AInt 3), (''sha256'', AStr (replicate 64 (CHR ''0'')))]"

theorem stored_uploads_verified_witness:
  "let sha = (\<lambda>_. replicate 32 0);
       m = fold (exec_files sha) [FOpen ''a'', FStart 0 True ''a'' 0 ''/sdcard/x'' demo_upload, FChunk 2 True True ''a'' [1, 2],
             FChunk 1 True True ''a'' [3], FCommit True (0, 0, True)] newDeviceFileManager
   in fm_stored m = [(0, ''/sdcard/x'', [1, 2, 3])] \<and> distinct (map fst (fm_stored m))"
proof -
  let ?sha = "\<lambda>_ :: byte list. replicate 32 (0 :: byte)"
  let ?es = "[FOpen ''a'', FStart 0 True ''a'' 0 ''/sdcard/x'' demo_upload, FChunk 2 True True ''a'' [1, 2],
             FChunk 1 True True ''a'' [3], FCommit True (0, 0, True)]"
  have hex: "hex_string (replicate 32 0) = replicate 64 (CHR ''0'')" "list_all hex_char (replicate 64 (CHR ''0''))"
      "map lower_char (replicate 64 (CHR ''0'')) = replicate 64 (CHR ''0'')" by code_simp+
  note defs = newDeviceFileManager_def files_Open_def startUpload_def uint64FieldDefault_def maxDeviceFileSize_def
    chunk_write_def chunk_commit_def demo_upload_def stringField_def boolField_def
  have adm: "admissible (exec_files ?sha) files_op_ok newDeviceFileManager ?es"
    and st: "fm_stored (fold (exec_files ?sha) ?es newDeviceFileManager) = [(0, ''/sdcard/x'', [1, 2, 3])]"
    using hex by (simp_all add: defs Let_def)
  from stored_uploads_verified [OF adm] st show ?thesis by (simp add: Let_def)
qed

section \<open>Deleting and downloading\<close>

lemma roots_places:
  "map place storage_roots = [[], [''sdcard''], [''storage''], [''storage'', ''emulated''], [''storage'', ''emulated'', ''0''],
     [''data''], [''data'', ''local''], [''data'', ''local'', ''tmp'']]"
  by code_simp

lemma Clean_of_place: "IsAbs p \<Longrightarrow> IsAbs q \<Longrightarrow> place p = place q \<Longrightarrow> Clean p = Clean q"
  by (simp add: Clean_absolute)

lemma roots_clean: "list_all (\<lambda>r. IsAbs r \<and> Clean r = r) storage_roots"
  by code_simp

text \<open>
  No spelling of a storage root is deleted: a delete command removes at most one path, which
  denotes the place the browser asked for, and if that place is one of the storage roots, however it
  is written, with dots, double or trailing slashes, the command is refused and nothing is removed.
\<close>

theorem storage_roots_kept:
  assumes "files_Command oor F c cmd m = (err, actions, m')" "stringField cmd ''type'' = ''delete''"
  shows "(actions = [] \<or> (\<exists>path. actions = [DRemove path] \<and> IsAbs path \<and> place path = place (stringField cmd ''path''))) \<and>
     (place (stringField cmd ''path'') \<in> set (map place storage_roots) \<longrightarrow> actions = []) \<and> m' = m"
proof -
  let ?raw = "stringField cmd ''path''"
  have clean: "IsAbs (Clean ?raw) \<and> place (Clean ?raw) = place ?raw" if "IsAbs ?raw"
    using that by (simp add: place_Clean) (simp add: Clean_absolute IsAbs_def)
  have refused: "Clean ?raw \<in> set storage_roots" if "IsAbs ?raw" "place ?raw \<in> set (map place storage_roots)"
  proof -
    from that(2) obtain r where "r \<in> set storage_roots" "place ?raw = place r" by auto
    with roots_clean Clean_of_place [OF that(1)] show ?thesis by (auto simp: list_all_iff)
  qed
  from assms consider "actions = []" "m' = m" | "IsAbs ?raw" "Clean ?raw \<notin> set storage_roots" "actions = [DRemove (Clean ?raw)]" "m' = m"
    by (auto simp: files_Command_def deviceFilePath_def Let_def split: option.splits if_splits)
  then show ?thesis using clean refused by cases auto
qed

theorem storage_roots_kept_witness:
  "\<exists>err actions m'. files_Command 0 \<lparr>entries = None, dir_made = True, removed = True, staged = True\<rparr> ''a''
       [(''type'', AStr ''delete''), (''path'', AStr ''/sdcard/../sdcard//./'')]
       (snd (files_Open ''a'' newDeviceFileManager)) = (err, actions, m') \<and> err \<noteq> None \<and> actions = []"
proof -
  let ?cmd = "[(''type'', AStr ''delete''), (''path'', AStr ''/sdcard/../sdcard//./'')]" and ?m = "snd (files_Open ''a'' newDeviceFileManager)"
  let ?F = "\<lparr>entries = None, dir_made = True, removed = True, staged = True\<rparr>"
  have raw: "stringField ?cmd ''type'' = ''delete''" "stringField ?cmd ''path'' = ''/sdcard/../sdcard//./''" by (simp_all add: stringField_def)
  have clean: "Clean ''/sdcard/../sdcard//./'' = ''/sdcard''" by code_simp
  obtain err actions m' where run: "files_Command 0 ?F ''a'' ?cmd ?m = (err, actions, m')" by (cases "files_Command 0 ?F ''a'' ?cmd ?m") auto
  moreover have "err \<noteq> None"
    using run raw clean by (auto simp: files_Command_def files_Open_def newDeviceFileManager_def deviceFilePath_def IsAbs_def storage_roots_def)
  moreover have "place ''/sdcard/../sdcard//./'' \<in> set (map place storage_roots)" by code_simp
  ultimately show ?thesis using storage_roots_kept [OF run raw(1)] raw(2) by simp
qed

fun sent_bytes :: "download_event list \<Rightarrow> byte list" where
  "sent_bytes [] = []"
| "sent_bytes (DownloadChunk d # es) = d @ sent_bytes es"
| "sent_bytes (DownloadFailed # es) = sent_bytes es"

lemma sent_bytes_append [simp]: "sent_bytes (xs @ ys) = sent_bytes xs @ sent_bytes ys"
  by (induction xs rule: sent_bytes.induct) auto

lemma download_loop_0 [simp]: "download_loop cancelled sends k 0 data = []"
  by (simp add: download_loop.simps)

text \<open>One turn of the loop with its cases laid open.\<close>

lemma download_loop_cases:
  obtains "download_loop cancelled sends k remaining data = []"
  | got where "0 < remaining" "got = take (min (2 ^ 14) remaining) data" "length got < min (2 ^ 14) remaining"
      "download_loop cancelled sends k remaining data = (if got = [] then [] else [DownloadChunk got]) @ [DownloadFailed]"
  | got where "0 < remaining" "got = take (min (2 ^ 14) remaining) data" "length got = min (2 ^ 14) remaining"
      "download_loop cancelled sends k remaining data =
         DownloadChunk got # download_loop cancelled sends (k + 1) (remaining - length got) (drop (length got) data)"
proof -
  define got where "got = take (min (2 ^ 14) remaining) data"
  have turn: "download_loop cancelled sends k remaining data =
      (if remaining = 0 \<or> cancelled k \<or> got \<noteq> [] \<and> \<not> sends k then []
       else (if got \<noteq> [] then [DownloadChunk got] else []) @
         (if length got < min (2 ^ 14) remaining then [DownloadFailed]
          else download_loop cancelled sends (k + 1) (remaining - min (2 ^ 14) remaining) (drop (min (2 ^ 14) remaining) data)))"
    by (subst download_loop.simps) (auto simp: got_def Let_def)
  consider "remaining = 0 \<or> cancelled k \<or> got \<noteq> [] \<and> \<not> sends k"
    | "0 < remaining" "\<not> cancelled k" "got = [] \<or> sends k" "length got < min (2 ^ 14) remaining"
    | "0 < remaining" "\<not> cancelled k" "got = [] \<or> sends k" "length got = min (2 ^ 14) remaining"
    by (fastforce simp: got_def)
  then show thesis
  proof cases
    case 1
    then have "download_loop cancelled sends k remaining data = []" by (simp add: turn)
    then show thesis by (rule that(1))
  next
    case 2
    have "download_loop cancelled sends k remaining data = (if got = [] then [] else [DownloadChunk got]) @ [DownloadFailed]"
      using 2 by (auto simp: turn)
    then show thesis using 2 got_def by (intro that(2))
  next
    case 3
    then have "got \<noteq> []" by auto
    with 3 have "download_loop cancelled sends k remaining data =
         DownloadChunk got # download_loop cancelled sends (k + 1) (remaining - length got) (drop (length got) data)"
      by (simp add: turn)
    then show thesis using 3 got_def by (intro that(3))
  qed
qed

lemma download_loop_bounded:
  "length (download_loop cancelled sends k remaining data) \<le> remaining div 2 ^ 14 + 2"
proof (induction remaining arbitrary: k data rule: less_induct)
  case (less remaining)
  show ?case
  proof (cases rule: download_loop_cases [of cancelled sends k remaining data])
    case (3 got)
    have IH: "length (download_loop cancelled sends (k + 1) (remaining - length got) (drop (length got) data)) \<le>
        (remaining - length got) div 2 ^ 14 + 2"
      using 3 by (intro less.IH) auto
    show ?thesis
    proof (cases "2 ^ 14 \<le> remaining")
      case True
      then have "length got = 2 ^ 14" using 3 by simp
      with IH 3(4) le_div_geq [OF _ True] show ?thesis by simp
    next
      case False
      then show ?thesis using 3 by simp
    qed
  qed auto
qed

lemma download_loop_prefix: "prefix (sent_bytes (download_loop cancelled sends k remaining data)) (take remaining data)"
proof (induction remaining arbitrary: k data rule: less_induct)
  case (less remaining)
  show ?case
  proof (cases rule: download_loop_cases [of cancelled sends k remaining data])
    case (2 got)
    then have "got = take (2 ^ 14) (take remaining data)" by (simp only: take_take)
    then have "prefix got (take remaining data)" by (simp only: take_is_prefix)
    with 2(4) show ?thesis by simp
  next
    case (3 got)
    have "prefix (sent_bytes (download_loop cancelled sends (k + 1) (remaining - length got) (drop (length got) data)))
        (take (remaining - length got) (drop (length got) data))" using 3 by (intro less.IH) auto
    moreover have "take remaining data = got @ take (remaining - length got) (drop (length got) data)"
      using 3(2,3) take_add [of "length got" "remaining - length got" data] by simp
    ultimately show ?thesis using 3 by simp
  qed simp
qed

lemma download_loop_whole:
  "(\<And>k. \<not> cancelled k \<and> sends k) \<Longrightarrow>
   sent_bytes (download_loop cancelled sends k remaining data) = take remaining data \<and>
   (DownloadFailed \<in> set (download_loop cancelled sends k remaining data) \<longleftrightarrow> length data < remaining)"
proof (induction remaining arbitrary: k data rule: less_induct)
  case (less remaining)
  show ?case
  proof (cases rule: download_loop_cases [of cancelled sends k remaining data])
    case 1
    then have "remaining = 0" using less.prems [of k] by (subst (asm) download_loop.simps) (auto simp: Let_def split: if_splits)
    then show ?thesis by simp
  next
    case (2 got)
    then have "length data < remaining" "got = data" by auto
    with 2(4) show ?thesis by simp
  next
    case (3 got)
    have IH: "sent_bytes (download_loop cancelled sends (k + 1) (remaining - length got) (drop (length got) data)) =
        take (remaining - length got) (drop (length got) data) \<and>
        (DownloadFailed \<in> set (download_loop cancelled sends (k + 1) (remaining - length got) (drop (length got) data)) \<longleftrightarrow>
         length (drop (length got) data) < remaining - length got)"
      using 3 less.prems by (intro less.IH) auto
    have "length got \<le> remaining" "length got \<le> length data" using 3(2,3) by auto
    moreover have "take remaining data = got @ take (remaining - length got) (drop (length got) data)"
      using 3(2,3) take_add [of "length got" "remaining - length got" data] by simp
    ultimately show ?thesis using IH by (simp add: 3(4)) linarith
  qed
qed

text \<open>
  C25. A download ends and delivers the file: whatever the file does while it is read, whenever the
  session is cancelled or a message cannot be sent, the loop stops after at most one message for
  every 16 KiB of the announced size and two more, and what was sent is a beginning of the
  announced part of the file. Undisturbed, it sends exactly the announced number of bytes, and
  reports a failure exactly when the file turns out to be shorter.
\<close>

theorem download_delivers:
  assumes "download cancelled sends kind data = (Some sz, events)" "0 \<le> sz"
  shows "sz \<le> 2 ^ 31 \<and> length events \<le> nat sz div 2 ^ 14 + 2 \<and> prefix (sent_bytes events) (take (nat sz) data) \<and>
     ((\<forall>k. \<not> cancelled k \<and> sends k) \<longrightarrow>
        sent_bytes events = take (nat sz) data \<and> (DownloadFailed \<in> set events \<longleftrightarrow> length data < nat sz))"
  using assms download_loop_bounded [of cancelled sends 1 "nat sz" data] download_loop_prefix [of cancelled sends 1 "nat sz" data]
    download_loop_whole [of cancelled sends 1 "nat sz" data]
  by (auto simp: download_def maxDeviceFileSize_def split: option.splits if_splits)

theorem download_delivers_witness:
  "\<exists>events. download (\<lambda>_. False) (\<lambda>_. True) (Some (True, 5)) [1, 2, 3] = (Some 5, events) \<and> sent_bytes events = [1, 2, 3] \<and>
     DownloadFailed \<in> set events"
proof -
  obtain events where d: "download (\<lambda>_. False) (\<lambda>_. True) (Some (True, 5)) [1, 2, 3] = (Some 5, events)"
    by (simp add: download_def maxDeviceFileSize_def)
  from download_delivers [OF d] d show ?thesis by simp
qed

end
