(* ===== verification/DeviceIO.thy ===== *)
theory DeviceIO
  imports ShellV2 Paths Contracts
begin

unbundle bit_operations_syntax

text \<open>
  How the agent reaches the device: \<open>device.go\<close>, \<open>device_files.go\<close>, the diagnostics buffer of
  \<open>device_capture.go\<close> and the bounded output of \<open>operations.go\<close>. The state \<open>world\<close> is the disk of the
  machine the agent runs on, with its regular files by name, and the device, whose type is a parameter:
  an agent on the phone works on that disk, an agent that reaches the phone through ADB sees the
  device only through the shell commands it runs there and the files it pushes. What the operating
  system and the device answer are parameters; \<open>device_files\<close> is the contract of
  \<open>CommitUpload\<close> in the interface \<open>deviceFiles\<close>, which both kinds of device keep.
\<close>

section \<open>Output buffers\<close>

text \<open>
  A buffer of bounded room: whatever is written to it, its contents are the clipped concatenation of
  all writes, the way \<open>clip\<close> clips.
\<close>

locale window =
  fixes put :: "'a list \<Rightarrow> 's \<Rightarrow> 's"
    and content :: "'s \<Rightarrow> 'a list"
    and room :: "'s \<Rightarrow> nat"
    and clip :: "nat \<Rightarrow> 'a list \<Rightarrow> 'a list"
  assumes content_put: "length (content s) \<le> room s \<Longrightarrow> content (put xs s) = clip (room s) (content s @ xs)"
    and room_put: "room (put xs s) = room s"
    and clip_short: "length xs \<le> n \<Longrightarrow> clip n xs = xs"
    and clip_length: "length (clip n xs) \<le> n"
    and clip_clip: "clip n (clip n xs @ ys) = clip n (xs @ ys)"
begin

lemma room_puts [simp]: "room (fold put xss s) = room s"
  by (induction xss arbitrary: s) (simp_all add: room_put)

lemma content_puts: "length (content s) \<le> room s \<Longrightarrow> content (fold put xss s) = clip (room s) (content s @ concat xss)"
proof (induction xss arbitrary: s)
  case (Cons xs xss)
  then show ?case using Cons.IH [of "put xs s"] by (simp add: room_put content_put clip_length clip_clip)
qed (simp add: clip_short)

lemma content_bounded: "length (content s) \<le> room s \<Longrightarrow> length (content (fold put xss s)) \<le> room s"
  by (simp add: content_puts clip_length)

end

definition commandOutputLimit :: nat where
  "commandOutputLimit = 2 ^ 20"

record boundedOutput =
  bo_buffer :: "byte list"
  bo_limit :: nat

definition no_output :: boundedOutput where
  "no_output = \<lparr>bo_buffer = [], bo_limit = 0\<rparr>"

definition effective_limit :: "boundedOutput \<Rightarrow> nat" where
  "effective_limit b = (if bo_limit b = 0 then commandOutputLimit else bo_limit b)"

definition bounded_Write :: "byte list \<Rightarrow> boundedOutput \<Rightarrow> boundedOutput" where
  "bounded_Write data b =
     (if length (bo_buffer b) < effective_limit b
      then b\<lparr>bo_buffer := bo_buffer b @ take (min (length data) (effective_limit b - length (bo_buffer b))) data\<rparr>
      else b)"

definition captureDiagnosticsLimit :: nat where
  "captureDiagnosticsLimit = 2 ^ 16"

record captureDiagnostics =
  cd_buffer :: "byte list"
  cd_limit :: nat

definition diagnostics_limit :: "captureDiagnostics \<Rightarrow> nat" where
  "diagnostics_limit d = (if cd_limit d = 0 then captureDiagnosticsLimit else cd_limit d)"

definition diagnostics_Write :: "byte list \<Rightarrow> captureDiagnostics \<Rightarrow> captureDiagnostics" where
  "diagnostics_Write data d =
     (let limit = diagnostics_limit d; n = length data in
      if limit \<le> n then d\<lparr>cd_buffer := drop (n - limit) data\<rparr>
      else
        (let kept = (if limit < length (cd_buffer d) + n then drop (length (cd_buffer d) + n - limit) (cd_buffer d) else cd_buffer d)
         in d\<lparr>cd_buffer := kept @ data\<rparr>))"

definition final_bytes :: "nat \<Rightarrow> 'a list \<Rightarrow> 'a list" where
  "final_bytes n xs = drop (length xs - n) xs"

lemma final_bytes_final: "final_bytes n (final_bytes n xs @ ys) = final_bytes n (xs @ ys)"
  by (cases "n \<le> length xs") (simp_all add: final_bytes_def add.commute)

interpretation bounded: window bounded_Write bo_buffer effective_limit take
  by unfold_locales (auto simp: bounded_Write_def effective_limit_def commandOutputLimit_def min_def)

interpretation diagnostics: window diagnostics_Write cd_buffer diagnostics_limit final_bytes
  by unfold_locales
    (simp_all add: final_bytes_final, auto simp: diagnostics_Write_def diagnostics_limit_def final_bytes_def Let_def)

text \<open>
  Whatever a command writes and in whatever pieces, the bounded output keeps exactly the first
  bytes up to its limit, and the diagnostics of a capture keep exactly the last bytes up to theirs.
\<close>

theorem output_windows:
  "bo_buffer (fold bounded_Write chunks \<lparr>bo_buffer = [], bo_limit = n\<rparr>) = take (if n = 0 then 2 ^ 20 else n) (concat chunks) \<and>
   cd_buffer (fold diagnostics_Write chunks \<lparr>cd_buffer = [], cd_limit = n\<rparr>) =
     rev (take (if n = 0 then 2 ^ 16 else n) (rev (concat chunks)))"
proof -
  have "bo_buffer (fold bounded_Write chunks \<lparr>bo_buffer = [], bo_limit = n\<rparr>) = take (if n = 0 then 2 ^ 20 else n) (concat chunks)"
    by (subst bounded.content_puts) (simp_all add: effective_limit_def commandOutputLimit_def)
  moreover have "cd_buffer (fold diagnostics_Write chunks \<lparr>cd_buffer = [], cd_limit = n\<rparr>) =
     final_bytes (if n = 0 then 2 ^ 16 else n) (concat chunks)"
    by (subst diagnostics.content_puts) (simp_all add: diagnostics_limit_def captureDiagnosticsLimit_def)
  ultimately show ?thesis by (simp add: final_bytes_def rev_take)
qed

section \<open>Commands\<close>

text \<open>
  A command writes pieces to its two outputs, \<open>True\<close> for the error output, and ends with or without an
  error: an exit status of a local process or of one on the device, or a failure to run it.
\<close>

datatype exec_error = LocalExit int | AdbExit int | ExecFailed string

type_synonym exec_result = "(bool \<times> byte list) list \<times> exec_error option"

type_synonym 'w executor = "string \<Rightarrow> string list \<Rightarrow> 'w \<Rightarrow> exec_result \<times> 'w"

text \<open>An ADB device runs the quoted command line; \<open>run\<close> is what its shell makes of the line.\<close>

definition adb_Execute :: "(string \<Rightarrow> 'w \<Rightarrow> exec_result \<times> 'w) \<Rightarrow> 'w executor" where
  "adb_Execute run name args w =
     (case command name args of
        None \<Rightarrow> (([], Some (ExecFailed ''command contains a NUL byte'')), w)
      | Some line \<Rightarrow> run line w)"

definition executeOutput :: "'w executor \<Rightarrow> string \<Rightarrow> string list \<Rightarrow> 'w \<Rightarrow> (string \<times> exec_error option) \<times> 'w" where
  "executeOutput ex name args w =
     (case ex name args w of
        ((pieces, e), w) \<Rightarrow> ((string_of (bo_buffer (fold (bounded_Write \<circ> snd) pieces no_output)), e), w))"

definition property :: "'w executor \<Rightarrow> string \<Rightarrow> 'w \<Rightarrow> string \<times> 'w" where
  "property ex name w =
     (case executeOutput ex ''getprop'' [name] w of
        ((output, e), w) \<Rightarrow> ((if e = None then trim_space output else ''''), w))"

section \<open>Numbers\<close>

text \<open>\<open>strconv.ParseUint\<close> with 64 bits: the value, which is the maximum when it is too large, and whether there was no error.\<close>

definition digit_value :: "char \<Rightarrow> nat option" where
  "digit_value c =
     (let n = of_char c :: nat in
      if 48 \<le> n \<and> n \<le> 57 then Some (n - 48)
      else if 97 \<le> n \<and> n \<le> 122 then Some (n - 87)
      else if 65 \<le> n \<and> n \<le> 90 then Some (n - 55)
      else None)"

fun uint_digits :: "nat \<Rightarrow> nat \<Rightarrow> string \<Rightarrow> nat \<times> bool" where
  "uint_digits base acc [] = (acc, True)"
| "uint_digits base acc (c # cs) =
     (case digit_value c of
        None \<Rightarrow> (0, False)
      | Some d \<Rightarrow>
          (if base \<le> d then (0, False)
           else if 2 ^ 64 \<le> acc * base + d then (2 ^ 64 - 1, False)
           else uint_digits base (acc * base + d) cs))"

definition ParseUint :: "nat \<Rightarrow> string \<Rightarrow> 64 word \<times> bool" where
  "ParseUint base s = (if s = '''' then (0, False) else (case uint_digits base 0 s of (v, ok) \<Rightarrow> (of_nat v, ok)))"

record diskUsage =
  blocks :: "64 word"
  available :: "64 word"
  blockSize :: "64 word"

definition adb_DiskUsage :: "'w executor \<Rightarrow> 'w \<Rightarrow> diskUsage option \<times> 'w" where
  "adb_DiskUsage ex w =
     (case executeOutput ex ''stat'' [''-f'', ''-c'', ''%b %a %S'', ''/data''] w of
        ((output, e), w) \<Rightarrow>
          ((if e \<noteq> None then None
            else
              (case map (ParseUint 10) (Prelude.fields output) of
                 [(b, True), (a, True), (s, True)] \<Rightarrow> Some \<lparr>blocks = b, available = a, blockSize = s\<rparr>
               | _ \<Rightarrow> None)), w))"

definition adb_ReadMetric :: "'w executor \<Rightarrow> string \<Rightarrow> 'w \<Rightarrow> (string \<times> exec_error option) \<times> 'w" where
  "adb_ReadMetric ex path w = executeOutput ex ''cat'' [''--'', path] w"

section \<open>File metadata\<close>

text \<open>The bits of \<open>os.FileMode\<close>.\<close>

abbreviation ModeDir :: "32 word" where "ModeDir \<equiv> 0x80000000"
abbreviation ModeSymlink :: "32 word" where "ModeSymlink \<equiv> 0x08000000"
abbreviation ModeDevice :: "32 word" where "ModeDevice \<equiv> 0x04000000"
abbreviation ModeNamedPipe :: "32 word" where "ModeNamedPipe \<equiv> 0x02000000"
abbreviation ModeSocket :: "32 word" where "ModeSocket \<equiv> 0x01000000"
abbreviation ModeSetuid :: "32 word" where "ModeSetuid \<equiv> 0x00800000"
abbreviation ModeSetgid :: "32 word" where "ModeSetgid \<equiv> 0x00400000"
abbreviation ModeCharDevice :: "32 word" where "ModeCharDevice \<equiv> 0x00200000"
abbreviation ModeSticky :: "32 word" where "ModeSticky \<equiv> 0x00100000"
abbreviation ModeType :: "32 word" where "ModeType \<equiv> 0x8F280000"

definition IsDir :: "32 word \<Rightarrow> bool" where
  "IsDir mode \<longleftrightarrow> mode AND ModeDir \<noteq> 0"

definition IsRegular :: "32 word \<Rightarrow> bool" where
  "IsRegular mode \<longleftrightarrow> mode AND ModeType = 0"

definition androidFileMode :: "64 word \<Rightarrow> 32 word" where
  "androidFileMode raw =
     (let mode = ucast (raw AND 0x1FF);
          kind = raw AND 0xF000;
          mode = (if kind = 0x4000 then mode OR ModeDir
                  else if kind = 0xA000 then mode OR ModeSymlink
                  else if kind = 0x1000 then mode OR ModeNamedPipe
                  else if kind = 0xC000 then mode OR ModeSocket
                  else if kind = 0x2000 then mode OR (ModeDevice OR ModeCharDevice)
                  else if kind = 0x6000 then mode OR ModeDevice
                  else mode);
          mode = (if raw AND 0x800 \<noteq> 0 then mode OR ModeSetuid else mode);
          mode = (if raw AND 0x400 \<noteq> 0 then mode OR ModeSetgid else mode)
      in if raw AND 0x200 \<noteq> 0 then mode OR ModeSticky else mode)"

record fileEntry =
  fe_name :: string
  fe_size :: int
  fe_mode :: "32 word"
  fe_modified :: int

text \<open>\<open>filepath.Base\<close>.\<close>

definition Base :: "string \<Rightarrow> string" where
  "Base path =
     (if path = '''' then ''.''
      else
        (let body = rev (dropWhile (\<lambda>c. c = CHR ''/'') (rev path));
             name = rev (takeWhile (\<lambda>c. c \<noteq> CHR ''/'') (rev body))
         in if name = '''' then ''/'' else name))"

definition adb_stat :: "'w executor \<Rightarrow> string \<Rightarrow> 'w \<Rightarrow> fileEntry option \<times> 'w" where
  "adb_stat ex path w =
     (case executeOutput ex ''stat'' [''-L'', ''-c'', ''%f %s %Y'', ''--'', path] w of
        ((output, e), w) \<Rightarrow>
          ((if e \<noteq> None then None
            else
              (case Prelude.fields output of
                 [m, s, t] \<Rightarrow>
                   (case (ParseUint 16 m, atoi s, atoi t) of
                      ((mode, True), Some sz, Some modified) \<Rightarrow>
                        Some \<lparr>fe_name = Base path, fe_size = sz, fe_mode = androidFileMode mode, fe_modified = modified\<rparr>
                    | _ \<Rightarrow> None)
               | _ \<Rightarrow> None)), w))"

text \<open>
  \<open>ListFiles\<close> of an ADB device: \<open>listing\<close> is what the sync service lists, with the raw mode, the size
  and the time of each entry. A link is replaced by what it points to when that can be found out.
\<close>

fun list_entries :: "'w executor \<Rightarrow> string \<Rightarrow> (string \<times> 32 word \<times> 32 word \<times> int) list \<Rightarrow> 'w \<Rightarrow> fileEntry list \<times> 'w" where
  "list_entries ex path [] w = ([], w)"
| "list_entries ex path ((name, mode, sz, modified) # es) w =
     (if name = ''.'' \<or> name = ''..'' then list_entries ex path es w
      else
        (let info = \<lparr>fe_name = name, fe_size = uint sz, fe_mode = androidFileMode (ucast mode), fe_modified = modified\<rparr>;
             (info, w) = (if fe_mode info AND ModeSymlink \<noteq> 0
                          then (case adb_stat ex (Join path name) w of (Some target, w) \<Rightarrow> (target, w) | (None, w) \<Rightarrow> (info, w))
                          else (info, w));
             (rest, w) = list_entries ex path es w
         in (info # rest, w)))"

definition adb_ListFiles ::
  "'w executor \<Rightarrow> (string \<times> 32 word \<times> 32 word \<times> int) list option \<Rightarrow> string \<Rightarrow> 'w \<Rightarrow> fileEntry list option \<times> 'w" where
  "adb_ListFiles ex listing path w =
     (case listing of
        None \<Rightarrow> (None, w)
      | Some es \<Rightarrow>
          (if 20000 < length es then (None, w)
           else (case list_entries ex path es w of (infos, w) \<Rightarrow> (Some infos, w))))"

text \<open>
  \<open>ListFiles\<close> on the device itself: each entry with what \<open>os.Stat\<close> says of it, and what the directory
  says.
\<close>

definition local_ListFiles :: "(fileEntry option \<times> fileEntry option) list option \<Rightarrow> fileEntry list option" where
  "local_ListFiles listing =
     (case listing of
        None \<Rightarrow> None
      | Some es \<Rightarrow>
          (if 20000 < length es then None
           else Some (concat (map (\<lambda>(stat, info). case (case stat of None \<Rightarrow> info | Some i \<Rightarrow> Some i) of None \<Rightarrow> [] | Some i \<Rightarrow> [i]) es))))"

text \<open>What \<open>OpenFile\<close> of an ADB device accepts: the entry of a regular file.\<close>

definition adb_OpenFile :: "'w executor \<Rightarrow> string \<Rightarrow> 'w \<Rightarrow> fileEntry option \<times> 'w" where
  "adb_OpenFile ex path w =
     (case adb_stat ex path w of
        (None, w) \<Rightarrow> (None, w)
      | (Some info, w) \<Rightarrow> ((if IsRegular (fe_mode info) then Some info else None), w))"

definition adb_Mkdir :: "'w executor \<Rightarrow> string \<Rightarrow> bool \<Rightarrow> 'w \<Rightarrow> exec_error option \<times> 'w" where
  "adb_Mkdir ex path all w =
     (case executeOutput ex ''mkdir'' ([''-m'', ''0755''] @ (if all then [''-p''] else []) @ [''--'', path]) w of
        ((_, e), w) \<Rightarrow> (e, w))"

definition adb_Remove :: "'w executor \<Rightarrow> string \<Rightarrow> 'w \<Rightarrow> exec_error option \<times> 'w" where
  "adb_Remove ex path w = (case executeOutput ex ''rm'' [''-rf'', ''--'', path] w of ((_, e), w) \<Rightarrow> (e, w))"

section \<open>Files\<close>

record 'a world =
  disk :: "byte list gomap"
  dev :: 'a

text \<open>
  \<open>os.Rename\<close>, \<open>os.Remove\<close> and \<open>copyFile\<close> on the disk. What the operating system decides is a
  parameter: whether a renaming goes through, crosses a file system or fails otherwise, and whether a
  copy could open its files, how many bytes it got to write and whether it ended without an error.
\<close>

datatype os_answer = Accepted | CrossDevice | Refused

definition os_rename :: "os_answer \<Rightarrow> string \<Rightarrow> string \<Rightarrow> 'a world \<Rightarrow> os_answer \<times> 'a world" where
  "os_rename ans source destination w =
     (case ans of
        Accepted \<Rightarrow>
          (case map_of (disk w) source of
             None \<Rightarrow> (Refused, w)
           | Some content \<Rightarrow> (Accepted, w\<lparr>disk := mput destination content (mdel source (disk w))\<rparr>))
      | _ \<Rightarrow> (ans, w))"

definition os_remove :: "string \<Rightarrow> 'a world \<Rightarrow> 'a world" where
  "os_remove path w = w\<lparr>disk := mdel path (disk w)\<rparr>"

record copy_env =
  opened :: bool
  transferred :: "nat option"
  copy_closed :: bool

definition copyFile :: "copy_env \<Rightarrow> string \<Rightarrow> string \<Rightarrow> 'a world \<Rightarrow> bool \<times> 'a world" where
  "copyFile C source destination w =
     (case map_of (disk w) source of
        None \<Rightarrow> (False, w)
      | Some content \<Rightarrow>
          (if \<not> opened C then (False, w)
           else
             (case transferred C of
                Some n \<Rightarrow> (False, w\<lparr>disk := mput destination (take n content) (disk w)\<rparr>)
              | None \<Rightarrow> (copy_closed C, w\<lparr>disk := mput destination content (disk w)\<rparr>))))"

text \<open>\<open>transferred\<close> is \<open>None\<close> for a copy that reaches the end of its source.\<close>

record commit_env =
  rename1 :: os_answer
  temp_name :: "string option"
  copying :: copy_env
  chmod_ok :: bool
  rename2 :: os_answer

definition local_CommitUpload :: "commit_env \<Rightarrow> string \<Rightarrow> string \<Rightarrow> 'a world \<Rightarrow> bool \<times> 'a world" where
  "local_CommitUpload C stage destination w =
     (case os_rename (rename1 C) stage destination w of
        (Accepted, w) \<Rightarrow> (True, w)
      | (Refused, w) \<Rightarrow> (False, w)
      | (CrossDevice, w) \<Rightarrow>
          (case temp_name C of
             None \<Rightarrow> (False, w)
           | Some name \<Rightarrow>
               (case copyFile (copying C) stage name (w\<lparr>disk := mput name [] (disk w)\<rparr>) of
                  (False, w) \<Rightarrow> (False, os_remove name w)
                | (True, w) \<Rightarrow>
                    (if \<not> chmod_ok C then (False, os_remove name w)
                     else
                       (case os_rename (rename2 C) name destination w of
                          (ans, w) \<Rightarrow> (ans = Accepted, os_remove name w))))))"

text \<open>
  \<open>CommitUpload\<close> of an ADB device: \<open>push\<close> is the sync service. The deferred removal of the staging file
  on the device runs on every path after the name was accepted.
\<close>

definition adb_CommitUpload ::
  "('a world) executor \<Rightarrow> (byte list \<Rightarrow> string \<Rightarrow> 'a world \<Rightarrow> bool \<times> 'a world) \<Rightarrow> string \<Rightarrow> string \<Rightarrow> 'a world \<Rightarrow> bool \<times> 'a world" where
  "adb_CommitUpload ex push stage destination w =
     (case map_of (disk w) stage of
        None \<Rightarrow> (False, w)
      | Some content \<Rightarrow>
          (case executeOutput ex ''mktemp'' [Join (Dir destination) ''.scrcpycat-upload-XXXXXXXX''] w of
             ((output, Some _), w) \<Rightarrow> (False, w)
           | ((output, None), w) \<Rightarrow>
               (let remote = trim_space output in
                if remote = '''' \<or> Dir remote \<noteq> Dir destination then (False, w)
                else
                  (let (ok, w) =
                     (case push content remote w of
                        (False, w) \<Rightarrow> (False, w)
                      | (True, w) \<Rightarrow>
                          (case executeOutput ex ''mv'' [''-fT'', ''--'', remote, destination] w of
                             ((_, e), w) \<Rightarrow> (e = None, w)))
                   in (ok, snd (executeOutput ex ''rm'' [''-f'', ''--'', remote] w))))))"

section \<open>The contract of the device's files\<close>

text \<open>
  \<open>staged\<close> are the files of the agent's machine, \<open>stored\<close> those of the device: a commit that reports
  success has put the staged contents in place, one that fails has left the destination as it was, and
  no other file of the device is lost.
\<close>

locale device_files =
  fixes commit :: "string \<Rightarrow> string \<Rightarrow> 'w \<Rightarrow> bool \<times> 'w"
    and mkdir :: "string \<Rightarrow> bool \<Rightarrow> 'w \<Rightarrow> bool \<times> 'w"
    and staged stored :: "'w \<Rightarrow> string \<Rightarrow> byte list option"
    and ok :: "string \<Rightarrow> string \<Rightarrow> 'w \<Rightarrow> bool"
  assumes commit_done: "ok s d w \<Longrightarrow> commit s d w = (True, w') \<Longrightarrow> staged w s \<noteq> None \<and> stored w' d = staged w s"
    and commit_failed: "ok s d w \<Longrightarrow> commit s d w = (False, w') \<Longrightarrow> stored w' d = stored w d"
    and commit_frame: "ok s d w \<Longrightarrow> commit s d w = (b, w') \<Longrightarrow> p \<noteq> s \<Longrightarrow> p \<noteq> d \<Longrightarrow> stored w p \<noteq> None \<Longrightarrow> stored w' p = stored w p"
    and mkdir_staged: "mkdir p all w = (b, w') \<Longrightarrow> staged w' = staged w"
    and mkdir_stored: "mkdir p all w = (b, w') \<Longrightarrow> stored w' = stored w"
    and mkdir_ok: "mkdir p all w = (b, w') \<Longrightarrow> ok s d w \<Longrightarrow> ok s d w'"
begin

text \<open>Never a part of a file: the destination is the old file or the whole new one.\<close>

lemma commit_atomic: "ok s d w \<Longrightarrow> stored (snd (commit s d w)) d \<in> {stored w d, staged w s}"
  using commit_done commit_failed by (cases "commit s d w", cases "fst (commit s d w)") auto

end

definition local_Mkdir :: "bool \<Rightarrow> string \<Rightarrow> bool \<Rightarrow> 'a world \<Rightarrow> bool \<times> 'a world" where
  "local_Mkdir made path all w = (made, w)"

text \<open>Names that \<open>os.CreateTemp\<close> makes up are new.\<close>

definition fresh_temp :: "commit_env \<Rightarrow> string \<Rightarrow> string \<Rightarrow> 'a world \<Rightarrow> bool" where
  "fresh_temp C s d w \<longleftrightarrow> (case temp_name C of None \<Rightarrow> True | Some n \<Rightarrow> n \<noteq> s \<and> n \<noteq> d \<and> map_of (disk w) n = None)"

lemma local_commit:
  assumes "fresh_temp C s d w" "local_CommitUpload C s d w = (b, w')"
  shows "if b then map_of (disk w) s \<noteq> None \<and> map_of (disk w') d = map_of (disk w) s \<and> (\<forall>p. p \<noteq> s \<and> p \<noteq> d \<longrightarrow> map_of (disk w') p = map_of (disk w) p)
         else map_of (disk w') = map_of (disk w)"
  using assms
  by (cases "rename1 C"; cases "map_of (disk w) s"; cases "temp_name C"; cases "transferred (copying C)"; cases "rename2 C")
    (auto simp: local_CommitUpload_def fresh_temp_def os_remove_def os_rename_def copyFile_def fun_eq_iff restrict_map_def
      split: if_splits bool.splits)

interpretation local_files: device_files "local_CommitUpload C" "local_Mkdir made" "\<lambda>w. map_of (disk w)" "\<lambda>w. map_of (disk w)" "fresh_temp C" for C made
proof unfold_locales
  fix s d p :: string and w w' :: "'a world" and b
  show "local_CommitUpload C s d w = (True, w') \<Longrightarrow> fresh_temp C s d w \<Longrightarrow> map_of (disk w) s \<noteq> None \<and> map_of (disk w') d = map_of (disk w) s"
    using local_commit [of C s d w True w'] by simp
qed (auto dest: local_commit simp: local_Mkdir_def split: if_splits)

text \<open>
  What the commit on an ADB device relies on, for a device whose files are \<open>files\<close>: a command on the
  device leaves the agent's disk alone; \<open>mktemp\<close> makes a new empty file and prints its name on a line;
  a push writes one file, the whole contents if it succeeds; \<open>mv -fT\<close> replaces the destination or
  changes nothing; \<open>rm -f\<close> and \<open>mkdir\<close> touch no other file.
\<close>

definition host_untouched :: "('a world) executor \<Rightarrow> bool" where
  "host_untouched ex \<longleftrightarrow> (\<forall>name args w. disk (snd (executeOutput ex name args w)) = disk w)"

definition mktemp_ok :: "('a world) executor \<Rightarrow> ('a world \<Rightarrow> string \<Rightarrow> byte list option) \<Rightarrow> bool" where
  "mktemp_ok ex files \<longleftrightarrow>
     (\<forall>t w output e w'. executeOutput ex ''mktemp'' [t] w = ((output, e), w') \<longrightarrow>
        (if e = None
         then \<exists>name. output = name @ [CHR 0x0A] \<and> name \<noteq> [] \<and> plain_char (hd name) \<and> plain_char (last name) \<and>
                files w name = None \<and> files w' = (files w)(name \<mapsto> [])
         else files w' = files w))"

definition push_ok :: "(byte list \<Rightarrow> string \<Rightarrow> 'a world \<Rightarrow> bool \<times> 'a world) \<Rightarrow> ('a world \<Rightarrow> string \<Rightarrow> byte list option) \<Rightarrow> bool" where
  "push_ok push files \<longleftrightarrow>
     (\<forall>content p w b w'. push content p w = (b, w') \<longrightarrow>
        disk w' = disk w \<and> (b \<longrightarrow> files w' p = Some content) \<and> (\<forall>q. q \<noteq> p \<longrightarrow> files w' q = files w q))"

definition mv_ok :: "('a world) executor \<Rightarrow> ('a world \<Rightarrow> string \<Rightarrow> byte list option) \<Rightarrow> bool" where
  "mv_ok ex files \<longleftrightarrow>
     (\<forall>p d w output e w'. p \<noteq> d \<longrightarrow> executeOutput ex ''mv'' [''-fT'', ''--'', p, d] w = ((output, e), w') \<longrightarrow>
        files w' = (if e = None then (files w)(d := files w p, p := None) else files w))"

definition rm_ok :: "('a world) executor \<Rightarrow> ('a world \<Rightarrow> string \<Rightarrow> byte list option) \<Rightarrow> bool" where
  "rm_ok ex files \<longleftrightarrow> (\<forall>p w q. q \<noteq> p \<longrightarrow> files (snd (executeOutput ex ''rm'' [''-f'', ''--'', p] w)) q = files w q)"

definition mkdir_ok :: "('a world) executor \<Rightarrow> ('a world \<Rightarrow> string \<Rightarrow> byte list option) \<Rightarrow> bool" where
  "mkdir_ok ex files \<longleftrightarrow> (\<forall>args w. files (snd (executeOutput ex ''mkdir'' args w)) = files w)"

definition android_ok ::
  "('a world) executor \<Rightarrow> (byte list \<Rightarrow> string \<Rightarrow> 'a world \<Rightarrow> bool \<times> 'a world) \<Rightarrow> ('a world \<Rightarrow> string \<Rightarrow> byte list option) \<Rightarrow> bool" where
  "android_ok ex push files \<longleftrightarrow> host_untouched ex \<and> mktemp_ok ex files \<and> push_ok push files \<and> mv_ok ex files \<and>
     rm_ok ex files \<and> mkdir_ok ex files"

definition adb_made :: "('a world) executor \<Rightarrow> string \<Rightarrow> bool \<Rightarrow> 'a world \<Rightarrow> bool \<times> 'a world" where
  "adb_made ex path all w = (case adb_Mkdir ex path all w of (e, w) \<Rightarrow> (e = None, w))"

definition other_name :: "('a world) executor \<Rightarrow> string \<Rightarrow> bool" where
  "other_name ex d \<longleftrightarrow>
     (\<forall>t w output w'. executeOutput ex ''mktemp'' [t] w = ((output, None), w') \<longrightarrow> output \<noteq> d @ [CHR 0x0A])"

lemma android_mktemp:
  assumes "mktemp_ok ex files" "executeOutput ex ''mktemp'' [t] w = ((output, None), w')"
  shows "files w (trim_space output) = None" "files w' = (files w)(trim_space output \<mapsto> [])" "output = trim_space output @ [CHR 0x0A]"
proof -
  obtain name where n: "output = name @ [CHR 0x0A]" "name \<noteq> []" "plain_char (hd name)" "plain_char (last name)"
    and f: "files w name = None" "files w' = (files w)(name \<mapsto> [])"
    using assms unfolding mktemp_ok_def by (metis (no_types, lifting))
  have "trim_space output = name" using trim_space_newline [OF n(2-4), of 1] n(1) by simp
  with n(1) f show "files w (trim_space output) = None" "files w' = (files w)(trim_space output \<mapsto> [])"
    "output = trim_space output @ [CHR 0x0A]" by simp_all
qed

lemma android_mktemp_fails: "mktemp_ok ex files \<Longrightarrow> executeOutput ex ''mktemp'' [t] w = ((output, Some e), w') \<Longrightarrow> files w' = files w"
  unfolding mktemp_ok_def by (metis option.distinct(1))

lemma adb_commit:
  assumes A: "android_ok ex push files" and d: "other_name ex d" and run: "adb_CommitUpload ex push s d w = (b, w')"
  shows "if b then map_of (disk w) s \<noteq> None \<and> files w' d = map_of (disk w) s else files w' d = files w d"
    and "q \<noteq> d \<Longrightarrow> files w q \<noteq> None \<Longrightarrow> files w' q = files w q"
proof -
  have "(if b then map_of (disk w) s \<noteq> None \<and> files w' d = map_of (disk w) s else files w' d = files w d) \<and>
    (\<forall>q. q \<noteq> d \<longrightarrow> files w q \<noteq> None \<longrightarrow> files w' q = files w q)"
  proof (cases "map_of (disk w) s")
    case None
    then show ?thesis using run by (simp add: adb_CommitUpload_def)
  next
    case (Some content)
    obtain out0 e w1 where m: "executeOutput ex ''mktemp'' [Join (Dir d) ''.scrcpycat-upload-XXXXXXXX''] w = ((out0, e), w1)"
      by (metis prod.exhaust)
    show ?thesis
    proof (cases e)
      case (Some err)
      then have "\<not> b" "w' = w1" using run m \<open>map_of (disk w) s = _\<close> by (auto simp: adb_CommitUpload_def)
      moreover have "files w1 = files w"
        using A m Some android_mktemp_fails [of ex files] by (simp add: android_ok_def)
      ultimately show ?thesis by simp
    next
      case None
      define r where "r = trim_space out0"
      have m: "executeOutput ex ''mktemp'' [Join (Dir d) ''.scrcpycat-upload-XXXXXXXX''] w = ((out0, None), w1)"
        using m None by simp
      have mk: "mktemp_ok ex files" using A by (simp add: android_ok_def)
      note t = android_mktemp [OF mk m, folded r_def]
      have "r \<noteq> d" using d m t(3) unfolding other_name_def by metis
      show ?thesis
      proof (cases "r = [] \<or> Dir r \<noteq> Dir d")
        case True
        then have "\<not> b" "w' = w1" using run m Some by (auto simp: adb_CommitUpload_def r_def)
        then show ?thesis using t \<open>r \<noteq> d\<close> by auto
      next
        case False
        obtain b2 w2 where p: "push content r w1 = (b2, w2)" by (metis prod.exhaust)
        obtain o3 e3 w3 where v: "executeOutput ex ''mv'' [''-fT'', ''--'', r, d] w2 = ((o3, e3), w3)"
          by (metis prod.exhaust)
        have "b = (b2 \<and> e3 = None) \<and> w' = snd (executeOutput ex ''rm'' [''-f'', ''--'', r] (if b2 then w3 else w2))"
          using run m Some False p v by (cases b2) (auto simp: adb_CommitUpload_def r_def Let_def)
        then have w': "b = (b2 \<and> e3 = None)" "w' = snd (executeOutput ex ''rm'' [''-f'', ''--'', r] (if b2 then w3 else w2))"
          by simp_all
        have push: "b2 \<longrightarrow> files w2 r = Some content" "\<And>q. q \<noteq> r \<Longrightarrow> files w2 q = files w1 q"
          using A p unfolding android_ok_def push_ok_def by blast+
        have mv: "files w3 = (if e3 = None then (files w2)(d := files w2 r, r := None) else files w2)"
          using A v \<open>r \<noteq> d\<close> unfolding android_ok_def mv_ok_def by blast
        have rm: "files w' q = files (if b2 then w3 else w2) q" if "q \<noteq> r" for q
          using A that unfolding w'(2) android_ok_def rm_ok_def by blast
        have frame: "files w' q = files w q" if "q \<noteq> d" "files w q \<noteq> None" for q
        proof -
          have "q \<noteq> r" using t(1) that by auto
          then show ?thesis using t(2) push(2) [of q] mv rm [of q] that by auto
        qed
        have "if b then files w' d = Some content else files w' d = files w d"
          using t(2) push(1) push(2) [of d] mv rm [of d] \<open>r \<noteq> d\<close> unfolding w'(1) by auto
        with frame Some show ?thesis by (auto split: if_splits)
      qed
    qed
  qed
  then show "if b then map_of (disk w) s \<noteq> None \<and> files w' d = map_of (disk w) s else files w' d = files w d"
    "q \<noteq> d \<Longrightarrow> files w q \<noteq> None \<Longrightarrow> files w' q = files w q" by blast+
qed

lemma adb_made_files: "android_ok ex push files \<Longrightarrow> adb_made ex path all w = (b, w') \<Longrightarrow> disk w' = disk w \<and> files w' = files w"
  unfolding android_ok_def host_untouched_def mkdir_ok_def
  by (auto simp: adb_made_def adb_Mkdir_def split: prod.splits) (metis snd_conv)+

text \<open>An ADB device keeps the contract as long as the names that \<open>mktemp\<close> makes up are not the destination.\<close>

lemma adb_device_files:
  assumes A: "android_ok ex push files"
  shows "device_files (adb_CommitUpload ex push) (adb_made ex) (\<lambda>w. map_of (disk w)) files (\<lambda>s d w. other_name ex d)"
  by unfold_locales (use adb_commit [OF A] adb_made_files [OF A] in \<open>fastforce split: if_splits\<close>)+

section \<open>What the device reports\<close>

lemma permission_bits: "(ucast (raw AND 0x1FF :: 64 word) :: 32 word) = ucast raw AND 0x1FF"
  by (rule bit_word_eqI) (simp add: bit_simps)

text \<open>
  The mode that the listing of an ADB device shows is the one of the file: a directory is shown as
  a directory and nothing else is, exactly the special files are not regular, a link is seen as
  a link, and the permissions are kept.
\<close>

theorem android_mode_kept:
  "IsDir (androidFileMode raw) = (raw AND 0xF000 = 0x4000) \<and>
   IsRegular (androidFileMode raw) = (raw AND 0xF000 \<notin> {0x4000, 0xA000, 0x1000, 0xC000, 0x2000, 0x6000}) \<and>
   (androidFileMode raw AND ModeSymlink \<noteq> 0) = (raw AND 0xF000 = 0xA000) \<and>
   androidFileMode raw AND 0x1FF = ucast raw AND 0x1FF"
  by (simp_all add: androidFileMode_def IsDir_def IsRegular_def permission_bits Let_def bit.conj_disj_distrib2 and.assoc)

text \<open>
  An upload to an ADB device is all or nothing, for a device whose \<open>mktemp\<close>, \<open>mv\<close>, \<open>rm\<close> and file
  transfer do what their documentation says: reported as done, the destination holds exactly the
  staged bytes; reported as failed, at whichever step, the destination is what it was; and no other
  file of the device changes.
\<close>

theorem adb_upload_atomic:
  assumes "android_ok ex push files" "other_name ex d" "adb_CommitUpload ex push s d w = (done, w')"
  shows "(if done then \<exists>content. map_of (disk w) s = Some content \<and> files w' d = Some content else files w' d = files w d) \<and>
    (\<forall>q content. q \<noteq> d \<and> files w q = Some content \<longrightarrow> files w' q = Some content)"
  using adb_commit [OF assms] by (auto split: if_splits)

text \<open>A small phone: its shell knows the four commands, and \<open>mktemp\<close> makes one name.\<close>

definition demo_name :: string where
  "demo_name = ''/sdcard/.scrcpycat-upload-a''"

definition demo_shell :: "((byte list gomap) world) executor" where
  "demo_shell name args w =
     (if name = ''mktemp'' then
        (if map_of (dev w) demo_name \<noteq> None then (([], Some (AdbExit 1)), w)
         else (([(False, bytes (demo_name @ [CHR 0x0A]))], None), w\<lparr>dev := mput demo_name [] (dev w)\<rparr>))
      else if name = ''mv'' \<and> length args = 4 then
        (case map_of (dev w) (args ! 2) of
           None \<Rightarrow> (([], Some (AdbExit 1)), w)
         | Some content \<Rightarrow> (([], None), w\<lparr>dev := mput (args ! 3) content (mdel (args ! 2) (dev w))\<rparr>))
      else if name = ''rm'' \<and> length args = 3 then (([], None), w\<lparr>dev := mdel (args ! 2) (dev w)\<rparr>)
      else (([], None), w))"

definition demo_push :: "byte list \<Rightarrow> string \<Rightarrow> (byte list gomap) world \<Rightarrow> bool \<times> (byte list gomap) world" where
  "demo_push content p w = (True, w\<lparr>dev := mput p content (dev w)\<rparr>)"

lemma demo_mktemp: "executeOutput demo_shell ''mktemp'' [t] w =
   (if map_of (dev w) demo_name \<noteq> None then (('''', Some (AdbExit 1)), w)
    else ((demo_name @ [CHR 0x0A], None), w\<lparr>dev := mput demo_name [] (dev w)\<rparr>))"
  by (simp add: executeOutput_def demo_shell_def no_output_def string_of_def [of "[]"])
    (simp add: bounded_Write_def effective_limit_def commandOutputLimit_def demo_name_def)

lemma demo_android: "android_ok demo_shell demo_push (\<lambda>w. map_of (dev w))"
  unfolding android_ok_def
proof (intro conjI)
  show "mktemp_ok demo_shell (\<lambda>w. map_of (dev w))"
    by (auto simp: mktemp_ok_def demo_mktemp demo_name_def plain_char_def less_eq_char_def)
qed (auto simp: host_untouched_def push_ok_def mv_ok_def rm_ok_def mkdir_ok_def executeOutput_def demo_shell_def demo_push_def
    fun_eq_iff restrict_map_def split: option.splits if_splits)

lemma demo_trim: "trim_space (demo_name @ [CHR 0x0A]) = demo_name"
proof -
  have "demo_name \<noteq> []" "plain_char (hd demo_name)" "plain_char (last demo_name)"
    by (simp_all add: demo_name_def plain_char_def less_eq_char_def)
  then show ?thesis using trim_space_newline [of demo_name "Suc 0"] by simp
qed

lemma demo_dir: "Dir demo_name = Dir ''/sdcard/a''" "demo_name \<noteq> []" "demo_name \<noteq> ''/sdcard/a''" "''/sdcard/a'' \<noteq> demo_name"
  by code_simp+

theorem adb_upload_atomic_witness:
  "adb_CommitUpload demo_shell demo_push ''stage'' ''/sdcard/a'' \<lparr>disk = [(''stage'', [1, 2, 3])], dev = [(''/sdcard/a'', [9])]\<rparr> =
     (True, \<lparr>disk = [(''stage'', [1, 2, 3])], dev = [(''/sdcard/a'', [1, 2, 3])]\<rparr>) \<and>
   map_of [(''/sdcard/a'', [1, 2, 3 :: byte])] ''/sdcard/a'' = Some [1, 2, 3]"
proof -
  have run: "adb_CommitUpload demo_shell demo_push ''stage'' ''/sdcard/a'' \<lparr>disk = [(''stage'', [1, 2, 3])], dev = [(''/sdcard/a'', [9])]\<rparr> =
     (True, \<lparr>disk = [(''stage'', [1, 2, 3])], dev = [(''/sdcard/a'', [1, 2, 3])]\<rparr>)"
    by (simp add: adb_CommitUpload_def demo_mktemp Let_def demo_trim demo_dir executeOutput_def [of _ "''rm''"] executeOutput_def [of _ "''mv''"]
        demo_shell_def demo_push_def)
  moreover have "other_name demo_shell ''/sdcard/a''"
    by (auto simp: other_name_def demo_mktemp demo_name_def)
  ultimately show ?thesis using adb_upload_atomic [OF demo_android _ run] by auto
qed

end
