(* ===== verification/AgentOps.thy ===== *)
theory AgentOps
  imports DeviceIO MediaOptions Files Model
begin

unbundle bit_operations_syntax

text \<open>
  \<open>operations.go\<close> and the launch commands of \<open>device_capture.go\<close>: shell commands, tasks, the download of
  task assets and screenshots. A device is the record \<open>backend\<close> of its operations on the state
  \<open>world\<close> of \<open>DeviceIO\<close>, the interface \<open>deviceBackend\<close> of the code. What the network answers to a
  download is a parameter, as is the hash \<open>sha\<close>. Messages are \<open>obj\<close> values.
\<close>

section \<open>Shell commands\<close>

record shell_result =
  r_stdout :: string
  r_stderr :: string
  r_exit :: int
  r_success :: bool

text \<open>\<open>ctx_err\<close> is the error of the context when the command has ended, if its time is up.\<close>

definition shellResultWithExecutor :: "'w executor \<Rightarrow> string option \<Rightarrow> string \<Rightarrow> 'w \<Rightarrow> shell_result \<times> 'w" where
  "shellResultWithExecutor ex ctx_err script w =
     (case ex ''sh'' [''-c'', script] w of
        ((pieces, e), w) \<Rightarrow>
          (let stdout = fold (\<lambda>(err, data) b. if err then b else bounded_Write data b) pieces no_output;
               stderr = fold (\<lambda>(err, data) b. if err then bounded_Write data b else b) pieces no_output;
               exitCode = (case e of None \<Rightarrow> 0 | Some (LocalExit n) \<Rightarrow> n | Some (AdbExit n) \<Rightarrow> n | Some (ExecFailed _) \<Rightarrow> 1);
               exitCode = (if e \<noteq> None \<and> ctx_err \<noteq> None then 124 else exitCode);
               stderr = (case ctx_err of
                           Some msg \<Rightarrow> (if e \<noteq> None then bounded_Write (bytes msg) stderr else stderr)
                         | None \<Rightarrow> stderr)
           in (\<lparr>r_stdout = string_of (bo_buffer stdout), r_stderr = string_of (bo_buffer stderr), r_exit = exitCode, r_success = (e = None)\<rparr>, w)))"

definition executeCommand :: "'w executor \<Rightarrow> string option \<Rightarrow> obj \<Rightarrow> 'w \<Rightarrow> obj \<times> 'w" where
  "executeCommand ex ctx_err message w =
     (case shellResultWithExecutor ex ctx_err (stringField message ''command'') w of
        (r, w) \<Rightarrow>
          ([(''stdout'', AStr (r_stdout r)), (''stderr'', AStr (r_stderr r)), (''exit_code'', AInt (r_exit r)),
            (''success'', ABool (r_success r)), (''output'', AStr (r_stdout r @ r_stderr r)),
            (''message_type'', AStr ''command_result''), (''client_id'', AStr (stringField message ''client_id'')),
            (''request_id'', AStr (stringField message ''request_id''))], w))"

section \<open>Addresses\<close>

text \<open>
  \<open>net.ParseIP\<close>: four decimal fields without leading zeros, or groups of up to four hexadecimal digits
  with at most one ellipsis and possibly four decimal fields at the end. The result has 16 bytes, an
  address of version 4 after the prefix \<open>::ffff\<close>.
\<close>

definition octet :: "string \<Rightarrow> byte option" where
  "octet s =
     (if s = '''' \<or> \<not> list_all (\<lambda>c. CHR ''0'' \<le> c \<and> c \<le> CHR ''9'') s \<or> (1 < length s \<and> hd s = CHR ''0'') then None
      else (case digits_val 0 s of Some n \<Rightarrow> (if n \<le> 255 then Some (of_nat n) else None) | None \<Rightarrow> None))"

definition parseIPv4 :: "string \<Rightarrow> byte list option" where
  "parseIPv4 s =
     (case map octet (split_on (CHR ''.'') s) of
        [Some a, Some b, Some c, Some d] \<Rightarrow> Some [a, b, c, d]
      | _ \<Rightarrow> None)"

fun hex_group :: "nat \<Rightarrow> string \<Rightarrow> nat \<times> string" where
  "hex_group acc [] = (acc, [])"
| "hex_group acc (c # s) =
     (case digit_value c of
        Some d \<Rightarrow> (if d < 16 then hex_group (acc * 16 + d) s else (acc, c # s))
      | None \<Rightarrow> (acc, c # s))"

lemma hex_group_shorter: "length (snd (hex_group acc s)) \<le> length s"
  by (induction acc s rule: hex_group.induct) (auto split: option.split)

text \<open>
  The loop over the groups: \<open>ip\<close> are the bytes so far and \<open>ell\<close> the place of the ellipsis. The result
  is the bytes, the ellipsis and what is left of the text.
\<close>

function ipv6_groups :: "byte list \<Rightarrow> nat option \<Rightarrow> string \<Rightarrow> (byte list \<times> nat option \<times> string) option" where
  "ipv6_groups ip ell s =
     (if 16 \<le> length ip then Some (ip, ell, s)
      else
        (let (acc, rest) = hex_group 0 s; off = length s - length rest in
         if off = 0 \<or> 4 < off then None
         else if rest \<noteq> [] \<and> hd rest = CHR ''.'' then
           (if ell = None \<and> length ip \<noteq> 12 \<or> 12 < length ip then None
            else (case parseIPv4 s of None \<Rightarrow> None | Some v4 \<Rightarrow> Some (ip @ v4, ell, [])))
         else
           (let ip = ip @ [of_nat (acc div 256), of_nat acc] in
            if rest = [] then Some (ip, ell, [])
            else if hd rest \<noteq> CHR '':'' \<or> length rest = 1 then None
            else if hd (tl rest) = CHR '':'' then
              (if ell \<noteq> None then None
               else if tl (tl rest) = [] then Some (ip, Some (length ip), [])
               else ipv6_groups ip (Some (length ip)) (tl (tl rest)))
            else ipv6_groups ip ell (tl rest))))"
  by pat_completeness auto
termination
  by (relation "measure (\<lambda>(ip, ell, s). 16 - length ip)") auto

declare ipv6_groups.simps [simp del]

definition parseIPv6 :: "string \<Rightarrow> byte list option" where
  "parseIPv6 s =
     (let lead = prefix ''::'' s; s = (if lead then drop 2 s else s) in
      if lead \<and> s = '''' then Some (replicate 16 0)
      else
        (case ipv6_groups [] (if lead then Some 0 else None) s of
           None \<Rightarrow> None
         | Some (ip, ell, rest) \<Rightarrow>
             (if rest \<noteq> '''' then None
              else if length ip < 16 then
                (case ell of None \<Rightarrow> None | Some e \<Rightarrow> Some (take e ip @ replicate (16 - length ip) 0 @ drop e ip))
              else if ell \<noteq> None then None
              else Some ip)))"

definition ParseIP :: "string \<Rightarrow> byte list option" where
  "ParseIP s =
     (if CHR ''%'' \<in> set s then None
      else
        (case dropWhile (\<lambda>c. c \<noteq> CHR ''.'' \<and> c \<noteq> CHR '':'') s of
           [] \<Rightarrow> None
         | c # _ \<Rightarrow>
             (if c = CHR ''.'' then map_option (\<lambda>v4. replicate 10 0 @ [0xFF, 0xFF] @ v4) (parseIPv4 s)
              else parseIPv6 s)))"

definition To4 :: "byte list \<Rightarrow> byte list option" where
  "To4 ip = (if take 12 ip = replicate 10 0 @ [0xFF, 0xFF] then Some (drop 12 ip) else None)"

definition IsLoopback :: "byte list \<Rightarrow> bool" where
  "IsLoopback ip = (case To4 ip of Some v4 \<Rightarrow> v4 ! 0 = 127 | None \<Rightarrow> ip = replicate 15 0 @ [1])"

definition IsPrivate :: "byte list \<Rightarrow> bool" where
  "IsPrivate ip =
     (case To4 ip of
        Some v4 \<Rightarrow> v4 ! 0 = 10 \<or> v4 ! 0 = 172 \<and> v4 ! 1 AND 0xF0 = 16 \<or> v4 ! 0 = 192 \<and> v4 ! 1 = 168
      | None \<Rightarrow> ip ! 0 AND 0xFE = 0xFC)"

definition IsLinkLocalUnicast :: "byte list \<Rightarrow> bool" where
  "IsLinkLocalUnicast ip =
     (case To4 ip of
        Some v4 \<Rightarrow> v4 ! 0 = 169 \<and> v4 ! 1 = 254
      | None \<Rightarrow> ip ! 0 = 0xFE \<and> ip ! 1 AND 0xC0 = 0x80)"

text \<open>The parts of a parsed URL that the agent looks at.\<close>

record url =
  Scheme :: string
  Hostname :: string

definition allowedTaskAssetURL :: "url \<Rightarrow> bool" where
  "allowedTaskAssetURL endpoint =
     (if Hostname endpoint = '''' then False
      else if Scheme endpoint = ''https'' then True
      else if Scheme endpoint \<noteq> ''http'' then False
      else
        (let host = trim_suffix ''.'' (map lower_char (Hostname endpoint)) in
         if host = ''localhost'' then True
         else
           (case ParseIP host of
              None \<Rightarrow> False
            | Some ip \<Rightarrow> IsLoopback ip \<or> IsPrivate ip \<or> IsLinkLocalUnicast ip)))"

section \<open>Tasks\<close>

text \<open>
  The interface \<open>deviceBackend\<close>: running a command, making a directory, removing a file and committing
  an upload; \<open>bk_directory\<close> is the staging directory of an ADB device, \<open>None\<close> on the device itself.
\<close>

record 'a backend =
  bk_execute :: "('a world) executor"
  bk_mkdir :: "string \<Rightarrow> bool \<Rightarrow> 'a world \<Rightarrow> bool \<times> 'a world"
  bk_remove :: "string \<Rightarrow> 'a world \<Rightarrow> 'a world"
  bk_commit :: "string \<Rightarrow> string \<Rightarrow> 'a world \<Rightarrow> bool \<times> 'a world"
  bk_directory :: "string option"

definition runCommand :: "'a backend \<Rightarrow> string \<Rightarrow> string list \<Rightarrow> 'a world \<Rightarrow> (string \<times> exec_error option) \<times> 'a world" where
  "runCommand B name args w = executeOutput (bk_execute B) name args w"

text \<open>
  One download: how the URL parses, the answer of the server (its status, its body and whether the body
  arrived without an error), the name of the temporary file, whether it could be closed, and
  the clock for the name of a staged package.
\<close>

record download_env =
  parse_url :: "string \<Rightarrow> url option"
  response :: "(nat \<times> byte list \<times> bool) option"
  temp :: "string option"
  closed_ok :: bool
  nanos :: nat

definition downloadTaskAsset ::
  "(byte list \<Rightarrow> byte list) \<Rightarrow> download_env \<Rightarrow> string \<Rightarrow> string \<Rightarrow> 'a world \<Rightarrow> (string + string) \<times> 'a world" where
  "downloadTaskAsset sha D rawURL expectedHash w =
     (case parse_url D rawURL of
        None \<Rightarrow> (Inl ''invalid task download URL'', w)
      | Some endpoint \<Rightarrow>
          (if \<not> allowedTaskAssetURL endpoint then (Inl ''invalid task download URL'', w)
           else
             (case response D of
                None \<Rightarrow> (Inl ''request failed'', w)
              | Some (code, body, whole) \<Rightarrow>
                  (if code \<noteq> 200 then (Inl ''download returned'', w)
                   else
                     (case temp D of
                        None \<Rightarrow> (Inl ''create temporary file'', w)
                      | Some path \<Rightarrow>
                          (let content = take (2 ^ 31) body; w = w\<lparr>disk := mput path content (disk w)\<rparr> in
                           if \<not> whole \<or> \<not> closed_ok D then (Inl ''copy failed'', os_remove path w)
                           else if expectedHash = '''' \<or> hex_string (sha content) \<noteq> map lower_char expectedHash
                           then (Inl ''asset checksum mismatch'', os_remove path w)
                           else (Inr path, w)))))))"

text \<open>The package of an install task is first put on an ADB device, in its staging directory, and removed at the end.\<close>

definition install_asset :: "'a backend \<Rightarrow> download_env \<Rightarrow> string \<Rightarrow> 'a world \<Rightarrow> (string \<times> string option) \<times> 'a world" where
  "install_asset B D file w =
     (let install = (\<lambda>path w. case runCommand B ''pm'' [''install'', ''-r'', path] w of
            ((out0, e), w) \<Rightarrow> ((out0, map_option (\<lambda>_. ''pm'') e), w))
      in case bk_directory B of
           None \<Rightarrow> install file w
         | Some directory \<Rightarrow>
             (let path = directory @ ''/asset-'' @ show_nat (nanos D) @ ''.apk'' in
              case bk_commit B file path w of
                (False, w) \<Rightarrow> (('''', Some ''commit''), w)
              | (True, w) \<Rightarrow> (case install path w of (r, w) \<Rightarrow> (r, bk_remove B path w))))"

definition push_asset :: "'a backend \<Rightarrow> string \<Rightarrow> string \<Rightarrow> 'a world \<Rightarrow> (string \<times> string option) \<times> 'a world" where
  "push_asset B file dest w =
     (if \<not> IsAbs dest then (('''', Some ''destination path must be absolute''), w)
      else
        (case bk_mkdir B (Dir dest) True w of
           (False, w) \<Rightarrow> (('''', Some ''mkdir''), w)
         | (True, w) \<Rightarrow>
             (case bk_commit B file dest w of
                (False, w) \<Rightarrow> (('''', Some ''commit''), w)
              | (True, w) \<Rightarrow> ((''stored '' @ dest, None), w))))"

definition runTask ::
  "(byte list \<Rightarrow> byte list) \<Rightarrow> 'a backend \<Rightarrow> download_env \<Rightarrow> obj \<Rightarrow> 'a world \<Rightarrow> (string \<times> string option) \<times> 'a world" where
  "runTask sha B D task w =
     (let kind = stringField task ''type''; payload = stringField task ''payload'';
          command_result = (\<lambda>((out0, e), w). ((out0, map_option (\<lambda>_. ''command'') e), w))
      in if kind = ''shell'' then command_result (runCommand B ''sh'' [''-c'', payload] w)
         else if kind = ''open_app'' then
           command_result (runCommand B ''sh'' [''-c'', ''monkey -p '' @ [CHR 0x22] @ ''$1'' @ [CHR 0x22] @ '' 1'', ''scrcpycat-open'', payload] w)
         else if kind = ''uninstall'' then command_result (runCommand B ''pm'' [''uninstall'', payload] w)
         else if kind = ''install'' \<or> kind = ''push_file'' then
           (case downloadTaskAsset sha D (stringField task ''download_url'') (stringField task ''asset_sha256'') w of
              (Inl e, w) \<Rightarrow> (('''', Some e), w)
            | (Inr file, w) \<Rightarrow>
                (case (if kind = ''install'' then install_asset B D file w
                       else push_asset B file (stringField task ''dest_path'') w) of
                   (r, w) \<Rightarrow> (r, os_remove file w)))
         else (('''', Some ''unsupported task type''), w))"

definition executeTask ::
  "(byte list \<Rightarrow> byte list) \<Rightarrow> 'a backend \<Rightarrow> download_env \<Rightarrow> string \<Rightarrow> obj \<Rightarrow> 'a world \<Rightarrow> obj list \<times> 'a world" where
  "executeTask sha B D deviceID task w =
     (let taskID = stringField task ''task_id'' in
      if taskID = '''' then ([], w)
      else
        (case runTask sha B D task w of
           ((result, e), w) \<Rightarrow>
             ([[(''message_type'', AStr ''task_started''), (''task_id'', AStr taskID), (''device_id'', AStr deviceID)],
               [(''message_type'', AStr ''task_result''), (''task_id'', AStr taskID), (''device_id'', AStr deviceID),
                (''status'', AStr (if e = None then ''success'' else ''failed'')),
                (''result'', AStr (case e of Some msg \<Rightarrow> (if result = '''' then msg else result) | None \<Rightarrow> result))]], w)))"

section \<open>Screenshots\<close>

text \<open>\<open>base64.StdEncoding\<close>.\<close>

definition std_encode :: "byte list \<Rightarrow> string" where
  "std_encode bs =
     map (\<lambda>c. if c = CHR ''-'' then CHR ''+'' else if c = CHR ''_'' then CHR ''/'' else c) (b64url bs)
     @ replicate ((3 - length bs mod 3) mod 3) (CHR ''='')"

definition screenshot :: "'w executor \<Rightarrow> obj \<Rightarrow> 'w \<Rightarrow> obj \<times> 'w" where
  "screenshot ex message w =
     (case ex ''screencap'' [''-p''] w of
        ((pieces, e), w) \<Rightarrow>
          (let image = bo_buffer (fold (\<lambda>(err, data) b. if err then b else bounded_Write data b) pieces \<lparr>bo_buffer = [], bo_limit = 2 ^ 25\<rparr>) in
           ([(''message_type'', AStr ''screenshot_response''), (''client_id'', AStr (stringField message ''client_id'')),
             (case e of Some _ \<Rightarrow> (''error'', AStr ''screencap'') | None \<Rightarrow> (''data'', AStr (std_encode image)))], w)))"

section \<open>The two kinds of device\<close>

definition local_backend :: "('a world) executor \<Rightarrow> commit_env \<Rightarrow> bool \<Rightarrow> 'a backend" where
  "local_backend ex C made = \<lparr>bk_execute = ex, bk_mkdir = local_Mkdir made, bk_remove = os_remove,
     bk_commit = local_CommitUpload C, bk_directory = None\<rparr>"

definition adb_backend ::
  "('a world) executor \<Rightarrow> (byte list \<Rightarrow> string \<Rightarrow> 'a world \<Rightarrow> bool \<times> 'a world) \<Rightarrow> string \<Rightarrow> 'a backend" where
  "adb_backend ex push directory = \<lparr>bk_execute = ex, bk_mkdir = adb_made ex, bk_remove = (\<lambda>path w. snd (adb_Remove ex path w)),
     bk_commit = adb_CommitUpload ex push, bk_directory = Some directory\<rparr>"

text \<open>A device on which tasks run: its files keep the contract, and a file of the agent's disk is no other file of the device.\<close>

locale task_device = device_files "bk_commit B" "bk_mkdir B" "\<lambda>w. map_of (disk w)" stored ok
  for B :: "'a backend" and stored :: "'a world \<Rightarrow> string \<Rightarrow> byte list option" and ok :: "string \<Rightarrow> string \<Rightarrow> 'a world \<Rightarrow> bool" +
  assumes stored_put: "p \<noteq> f \<Longrightarrow> stored (w\<lparr>disk := mput f c (disk w)\<rparr>) p = stored w p"
    and stored_remove: "p \<noteq> f \<Longrightarrow> stored (os_remove f w) p = stored w p"
begin

lemma push_asset_stored:
  assumes "ok f dest w" "push_asset B f dest w = ((r, e), w')"
  shows "if e = None then map_of (disk w) f \<noteq> None \<and> stored w' dest = map_of (disk w) f else stored w' dest = stored w dest"
proof (cases "IsAbs dest")
  case True
  obtain b1 w1 where m: "bk_mkdir B (Dir dest) True w = (b1, w1)" by (metis prod.exhaust)
  obtain b2 w2 where c: "bk_commit B f dest w1 = (b2, w2)" by (metis prod.exhaust)
  have ok: "ok f dest w1" by (rule mkdir_ok [OF m assms(1)])
  have same: "map_of (disk w1) = map_of (disk w)" "stored w1 = stored w" by (rule mkdir_staged [OF m], rule mkdir_stored [OF m])
  from assms(2) True m c have "e = None \<and> b1 \<and> b2 \<and> w' = w2 \<or> e \<noteq> None \<and> (w' = w1 \<or> w' = w2 \<and> \<not> b2)"
    by (cases b1; cases b2) (auto simp: push_asset_def)
  then show ?thesis using commit_done [OF ok, of w2] commit_failed [OF ok, of w2] c same by auto
next
  case False
  with assms(2) show ?thesis by (auto simp: push_asset_def)
qed

text \<open>
  A file task that succeeds has put the contents in place whose hash the task named; one that
  fails has left the destination alone.
\<close>

lemma runTask_push:
  assumes "stringField task ''type'' = ''push_file''" "dest = stringField task ''dest_path''" "temp D = Some f" "f \<noteq> dest"
    and ok: "\<And>c. ok f dest (w\<lparr>disk := mput f c (disk w)\<rparr>)" and run: "runTask sha B D task w = ((r, e), w')"
  shows "if e = None then \<exists>content. stored w' dest = Some content \<and> hex_string (sha content) = map lower_char (stringField task ''asset_sha256'')
         else stored w' dest = stored w dest"
proof (cases "downloadTaskAsset sha D (stringField task ''download_url'') (stringField task ''asset_sha256'') w")
  case (Pair d w1)
  show ?thesis
  proof (cases d)
    case (Inl err)
    with Pair run assms(1) have "e = Some err" "w' = w1" by (auto simp: runTask_def)
    moreover from Pair Inl have "w1 = w \<or> (\<exists>c. w1 = os_remove f (w\<lparr>disk := mput f c (disk w)\<rparr>))"
      using assms(3) by (auto simp: downloadTaskAsset_def Let_def split: option.splits if_splits)
    ultimately show ?thesis using stored_put stored_remove \<open>f \<noteq> dest\<close> by auto
  next
    case (Inr g)
    from Pair Inr assms(3) obtain content where g: "g = f" and w1: "w1 = w\<lparr>disk := mput f content (disk w)\<rparr>"
      and hash: "hex_string (sha content) = map lower_char (stringField task ''asset_sha256'')"
      by (auto simp: downloadTaskAsset_def Let_def split: option.splits if_splits)
    obtain r2 e2 w2 where p: "push_asset B f dest w1 = ((r2, e2), w2)" by (metis prod.exhaust)
    with run Pair Inr g assms(1,2) have "e = e2" and w': "w' = os_remove f w2" by (auto simp: runTask_def)
    with push_asset_stored [OF ok [of content, folded w1] p] show ?thesis
      using hash stored_remove [of dest f w2] stored_put [of dest f content w] \<open>f \<noteq> dest\<close> unfolding w' w1 by auto
  qed
qed

end

lemma local_backend_simps [simp]:
  "bk_commit (local_backend ex C made) = local_CommitUpload C" "bk_mkdir (local_backend ex C made) = local_Mkdir made"
  by (simp_all add: local_backend_def)

lemma disk_frame: "p \<noteq> f \<Longrightarrow> map_of (disk (os_remove f w)) p = map_of (disk w) p"
  by (simp add: os_remove_def restrict_map_def)

interpretation local_tasks: task_device "local_backend ex C made" "\<lambda>w. map_of (disk w)" "fresh_temp C" for ex C made
  by (rule task_device.intro) (simp_all add: local_files.device_files_axioms task_device_axioms_def disk_frame)

lemma adb_task_device:
  assumes "android_ok ex push (\<lambda>w. phone (dev w))"
  shows "task_device (adb_backend ex push directory) (\<lambda>w. phone (dev w)) (\<lambda>s d w. other_name ex d)"
  by (rule task_device.intro) (simp_all add: adb_device_files [OF assms] adb_backend_def task_device_axioms_def os_remove_def)

lemma runTask_temp_gone:
  assumes "stringField task ''type'' = ''push_file''" "temp D = Some f" "map_of (disk w) f = None" "runTask sha B D task w = (r, w')"
  shows "map_of (disk w') f = None"
proof (cases "downloadTaskAsset sha D (stringField task ''download_url'') (stringField task ''asset_sha256'') w")
  case (Pair d w1)
  then show ?thesis using assms
    by (cases d) (auto simp: runTask_def downloadTaskAsset_def Let_def os_remove_def restrict_map_def split: option.splits if_splits prod.splits)
qed

text \<open>
  A file task reports success only if the destination now holds, whole, contents with the
  checksum that the control plane named; when it reports failure the destination is what it was.
  Either way the downloaded temporary file is gone and the report follows the start message.
\<close>

theorem pushed_file_verified:
  assumes "stringField task ''task_id'' = i" "i \<noteq> ''''" "stringField task ''type'' = ''push_file''" "dest = stringField task ''dest_path''"
    and "temp D = Some f" "f \<noteq> dest" "map_of (disk w) f = None"
    and "temp_name C = Some g" "g \<noteq> f" "g \<noteq> dest" "map_of (disk w) g = None"
  shows "\<exists>started report w'. executeTask sha (local_backend ex C made) D deviceID task w = ([started, report], w') \<and>
    stringField started ''message_type'' = ''task_started'' \<and> stringField report ''message_type'' = ''task_result'' \<and>
    stringField report ''task_id'' = i \<and> map_of (disk w') f = None \<and>
    (if stringField report ''status'' = ''success''
     then \<exists>content. map_of (disk w') dest = Some content \<and>
            hex_string (sha content) = map lower_char (stringField task ''asset_sha256'')
     else map_of (disk w') dest = map_of (disk w) dest)"
proof -
  obtain r e w' where run: "runTask sha (local_backend ex C made) D task w = ((r, e), w')" by (metis prod.exhaust)
  have "fresh_temp C f dest (w\<lparr>disk := mput f c (disk w)\<rparr>)" for c using assms by (simp add: fresh_temp_def)
  note local_tasks.runTask_push [OF assms(3-6) this run]
  then show ?thesis using run runTask_temp_gone [OF assms(3,5,7) run] assms(1,2)
    by (auto simp: executeTask_def stringField_def split: if_splits)
qed

definition demo_push_task :: obj where
  "demo_push_task = [(''task_id'', AStr ''t1''), (''type'', AStr ''push_file''), (''dest_path'', AStr ''/sdcard/a''),
     (''download_url'', AStr ''u''), (''asset_sha256'', AStr ''17'')]"

definition demo_download :: download_env where
  "demo_download = \<lparr>parse_url = (\<lambda>_. Some \<lparr>Scheme = ''https'', Hostname = ''h''\<rparr>), response = Some (200, [1, 2], True),
     temp = Some ''tmp'', closed_ok = True, nanos = 0\<rparr>"

definition demo_commit :: commit_env where
  "demo_commit = \<lparr>rename1 = CrossDevice, temp_name = Some ''up'', copying = \<lparr>opened = True, transferred = None, copy_closed = True\<rparr>,
     chmod_ok = True, rename2 = Accepted\<rparr>"

theorem pushed_file_verified_witness:
  "\<exists>started report. executeTask (\<lambda>_. [0x17]) (local_backend (\<lambda>_ _ w. (([], None), w)) demo_commit True) demo_download ''d'' demo_push_task
       \<lparr>disk = [(''/sdcard/a'', [9])], dev = ()\<rparr> = ([started, report], \<lparr>disk = [(''/sdcard/a'', [1, 2])], dev = ()\<rparr>) \<and>
     stringField report ''status'' = ''success'' \<and> stringField report ''task_id'' = ''t1'' \<and> hex_string [0x17] = ''17''"
proof -
  have run: "executeTask (\<lambda>_. [0x17]) (local_backend (\<lambda>_ _ w. (([], None), w)) demo_commit True) demo_download ''d'' demo_push_task
     \<lparr>disk = [(''/sdcard/a'', [9])], dev = ()\<rparr> =
     ([[(''message_type'', AStr ''task_started''), (''task_id'', AStr ''t1''), (''device_id'', AStr ''d'')],
       [(''message_type'', AStr ''task_result''), (''task_id'', AStr ''t1''), (''device_id'', AStr ''d''),
        (''status'', AStr ''success''), (''result'', AStr ''stored /sdcard/a'')]], \<lparr>disk = [(''/sdcard/a'', [1, 2])], dev = ()\<rparr>)"
    by (simp add: executeTask_def runTask_def demo_push_task_def demo_download_def demo_commit_def downloadTaskAsset_def push_asset_def
        stringField_def allowedTaskAssetURL_def local_Mkdir_def local_CommitUpload_def os_rename_def copyFile_def os_remove_def
        hex_string_def lower_char_def IsAbs_def Let_def)
  have "\<exists>started report w'. executeTask (\<lambda>_. [0x17]) (local_backend (\<lambda>_ _ w. (([], None), w)) demo_commit True) demo_download ''d'' demo_push_task
       \<lparr>disk = [(''/sdcard/a'', [9])], dev = ()\<rparr> = ([started, report], w') \<and>
     stringField started ''message_type'' = ''task_started'' \<and> stringField report ''message_type'' = ''task_result'' \<and>
     stringField report ''task_id'' = ''t1'' \<and> map_of (disk w') ''tmp'' = None \<and>
     (if stringField report ''status'' = ''success''
      then \<exists>content. map_of (disk w') ''/sdcard/a'' = Some content \<and> hex_string [0x17] = map lower_char (stringField demo_push_task ''asset_sha256'')
      else map_of (disk w') ''/sdcard/a'' = map_of (disk \<lparr>disk = [(''/sdcard/a'', [9])], dev = ()\<rparr>) ''/sdcard/a'')"
    by (rule pushed_file_verified [where g = "''up''"])
      (simp_all add: demo_push_task_def demo_download_def demo_commit_def stringField_def)
  then show ?thesis unfolding run by (simp add: stringField_def demo_push_task_def lower_char_def)
qed

section \<open>Plain downloads stay local\<close>

definition show_ip :: "byte \<Rightarrow> byte \<Rightarrow> byte \<Rightarrow> byte \<Rightarrow> string" where
  "show_ip a b c d = join_with ''.'' (map (show_nat \<circ> unat) [a, b, c, d])"

lemma high_nibble: "(b :: byte) AND 0xF0 = 16 \<longleftrightarrow> 16 \<le> b \<and> b \<le> 31"
proof -
  have "list_all (\<lambda>n. ((of_nat n :: byte) AND 0xF0 = 16) = (16 \<le> n \<and> n \<le> 31)) [0..<256]" by code_simp
  then have "((of_nat n :: byte) AND 0xF0 = 16) = (16 \<le> n \<and> n \<le> 31)" if "n < 256" for n
    using that by (simp add: list_all_iff)
  from this [of "unat b"] show ?thesis by (simp add: word_le_nat_alt)
qed

lemma show_nat_hd: "hd (show_nat n) = CHR ''0'' \<Longrightarrow> n = 0"
proof (induction n rule: show_nat.induct)
  case (1 n)
  show ?case
  proof (cases "n < 10")
    case True
    then have "char_of (48 + n) = CHR ''0''" using 1(2) by (subst (asm) show_nat.simps) simp
    then have "of_char (char_of (48 + n) :: char) = (48 :: nat)" by simp
    with True show ?thesis by (simp add: of_char_of)
  next
    case False
    then have "show_nat n = show_nat (n div 10) @ [char_of (48 + n mod 10)]" by (subst show_nat.simps) simp
    with 1(2) have "hd (show_nat (n div 10)) = CHR ''0''" by (simp add: show_nat_nonempty)
    with 1(1) False have "n div 10 = 0" by blast
    with False show ?thesis by simp
  qed
qed

lemma octet_show: "octet (show_nat (unat a)) = Some a"
proof -
  have "list_all (\<lambda>c. CHR ''0'' \<le> c \<and> c \<le> CHR ''9'') (show_nat n)" for n
    using show_nat_digits by (auto simp: list_all_iff)
  moreover have "length (show_nat (unat a)) \<le> 1" if "hd (show_nat (unat a)) = CHR ''0''"
    using show_nat_hd [OF that] by (simp add: show_nat.simps)
  moreover have "unat a \<le> 255" using unat_lt_256 [of a] by linarith
  ultimately show ?thesis by (auto simp: octet_def digits_val_show show_nat_nonempty not_less)
qed

lemma parseIPv4_show: "parseIPv4 (show_ip a b c d) = Some [a, b, c, d]"
proof -
  have "CHR ''.'' \<notin> set (show_nat n)" for n using show_nat_digits [of "CHR ''.''" n] by (auto simp: less_eq_char_def)
  then have "split_on (CHR ''.'') (show_ip a b c d) = map (show_nat \<circ> unat) [a, b, c, d]"
    unfolding show_ip_def by (intro split_on_join) auto
  then show ?thesis by (simp add: parseIPv4_def octet_show)
qed

lemma show_ip_chars: "x \<in> set (show_ip a b c d) \<Longrightarrow> x = CHR ''.'' \<or> CHR ''0'' \<le> x \<and> x \<le> CHR ''9''"
  using show_nat_digits by (fastforce simp: show_ip_def)

lemma show_ip_dot: "CHR ''.'' \<in> set (show_ip a b c d)"
  by (simp add: show_ip_def)

lemma ParseIP_show: "ParseIP (show_ip a b c d) = Some (replicate 10 0 @ [0xFF, 0xFF, a, b, c, d])"
proof -
  have p: "CHR ''%'' \<notin> set (show_ip a b c d)" "CHR '':'' \<notin> set (show_ip a b c d)"
    using show_ip_chars [of _ a b c d] by (force simp: less_eq_char_def)+
  obtain x xs where d: "dropWhile (\<lambda>c. c \<noteq> CHR ''.'' \<and> c \<noteq> CHR '':'') (show_ip a b c d) = x # xs"
    using show_ip_dot [of a b c d] by (cases "dropWhile (\<lambda>c. c \<noteq> CHR ''.'' \<and> c \<noteq> CHR '':'') (show_ip a b c d)") auto
  then have "x = CHR ''.'' \<or> x = CHR '':''" using hd_dropWhile [of "\<lambda>c. c \<noteq> CHR ''.'' \<and> c \<noteq> CHR '':''" "show_ip a b c d"] by auto
  moreover have "x \<in> set (show_ip a b c d)" using d by (metis list.set_intros(1) set_dropWhileD)
  ultimately have "x = CHR ''.''" using p(2) by auto
  then show ?thesis using d p(1) by (simp add: ParseIP_def parseIPv4_show)
qed

text \<open>
  An asset is downloaded without encryption from an address of version 4 only if the address is
  in the loopback, private or link-local ranges: 127/8, 10/8, 172.16/12, 192.168/16 and 169.254/16.
\<close>

theorem plain_downloads_local:
  "allowedTaskAssetURL \<lparr>Scheme = ''http'', Hostname = show_ip a b c d\<rparr> \<longleftrightarrow>
     a = 127 \<or> a = 10 \<or> (a = 172 \<and> 16 \<le> b \<and> b \<le> 31) \<or> (a = 192 \<and> b = 168) \<or> (a = 169 \<and> b = 254)"
proof -
  have "map lower_char (show_ip a b c d) = show_ip a b c d"
    using show_ip_chars [of _ a b c d] by (intro map_idI) (force simp: lower_char_def less_eq_char_def)
  moreover have "\<not> suffix ''.'' (show_ip a b c d)"
  proof -
    have "last (show_ip a b c d) = last (show_nat (unat d))" by (simp add: show_ip_def show_nat_nonempty)
    moreover have "last (show_nat (unat d)) \<in> set (show_nat (unat d))" by (simp add: show_nat_nonempty)
    ultimately have "CHR ''0'' \<le> last (show_ip a b c d)"
      using show_nat_digits [of "last (show_nat (unat d))" "unat d"] by simp
    then have "last (show_ip a b c d) \<noteq> CHR ''.''" by (auto simp: less_eq_char_def)
    then show ?thesis by (auto simp: suffix_def)
  qed
  moreover have "show_ip a b c d \<noteq> ''localhost''" using show_ip_dot [of a b c d] by auto
  moreover have "show_ip a b c d \<noteq> []" using show_ip_dot [of a b c d] by auto
  ultimately show ?thesis
    by (simp add: allowedTaskAssetURL_def trim_suffix_def ParseIP_show IsLoopback_def IsPrivate_def IsLinkLocalUnicast_def To4_def
        high_nibble)
qed

end
