(* ===== verification/Telemetry.thy ===== *)
theory Telemetry
  imports DeviceIO Float64
begin

text \<open>
  \<open>telemetry.go\<close>: the metrics of the device and the snapshots the agent sends while nobody watches.
  The files of the kernel and the output of \<open>dumpsys\<close> are texts, \<open>None\<close> when they could not be read.
  Counters are 64-bit words and wrap around; percentages and rates are \<open>float64\<close>. \<open>pf\<close> is
  \<open>strconv.ParseFloat\<close> on finite numbers. Decoding and encoding PNG belong to the standard library:
  of \<open>thumbnailPNG\<close> the model has the size check, the size of the thumbnail and which pixel
  of the picture each of its pixels shows.
\<close>

record metricSample =
  ms_at :: time
  cpuTotal :: "64 word"
  cpuIdle :: "64 word"
  received :: "64 word"
  sent :: "64 word"

definition no_sample :: metricSample where
  "no_sample = \<lparr>ms_at = 0, cpuTotal = 0, cpuIdle = 0, received = 0, sent = 0\<rparr>"

section \<open>Counters\<close>

text \<open>The columns after the name, at most eight of them; the fourth and fifth are idle time.\<close>

definition cpu_columns :: "string list \<Rightarrow> 64 word \<times> 64 word" where
  "cpu_columns columns =
     (let counts = map (\<lambda>v. fst (ParseUint 10 v)) (take 8 columns) in
      (sum_list counts, sum_list (map (\<lambda>i. if i < length counts then counts ! i else 0) [3, 4])))"

fun cpu_lines :: "string list \<Rightarrow> 64 word \<times> 64 word" where
  "cpu_lines [] = (0, 0)"
| "cpu_lines (line # lines) =
     (case Prelude.fields line of
        f # columns \<Rightarrow> (if length columns < 4 \<or> f \<noteq> ''cpu'' then cpu_lines lines else cpu_columns columns)
      | [] \<Rightarrow> cpu_lines lines)"

definition cpuCounters :: "string \<Rightarrow> 64 word \<times> 64 word" where
  "cpuCounters raw = cpu_lines (split_on (CHR 0x0A) raw)"

text \<open>\<open>strings.SplitN (line, ":", 2)\<close>: the parts before and after the first colon.\<close>

definition cut_colon :: "string \<Rightarrow> (string \<times> string) option" where
  "cut_colon line =
     (if CHR '':'' \<in> set line
      then Some (takeWhile (\<lambda>c. c \<noteq> CHR '':'') line, tl (dropWhile (\<lambda>c. c \<noteq> CHR '':'') line)) else None)"

definition network_line :: "string \<Rightarrow> 64 word \<times> 64 word \<Rightarrow> 64 word \<times> 64 word" where
  "network_line line totals =
     (case cut_colon line of
        None \<Rightarrow> totals
      | Some (name, rest) \<Rightarrow>
          (let fs = Prelude.fields rest in
           if trim_space name = ''lo'' \<or> length fs < 9 then totals
           else (fst totals + fst (ParseUint 10 (fs ! 0)), snd totals + fst (ParseUint 10 (fs ! 8)))))"

definition networkCounters :: "string \<Rightarrow> 64 word \<times> 64 word" where
  "networkCounters raw = fold network_line (split_on (CHR 0x0A) raw) (0, 0)"

definition numericLines :: "(string \<Rightarrow> rat option) \<Rightarrow> string \<Rightarrow> rat gomap" where
  "numericLines pf raw =
     fold (\<lambda>line values.
       case cut_colon line of
         None \<Rightarrow> values
       | Some (name, rest) \<Rightarrow>
           (case Prelude.fields rest of
              [] \<Rightarrow> values
            | f # _ \<Rightarrow> (case pf f of None \<Rightarrow> values | Some v \<Rightarrow> mput (trim_space name) v values)))
       (split_on (CHR 0x0A) raw) []"

section \<open>Metrics\<close>

record metric_env =
  me_now :: time
  proc_stat :: "string option"
  meminfo :: "string option"
  disk_usage :: "diskUsage option"
  net_dev :: "string option"
  battery :: "string option"

definition fl_word :: "64 word \<Rightarrow> rat" where
  "fl_word w = fl (of_nat (unat w))"

definition cpu_metric :: "metricSample \<Rightarrow> metricSample \<Rightarrow> obj" where
  "cpu_metric previous current =
     (if 0 < cpuTotal previous \<and> cpuTotal previous < cpuTotal current \<and> cpuIdle previous \<le> cpuIdle current
      then (let total = cpuTotal current - cpuTotal previous; idle = cpuIdle current - cpuIdle previous
            in [(''cpu'', AFloat (fl (100 * fl (1 - min (fl (fl_word idle / fl_word total)) 1))))])
      else [])"

definition value_or_0 :: "rat gomap \<Rightarrow> string \<Rightarrow> rat" where
  "value_or_0 m k = (case map_of m k of None \<Rightarrow> 0 | Some v \<Rightarrow> v)"

definition memory_metric :: "rat gomap \<Rightarrow> obj" where
  "memory_metric values =
     (let total = value_or_0 values ''MemTotal''; available = value_or_0 values ''MemAvailable'';
          available = (if available = 0
                       then fl (fl (value_or_0 values ''MemFree'' + value_or_0 values ''Buffers'') + value_or_0 values ''Cached'')
                       else available)
      in if 0 < total
         then [(''memory_percent'', AFloat (fl (100 * fl (1 - fl (available / total))))),
               (''memory_total'', AFloat (fl (total * 1024))), (''memory_used'', AFloat (fl (fl (total - available) * 1024)))]
         else [])"

definition disk_metric :: "diskUsage \<Rightarrow> obj" where
  "disk_metric u =
     (if 0 < blocks u
      then [(''disk_percent'', AFloat (fl (100 * fl (1 - fl (fl_word (available u) / fl_word (blocks u)))))),
            (''disk_total'', AFloat (fl (fl_word (blocks u) * fl_word (blockSize u)))),
            (''disk_used'', AFloat (fl (fl_word (blocks u - available u) * fl_word (blockSize u))))]
      else [])"

definition network_metric :: "metricSample \<Rightarrow> metricSample \<Rightarrow> obj" where
  "network_metric previous current =
     (let elapsed = duration_seconds (time_sub (ms_at current) (ms_at previous)) in
      if \<not> is_zero (ms_at previous) \<and> 0 < elapsed \<and> received previous \<le> received current \<and> sent previous \<le> sent current
      then [(''download_speed'', AFloat (fl (fl (fl_word (received current - received previous) / elapsed) / 1024))),
            (''upload_speed'', AFloat (fl (fl (fl_word (sent current - sent previous) / elapsed) / 1024)))]
      else [])"

definition battery_metric :: "rat gomap \<Rightarrow> obj" where
  "battery_metric values =
     (case map_of values ''temperature'' of Some v \<Rightarrow> [(''temperature'', AFloat (fl (v / 10)))] | None \<Rightarrow> []) @
     (case map_of values ''level'' of Some v \<Rightarrow> [(''battery'', AFloat v)] | None \<Rightarrow> [])"

text \<open>\<open>format_time\<close> is the RFC 3339 form of the time.\<close>

definition collectMetrics ::
  "(string \<Rightarrow> rat option) \<Rightarrow> (time \<Rightarrow> string) \<Rightarrow> metric_env \<Rightarrow> metricSample \<Rightarrow> obj \<times> metricSample" where
  "collectMetrics pf format_time M previous =
     (let current = no_sample\<lparr>ms_at := me_now M\<rparr>;
          (cpu, current) =
            (case proc_stat M of
               None \<Rightarrow> ([], current)
             | Some raw \<Rightarrow>
                 (let current = current\<lparr>cpuTotal := fst (cpuCounters raw), cpuIdle := snd (cpuCounters raw)\<rparr>
                  in (cpu_metric previous current, current)));
          memory = (case meminfo M of None \<Rightarrow> [] | Some raw \<Rightarrow> memory_metric (numericLines pf raw));
          storage = (case disk_usage M of None \<Rightarrow> [] | Some u \<Rightarrow> disk_metric u);
          (network, current) =
            (case net_dev M of
               None \<Rightarrow> ([], current)
             | Some raw \<Rightarrow>
                 (let current = current\<lparr>received := fst (networkCounters raw), sent := snd (networkCounters raw)\<rparr>
                  in (network_metric previous current, current)));
          power = (case battery M of None \<Rightarrow> [] | Some raw \<Rightarrow> battery_metric (numericLines pf raw))
      in ([(''timestamp'', AStr (format_time (me_now M))), (''network_speed_unit'', AStr ''KiB/s'')]
            @ cpu @ memory @ storage @ network @ power, current))"

section \<open>Snapshots\<close>

text \<open>The size of the thumbnail of a picture of the given size, if the picture is accepted.\<close>

definition thumbnail_size :: "int \<Rightarrow> int \<Rightarrow> int \<Rightarrow> (int \<times> int) option" where
  "thumbnail_size maxSize width height =
     (if width \<le> 0 \<or> height \<le> 0 \<or> 16384 < width \<or> 16384 < height \<or> 32000000 < width * height then None
      else if maxSize < width \<or> maxSize < height then
        (let ratio = fl (fl (of_int maxSize) / fl (of_int (max width height))) in
         Some (max 1 (trunc_rat (fl (fl (of_int width) * ratio))), max 1 (trunc_rat (fl (fl (of_int height) * ratio)))))
      else Some (width, height))"

text \<open>The pixel of the picture that a pixel of the thumbnail shows.\<close>

definition source_pixel :: "int \<Rightarrow> int \<Rightarrow> int \<Rightarrow> int \<Rightarrow> int \<Rightarrow> int \<Rightarrow> int \<times> int" where
  "source_pixel width height w h x y = (trunc_div (x * width) w, trunc_div (y * height) h)"

definition setSnapshotInterval :: "obj \<Rightarrow> int \<Rightarrow> int" where
  "setSnapshotInterval settings interval =
     (case (case map_of settings ''snapshotInterval'' of None \<Rightarrow> map_of settings ''snapshot_interval'' | Some v \<Rightarrow> Some v) of
        Some (AFloat q) \<Rightarrow> (if - 1 \<le> q \<and> q \<le> 3600 \<and> q = fl (of_int (trunc_rat q)) then trunc_rat q else interval)
      | _ \<Rightarrow> interval)"

record telemetry =
  previous_sample :: metricSample
  lastSnapshot :: time
  nextMetrics :: time

text \<open>
  One turn of \<open>reportTelemetry\<close> after a tick. The clock is read four times, \<open>clock 0\<close> to \<open>clock 3\<close>;
  \<open>watched\<close> says that there are viewers or a preview. \<open>capture\<close> is the PNG that the device gives and its thumbnail.
\<close>

definition telemetry_turn ::
  "(string \<Rightarrow> rat option) \<Rightarrow> (time \<Rightarrow> string) \<Rightarrow> (nat \<Rightarrow> time) \<Rightarrow> metric_env \<Rightarrow> int \<Rightarrow> bool \<Rightarrow> string option \<Rightarrow> telemetry \<Rightarrow> obj list \<times> bool \<times> telemetry" where
  "telemetry_turn pf format_time clock M interval watched capture st =
     (let (metrics, st) =
        (if clock 0 < nextMetrics st then ([], st)
         else
           (case collectMetrics pf format_time M (previous_sample st) of
              (m, sample) \<Rightarrow> ([[(''message_type'', AStr ''device_metrics''), (''metrics'', AObj m)]],
                              st\<lparr>previous_sample := sample, nextMetrics := clock 1 + 5 * 1000000000\<rparr>)))
      in if interval < 0 \<or> time_sub (clock 2) (lastSnapshot st) < seconds (max interval 1) \<or> watched then (metrics, False, st)
         else
           (metrics @ (case capture of
              None \<Rightarrow> [] | Some data \<Rightarrow> [[(''message_type'', AStr ''snapshot_update''), (''data'', AStr data)]]),
            True, st\<lparr>lastSnapshot := clock 3\<rparr>))"

section \<open>Bounds\<close>

text \<open>
  The processor load that the agent reports is a percentage: between 0 and 100, whatever the
  counters of the kernel are, also when they have wrapped around or went backwards, in which case
  no load is reported.
\<close>

theorem cpu_load_percentage:
  assumes "map_of (fst (collectMetrics pf format_time M previous)) ''cpu'' = Some v"
  shows "\<exists>q. v = AFloat q \<and> 0 \<le> q \<and> q \<le> 100"
proof -
  have "map_of (memory_metric m) ''cpu'' = None" "map_of (disk_metric u) ''cpu'' = None" "map_of (network_metric s t) ''cpu'' = None"
    "map_of (battery_metric m) ''cpu'' = None" for m u s t
    by (simp_all add: memory_metric_def disk_metric_def network_metric_def battery_metric_def Let_def split: option.split)
  then obtain p c where "map_of (cpu_metric p c) ''cpu'' = Some v"
    using assms by (auto simp: collectMetrics_def Let_def map_of_append map_add_def split: option.splits)
  then obtain i t where v0: "v = AFloat (fl (100 * fl (1 - min (fl (fl_word i / fl_word t)) 1)))"
    by (auto simp: cpu_metric_def Let_def split: if_splits)
  define m where "m = fl_word i / fl_word t"
  have v: "v = AFloat (fl (100 * fl (1 - min (fl m) 1)))" using v0 by (simp add: m_def)
  have m: "0 \<le> m" unfolding m_def fl_word_def by (intro divide_nonneg_nonneg fl_nonneg of_nat_0_le_iff)
  have "0 \<le> fl m" by (rule fl_nonneg [OF m])
  then have "0 \<le> fl (1 - min (fl m) 1) \<and> fl (1 - min (fl m) 1) \<le> 1" by (intro fl_unit) auto
  then have "0 \<le> fl (100 * fl (1 - min (fl m) 1)) \<and> fl (100 * fl (1 - min (fl m) 1)) \<le> of_int 100"
    by (intro fl_between) auto
  then show ?thesis using v by simp
qed

theorem cpu_load_percentage_witness:
  "\<exists>q. map_of (fst (collectMetrics (\<lambda>_. None) (\<lambda>_. ''t'') \<lparr>me_now = 0, proc_stat = Some ''cpu 3 0 3 4'', meminfo = None, disk_usage = None,
     net_dev = None, battery = None\<rparr> (no_sample\<lparr>cpuTotal := 6, cpuIdle := 3\<rparr>))) ''cpu'' = Some (AFloat q) \<and> 0 \<le> q \<and> q \<le> 100"
proof -
  have "Prelude.fields ''cpu 3 0 3 4'' = [''cpu'', ''3'', ''0'', ''3'', ''4'']" by code_simp
  moreover have "ParseUint 10 ''3'' = (3, True)" "ParseUint 10 ''0'' = (0, True)" "ParseUint 10 ''4'' = (4, True)"
    by (simp_all add: ParseUint_def digit_value_def)
  ultimately have "cpuCounters ''cpu 3 0 3 4'' = (10, 4)"
    by (simp add: cpuCounters_def cpu_columns_def nth_Cons')
  then have "\<exists>q. map_of (fst (collectMetrics (\<lambda>_. None) (\<lambda>_. ''t'') \<lparr>me_now = 0, proc_stat = Some ''cpu 3 0 3 4'', meminfo = None,
     disk_usage = None, net_dev = None, battery = None\<rparr> (no_sample\<lparr>cpuTotal := 6, cpuIdle := 3\<rparr>))) ''cpu'' = Some (AFloat q)"
    by (simp add: collectMetrics_def cpu_metric_def Let_def no_sample_def)
  then show ?thesis using cpu_load_percentage by fastforce
qed

lemma pixel_in_range: "0 \<le> x \<Longrightarrow> x < w \<Longrightarrow> 0 < width \<Longrightarrow> 0 \<le> trunc_div (x * width) w \<and> trunc_div (x * width) w < width"
proof -
  assume x: "0 \<le> x" "x < w" "0 < width"
  then have xw: "x * width < width * w" by (simp add: mult.commute)
  have "x * width div w < width"
  proof (rule ccontr)
    assume "\<not> x * width div w < width"
    then have "width * w \<le> x * width div w * w" using x by (intro mult_right_mono) auto
    also have "\<dots> \<le> x * width" using x minus_mod_eq_div_mult [of "x * width" w, symmetric] by simp
    finally show False using xw by simp
  qed
  moreover have "0 \<le> x * width div w" using x by (simp add: pos_imp_zdiv_nonneg_iff)
  moreover have "trunc_div (x * width) w = x * width div w"
    using x by (cases "x = 0") (simp_all add: trunc_div_def abs_mult)
  ultimately show ?thesis by simp
qed

lemma scaled_size:
  assumes "0 < w" "w \<le> m" "m \<le> 16384" "0 < s" "s < m"
  shows "trunc_rat (fl (fl (of_int w) * fl (fl (of_int s) / fl (of_int m)))) \<le> s"
proof -
  define e :: rat where "e = exp2 (-52)"
  define r where "r = fl (of_int s / of_int m)"
  have e: "e = 1 / 4503599627370496" by (simp add: e_def exp2_def)
  have exact: "fl (of_int n) = of_int n" if "0 < n" "n \<le> 16384" for n using that by (intro fl_int) auto
  have tiny: "exp2 (-1022) \<le> 1 / 16384" using exp2_mono [of "-1022" "-14"] by (simp add: exp2_def [of "-14"])
  have "1 / 16384 \<le> (of_int s / of_int m :: rat)" using assms by (intro frac_le) auto
  then have "r \<le> of_int s / of_int m * (1 + e)" unfolding r_def e_def using tiny by (intro fl_relative) linarith
  then have "of_int w * r \<le> of_int m * (of_int s / of_int m * (1 + e))" using assms fl_nonneg [of "of_int s / of_int m"]
    by (intro mult_mono) (auto simp: r_def)
  also have "\<dots> = of_int s * (1 + e)" using assms by simp
  finally have wr: "of_int w * r \<le> of_int s * (1 + e)" .
  have "fl (of_int w * r) < of_int s + 1"
  proof (cases "exp2 (-1022) \<le> of_int w * r")
    case True
    have "fl (of_int w * r) \<le> of_int w * r * (1 + e)" unfolding e_def by (rule fl_relative [OF True])
    also have "\<dots> \<le> of_int s * (1 + e) * (1 + e)" using wr by (intro mult_right_mono) (auto simp: e)
    also have "\<dots> = of_int s + of_int s * (2 * e + e * e)" by (simp add: algebra_simps)
    also have "of_int s * (2 * e + e * e) \<le> 16384 * (2 * e + e * e)" using assms by (intro mult_right_mono) (auto simp: e)
    also have "16384 * (2 * e + e * e) < 1" by (simp add: e)
    finally show ?thesis by simp
  next
    case False
    have "0 \<le> of_int w * r" using assms fl_nonneg [of "of_int s / of_int m"] by (simp add: r_def)
    then have "fl (of_int w * r) \<le> of_int 1" using False tiny by (intro fl_le_int) auto
    then show ?thesis using assms by simp
  qed
  then have "\<lfloor>fl (of_int w * r)\<rfloor> \<le> s" by (simp add: floor_le_iff)
  moreover have "0 \<le> fl (of_int w * r)" using assms fl_nonneg [of "of_int s / of_int m"] by (intro fl_nonneg) (simp add: r_def)
  ultimately show ?thesis using assms exact [of w] exact [of s] exact [of m] by (simp add: trunc_rat_def r_def)
qed

text \<open>
  A thumbnail fits the size it is limited to, in spite of the rounding of the scale factor, has at
  least one pixel in each direction, and each of its pixels is taken from inside the picture.
\<close>

theorem thumbnail_fits:
  assumes "0 < maxSize" "maxSize < 16384" "thumbnail_size maxSize width height = Some (w, h)"
  shows "1 \<le> w \<and> w \<le> maxSize \<and> 1 \<le> h \<and> h \<le> maxSize \<and>
    (\<forall>x y. 0 \<le> x \<and> x < w \<and> 0 \<le> y \<and> y < h \<longrightarrow>
       (case source_pixel width height w h x y of (sx, sy) \<Rightarrow> 0 \<le> sx \<and> sx < width \<and> 0 \<le> sy \<and> sy < height))"
proof -
  have dims: "0 < width" "0 < height" "width \<le> 16384" "height \<le> 16384"
    using assms(3) by (auto simp: thumbnail_size_def split: if_splits)
  have "1 \<le> w \<and> w \<le> maxSize \<and> 1 \<le> h \<and> h \<le> maxSize"
  proof (cases "maxSize < width \<or> maxSize < height")
    case True
    then have m: "maxSize < max width height" "max width height \<le> 16384" using dims by auto
    have "w = max 1 (trunc_rat (fl (fl (of_int width) * fl (fl (of_int maxSize) / fl (of_int (max width height))))))"
      "h = max 1 (trunc_rat (fl (fl (of_int height) * fl (fl (of_int maxSize) / fl (of_int (max width height))))))"
      using assms(3) True by (auto simp: thumbnail_size_def Let_def split: if_splits)
    then show ?thesis
      using scaled_size [OF dims(1) _ m(2) assms(1) m(1)] scaled_size [OF dims(2) _ m(2) assms(1) m(1)] assms(1) by simp
  next
    case False
    then show ?thesis using assms(3) dims by (auto simp: thumbnail_size_def split: if_splits)
  qed
  then show ?thesis using dims by (auto simp: source_pixel_def pixel_in_range)
qed

theorem thumbnail_fits_witness:
  "thumbnail_size 4 16 8 = Some (4, 2) \<and> source_pixel 16 8 4 2 3 1 = (12, 4) \<and> (12 :: int) < 16 \<and> (4 :: int) < 8"
proof -
  have size: "thumbnail_size 4 16 8 = Some (4, 2)" by code_simp
  moreover have "source_pixel 16 8 4 2 3 1 = (12, 4)" by code_simp
  moreover have "case source_pixel 16 8 4 2 3 1 of (sx, sy) \<Rightarrow> 0 \<le> sx \<and> sx < 16 \<and> 0 \<le> sy \<and> sy < (8 :: int)"
    using thumbnail_fits [OF _ _ size] by auto
  ultimately show ?thesis by simp
qed

end
