(* ===== verification/Agent.thy ===== *)
theory Agent
  imports AgentOps Telemetry Viewers Terminal
begin

text \<open>
  \<open>agent.go\<close> and \<open>process.go\<close>: the configuration of the agent, its identity, one connection to the
  control plane with the handling of every message, and the loop that reconnects. The state \<open>agent\<close>
  puts together the media manager with its two bridges, the terminals and the file manager; the
  goroutines for screenshots, commands and tasks are results of the handler (\<open>Spawn\<close>) and modelled in
  \<open>AgentOps\<close>. JSON values are \<open>any\<close>; the identity file is the token in it. What the world
  outside answers to one message is the record \<open>agent_env\<close>.
\<close>

section \<open>Configuration\<close>

record agent_config =
  ADBSerial :: string
  ADBServer :: string
  ag_DeviceID :: string
  SignalingURL :: string
  ag_EnrollmentToken :: string
  IdentityPath :: string
  PIDPath :: string
  ScrcpyJar :: string
  ScrcpyVersion :: string
  HealthCheck :: bool

definition or_else :: "string \<Rightarrow> string \<Rightarrow> string" where
  "or_else v fallback = (if v = '''' then fallback else v)"

definition state_dir :: "(string \<Rightarrow> byte list) \<Rightarrow> string \<Rightarrow> string" where
  "state_dir sha serial = ''/var/lib/scrcpycat/agent/'' @ hex_string (take 16 (sha serial))"

definition ResolveDefaults :: "(string \<Rightarrow> byte list) \<Rightarrow> agent_config \<Rightarrow> agent_config" where
  "ResolveDefaults sha c =
     (let c = c\<lparr>ADBServer := or_else (ADBServer c) ''127.0.0.1:5037'', ScrcpyVersion := or_else (ScrcpyVersion c) ''4.1''\<rparr> in
      if ADBSerial c = '''' then
        c\<lparr>IdentityPath := or_else (IdentityPath c) ''/data/local/tmp/scrcpycat-agent.identity'',
          PIDPath := or_else (PIDPath c) ''/data/local/tmp/scrcpycat-agent.pid'',
          ScrcpyJar := or_else (ScrcpyJar c) ''/data/local/tmp/scrcpy-server.jar''\<rparr>
      else
        c\<lparr>ag_DeviceID := or_else (ag_DeviceID c) (ADBSerial c),
          IdentityPath := or_else (IdentityPath c) (Join (state_dir sha (ADBSerial c)) ''identity.json''),
          PIDPath := or_else (PIDPath c) (Join (state_dir sha (ADBSerial c)) ''agent.pid''),
          ScrcpyJar := or_else (ScrcpyJar c) ''/opt/scrcpycat/scrcpy/scrcpy-server''\<rparr>)"

definition Validate :: "agent_config \<Rightarrow> string option" where
  "Validate c =
     (if trim_space (ag_DeviceID c) = '''' then Some ''--device-id is required''
      else if \<not> prefix ''ws://'' (SignalingURL c) \<and> \<not> prefix ''wss://'' (SignalingURL c) then Some ''--signaling must use ws:// or wss://''
      else if IdentityPath c = '''' then Some ''--identity-file is required''
      else if PIDPath c = '''' then Some ''--pid-file is required''
      else None)"

section \<open>The instance lock\<close>

text \<open>
  The files around one PID path: the lock, held by a process or free, and the recorded PID.
  \<open>isAgentProcess\<close> compares the executable of a process, as \<open>/proc\<close> shows it, with its own.
\<close>

record instance_files =
  lock_holder :: "nat option"
  pid_text :: "string option"

definition isAgentProcess :: "string option \<Rightarrow> (nat \<Rightarrow> string option) \<Rightarrow> string \<Rightarrow> bool" where
  "isAgentProcess self exe rawPID =
     (case atoi rawPID of
        None \<Rightarrow> False
      | Some pid \<Rightarrow>
          (if pid < 2 then False
           else
             (case (self, exe (nat pid)) of
                (Some self, Some other) \<Rightarrow> trim_suffix '' (deleted)'' other = trim_suffix '' (deleted)'' self
              | _ \<Rightarrow> False)))"

definition acquireInstance :: "bool \<Rightarrow> nat \<Rightarrow> instance_files \<Rightarrow> bool \<times> instance_files" where
  "acquireInstance writable me f =
     (if lock_holder f \<noteq> None \<or> \<not> writable then (False, f)
      else (True, f\<lparr>lock_holder := Some me, pid_text := Some (show_nat me @ [CHR 0x0A])\<rparr>))"

definition releaseInstance :: "nat \<Rightarrow> instance_files \<Rightarrow> instance_files" where
  "releaseInstance me f =
     (let f = (case pid_text f of
                 Some t \<Rightarrow> (if trim_space t = show_nat me then f\<lparr>pid_text := None\<rparr> else f)
               | None \<Rightarrow> f)
      in f\<lparr>lock_holder := None\<rparr>)"

definition Healthy :: "bool \<Rightarrow> string option \<Rightarrow> string option \<Rightarrow> (nat \<Rightarrow> string option) \<Rightarrow> instance_files \<Rightarrow> bool" where
  "Healthy jar token self exe f \<longleftrightarrow>
     jar \<and> token \<noteq> None \<and> (case pid_text f of None \<Rightarrow> False | Some t \<Rightarrow> isAgentProcess self exe (trim_space t))"

section \<open>State\<close>

record 'c agent =
  ag_media :: "'c media"
  ag_terms :: terminals
  ag_files :: files_mgr
  previewActive :: bool
  snapshotInterval :: int
  ag_identity :: "string option"
  ag_ice :: "any option"

datatype agent_error = ErrAuthentication | ErrAgentQuit | AgentError string

datatype agent_out = Sent obj | Spawn string obj | DeviceCalls "device_action list"

text \<open>
  The answers to one message: of the capture and the WebRTC library, of the identity file, of the
  socket, of the file operations, the staging file and its move, and whether a terminal could be opened, ICE
  servers decode and the connection is being cancelled. \<open>oor\<close>, \<open>oor32\<close> and \<open>oor_int\<close> are what Go's
  conversions give for numbers that do not fit.
\<close>

record 'c agent_env =
  ae_oor :: "64 word"
  ae_oor32 :: "32 word"
  ae_oor_int :: int
  ae_media :: "'c media_env"
  ae_saved :: bool
  ae_written :: bool
  ae_files :: files_env
  ae_chunk :: "nat \<times> bool \<times> bool"
  ae_moved :: bool
  ae_opened :: bool
  ae_ice_ok :: "any option \<Rightarrow> bool"
  ae_cancelled :: bool

definition numberField :: "int \<Rightarrow> obj \<Rightarrow> string \<Rightarrow> int \<Rightarrow> int" where
  "numberField oor_int msg key fallback =
     (case map_of msg key of
        Some (AFloat q) \<Rightarrow> (if 0 < q then (if q < 2 ^ 63 then trunc_rat q else oor_int) else fallback)
      | _ \<Rightarrow> fallback)"

definition sensor_types :: "string list" where
  "sensor_types = [''accel'', ''gyro'', ''light'', ''temp'', ''proximity'', ''hinge_angle'']"

definition injectionCapability :: "obj \<Rightarrow> string" where
  "injectionCapability msg =
     (let channel = stringField msg ''channel''; kind = stringField (obj_of (map_of msg ''payload'')) ''type'' in
      if channel = ''gps'' then ''gps_injection''
      else if channel = ''sensor'' then ''sensor_injection''
      else if channel = ''camera'' then ''camera_injection''
      else if kind = ''gps'' then ''gps_injection''
      else if kind \<in> set sensor_types then ''sensor_injection''
      else '''')"

definition loadIdentity :: "string option \<Rightarrow> string option" where
  "loadIdentity file = (case file of Some token \<Rightarrow> (if token = '''' then None else Some token) | None \<Rightarrow> None)"

definition saveIdentity :: "bool \<Rightarrow> string \<Rightarrow> string option \<Rightarrow> bool \<times> string option" where
  "saveIdentity saved token file = (if saved then (True, Some token) else (False, file))"

section \<open>Messages\<close>

definition stream_error :: "obj \<Rightarrow> string \<Rightarrow> agent_out list" where
  "stream_error msg err =
     [Sent [(''message_type'', AStr ''device_msg''), (''client_id'', AStr (stringField msg ''client_id'')),
       (''payload'', AObj [(''type'', AStr ''scrcpy_error''), (''message'', AStr err)])]]"

text \<open>An event for the display: the capture is started if there is none, then the event is queued.\<close>

definition inject_event :: "'c agent_env \<Rightarrow> obj \<Rightarrow> 'c agent \<Rightarrow> agent_error option \<times> 'c agent" where
  "inject_event E event a =
     (case Start (cap (ae_media E) 0) (adb (ae_media E)) (no_options\<lparr>Preview := True\<rparr>) (displayBridge (ag_media a)) of
        (Some err, _, b) \<Rightarrow> (Some (AgentError err), a\<lparr>ag_media := (ag_media a)\<lparr>displayBridge := b\<rparr>\<rparr>)
      | (None, _, b) \<Rightarrow>
          (case EnqueueControl (ae_oor E) (ae_oor32 E) event b of
             (ok, b) \<Rightarrow> ((if ok then None else Some (AgentError ''control queue is full'')),
                         a\<lparr>ag_media := (ag_media a)\<lparr>displayBridge := b\<rparr>\<rparr>)))"

definition start_preview :: "'c agent_env \<Rightarrow> obj \<Rightarrow> 'c agent \<Rightarrow> agent_error option \<times> agent_out list \<times> 'c agent" where
  "start_preview E msg a =
     (case parseStreamOptions (ae_oor E) msg True of
        Inl _ \<Rightarrow> (Some (AgentError ''options''), stream_error msg ''options'', a)
      | Inr options \<Rightarrow>
          (let a = a\<lparr>snapshotInterval := setSnapshotInterval msg (snapshotInterval a)\<rparr> in
           case Viewers.StartPreview (ae_oor E) (ae_media E) options (ag_media a) of
             (False, md) \<Rightarrow> (Some (AgentError ''preview''), stream_error msg ''preview'', a\<lparr>ag_media := md, previewActive := False\<rparr>)
           | (True, md) \<Rightarrow>
               (case EnqueueControl (ae_oor E) (ae_oor32 E) [(''type'', AStr ''request_keyframe'')] (displayBridge md) of
                  (ok, b) \<Rightarrow> ((if ok then None else Some (AgentError ''control queue is full'')), [],
                              a\<lparr>ag_media := md\<lparr>displayBridge := b\<rparr>, previewActive := True\<rparr>))))"

definition client_gone :: "'c agent_env \<Rightarrow> string \<Rightarrow> 'c agent \<Rightarrow> 'c agent" where
  "client_gone E clientID a =
     a\<lparr>ag_terms := term_CloseClient clientID (ag_terms a), ag_files := files_CloseClient clientID (ag_files a),
       ag_media := StopIdle (ae_oor E) (ae_cancelled E) (ae_media E) (media_CloseSession clientID (ag_media a))\<rparr>"

definition agent_forward :: "'c agent_env \<Rightarrow> obj \<Rightarrow> 'c agent \<Rightarrow> agent_error option \<times> agent_out list \<times> 'c agent" where
  "agent_forward E msg a =
     (let a = (case objField msg ''payload'' of
                 Some payload \<Rightarrow>
                   (if stringField payload ''type'' = ''request-offer''
                    then a\<lparr>snapshotInterval := setSnapshotInterval (obj_of (map_of payload ''scrcpy_options'')) (snapshotInterval a)\<rparr>
                    else a)
               | None \<Rightarrow> a)
      in case media_HandleForward (ae_oor E) (ae_media E) msg (ag_media a) of
           (None, md) \<Rightarrow> (None, [], a\<lparr>ag_media := md\<rparr>)
         | (Some _, md) \<Rightarrow> (Some (AgentError ''forward''), stream_error msg ''forward'', a\<lparr>ag_media := md\<rparr>))"

definition inject_data :: "'c agent_env \<Rightarrow> string \<Rightarrow> obj \<Rightarrow> 'c agent \<Rightarrow> agent_error option \<times> agent_out list \<times> 'c agent" where
  "inject_data E deviceID msg a =
     (let capability = injectionCapability msg in
      if capability \<noteq> '''' then
        ((if ae_written E then None else Some (AgentError ''write'')),
         [Sent [(''message_type'', AStr ''capability_error''), (''client_id'', AStr (stringField msg ''client_id'')),
            (''device_id'', AStr deviceID), (''capability'', AStr capability), (''supported'', ABool False),
            (''error'', AStr (''Agent does not support '' @ capability))]], a)
      else
        (case objField msg ''payload'' of
           None \<Rightarrow> (None, [], a)
         | Some event \<Rightarrow>
             (if \<not> browserControlAllowed event
              then (Some (AgentError ''unsupported injection event''), stream_error msg ''unsupported injection event'', a)
              else (case inject_event E event a of (e, a) \<Rightarrow> (e, [], a)))))"

definition pty_event :: "string \<Rightarrow> string \<Rightarrow> string \<Rightarrow> string \<Rightarrow> agent_out" where
  "pty_event clientID sessionID kind err =
     Sent [(''message_type'', AStr kind), (''client_id'', AStr clientID), (''session_id'', AStr sessionID), (''error'', AStr err)]"

definition uint16Number :: "'c agent_env \<Rightarrow> obj \<Rightarrow> string \<Rightarrow> int \<Rightarrow> 16 word" where
  "uint16Number E msg key fallback = of_int (numberField (ae_oor_int E) msg key fallback)"

text \<open>
  The message loop runs both halves of \<open>Chunk\<close> before it takes the next message, and an empty upload is
  finished at once.
\<close>

definition files_Chunk :: "(byte list \<Rightarrow> byte list) \<Rightarrow> 'c agent_env \<Rightarrow> string \<Rightarrow> byte list \<Rightarrow> files_mgr \<Rightarrow> files_mgr" where
  "files_Chunk sha E clientID data m =
     (case ae_chunk E of (cnt, written, synced) \<Rightarrow>
        (case chunk_write sha cnt written synced clientID data m of
           (Some ack, m) \<Rightarrow> (if ak_finished ack then snd (chunk_commit (ae_moved E) (hd (fm_pending m)) m) else m)
         | (None, m) \<Rightarrow> m))"

definition files_Run :: "(byte list \<Rightarrow> byte list) \<Rightarrow> 'c agent_env \<Rightarrow> string \<Rightarrow> obj \<Rightarrow> files_mgr \<Rightarrow> device_action list \<times> files_mgr" where
  "files_Run sha E clientID cmd m =
     (case files_Command (ae_oor E) (ae_files E) clientID cmd m of
        (e, calls, m') \<Rightarrow>
          (calls,
           (if stringField cmd ''type'' = ''upload_start'' \<and> e = None \<and> length (fm_uploads m) < length (fm_uploads m') \<and>
               up_size (last (fm_uploads m')) = 0
            then files_Chunk sha E clientID [] m' else m')))"

definition handleMessage ::
  "(byte list \<Rightarrow> byte list) \<Rightarrow> 'c agent_env \<Rightarrow> string \<Rightarrow> obj \<Rightarrow> 'c agent \<Rightarrow> agent_error option \<times> agent_out list \<times> 'c agent" where
  "handleMessage sha E deviceID msg a =
     (let t = stringField msg ''message_type''; clientID = stringField msg ''client_id'';
          sessionID = stringField msg ''session_id'';
          settings = (\<lambda>key. obj_of (map_of msg key));
          written = (if ae_written E then None else Some (AgentError ''write''))
      in if t = ''error'' then
           ((if stringField msg ''error'' = ''agent enrollment rejected'' then Some ErrAuthentication
             else Some (AgentError (''control plane: '' @ stringField msg ''error''))), [], a)
         else if t = ''agent_config'' then
           (let token = stringField msg ''agent_token'';
                (ok, file) = (if token \<noteq> '''' then saveIdentity (ae_saved E) token (ag_identity a) else (True, ag_identity a));
                a = a\<lparr>ag_identity := file\<rparr>
            in if \<not> ok then (Some (AgentError ''identity''), [], a)
               else (None, [], a\<lparr>ag_ice := (if ae_ice_ok E (map_of msg ''ice_servers'') then map_of msg ''ice_servers'' else ag_ice a),
                                 snapshotInterval := setSnapshotInterval (settings ''default_settings'') (snapshotInterval a)\<rparr>))
         else if t = ''agent_settings'' then
           (None, [], a\<lparr>snapshotInterval := setSnapshotInterval (settings ''settings'') (snapshotInterval a)\<rparr>)
         else if t = ''quit_agent'' then (Some ErrAgentQuit, [], a)
         else if t = ''start_audio'' then
           (case Viewers.StartAudio (ae_oor E) (ae_media E) msg (ag_media a) of
              (True, md) \<Rightarrow> (None, [], a\<lparr>ag_media := md\<rparr>)
            | (False, md) \<Rightarrow>
                (written, [Sent [(''message_type'', AStr ''audio_error''), (''client_id'', AStr clientID), (''error'', AStr ''audio'')]],
                 a\<lparr>ag_media := md\<rparr>))
         else if t = ''stop_audio'' then
           (case Viewers.StopAudio (ae_oor E) (ae_media E) (ag_media a) of
              (ok, md) \<Rightarrow> ((if ok then None else Some (AgentError ''audio'')), [], a\<lparr>ag_media := md\<rparr>))
         else if t = ''start_preview'' then start_preview E msg a
         else if t = ''stop_preview'' then
           (case Viewers.StopPreview (ae_oor E) (ae_media E) (ag_media a) of
              (ok, md) \<Rightarrow> ((if ok then None else Some (AgentError ''preview'')), [], a\<lparr>ag_media := md, previewActive := False\<rparr>))
         else if t = ''client_disconnected'' then (None, [], client_gone E clientID a)
         else if t = ''forward'' then agent_forward E msg a
         else if t = ''screenshot_request'' \<or> t = ''command'' \<or> t = ''task_dispatch'' then (None, [Spawn t msg], a)
         else if t = ''task_available'' then
           (written, [Sent [(''message_type'', AStr ''task_claim''), (''task_id'', AStr (stringField msg ''task_id'')),
              (''device_id'', AStr deviceID)]], a)
         else if t = ''file_open'' then (None, [], a\<lparr>ag_files := snd (files_Open clientID (ag_files a))\<rparr>)
         else if t = ''file_command'' then
           (case files_Run sha E clientID (settings ''payload'') (ag_files a) of
              (calls, m) \<Rightarrow> (None, [DeviceCalls calls], a\<lparr>ag_files := m\<rparr>))
         else if t = ''file_chunk'' then
           (case std_decode (stringField msg ''data'') of
              None \<Rightarrow> (Some (AgentError ''base64''), [], a)
            | Some data \<Rightarrow> (None, [], a\<lparr>ag_files := files_Chunk sha E clientID data (ag_files a)\<rparr>))
         else if t = ''pty_open'' then
           (case term_open (ae_opened E) clientID sessionID (uint16Number E msg ''rows'' 24) (uint16Number E msg ''cols'' 80) (ag_terms a) of
              (True, m) \<Rightarrow> (None, [pty_event clientID sessionID ''pty_opened'' ''''], a\<lparr>ag_terms := m\<rparr>)
            | (False, m) \<Rightarrow> (Some (AgentError ''pty''), [pty_event clientID sessionID ''pty_error'' ''pty''], a\<lparr>ag_terms := m\<rparr>))
         else if t = ''pty_input'' then
           (None, [], a\<lparr>ag_terms := Input clientID sessionID (stringField msg ''data'') (ag_terms a)\<rparr>)
         else if t = ''pty_resize'' then
           (None, [], a\<lparr>ag_terms := term_Resize clientID sessionID (uint16Number E msg ''rows'' 24) (uint16Number E msg ''cols'' 80) (ag_terms a)\<rparr>)
         else if t = ''pty_close'' then (None, [], a\<lparr>ag_terms := term_Close clientID sessionID (ag_terms a)\<rparr>)
         else if t = ''group_control_event'' then
           (if \<not> browserControlAllowed (settings ''event'') then (Some (AgentError ''unsupported group control event''), [], a)
            else (case inject_event E (settings ''event'') a of (e, a) \<Rightarrow> (e, [], a)))
         else if t = ''inject_data'' then inject_data E deviceID msg a
         else (None, [], a))"

section \<open>One connection\<close>

text \<open>
  A connection starts with new managers on the bridges that stay, says hello with the token of the
  identity file, and handles frames until the socket fails or a message ends the connection.
\<close>

datatype frame = TextFrame "obj option" | OtherFrame

datatype conn_end = ConnLost | ConnRejected | ConnQuit

definition connect_begin :: "'c agent \<Rightarrow> 'c agent" where
  "connect_begin a =
     a\<lparr>previewActive := False, ag_terms := newTerminalManager, ag_files := newDeviceFileManager, ag_ice := None,
       ag_media := newMediaManager\<lparr>displayBridge := displayBridge (ag_media a), cameraBridge := cameraBridge (ag_media a)\<rparr>\<rparr>"

definition hello :: "agent_config \<Rightarrow> any \<Rightarrow> 'c agent \<Rightarrow> obj" where
  "hello cfg info a =
     [(''message_type'', AStr ''agent_hello''), (''device_id'', AStr (ag_DeviceID cfg)),
      (''enrollment_token'', AStr (ag_EnrollmentToken cfg)),
      (''agent_token'', AStr (case loadIdentity (ag_identity a) of None \<Rightarrow> '''' | Some token \<Rightarrow> token)), (''device_info'', info)]"

definition connect_end :: "capture_env \<Rightarrow> capture_env \<Rightarrow> bool \<Rightarrow> 'c agent \<Rightarrow> 'c agent" where
  "connect_end C1 C2 via_adb a =
     (let md = media_Close (ag_media a);
          md = md\<lparr>cameraBridge := snd (snd (bridge_Stop C2 via_adb (cameraBridge md)))\<rparr>;
          md = md\<lparr>displayBridge := snd (snd (bridge_Stop C1 via_adb (displayBridge md)))\<rparr>
      in a\<lparr>ag_media := md, ag_files := files_Close (ag_files a), ag_terms := CloseAll (ag_terms a)\<rparr>)"

fun receive ::
  "(byte list \<Rightarrow> byte list) \<Rightarrow> string \<Rightarrow> ('c agent_env \<times> frame) list \<Rightarrow> 'c agent \<Rightarrow> conn_end \<times> agent_out list \<times> 'c agent" where
  "receive sha deviceID [] a = (ConnLost, [], a)"
| "receive sha deviceID ((E, OtherFrame) # fs) a = receive sha deviceID fs a"
| "receive sha deviceID ((E, TextFrame None) # fs) a = receive sha deviceID fs a"
| "receive sha deviceID ((E, TextFrame (Some msg)) # fs) a =
     (case handleMessage sha E deviceID msg a of
        (Some ErrAuthentication, outs, a) \<Rightarrow> (ConnRejected, outs, a)
      | (Some ErrAgentQuit, outs, a) \<Rightarrow> (ConnQuit, outs, a)
      | (_, outs, a) \<Rightarrow> (case receive sha deviceID fs a of (r, outs', a) \<Rightarrow> (r, outs @ outs', a)))"

definition connect ::
  "(byte list \<Rightarrow> byte list) \<Rightarrow> agent_config \<Rightarrow> any \<Rightarrow> bool \<Rightarrow> bool \<Rightarrow> ('c agent_env \<times> frame) list \<Rightarrow> capture_env \<Rightarrow> capture_env \<Rightarrow> 'c agent \<Rightarrow>
   conn_end \<times> agent_out list \<times> 'c agent" where
  "connect sha cfg info dialled greeted frames C1 C2 a =
     (if \<not> dialled then (ConnLost, [], a)
      else
        (let a = connect_begin a; first = Sent (hello cfg info a); via_adb = (ADBSerial cfg \<noteq> '''') in
         if \<not> greeted then (ConnLost, [first], connect_end C1 C2 via_adb a)
         else (case receive sha (ag_DeviceID cfg) frames a of (r, outs, a) \<Rightarrow> (r, first # outs, connect_end C1 C2 via_adb a))))"

section \<open>The reconnecting loop\<close>

text \<open>
  \<open>Run\<close> as a function of how its connections end: for each attempt whether the context is cancelled
  before it, how the connection ended and whether the context is cancelled then. The result is how
  the loop ended, \<open>None\<close> if it still runs, and the seconds it waited after each attempt.
\<close>

datatype run_end = RunRejected | RunQuit | RunCancelled

definition backoff :: "nat \<Rightarrow> nat" where
  "backoff attempt = min (attempt + 1) 15"

fun run_loop :: "nat \<Rightarrow> (bool \<times> conn_end \<times> bool) list \<Rightarrow> run_end option \<times> nat list" where
  "run_loop attempt [] = (None, [])"
| "run_loop attempt ((cancelled, r, cancelled_then) # rs) =
     (if cancelled then (Some RunCancelled, [])
      else if r = ConnRejected then (Some RunRejected, [])
      else if r = ConnQuit then (Some RunQuit, [])
      else
        (case run_loop (attempt + 1) rs of
           (e, waits) \<Rightarrow> (e, (if cancelled_then then waits else backoff attempt # waits))))"

text \<open>The exit status of the process, as \<open>main\<close> chooses it.\<close>

definition exit_status :: "run_end \<Rightarrow> int" where
  "exit_status e = (case e of RunRejected \<Rightarrow> 3 | RunQuit \<Rightarrow> 0 | RunCancelled \<Rightarrow> 0)"

end
