(* ===== verification/AgentProps.thy ===== *)
theory AgentProps
  imports Agent ViewersProps FilesProps ServerProps DeployerProps
begin

text \<open>
  What the agent promises over whole connections: the invariant that every message of the control plane
  keeps, the end of a client, the reconnecting loop, and the agent together with the control plane and
  the deployer.
\<close>

section \<open>Media\<close>

definition queue_ok :: "bridge \<Rightarrow> bool" where
  "queue_ok b \<longleftrightarrow> length (br_control b) \<le> 256 \<and>
     list_all (\<lambda>e. browserControlAllowed e \<or> stringField e ''type'' = ''request_keyframe'') (br_control b)"

definition media_ok :: "'c media \<Rightarrow> bool" where
  "media_ok md \<longleftrightarrow> rtc_ok (display md) \<and> rtc_ok (camera md) \<and> queue_ok (displayBridge md)"

lemma Start_control: "br_control (snd (snd (Start C via_adb options b))) = br_control b"
  by (auto simp: Start_def startLocked_def stopLocked_def Let_def split: option.splits prod.splits)

lemma Stop_control: "br_control (snd (snd (bridge_Stop C via_adb b))) = br_control b"
  by (simp add: bridge_Stop_def stopLocked_def Let_def)

lemma queue_ok_cong: "br_control b = br_control c \<Longrightarrow> queue_ok b = queue_ok c"
  by (simp add: queue_ok_def)

lemma Start_controlD: "Start C via_adb options b = (e, o', c) \<Longrightarrow> br_control c = br_control b"
  by (metis Start_control snd_conv)

lemma Stop_controlD: "bridge_Stop C via_adb b = (e, o', c) \<Longrightarrow> br_control c = br_control b"
  by (metis Stop_control snd_conv)

text \<open>Operations that only start and stop captures leave the viewers, the preview and the queue alone.\<close>

definition same_viewers :: "'c media \<Rightarrow> 'c media \<Rightarrow> bool" where
  "same_viewers md md' \<longleftrightarrow> display md' = display md \<and> camera md' = camera md \<and> previewOptions md' = previewOptions md \<and>
     md_closed md' = md_closed md \<and> br_control (displayBridge md') = br_control (displayBridge md)"

lemma start_display_same: "same_viewers md (snd (start_display M k options md))"
  by (auto simp: same_viewers_def start_display_def dest: Start_controlD split: prod.split)

lemma reconcile_same: "same_viewers md (snd (reconcileDisplay oor M md))"
  by (auto simp: reconcileDisplay_def Let_def start_display_same split: prod.split option.split)
    (auto simp: same_viewers_def dest: Stop_controlD)

lemma media_ok_same: "same_viewers md md' \<Longrightarrow> media_ok md' = media_ok md"
  by (auto simp: same_viewers_def media_ok_def queue_ok_def)

lemma StopIdle_same: "same_viewers md (StopIdle oor cancelled M md)"
  using reconcile_same [of md oor M]
  by (auto simp: StopIdle_def Let_def same_viewers_def split: prod.splits)
lemma rtc_steps_ok:
  "createOffer oor OE c perms payload m = (r, m') \<Longrightarrow> rtc_ok m \<Longrightarrow> rtc_ok m'"
  "setAnswer_finish c m = (xs, m') \<Longrightarrow> rtc_ok m \<Longrightarrow> rtc_ok m'"
  "addCandidate d c x m = (y, m') \<Longrightarrow> rtc_ok m \<Longrightarrow> rtc_ok m'"
  using createOffer_ok [of m oor OE c perms payload] setAnswer_finish_ok [of m c] addCandidate_ok [of m d c x] by auto

lemma HandleForward_ok: "rtc_ok m \<Longrightarrow> rtc_ok (snd (rtc_HandleForward oor F msg m))"
  unfolding rtc_HandleForward_def Let_def
  by (auto dest: rtc_steps_ok split: option.split any.split if_split prod.split sum.split)

text \<open>Operations on the viewers that keep their managers in order and leave preview and queue alone.\<close>

definition viewers_kept :: "'c media \<Rightarrow> 'c media \<Rightarrow> bool" where
  "viewers_kept md md' \<longleftrightarrow> (rtc_ok (display md) \<longrightarrow> rtc_ok (display md')) \<and> (rtc_ok (camera md) \<longrightarrow> rtc_ok (camera md')) \<and>
     previewOptions md' = previewOptions md \<and> br_control (displayBridge md') = br_control (displayBridge md)"

lemma viewers_kept_trans: "viewers_kept a b \<Longrightarrow> viewers_kept b c \<Longrightarrow> viewers_kept a c"
  by (auto simp: viewers_kept_def)

lemma viewers_kept_refl [simp]: "viewers_kept a a"
  by (simp add: viewers_kept_def)

lemma same_kept: "same_viewers a b \<Longrightarrow> viewers_kept a b"
  by (auto simp: viewers_kept_def same_viewers_def)

lemma media_ok_kept: "viewers_kept md md' \<Longrightarrow> media_ok md \<Longrightarrow> media_ok md'"
  by (auto simp: viewers_kept_def media_ok_def queue_ok_def)

lemma set_rtc_kept: "(rtc_ok (source_rtc u md) \<Longrightarrow> rtc_ok m) \<Longrightarrow> viewers_kept md (set_rtc u m md)"
  by (cases u) (auto simp: viewers_kept_def set_rtc_def source_rtc_def)

lemma forward_to_kept: "viewers_kept md (snd (forward_to oor M u msg md))"
  using HandleForward_ok [of "source_rtc u md" oor "fwd M" msg] by (auto simp: forward_to_def intro!: set_rtc_kept split: prod.split)

lemma start_source_kept: "viewers_kept md (snd (start_source u M k options md))"
  using same_kept [OF start_display_same [of md M k options]]
  by (cases u) (auto simp: start_source_def viewers_kept_def split: prod.split)

lemma SetVideoCodec_ok: "rtc_ok m \<Longrightarrow> SetVideoCodec profile m = (b, m') \<Longrightarrow> rtc_ok m'"
  using viewers.keep [of m "RCodec profile"] by simp

lemma prepare_video_kept: "viewers_kept md (snd (prepare_video M u options md))"
proof -
  obtain b md1 where s: "start_source u M 0 options md = (b, md1)" by (metis prod.exhaust)
  have k1: "viewers_kept md md1" using start_source_kept [of md u M 0 options] by (simp add: s)
  have k2: "viewers_kept md (set_rtc u m md1)" if "SetVideoCodec p (source_rtc u md1) = (b', m)" for p b' m
    using viewers_kept_trans [OF k1] set_rtc_kept SetVideoCodec_ok that by metis
  have k3: "viewers_kept md (snd (start_source u M k previous md1))" for k previous
    using viewers_kept_trans [OF k1 start_source_kept] .
  show ?thesis unfolding prepare_video_def Let_def s by (auto simp: k1 k2 k3 split: bool.splits sum.splits prod.splits)
qed

lemma media_HandleForward_kept: "viewers_kept md (snd (media_HandleForward oor M msg md))"
proof -
  have "viewers_kept md (snd (case prepare_video M u options md of (Some e, md) \<Rightarrow> (Some e, md) | (None, md) \<Rightarrow> forward_to oor M u msg md))" for u options
    using prepare_video_kept [of md M u options] viewers_kept_trans [OF _ forward_to_kept] by (auto split: prod.splits option.splits)
  then show ?thesis unfolding media_HandleForward_def Let_def by (auto simp: forward_to_kept split: sum.splits)
qed

lemma remap_type: "mok event \<Longrightarrow> stringField (remapControlPosition oor oor32 event w h) ''type'' = stringField event ''type''"
  by (auto simp: remapControlPosition_def stringField_def map_of_rev_mok split: sum.split option.split)

lemma allowed_type: "stringField e ''type'' = stringField f ''type'' \<Longrightarrow> browserControlAllowed e = browserControlAllowed f"
  by (simp add: browserControlAllowed_def)

lemma Enqueue_queue:
  assumes "queue_ok b" "mok event" "browserControlAllowed event \<or> stringField event ''type'' = ''request_keyframe''"
    "EnqueueControl oor oor32 event b = (ok, b')"
  shows "queue_ok b'"
proof -
  have "stringField (remapControlPosition oor oor32 event (br_width b) (br_height b)) ''type'' = stringField event ''type''"
    by (rule remap_type [OF assms(2)])
  with assms(3) allowed_type [OF this]
  have "browserControlAllowed (remapControlPosition oor oor32 event (br_width b) (br_height b)) \<or>
    stringField (remapControlPosition oor oor32 event (br_width b) (br_height b)) ''type'' = ''request_keyframe''" by metis
  then show ?thesis using assms(1,3,4) by (auto simp: EnqueueControl_def queue_ok_def Let_def split: if_splits)
qed

section \<open>The invariant of a connection\<close>

text \<open>
  Client identifiers are random tokens of the control plane, without colons, and decoded JSON objects
  have no key twice.
\<close>

definition msg_ok :: "'c agent_env \<times> obj \<Rightarrow> 'c agent \<Rightarrow> bool" where
  "msg_ok e a \<longleftrightarrow> CHR '':'' \<notin> set (stringField (snd e) ''client_id'') \<and> mok (obj_of (map_of (snd e) ''payload'')) \<and>
     mok (obj_of (map_of (snd e) ''event''))"

definition agent_ok :: "(byte list \<Rightarrow> byte list) \<Rightarrow> 'c agent \<Rightarrow> bool" where
  "agent_ok sha a \<longleftrightarrow> term_ok (ag_terms a) \<and> files_ok sha (ag_files a) \<and> media_ok (ag_media a) \<and>
     - 1 \<le> snapshotInterval a \<and> snapshotInterval a \<le> 3600 \<and> (previewActive a \<longrightarrow> previewOptions (ag_media a) \<noteq> None)"

definition agent_step :: "(byte list \<Rightarrow> byte list) \<Rightarrow> string \<Rightarrow> 'c agent_env \<times> obj \<Rightarrow> 'c agent \<Rightarrow> 'c agent" where
  "agent_step sha deviceID e a = snd (snd (handleMessage sha (fst e) deviceID (snd e) a))"

lemma interval_bounds: "- 1 \<le> i \<Longrightarrow> i \<le> 3600 \<Longrightarrow> - 1 \<le> setSnapshotInterval s i \<and> setSnapshotInterval s i \<le> 3600"
proof -
  have "- 1 \<le> trunc_rat q \<and> trunc_rat q \<le> 3600" if "- 1 \<le> q" "q \<le> 3600" for q
    using that by (simp add: trunc_rat_def) linarith
  then show "- 1 \<le> i \<Longrightarrow> i \<le> 3600 \<Longrightarrow> ?thesis" by (auto simp: setSnapshotInterval_def split: option.split any.split)
qed

lemma agent_ok_interval: "agent_ok sha a \<Longrightarrow> agent_ok sha (a\<lparr>snapshotInterval := setSnapshotInterval s (snapshotInterval a)\<rparr>)"
  using interval_bounds [of "snapshotInterval a" s] by (simp add: agent_ok_def)

lemma agent_ok_config:
  assumes "agent_ok sha a"
  shows "agent_ok sha (a\<lparr>ag_identity := x, ag_ice := y, snapshotInterval := setSnapshotInterval s (snapshotInterval a)\<rparr>)"
    and "agent_ok sha (a\<lparr>ag_ice := y, snapshotInterval := setSnapshotInterval s (snapshotInterval a)\<rparr>)"
    and "agent_ok sha (a\<lparr>ag_identity := x, snapshotInterval := setSnapshotInterval s (snapshotInterval a)\<rparr>)"
  using agent_ok_interval [OF assms, of s] by (simp_all add: agent_ok_def)

lemma agent_ok_media:
  "agent_ok sha a \<Longrightarrow> viewers_kept (ag_media a) md \<Longrightarrow> agent_ok sha (a\<lparr>ag_media := md\<rparr>)"
  using media_ok_kept by (auto simp: agent_ok_def viewers_kept_def)

lemma agent_ok_parts [simp]:
  "agent_ok sha (a\<lparr>ag_identity := x\<rparr>) = agent_ok sha a" "agent_ok sha (a\<lparr>ag_ice := y\<rparr>) = agent_ok sha a"
  by (simp_all add: agent_ok_def)

lemma media_steps_kept:
  "Viewers.StartAudio oor M raw md = (ok, md') \<Longrightarrow> viewers_kept md md'"
  "Viewers.StopAudio oor M md = (ok, md') \<Longrightarrow> viewers_kept md md'"
  "media_HandleForward oor M msg md = (e, md') \<Longrightarrow> viewers_kept md md'"
proof -
  show "viewers_kept md md'" if "Viewers.StartAudio oor M raw md = (ok, md')"
  proof -
    have "viewers_kept md md1" if "start_display M 0 options md = (b, md1)" for options b md1
      using same_kept [OF start_display_same [of md M 0 options]] by (simp add: that)
    then show ?thesis using that
      by (auto simp: Viewers.StartAudio_def Let_def split: sum.splits if_splits prod.splits) (auto simp: viewers_kept_def)
  qed
  show "viewers_kept md md'" if "Viewers.StopAudio oor M md = (ok, md')"
    using same_kept [OF reconcile_same [of "md\<lparr>wsAudioActive := False, wsAudioOptions := []\<rparr>" oor M]] that
    by (simp add: Viewers.StopAudio_def viewers_kept_def)
  show "viewers_kept md md'" if "media_HandleForward oor M msg md = (e, md')"
    using media_HandleForward_kept [of md oor M msg] by (simp add: that)
qed

lemma StartPreview_media:
  assumes "Viewers.StartPreview oor M options md = (ok, md')" "media_ok md"
  shows "media_ok md' \<and> previewOptions md' = Some options"
proof -
  have "same_viewers (md\<lparr>previewOptions := Some options\<rparr>) md'"
    using reconcile_same [of "md\<lparr>previewOptions := Some options\<rparr>" oor M] assms(1) by (simp add: Viewers.StartPreview_def)
  with media_ok_same [OF this] assms(2) show ?thesis by (simp add: same_viewers_def) (simp add: media_ok_def)
qed

lemma StopPreview_media:
  assumes "Viewers.StopPreview oor M md = (ok, md')" "media_ok md"
  shows "media_ok md'"
proof -
  have "same_viewers (md\<lparr>previewOptions := None\<rparr>) md'"
    using reconcile_same [of "md\<lparr>previewOptions := None\<rparr>" oor M] assms(1) by (simp add: Viewers.StopPreview_def)
  with media_ok_same [OF this] assms(2) show ?thesis by (simp add: media_ok_def)
qed

lemma media_ok_bridge: "media_ok md \<Longrightarrow> queue_ok b \<Longrightarrow> media_ok (md\<lparr>displayBridge := b\<rparr>)"
  by (simp add: media_ok_def)

lemma inject_event_ok:
  assumes "agent_ok sha a" "mok event" "browserControlAllowed event" "inject_event E event a = (e, a')"
  shows "agent_ok sha a'"
proof -
  obtain r f b where s: "Start (cap (ae_media E) 0) (adb (ae_media E)) (no_options\<lparr>Preview := True\<rparr>) (displayBridge (ag_media a)) = (r, f, b)"
    by (metis prod.exhaust)
  obtain ok b' where q: "EnqueueControl (ae_oor E) (ae_oor32 E) event b = (ok, b')" by (metis prod.exhaust)
  have m: "media_ok (ag_media a)" using assms(1) by (simp add: agent_ok_def)
  have b: "queue_ok b" using m queue_ok_cong [OF Start_controlD [OF s]] by (simp add: media_ok_def)
  have b': "queue_ok b'" using Enqueue_queue [OF b assms(2) _ q] assms(3) by simp
  have "a' = a\<lparr>ag_media := (ag_media a)\<lparr>displayBridge := (if r = None then b' else b)\<rparr>\<rparr>"
    using assms(4) by (auto simp: inject_event_def s q split: option.splits)
  moreover have "media_ok ((ag_media a)\<lparr>displayBridge := (if r = None then b' else b)\<rparr>)" using media_ok_bridge [OF m] b b' by simp
  ultimately show ?thesis using assms(1) by (simp add: agent_ok_def)
qed

lemma start_preview_ok:
  assumes "agent_ok sha a" "start_preview E msg a = (e, outs, a')"
  shows "agent_ok sha a'"
proof (cases "parseStreamOptions (ae_oor E) msg True")
  case (Inr options)
  obtain ok md where s: "Viewers.StartPreview (ae_oor E) (ae_media E) options (ag_media a) = (ok, md)" by (metis prod.exhaust)
  obtain ok' b where q: "EnqueueControl (ae_oor E) (ae_oor32 E) [(''type'', AStr ''request_keyframe'')] (displayBridge md) = (ok', b)"
    by (metis prod.exhaust)
  have m: "media_ok md" "previewOptions md = Some options" using StartPreview_media [OF s] assms(1) by (simp_all add: agent_ok_def)
  then have "queue_ok b" using Enqueue_queue [OF _ _ _ q] by (simp add: media_ok_def stringField_def)
  then have "media_ok (md\<lparr>displayBridge := b\<rparr>)" using m by (simp add: media_ok_bridge)
  then show ?thesis using assms m agent_ok_interval [OF assms(1), of msg]
    by (cases ok) (auto simp: start_preview_def Inr s q agent_ok_def)
qed (use assms in \<open>auto simp: start_preview_def\<close>)

lemma inject_data_ok:
  assumes "agent_ok sha a" "mok (obj_of (map_of msg ''payload''))" "inject_data E d msg a = (e, outs, a')"
  shows "agent_ok sha a'"
proof -
  have "mok event" if "objField msg ''payload'' = Some event" for event
    using that assms(2) by (auto simp: objField_def obj_of_def split: option.splits any.splits)
  then show ?thesis using assms inject_event_ok [OF assms(1)]
    by (auto simp: inject_data_def Let_def split: if_splits option.splits prod.splits)
qed

lemma agent_forward_ok: "agent_ok sha a \<Longrightarrow> agent_forward E msg a = (e, outs, a') \<Longrightarrow> agent_ok sha a'"
  by (auto simp: agent_forward_def Let_def split: option.splits prod.splits if_splits
      intro!: agent_ok_media agent_ok_interval dest: media_steps_kept)

lemma client_gone_ok: "agent_ok sha a \<Longrightarrow> CHR '':'' \<notin> set c \<Longrightarrow> agent_ok sha (client_gone E c a)"
proof -
  assume ok: "agent_ok sha a" and c: "CHR '':'' \<notin> set c"
  have "media_ok (media_CloseSession c (ag_media a))" using ok by (simp add: agent_ok_def media_ok_def media_CloseSession_def CloseSession_def rtc_ok_del)
  then have "media_ok (ag_media (client_gone E c a))" by (simp add: client_gone_def media_ok_same [OF StopIdle_same])
  moreover have "previewOptions (ag_media (client_gone E c a)) = previewOptions (ag_media a)"
    using StopIdle_same [of "media_CloseSession c (ag_media a)"] by (simp add: client_gone_def same_viewers_def) (simp add: media_CloseSession_def)
  moreover have "term_ok (ag_terms (client_gone E c a))"
    using ok terminal.keep [of "ag_terms a" "TCloseClient c"] c by (simp add: client_gone_def agent_ok_def term_op_ok_def)
  ultimately show ?thesis using ok by (simp add: agent_ok_def files_close_ok) (simp add: client_gone_def files_close_ok)
qed

lemma agent_ok_terms: "agent_ok sha a \<Longrightarrow> term_op_ok e (ag_terms a) \<Longrightarrow> agent_ok sha (a\<lparr>ag_terms := exec_term e (ag_terms a)\<rparr>)"
  using terminal.keep [of "ag_terms a" e] by (simp add: agent_ok_def)

lemma agent_ok_files: "agent_ok sha a \<Longrightarrow> files_ok sha m \<Longrightarrow> agent_ok sha (a\<lparr>ag_files := m\<rparr>)"
  by (simp add: agent_ok_def)

lemma agent_step_terms:
  assumes "agent_ok sha a" "CHR '':'' \<notin> set c"
  shows "term_open b c s rows cols (ag_terms a) = (ok, m) \<Longrightarrow> agent_ok sha (a\<lparr>ag_terms := m\<rparr>)"
    and "agent_ok sha (a\<lparr>ag_terms := Input c s raw (ag_terms a)\<rparr>)"
    and "agent_ok sha (a\<lparr>ag_terms := term_Resize c s rows cols (ag_terms a)\<rparr>)"
    and "agent_ok sha (a\<lparr>ag_terms := term_Close c s (ag_terms a)\<rparr>)"
  using agent_ok_terms [OF assms(1), of "TOpen b c s rows cols"] agent_ok_terms [OF assms(1), of "TInput c s raw"]
    agent_ok_terms [OF assms(1), of "TResize c s rows cols"] agent_ok_terms [OF assms(1), of "TClose c s"] assms(2)
  by (simp_all add: term_op_ok_def)

text \<open>The second half of a chunk follows the first, on the job that the first has left.\<close>

lemma chunk_job: "chunk_write sha cnt written synced c data m = (Some ack, m') \<Longrightarrow> ak_finished ack \<Longrightarrow>
   \<exists>p. fm_pending m' = p # fm_pending m"
  by (auto simp: chunk_write_def Let_def split: option.splits if_splits prod.splits)

lemma chunk_unfinished: "chunk_write sha cnt written synced c data m = (r, m') \<Longrightarrow> (case r of Some ack \<Rightarrow> \<not> ak_finished ack | None \<Rightarrow> True) \<Longrightarrow>
   fm_pending m' = fm_pending m"
  by (auto simp: chunk_write_def Let_def split: option.splits if_splits prod.splits)

lemma commit_pending: "fm_pending (snd (chunk_commit moved p m)) = remove1 p (fm_pending m)"
  by (simp add: chunk_commit_def Let_def split: prod.split)

lemma files_Chunk_ok: "files_ok sha m \<Longrightarrow> files_ok sha (files_Chunk sha E c data m)"
proof -
  assume ok: "files_ok sha m"
  obtain cnt w s where E: "ae_chunk E = (cnt, w, s)" by (metis prod.exhaust)
  obtain r m' where run: "chunk_write sha cnt w s c data m = (r, m')" by (metis prod.exhaust)
  have ok': "files_ok sha m'" using chunk_write_ok [OF ok, of cnt w s c data] by (simp add: run)
  have "files_ok sha (snd (chunk_commit (ae_moved E) (hd (fm_pending m')) m'))" if "r = Some ack" "ak_finished ack" for ack
    using chunk_job [of sha cnt w s c data m ack m'] run that ok' by (auto intro!: chunk_commit_ok)
  then show ?thesis using ok' by (auto simp: files_Chunk_def E run split: option.split)
qed

lemma files_Run_ok: "files_ok sha m \<Longrightarrow> files_Run sha E c cmd m = (calls, m') \<Longrightarrow> files_ok sha m'"
  using files_Command_ok [of sha m "ae_oor E" "ae_files E" c cmd] files_Chunk_ok
  by (auto simp: files_Run_def split: prod.splits if_splits)

lemma agent_step_files:
  assumes "agent_ok sha a"
  shows "agent_ok sha (a\<lparr>ag_files := snd (files_Open c (ag_files a))\<rparr>)"
    and "files_Run sha E c cmd (ag_files a) = (calls, m) \<Longrightarrow> agent_ok sha (a\<lparr>ag_files := m\<rparr>)"
    and "agent_ok sha (a\<lparr>ag_files := files_Chunk sha E c data (ag_files a)\<rparr>)"
proof -
  have ok: "files_ok sha (ag_files a)" using assms by (simp add: agent_ok_def)
  show "agent_ok sha (a\<lparr>ag_files := snd (files_Open c (ag_files a))\<rparr>)"
    "agent_ok sha (a\<lparr>ag_files := files_Chunk sha E c data (ag_files a)\<rparr>)"
    using assms ok by (simp_all add: agent_ok_files files_Open_ok files_Chunk_ok)
  show "agent_ok sha (a\<lparr>ag_files := m\<rparr>)" if "files_Run sha E c cmd (ag_files a) = (calls, m)"
    using files_Run_ok [OF ok that] assms by (simp add: agent_ok_files)
qed

lemma stop_preview_ok:
  "agent_ok sha a \<Longrightarrow> Viewers.StopPreview oor M (ag_media a) = (ok, md) \<Longrightarrow> agent_ok sha (a\<lparr>ag_media := md, previewActive := False\<rparr>)"
  using StopPreview_media by (auto simp: agent_ok_def)

lemma after_if: "(c \<Longrightarrow> P x) \<Longrightarrow> (\<not> c \<Longrightarrow> P y) \<Longrightarrow> P (if c then x else y)"
  by simp

interpretation connection: machine "agent_step sha deviceID" msg_ok "agent_ok sha" for sha deviceID
proof unfold_locales
  fix a :: "'c agent" and e :: "'c agent_env \<times> obj"
  assume ok: "agent_ok sha a" and e: "msg_ok e a"
  obtain E msg where em: "e = (E, msg)" by (cases e)
  have c: "CHR '':'' \<notin> set (stringField msg ''client_id'')" "mok (obj_of (map_of msg ''payload''))" "mok (obj_of (map_of msg ''event''))"
    using e by (simp_all add: msg_ok_def em)
  note steps = agent_step_terms [OF ok c(1)] agent_step_files [OF ok] client_gone_ok [OF ok c(1)]
    agent_ok_interval [OF ok] agent_ok_config [OF ok]
  have whole: "agent_ok sha (snd (snd (start_preview E msg a)))" "agent_ok sha (snd (snd (agent_forward E msg a)))"
    "agent_ok sha (snd (snd (inject_data E deviceID msg a)))"
    using start_preview_ok [OF ok] agent_forward_ok [OF ok] inject_data_ok [OF ok c(2)] by (metis prod.collapse)+
  note dests = stop_preview_ok [OF ok] inject_event_ok [OF ok c(3)] media_steps_kept [THEN agent_ok_media [OF ok]]
  show "agent_ok sha (agent_step sha deviceID e a)"
    unfolding agent_step_def em handleMessage_def Let_def fst_conv snd_conv
    by (intro after_if [where P = "\<lambda>r. agent_ok sha (snd (snd r))"])
      (auto simp: ok steps whole intro: dests split: option.split prod.split bool.split)
qed

section \<open>Whole connections\<close>

definition frame_ok :: "'c agent_env \<times> frame \<Rightarrow> bool" where
  "frame_ok f \<longleftrightarrow>
     (case snd f of
        TextFrame (Some msg) \<Rightarrow> CHR '':'' \<notin> set (stringField msg ''client_id'') \<and> mok (obj_of (map_of msg ''payload'')) \<and>
          mok (obj_of (map_of msg ''event''))
      | _ \<Rightarrow> True)"

lemma receive_step:
  assumes "handleMessage sha E d msg a = (e, outs, a1)"
  shows "snd (snd (receive sha d ((E, TextFrame (Some msg)) # fs) a)) =
    (if e = Some ErrAuthentication \<or> e = Some ErrAgentQuit then a1 else snd (snd (receive sha d fs a1)))"
  using assms by (auto split: option.split agent_error.split prod.split)

lemma receive_ok: "agent_ok sha a \<Longrightarrow> list_all frame_ok fs \<Longrightarrow> agent_ok sha (snd (snd (receive sha d fs a)))"
proof (induction fs arbitrary: a)
  case (Cons f fs)
  obtain E g where f: "f = (E, g)" by (cases f)
  show ?case
  proof (cases "\<exists>msg. g = TextFrame (Some msg)")
    case True
    then obtain msg where g: "g = TextFrame (Some msg)" by blast
    obtain e outs a1 where h: "handleMessage sha E d msg a = (e, outs, a1)" by (metis prod.exhaust)
    have "agent_ok sha a1"
      using connection.keep [OF Cons.prems(1), of "(E, msg)" d] Cons.prems(2) h by (simp add: agent_step_def msg_ok_def frame_ok_def f g)
    then show ?thesis using Cons.IH [of a1] Cons.prems(2) receive_step [OF h, of fs] by (simp add: f g)
  next
    case False
    then have "receive sha d (f # fs) a = receive sha d fs a" unfolding f by (cases g; cases "case g of TextFrame x \<Rightarrow> x") auto
    with Cons show ?thesis by simp
  qed
qed simp

lemma connect_begin_ok:
  "queue_ok (displayBridge (ag_media a)) \<Longrightarrow> - 1 \<le> snapshotInterval a \<Longrightarrow> snapshotInterval a \<le> 3600 \<Longrightarrow> agent_ok sha (connect_begin a)"
  by (simp add: agent_ok_def connect_begin_def media_ok_def newMediaManager_def new_terminals_ok new_files_ok new_manager_ok)


lemma connected_ok:
  assumes "queue_ok (displayBridge (ag_media a))" "- 1 \<le> snapshotInterval a" "snapshotInterval a \<le> 3600" "list_all frame_ok frames"
    "receive sha deviceID frames (connect_begin a) = (r, outs, a')"
  shows "agent_ok sha a'"
  using receive_ok [OF connect_begin_ok [OF assms(1-3)] assms(4), of sha deviceID] by (simp add: assms(5))

text \<open>
  C30. When the control plane reports that a client has gone, nothing of that client is left on the
  agent: no viewer session on the display or the camera, no file session and no open terminal; and
  the viewers, file sessions and terminals of all other clients are as before.
\<close>

theorem gone_client_cleared:
  assumes "queue_ok (displayBridge (ag_media a))" "- 1 \<le> snapshotInterval a" "snapshotInterval a \<le> 3600" "list_all frame_ok frames"
    "receive sha deviceID frames (connect_begin a) = (r, outs, a')" "CHR '':'' \<notin> set c"
    "handleMessage sha E deviceID [(''message_type'', AStr ''client_disconnected''), (''client_id'', AStr c)] a' = (e, outs', b)"
  shows "\<not> HasClient c (display (ag_media b)) \<and> \<not> HasClient c (camera (ag_media b)) \<and> map_of (fm_sessions (ag_files b)) c = None \<and>
    (\<forall>t < length (handles (ag_terms a')).
       if h_client (handles (ag_terms a') ! t) = c then \<not> h_open (handles (ag_terms b) ! t)
       else handles (ag_terms b) ! t = handles (ag_terms a') ! t) \<and>
    (\<forall>d. d \<noteq> c \<longrightarrow> map_of (sessions (display (ag_media b))) d = map_of (sessions (display (ag_media a'))) d \<and>
       map_of (sessions (camera (ag_media b))) d = map_of (sessions (camera (ag_media a'))) d \<and>
       map_of (fm_sessions (ag_files b)) d = map_of (fm_sessions (ag_files a')) d)"
proof -
  have ok: "term_ok (ag_terms a')" using connected_ok [OF assms(1-5)] by (simp add: agent_ok_def)
  have b: "b = client_gone E c a'" using assms(7) by (simp add: handleMessage_def stringField_def)
  have media: "display (ag_media b) = snd (CloseSession c (display (ag_media a')))" "camera (ag_media b) = snd (CloseSession c (camera (ag_media a')))"
    using StopIdle_same [of "media_CloseSession c (ag_media a')" "ae_oor E" "ae_cancelled E" "ae_media E"]
    by (simp_all add: b client_gone_def same_viewers_def media_CloseSession_def)
  have terms: "if h_client (handles (ag_terms a') ! t) = c then \<not> h_open (handles (ag_terms b) ! t)
       else handles (ag_terms b) ! t = handles (ag_terms a') ! t" if "t < length (handles (ag_terms a'))" for t
    using CloseClient_closes [OF ok that, of c] term_isolated [OF ok, of "TCloseClient c" c t] assms(6) that by (simp add: b client_gone_def)
  have "map_of (fm_sessions (ag_files b)) d = (if d = c then None else map_of (fm_sessions (ag_files a')) d)" for d
    by (simp add: b client_gone_def files_CloseClient_def restrict_map_def split: option.split)
  then show ?thesis using terms by (simp add: media CloseSession_def HasClient_def restrict_map_def)
qed

lemma Command_pending: "fm_pending (snd (snd (files_Command oor F c cmd m))) = fm_pending m"
  by (auto simp: files_Command_def startUpload_def Let_def split: option.split sum.split prod.split)

lemma Chunk_pending: "fm_pending (files_Chunk sha E c data m) = fm_pending m"
proof -
  obtain cnt w s where E: "ae_chunk E = (cnt, w, s)" by (metis prod.exhaust)
  obtain r m' where run: "chunk_write sha cnt w s c data m = (r, m')" by (metis prod.exhaust)
  show ?thesis
    using chunk_job [of sha cnt w s c data m _ m'] chunk_unfinished [OF run] run
    by (cases r) (auto simp: files_Chunk_def E commit_pending)
qed

lemma Run_pending: "files_Run sha E c cmd m = (calls, m') \<Longrightarrow> fm_pending m' = fm_pending m"
  using Command_pending [of "ae_oor E" "ae_files E" c cmd m] by (auto simp: files_Run_def Chunk_pending split: prod.splits if_splits)

lemma handle_pending: "fm_pending (ag_files (snd (snd (handleMessage sha E d msg a)))) = fm_pending (ag_files a)"
proof -
  have inj: "ag_files a' = ag_files a" if "inject_event E ev a = (e, a')" for ev e a'
    using that by (auto simp: inject_event_def split: option.splits prod.splits)
  have "ag_files (snd (snd (start_preview E msg a))) = ag_files a" "ag_files (snd (snd (agent_forward E msg a))) = ag_files a"
    by (auto simp: start_preview_def agent_forward_def Let_def split: sum.split option.split prod.split bool.split)
  moreover have "ag_files (snd (snd (inject_data E d msg a))) = ag_files a"
    by (auto simp: inject_data_def Let_def inj split: option.split prod.split)
  moreover have "fm_pending (ag_files (client_gone E c a)) = fm_pending (ag_files a)" for c
    by (simp add: client_gone_def files_CloseClient_def cancel_session_def discardUpload_def split: option.split)
  moreover have "fm_pending (snd (files_Open c m)) = fm_pending m" for c m by (simp add: files_Open_def)
  ultimately show ?thesis
    unfolding handleMessage_def Let_def
    by (intro after_if [where P = "\<lambda>r. fm_pending (ag_files (snd (snd r))) = fm_pending (ag_files a)"])
      (auto simp: Chunk_pending inj dest: Run_pending split: option.split prod.split bool.split)
qed

lemma receive_pending: "fm_pending (ag_files (snd (snd (receive sha d fs a)))) = fm_pending (ag_files a)"
proof (induction fs arbitrary: a)
  case (Cons f fs)
  obtain E g where f: "f = (E, g)" by (cases f)
  show ?case
  proof (cases "\<exists>msg. g = TextFrame (Some msg)")
    case True
    then obtain msg where g: "g = TextFrame (Some msg)" by blast
    obtain e outs a1 where h: "handleMessage sha E d msg a = (e, outs, a1)" by (metis prod.exhaust)
    have "fm_pending (ag_files a1) = fm_pending (ag_files a)" using handle_pending [of sha E d msg a] by (simp add: h)
    then show ?thesis using Cons.IH [of a1] receive_step [OF h, of fs] by (simp add: f g)
  next
    case False
    then have "receive sha d (f # fs) a = receive sha d fs a" unfolding f by (cases g; cases "case g of TextFrame x \<Rightarrow> x") auto
    with Cons show ?thesis by simp
  qed
qed simp

text \<open>
  The message loop takes no message while an upload is on its way to its destination: between two
  messages of a connection no upload is half done. The report that its client has gone, which
  cancels the session, is therefore only handled after the upload is in place or has failed.
\<close>

theorem commit_not_interrupted:
  assumes "receive sha deviceID frames (connect_begin a) = (r, outs, a')"
  shows "fm_pending (ag_files a') = [] \<and> fm_pending (ag_files (client_gone E c a')) = [] \<and>
    fm_stored (ag_files (client_gone E c a')) = fm_stored (ag_files a')"
proof -
  have "fm_pending (ag_files a') = []"
    using receive_pending [of sha deviceID frames "connect_begin a"] unfolding assms
    by (simp add: connect_begin_def newDeviceFileManager_def)
  then show ?thesis
    by (simp add: client_gone_def files_CloseClient_def cancel_session_def discardUpload_def split: option.split)
qed

section \<open>The reconnecting loop\<close>

definition lost :: "bool \<times> conn_end \<times> bool \<Rightarrow> bool" where
  "lost x \<longleftrightarrow> \<not> fst x \<and> fst (snd x) = ConnLost"

lemma run_loop_waits: "x \<in> set (snd (run_loop k rs)) \<Longrightarrow> min (k + 1) 15 \<le> x \<and> 1 \<le> x \<and> x \<le> 15"
  by (induction k rs rule: run_loop.induct) (fastforce simp: backoff_def split: if_splits prod.splits)+

lemma run_loop_sorted: "sorted (snd (run_loop k rs))"
proof (induction k rs rule: run_loop.induct)
  case (2 k cancelled r cancelled_then rs)
  have "\<forall>x \<in> set (snd (run_loop (k + 1) rs)). backoff k \<le> x" using run_loop_waits [of _ "k + 1" rs] by (force simp: backoff_def)
  with 2 show ?case by (auto split: prod.split)
qed simp

lemma run_loop_end:
  "fst (run_loop k rs) =
     (case dropWhile lost rs of
        [] \<Rightarrow> None
      | (cancelled, r, _) # _ \<Rightarrow> Some (if cancelled then RunCancelled else if r = ConnRejected then RunRejected else RunQuit))"
proof (induction k rs rule: run_loop.induct)
  case (2 k cancelled r cancelled_then rs)
  then show ?case by (cases r) (auto simp: lost_def split: prod.split)
qed simp

text \<open>
  The agent reconnects until it is told to stop: its loop ends exactly when an attempt finds the
  process cancelled, is rejected or is asked to quit, with the end
  that says which came first; between attempts it waits at least a second and at most fifteen, never less than before.
\<close>

theorem reconnect_loop:
  "fst (run_loop 0 rs) =
     (case dropWhile lost rs of
        [] \<Rightarrow> None
      | (cancelled, r, _) # _ \<Rightarrow> Some (if cancelled then RunCancelled else if r = ConnRejected then RunRejected else RunQuit)) \<and>
   list_all (\<lambda>x. 1 \<le> x \<and> x \<le> 15) (snd (run_loop 0 rs)) \<and> sorted (snd (run_loop 0 rs))"
  using run_loop_waits [of _ 0 rs] run_loop_sorted [of 0 rs] by (auto simp: list_all_iff run_loop_end)

section \<open>The agent and the control plane\<close>

text \<open>The hello of an agent as the control plane decodes it.\<close>

definition read_hello :: "DeviceInfo \<Rightarrow> obj \<Rightarrow> agentHello" where
  "read_hello info m = \<lparr>h_MessageType = stringField m ''message_type'', h_DeviceID = stringField m ''device_id'',
     EnrollmentToken = stringField m ''enrollment_token'', AgentToken = stringField m ''agent_token'', h_DeviceInfo = info\<rparr>"

lemma hello_fields:
  "h_MessageType (read_hello info (hello cfg i a)) = ''agent_hello''" "h_DeviceID (read_hello info (hello cfg i a)) = ag_DeviceID cfg"
  "AgentToken (read_hello info (hello cfg i a)) = (case loadIdentity (ag_identity a) of None \<Rightarrow> '''' | Some token \<Rightarrow> token)"
  by (simp_all add: read_hello_def hello_def stringField_def)

lemma admitted_greeting:
  assumes "registerAgent_hello L W E sock (Some h) sv = (Some d, outs, sv')" "W sock"
  shows "\<exists>m tok. Json sock (MObj m) \<in> set outs \<and> stringField m ''message_type'' = ''agent_config'' \<and> stringField m ''agent_token'' = tok \<and>
    (ValidateAgentToken E (AgentToken h) (h_DeviceID h) (sv_store sv) \<and> tok = AgentToken h \<or> tok = randomToken E 0) \<and>
    ValidateAgentToken E tok (h_DeviceID h) (sv_store sv')"
proof -
  obtain tok s where c: "agent_credentials E h (sv_store sv) = (Some tok, s)"
    and adm: "agent_admitted L W E sock h tok (Server.release (sv\<lparr>sv_store := s\<rparr>)) = (outs, sv')"
    using assms(1) by (auto simp: registerAgent_hello_def split: if_splits option.splits prod.splits)
  have tok: "ValidateAgentToken E (AgentToken h) (h_DeviceID h) (sv_store sv) \<and> tok = AgentToken h \<or> tok = randomToken E 0"
    using c by (auto simp: agent_credentials_def ExchangeEnrollment_Inr split: if_splits prod.splits sum.splits)
  have "agentCredentials (sv_store sv') = agentCredentials s"
    using agent_admitted_state(1) [OF adm] by (simp add: UpsertAgentDevice_def Let_def Server.release_def split: option.split)
  then have "ValidateAgentToken E tok (h_DeviceID h) (sv_store sv')"
    using agent_credentials_spec(1) [OF c] by (simp add: ValidateAgentToken_def)
  moreover have "\<exists>m. Json sock (MObj m) \<in> set outs \<and> stringField m ''message_type'' = ''agent_config'' \<and> stringField m ''agent_token'' = tok"
    using adm assms(2) by (auto simp: agent_admitted_def Let_def setAgent_def stringField_def)
  ultimately show ?thesis using tok by blast
qed

lemma randomToken_nonempty: "randomToken E k \<noteq> []"
  by (cases "take 24 (rand E k @ replicate 24 0)" rule: b64url.cases) (auto simp: randomToken_def)

text \<open>
  C28. An agent that was let in once comes back without a new enrollment: the greeting of the control
  plane carries a token, the agent keeps it, its next hello presents it, and the control plane accepts it as
  the credential of that device as long as the device's credentials are not revoked.
\<close>

theorem admitted_agent_returns:
  assumes "registerAgent_hello L W E sock (Some (read_hello info (hello cfg i a))) sv = (Some d, outs, sv')" "W sock"
    and "\<not> ValidateAgentToken E '''' (ag_DeviceID cfg) (sv_store sv)" "ae_saved A"
    and "sha256 E' = sha256 E" "agentCredentials later = agentCredentials (sv_store sv')"
  shows "\<exists>m. Json sock (MObj m) \<in> set outs \<and>
    (case handleMessage sha A d m a of
       (e, _, a') \<Rightarrow> e = None \<and>
         agent_credentials E' (read_hello info (hello cfg i a')) later = (ag_identity a', later) \<and> ag_identity a' \<noteq> None)"
proof -
  obtain m tok where m: "Json sock (MObj m) \<in> set outs" "stringField m ''message_type'' = ''agent_config''" "stringField m ''agent_token'' = tok"
    and tok: "ValidateAgentToken E (AgentToken (read_hello info (hello cfg i a))) (ag_DeviceID cfg) (sv_store sv) \<and>
        tok = AgentToken (read_hello info (hello cfg i a)) \<or> tok = randomToken E 0"
    and valid: "ValidateAgentToken E tok (ag_DeviceID cfg) (sv_store sv')"
    using admitted_greeting [OF assms(1,2)] by (auto simp: hello_fields)
  have "tok \<noteq> ''''" using tok assms(3) randomToken_nonempty [of E 0] by auto
  moreover have "ValidateAgentToken E' tok (ag_DeviceID cfg) later"
    using valid by (simp add: ValidateAgentToken_def tokenDigest_def assms(5,6))
  ultimately show ?thesis using m assms(4)
    by (intro exI [of _ m]) (auto simp: handleMessage_def saveIdentity_def agent_credentials_def hello_fields loadIdentity_def Let_def)
qed

text \<open>
  C29. An agent that the control plane refuses for its credentials is enrolled anew: the refusal ends the
  connection, the reconnecting loop and the process, whatever came before, and the exit status makes the
  deployer renew the identity before the next start.
\<close>

theorem refused_agent_renewed:
  assumes "registerAgent_hello L W E sock (Some (read_hello info (hello cfg i a))) sv = (None, outs, sv')" "W sock"
    and "trim_space (ag_DeviceID cfg) \<noteq> ''''" "list_all lost earlier"
  shows "\<exists>m. Json sock (MObj m) \<in> set outs \<and> fst (receive sha (ag_DeviceID cfg) ((A, TextFrame (Some m)) # frames) a) = ConnRejected \<and>
    (\<exists>e. fst (run_loop 0 (earlier @ (False, ConnRejected, c) # rest)) = Some e \<and>
       fst (snd (host_turn lasted (Some (ExitCode (exit_status e))) attempt)))"
proof -
  have out0: "Json sock (error_message ''error'' ''agent enrollment rejected'') \<in> set outs"
    using assms by (auto simp: registerAgent_hello_def hello_fields split: option.splits prod.splits)
  have "dropWhile lost (earlier @ (False, ConnRejected, c) # rest) = (False, ConnRejected, c) # rest"
    using assms(4) by (simp add: dropWhile_append2 list_all_iff lost_def)
  then have "fst (run_loop 0 (earlier @ (False, ConnRejected, c) # rest)) = Some RunRejected" by (simp add: run_loop_end)
  then show ?thesis using out0
    by (intro exI [of _ "[(''message_type'', AStr ''error''), (''error'', AStr ''agent enrollment rejected'')]"])
      (simp add: error_message_def handleMessage_def stringField_def exit_status_def host_turn_def Let_def)
qed

lemma executeTask_run:
  assumes "stringField task ''task_id'' = i" "i \<noteq> ''''" "runTask sha B D task w = ((result, e), w')"
  shows "\<exists>report. executeTask sha B D d task w =
      ([[(''message_type'', AStr ''task_started''), (''task_id'', AStr i), (''device_id'', AStr d)],
        [(''message_type'', AStr ''task_result''), (''task_id'', AStr i), (''device_id'', AStr d),
         (''status'', AStr (if e = None then ''success'' else ''failed'')), (''result'', AStr report)]], w')"
  using assms by (auto simp: executeTask_def)

lemma set_status_record:
  assumes "map_of (tasks (sv_store sv)) i = Some t" "map_of (Devices t) d = Some td"
  shows "\<exists>t' td'. map_of (tasks (sv_store (snd (set_status W E d i st res sv)))) i = Some t' \<and> map_of (Devices t') d = Some td' \<and>
    Status td' = st \<and> (\<forall>j. j \<noteq> i \<longrightarrow> map_of (tasks (sv_store (snd (set_status W E d i st res sv)))) j = map_of (tasks (sv_store sv)) j)"
  using assms by (simp add: set_status_def SetTaskStatus_def Let_def)


section \<open>Previews that could not be started\<close>

text \<open>
  C31. A preview that could not be started is not forgotten: the request is answered with an error and
  no preview is active, but the next client that leaves makes the agent start the capture for that
  preview, with nobody watching.
\<close>

theorem failed_preview_lingers:
  assumes "parseStreamOptions (ae_oor E) msg True = Inr options" "stringField msg ''message_type'' = ''start_preview''"
    and "sessions (display (ag_media a)) = []" "process (displayBridge (ag_media a)) = None" "\<not> md_closed (ag_media a)"
    and "\<not> jar_ok (cap (ae_media E) 0)"
    and "jar_ok (cap (ae_media E') 0)" "launched (cap (ae_media E') 0) = Some pid" "\<not> ae_cancelled E'"
    and "handleMessage sha E d msg a = (e, outs, a1)"
    and "handleMessage sha E' d [(''message_type'', AStr ''client_disconnected''), (''client_id'', AStr c)] a1 = (e', outs', a2)"
  shows "e \<noteq> None \<and> \<not> previewActive a1 \<and> process (displayBridge (ag_media a1)) = None \<and>
    \<not> previewActive a2 \<and> \<not> HasSessions (display (ag_media a2)) \<and> process (displayBridge (ag_media a2)) = Some pid"
proof -
  have first: "(e, outs, a1) = start_preview E msg a" using assms(2,10) by (simp add: handleMessage_def)
  have none: "LatestVideoOptions (display (ag_media a)) = (no_options\<lparr>Values := mover [] (Values no_options)\<rparr>, False)"
    by (simp add: LatestVideoOptions_def latest_of_def assms(3) no_session_def Let_def)
  let ?md = "(ag_media a)\<lparr>previewOptions := Some options\<rparr>"
  have "Viewers.StartPreview (ae_oor E) (ae_media E) options (ag_media a) = (False, ?md)"
    using assms(4,6) by (simp add: Viewers.StartPreview_def reconcileDisplay_def none start_display_def Start_def startLocked_def)
  then have a1: "e \<noteq> None" "ag_media a1 = ?md" "\<not> previewActive a1" using first assms(1) by (simp_all add: start_preview_def Let_def)
  have a2: "a2 = client_gone E' c a1" using assms(11) by (simp add: handleMessage_def stringField_def)
  have "process (displayBridge (ag_media a2)) = Some pid"
    using assms(3-5,7-9) a1(2)
    by (simp add: a2 client_gone_def StopIdle_def media_CloseSession_def CloseSession_def reconcileDisplay_def LatestVideoOptions_def
        latest_of_def no_session_def start_display_def Start_def startLocked_def Let_def split: prod.split)
  moreover have "sessions (display (ag_media a2)) = []"
    using StopIdle_same [of "media_CloseSession c (ag_media a1)" "ae_oor E'" "ae_cancelled E'" "ae_media E'"] assms(3) a1(2)
    by (simp add: a2 client_gone_def same_viewers_def media_CloseSession_def CloseSession_def)
  ultimately show ?thesis using a1 assms(4) by (simp add: HasSessions_def a2 client_gone_def)
qed

section \<open>Examples\<close>

text \<open>An agent on a device whose capture starts as process 7, or whose server file is missing.\<close>

definition demo_media_env :: "bool \<Rightarrow> unit media_env" where
  "demo_media_env ok = \<lparr>cap = (\<lambda>_. \<lparr>jar_ok = ok, launched = Some 7, stop_ok = True\<rparr>), adb = False, sdk = 0, waited = False,
     fwd = \<lparr>offer = \<lparr>new_peer = None, offer_ok = False\<rparr>, cand = (\<lambda>_. None), described = False, applied = False, added = False\<rparr>\<rparr>"

definition demo_agent_env :: "bool \<Rightarrow> unit agent_env" where
  "demo_agent_env ok = \<lparr>ae_oor = 0, ae_oor32 = 0, ae_oor_int = 0, ae_media = demo_media_env ok, ae_saved = True, ae_written = True,
     ae_files = \<lparr>entries = None, dir_made = False, removed = False, staged = True\<rparr>, ae_chunk = (0, True, True), ae_moved = True,
     ae_opened = True, ae_ice_ok = (\<lambda>_. True), ae_cancelled = False\<rparr>"

definition demo_agent :: "unit agent" where
  "demo_agent = \<lparr>ag_media = newMediaManager, ag_terms = newTerminalManager, ag_files = newDeviceFileManager, previewActive = False,
     snapshotInterval = 10, ag_identity = None, ag_ice = None\<rparr>"

definition demo_event :: frame where
  "demo_event = TextFrame (Some [(''message_type'', AStr ''group_control_event''),
     (''event'', AObj [(''type'', AStr ''rotate_device'')])])"

definition demo_open :: frame where
  "demo_open = TextFrame (Some [(''message_type'', AStr ''pty_open''), (''client_id'', AStr ''c''), (''session_id'', AStr ''s'')])"

lemma demo_start:
  "queue_ok (displayBridge (ag_media demo_agent))" "- 1 \<le> snapshotInterval demo_agent" "snapshotInterval demo_agent \<le> 3600"
  "list_all frame_ok [(demo_agent_env True, demo_event), (demo_agent_env True, demo_open)]"
  by (simp_all add: demo_agent_def newMediaManager_def newScrcpyBridge_def queue_ok_def demo_event_def demo_open_def frame_ok_def
      stringField_def obj_of_def)

lemmas demo_defs = demo_agent_env_def demo_media_env_def demo_agent_def demo_event_def demo_open_def newMediaManager_def newScrcpyBridge_def
  newTerminalManager_def newDeviceFileManager_def newWebRTCManager_def connect_begin_def

lemma demo_run:
  "\<exists>r outs a. receive (\<lambda>_. []) ''d'' [(demo_agent_env True, demo_event), (demo_agent_env True, demo_open)] (connect_begin demo_agent) = (r, outs, a) \<and>
     br_control (displayBridge (ag_media a)) = [[(''type'', AStr ''rotate_device'')]] \<and>
     handles (ag_terms a) = [\<lparr>h_client = ''c'', h_rows = 24, h_cols = 80, h_open = True, h_input = []\<rparr>]"
  by (simp add: demo_defs handleMessage_def stringField_def obj_of_def browserControlAllowed_def inject_event_def Start_def startLocked_def
      EnqueueControl_def remapControlPosition_def term_open_def open_finish_def open_begin_def term_Close_def closeSession_def uint16Number_def numberField_def Let_def)


theorem gone_client_cleared_witness:
  "\<exists>r outs a e outs' b. receive (\<lambda>_. []) ''d'' [(demo_agent_env True, demo_event), (demo_agent_env True, demo_open)] (connect_begin demo_agent) = (r, outs, a) \<and>
     handleMessage (\<lambda>_. []) (demo_agent_env True) ''d'' [(''message_type'', AStr ''client_disconnected''), (''client_id'', AStr ''c'')] a = (e, outs', b) \<and>
     h_open (handles (ag_terms a) ! 0) \<and> \<not> h_open (handles (ag_terms b) ! 0)"
proof -
  from demo_run obtain r outs a where run: "receive (\<lambda>_. []) ''d'' [(demo_agent_env True, demo_event), (demo_agent_env True, demo_open)]
     (connect_begin demo_agent) = (r, outs, a)"
    and h: "handles (ag_terms a) = [\<lparr>h_client = ''c'', h_rows = 24, h_cols = 80, h_open = True, h_input = []\<rparr>]" by blast
  obtain e outs' b where gone: "handleMessage (\<lambda>_. []) (demo_agent_env True) ''d''
     [(''message_type'', AStr ''client_disconnected''), (''client_id'', AStr ''c'')] a = (e, outs', b)" by (metis prod.exhaust)
  have "\<not> h_open (handles (ag_terms b) ! 0)" using gone_client_cleared [OF demo_start run _ gone] by (simp add: h)
  with run gone h show ?thesis by auto
qed

theorem commit_not_interrupted_witness:
  "\<exists>r outs a. receive (\<lambda>_. []) ''d'' [(demo_agent_env True, demo_event), (demo_agent_env True, demo_open)] (connect_begin demo_agent) = (r, outs, a) \<and>
     fm_pending (ag_files (client_gone (demo_agent_env True) ''c'' a)) = []"
proof -
  from demo_run obtain r outs a where run: "receive (\<lambda>_. []) ''d'' [(demo_agent_env True, demo_event), (demo_agent_env True, demo_open)]
     (connect_begin demo_agent) = (r, outs, a)" by blast
  with commit_not_interrupted [OF run] show ?thesis by blast
qed

lemma demo_preview: "\<exists>options. parseStreamOptions 0 [(''message_type'', AStr ''start_preview'')] True = Inr options"
  by (simp add: parseStreamOptions_def parseBitrateOptions_def bitrate_field_def option_values_def numeric_keys_def
        fps_value_def string_keys_def stringField_def boolField_def zoom_value_def orientation_value_def
        audio_source_values_def value_of_def format_bool_def line_break_def)

theorem failed_preview_lingers_witness:
  "\<exists>e outs a1 e' outs' a2. handleMessage (\<lambda>_. []) (demo_agent_env False) ''d'' [(''message_type'', AStr ''start_preview'')] demo_agent = (e, outs, a1) \<and>
     handleMessage (\<lambda>_. []) (demo_agent_env True) ''d'' [(''message_type'', AStr ''client_disconnected''), (''client_id'', AStr ''c'')] a1 = (e', outs', a2) \<and>
     e \<noteq> None \<and> process (displayBridge (ag_media a2)) = Some 7"
proof -
  obtain options where p: "parseStreamOptions (ae_oor (demo_agent_env False)) [(''message_type'', AStr ''start_preview'')] True = Inr options"
    using demo_preview by (auto simp: demo_agent_env_def)
  obtain e outs a1 where one: "handleMessage (\<lambda>_. []) (demo_agent_env False) ''d'' [(''message_type'', AStr ''start_preview'')] demo_agent = (e, outs, a1)"
    by (metis prod.exhaust)
  obtain e' outs' a2 where two: "handleMessage (\<lambda>_. []) (demo_agent_env True) ''d''
      [(''message_type'', AStr ''client_disconnected''), (''client_id'', AStr ''c'')] a1 = (e', outs', a2)"
    by (metis prod.exhaust)
  have "e \<noteq> None \<and> process (displayBridge (ag_media a2)) = Some 7"
    using failed_preview_lingers [OF p _ _ _ _ _ _ _ _ one two, of 7] by (simp add: demo_defs stringField_def)
  with one two show ?thesis by blast
qed

definition demo_agent_config :: agent_config where
  "demo_agent_config = \<lparr>ADBSerial = '''', ADBServer = '''', ag_DeviceID = ''root'', SignalingURL = ''ws://h'', ag_EnrollmentToken = '''',
     IdentityPath = '''', PIDPath = '''', ScrcpyJar = '''', ScrcpyVersion = '''', HealthCheck = False\<rparr>"

theorem admitted_agent_returns_witness:
  "\<exists>d outs sv m. registerAgent_hello demo_web (\<lambda>_. True) (demo_env 5 1) 9
       (Some (read_hello no_info (hello demo_agent_config ANil (demo_agent\<lparr>ag_identity := Some ''a''\<rparr>)))) demo_enrolled_server = (Some d, outs, sv) \<and>
     Json 9 (MObj m) \<in> set outs \<and>
     ag_identity (snd (snd (handleMessage (\<lambda>_. []) (demo_agent_env True) d m (demo_agent\<lparr>ag_identity := Some ''a''\<rparr>)))) \<noteq> None"
proof -
  let ?a = "demo_agent\<lparr>ag_identity := Some ''a''\<rparr>"
  let ?r = "registerAgent_hello demo_web (\<lambda>_. True) (demo_env 5 1) 9 (Some (read_hello no_info (hello demo_agent_config ANil ?a))) demo_enrolled_server"
  have "\<exists>outs sv. ?r = (Some ''root'', outs, sv)"
    using demo_hello_valid by (simp add: registerAgent_hello_def agent_credentials_def trim_root hello_fields demo_agent_config_def loadIdentity_def
        split: prod.split)
  then obtain outs sv where r: "?r = (Some ''root'', outs, sv)" by blast
  have none: "\<not> ValidateAgentToken (demo_env 5 1) '''' (ag_DeviceID demo_agent_config) (sv_store demo_enrolled_server)"
    by (simp add: ValidateAgentToken_def demo_enrolled_server_def tokenDigest_def bytes_def)
  have saved: "ae_saved (demo_agent_env True)" by (simp add: demo_agent_env_def)
  from admitted_agent_returns [OF r _ none, of "demo_agent_env True" "demo_env 6 1" "sv_store sv" "\<lambda>_. []"]
  obtain m where "Json 9 (MObj m) \<in> set outs"
    "ag_identity (snd (snd (handleMessage (\<lambda>_. []) (demo_agent_env True) ''root'' m ?a))) \<noteq> None"
    by (auto simp: saved case_prod_beta)
  with r show ?thesis by blast
qed

theorem refused_agent_renewed_witness:
  "\<exists>outs sv m. registerAgent_hello demo_web (\<lambda>_. True) (demo_env 5 1) 9
       (Some (read_hello no_info (hello demo_agent_config ANil demo_agent))) (demo_server\<lparr>sv_store := demo_users\<lparr>enrollments := [], agentCredentials := []\<rparr>\<rparr>) =
       (None, outs, sv) \<and>
     Json 9 (MObj m) \<in> set outs \<and> fst (receive (\<lambda>_. []) ''root'' [(demo_agent_env True, TextFrame (Some m))] demo_agent) = ConnRejected \<and>
     fst (snd (host_turn 5 (Some (ExitCode 3)) 0))"
proof -
  let ?sv = "demo_server\<lparr>sv_store := demo_users\<lparr>enrollments := [], agentCredentials := []\<rparr>\<rparr>"
  let ?r = "registerAgent_hello demo_web (\<lambda>_. True) (demo_env 5 1) 9 (Some (read_hello no_info (hello demo_agent_config ANil demo_agent))) ?sv"
  have "\<exists>outs sv. ?r = (None, outs, sv)"
    by (simp add: registerAgent_hello_def agent_credentials_def ValidateAgentToken_def ExchangeEnrollment_def trim_root hello_fields
        demo_agent_config_def Let_def split: prod.split)
  then obtain outs sv where r: "?r = (None, outs, sv)" by blast
  have "trim_space (ag_DeviceID demo_agent_config) \<noteq> ''''" "ag_DeviceID demo_agent_config = ''root''"
    by (simp_all add: demo_agent_config_def trim_root)
  with refused_agent_renewed [OF r, of "[]" "\<lambda>_. []" "demo_agent_env True" "[]" False "[]" 5 0] r show ?thesis
    by (auto simp: exit_status_def)
qed

definition demo_task_server :: "unit server" where
  "demo_task_server = demo_server\<lparr>sv_store := demo_users\<lparr>tasks := [(''t1'', \<lparr>tk_ID = ''t1'', Type = ''push_file'', Payload = '''',
     AssetID = ''as'', DestPath = ''/sdcard/a'', tk_CreatedBy = ''u1'', tk_CreatedAt = 1, tk_ExpiresAt = 100,
     Devices = [(''d'', \<lparr>td_DeviceID = ''d'', Status = TaskLeased, Result = '''', UpdatedAt = 1\<rparr>)]\<rparr>)]\<rparr>\<rparr>"


end
