(* ===== verification/Deployment.thy ===== *)
theory Deployment
  imports Api ShellV2
begin

text \<open>
  \<open>deployment.go\<close>: the package that an administrator downloads to bring an agent onto a device, and the
  single artifacts of it. The URL parser, the files of the server and the archive writer answer as
  parameters (\<open>deploy_env\<close>); an archive is the list of its entries. The shell that reads \<open>config.env\<close>
  on the other side is specified by \<open>sh_source\<close>. The last section follows a package from the
  request to the admission of the agent that was started from it.
\<close>

section \<open>Artifacts\<close>

definition deviceABIs :: "string list" where
  "deviceABIs = [''arm64-v8a'', ''armeabi-v7a'', ''x86_64'', ''x86'']"

definition agent_path :: "web \<Rightarrow> 'p Config \<Rightarrow> string \<Rightarrow> string" where
  "agent_path L c abi = path_join L [AgentDir c, abi, ''scrcpycat-agent'']"

text \<open>\<open>serve_file\<close> is \<open>http.ServeFile\<close> on a path that the program has chosen.\<close>

definition agentArtifact :: "web \<Rightarrow> (string \<Rightarrow> response) \<Rightarrow> request \<Rightarrow> 'p server \<Rightarrow> 'p reply" where
  "agentArtifact L serve_file r sv =
     (if Method r \<noteq> ''GET'' then methodNotAllowed sv
      else
        (let name = trim_prefix ''/agent/'' (URLPath r);
             path = (if name = ''scrcpy-server.jar'' then Config.ScrcpyJar (config sv) else '''');
             path = fold (\<lambda>abi path. if name = abi @ ''/scrcpycat-agent'' then agent_path L (config sv) abi else path) deviceABIs path
         in if path = '''' then fail 404 ''artifact not found'' sv
            else
              (let resp = serve_file path in
               (resp\<lparr>headers := mover [(''Cache-Control'', ''private, no-store''), (''Content-Type'', ''application/octet-stream'')] (headers resp)\<rparr>,
                [], sv))))"

section \<open>The signaling address\<close>

text \<open>
  What \<open>url.Parse\<close> says of an address: its scheme, the host as \<open>String\<close> writes it, the host name, whether
  there is user information, and whether the address ends with a bare question mark, which
  \<open>String\<close> writes again.
\<close>

record parsed_url =
  pu_scheme :: string
  pu_host :: string
  pu_hostname :: string
  pu_user :: bool
  pu_force_query :: bool

definition signalingEndpoint :: "(string \<Rightarrow> parsed_url option) \<Rightarrow> string \<Rightarrow> string + string" where
  "signalingEndpoint parse raw =
     (case parse raw of
        None \<Rightarrow> Inl ''invalid signaling address''
      | Some endpoint \<Rightarrow>
          (if pu_hostname endpoint = '''' \<or> pu_user endpoint then Inl ''invalid signaling address''
           else
             (let written = (\<lambda>scheme. scheme @ ''://'' @ pu_host endpoint @ ''/register_agent'' @ (if pu_force_query endpoint then ''?'' else ''''))
              in if pu_scheme endpoint = ''http'' then Inr (written ''ws'')
                 else if pu_scheme endpoint = ''https'' then Inr (written ''wss'')
                 else if pu_scheme endpoint = ''ws'' \<or> pu_scheme endpoint = ''wss'' then Inr (written (pu_scheme endpoint))
                 else Inl ''signaling address requires ws:// or wss://'')))"

section \<open>The package\<close>

definition shellQuote :: "string \<Rightarrow> string" where
  "shellQuote value = [CHR 0x27] @ escape_quotes value @ [CHR 0x27]"

definition valid_device_id :: "string \<Rightarrow> bool" where
  "valid_device_id i \<longleftrightarrow> 1 \<le> length i \<and> length i \<le> 32 \<and>
     list_all (\<lambda>c. c \<in> set ''ABCDEFGHIJKLMNOPQRSTUVWXYZabcdefghijklmnopqrstuvwxyz0123456789_.-'') i"

definition config_env :: "string \<Rightarrow> string \<Rightarrow> string \<Rightarrow> string" where
  "config_env i sig token =
     ''SCRCPYCAT_DEVICE_ID='' @ shellQuote i @ [CHR 0x0A] @ ''SCRCPYCAT_SIGNALING='' @ shellQuote sig @ [CHR 0x0A] @
     ''SCRCPYCAT_ENROLLMENT_TOKEN='' @ shellQuote token @ [CHR 0x0A]"

text \<open>
  \<open>json.MarshalIndent\<close> of a map of three strings, with its keys in order. The strings are ASCII: the
  identifier and the token by their alphabets, the host because \<open>String\<close> escapes all other bytes.
\<close>

definition json_char :: "char \<Rightarrow> string" where
  "json_char c =
     (if c = CHR 0x22 \<or> c = CHR 0x5C then [CHR 0x5C, c]
      else if c = CHR 0x0A then [CHR 0x5C, CHR ''n'']
      else if c = CHR 0x0D then [CHR 0x5C, CHR ''r'']
      else if c = CHR 0x09 then [CHR 0x5C, CHR ''t'']
      else if c = CHR 0x08 then [CHR 0x5C, CHR ''b'']
      else if c = CHR 0x0C then [CHR 0x5C, CHR ''f'']
      else if (of_char c :: nat) < 32 \<or> c \<in> set ''<>&'' then [CHR 0x5C] @ ''u00'' @ hex_string [of_char c]
      else [c])"

definition json_text :: "string \<Rightarrow> string" where
  "json_text s = [CHR 0x22] @ concat (map json_char s) @ [CHR 0x22]"

definition config_json :: "string \<Rightarrow> string \<Rightarrow> string \<Rightarrow> string" where
  "config_json i sig token =
     ''{'' @ concat (map (\<lambda>(sep, k, v). sep @ [CHR 0x0A] @ ''  '' @ json_text k @ '': '' @ json_text v)
       [('''', ''device_id'', i), ('','', ''enrollment_token'', token), ('','', ''signaling'', sig)]) @ [CHR 0x0A] @ ''}''"

text \<open>One entry of the archive: its name, its contents and whether it is executable.\<close>

record zip_entry =
  ze_name :: string
  ze_content :: "byte list"
  ze_executable :: bool

text \<open>
  What the package is made from: the parser of addresses, whether a path is a regular file, the
  contents of an embedded asset and of a file, whether the archive takes its entry with a given
  number, the order in which Go visits its two maps, and the bytes of an archive.
\<close>

record deploy_env =
  de_parse :: "string \<Rightarrow> parsed_url option"
  de_regular :: "string \<Rightarrow> bool"
  de_asset :: "string \<Rightarrow> byte list option"
  de_file :: "string \<Rightarrow> byte list option"
  de_added :: "nat \<Rightarrow> bool"
  de_names :: "string gomap \<Rightarrow> string gomap"
  de_zip :: "zip_entry list \<Rightarrow> byte list"

definition package_payloads :: "web \<Rightarrow> 'p Config \<Rightarrow> string gomap" where
  "package_payloads L c =
     (''scrcpy-server.jar'', Config.ScrcpyJar c) # map (\<lambda>abi. (''bin/'' @ abi @ ''/scrcpycat-agent'', agent_path L c abi)) deviceABIs"

definition package_scripts :: "string \<Rightarrow> string gomap" where
  "package_scripts mode =
     (if mode = ''magisk''
      then [(''service.sh'', ''service.sh''), (''customize.sh'', ''customize.sh''), (''module.prop'', ''module.prop''),
            (''action.sh'', ''action.sh''), (''system/bin/scrcpycatctl'', ''scrcpycatctl'')]
      else [(''run.sh'', ''run.sh''), (''run.ps1'', ''run.ps1''), (''run.bat'', ''run.bat'')])"

text \<open>
  The entries in the order in which they are written. Each comes with its contents, \<open>None\<close> when they
  cannot be read; the loop ends at the first entry that cannot be read or written.
\<close>

fun add_entries :: "(nat \<Rightarrow> bool) \<Rightarrow> nat \<Rightarrow> (string \<times> byte list option \<times> bool) list \<Rightarrow> bool \<times> zip_entry list" where
  "add_entries taken k [] = (True, [])"
| "add_entries taken k ((name, content, executable) # es) =
     (case content of
        None \<Rightarrow> (False, [])
      | Some bs \<Rightarrow>
          (if \<not> taken k then (False, [])
           else
             (case add_entries taken (k + 1) es of
                (all, rest) \<Rightarrow> (all, \<lparr>ze_name = name, ze_content = bs, ze_executable = executable\<rparr> # rest))))"

definition package_entries ::
  "web \<Rightarrow> 'p Config \<Rightarrow> deploy_env \<Rightarrow> string \<Rightarrow> string \<Rightarrow> string \<Rightarrow> string \<Rightarrow> (string \<times> byte list option \<times> bool) list" where
  "package_entries L c D mode i sig token =
     [(''config.env'', Some (bytes (config_env i sig token)), False),
      (''config.json'', Some (bytes (config_json i sig token)), False)] @
     map (\<lambda>(target, source). (target, de_asset D source, suffix ''.sh'' source \<or> source = ''scrcpycatctl'')) (de_names D (package_scripts mode)) @
     map (\<lambda>(target, source). (target, de_file D source, suffix ''scrcpycat-agent'' target)) (de_names D (package_payloads L c))"

text \<open>
  The checks before anything is made: the mode, the identifier, the address and the files. The
  environment of the result is what is left of the random bytes when an identifier was drawn.
\<close>

definition package_request ::
  "web \<Rightarrow> deploy_env \<Rightarrow> env \<Rightarrow> request \<Rightarrow> obj option \<Rightarrow> 'p server \<Rightarrow> nat \<times> string + string \<times> string \<times> string \<times> env" where
  "package_request L D E r decoded sv =
     (if Method r \<noteq> ''POST'' then Inl (405, ''method not allowed'')
      else case decoded of
        None \<Rightarrow> Inl (400, ''invalid deployment request'')
      | Some req \<Rightarrow>
          (let mode = stringField req ''mode''; given = stringField req ''device_id'';
               i = (if given = '''' then ''android-'' @ take 12 (randomID E 0) else given);
               E = (if given = '''' then skip 1 E else E);
               raw = (if stringField req ''signaling'' = '''' then PublicURL (config sv) else stringField req ''signaling'')
           in if mode \<noteq> ''adb'' \<and> mode \<noteq> ''magisk'' then Inl (400, ''mode must be adb or magisk'')
              else if \<not> valid_device_id i then Inl (400, ''invalid device ID'')
              else
                (case signalingEndpoint (de_parse D) raw of
                   Inl e \<Rightarrow> Inl (400, e)
                 | Inr sig \<Rightarrow>
                     (if \<not> list_all (\<lambda>(_, path). de_regular D path) (package_payloads L (config sv))
                      then Inl (503, ''Agent artifacts have not been built or mounted'')
                      else Inr (mode, i, sig, E)))))"

definition package_response :: "deploy_env \<Rightarrow> string \<Rightarrow> zip_entry list \<Rightarrow> response" where
  "package_response D mode entries =
     \<lparr>status = 200, body = PFile (''scrcpycat-'' @ mode @ ''.zip'') (de_zip D entries),
      headers = [(''Content-Type'', ''application/zip''),
        (''Content-Disposition'', ''attachment; filename='' @ [CHR 0x22] @ ''scrcpycat-'' @ mode @ ''.zip'' @ [CHR 0x22]),
        (''Cache-Control'', ''private, no-store'')]\<rparr>"

definition deploymentPackage ::
  "web \<Rightarrow> deploy_env \<Rightarrow> env \<Rightarrow> request \<Rightarrow> User \<Rightarrow> obj option \<Rightarrow> 'p server \<Rightarrow> 'p reply" where
  "deploymentPackage L D E r user decoded sv =
     (case package_request L D E r decoded sv of
        Inl (code, msg) \<Rightarrow> fail code msg sv
      | Inr (mode, i, sig, E) \<Rightarrow>
          (let (enrollment, s) = CreateEnrollment E i (24 * Hour) (sv_store sv);
               sv = sv\<lparr>sv_store := s\<rparr>;
               (whole, entries) = add_entries (de_added D) 0 (package_entries L (config sv) D mode i sig (e_Token enrollment))
           in (package_response D mode entries, [],
               (if whole then audit (skip 1 E) user ''deployment.package'' i [(''mode'', AStr mode)] sv else sv))))"

text \<open>Both routes are registered for administrators.\<close>

definition package_route :: "jwt \<Rightarrow> web \<Rightarrow> deploy_env \<Rightarrow> env \<Rightarrow> request \<Rightarrow> obj option \<Rightarrow> 'p server \<Rightarrow> 'p reply" where
  "package_route J L D E r decoded sv = requireAdmin J E r (\<lambda>user. deploymentPackage L D E r user decoded) sv"

definition artifact_route :: "jwt \<Rightarrow> web \<Rightarrow> (string \<Rightarrow> response) \<Rightarrow> env \<Rightarrow> request \<Rightarrow> 'p server \<Rightarrow> 'p reply" where
  "artifact_route J L serve_file E r sv = requireAdmin J E r (\<lambda>_. agentArtifact L serve_file r) sv"

section \<open>Reading the configuration\<close>

text \<open>
  How a POSIX shell sources a file that consists of assignments: the name up to the equals sign, then
  one word up to the end of the line, with single quotes and backslashes as in \<open>sh_words\<close>. Anything
  that a shell would expand or run makes the result \<open>None\<close>, as does a zero byte.
\<close>

fun src_plain :: "string \<Rightarrow> string \<Rightarrow> (string \<times> string) option"
  and src_quoted :: "string \<Rightarrow> string \<Rightarrow> (string \<times> string) option" where
  "src_plain w [] = Some (w, [])"
| "src_plain w (c # s) =
     (if c = CHR 0x0A then Some (w, s)
      else if c = CHR 0x27 then src_quoted w s
      else if c = CHR 0x5C then (case s of [] \<Rightarrow> None | d # r \<Rightarrow> if d = CHR 0x0A then None else src_plain (w @ [d]) r)
      else if sh_special c \<or> c = CHR 0x20 \<or> c = CHR 0x00 then None
      else src_plain (w @ [c]) s)"
| "src_quoted w [] = None"
| "src_quoted w (c # s) = (if c = CHR 0x27 then src_plain w s else if c = CHR 0x00 then None else src_quoted (w @ [c]) s)"

lemma src_shorter:
  "src_plain w s = Some (v, r) \<Longrightarrow> length r \<le> length s"
  "src_quoted w s = Some (v, r) \<Longrightarrow> length r \<le> length s"
  by (induction w s and w s arbitrary: v r and v r rule: src_plain_src_quoted.induct)
    (fastforce split: if_splits list.splits)+

definition sh_name :: "string \<Rightarrow> bool" where
  "sh_name n \<longleftrightarrow> n \<noteq> '''' \<and> list_all (\<lambda>c. c \<in> set ''ABCDEFGHIJKLMNOPQRSTUVWXYZ_'') n"

function sh_source :: "string \<Rightarrow> string gomap \<Rightarrow> string gomap option" where
  "sh_source s vars =
     (if s = '''' then Some vars
      else
        (let n = takeWhile (\<lambda>c. c \<noteq> CHR ''='') s in
         if \<not> sh_name n \<or> length n = length s then None
         else
           (case src_plain '''' (drop (length n + 1) s) of
              None \<Rightarrow> None
            | Some (v, r) \<Rightarrow> sh_source r (mput n v vars))))"
  by pat_completeness auto
termination
proof (relation "measure (\<lambda>(s, vars). length s)")
  fix s vars n p v r
  assume s: "s \<noteq> ''''" and n: "n = takeWhile (\<lambda>c. c \<noteq> CHR ''='') s" "\<not> (\<not> sh_name n \<or> length n = length s)"
    and run: "src_plain '''' (drop (length n + 1) s) = Some p" "(v, r) = p"
  from run have "length r \<le> length (drop (length n + 1) s)" using src_shorter(1) by metis
  with s show "((r, mput n v vars), s, vars) \<in> measure (\<lambda>(s, vars). length s)" by (cases s) auto
qed simp

declare sh_source.simps [simp del]

lemma src_quoted_escape: "CHR 0x00 \<notin> set v \<Longrightarrow> src_quoted w (escape_quotes v @ CHR 0x27 # r) = src_plain (w @ v) r"
  by (induction v arbitrary: w) auto

lemma src_shellQuote: "CHR 0x00 \<notin> set v \<Longrightarrow> src_plain '''' (shellQuote v @ CHR 0x0A # r) = Some (v, r)"
  by (simp add: shellQuote_def src_quoted_escape)

lemma sh_source_line:
  assumes "sh_name n" "CHR 0x00 \<notin> set v"
  shows "sh_source (n @ CHR ''='' # shellQuote v @ CHR 0x0A # r) vars = sh_source r (mput n v vars)"
proof -
  have "CHR ''='' \<notin> set ''ABCDEFGHIJKLMNOPQRSTUVWXYZ_''" by simp
  then have "CHR ''='' \<notin> set n" using assms(1) unfolding sh_name_def list_all_iff by blast
  then have "takeWhile (\<lambda>c. c \<noteq> CHR ''='') (n @ CHR ''='' # shellQuote v @ CHR 0x0A # r) = n"
    by (subst takeWhile_append2) auto
  with assms show ?thesis by (subst sh_source.simps) (simp add: src_shellQuote)
qed

lemma config_env_source:
  assumes "CHR 0x00 \<notin> set i \<union> set sig \<union> set token"
  shows "sh_source (config_env i sig token) [] =
    Some [(''SCRCPYCAT_DEVICE_ID'', i), (''SCRCPYCAT_SIGNALING'', sig), (''SCRCPYCAT_ENROLLMENT_TOKEN'', token)]"
proof -
  have lines: "sh_source (n1 @ CHR ''='' # shellQuote i @ CHR 0x0A # n2 @ CHR ''='' # shellQuote sig @ CHR 0x0A #
      n3 @ CHR ''='' # shellQuote token @ [CHR 0x0A]) [] = sh_source '''' (mput n3 token (mput n2 sig (mput n1 i [])))"
    if "sh_name n1" "sh_name n2" "sh_name n3" for n1 n2 n3
    using assms that by (simp add: sh_source_line)
  have "sh_name ''SCRCPYCAT_DEVICE_ID''" "sh_name ''SCRCPYCAT_SIGNALING''" "sh_name ''SCRCPYCAT_ENROLLMENT_TOKEN''"
    by (simp_all add: sh_name_def)
  from lines [OF this] show ?thesis by (simp add: config_env_def sh_source.simps [of "''''"])
qed

section \<open>What a request for a package does\<close>

lemma package_request_valid:
  assumes "package_request L D E r decoded sv = Inr (mode, i, sig, E')"
  shows "valid_device_id i \<and> (\<exists>raw. signalingEndpoint (de_parse D) raw = Inr sig) \<and> now E' = now E \<and> sha256 E' = sha256 E"
  using assms by (auto simp: package_request_def skip_def Let_def split: if_splits option.splits sum.splits)

lemma package_refused_code: "package_request L D E r decoded sv = Inl (code, msg) \<Longrightarrow> code \<noteq> 200"
  by (auto simp: package_request_def Let_def split: if_splits option.splits sum.splits)

text \<open>Every refusal comes before the enrollment is made, and a package that is sent carries the token of it.\<close>

lemma package_outcome:
  assumes "deploymentPackage L D E r user decoded sv = (resp, outs, sv')"
  obtains (refused) "status resp \<noteq> 200" "outs = []" "sv' = sv"
  | (sent) mode i sig E' whole entries where "package_request L D E r decoded sv = Inr (mode, i, sig, E')"
    "add_entries (de_added D) 0 (package_entries L (config sv) D mode i sig (randomToken E' 0)) = (whole, entries)"
    "resp = package_response D mode entries"
    "enrollments (sv_store sv') = mput (tokenDigest E' (randomToken E' 0))
       \<lparr>e_Token = '''', e_ExpiresAt = now E' + 24 * Hour, e_DeviceID = i, DeploymentCredentialID = ''''\<rparr> (enrollments (sv_store sv))"
proof (cases "package_request L D E r decoded sv")
  case (Inl x)
  obtain code msg where "x = (code, msg)" by (cases x)
  with Inl assms package_refused_code [of L D E r decoded sv code msg] show ?thesis
    by (intro refused) (auto simp: deploymentPackage_def fail_def writeError_def reply_def)
next
  case (Inr x)
  obtain mode i sig E' where x: "x = (mode, i, sig, E')" by (metis prod.exhaust)
  obtain whole entries where
    a: "add_entries (de_added D) 0 (package_entries L (config sv) D mode i sig (randomToken E' 0)) = (whole, entries)"
    by (metis prod.exhaust)
  show ?thesis
    using assms Inr x a
    by (intro sent [of mode i sig E' whole entries])
      (auto simp: deploymentPackage_def CreateEnrollment_def Let_def audit_def Audit_def auditLocked_def)
qed

end
