(* ===== verification/DeploymentProps.thy ===== *)
theory DeploymentProps
  imports Deployment ApiProps AgentProps
begin

text \<open>
  What an administrator's package promises: only administrators get one, its configuration is read back
  exactly by the shell, and an agent that is started with it is let in by the control plane.
\<close>

section \<open>From the package to the admission\<close>

lemma valid_id_plain:
  assumes "valid_device_id i"
  shows "trim_space i = i" "i \<noteq> ''''" "CHR 0x00 \<notin> set i"
proof -
  have "list_all (\<lambda>c. plain_char c \<and> c \<noteq> CHR 0x00) ''ABCDEFGHIJKLMNOPQRSTUVWXYZabcdefghijklmnopqrstuvwxyz0123456789_.-''"
    by code_simp
  then have plain: "plain_char c \<and> c \<noteq> CHR 0x00" if "c \<in> set i" for c
    using assms that unfolding valid_device_id_def list_all_iff by blast
  have ne: "i \<noteq> []" using assms by (auto simp: valid_device_id_def)
  then show "trim_space i = i" using plain [of "hd i"] plain [of "last i"] by (intro trim_space_id) auto
  show "i \<noteq> ''''" "CHR 0x00 \<notin> set i" using ne plain by auto
qed

lemma token_no_null: "CHR 0x00 \<notin> set (randomToken E k)"
proof -
  have "CHR 0x00 \<notin> set ''ABCDEFGHIJKLMNOPQRSTUVWXYZabcdefghijklmnopqrstuvwxyz0123456789-_''" by simp
  then have c: "b64_char n \<noteq> CHR 0x00" for n using b64_char_alphabet [of n] by metis
  have "CHR 0x00 \<notin> set (b64url bs)" for bs by (induction bs rule: b64url.induct) (simp_all add: c [symmetric])
  then show ?thesis by (simp add: randomToken_def)
qed

lemma endpoint_websocket:
  assumes "signalingEndpoint parse raw = Inr sig" "\<And>u. parse raw = Some u \<Longrightarrow> CHR 0x00 \<notin> set (pu_host u)"
  shows "CHR 0x00 \<notin> set sig" "prefix ''ws://'' sig \<or> prefix ''wss://'' sig"
  using assms by (auto simp: signalingEndpoint_def Let_def split: option.splits if_splits)

text \<open>The URL parser of the standard library refuses control characters.\<close>

definition parser_ok :: "(string \<Rightarrow> parsed_url option) \<Rightarrow> bool" where
  "parser_ok parse \<longleftrightarrow> (\<forall>raw u. parse raw = Some u \<longrightarrow> CHR 0x00 \<notin> set (pu_host u))"

text \<open>What the scripts of the package do with the variables: they start the agent with them.\<close>

definition started_with :: "string gomap \<Rightarrow> agent_config \<Rightarrow> bool" where
  "started_with vars cfg \<longleftrightarrow> ADBSerial cfg = '''' \<and> map_of vars ''SCRCPYCAT_DEVICE_ID'' = Some (ag_DeviceID cfg) \<and>
     map_of vars ''SCRCPYCAT_SIGNALING'' = Some (agent_config.SignalingURL cfg) \<and> map_of vars ''SCRCPYCAT_ENROLLMENT_TOKEN'' = Some (ag_EnrollmentToken cfg)"

lemma resolved_fields:
  "ADBSerial cfg = '''' \<Longrightarrow> ag_DeviceID (Agent.ResolveDefaults sha cfg) = ag_DeviceID cfg"
  "agent_config.SignalingURL (Agent.ResolveDefaults sha cfg) = agent_config.SignalingURL cfg"
  "ag_EnrollmentToken (Agent.ResolveDefaults sha cfg) = ag_EnrollmentToken cfg"
  "ADBSerial cfg = '''' \<Longrightarrow> IdentityPath (Agent.ResolveDefaults sha cfg) \<noteq> '''' \<and> PIDPath (Agent.ResolveDefaults sha cfg) \<noteq> ''''"
  by (simp_all add: Agent.ResolveDefaults_def Let_def or_else_def)

lemma enrolled_hello:
  assumes "map_of (enrollments (sv_store sv)) (tokenDigest E token) =
      Some \<lparr>e_Token = '''', e_ExpiresAt = t, e_DeviceID = d, DeploymentCredentialID = ''''\<rparr>" "now E < t"
    "trim_space d \<noteq> ''''" "ag_DeviceID cfg = d" "ag_EnrollmentToken cfg = token"
  shows "fst (registerAgent_hello L W E sock (Some (read_hello info (hello cfg x a))) sv) = Some d"
proof -
  have "agentHello.EnrollmentToken (read_hello info (hello cfg x a)) = token" using assms(5) by (simp add: read_hello_def hello_def stringField_def)
  then show ?thesis using assms
    by (simp add: registerAgent_hello_def hello_fields agent_credentials_def ExchangeEnrollment_def Let_def split: prod.split)
qed

text \<open>
  C35. A package brings its agent in. Whatever identifier and address an administrator asks for, the
  shell that sources the configuration of the package gets exactly the identifier, the address and the
  token; an agent started with them accepts its configuration; and as long as the token is not used up,
  for a day, the control plane admits that agent as that device.
\<close>

theorem packaged_agent_enrolls:
  assumes "deploymentPackage L D E r user decoded sv = (resp, outs, sv')" "status resp = 200" "de_added D 0"
    and parser: "parser_ok (de_parse D)"
    and later: "enrollments (sv_store sv2) = enrollments (sv_store sv')" "sha256 E2 = sha256 E" "now E2 < now E + 24 * Hour"
  shows "\<exists>name entries content vars i sig. body resp = PFile name (de_zip D entries) \<and>
    \<lparr>ze_name = ''config.env'', ze_content = content, ze_executable = False\<rparr> \<in> set entries \<and>
    sh_source (string_of content) [] = Some vars \<and>
    (\<exists>raw. signalingEndpoint (de_parse D) raw = Inr sig) \<and> map_of vars ''SCRCPYCAT_SIGNALING'' = Some sig \<and>
    valid_device_id i \<and>
    (\<forall>cfg info x a. started_with vars cfg \<longrightarrow>
       Agent.Validate (Agent.ResolveDefaults sha cfg) = None \<and>
       fst (registerAgent_hello L' W E2 sock (Some (read_hello info (hello (Agent.ResolveDefaults sha cfg) x a))) sv2) = Some i)"
proof -
  obtain mode i sig E' whole entries where req: "package_request L D E r decoded sv = Inr (mode, i, sig, E')"
    and add: "add_entries (de_added D) 0 (package_entries L (config sv) D mode i sig (randomToken E' 0)) = (whole, entries)"
    and resp: "resp = package_response D mode entries"
    and enr: "enrollments (sv_store sv') = mput (tokenDigest E' (randomToken E' 0))
       \<lparr>e_Token = '''', e_ExpiresAt = now E' + 24 * Hour, e_DeviceID = i, DeploymentCredentialID = ''''\<rparr> (enrollments (sv_store sv))"
    using assms(1,2) by (cases rule: package_outcome) auto
  let ?token = "randomToken E' 0"
  obtain raw where i: "valid_device_id i" and raw: "signalingEndpoint (de_parse D) raw = Inr sig"
    and E': "now E' = now E" "sha256 E' = sha256 E"
    using package_request_valid [OF req] by blast
  let ?c = "bytes (config_env i sig ?token)"
  have entry: "\<lparr>ze_name = ''config.env'', ze_content = ?c, ze_executable = False\<rparr> \<in> set entries"
    using add assms(3) by (auto simp: package_entries_def split: prod.splits)
  have sig: "CHR 0x00 \<notin> set sig" "prefix ''ws://'' sig \<or> prefix ''wss://'' sig" using endpoint_websocket [OF raw] parser by (auto simp: parser_ok_def)
  let ?vars = "[(''SCRCPYCAT_DEVICE_ID'', i), (''SCRCPYCAT_SIGNALING'', sig), (''SCRCPYCAT_ENROLLMENT_TOKEN'', ?token)]"
  have vars: "sh_source (string_of ?c) [] = Some ?vars"
    using config_env_source [of i sig ?token] valid_id_plain(3) [OF i] sig(1) token_no_null by simp
  have known: "map_of (enrollments (sv_store sv2)) (tokenDigest E2 ?token) =
      Some \<lparr>e_Token = '''', e_ExpiresAt = now E + 24 * Hour, e_DeviceID = i, DeploymentCredentialID = ''''\<rparr>"
    using enr E' later by (simp add: tokenDigest_def)
  have "Agent.Validate (Agent.ResolveDefaults sha cfg) = None \<and>
     fst (registerAgent_hello L' W E2 sock (Some (read_hello info (hello (Agent.ResolveDefaults sha cfg) x a))) sv2) = Some i"
    if "started_with ?vars cfg" for cfg info x a
  proof -
    have cfg: "ADBSerial cfg = ''''" "ag_DeviceID cfg = i" "agent_config.SignalingURL cfg = sig" "ag_EnrollmentToken cfg = ?token"
      using that by (simp_all add: started_with_def)
    then show ?thesis
      using enrolled_hello [OF known later(3)] valid_id_plain [OF i] sig(2) resolved_fields [where cfg = cfg and sha = sha]
      by (simp add: Agent.Validate_def)
  qed
  then show ?thesis using entry vars i raw resp
    by (intro exI [of _ "''scrcpycat-'' @ mode @ ''.zip''"] exI [of _ entries] exI [of _ ?c] exI [of _ ?vars] exI [of _ i] exI [of _ sig])
      (auto simp: package_response_def)
qed


definition demo_deploy_env :: deploy_env where
  "demo_deploy_env = \<lparr>de_parse = (\<lambda>raw. if raw = ''https://h'' then Some \<lparr>pu_scheme = ''https'', pu_host = ''h'', pu_hostname = ''h'',
     pu_user = False, pu_force_query = False\<rparr> else None), de_regular = (\<lambda>_. True), de_asset = (\<lambda>_. Some []), de_file = (\<lambda>_. Some [1]),
     de_added = (\<lambda>_. True), de_names = (\<lambda>m. m), de_zip = (\<lambda>es. concat (map ze_content es))\<rparr>"

definition demo_deploy_request :: obj where
  "demo_deploy_request = [(''mode'', AStr ''magisk''), (''device_id'', AStr ''tablet''), (''signaling'', AStr ''https://h'')]"

lemma demo_package:
  "\<exists>resp sv. deploymentPackage demo_web demo_deploy_env (demo_env 5 1) (demo_request\<lparr>Method := ''POST''\<rparr>) demo_user (Some demo_deploy_request) demo_server =
     (resp, [], sv) \<and> status resp = 200"
  by (simp add: deploymentPackage_def package_request_def demo_deploy_request_def demo_deploy_env_def stringField_def valid_device_id_def
      signalingEndpoint_def package_response_def package_payloads_def deviceABIs_def Let_def split: prod.split)

theorem packaged_agent_enrolls_witness:
  "\<exists>resp sv entries content vars i. deploymentPackage demo_web demo_deploy_env (demo_env 5 1) (demo_request\<lparr>Method := ''POST''\<rparr>) demo_user
     (Some demo_deploy_request) demo_server = (resp, [], sv) \<and> (\<exists>name. body resp = PFile name (de_zip demo_deploy_env entries)) \<and>
     sh_source (string_of content) [] = Some vars \<and>
     (\<forall>cfg. started_with vars cfg \<longrightarrow>
       fst (registerAgent_hello demo_web (\<lambda>_. True) (demo_env 6 1) 9 (Some (read_hello no_info (hello (Agent.ResolveDefaults (\<lambda>_. []) cfg) ANil demo_agent))) sv) = Some i)"
proof -
  obtain resp sv where run: "deploymentPackage demo_web demo_deploy_env (demo_env 5 1) (demo_request\<lparr>Method := ''POST''\<rparr>) demo_user
     (Some demo_deploy_request) demo_server = (resp, [], sv)" "status resp = 200" using demo_package by blast
  have env: "de_added demo_deploy_env 0" "sha256 (demo_env 6 1) = sha256 (demo_env 5 1)" "now (demo_env 6 1) < now (demo_env 5 1) + 24 * Hour"
    "parser_ok (de_parse demo_deploy_env)"
    by (auto simp: parser_ok_def demo_deploy_env_def Hour_def Minute_def split: if_splits)
  show ?thesis
    using packaged_agent_enrolls [OF run env(1,4) refl env(2,3), where sha = "\<lambda>_. []" and L' = demo_web and W = "\<lambda>_. True" and sock = 9] run by blast
qed

section \<open>Who gets packages and artifacts\<close>

lemma admin_wrapper:
  assumes "requireAdmin J E r next sv = (resp, outs, sv')"
    "\<not> (\<exists>user. userFromRequest J E (JWTSecret (config sv)) (Authorization r) (sv_store sv) = Inr user \<and> u_Role user = RoleAdmin)"
  shows "status resp \<in> {401, 403}" "outs = []" "sv' = sv"
  using assms by (auto simp: requireAdmin_def requireUser_def fail_def writeError_def reply_def split: sum.splits if_splits)

lemma artifact_file:
  assumes "agentArtifact L serve_file r sv = (resp, outs, sv')"
  shows "status resp \<in> {404, 405} \<or>
    (\<exists>path \<in> insert (Config.ScrcpyJar (config sv)) (agent_path L (config sv) ` set deviceABIs). body resp = body (serve_file path))"
  using assms by (auto simp: agentArtifact_def deviceABIs_def methodNotAllowed_def fail_def writeError_def reply_def Let_def split: if_splits)

text \<open>
  Packages and artifacts are for administrators: any other request is refused and changes nothing, so
  that no enrollment comes out of it; and whatever path a request for an artifact names, what is
  served is the scrcpy server or one of the agents for the four kinds of processors.
\<close>

theorem packages_for_admins:
  "(\<not> (\<exists>user. userFromRequest J E (JWTSecret (config sv)) (Authorization r) (sv_store sv) = Inr user \<and> u_Role user = RoleAdmin) \<longrightarrow>
     (case package_route J L D E r decoded sv of (resp, outs, sv') \<Rightarrow> status resp \<in> {401, 403} \<and> outs = [] \<and> sv' = sv) \<and>
     (case artifact_route J L serve_file E r sv of (resp, outs, sv') \<Rightarrow> status resp \<in> {401, 403} \<and> outs = [] \<and> sv' = sv)) \<and>
   (case artifact_route J L serve_file E r sv of (resp, outs, sv') \<Rightarrow> status resp \<in> {401, 403, 404, 405} \<or>
     (\<exists>path \<in> insert (Config.ScrcpyJar (config sv)) (agent_path L (config sv) ` set deviceABIs). body resp = body (serve_file path)))"
proof -
  have "status resp \<in> {401, 403, 404, 405} \<or>
     (\<exists>path \<in> insert (Config.ScrcpyJar (config sv)) (agent_path L (config sv) ` set deviceABIs). body resp = body (serve_file path))"
    if "artifact_route J L serve_file E r sv = (resp, outs, sv')" for resp outs sv'
  proof (cases "\<exists>user. userFromRequest J E (JWTSecret (config sv)) (Authorization r) (sv_store sv) = Inr user \<and> u_Role user = RoleAdmin")
    case True
    then have "agentArtifact L serve_file r sv = (resp, outs, sv')" using that by (auto simp: artifact_route_def requireAdmin_def requireUser_def)
    from artifact_file [OF this] show ?thesis by blast
  next
    case False
    then show ?thesis using admin_wrapper(1) that unfolding artifact_route_def by blast
  qed
  moreover obtain resp outs sv' where "package_route J L D E r decoded sv = (resp, outs, sv')" by (metis prod.exhaust)
  moreover obtain resp2 outs2 sv2 where "artifact_route J L serve_file E r sv = (resp2, outs2, sv2)" by (metis prod.exhaust)
  ultimately show ?thesis
    using admin_wrapper [of J E r "\<lambda>user. deploymentPackage L D E r user decoded" sv resp outs sv']
      admin_wrapper [of J E r "\<lambda>_. agentArtifact L serve_file r" sv resp2 outs2 sv2]
    by (simp only: package_route_def artifact_route_def prod.case) blast
qed

end
