(* ===== verification/MediaInfo.thy ===== *)
theory MediaInfo
  imports DeviceIO "HOL-Library.Monad_Syntax"
begin

text \<open>
  \<open>device_info.go\<close> and \<open>deviceInfo\<close> of \<open>agent.go\<close>: what the agent finds out about its device. The three
  regular expressions are written as matchers on the text; each of them fixes at every character what
  comes next, so that greedy matching never has to go back. The text itself is printed by the scrcpy server
  (\<open>LogUtils.java\<close>), whose printer of displays is the other side here. \<open>pf\<close> is the value that
  \<open>strconv.ParseFloat\<close> gives.
\<close>

section \<open>Matching\<close>

definition lit :: "string \<Rightarrow> string \<Rightarrow> string option" where
  "lit p s = (if prefix p s then Some (drop (length p) s) else None)"

definition many1 :: "(char \<Rightarrow> bool) \<Rightarrow> string \<Rightarrow> (string \<times> string) option" where
  "many1 P s = (if takeWhile P s = [] then None else Some (takeWhile P s, dropWhile P s))"

definition re_digit :: "char \<Rightarrow> bool" where
  "re_digit c \<longleftrightarrow> CHR 0x30 \<le> c \<and> c \<le> CHR 0x39"

definition re_space :: "char \<Rightarrow> bool" where
  "re_space c \<longleftrightarrow> c = CHR 0x20 \<or> c = CHR 0x09 \<or> c = CHR 0x0A \<or> c = CHR 0x0C \<or> c = CHR 0x0D"

definition displayDescription :: "string \<Rightarrow> ((string \<times> string \<times> string) \<times> string) option" where
  "displayDescription s =
     do { s \<leftarrow> lit ''--display-id='' s;
          (i, s) \<leftarrow> many1 re_digit s;
          (_, s) \<leftarrow> many1 re_space s;
          s \<leftarrow> lit ''('' s;
          (w, s) \<leftarrow> many1 re_digit s;
          s \<leftarrow> lit ''x'' s;
          (h, s) \<leftarrow> many1 re_digit s;
          s \<leftarrow> lit '')'' s;
          Some ((i, w, h), s) }"

definition facing :: "string \<Rightarrow> (string \<times> string) option" where
  "facing s =
     (case lit ''front'' s of Some s \<Rightarrow> Some (''front'', s)
      | None \<Rightarrow> (case lit ''back'' s of Some s \<Rightarrow> Some (''back'', s)
      | None \<Rightarrow> (case lit ''external'' s of Some s \<Rightarrow> Some (''external'', s) | None \<Rightarrow> None)))"

definition cameraDescription :: "string \<Rightarrow> ((string \<times> string \<times> string \<times> string \<times> string) \<times> string) option" where
  "cameraDescription s =
     do { s \<leftarrow> lit ''--camera-id='' s;
          (i, s) \<leftarrow> many1 (\<lambda>c. \<not> re_space c) s;
          (_, s) \<leftarrow> many1 re_space s;
          s \<leftarrow> lit ''('' s;
          (f, s) \<leftarrow> facing s;
          s \<leftarrow> lit '','' s;
          let s = dropWhile re_space s;
          (w, s) \<leftarrow> many1 re_digit s;
          s \<leftarrow> lit ''x'' s;
          (h, s) \<leftarrow> many1 re_digit s;
          Some ((i, f, w, h, takeWhile (\<lambda>c. c \<noteq> CHR 0x0A) s), dropWhile (\<lambda>c. c \<noteq> CHR 0x0A) s) }"

definition zoomDescription :: "string \<Rightarrow> ((string \<times> string) \<times> string) option" where
  "zoomDescription s =
     do { s \<leftarrow> lit ''zoom-range=['' s;
          (lo, s) \<leftarrow> many1 (\<lambda>c. re_digit c \<or> c = CHR ''.'') s;
          s \<leftarrow> lit '','' s;
          let s = dropWhile re_space s;
          (hi, s) \<leftarrow> many1 (\<lambda>c. re_digit c \<or> c = CHR ''.'') s;
          s \<leftarrow> lit '']'' s;
          Some ((lo, hi), s) }"

text \<open>\<open>FindAllStringSubmatch\<close> and \<open>FindStringSubmatch\<close>; no pattern here matches the empty text.\<close>

function find_all :: "(string \<Rightarrow> ('a \<times> string) option) \<Rightarrow> string \<Rightarrow> 'a list" where
  "find_all m [] = []"
| "find_all m (c # s) =
     (case m (c # s) of
        None \<Rightarrow> find_all m s
      | Some (x, r) \<Rightarrow> (if length r < length (c # s) then x # find_all m r else find_all m s))"
  by pat_completeness auto
termination
  by (relation "measure (\<lambda>(m, s). length s)") auto

fun find_first :: "(string \<Rightarrow> ('a \<times> string) option) \<Rightarrow> string \<Rightarrow> 'a option" where
  "find_first m [] = None"
| "find_first m (c # s) = (case m (c # s) of Some (x, _) \<Rightarrow> Some x | None \<Rightarrow> find_first m s)"

section \<open>Displays and cameras\<close>

text \<open>
  The value of \<open>strconv.Atoi\<close> when its error is ignored: a number that does not fit becomes the nearest one that
  does, and any other text 0.
\<close>

definition atoi_value :: "string \<Rightarrow> int" where
  "atoi_value s =
     (case atoi s of
        Some n \<Rightarrow> n
      | None \<Rightarrow>
          (let neg = (s \<noteq> [] \<and> hd s = CHR ''-''); ds = (if s \<noteq> [] \<and> (hd s = CHR ''-'' \<or> hd s = CHR ''+'') then tl s else s) in
           if ds = [] \<or> digits_val 0 ds = None then 0 else if neg then - (2 ^ 63) else 2 ^ 63 - 1))"

definition display_obj :: "string \<times> string \<times> string \<Rightarrow> obj" where
  "display_obj d =
     (case d of (i, w, h) \<Rightarrow> [(''id'', AInt (atoi_value i)), (''x_res'', AInt (atoi_value w)), (''y_res'', AInt (atoi_value h))])"

definition camera_obj :: "(string \<Rightarrow> any) \<Rightarrow> string \<times> string \<times> string \<times> string \<times> string \<Rightarrow> obj" where
  "camera_obj pf d =
     (case d of (i, f, w, h, rest) \<Rightarrow>
        [(''id'', AStr i), (''facing'', AStr f), (''x_res'', AInt (atoi_value w)), (''y_res'', AInt (atoi_value h))] @
        (case find_first zoomDescription rest of
           None \<Rightarrow> []
         | Some (lo, hi) \<Rightarrow> [(''zoom_min'', pf lo), (''zoom_max'', pf hi)]))"

definition parseMediaInfo :: "(string \<Rightarrow> any) \<Rightarrow> string \<Rightarrow> obj list \<times> obj list" where
  "parseMediaInfo pf raw = (map display_obj (find_all displayDescription raw), map (camera_obj pf) (find_all cameraDescription raw))"

text \<open>\<open>probe\<close> is the output of the probe, in pieces, whether or not it ended well.\<close>

definition mediaInfo :: "(string \<Rightarrow> any) \<Rightarrow> byte list list \<Rightarrow> obj list \<times> obj list" where
  "mediaInfo pf probe = parseMediaInfo pf (string_of (bo_buffer (fold bounded_Write probe \<lparr>bo_buffer = [], bo_limit = 2 ^ 20\<rparr>)))"

text \<open>\<open>deviceInfo\<close>; \<open>prop\<close> is \<open>backend.property\<close>.\<close>

definition deviceInfo :: "(string \<Rightarrow> any) \<Rightarrow> byte list list \<Rightarrow> (string \<Rightarrow> string) \<Rightarrow> obj" where
  "deviceInfo pf probe prop =
     (let (displays, cameras) = mediaInfo pf probe; sdkText = prop ''ro.build.version.sdk'';
          sdk_level = atoi_value sdkText in
      [(''model'', AStr (prop ''ro.product.model'')), (''displays'', AArr (map AObj displays)), (''cameras'', AArr (map AObj cameras)),
       (''abi'', AStr (prop ''ro.product.cpu.abi'')), (''sdk'', AStr sdkText), (''android_version'', AStr (prop ''ro.build.version.release'')),
       (''agent_version'', AStr ''0.1.0-dev''),
       (''capabilities'', AObj (map (\<lambda>k. (k, ABool True)) [''webrtc'', ''ws_preview'', ''ws_audio'', ''file_manager'', ''shell'', ''pty'', ''tasks'', ''metrics'', ''snapshots'']
          @ [(''camera_capture'', ABool (31 \<le> sdk_level)), (''audio_capture'', ABool (30 \<le> sdk_level))]
          @ map (\<lambda>k. (k, ABool False)) [''camera_injection'', ''gps_injection'', ''sensor_injection'']))])"

section \<open>Reading back what the server prints\<close>

text \<open>The lines of \<open>buildDisplayListMessage\<close>: a display with its size, or without one when it is unknown.\<close>

definition display_line :: "nat \<times> (nat \<times> nat) option \<Rightarrow> string" where
  "display_line d =
     CHR 0x0A # ''    --display-id='' @ show_nat (fst d) @ ''    ('' @
     (case snd d of Some (w, h) \<Rightarrow> show_nat w @ ''x'' @ show_nat h | None \<Rightarrow> ''size unknown'') @ '')''"

definition buildDisplayListMessage :: "(nat \<times> (nat \<times> nat) option) list \<Rightarrow> string" where
  "buildDisplayListMessage ds =
     ''List of displays:'' @ (if ds = [] then CHR 0x0A # ''    (none)'' else concat (map display_line ds))"

lemma re_digit_show: "list_all re_digit (show_nat n)"
  using show_nat_digits by (auto simp: list_all_iff re_digit_def)

lemma many1_show: "r \<noteq> [] \<Longrightarrow> \<not> re_digit (hd r) \<Longrightarrow> many1 re_digit (show_nat n @ r) = Some (show_nat n, r)"
  using re_digit_show [of n] show_nat_nonempty [of n]
  by (cases r) (auto simp: many1_def list_all_iff takeWhile_append dropWhile_append)

lemma lit_append [simp]: "lit p (p @ r) = Some r"
  by (simp add: lit_def)

lemma display_known:
  "displayDescription (''--display-id='' @ show_nat i @ ''    ('' @ show_nat w @ ''x'' @ show_nat h @ '')'' @ r) = Some ((show_nat i, show_nat w, show_nat h), r)"
proof -
  have space: "many1 re_space (''    ('' @ t) = Some (''    '', ''('' @ t)" for t by (simp add: many1_def re_space_def)
  have "many1 re_digit (show_nat i @ ''    ('' @ t) = Some (show_nat i, ''    ('' @ t)" for t by (rule many1_show) (simp_all add: re_digit_def)
  moreover have "many1 re_digit (show_nat w @ ''x'' @ t) = Some (show_nat w, ''x'' @ t)" for t by (rule many1_show) (simp_all add: re_digit_def)
  moreover have "many1 re_digit (show_nat h @ '')'' @ t) = Some (show_nat h, '')'' @ t)" for t by (rule many1_show) (simp_all add: re_digit_def)
  ultimately show ?thesis by (simp only: displayDescription_def lit_append space bind.bind_lunit prod.case)
qed

lemma display_unknown: "displayDescription (''--display-id='' @ show_nat i @ ''    (size unknown)'' @ r) = None"
proof -
  have space: "many1 re_space (''    ('' @ t) = Some (''    '', ''('' @ t)" for t by (simp add: many1_def re_space_def)
  have "many1 re_digit (show_nat i @ ''    ('' @ t) = Some (show_nat i, ''    ('' @ t)" for t by (rule many1_show) (simp_all add: re_digit_def)
  moreover have "many1 re_digit (''size unknown)'' @ r) = None" by (simp add: many1_def re_digit_def)
  moreover have "''    (size unknown)'' @ r = ''    ('' @ ''size unknown)'' @ r" by simp
  ultimately show ?thesis by (simp only: displayDescription_def lit_append space bind.bind_lunit bind.bind_lzero prod.case)
qed

lemma display_starts: "\<not> prefix ''--display-id='' s \<Longrightarrow> displayDescription s = None"
  by (simp add: displayDescription_def lit_def)

lemma find_skip:
  "(\<And>k. k < length u \<Longrightarrow> \<not> prefix ''--display-id='' (drop k (u @ r))) \<Longrightarrow>
   find_all displayDescription (u @ r) = find_all displayDescription r"
proof (induction u)
  case (Cons c u)
  have "\<not> prefix ''--display-id='' (c # u @ r)" using Cons.prems [of 0] by simp
  moreover have "\<not> prefix ''--display-id='' (drop k (u @ r))" if "k < length u" for k using Cons.prems [of "Suc k"] that by simp
  ultimately show ?case using Cons.IH display_starts [of "c # u @ r"] by simp
qed simp

text \<open>Text in which no two dashes follow each other cannot be the start of a description.\<close>

fun calm :: "string \<Rightarrow> bool" where
  "calm [] = True"
| "calm (c # s) = ((c = CHR ''-'' \<longrightarrow> s \<noteq> [] \<and> hd s \<noteq> CHR ''-'') \<and> calm s)"

lemma calm_append: "calm u \<Longrightarrow> calm v \<Longrightarrow> calm (u @ v)"
  by (induction u) auto

lemma calm_no_dash: "CHR ''-'' \<notin> set u \<Longrightarrow> calm u"
  by (induction u) auto

lemma calm_skip: "calm u \<Longrightarrow> find_all displayDescription (u @ r) = find_all displayDescription r"
proof (induction u)
  case (Cons c u)
  then have "\<not> prefix ''--'' (c # u @ r)" by (cases u) auto
  then have "\<not> prefix ''--display-id='' (c # u @ r)" by (auto simp: prefix_def)
  with Cons show ?case by (simp add: display_starts)
qed simp

lemma calm_show: "calm (show_nat n)"
  by (rule calm_no_dash) (use show_nat_digits in fastforce)

lemma display_line_found:
  "find_all displayDescription (display_line d @ r) =
     (case snd d of None \<Rightarrow> [] | Some (w, h) \<Rightarrow> [(show_nat (fst d), show_nat w, show_nat h)]) @ find_all displayDescription r"
proof -
  let ?head = "CHR 0x0A # ''    ''"
  have head: "find_all displayDescription (?head @ t) = find_all displayDescription t" for t by (rule calm_skip) simp
  show ?thesis
  proof (cases "snd d")
    case None
    let ?t = "''-display-id='' @ show_nat (fst d) @ ''    (size unknown)''"
    have "calm ?t" by (intro calm_append calm_show) simp_all
    then have t: "find_all displayDescription (?t @ r) = find_all displayDescription r" by (rule calm_skip)
    have "display_line d @ r = ?head @ CHR ''-'' # ?t @ r" using None by (simp add: display_line_def)
    moreover have "displayDescription (CHR ''-'' # ?t @ r) = None" using display_unknown [of "fst d" r] by simp
    ultimately show ?thesis using None t by (simp only: head find_all.simps option.case append_Nil)
  next
    case (Some x)
    obtain w h where x: "x = (w, h)" by (cases x)
    let ?s = "''--display-id='' @ show_nat (fst d) @ ''    ('' @ show_nat w @ ''x'' @ show_nat h @ '')'' @ r"
    have "display_line d @ r = ?head @ ?s" using Some x by (simp add: display_line_def)
    moreover have "find_all displayDescription ?s = (show_nat (fst d), show_nat w, show_nat h) # find_all displayDescription r"
      using display_known [of "fst d" w h r] by (cases ?s) auto
    ultimately have "find_all displayDescription (display_line d @ r) = (show_nat (fst d), show_nat w, show_nat h) # find_all displayDescription r"
      by (simp only: head)
    then show ?thesis using Some x by simp
  qed
qed

lemma display_lines_found:
  "find_all displayDescription (concat (map display_line ds) @ r) =
     concat (map (\<lambda>d. case snd d of None \<Rightarrow> [] | Some (w, h) \<Rightarrow> [(show_nat (fst d), show_nat w, show_nat h)]) ds) @ find_all displayDescription r"
  by (induction ds) (simp_all add: display_line_found)

lemma atoi_value_show: "n < 2 ^ 63 \<Longrightarrow> atoi_value (show_nat n) = int n"
  by (simp add: atoi_value_def atoi_show)

lemma prefix_before: "prefix p (v @ c # r) \<Longrightarrow> c \<notin> set p \<Longrightarrow> prefix p v"
  by (auto simp: prefix_append prefix_Cons)

lemma prefix_drop_sublist: "prefix p (drop k u) \<Longrightarrow> sublist p u"
  by (metis append_take_drop_id prefix_def sublist_appendI)

lemma sublist_skip:
  assumes "\<not> sublist ''--display-id='' u" "c \<notin> set ''--display-id=''"
  shows "find_all displayDescription (u @ c # r) = find_all displayDescription (c # r)"
proof (rule find_skip)
  fix k assume "k < length u"
  then have "drop k (u @ c # r) = drop k u @ c # r" by simp
  then show "\<not> prefix ''--display-id='' (drop k (u @ c # r))"
    using prefix_before [OF _ assms(2)] prefix_drop_sublist assms(1) by metis
qed

lemma sublist_none: "\<not> sublist ''--display-id='' u \<Longrightarrow> find_all displayDescription u = []"
  using find_skip [of u "[]"] prefix_drop_sublist [of "''--display-id=''" _ u] by fastforce

text \<open>
  The agent reports exactly the displays of the device: from the text of the scrcpy server, with anything
  before it and on the lines after it that does not itself list displays, such as the list of cameras, it reads
  the identifiers and sizes of the displays with a known size, in order, and nothing else.
\<close>

theorem displays_read_back:
  assumes "\<not> sublist ''--display-id='' before" "\<not> sublist ''--display-id='' after"
    and "\<forall>(i, s) \<in> set ds. i < 2 ^ 31 \<and> (case s of None \<Rightarrow> True | Some (w, h) \<Rightarrow> w < 2 ^ 31 \<and> h < 2 ^ 31)"
  shows "fst (parseMediaInfo pf (before @ buildDisplayListMessage ds @ CHR 0x0A # after)) =
    [[(''id'', AInt (int i)), (''x_res'', AInt (int w)), (''y_res'', AInt (int h))]. (i, Some (w, h)) \<leftarrow> ds]"
proof -
  let ?found = "concat (map (\<lambda>d. case snd d of None \<Rightarrow> [] | Some (w, h) \<Rightarrow> [(show_nat (fst d), show_nat w, show_nat h)]) ds)"
  have hd: "calm ''List of displays:''" "calm (CHR 0x0A # ''    (none)'')" "calm [CHR 0x0A]" by simp_all
  have after: "find_all displayDescription (CHR 0x0A # after) = []" using calm_skip [OF hd(3), of after] sublist_none [OF assms(2)] by simp
  have msg: "find_all displayDescription (buildDisplayListMessage ds @ CHR 0x0A # after) = ?found"
    using calm_skip [OF hd(1)] calm_skip [OF hd(2)] display_lines_found [of ds "CHR 0x0A # after"] after
    by (simp add: buildDisplayListMessage_def del: find_all.simps)
  obtain rest where rest: "buildDisplayListMessage ds @ CHR 0x0A # after = CHR ''L'' # rest" by (simp add: buildDisplayListMessage_def)
  have "find_all displayDescription (before @ buildDisplayListMessage ds @ CHR 0x0A # after) = ?found"
    unfolding rest using sublist_skip [OF assms(1), of "CHR ''L''" rest] msg rest by (simp del: find_all.simps)
  moreover have "map display_obj ?found = [[(''id'', AInt (int i)), (''x_res'', AInt (int w)), (''y_res'', AInt (int h))]. (i, Some (w, h)) \<leftarrow> ds]"
    using assms(3) by (induction ds) (auto simp: display_obj_def atoi_value_show split: option.splits prod.splits)
  ultimately show ?thesis by (simp add: parseMediaInfo_def)
qed

theorem displays_read_back_witness:
  "fst (parseMediaInfo (\<lambda>_. ANil) (''[server] INFO: '' @ buildDisplayListMessage [(0, Some (1080, 2400)), (7, None)] @ CHR 0x0A # ''List of cameras:'')) =
     [[(''id'', AInt 0), (''x_res'', AInt 1080), (''y_res'', AInt 2400)]]"
  by (subst displays_read_back) (simp_all add: sublist_code)

end
