(* ===== verification/Capture.thy ===== *)
theory Capture
  imports Bridge DeviceIO
begin

text \<open>
  One capture from its launch to its end: \<open>device_capture.go\<close> and the goroutines \<open>attachVideo\<close>, \<open>dialSocket\<close>
  and \<open>readAudio\<close> of \<open>scrcpy.go\<close>. On an ADB device the server is first pushed to a private directory
  and removed at the end. Then the agent opens its sockets to the server: \<open>attachVideo\<close> is the
  goroutine as a function of what the dials and the video socket answer, and \<open>meet\<close> the step relation of
  the agent and \<open>DesktopConnection.open\<close> of the server, in every interleaving of the two.
\<close>

section \<open>The server on the device\<close>

definition adb_directory :: "(string \<Rightarrow> byte list) \<Rightarrow> string \<Rightarrow> string" where
  "adb_directory sha serial = ''/data/local/tmp/scrcpycat-host-'' @ hex_string (take 8 (sha serial))"

definition prepare_line :: "string \<Rightarrow> string" where
  "prepare_line path =
     (let directory = quote path in
      ''mkdir -p -- '' @ directory @ '' && rm -f -- '' @ directory @ ''/*.jar '' @ directory @ ''/asset-*.apk '' @ directory @ ''/.scrcpycat-upload-*'')"

text \<open>\<open>run\<close> runs a line in the shell of the device, \<open>push\<close> is the sync service.\<close>

definition prepareDirectory :: "(string \<Rightarrow> 'w \<Rightarrow> exec_result \<times> 'w) \<Rightarrow> string \<Rightarrow> 'w \<Rightarrow> exec_error option \<times> 'w" where
  "prepareDirectory run directory w = (case run (prepare_line directory) w of ((_, e), w) \<Rightarrow> (e, w))"

definition removeJar :: "(string \<Rightarrow> 'w \<Rightarrow> exec_result \<times> 'w) \<Rightarrow> string \<Rightarrow> 'w \<Rightarrow> 'w" where
  "removeJar run path w = snd (run (''rm -f -- '' @ quote path) w)"

definition stageJar ::
  "(string \<Rightarrow> 'w \<Rightarrow> exec_result \<times> 'w) \<Rightarrow> (byte list \<Rightarrow> string \<Rightarrow> 'w \<Rightarrow> bool \<times> 'w) \<Rightarrow> byte list option \<Rightarrow> string \<Rightarrow> string \<Rightarrow> 'w \<Rightarrow> string option \<times> 'w" where
  "stageJar run push jar directory i w =
     (case jar of
        None \<Rightarrow> (None, w)
      | Some content \<Rightarrow>
          (let path = directory @ ''/'' @ i @ ''.jar'' in
           case push content path w of
             (False, w) \<Rightarrow> (None, removeJar run path w)
           | (True, w) \<Rightarrow> (Some path, w)))"

text \<open>\<open>Launch\<close>: \<open>start\<close> opens the shell session of the server. The result is the session and the path to remove after it.\<close>

definition adb_Launch ::
  "(string \<Rightarrow> 'w \<Rightarrow> exec_result \<times> 'w) \<Rightarrow> (byte list \<Rightarrow> string \<Rightarrow> 'w \<Rightarrow> bool \<times> 'w) \<Rightarrow> (string \<Rightarrow> 'w \<Rightarrow> nat option \<times> 'w) \<Rightarrow>
   byte list option \<Rightarrow> string \<Rightarrow> string \<Rightarrow> string \<Rightarrow> streamOptions \<Rightarrow> 'w \<Rightarrow> (nat \<times> string) option \<times> 'w" where
  "adb_Launch run push start jar directory version scid options w =
     (case stageJar run push jar directory scid w of
        (None, w) \<Rightarrow> (None, w)
      | (Some path, w) \<Rightarrow>
          (case launch_line path version scid options of
             None \<Rightarrow> (None, removeJar run path w)
           | Some line \<Rightarrow>
               (case start line w of
                  (None, w) \<Rightarrow> (None, removeJar run path w)
                | (Some session, w) \<Rightarrow> (Some (session, path), w))))"

text \<open>The end of a session removes its server file.\<close>

definition adbCapture_Wait :: "(string \<Rightarrow> 'w \<Rightarrow> exec_result \<times> 'w) \<Rightarrow> nat \<times> string \<Rightarrow> 'w \<Rightarrow> 'w" where
  "adbCapture_Wait run capture w = removeJar run (snd capture) w"

definition probe_line :: "string \<Rightarrow> string \<Rightarrow> string" where
  "probe_line path version =
     ''CLASSPATH='' @ quote path @ '' exec '' @
     (case command ''app_process'' [''/'', ''com.genymobile.scrcpy.Server'', version, ''cleanup=true'', ''list_displays=true'', ''list_cameras=true''] of
        Some line \<Rightarrow> line | None \<Rightarrow> '''')"

definition adb_Probe ::
  "(string \<Rightarrow> 'w \<Rightarrow> exec_result \<times> 'w) \<Rightarrow> (byte list \<Rightarrow> string \<Rightarrow> 'w \<Rightarrow> bool \<times> 'w) \<Rightarrow> byte list option \<Rightarrow> string \<Rightarrow> string \<Rightarrow> nat \<Rightarrow> 'w \<Rightarrow>
   exec_result option \<times> 'w" where
  "adb_Probe run push jar directory version nanos w =
     (case stageJar run push jar directory (''probe-'' @ show_nat nanos) w of
        (None, w) \<Rightarrow> (None, w)
      | (Some path, w) \<Rightarrow> (case run (probe_line path version) w of (r, w) \<Rightarrow> (Some r, removeJar run path w)))"

text \<open>
  A device on which files can be staged: \<open>files\<close> are its files; a push touches only its own path, and
  removing a quoted path removes exactly that file. Sessions and probes do not touch the staged file's neighbours.
\<close>

definition staging_ok ::
  "(string \<Rightarrow> 'w \<Rightarrow> exec_result \<times> 'w) \<Rightarrow> (byte list \<Rightarrow> string \<Rightarrow> 'w \<Rightarrow> bool \<times> 'w) \<Rightarrow> ('w \<Rightarrow> string \<Rightarrow> byte list option) \<Rightarrow> bool" where
  "staging_ok run push files \<longleftrightarrow>
     (\<forall>content path w q. q \<noteq> path \<longrightarrow> files (snd (push content path w)) q = files w q) \<and>
     (\<forall>path w q. files (snd (run (''rm -f -- '' @ quote path) w)) q = (if q = path then None else files w q))"

lemma removeJar_files: "staging_ok run push files \<Longrightarrow> files (removeJar run path w) q = (if q = path then None else files w q)"
  by (simp add: staging_ok_def removeJar_def)

lemma stageJar_files:
  assumes "staging_ok run push files" "stageJar run push jar directory i w = (r, w')" "q \<noteq> directory @ ''/'' @ i @ ''.jar''"
  shows "files w' q = files w q"
proof -
  have "files w1 q = files w q" if "push content (directory @ ''/'' @ i @ ''.jar'') w = (b, w1)" for content b w1
    using assms(1,3) that unfolding staging_ok_def by (metis snd_conv)
  then show ?thesis using assms removeJar_files [OF assms(1)] by (auto simp: stageJar_def Let_def split: option.splits prod.splits bool.splits)
qed

text \<open>
  No server file is left on the device: a launch that fails has removed it, the end of a session
  removes it, and no other file of the device is touched.
\<close>

theorem server_file_removed:
  assumes "staging_ok run push files" "\<forall>line w q. files (snd (start line w)) q = files w q"
    and "adb_Launch run push start (Some content) directory version scid options w = (r, w')" "path = directory @ ''/'' @ scid @ ''.jar''"
  shows "(case r of
      None \<Rightarrow> files w' path = None
    | Some capture \<Rightarrow> snd capture = path \<and> (\<forall>later. files (adbCapture_Wait run capture later) path = None)) \<and>
    (\<forall>q. q \<noteq> path \<longrightarrow> files w' q = files w q)"
proof -
  obtain p w1 where stage: "stageJar run push (Some content) directory scid w = (p, w1)" by (metis prod.exhaust)
  have rest: "files w1 q = files w q" if "q \<noteq> path" for q using stageJar_files [OF assms(1) stage] that assms(4) by simp
  note gone = removeJar_files [OF assms(1)]
  have p: "p = Some path \<or> p = None \<and> files w1 path = None"
    using stage gone assms(4) by (auto simp: stageJar_def Let_def split: prod.splits bool.splits)
  have start: "files w2 q = files w1 q" if "start line w1 = (s, w2)" for line s w2 q using assms(2) that by (metis snd_conv)
  show ?thesis using assms(3) p rest start gone
    by (auto simp: adb_Launch_def stage adbCapture_Wait_def split: option.splits prod.splits)
qed

section \<open>Attaching to the server\<close>

datatype socket = VideoSocket | AudioSocket | ControlSocket

datatype attach_action = Opened socket | Wrote "byte list" | Closed socket

text \<open>
  What \<open>attachVideo\<close> meets: which dials succeed within their ten seconds, whether the capture is cancelled before
  the control connection is registered, and the bytes of the video socket until it ends.
\<close>

record attach_env =
  dialled :: "socket \<Rightarrow> bool"
  att_cancelled :: bool
  video_bytes :: "byte list"

lemma readScrcpyPacket_shorter: "readScrcpyPacket r = Inr (p, r') \<Longrightarrow> length r' < length r"
  by (auto simp: readScrcpyPacket_def scrcpyPacketHeaderSize_def read_full_Inr Let_def split: sum.splits prod.splits if_splits)

function read_packets :: "byte list \<Rightarrow> mediaPacket list" where
  "read_packets r = (case readScrcpyPacket r of Inl _ \<Rightarrow> [] | Inr (p, r') \<Rightarrow> p # read_packets r')"
  by pat_completeness auto
termination
  by (relation "measure length") (auto dest: readScrcpyPacket_shorter)

declare read_packets.simps [simp del]

text \<open>The video socket after the dummy byte: the name of the device, the codec and the packets.\<close>

definition read_video :: "byte list \<Rightarrow> string \<times> mediaPacket list" where
  "read_video r =
     (case readScrcpyDeviceName r of
        Inl _ \<Rightarrow> (''read scrcpy device metadata'', [])
      | Inr (_, r) \<Rightarrow>
          (case readScrcpyCodec r False of
             Inl _ \<Rightarrow> (''read scrcpy video metadata'', [])
           | Inr (codec, r) \<Rightarrow>
               (if codec \<noteq> ''h264'' then (''unsupported scrcpy video codec'', [])
                else (''read scrcpy H.264 packet'', read_packets r))))"

text \<open>
  The goroutine for the capture \<open>pid\<close>; \<open>conn\<close> names its control connection. It ends with an error in any
  case; the deferred calls close what was opened, last first, and give up the control connection.
\<close>

definition attachVideo ::
  "attach_env \<Rightarrow> streamOptions \<Rightarrow> nat \<Rightarrow> nat \<Rightarrow> bridge \<Rightarrow> string \<times> attach_action list \<times> mediaPacket list \<times> bridge" where
  "attachVideo A options pid conn b =
     (let video = [Opened VideoSocket]; audio = (if Audio options then [Opened AudioSocket] else []); control = [Opened ControlSocket];
          close_video = [Closed VideoSocket]; close_audio = (if Audio options then [Closed AudioSocket] else []); close_control = [Closed ControlSocket]
      in if \<not> dialled A VideoSocket then (''connect scrcpy video socket'', [], [], b)
         else
           (case readScrcpyDummy (video_bytes A) of
              Inl _ \<Rightarrow> (''read scrcpy video dummy byte'', video @ close_video, [], b)
            | Inr r \<Rightarrow>
                (if Audio options \<and> \<not> dialled A AudioSocket then (''connect scrcpy audio socket'', video @ close_video, [], b)
                 else if \<not> dialled A ControlSocket then (''connect scrcpy control socket'', video @ audio @ close_audio @ close_video, [], b)
                 else
                   (case setControlConn (att_cancelled A) conn b of
                      (False, b) \<Rightarrow> (''context canceled'', video @ audio @ control @ close_control @ close_audio @ close_video, [], b)
                    | (True, b) \<Rightarrow>
                        (let off = (if PowerOff options \<and> Source options \<noteq> ''camera'' then [Wrote [10, 0]] else []);
                             (err, packets) = read_video r;
                             (shown, _, b) = video_packets pid packets ([], b)
                         in (err, video @ audio @ control @ off @ close_control @ close_audio @ close_video, shown, clearControlConn conn b))))))"

text \<open>\<open>readAudio\<close>: the packets that are published.\<close>

definition readAudio :: "byte list \<Rightarrow> mediaPacket list" where
  "readAudio r =
     (case readScrcpyCodec r False of
        Inl _ \<Rightarrow> []
      | Inr (codec, r) \<Rightarrow> (if codec \<noteq> ''opus'' then [] else filter (\<lambda>p. \<not> Config p \<and> \<not> Session p) (read_packets r)))"

section \<open>What the server writes\<close>

text \<open>\<open>Streamer.java\<close>: a session header, or the header of a packet and its data.\<close>

definition write_packet :: "mediaPacket \<Rightarrow> byte list" where
  "write_packet p =
     (if Session p then put_be 4 (2 ^ 31 + (if ClientResized p then 1 else 0)) @ put_be 4 (unat (Width p)) @ put_be 4 (unat (Height p))
      else put_be 8 (unat (media_flags (PTS p) (KeyFrame p) (Config p))) @ put_be 4 (length (Data p)) @ Data p)"

definition writable :: "mediaPacket \<Rightarrow> bool" where
  "writable p \<longleftrightarrow>
     (if Session p then p = no_packet\<lparr>Session := True, ClientResized := ClientResized p, Width := Width p, Height := Height p\<rparr>
      else p = no_packet\<lparr>PTS := PTS p, KeyFrame := KeyFrame p, Config := Config p, Data := Data p\<rparr> \<and>
        unat (PTS p) < 2 ^ 61 \<and> (Config p \<longrightarrow> PTS p = 0 \<and> \<not> KeyFrame p) \<and> 0 < length (Data p) \<and> length (Data p) \<le> maxScrcpyPacketSize)"

lemma session_header_read:
  "readScrcpyPacket (put_be 4 (2 ^ 31 + (if c then 1 else 0)) @ put_be 4 (unat w) @ put_be 4 (unat h) @ rest) =
     Inr (no_packet\<lparr>Session := True, ClientResized := c, Width := w, Height := h\<rparr>, rest)" for w h :: "32 word"
proof -
  define n :: nat where "n = 2 ^ 31 + (if c then 1 else 0)"
  define x y z where "x = put_be 4 n" and "y = put_be 4 (unat w)" and "z = put_be 4 (unat h)"
  have small: "unat w < 2 ^ 32" "unat h < 2 ^ 32" "n < 2 ^ 32" "n div 2 ^ 31 = 1"
    using unsigned_less [of w] unsigned_less [of h] by (simp_all add: n_def)
  have len: "length x = 4" "length y = 4" "length z = 4" by (simp_all add: x_def y_def z_def)
  have g: "get_be x = n" "get_be y = unat w" "get_be z = unat h" using small by (simp_all add: x_def y_def z_def)
  have head: "read_full scrcpyPacketHeaderSize (x @ y @ z @ rest) = Inr (x @ y @ z, rest)"
    using len by (simp add: read_full_def scrcpyPacketHeaderSize_def)
  have "get_be (x @ y) = n * 2 ^ 32 + unat w" by (simp add: get_be_append g len)
  moreover have "(n * 2 ^ 32 + unat w) div 2 ^ 63 = 1"
  proof -
    have "(n * 2 ^ 32 + unat w) div 2 ^ 32 = n" using small(1) by simp
    then show ?thesis using small(4) div_mult2_eq [of "n * 2 ^ 32 + unat w" "2 ^ 32" "2 ^ 31"] by simp
  qed
  ultimately have flag: "(of_nat (get_be (x @ y)) :: 64 word) AND scrcpySessionFlag \<noteq> 0" using high_bit by metis
  have parts: "take 8 (x @ y @ z) = x @ y" "take 4 (x @ y @ z) = x" "take 4 (drop 4 (x @ y @ z)) = y" "take 4 (drop 8 (x @ y @ z)) = z"
    using len by simp_all
  have bit: "(of_nat n :: 32 word) AND 1 \<noteq> 0 \<longleftrightarrow> c" by (cases c) (simp_all add: n_def)
  have "readScrcpyPacket (x @ y @ z @ rest) = Inr (no_packet\<lparr>Session := True, ClientResized := c, Width := w, Height := h\<rparr>, rest)"
    unfolding readScrcpyPacket_def head sum.case prod.case parts Let_def using flag bit by (simp add: g)
  then show ?thesis by (simp only: x_def y_def z_def n_def)
qed

lemma packet_read: "writable p \<Longrightarrow> readScrcpyPacket (write_packet p @ rest) = Inr (p, rest)"
  using session_header_read [of "ClientResized p" "Width p" "Height p" rest]
    readScrcpyPacket_media [of "PTS p" "Data p" "KeyFrame p" "Config p" rest]
  by (auto simp: write_packet_def writable_def split: if_splits)

lemma packets_read:
  "list_all writable ps \<Longrightarrow> length tail < 12 \<Longrightarrow> read_packets (concat (map write_packet ps) @ tail) = ps"
proof (induction ps)
  case Nil
  then show ?case by (simp add: read_packets.simps [of tail] readScrcpyPacket_def read_full_def scrcpyPacketHeaderSize_def)
next
  case (Cons p ps)
  then show ?case by (subst read_packets.simps) (simp add: packet_read)
qed

lemma name_read: "length name \<le> 64 \<Longrightarrow> readScrcpyDeviceName (pad_to 64 (bytes name) @ r) =
   Inr (string_of (takeWhile (\<lambda>b. b \<noteq> 0) (pad_to 64 (bytes name))), r)"
  by (simp add: readScrcpyDeviceName_def scrcpyDeviceNameSize_def read_full_def)

lemma codec_read: "length codec = 4 \<Longrightarrow> readScrcpyCodec (bytes codec @ r) False = Inr (codec, r)"
  by (simp add: readScrcpyCodec_def read_full_def)

text \<open>What is published of the packets, one for one.\<close>

definition frame_of :: "mediaPacket \<Rightarrow> mediaPacket \<Rightarrow> bool" where
  "frame_of p q \<longleftrightarrow> (\<exists>cfg. q = p\<lparr>Data := cfg @ Data p\<rparr> \<and> (cfg \<noteq> [] \<longrightarrow> KeyFrame p))"

lemma published_frames: "list_all2 frame_of (media_only ps) (fst (video_packets pid ps st))"
proof (induction ps arbitrary: st)
  case (Cons p ps)
  obtain cfg b where st: "st = (cfg, b)" by (cases st)
  have "frame_of p p" "KeyFrame p \<Longrightarrow> frame_of p (p\<lparr>Data := cfg @ Data p\<rparr>)"
    by (auto simp: frame_of_def intro: exI [of _ "[]"])
  then show ?case using Cons.IH
    by (auto simp: media_only_def video_packet_def st split_beta Let_def)
qed (simp add: media_only_def)


definition demo_attach :: attach_env where
  "demo_attach = \<lparr>dialled = (\<lambda>_. True), att_cancelled = False,
     video_bytes = [0] @ pad_to 64 (bytes ''phone'') @ bytes ''h264'' @ concat (map write_packet [demo_packet False True [5]]) @ [1, 2]\<rparr>"

lemma demo_packet_writable: "list_all writable [demo_packet False True [5]]"
  by (simp add: demo_packet_def no_packet_def writable_def maxScrcpyPacketSize_def)


text \<open>
  However attaching ends, the agent closes every socket it has opened, in the opposite order, and the
  control connection of this capture is no longer registered.
\<close>

theorem sockets_closed:
  assumes "attachVideo A options pid conn b = (e, acts, shown, b')" "controlConn b \<noteq> Some conn"
  shows "[s. Closed s \<leftarrow> acts] = rev [s. Opened s \<leftarrow> acts] \<and>
    prefix [s. Opened s \<leftarrow> acts] (VideoSocket # (if Audio options then [AudioSocket] else []) @ [ControlSocket]) \<and>
    controlConn b' \<noteq> Some conn"
  using assms by (auto simp: attachVideo_def setControlConn_def clearControlConn_def Let_def split: sum.splits if_splits prod.splits)

section \<open>Agent and server meet\<close>

text \<open>
  \<open>attachVideo\<close> and \<open>DesktopConnection.open\<close> run at the same time. The agent dials the video socket, waits
  for the dummy byte, then dials for sound if it is wanted, and for control. The server accepts connections for its
  roles in order and writes the dummy byte on the first one. Connections that wait to be accepted
  are named by what the agent dialled them for; with \<open>fifo\<close> they are accepted in the order of the dials, without
  it in any order.
\<close>

datatype agent_pc = DialVideo | AwaitDummy | DialAudio | DialControl | Attached

record rendezvous =
  pc :: agent_pc
  waiting :: "socket list"
  roles :: "socket list"
  accepted_as :: "(socket \<times> socket) list"
  dummy_on :: "socket option"

definition meeting :: "bool \<Rightarrow> rendezvous" where
  "meeting audio = \<lparr>pc = DialVideo, waiting = [], roles = VideoSocket # (if audio then [AudioSocket] else []) @ [ControlSocket],
     accepted_as = [], dummy_on = None\<rparr>"

inductive meet :: "bool \<Rightarrow> bool \<Rightarrow> rendezvous \<Rightarrow> rendezvous \<Rightarrow> bool" for fifo audio where
  dial_video: "pc s = DialVideo \<Longrightarrow> meet fifo audio s (s\<lparr>pc := AwaitDummy, waiting := waiting s @ [VideoSocket]\<rparr>)"
| read_dummy: "pc s = AwaitDummy \<Longrightarrow> dummy_on s = Some VideoSocket \<Longrightarrow>
    meet fifo audio s (s\<lparr>pc := (if audio then DialAudio else DialControl)\<rparr>)"
| dial_audio: "pc s = DialAudio \<Longrightarrow> meet fifo audio s (s\<lparr>pc := DialControl, waiting := waiting s @ [AudioSocket]\<rparr>)"
| dial_control: "pc s = DialControl \<Longrightarrow> meet fifo audio s (s\<lparr>pc := Attached, waiting := waiting s @ [ControlSocket]\<rparr>)"
| accept: "c \<in> set (waiting s) \<Longrightarrow> (fifo \<Longrightarrow> c = hd (waiting s)) \<Longrightarrow> roles s = r # rs \<Longrightarrow>
    meet fifo audio s (s\<lparr>waiting := remove1 c (waiting s), roles := rs, accepted_as := accepted_as s @ [(r, c)],
      dummy_on := (if dummy_on s = None then Some c else dummy_on s)\<rparr>)"

inductive_cases meet_elim: "meet fifo audio s t"

definition all_roles :: "bool \<Rightarrow> socket list" where
  "all_roles audio = VideoSocket # (if audio then [AudioSocket] else []) @ [ControlSocket]"

text \<open>What the agent has dialled when it is at a point.\<close>

fun dials :: "bool \<Rightarrow> agent_pc \<Rightarrow> socket list" where
  "dials audio DialVideo = []"
| "dials audio AwaitDummy = [VideoSocket]"
| "dials audio DialAudio = [VideoSocket]"
| "dials audio DialControl = VideoSocket # (if audio then [AudioSocket] else [])"
| "dials audio Attached = all_roles audio"

definition meet_ok :: "bool \<Rightarrow> bool \<Rightarrow> rendezvous \<Rightarrow> bool" where
  "meet_ok fifo audio s \<longleftrightarrow>
     map fst (accepted_as s) @ roles s = all_roles audio \<and>
     mset (map snd (accepted_as s) @ waiting s) = mset (dials audio (pc s)) \<and>
     (fifo \<longrightarrow> map snd (accepted_as s) @ waiting s = dials audio (pc s)) \<and>
     dummy_on s = (if accepted_as s = [] then None else Some (snd (hd (accepted_as s)))) \<and>
     (pc s \<in> {DialAudio, DialControl, Attached} \<longrightarrow> accepted_as s \<noteq> []) \<and>
     (accepted_as s \<noteq> [] \<longrightarrow> hd (accepted_as s) = (VideoSocket, VideoSocket)) \<and> (pc s = DialAudio \<longrightarrow> audio)"

lemma meet_accept:
  assumes ok: "meet_ok fifo audio s" and c: "c \<in> set (waiting s)" "fifo \<Longrightarrow> c = hd (waiting s)" and r: "roles s = r # rs"
  shows "meet_ok fifo audio (s\<lparr>waiting := remove1 c (waiting s), roles := rs, accepted_as := accepted_as s @ [(r, c)],
      dummy_on := (if dummy_on s = None then Some c else dummy_on s)\<rparr>)"
proof -
  have "mset (waiting s) = add_mset c (mset (remove1 c (waiting s)))" using c(1) by simp
  moreover have "fifo \<longrightarrow> [c] @ remove1 c (waiting s) = waiting s" using c by (cases "waiting s") auto
  moreover have "r = VideoSocket \<and> c = VideoSocket" if "accepted_as s = []"
  proof -
    have "pc s = AwaitDummy" using ok c(1) that by (cases "pc s") (auto simp: meet_ok_def)
    then have "mset (waiting s) = {#VideoSocket#}" using ok that by (simp add: meet_ok_def)
    then have "set (waiting s) = {VideoSocket}" by (metis set_mset_mset set_mset_single)
    moreover have "roles s = all_roles audio" using ok that by (simp add: meet_ok_def)
    ultimately show ?thesis using c(1) r by (simp add: all_roles_def)
  qed
  ultimately show ?thesis using ok r by (auto simp: meet_ok_def hd_append)
qed

lemma meet_keeps: "meet fifo audio s t \<Longrightarrow> meet_ok fifo audio s \<Longrightarrow> meet_ok fifo audio t"
proof (induction rule: meet.induct)
  case (dial_video s)
  then have "accepted_as s = []" "waiting s = []" by (simp_all add: meet_ok_def)
  with dial_video show ?case by (simp add: meet_ok_def)
next
  case (read_dummy s)
  then have "accepted_as s \<noteq> []" by (auto simp: meet_ok_def)
  with read_dummy show ?case by (simp add: meet_ok_def)
next
  case (dial_audio s)
  then show ?case by (simp add: meet_ok_def)
next
  case (dial_control s)
  then have "dials audio Attached = dials audio (pc s) @ [ControlSocket]" by (simp add: all_roles_def)
  with dial_control show ?case unfolding meet_ok_def by simp
next
  case (accept c s r rs)
  then show ?case using meet_accept by blast
qed

lemma meet_reachable: "(meet fifo audio)\<^sup>*\<^sup>* (meeting audio) s \<Longrightarrow> meet_ok fifo audio s"
proof (induction rule: rtranclp_induct)
  case base
  show ?case by (simp add: meet_ok_def meeting_def all_roles_def)
qed (use meet_keeps in blast)



fun agent_todo :: "agent_pc \<Rightarrow> nat" where
  "agent_todo DialVideo = 4"
| "agent_todo AwaitDummy = 3"
| "agent_todo DialAudio = 2"
| "agent_todo DialControl = 1"
| "agent_todo Attached = 0"

definition meet_todo :: "rendezvous \<Rightarrow> nat" where
  "meet_todo s = agent_todo (pc s) + length (roles s)"

lemma meet_decreases: "meet fifo audio s t \<Longrightarrow> meet_todo t < meet_todo s"
  by (induction rule: meet.induct) (auto simp: meet_todo_def)

lemma meet_progress:
  assumes "meet_ok fifo audio s" "pc s \<noteq> Attached \<or> roles s \<noteq> []"
  shows "\<exists>t. meet fifo audio s t"
proof -
  have acc: "\<exists>t. meet fifo audio s t" if "waiting s \<noteq> []" "roles s \<noteq> []"
    using that meet.accept [of "hd (waiting s)" s fifo] by (cases "roles s") auto
  show ?thesis
  proof (cases "pc s")
    case AwaitDummy
    show ?thesis
    proof (cases "accepted_as s = []")
      case True
      with AwaitDummy assms(1) have "waiting s \<noteq> []" "roles s \<noteq> []" by (auto simp: meet_ok_def all_roles_def)
      then show ?thesis by (rule acc)
    next
      case False
      with AwaitDummy assms(1) have "dummy_on s = Some VideoSocket" by (simp add: meet_ok_def)
      with AwaitDummy show ?thesis using meet.read_dummy by blast
    qed
  next
    case Attached
    then have r: "roles s \<noteq> []" using assms(2) by simp
    have "length (accepted_as s) + length (roles s) = length (all_roles audio)"
      using assms(1) unfolding meet_ok_def by (metis length_append length_map)
    moreover have "length (accepted_as s) + length (waiting s) = length (all_roles audio)"
      using assms(1) Attached unfolding meet_ok_def by (metis dials.simps(5) length_append length_map size_mset)
    ultimately show ?thesis using acc r by force
  qed (use meet.dial_video meet.dial_audio meet.dial_control in blast)+
qed

lemma video_first: "meet_ok fifo audio s \<Longrightarrow> p \<in> set (accepted_as s) \<Longrightarrow> \<exists>xs. accepted_as s = (VideoSocket, VideoSocket) # xs"
  unfolding meet_ok_def by (metis empty_iff list.exhaust_sel list.set(1))

lemma not_video: "VideoSocket \<notin> set (tl (all_roles audio))"
  by (simp add: all_roles_def)

lemma meet_agree:
  assumes ok: "meet_ok fifo audio s" and "fifo \<or> \<not> audio" "(r, c) \<in> set (accepted_as s)"
  shows "c = r"
proof (cases fifo)
  case True
  have "prefix (map fst (accepted_as s)) (all_roles audio)" using ok unfolding meet_ok_def by (metis prefixI)
  moreover have "prefix (map snd (accepted_as s)) (all_roles audio)"
  proof -
    have "map snd (accepted_as s) @ waiting s = dials audio (pc s)" using ok True unfolding meet_ok_def by blast
    then have "prefix (map snd (accepted_as s)) (dials audio (pc s))" by (metis prefixI)
    moreover have "prefix (dials audio (pc s)) (all_roles audio)" by (cases "pc s") (auto simp: all_roles_def)
    ultimately show ?thesis by (rule prefix_order.trans)
  qed
  ultimately have "map fst (accepted_as s) = map snd (accepted_as s)"
    by (intro prefix_order.antisym) (rule prefix_length_prefix; simp)+
  then show ?thesis using assms(3) by (auto simp: map_eq_conv)
next
  case False
  then have a: "\<not> audio" using assms(2) by simp
  obtain xs where xs: "accepted_as s = (VideoSocket, VideoSocket) # xs" using video_first [OF ok assms(3)] by blast
  have f: "map fst xs @ roles s = [ControlSocket]" using ok a by (simp add: meet_ok_def xs all_roles_def)
  have "set (map snd xs) \<subseteq> {ControlSocket}"
  proof -
    have "mset (map snd xs @ waiting s) + {#VideoSocket#} = mset (dials audio (pc s))" using ok by (simp add: meet_ok_def xs)
    then have "mset (map snd xs @ waiting s) \<subseteq># {#ControlSocket#}" using a
      by (cases "pc s") (auto simp: all_roles_def)
    then show ?thesis by (metis (no_types, lifting) Un_subset_iff set_append set_mset_mono set_mset_mset set_mset_single)
  qed
  then show ?thesis using assms(3) f unfolding xs by (cases xs) auto
qed

text \<open>
  C36. Agent and server agree on their sockets. However the two interleave, the connection that the server takes
  for video is the one that the agent dialled for video, even if pending connections can overtake
  each other, because the agent waits for the dummy byte; and without sound, or if connections are accepted in order, all
  roles agree. Neither waits for the other for ever: until all sockets are attached some step is possible, and at most
  seven steps are.
\<close>

theorem sockets_meet:
  assumes "(meet fifo audio)\<^sup>*\<^sup>* (meeting audio) s"
  shows "(\<forall>c. (VideoSocket, c) \<in> set (accepted_as s) \<longrightarrow> c = VideoSocket) \<and>
    (fifo \<or> \<not> audio \<longrightarrow> (\<forall>(r, c) \<in> set (accepted_as s). c = r)) \<and>
    (pc s = Attached \<and> map fst (accepted_as s) = all_roles audio \<or> (\<exists>t. meet fifo audio s t)) \<and>
    (\<forall>t. meet fifo audio s t \<longrightarrow> meet_todo t < meet_todo s) \<and> meet_todo (meeting audio) \<le> 7"
proof -
  note ok = meet_reachable [OF assms]
  have video: "c = VideoSocket" if mem: "(VideoSocket, c) \<in> set (accepted_as s)" for c
  proof -
    obtain xs where xs: "accepted_as s = (VideoSocket, VideoSocket) # xs" using video_first [OF ok mem] by blast
    have "map fst (accepted_as s) @ roles s = all_roles audio" using ok unfolding meet_ok_def by blast
    then have "map fst xs @ roles s = tl (all_roles audio)" by (metis append_Cons list.sel(3) list.simps(9) xs)
    then have "VideoSocket \<notin> set (map fst xs)" by (metis UnI1 not_video set_append)
    then show ?thesis using mem by (auto simp: xs image_iff)
  qed
  have "map fst (accepted_as s) @ roles s = all_roles audio" using ok unfolding meet_ok_def by blast
  then have "pc s = Attached \<and> map fst (accepted_as s) = all_roles audio \<or> (\<exists>t. meet fifo audio s t)"
    using meet_progress [OF ok] by (cases "roles s = []") auto
  moreover have "fifo \<or> \<not> audio \<longrightarrow> (\<forall>(r, c) \<in> set (accepted_as s). c = r)" using meet_agree [OF ok] by blast
  moreover have "meet_todo (meeting audio) \<le> 7" by (simp add: meet_todo_def meeting_def)
  ultimately show ?thesis using video meet_decreases by blast
qed

theorem sockets_meet_witness:
  "\<exists>t. meet False True ((meeting True)\<lparr>pc := AwaitDummy, waiting := [VideoSocket]\<rparr>) t \<and> meet_todo t < 6"
proof -
  have "meet False True (meeting True) ((meeting True)\<lparr>pc := AwaitDummy, waiting := [VideoSocket]\<rparr>)"
    using meet.dial_video [of "meeting True" False True] by (simp add: meeting_def)
  then show ?thesis using sockets_meet [of False True "(meeting True)\<lparr>pc := AwaitDummy, waiting := [VideoSocket]\<rparr>"]
    by (force simp: meet_todo_def meeting_def)
qed

text \<open>
  With sound, the order of acceptance matters: if connections could overtake each other, the server could take the control
  connection for its audio.
\<close>

lemma roles_swapped:
  "\<exists>s. (meet False True)\<^sup>*\<^sup>* (meeting True) s \<and> pc s = Attached \<and>
     accepted_as s = [(VideoSocket, VideoSocket), (AudioSocket, ControlSocket), (ControlSocket, AudioSocket)]"
proof -
  define pt where "pt = (\<lambda>p w r a d. \<lparr>pc = p, waiting = w, roles = r, accepted_as = a, dummy_on = d\<rparr>)"
  have v: "meet False True (pt DialVideo [] [VideoSocket, AudioSocket, ControlSocket] [] None)
      (pt AwaitDummy [VideoSocket] [VideoSocket, AudioSocket, ControlSocket] [] None)"
    using meet.dial_video [of "pt DialVideo [] [VideoSocket, AudioSocket, ControlSocket] [] None"] by (simp add: pt_def)
  have a: "meet False True (pt AwaitDummy [VideoSocket] [VideoSocket, AudioSocket, ControlSocket] [] None)
      (pt AwaitDummy [] [AudioSocket, ControlSocket] [(VideoSocket, VideoSocket)] (Some VideoSocket))"
    using meet.accept [of VideoSocket "pt AwaitDummy [VideoSocket] [VideoSocket, AudioSocket, ControlSocket] [] None" False] by (simp add: pt_def)
  have d: "meet False True (pt AwaitDummy [] [AudioSocket, ControlSocket] [(VideoSocket, VideoSocket)] (Some VideoSocket))
      (pt DialAudio [] [AudioSocket, ControlSocket] [(VideoSocket, VideoSocket)] (Some VideoSocket))"
    using meet.read_dummy [of "pt AwaitDummy [] [AudioSocket, ControlSocket] [(VideoSocket, VideoSocket)] (Some VideoSocket)" False True] by (simp add: pt_def)
  have s: "meet False True (pt DialAudio [] [AudioSocket, ControlSocket] [(VideoSocket, VideoSocket)] (Some VideoSocket))
      (pt DialControl [AudioSocket] [AudioSocket, ControlSocket] [(VideoSocket, VideoSocket)] (Some VideoSocket))"
    using meet.dial_audio [of "pt DialAudio [] [AudioSocket, ControlSocket] [(VideoSocket, VideoSocket)] (Some VideoSocket)"] by (simp add: pt_def)
  have c: "meet False True (pt DialControl [AudioSocket] [AudioSocket, ControlSocket] [(VideoSocket, VideoSocket)] (Some VideoSocket))
      (pt Attached [AudioSocket, ControlSocket] [AudioSocket, ControlSocket] [(VideoSocket, VideoSocket)] (Some VideoSocket))"
    using meet.dial_control [of "pt DialControl [AudioSocket] [AudioSocket, ControlSocket] [(VideoSocket, VideoSocket)] (Some VideoSocket)"] by (simp add: pt_def)
  have x: "meet False True (pt Attached [AudioSocket, ControlSocket] [AudioSocket, ControlSocket] [(VideoSocket, VideoSocket)] (Some VideoSocket))
      (pt Attached [AudioSocket] [ControlSocket] [(VideoSocket, VideoSocket), (AudioSocket, ControlSocket)] (Some VideoSocket))"
    using meet.accept [of ControlSocket "pt Attached [AudioSocket, ControlSocket] [AudioSocket, ControlSocket] [(VideoSocket, VideoSocket)] (Some VideoSocket)" False]
    by (simp add: pt_def)
  have y: "meet False True (pt Attached [AudioSocket] [ControlSocket] [(VideoSocket, VideoSocket), (AudioSocket, ControlSocket)] (Some VideoSocket))
      (pt Attached [] [] [(VideoSocket, VideoSocket), (AudioSocket, ControlSocket), (ControlSocket, AudioSocket)] (Some VideoSocket))"
    using meet.accept [of AudioSocket "pt Attached [AudioSocket] [ControlSocket] [(VideoSocket, VideoSocket), (AudioSocket, ControlSocket)] (Some VideoSocket)" False]
    by (simp add: pt_def)
  have "(meet False True)\<^sup>*\<^sup>* (pt DialVideo [] [VideoSocket, AudioSocket, ControlSocket] [] None)
      (pt Attached [] [] [(VideoSocket, VideoSocket), (AudioSocket, ControlSocket), (ControlSocket, AudioSocket)] (Some VideoSocket))"
    using v a d s c x y by (meson converse_rtranclp_into_rtranclp rtranclp.rtrancl_refl)
  moreover have "meeting True = pt DialVideo [] [VideoSocket, AudioSocket, ControlSocket] [] None" by (simp add: meeting_def pt_def)
  ultimately show ?thesis by (auto simp: pt_def)
qed

end
