(* ===== verification/Gadb.thy ===== *)
theory Gadb
  imports DeviceIO
begin

text \<open>
  The ADB client library that the repository carries in \<open>third_party/gadb\<close>, with its additions for contexts: framed
  requests to an ADB server, services of one device, and the sync protocol for files. A server is
  a function of what it has received: \<open>serve\<close> are all bytes it has sent when it has read the given
  ones, \<open>broken\<close> whether the connection fails on a write, and \<open>after\<close> what a connection on which these bytes
  were written has changed in the end. A read that the server has no bytes for fails, after its deadline.
  Connections are opened one after the other.
\<close>

section \<open>Connections\<close>

record 'w adb_host =
  listens :: "'w \<Rightarrow> bool"
  serve :: "'w \<Rightarrow> byte list \<Rightarrow> byte list"
  broken :: "'w \<Rightarrow> byte list \<Rightarrow> bool"
  after :: "byte list \<Rightarrow> 'w \<Rightarrow> 'w"

record link =
  l_serve :: "byte list \<Rightarrow> byte list"
  l_broken :: "byte list \<Rightarrow> bool"
  written :: "byte list"
  taken :: nat

datatype adb_error =
    ConnectFailed
  | ErrConnBroken
  | ReadFailed
  | BadNumber
  | NegativeSize
  | CommandFailed string
  | SyncCommand
  | SyncFailed string
  | SyncUnknown string
  | SourceFailed
  | DestFailed
  | SerialRequired
  | NotOnline string
  | NoShellV2
  | Cancelled

type_synonym 'a act = "link \<Rightarrow> (adb_error + 'a) \<times> link"

definition and_then :: "'a act \<Rightarrow> ('a \<Rightarrow> 'b act) \<Rightarrow> 'b act" where
  "and_then m k l = (case m l of (Inl e, l) \<Rightarrow> (Inl e, l) | (Inr x, l) \<Rightarrow> k x l)"

definition return :: "'a \<Rightarrow> 'a act" where
  "return x l = (Inr x, l)"

definition raise :: "adb_error \<Rightarrow> 'a act" where
  "raise e l = (Inl e, l)"

text \<open>\<open>_send\<close> and \<open>_readN\<close>.\<close>

definition put :: "byte list \<Rightarrow> unit act" where
  "put bs l = (if l_broken l (written l @ bs) then (Inl ErrConnBroken, l) else (Inr (), l\<lparr>written := written l @ bs\<rparr>))"

definition pending :: "link \<Rightarrow> byte list" where
  "pending l = drop (taken l) (l_serve l (written l))"

definition ReadBytesN :: "nat \<Rightarrow> byte list act" where
  "ReadBytesN n l =
     (if length (pending l) < n then (Inl ReadFailed, l) else (Inr (take n (pending l)), l\<lparr>taken := taken l + n\<rparr>))"

definition ReadStringN :: "nat \<Rightarrow> string act" where
  "ReadStringN n = and_then (ReadBytesN n) (\<lambda>raw. return (string_of raw))"

definition ReadUint32 :: "nat act" where
  "ReadUint32 = and_then (ReadBytesN 4) (\<lambda>raw. return (get_le raw))"

text \<open>A connection that is closed when its work has ended, in whatever way.\<close>

definition dial :: "'w adb_host \<Rightarrow> 'w \<Rightarrow> link option" where
  "dial H w = (if listens H w then Some \<lparr>l_serve = serve H w, l_broken = broken H w, written = [], taken = 0\<rparr> else None)"

definition hangup :: "'w adb_host \<Rightarrow> link \<Rightarrow> 'w \<Rightarrow> 'w" where
  "hangup H l w = after H (written l) w"

definition with_link :: "'w adb_host \<Rightarrow> 'a act \<Rightarrow> 'w \<Rightarrow> (adb_error + 'a) \<times> 'w" where
  "with_link H m w =
     (case dial H w of
        None \<Rightarrow> (Inl ConnectFailed, w)
      | Some l \<Rightarrow> (case m l of (r, l) \<Rightarrow> (r, hangup H l w)))"

section \<open>Requests\<close>

fun show_hex :: "nat \<Rightarrow> string" where
  "show_hex n = (if n < 16 then [''0123456789abcdef'' ! n] else show_hex (n div 16) @ [''0123456789abcdef'' ! (n mod 16)])"

declare show_hex.simps [simp del]

text \<open>\<open>%04x\<close>.\<close>

definition hex4 :: "nat \<Rightarrow> string" where
  "hex4 n = replicate (4 - length (show_hex n)) (CHR 0x30) @ show_hex n"

definition request_frame :: "string \<Rightarrow> byte list" where
  "request_frame r = bytes (hex4 (length r) @ r)"

definition Send :: "string \<Rightarrow> unit act" where
  "Send r = put (request_frame r)"

text \<open>\<open>strconv.ParseInt\<close> in base 16, of a short text.\<close>

definition ParseInt16 :: "string \<Rightarrow> int option" where
  "ParseInt16 s =
     (let neg = (case s of c # _ \<Rightarrow> c = CHR 0x2D | [] \<Rightarrow> False);
          ds = (case s of c # r \<Rightarrow> if c = CHR 0x2D \<or> c = CHR 0x2B then r else s | [] \<Rightarrow> s) in
      if ds = [] then None
      else (case uint_digits 16 0 ds of (v, ok) \<Rightarrow> if ok then Some (if neg then - int v else int v) else None))"

text \<open>A negative size makes \<open>_readN\<close> panic.\<close>

definition UnpackString :: "string act" where
  "UnpackString =
     and_then (ReadStringN 4) (\<lambda>size.
       case ParseInt16 size of
         None \<Rightarrow> raise BadNumber
       | Some n \<Rightarrow> if n < 0 then raise NegativeSize else ReadStringN (nat n))"

definition VerifyResponse :: "unit act" where
  "VerifyResponse =
     and_then (ReadStringN 4) (\<lambda>answer.
       if answer = ''OKAY'' then return ()
       else and_then UnpackString (\<lambda>reason. raise (CommandFailed reason)))"

definition smart_request :: "string \<Rightarrow> unit act" where
  "smart_request r = and_then (Send r) (\<lambda>_. VerifyResponse)"

definition host_command :: "'w adb_host \<Rightarrow> string \<Rightarrow> 'w \<Rightarrow> (adb_error + string) \<times> 'w" where
  "host_command H r = with_link H (and_then (smart_request r) (\<lambda>_. UnpackString))"

definition NewClientContext :: "'w adb_host \<Rightarrow> 'w \<Rightarrow> (adb_error + unit) \<times> 'w" where
  "NewClientContext H = with_link H (return ())"

definition ServerVersion :: "'w adb_host \<Rightarrow> 'w \<Rightarrow> (adb_error + int) \<times> 'w" where
  "ServerVersion H w =
     (case host_command H ''host:version'' w of
        (Inl e, w) \<Rightarrow> (Inl e, w)
      | (Inr answer, w) \<Rightarrow> ((case ParseInt16 answer of None \<Rightarrow> Inl BadNumber | Some v \<Rightarrow> Inr v), w))"

section \<open>Devices\<close>

text \<open>A device of the list: its serial and its attributes.\<close>

definition device_attrs :: "string list \<Rightarrow> string gomap" where
  "device_attrs fs = fold (\<lambda>f m. (case split_on (CHR 0x3A) f of k # v # _ \<Rightarrow> mput k v m | _ \<Rightarrow> m)) fs []"

definition parse_device :: "string \<Rightarrow> (string \<times> string gomap) option" where
  "parse_device raw =
     (let line = trim_space raw; fs = Prelude.fields line in
      if line = '''' \<or> length fs < 4 then None else Some (hd fs, device_attrs (drop 2 fs)))"

definition DeviceList :: "'w adb_host \<Rightarrow> 'w \<Rightarrow> (adb_error + (string \<times> string gomap) list) \<times> 'w" where
  "DeviceList H w =
     (case host_command H ''host:devices-l'' w of
        (Inl e, w) \<Rightarrow> (Inl e, w)
      | (Inr answer, w) \<Rightarrow> (Inr (List.map_filter parse_device (split_on (CHR 0x0A) answer)), w))"

definition deviceStateConv :: "string \<Rightarrow> string" where
  "deviceStateConv k =
     (if k = '''' then ''disconnected'' else if k = ''offline'' then ''offline'' else if k = ''device'' then ''online'' else ''UNKNOWN'')"

definition State :: "'w adb_host \<Rightarrow> string \<Rightarrow> 'w \<Rightarrow> (adb_error + string) \<times> 'w" where
  "State H serial w =
     (case host_command H (''host-serial:'' @ serial @ '':get-state'') w of
        (Inl e, w) \<Rightarrow> (Inl e, w)
      | (Inr answer, w) \<Rightarrow> (Inr (deviceStateConv answer), w))"

definition IsUsb :: "string gomap \<Rightarrow> bool" where
  "IsUsb attrs = (case map_of attrs ''usb'' of None \<Rightarrow> False | Some usb \<Rightarrow> usb \<noteq> '''')"

definition createDeviceTransport :: "string \<Rightarrow> unit act" where
  "createDeviceTransport serial = smart_request (''host:transport:'' @ serial)"

text \<open>\<open>OpenService\<close> leaves its connection open if the service has started, and closes it otherwise.\<close>

definition OpenService :: "'w adb_host \<Rightarrow> string \<Rightarrow> string \<Rightarrow> 'w \<Rightarrow> (adb_error + link) \<times> 'w" where
  "OpenService H serial service w =
     (case dial H w of
        None \<Rightarrow> (Inl ConnectFailed, w)
      | Some l \<Rightarrow>
          (case and_then (createDeviceTransport serial) (\<lambda>_. smart_request service) l of
             (Inl e, l) \<Rightarrow> (Inl e, hangup H l w)
           | (Inr _, l) \<Rightarrow> (Inr l, w)))"

section \<open>Files\<close>

definition CreateSyncTransport :: "string \<Rightarrow> unit act" where
  "CreateSyncTransport serial = and_then (createDeviceTransport serial) (\<lambda>_. smart_request ''sync:'')"

definition sync_message :: "string \<Rightarrow> byte list \<Rightarrow> byte list" where
  "sync_message i data = bytes i @ put_le 4 (length data) @ data"

definition sync_Send :: "string \<Rightarrow> string \<Rightarrow> unit act" where
  "sync_Send i data = (if length i \<noteq> 4 then raise SyncCommand else put (sync_message i (bytes data)))"

text \<open>What the reads of an \<open>io.Reader\<close> return until it ends: bytes, bytes with \<open>io.EOF\<close>, or another error.\<close>

datatype source_read = Bytes "byte list" | Eof "byte list" | SourceError

fun SendStream :: "source_read list \<Rightarrow> unit act" where
  "SendStream [] = return ()"
| "SendStream (Bytes chunk # reads) = and_then (put (sync_message ''DATA'' chunk)) (\<lambda>_. SendStream reads)"
| "SendStream (Eof _ # reads) = return ()"
| "SendStream (SourceError # reads) = raise SourceFailed"

definition SendStatus :: "string \<Rightarrow> 32 word \<Rightarrow> unit act" where
  "SendStatus code n = put (bytes code @ put_le 4 (unat n))"

definition VerifyStatus :: "unit act" where
  "VerifyStatus =
     and_then (ReadStringN 4) (\<lambda>code. and_then ReadUint32 (\<lambda>n. and_then (ReadStringN n) (\<lambda>msg.
       if code = ''FAIL'' then raise (SyncFailed msg)
       else if code \<noteq> ''OKAY'' then raise (SyncUnknown msg)
       else return ())))"

definition gadb_Push :: "'w adb_host \<Rightarrow> string \<Rightarrow> source_read list \<Rightarrow> string \<Rightarrow> 32 word \<Rightarrow> nat \<Rightarrow> 'w \<Rightarrow> (adb_error + unit) \<times> 'w" where
  "gadb_Push H serial source remotePath modified mode =
     with_link H
       (and_then (CreateSyncTransport serial) (\<lambda>_.
        and_then (sync_Send ''SEND'' (remotePath @ '','' @ show_nat mode)) (\<lambda>_.
        and_then (SendStream source) (\<lambda>_.
        and_then (SendStatus ''DONE'' modified) (\<lambda>_. VerifyStatus)))))"

text \<open>\<open>readChunk\<close>: \<open>None\<close> is the end of the file.\<close>

definition readChunk :: "byte list option act" where
  "readChunk =
     and_then (ReadStringN 4) (\<lambda>code. and_then ReadUint32 (\<lambda>n.
       if code = ''FAIL'' then and_then (ReadStringN n) (\<lambda>msg. raise (SyncFailed msg))
       else if code = ''DONE'' then return None
       else if code = ''DATA'' then and_then (ReadBytesN n) (\<lambda>chunk. return (Some chunk))
       else raise (SyncUnknown ''unknown error'')))"

lemma ReadBytesN_Inr: "ReadBytesN n l = (Inr bs, l') \<longleftrightarrow>
   n \<le> length (pending l) \<and> bs = take n (pending l) \<and> l' = l\<lparr>taken := taken l + n\<rparr>"
  by (auto simp: ReadBytesN_def)

lemma pending_taken [simp]: "pending (l\<lparr>taken := taken l + n\<rparr>) = drop n (pending l)"
  by (simp add: pending_def add.commute)

text \<open>Actions that only read, and take at least so many bytes if they succeed.\<close>

definition consumes :: "nat \<Rightarrow> 'a act \<Rightarrow> bool" where
  "consumes n m \<longleftrightarrow> (\<forall>l x l'. m l = (Inr x, l') \<longrightarrow> length (pending l') + n \<le> length (pending l))"

lemma consumes_simps [simp]: "consumes n (ReadBytesN n)" "consumes 0 (return x)" "consumes n (raise e)"
  by (auto simp: consumes_def return_def raise_def ReadBytesN_Inr)

lemma consumes_then: "consumes a m \<Longrightarrow> (\<And>x. consumes 0 (k x)) \<Longrightarrow> consumes a (and_then m k)"
  unfolding consumes_def and_then_def by (force split: prod.splits sum.splits)

lemma consumes_less: "consumes a m \<Longrightarrow> b \<le> a \<Longrightarrow> consumes b m"
  unfolding consumes_def by force

lemma consumes_0 [simp]: "consumes 0 (ReadBytesN n)"
  by (rule consumes_less [of n]) simp_all

lemma consumes_reads [simp]: "consumes n (ReadStringN n)" "consumes 0 (ReadStringN n)" "consumes 0 ReadUint32"
  by (auto simp: ReadStringN_def ReadUint32_def intro: consumes_then)

lemma readChunk_shorter: "readChunk l = (Inr (Some chunk), l') \<Longrightarrow> length (pending l') < length (pending l)"
proof -
  have "consumes 4 readChunk" unfolding readChunk_def by (auto intro!: consumes_then)
  then show "readChunk l = (Inr (Some chunk), l') \<Longrightarrow> ?thesis" unfolding consumes_def by force
qed

text \<open>\<open>WriteStream\<close> to a destination that may fail.\<close>

function WriteStream :: "(byte list \<Rightarrow> 'd \<Rightarrow> bool \<times> 'd) \<Rightarrow> 'd \<Rightarrow> link \<Rightarrow> ((adb_error + unit) \<times> 'd) \<times> link" where
  "WriteStream store d l =
     (case readChunk l of
        (Inl e, l) \<Rightarrow> ((Inl e, d), l)
      | (Inr None, l) \<Rightarrow> ((Inr (), d), l)
      | (Inr (Some chunk), l) \<Rightarrow>
          (case store chunk d of
             (False, d) \<Rightarrow> ((Inl DestFailed, d), l)
           | (True, d) \<Rightarrow> WriteStream store d l))"
  by pat_completeness auto
termination
  by (relation "measure (\<lambda>(store, d, l). length (pending l))") (auto dest: readChunk_shorter [OF sym])

declare WriteStream.simps [simp del]

definition gadb_Pull :: "'w adb_host \<Rightarrow> string \<Rightarrow> string \<Rightarrow> (byte list \<Rightarrow> 'd \<Rightarrow> bool \<times> 'd) \<Rightarrow> 'd \<Rightarrow> 'w \<Rightarrow> ((adb_error + unit) \<times> 'd) \<times> 'w" where
  "gadb_Pull H serial remotePath store d w =
     (case dial H w of
        None \<Rightarrow> ((Inl ConnectFailed, d), w)
      | Some l \<Rightarrow>
          (case and_then (CreateSyncTransport serial) (\<lambda>_. sync_Send ''RECV'' remotePath) l of
             (Inl e, l) \<Rightarrow> ((Inl e, d), hangup H l w)
           | (Inr _, l) \<Rightarrow> (case WriteStream store d l of (r, l) \<Rightarrow> (r, hangup H l w))))"

text \<open>\<open>ReadDirectoryEntry\<close>: name, mode, size and time of modification, \<open>None\<close> at the end.\<close>

definition ReadDirectoryEntry :: "(string \<times> nat \<times> nat \<times> nat) option act" where
  "ReadDirectoryEntry =
     and_then (ReadStringN 4) (\<lambda>code.
       if code = ''DONE'' then return None
       else
         and_then ReadUint32 (\<lambda>mode. and_then ReadUint32 (\<lambda>size. and_then ReadUint32 (\<lambda>time. and_then ReadUint32 (\<lambda>n.
         and_then (ReadStringN n) (\<lambda>name. return (Some (name, mode, size, time))))))))"

lemma entry_shorter: "ReadDirectoryEntry l = (Inr (Some entry), l') \<Longrightarrow> length (pending l') < length (pending l)"
proof -
  have "consumes 4 ReadDirectoryEntry" unfolding ReadDirectoryEntry_def by (auto intro!: consumes_then)
  then show "ReadDirectoryEntry l = (Inr (Some entry), l') \<Longrightarrow> ?thesis" unfolding consumes_def by force
qed

function ReadEntries :: "link \<Rightarrow> (adb_error option \<times> (string \<times> nat \<times> nat \<times> nat) list) \<times> link" where
  "ReadEntries l =
     (case ReadDirectoryEntry l of
        (Inl e, l) \<Rightarrow> ((Some e, []), l)
      | (Inr None, l) \<Rightarrow> ((None, []), l)
      | (Inr (Some entry), l) \<Rightarrow> (case ReadEntries l of ((e, entries), l) \<Rightarrow> ((e, entry # entries), l)))"
  by pat_completeness auto
termination
  by (relation "measure (\<lambda>l. length (pending l))") (auto dest: entry_shorter [OF sym])

declare ReadEntries.simps [simp del]

definition gadb_List :: "'w adb_host \<Rightarrow> string \<Rightarrow> string \<Rightarrow> 'w \<Rightarrow> (adb_error option \<times> (string \<times> nat \<times> nat \<times> nat) list) \<times> 'w" where
  "gadb_List H serial remotePath w =
     (case dial H w of
        None \<Rightarrow> ((Some ConnectFailed, []), w)
      | Some l \<Rightarrow>
          (case and_then (CreateSyncTransport serial) (\<lambda>_. sync_Send ''LIST'' remotePath) l of
             (Inl e, l) \<Rightarrow> ((Some e, []), hangup H l w)
           | (Inr _, l) \<Rightarrow> (case ReadEntries l of (r, l) \<Rightarrow> (r, hangup H l w))))"

end
