(* ===== verification/AdbClient.thy ===== *)
theory AdbClient
  imports Gadb
begin

text \<open>
  \<open>internal/adb\<close> above the library: \<open>client.go\<close>, the start of sessions in \<open>shell.go\<close>, \<open>RunLegacy\<close> with its
  connection, and the agent's terminal and connection watch on an ADB device. \<open>cancelled\<close> tells whether the context
  of a call has ended when its work is done. \<open>device_run\<close> and \<open>device_push\<close> are the functions \<open>run\<close> and \<open>push\<close>
  that the agent's device operations take.
\<close>

section \<open>The client\<close>

definition serial_ok :: "string \<Rightarrow> bool" where
  "serial_ok serial \<longleftrightarrow> trim_space serial \<noteq> '''' \<and> CHR 0x00 \<notin> set serial"

definition client_device :: "'w adb_host \<Rightarrow> string \<Rightarrow> 'w \<Rightarrow> (adb_error + unit) \<times> 'w" where
  "client_device H serial w = (if serial_ok serial then NewClientContext H w else (Inl SerialRequired, w))"

definition with_device :: "'w adb_host \<Rightarrow> string \<Rightarrow> ('w \<Rightarrow> (adb_error + 'a) \<times> 'w) \<Rightarrow> 'w \<Rightarrow> (adb_error + 'a) \<times> 'w" where
  "with_device H serial f w = (case client_device H serial w of (Inl e, w) \<Rightarrow> (Inl e, w) | (Inr _, w) \<Rightarrow> f w)"

definition Ping :: "'w adb_host \<Rightarrow> 'w \<Rightarrow> adb_error option \<times> 'w" where
  "Ping H w =
     (case NewClientContext H w of
        (Inl e, w) \<Rightarrow> (Some e, w)
      | (Inr _, w) \<Rightarrow> (case ServerVersion H w of (Inl e, w) \<Rightarrow> (Some e, w) | (Inr _, w) \<Rightarrow> (None, w)))"

text \<open>\<open>Devices\<close>: those that are online; \<open>cancelled\<close> is the state of the context after each query.\<close>

fun online_devices :: "'w adb_host \<Rightarrow> (string \<times> string gomap) list \<Rightarrow> bool list \<Rightarrow> 'w \<Rightarrow> (adb_error + (string \<times> bool) list) \<times> 'w" where
  "online_devices H [] cancelled w = (Inr [], w)"
| "online_devices H ((serial, attrs) # ds) cancelled w =
     (case State H serial w of
        (state, w) \<Rightarrow>
          (if cancelled \<noteq> [] \<and> hd cancelled then (Inl Cancelled, w)
           else
             (case online_devices H ds (tl cancelled) w of
                (Inl e, w) \<Rightarrow> (Inl e, w)
              | (Inr rest, w) \<Rightarrow> (Inr (if state = Inr ''online'' then (serial, IsUsb attrs) # rest else rest), w))))"

definition Devices :: "'w adb_host \<Rightarrow> bool list \<Rightarrow> 'w \<Rightarrow> (adb_error + (string \<times> bool) list) \<times> 'w" where
  "Devices H cancelled w =
     (case NewClientContext H w of
        (Inl e, w) \<Rightarrow> (Inl e, w)
      | (Inr _, w) \<Rightarrow>
          (case DeviceList H w of
             (Inl e, w) \<Rightarrow> (Inl e, w)
           | (Inr ds, w) \<Rightarrow> online_devices H ds cancelled w))"

definition Online :: "'w adb_host \<Rightarrow> string \<Rightarrow> 'w \<Rightarrow> adb_error option \<times> 'w" where
  "Online H serial w =
     (case with_device H serial (State H serial) w of
        (Inl e, w) \<Rightarrow> (Some e, w)
      | (Inr state, w) \<Rightarrow> ((if state = ''online'' then None else Some (NotOnline state)), w))"

definition RequireShellV2 :: "'w adb_host \<Rightarrow> string \<Rightarrow> 'w \<Rightarrow> adb_error option \<times> 'w" where
  "RequireShellV2 H serial w =
     (case NewClientContext H w of
        (Inl e, w) \<Rightarrow> (Some e, w)
      | (Inr _, w) \<Rightarrow>
          (case host_command H (''host-serial:'' @ serial @ '':features'') w of
             (Inl e, w) \<Rightarrow> (Some e, w)
           | (Inr features, w) \<Rightarrow>
               ((if ''shell_v2'' \<in> set (split_on (CHR 0x2C) (trim_space features)) then None else Some NoShellV2), w)))"

definition Open :: "'w adb_host \<Rightarrow> string \<Rightarrow> string \<Rightarrow> 'w \<Rightarrow> (adb_error + link) \<times> 'w" where
  "Open H serial service = with_device H serial (OpenService H serial service)"

text \<open>The permissions of \<open>mode\<close> go with the file.\<close>

definition Push :: "'w adb_host \<Rightarrow> string \<Rightarrow> source_read list \<Rightarrow> string \<Rightarrow> nat \<Rightarrow> 32 word \<Rightarrow> bool \<Rightarrow> 'w \<Rightarrow> adb_error option \<times> 'w" where
  "Push H serial source destination mode now cancelled w =
     (case client_device H serial w of
        (Inl e, w) \<Rightarrow> (Some e, w)
      | (Inr _, w) \<Rightarrow>
          (case gadb_Push H serial source destination now (mode mod 512) w of
             (r, w) \<Rightarrow> ((if cancelled then Some Cancelled else (case r of Inl e \<Rightarrow> Some e | Inr _ \<Rightarrow> None)), w)))"

definition Pull :: "'w adb_host \<Rightarrow> string \<Rightarrow> string \<Rightarrow> (byte list \<Rightarrow> 'd \<Rightarrow> bool \<times> 'd) \<Rightarrow> 'd \<Rightarrow> bool \<Rightarrow> 'w \<Rightarrow> (adb_error option \<times> 'd) \<times> 'w" where
  "Pull H serial source store d cancelled w =
     (case client_device H serial w of
        (Inl e, w) \<Rightarrow> ((Some e, d), w)
      | (Inr _, w) \<Rightarrow>
          (case gadb_Pull H serial source store d w of
             ((r, d), w) \<Rightarrow> (((if cancelled then Some Cancelled else (case r of Inl e \<Rightarrow> Some e | Inr _ \<Rightarrow> None)), d), w)))"

definition client_List :: "'w adb_host \<Rightarrow> string \<Rightarrow> string \<Rightarrow> bool \<Rightarrow> 'w \<Rightarrow> (adb_error option \<times> (string \<times> nat \<times> nat \<times> nat) list) \<times> 'w" where
  "client_List H serial path cancelled w =
     (case client_device H serial w of
        (Inl e, w) \<Rightarrow> ((Some e, []), w)
      | (Inr _, w) \<Rightarrow>
          (case gadb_List H serial path w of
             (r, w) \<Rightarrow> ((if cancelled then (Some Cancelled, []) else r), w)))"

definition client_Reverse :: "'w adb_host \<Rightarrow> string \<Rightarrow> string \<Rightarrow> 'w \<Rightarrow> adb_error option \<times> 'w" where
  "client_Reverse H serial port w =
     (case Open H serial (''reverse:forward:tcp:'' @ port @ '';tcp:'' @ port) w of
        (Inl e, w) \<Rightarrow> (Some e, w)
      | (Inr l, w) \<Rightarrow> (None, hangup H l w))"

section \<open>Sessions\<close>

definition shell_service :: "bool \<Rightarrow> string \<Rightarrow> string" where
  "shell_service pty line = (if pty then ''shell,v2,TERM=xterm-256color,pty:'' else ''shell,v2,raw:'') @ line"

definition session_Start :: "'w adb_host \<Rightarrow> string \<Rightarrow> string \<Rightarrow> bool \<Rightarrow> 'w \<Rightarrow> (adb_error + link) \<times> 'w" where
  "session_Start H serial line pty = Open H serial (shell_service pty line)"

text \<open>\<open>send\<close> of a session on its connection.\<close>

definition session_send :: "bool \<Rightarrow> byte \<Rightarrow> byte list \<Rightarrow> unit act" where
  "session_send cancelled kind data = (if cancelled then raise Cancelled else put (packet kind data))"

datatype adb_run_error = NoSession adb_error | SessionEnded session_error

text \<open>
  \<open>Run\<close>: the input is closed at once, and the session ends when its reader does. The reader writes the output
  through \<open>wr\<close> to \<open>out\<close>.
\<close>

definition Run :: "'w adb_host \<Rightarrow> string \<Rightarrow> string \<Rightarrow> 'o writer \<Rightarrow> 'o \<Rightarrow> bool \<Rightarrow> bool \<Rightarrow> 'w \<Rightarrow> (adb_run_error option \<times> 'o) \<times> 'w" where
  "Run H serial line wr out early late w =
     (case session_Start H serial line False w of
        (Inl e, w) \<Rightarrow> ((Some (NoSession e), out), w)
      | (Inr l, w) \<Rightarrow>
          (case session_send early 4 [] l of
             (Inl e, l) \<Rightarrow> ((Some (NoSession e), out), hangup H l w)
           | (Inr _, l) \<Rightarrow>
               (case session_read wr (pending l) out of
                  (e, out) \<Rightarrow> (((if late then Some (NoSession Cancelled) else map_option SessionEnded e), out), hangup H l w))))"

text \<open>\<open>RunLegacy\<close>, whose output is what the connection brings until it ends.\<close>

definition RunLegacy :: "'w adb_host \<Rightarrow> string \<Rightarrow> byte list \<Rightarrow> string \<Rightarrow> bool option \<Rightarrow> bool \<Rightarrow> 'w \<Rightarrow> (string option \<times> (adb_error + legacy_error) option) \<times> 'w" where
  "RunLegacy H serial nonce line outOk cancelled w =
     (case Open H serial (''shell:'' @ legacy_wrapped (legacy_marker nonce) line) w of
        (Inl e, w) \<Rightarrow> ((None, Some (Inl e)), w)
      | (Inr l, w) \<Rightarrow>
          (if cancelled then ((None, Some (Inl Cancelled)), hangup H l w)
           else
             (case run_legacy (legacy_marker nonce) outOk (string_of (pending l)) of
                (out, e) \<Rightarrow> ((out, map_option Inr e), hangup H l w))))"

section \<open>The agent on an ADB device\<close>

text \<open>The device's shell as \<open>Execute\<close> sees it: both outputs are collected, and the exit status is an \<open>ExitError\<close>.\<close>

definition piece_writer :: "(bool \<times> byte list) list writer" where
  "piece_writer err data pieces = ((False, length data), pieces @ [(err, data)])"

definition exec_error_of :: "adb_run_error \<Rightarrow> exec_error" where
  "exec_error_of e = (case e of SessionEnded (ExitError code) \<Rightarrow> AdbExit (int code) | _ \<Rightarrow> ExecFailed ''ADB'')"

definition device_run :: "'w adb_host \<Rightarrow> string \<Rightarrow> string \<Rightarrow> 'w \<Rightarrow> exec_result \<times> 'w" where
  "device_run H serial line w =
     (case Run H serial line piece_writer [] False False w of
        ((e, pieces), w) \<Rightarrow> ((pieces, map_option exec_error_of e), w))"

text \<open>A file of the agent's machine is read in pieces of 64 KiB, and the last read returns no bytes.\<close>

function file_reads :: "byte list \<Rightarrow> source_read list" where
  "file_reads content =
     (if content = [] then [Eof []] else Bytes (take 65536 content) # file_reads (drop 65536 content))"
  by pat_completeness auto
termination
  by (relation "measure length") auto

declare file_reads.simps [simp del]

definition device_push :: "'w adb_host \<Rightarrow> string \<Rightarrow> 32 word \<Rightarrow> byte list \<Rightarrow> string \<Rightarrow> 'w \<Rightarrow> bool \<times> 'w" where
  "device_push H serial now content destination w =
     (case Push H serial (file_reads content) destination 420 now False w of (e, w) \<Rightarrow> (e = None, w))"

text \<open>\<open>OpenTerminal\<close>: a shell with the given size; a terminal that cannot take it is closed.\<close>

definition terminal_size :: "16 word \<Rightarrow> 16 word \<Rightarrow> byte list" where
  "terminal_size rows cols = bytes (show_nat (unat rows) @ ''x'' @ show_nat (unat cols) @ '',0x0'' @ [CHR 0x00])"

definition session_Resize :: "bool \<Rightarrow> 16 word \<Rightarrow> 16 word \<Rightarrow> unit act" where
  "session_Resize cancelled rows cols =
     (if rows = 0 \<or> cols = 0 then raise BadNumber else session_send cancelled 5 (terminal_size rows cols))"

definition OpenTerminal :: "'w adb_host \<Rightarrow> string \<Rightarrow> 16 word \<Rightarrow> 16 word \<Rightarrow> bool \<Rightarrow> 'w \<Rightarrow> (adb_error + link) \<times> 'w" where
  "OpenTerminal H serial rows cols cancelled w =
     (case session_Start H serial ''exec sh'' True w of
        (Inl e, w) \<Rightarrow> (Inl e, w)
      | (Inr l, w) \<Rightarrow>
          (case session_Resize cancelled rows cols l of
             (Inl e, l) \<Rightarrow> (Inl e, hangup H l w)
           | (Inr _, l) \<Rightarrow> (Inr l, w)))"

text \<open>
  \<open>watchConnection\<close>: one entry per tick, whether the context has ended before it; the result is whether the watch
  has cancelled the agent, or is still running.
\<close>

fun watchConnection :: "'w adb_host \<Rightarrow> string \<Rightarrow> ('w \<Rightarrow> 'w) \<Rightarrow> bool list \<Rightarrow> 'w \<Rightarrow> bool option" where
  "watchConnection H serial meanwhile [] w = None"
| "watchConnection H serial meanwhile (ended # ticks) w =
     (if ended then Some False
      else
        (case Online H serial (meanwhile w) of
           (Some _, _) \<Rightarrow> Some True
         | (None, w) \<Rightarrow> watchConnection H serial meanwhile ticks w))"

end
