(* ===== verification/AdbDevice.thy ===== *)
theory AdbDevice
  imports AdbClient
begin

text \<open>
  An ADB server with its devices, as the ADB protocol describes it, and what the client makes of it. The server
  parses what it receives, independently of how the client writes it: requests with their length in four hex digits,
  the transport to a device, the sync service for files and the shell service, where \<open>sh\<close> is what the shell of a
  device makes of a command line: its output, its exit status and the files after it.
\<close>

section \<open>The server\<close>

type_synonym device_fs = "byte list gomap"

type_synonym device_shell = "string \<Rightarrow> device_fs \<Rightarrow> (bool \<times> byte list) list \<times> nat \<times> device_fs"

definition unframe :: "byte list \<Rightarrow> (string \<times> byte list) option" where
  "unframe bs =
     (if length bs < 4 then None
      else
        (case uint_digits 16 0 (string_of (take 4 bs)) of
           (n, ok) \<Rightarrow> if ok \<and> n \<le> length (drop 4 bs) then Some (string_of (take n (drop 4 bs)), drop n (drop 4 bs)) else None))"

text \<open>The header of a message of the sync service: its name and its number.\<close>

definition sync_header :: "byte list \<Rightarrow> (string \<times> nat \<times> byte list) option" where
  "sync_header bs = (if length bs < 8 then None else Some (string_of (take 4 bs), get_le (take 4 (drop 4 bs)), drop 8 bs))"

text \<open>The data of a file that is sent, when it is complete.\<close>

function adbd_receive :: "byte list \<Rightarrow> byte list \<Rightarrow> byte list option" where
  "adbd_receive acc bs =
     (case sync_header bs of
        None \<Rightarrow> None
      | Some (i, n, rest) \<Rightarrow>
          (if i = ''DONE'' then Some acc
           else if i \<noteq> ''DATA'' \<or> 65536 < n \<or> length rest < n then None
           else adbd_receive (acc @ take n rest) (drop n rest)))"
  by pat_completeness auto
termination
  by (relation "measure (\<lambda>(acc, bs). length bs)") (auto simp: sync_header_def split: if_splits)

declare adbd_receive.simps [simp del]

function chunks :: "byte list \<Rightarrow> byte list list" where
  "chunks content = (if content = [] then [] else take 65536 content # chunks (drop 65536 content))"
  by pat_completeness auto
termination
  by (relation "measure length") auto

declare chunks.simps [simp del]

text \<open>The path of a file that is sent ends at the last comma.\<close>

definition send_path :: "string \<Rightarrow> string" where
  "send_path s = (case last_index s '','' of None \<Rightarrow> s | Some i \<Rightarrow> take i s)"

definition adbd_sync :: "device_fs \<Rightarrow> byte list \<Rightarrow> byte list \<times> device_fs" where
  "adbd_sync files bs =
     (case sync_header bs of
        None \<Rightarrow> ([], files)
      | Some (i, n, body) \<Rightarrow>
          (let name = string_of (take n body) in
           if length body < n then ([], files)
           else if i = ''SEND'' then
             (case adbd_receive [] (drop n body) of
                None \<Rightarrow> ([], files)
              | Some content \<Rightarrow> (sync_message ''OKAY'' [], mput (send_path name) content files))
           else if i = ''RECV'' then
             (case map_of files name of
                None \<Rightarrow> (sync_message ''FAIL'' (bytes ''No such file or directory''), files)
              | Some content \<Rightarrow> (concat (map (sync_message ''DATA'') (chunks content)) @ sync_message ''DONE'' [], files))
           else (sync_message ''FAIL'' (bytes ''unknown command''), files)))"

text \<open>The shell runs when its input is closed.\<close>

definition adbd_shell :: "device_shell \<Rightarrow> string \<Rightarrow> device_fs \<Rightarrow> byte list \<Rightarrow> byte list \<times> device_fs" where
  "adbd_shell sh line files bs =
     (if bs = packet 4 [] then
        (case sh line files of
           (pieces, code, files') \<Rightarrow>
             (concat (map (\<lambda>(err, data). packet (if err then 2 else 1) data) pieces) @ packet 3 (put_le 4 code), files'))
      else ([], files))"

definition refusal :: "string \<Rightarrow> byte list" where
  "refusal reason = bytes ''FAIL'' @ request_frame reason"

definition adbd_device :: "device_shell \<Rightarrow> device_fs \<Rightarrow> byte list \<Rightarrow> byte list \<times> device_fs" where
  "adbd_device sh files bs =
     (case unframe bs of
        None \<Rightarrow> ([], files)
      | Some (service, rest) \<Rightarrow>
          (let okay = (\<lambda>(reply, files). (bytes ''OKAY'' @ reply, files)) in
           if service = ''sync:'' then okay (adbd_sync files rest)
           else if prefix ''shell,v2,raw:'' service then okay (adbd_shell sh (drop 13 service) files rest)
           else (refusal ''unknown service'', files)))"

definition adbd :: "device_shell \<Rightarrow> device_fs gomap \<Rightarrow> byte list \<Rightarrow> byte list \<times> device_fs gomap" where
  "adbd sh st bs =
     (case unframe bs of
        None \<Rightarrow> ([], st)
      | Some (r, rest) \<Rightarrow>
          (if prefix ''host:transport:'' r then
             (let serial = drop 15 r in
              case map_of st serial of
                None \<Rightarrow> (refusal (''device not found''), st)
              | Some files \<Rightarrow>
                  (case adbd_device sh files rest of
                     (reply, files') \<Rightarrow> (bytes ''OKAY'' @ reply, mput serial files' st)))
           else (refusal ''unknown request'', st)))"

definition adb_server :: "device_shell \<Rightarrow> (device_fs gomap) adb_host" where
  "adb_server sh = \<lparr>listens = (\<lambda>_. True), serve = (\<lambda>st bs. fst (adbd sh st bs)), broken = (\<lambda>_ _. False),
     after = (\<lambda>bs st. snd (adbd sh st bs))\<rparr>"

section \<open>Framing\<close>

lemma bytes_append [simp]: "bytes (s @ t) = bytes s @ bytes t"
  by (simp add: bytes_def)

lemma hex_digit_value: "n < 16 \<Longrightarrow> digit_value (''0123456789abcdef'' ! n) = Some n"
proof -
  have "\<forall>m \<in> set [0..<16]. digit_value (''0123456789abcdef'' ! m) = Some m" by code_simp
  then show "n < 16 \<Longrightarrow> ?thesis" by (simp only: set_upt) auto
qed

lemma show_hex_digits:
  "n < 16 \<Longrightarrow> show_hex n = [''0123456789abcdef'' ! n]"
  "16 \<le> n \<Longrightarrow> show_hex n = show_hex (n div 16) @ [''0123456789abcdef'' ! (n mod 16)]"
  by (simp_all add: show_hex.simps)

lemma hex4_digits:
  assumes "n < 65536"
  shows "hex4 n = map ((!) ''0123456789abcdef'') [n div 4096, n div 256 mod 16, n div 16 mod 16, n mod 16]"
proof -
  define d where "d = (!) ''0123456789abcdef''"
  have zero: "CHR 0x30 = d 0" by (simp add: d_def)
  note digits = show_hex_digits [folded d_def]
  consider "n < 16" | "16 \<le> n" "n < 256" | "256 \<le> n" "n < 4096" | "4096 \<le> n" by linarith
  then have "hex4 n = map d [n div 4096, n div 256 mod 16, n div 16 mod 16, n mod 16]"
  proof cases
    case 1
    moreover have "replicate 3 (d 0) = [d 0, d 0, d 0]" by (simp add: numeral_eq_Suc)
    ultimately show ?thesis by (simp add: hex4_def digits zero)
  next
    case 2
    then have "n div 16 < 16" by (simp add: less_mult_imp_div_less)
    moreover have "replicate 2 (d 0) = [d 0, d 0]" by (simp add: numeral_eq_Suc)
    ultimately show ?thesis using 2 by (simp add: hex4_def digits zero)
  next
    case 3
    then have "16 \<le> n div 16" "n div 16 div 16 < 16" by (simp_all add: less_mult_imp_div_less div_mult2_eq [symmetric] div_le_mono [of 256 n 16, simplified])
    with 3 show ?thesis by (simp add: hex4_def digits zero div_mult2_eq [symmetric])
  next
    case 4
    then have "16 \<le> n div 16" "16 \<le> n div 16 div 16" "n div 16 div 16 div 16 < 16" using assms
      by (simp_all add: less_mult_imp_div_less div_mult2_eq [symmetric] div_le_mono [of 256 n 16, simplified] div_le_mono [of 4096 n 256, simplified])
    with 4 show ?thesis by (simp add: hex4_def digits zero div_mult2_eq [symmetric])
  qed
  then show ?thesis by (simp add: d_def)
qed

lemma hex4_value: "n < 65536 \<Longrightarrow> length (hex4 n) = 4 \<and> uint_digits 16 0 (hex4 n) = (n, True)"
proof -
  assume n: "n < 65536"
  define d where "d = (!) ''0123456789abcdef''"
  have d: "digit_value (d i) = Some i" if "i < 16" for i using hex_digit_value [OF that] by (simp add: d_def)
  have eqs: "n div 256 = n div 16 div 16" "n div 4096 = n div 16 div 16 div 16" by (simp_all add: div_mult2_eq [symmetric])
  have "n div 16 div 16 div 16 < 16" using n by (simp add: div_mult2_eq [symmetric] less_mult_imp_div_less)
  moreover have "m div 16 < 2 ^ 64 \<and> m div 16 div 16 < 2 ^ 64" if "m < 65536" for m :: nat
    using that by (simp add: div_le_dividend le_less_trans less_mult_imp_div_less)
  moreover have "\<not> 16 \<le> m mod 16" for m :: nat by (simp add: not_le)
  ultimately show ?thesis using n unfolding hex4_digits [OF n] d_def [symmetric] eqs by (simp add: d not_le)
qed

lemma unframe_request: "length r < 65536 \<Longrightarrow> unframe (request_frame r @ rest) = Some (r, rest)"
  using hex4_value [of "length r"] by (simp add: unframe_def request_frame_def)

lemma unframe_Nil [simp]: "unframe [] = None"
  by (simp add: unframe_def)

section \<open>The client on this server\<close>

text \<open>A connection to the server on which \<open>bs\<close> has been written, with the first \<open>n\<close> bytes of its answer read.\<close>

definition link_at :: "device_shell \<Rightarrow> device_fs gomap \<Rightarrow> byte list \<Rightarrow> nat \<Rightarrow> link" where
  "link_at sh st bs n = \<lparr>l_serve = (\<lambda>bs. fst (adbd sh st bs)), l_broken = (\<lambda>_. False), written = bs, taken = n\<rparr>"

lemma dial_server [simp]: "dial (adb_server sh) st = Some (link_at sh st [] 0)"
  by (simp add: dial_def adb_server_def link_at_def)

lemma hangup_server [simp]: "hangup (adb_server sh) (link_at sh st bs n) st = snd (adbd sh st bs)"
  by (simp add: hangup_def adb_server_def link_at_def)

lemma pending_at [simp]: "pending (link_at sh st bs n) = drop n (fst (adbd sh st bs))"
  by (simp add: pending_def link_at_def)

lemma put_at [simp]: "put bs' (link_at sh st bs n) = (Inr (), link_at sh st (bs @ bs') n)"
  by (simp add: put_def link_at_def)

lemma read_at: "drop n (fst (adbd sh st bs)) = x @ y \<Longrightarrow>
   ReadBytesN (length x) (link_at sh st bs n) = (Inr x, link_at sh st bs (n + length x))"
  by (simp add: ReadBytesN_def) (simp add: link_at_def)

lemma read_text_at: "drop n (fst (adbd sh st bs)) = bytes x @ y \<Longrightarrow> length x = k \<Longrightarrow>
   ReadStringN k (link_at sh st bs n) = (Inr x, link_at sh st bs (n + k))"
  using read_at [of n sh st bs "bytes x" y] by (auto simp: ReadStringN_def and_then_def return_def)

lemma read_number_at: "drop n (fst (adbd sh st bs)) = put_le 4 v @ y \<Longrightarrow>
   ReadUint32 (link_at sh st bs n) = (Inr (v mod 2 ^ 32), link_at sh st bs (n + 4))"
  using read_at [of n sh st bs "put_le 4 v" y] by (simp add: ReadUint32_def and_then_def return_def)

lemma read_nothing [simp]: "ReadStringN 0 l = (Inr [], l)"
  by (simp add: ReadStringN_def ReadBytesN_def and_then_def return_def string_of_def)

lemma request_at:
  assumes "drop n (fst (adbd sh st (bs @ request_frame r))) = bytes ''OKAY'' @ y"
  shows "smart_request r (link_at sh st bs n) = (Inr (), link_at sh st (bs @ request_frame r) (n + 4))"
  using read_text_at [OF assms, of 4] by (simp add: smart_request_def VerifyResponse_def Send_def and_then_def return_def)

definition transport :: "string \<Rightarrow> byte list" where
  "transport serial = request_frame (''host:transport:'' @ serial)"

definition reachable_device :: "string \<Rightarrow> device_fs gomap \<Rightarrow> device_fs \<Rightarrow> bool" where
  "reachable_device serial st files \<longleftrightarrow> serial_ok serial \<and> length serial < 65000 \<and> map_of st serial = Some files"

lemma adbd_transport:
  "reachable_device serial st files \<Longrightarrow> adbd sh st (transport serial @ rest) =
     (bytes ''OKAY'' @ fst (adbd_device sh files rest), mput serial (snd (adbd_device sh files rest)) st)"
  by (simp add: adbd_def transport_def unframe_request reachable_device_def split_beta)

lemma adbd_device_Nil [simp]: "adbd_device sh files [] = ([], files)"
  by (simp add: adbd_device_def)

lemma mput_same: "map_of m k = Some v \<Longrightarrow> mput k v m = m"
  by (induction m) (auto split: if_splits)

lemma transport_at:
  assumes "reachable_device serial st files"
  shows "createDeviceTransport serial (link_at sh st [] 0) = (Inr (), link_at sh st (transport serial) 4)"
  using request_at [of 0 sh st "[]" "''host:transport:'' @ serial" "[]"] adbd_transport [OF assms, of sh "[]"]
  by (simp add: createDeviceTransport_def transport_def)

lemma device_found: "reachable_device serial st files \<Longrightarrow> client_device (adb_server sh) serial st = (Inr (), st)"
  by (simp add: client_device_def reachable_device_def NewClientContext_def with_link_def return_def adbd_def)

lemma service_at:
  assumes "reachable_device serial st files" "adbd_device sh files (request_frame service) = (bytes ''OKAY'' @ y, files')"
  shows "and_then (createDeviceTransport serial) (\<lambda>_. smart_request service) (link_at sh st [] 0) =
    (Inr (), link_at sh st (transport serial @ request_frame service) 8)"
  using request_at [of 4 sh st "transport serial" service y] adbd_transport [OF assms(1), of sh "request_frame service"] assms(2)
  by (simp add: and_then_def transport_at [OF assms(1)])

lemma sync_opened: "adbd_device sh files (request_frame ''sync:'' @ rest) = (bytes ''OKAY'' @ fst (adbd_sync files rest), snd (adbd_sync files rest))"
  by (simp add: adbd_device_def unframe_request split_beta)

lemma sync_at:
  assumes "reachable_device serial st files"
  shows "CreateSyncTransport serial (link_at sh st [] 0) = (Inr (), link_at sh st (transport serial @ request_frame ''sync:'') 8)"
  using service_at [OF assms, of sh "''sync:''"] sync_opened [of sh files "[]"]
  by (simp add: CreateSyncTransport_def adbd_sync_def sync_header_def)

lemma sync_served:
  assumes "reachable_device serial st files"
  shows "adbd sh st (transport serial @ request_frame ''sync:'' @ rest) =
    (bytes ''OKAYOKAY'' @ fst (adbd_sync files rest), mput serial (snd (adbd_sync files rest)) st)"
  using adbd_transport [OF assms, of sh "request_frame ''sync:'' @ rest"] sync_opened [of sh files rest] by (simp add: bytes_def)

section \<open>Files\<close>

lemma sync_header_message: "length i = 4 \<Longrightarrow> length data < 2 ^ 32 \<Longrightarrow>
   sync_header (sync_message i data @ rest) = Some (i, length data, data @ rest)"
  by (simp add: sync_header_def sync_message_def)

lemma sync_header_done: "sync_header (bytes ''DONE'' @ put_le 4 t @ rest) = Some (''DONE'', t mod 2 ^ 32, rest)"
  by (simp add: sync_header_def)

lemma received:
  "list_all (\<lambda>c. length c \<le> 65536) cs \<Longrightarrow>
     adbd_receive acc (concat (map (sync_message ''DATA'') cs) @ bytes ''DONE'' @ put_le 4 t @ rest) = Some (acc @ concat cs)"
proof (induction cs arbitrary: acc)
  case Nil
  show ?case by (subst adbd_receive.simps) (simp add: sync_header_done)
next
  case (Cons c cs)
  define r where "r = concat (map (sync_message ''DATA'') cs) @ bytes ''DONE'' @ put_le 4 t @ rest"
  have c: "length c < 2 ^ 32" "length c \<le> 65536" using Cons.prems by simp_all
  have "adbd_receive acc (sync_message ''DATA'' c @ r) = adbd_receive (acc @ c) r"
    using c(2) by (subst adbd_receive.simps) (simp add: sync_header_message [OF _ c(1)])
  with Cons show ?case by (simp add: r_def)
qed

lemma streamed: "SendStream (map Bytes cs @ [Eof e]) (link_at sh st bs n) =
   (Inr (), link_at sh st (bs @ concat (map (sync_message ''DATA'') cs)) n)"
  by (induction cs arbitrary: bs) (simp_all add: and_then_def return_def)

lemma file_reads_chunks: "file_reads content = map Bytes (chunks content) @ [Eof []]"
proof (induction content rule: chunks.induct)
  case (1 content)
  then show ?case by (simp add: file_reads.simps [of content] chunks.simps [of content])
qed

lemma concat_chunks: "concat (chunks content) = content"
proof (induction content rule: chunks.induct)
  case (1 content)
  then show ?case by (simp add: chunks.simps [of content])
qed

lemma small_chunks: "list_all (\<lambda>c. length c \<le> 65536) (chunks content)"
proof (induction content rule: chunks.induct)
  case (1 content)
  then show ?case by (simp add: chunks.simps [of content])
qed

lemma last_comma: "CHR 0x2C \<notin> set t \<Longrightarrow> last_index (s @ '','' @ t) '','' = Some (length s)"
proof (induction s)
  case Nil
  have "last_index t '','' = None" if "CHR 0x2C \<notin> set t" using that by (induction t) auto
  with Nil show ?case by simp
qed simp

lemma sent_path: "send_path (path @ '','' @ show_nat mode) = path"
proof -
  have "CHR 0x2C \<notin> set (show_nat mode)" using show_nat_digits [of "CHR 0x2C" mode] by (auto simp: less_eq_char_def)
  then show ?thesis using last_comma [of "show_nat mode" path] by (simp add: send_path_def)
qed

definition send_message :: "string \<Rightarrow> nat \<Rightarrow> byte list" where
  "send_message path mode = sync_message ''SEND'' (bytes (path @ '','' @ show_nat mode))"

lemma sync_sent:
  assumes "length (path @ '','' @ show_nat mode) < 2 ^ 32" "list_all (\<lambda>c. length c \<le> 65536) cs"
  shows "adbd_sync files (send_message path mode @ concat (map (sync_message ''DATA'') cs) @ bytes ''DONE'' @ put_le 4 t) =
    (sync_message ''OKAY'' [], mput path (concat cs) files)"
proof -
  define name where "name = path @ '','' @ show_nat mode"
  have name: "length name < 2 ^ 32" "send_path name = path" using assms(1) sent_path [of path mode] by (simp_all only: name_def)
  have "adbd_receive [] (concat (map (sync_message ''DATA'') cs) @ bytes ''DONE'' @ put_le 4 t) = Some (concat cs)"
    using received [OF assms(2), of "[]" t "[]"] by simp
  moreover have "sync_header (send_message path mode @ r) = Some (''SEND'', length name, bytes name @ r)" for r
    using sync_header_message [of "''SEND''" "bytes name" r] name(1) by (simp only: send_message_def name_def length_bytes) simp
  ultimately show ?thesis using name(2) by (simp add: adbd_sync_def Let_def)
qed

lemma pushed_file:
  assumes dev: "reachable_device serial st files" and name: "length (path @ '','' @ show_nat mode) < 2 ^ 32"
    and cs: "list_all (\<lambda>c. length c \<le> 65536) cs"
  shows "gadb_Push (adb_server sh) serial (map Bytes cs @ [Eof e]) path t mode st = (Inr (), mput serial (mput path (concat cs) files) st)"
proof -
  define sent where "sent = send_message path mode @ concat (map (sync_message ''DATA'') cs) @ bytes ''DONE'' @ put_le 4 (unat t)"
  define whole where "whole = transport serial @ request_frame ''sync:'' @ sent"
  have served: "adbd sh st whole = (bytes ''OKAYOKAY'' @ sync_message ''OKAY'' [], mput serial (mput path (concat cs) files) st)"
    using sync_served [OF dev, of sh sent] sync_sent [OF name cs] by (simp add: whole_def sent_def)
  have "VerifyStatus (link_at sh st whole 8) = (Inr (), link_at sh st whole 16)"
    using read_text_at [of 8 sh st whole "''OKAY''" "put_le 4 0" 4] read_number_at [of 12 sh st whole 0 "[]"]
    by (simp add: served VerifyStatus_def and_then_def return_def sync_message_def)
  moreover have "transport serial @ request_frame ''sync:'' @ sync_message ''SEND'' (bytes path @ bytes (CHR '','' # show_nat mode)) @
      concat (map (sync_message ''DATA'') cs) @ bytes ''DONE'' @ put_le 4 (unat t) = whole"
    by (simp add: whole_def sent_def send_message_def)
  ultimately show ?thesis
    by (simp add: gadb_Push_def with_link_def and_then_def sync_at [OF dev] sync_Send_def streamed SendStatus_def served)
qed

lemma chunk_read:
  assumes "drop n (fst (adbd sh st bs)) = sync_message ''DATA'' c @ y" "length c \<le> 65536"
  shows "readChunk (link_at sh st bs n) = (Inr (Some c), link_at sh st bs (n + (8 + length c)))"
proof -
  have "drop (n + 4) (fst (adbd sh st bs)) = drop 4 (sync_message ''DATA'' c @ y)" "drop (n + 8) (fst (adbd sh st bs)) = drop 8 (sync_message ''DATA'' c @ y)"
    by (simp_all only: assms(1) [symmetric] drop_drop add.commute)
  then have "drop (n + 4) (fst (adbd sh st bs)) = put_le 4 (length c) @ c @ y" "drop (n + 8) (fst (adbd sh st bs)) = c @ y"
    by (simp_all add: sync_message_def)
  then show ?thesis using assms read_text_at [of n sh st bs "''DATA''" _ 4] read_number_at [of "n + 4" sh st bs] read_at [of "n + 8" sh st bs c y]
    by (simp add: readChunk_def and_then_def return_def sync_message_def add.assoc)
qed

lemma done_read:
  assumes "drop n (fst (adbd sh st bs)) = sync_message ''DONE'' []"
  shows "readChunk (link_at sh st bs n) = (Inr None, link_at sh st bs (n + 8))"
proof -
  have "drop (n + 4) (fst (adbd sh st bs)) = put_le 4 0"
    using assms drop_drop [of 4 n "fst (adbd sh st bs)"] by (simp add: sync_message_def add.commute)
  then show ?thesis using assms read_text_at [of n sh st bs "''DONE''" "put_le 4 0" 4] read_number_at [of "n + 4" sh st bs 0 "[]"]
    by (simp add: readChunk_def and_then_def return_def sync_message_def add.assoc)
qed

definition collect :: "byte list \<Rightarrow> byte list \<Rightarrow> bool \<times> byte list" where
  "collect chunk d = (True, d @ chunk)"

lemma stream_written:
  assumes "drop n (fst (adbd sh st bs)) = concat (map (sync_message ''DATA'') cs) @ sync_message ''DONE'' []" "list_all (\<lambda>c. length c \<le> 65536) cs"
  shows "\<exists>m. WriteStream collect d (link_at sh st bs n) = ((Inr (), d @ concat cs), link_at sh st bs m)"
  using assms
proof (induction cs arbitrary: d n)
  case Nil
  then have "WriteStream collect d (link_at sh st bs n) = ((Inr (), d @ concat []), link_at sh st bs (n + 8))"
    by (subst WriteStream.simps) (simp add: done_read)
  then show ?case by blast
next
  case (Cons c cs)
  have "drop (n + (8 + length c)) (fst (adbd sh st bs)) = concat (map (sync_message ''DATA'') cs) @ sync_message ''DONE'' []"
  proof -
    have "drop (n + (8 + length c)) (fst (adbd sh st bs)) = drop (length (sync_message ''DATA'' c)) (drop n (fst (adbd sh st bs)))"
      by (simp add: sync_message_def add.commute)
    then show ?thesis by (simp only: Cons.prems(1)) simp
  qed
  moreover have "WriteStream collect d (link_at sh st bs n) = WriteStream collect (d @ c) (link_at sh st bs (n + (8 + length c)))"
    using Cons.prems chunk_read [of n sh st bs c] collect_def [of c d] by (subst WriteStream.simps) simp
  ultimately show ?case using Cons.IH [of "n + (8 + length c)" "d @ c"] Cons.prems by simp
qed

lemma pulled_file:
  assumes dev: "reachable_device serial st files" and name: "length path < 2 ^ 32" "map_of files path = Some content"
  shows "gadb_Pull (adb_server sh) serial path collect [] st = ((Inr (), content), st)"
proof -
  define whole where "whole = transport serial @ request_frame ''sync:'' @ sync_message ''RECV'' (bytes path)"
  have "adbd_sync files (sync_message ''RECV'' (bytes path)) =
      (concat (map (sync_message ''DATA'') (chunks content)) @ sync_message ''DONE'' [], files)"
    using name sync_header_message [of "''RECV''" "bytes path" "[]"] by (simp add: adbd_sync_def Let_def)
  moreover have "mput serial files st = st" using dev by (simp add: reachable_device_def mput_same)
  ultimately have served: "adbd sh st whole =
      (bytes ''OKAYOKAY'' @ concat (map (sync_message ''DATA'') (chunks content)) @ sync_message ''DONE'' [], st)"
    using sync_served [OF dev, of sh "sync_message ''RECV'' (bytes path)"] by (simp add: whole_def)
  then obtain m where "WriteStream collect [] (link_at sh st whole 8) = ((Inr (), content), link_at sh st whole m)"
    using stream_written [of 8 sh st whole "chunks content" "[]"] small_chunks [of content] by (auto simp: concat_chunks)
  then show ?thesis by (simp add: gadb_Pull_def and_then_def sync_at [OF dev] sync_Send_def served flip: whole_def)
qed

text \<open>
  C32. What the agent pushes to an ADB device is what it pulls from it. Through the framing of requests, the transport to
  the device with that serial and the messages of the sync service, a file of any length arrives as it is, in
  pieces of at most 64 KiB; no other file and no other device changes; and a pull of it brings back the same
  bytes and changes nothing.
\<close>

theorem pushed_is_pulled:
  assumes "reachable_device serial st files" "length path < 2 ^ 31"
  shows "\<exists>st'. device_push (adb_server sh) serial now content path st = (True, st') \<and>
    (\<forall>d p. (map_of st' d \<bind> (\<lambda>fs. map_of fs p)) = (if d = serial \<and> p = path then Some content else map_of st d \<bind> (\<lambda>fs. map_of fs p))) \<and>
    Pull (adb_server sh) serial path collect [] False st' = ((None, content), st')"
proof -
  define st' where "st' = mput serial (mput path content files) st"
  have short: "length (show_nat 420) = 3" by (simp add: show_nat.simps)
  have "420 mod 512 = (420 :: nat)" by simp
  then have "device_push (adb_server sh) serial now content path st = (True, st')"
    using pushed_file [OF assms(1), of path 420 "chunks content" sh "[]" now] assms(2) short small_chunks [of content]
    by (simp add: device_push_def Push_def device_found [OF assms(1)] file_reads_chunks concat_chunks st'_def)
  moreover have dev: "reachable_device serial st' (mput path content files)" using assms(1) by (simp add: reachable_device_def st'_def update_conv')
  moreover have "gadb_Pull (adb_server sh) serial path collect [] st' = ((Inr (), content), st')"
    using pulled_file [OF dev, of path content sh] assms(2) by (simp add: update_conv')
  moreover from calculation have "Pull (adb_server sh) serial path collect [] False st' = ((None, content), st')"
    by (simp add: Pull_def device_found [OF dev])
  moreover have "(map_of st' d \<bind> (\<lambda>fs. map_of fs p)) = (if d = serial \<and> p = path then Some content else map_of st d \<bind> (\<lambda>fs. map_of fs p))" for d p
    using assms(1) by (auto simp: st'_def update_conv' reachable_device_def)
  ultimately show ?thesis by blast
qed

definition silent_shell :: device_shell where
  "silent_shell line files = ([], 0, files)"

theorem pushed_is_pulled_witness:
  "\<exists>st'. device_push (adb_server silent_shell) ''emulator'' 7 [1, 2, 3] ''/a,b'' [(''emulator'', [])] = (True, st') \<and>
    Pull (adb_server silent_shell) ''emulator'' ''/a,b'' collect [] False st' = ((None, [1, 2, 3]), st')"
proof -
  have "trim_space ''emulator'' = ''emulator''" by code_simp
  then have "reachable_device ''emulator'' [(''emulator'', [])] []" by (simp add: reachable_device_def serial_ok_def)
  then show ?thesis using pushed_is_pulled [of "''emulator''" "[(''emulator'', [])]" "[]" "''/a,b''" silent_shell 7 "[1, 2, 3]"] by auto
qed

section \<open>Commands\<close>

lemma pieces_read:
  "list_all (\<lambda>p. length (snd p) \<le> maxShellPacket) ps \<Longrightarrow>
     session_read piece_writer (concat (map (\<lambda>(err, data). packet (if err then 2 else 1) data) ps) @ r) acc = session_read piece_writer r (acc @ ps)"
proof (induction ps arbitrary: acc)
  case (Cons p ps)
  obtain err data where p: "p = (err, data)" by (cases p)
  with Cons.prems have "length data \<le> maxShellPacket" by simp
  then have "session_read piece_writer (packet (if err then 2 else 1) data @ s) acc = session_read piece_writer s (acc @ [(err, data)])" for s
    by (simp add: session_read_packet piece_writer_def)
  with Cons show ?case by (simp add: p)
qed simp

lemma service_on_device:
  assumes "length line < 65000"
  shows "adbd_device sh files (request_frame (shell_service False line) @ rest) =
    (bytes ''OKAY'' @ fst (adbd_shell sh line files rest), snd (adbd_shell sh line files rest))"
proof -
  have "length (shell_service False line) < 65536" "prefix ''shell,v2,raw:'' (shell_service False line)" "shell_service False line \<noteq> ''sync:''"
    "drop 13 (shell_service False line) = line"
    using assms by (simp_all add: shell_service_def)
  then show ?thesis by (cases "adbd_shell sh line files rest") (simp add: adbd_device_def unframe_request Let_def)
qed

lemma service_served:
  assumes "reachable_device serial st files" "length line < 65000"
  shows "adbd sh st (transport serial @ request_frame (shell_service False line) @ rest) =
    (bytes ''OKAYOKAY'' @ fst (adbd_shell sh line files rest), mput serial (snd (adbd_shell sh line files rest)) st)"
  using adbd_transport [OF assms(1), of sh] service_on_device [OF assms(2), of sh files rest] by (simp add: bytes_def)

lemma device_runs:
  assumes dev: "reachable_device serial st files" and line: "length line < 65000"
    and sh: "sh line files = (pieces, code, files')" "list_all (\<lambda>p. length (snd p) \<le> maxShellPacket) pieces" "code < 2 ^ 32"
  shows "device_run (adb_server sh) serial line st =
    ((pieces, if code = 0 then None else Some (AdbExit (int code))), mput serial files' st)"
proof -
  define service where "service = shell_service False line"
  define whole where "whole = transport serial @ request_frame service @ packet 4 []"
  have idle: "adbd_shell sh line files [] = ([], files)" by (simp add: adbd_shell_def packet_def)
  have "OpenService (adb_server sh) serial service st = (Inr (link_at sh st (transport serial @ request_frame service) 8), st)"
  proof -
    have "adbd_device sh files (request_frame service) = (bytes ''OKAY'', files)"
      using service_on_device [OF line, of sh files "[]"] by (simp add: service_def idle)
    then show ?thesis using service_at [OF dev, of sh service "[]" files] by (simp add: OpenService_def)
  qed
  then have start: "session_Start (adb_server sh) serial line False st = (Inr (link_at sh st (transport serial @ request_frame service) 8), st)"
    by (simp add: session_Start_def Open_def with_device_def device_found [OF dev] service_def)
  have served: "adbd sh st whole =
      (bytes ''OKAYOKAY'' @ concat (map (\<lambda>(err, data). packet (if err then 2 else 1) data) pieces) @ packet 3 (put_le 4 code), mput serial files' st)"
    using service_served [OF dev line, of sh "packet 4 []"] sh(1) by (simp add: adbd_shell_def whole_def service_def)
  have "get_le (put_le 4 code) = code" using sh(3) by simp
  then have "session_read piece_writer (concat (map (\<lambda>(err, data). packet (if err then 2 else 1) data) pieces) @ packet 3 (put_le 4 code)) [] =
      (if code = 0 then None else Some (ExitError code), pieces)"
    using pieces_read [OF sh(2), of "packet 3 (put_le 4 code)" "[]"] session_read_packet [of "put_le 4 code" piece_writer 3 "[]"]
    by (simp add: maxShellPacket_def del: get_put_le)
  then show ?thesis
    by (simp add: device_run_def Run_def start session_send_def served exec_error_of_def flip: whole_def)
qed

text \<open>A shell that splits its line into words and runs them with \<open>run\<close>.\<close>

definition words_shell :: "(string list \<Rightarrow> device_fs \<Rightarrow> (bool \<times> byte list) list \<times> nat \<times> device_fs) \<Rightarrow> device_shell" where
  "words_shell run line files =
     (case sh_words line of None \<Rightarrow> ([(True, bytes ''syntax error'')], 2, files) | Some words \<Rightarrow> run words files)"



end
