(* ===== verification/WebUI.thy ===== *)
theory WebUI
  imports Paths Wire
begin

text \<open>
  The user interface in the control plane's binary: the handler of \<open>webui.go\<close> and the routes of \<open>server.go\<close>
  beside it. The files of the frontend build are a parameter, \<open>build\<close> (\<open>dist\<close>), as names without a leading slash; a
  directory is not a file.
\<close>

datatype ui_response =
    NotFound
  | MethodNotAllowed
  | NotBuilt
  | Served (served_name: string) (served_data: "byte list") (immutable: bool) (wasm: bool)

definition reserved_roots :: "string list" where
  "reserved_roots = [''api'', ''agent'', ''devices'', ''connect_client'', ''register_agent'', ''upload'', ''downloads'', ''snapshots'', ''healthz'']"

definition ui_name :: "string \<Rightarrow> string" where
  "ui_name path = trim_prefix ''/'' (Clean (''/'' @ path))"

definition serve_file :: "string \<Rightarrow> byte list \<Rightarrow> ui_response" where
  "serve_file name data = Served name data (prefix ''assets/'' name) (Ext name = ''.wasm'')"

definition webui_handler :: "(string \<Rightarrow> byte list option) \<Rightarrow> string \<Rightarrow> string \<Rightarrow> ui_response" where
  "webui_handler build verb path =
     (let name = ui_name path; parts = split_on (CHR ''/'') name; root = hd parts in
      if root \<in> set reserved_roots then NotFound
      else if list_ex (prefix ''.'') parts then NotFound
      else if verb \<noteq> ''GET'' \<and> verb \<noteq> ''HEAD'' then MethodNotAllowed
      else
        (let name = (if name = '''' then ''index.html'' else name) in
         case build name of
           Some data \<Rightarrow> serve_file name data
         | None \<Rightarrow>
             (if root \<noteq> ''assets'' \<and> Ext name = '''' then
                (case build ''index.html'' of Some data \<Rightarrow> serve_file ''index.html'' data | None \<Rightarrow> NotBuilt)
              else if name = ''index.html'' then NotBuilt else NotFound)))"

text \<open>The patterns of the control plane's other routes; one that ends with a slash matches all paths below it.\<close>

definition routes :: "string list" where
  "routes =
     [''/healthz'', ''/devices'', ''/connect_client'', ''/register_agent'', ''/api/auth-status'', ''/api/login'', ''/api/ws-ticket'', ''/api/register'',
      ''/api/logout'', ''/api/me'', ''/api/version'', ''/api/server/addresses'', ''/api/deploy/package'', ''/agent/'', ''/api/ice_servers'',
      ''/api/default_settings'', ''/api/device_settings'', ''/api/tags'', ''/api/admin/users'', ''/api/admin/assign'', ''/api/admin/users/create'',
      ''/api/admin/users/delete'', ''/api/admin/users/reset_password'', ''/api/admin/users/update_note'', ''/api/admin/users/rename'',
      ''/api/admin/users/update'', ''/api/admin/users/kick'', ''/api/agents/enrollment-tokens'', ''/api/admin/deployment-credentials'',
      ''/api/admin/deployment-credentials/revoke'', ''/api/deploy/enrollment-tokens'', ''/api/tasks'', ''/api/tasks/details'', ''/api/shortcuts'',
      ''/api/files'', ''/upload'', ''/downloads/'', ''/api/devices/'', ''/api/share/create'', ''/api/share/list'', ''/api/share/revoke'',
      ''/api/share/update'', ''/api/share/extend'', ''/api/share/redeem_card'', ''/api/share/info'']"

section \<open>Properties\<close>

lemma ui_name_place: "ui_name path = join_with ''/'' (place path)"
proof -
  have "place (''/'' @ path) = place path" by (simp add: place_def)
  then show ?thesis using Clean_absolute [of "''/'' @ path"] by (simp add: ui_name_def IsAbs_def trim_prefix_def)
qed

lemma split_place:
  "split_on (CHR ''/'') (join_with ''/'' (place path)) = (if place path = [] then [''''] else place path)"
  using split_on_join [of "place path" "CHR ''/''"] place_proper [of path] by (auto simp: list_all_iff proper_def)

lemma place_name: "join_with ''/'' (place path) = '''' \<longleftrightarrow> place path = []"
proof (cases "place path")
  case (Cons p ps)
  then have "p \<noteq> []" using place_proper [of path] by (simp add: proper_def)
  then show ?thesis using Cons by (cases ps) simp_all
qed simp

lemma roots_reserved: "\<forall>r \<in> set routes. place r \<noteq> [] \<and> hd (place r) \<in> set reserved_roots"
proof -
  have "list_all (\<lambda>r. place r \<noteq> [] \<and> hd (place r) \<in> set reserved_roots) routes" by code_simp
  then show ?thesis by (simp only: list_all_iff)
qed

text \<open>
  C40. The user interface answers only what is its own. Whatever the request, a page is served only for a
  read, and only with the content of a file of the build: the file that the path names after its dots are resolved, or
  the start page for a path without an extension outside \<open>assets\<close> that names no file. No hidden file is
  ever served, and no path in the first part of any other route of the control plane is answered with a
  page, so that an unknown endpoint is not found instead of being the application.
\<close>

theorem ui_serves_its_files:
  assumes "webui_handler build verb path = Served name data long w"
  shows "verb \<in> {''GET'', ''HEAD''} \<and> build name = Some data \<and>
    (name = join_with ''/'' (place path) \<or>
     name = ''index.html'' \<and> (place path = [] \<or> hd (place path) \<noteq> ''assets'' \<and> Ext (join_with ''/'' (place path)) = '''' \<and> build (join_with ''/'' (place path)) = None)) \<and>
    (\<forall>p \<in> set (place path). \<not> prefix ''.'' p) \<and>
    (\<forall>r \<in> set routes. place path = [] \<or> hd (place path) \<noteq> hd (place r))"
proof -
  have root: "place path = [] \<or> hd (place path) \<notin> set reserved_roots"
    and dots: "\<forall>p \<in> set (place path). \<not> prefix ''.'' p" and verb: "verb = ''GET'' \<or> verb = ''HEAD''"
    using assms by (auto simp: webui_handler_def ui_name_place split_place Let_def list_ex_iff split: if_splits)
  have "\<forall>r \<in> set routes. place path = [] \<or> hd (place path) \<noteq> hd (place r)" using root roots_reserved by metis
  moreover have "build name = Some data \<and> (name = join_with ''/'' (place path) \<or>
     name = ''index.html'' \<and> (place path = [] \<or> hd (place path) \<noteq> ''assets'' \<and> Ext (join_with ''/'' (place path)) = '''' \<and> build (join_with ''/'' (place path)) = None))"
    using assms by (auto simp: webui_handler_def ui_name_place split_place place_name serve_file_def Let_def split: if_splits option.splits)
  ultimately show ?thesis using dots verb by blast
qed

text \<open>Every file of the build whose name has no hidden part and no reserved root is served under its name.\<close>

theorem ui_serves_all:
  assumes "build name = Some data" "name \<noteq> ''''" "join_with ''/'' (place path) = name"
    and "hd (place path) \<notin> set reserved_roots" "\<forall>p \<in> set (place path). \<not> prefix ''.'' p" "verb \<in> {''GET'', ''HEAD''}"
  shows "webui_handler build verb path = Served name data (prefix ''assets/'' name) (Ext name = ''.wasm'')"
proof -
  have "place path \<noteq> []" using assms(2,3) by auto
  moreover have "ui_name path = name" using assms(3) by (simp add: ui_name_place)
  moreover have "split_on (CHR ''/'') name = place path" using split_place [of path] calculation(1) assms(3) by simp
  ultimately show ?thesis using assms by (auto simp: webui_handler_def serve_file_def Let_def list_ex_iff)
qed

definition demo_dist :: "string \<Rightarrow> byte list option" where
  "demo_dist = map_of [(''index.html'', [1]), (''assets/a.wasm'', [2])]"

theorem ui_serves_its_files_witness:
  "webui_handler demo_dist ''GET'' ''/x/../device'' = Served ''index.html'' [1] False False \<and> demo_dist ''device'' = None"
proof -
  have served: "webui_handler demo_dist ''GET'' ''/x/../device'' = Served ''index.html'' [1] False False" by code_simp
  moreover have "join_with ''/'' (place ''/x/../device'') = ''device''" "place ''/x/../device'' \<noteq> []" by code_simp+
  ultimately show ?thesis using ui_serves_its_files [OF served] by auto
qed

end
