(* ===== verification/RedisBus.thy ===== *)
theory RedisBus
  imports ServerProps
begin

text \<open>
  Several control planes on one Redis channel: \<open>redis_bus.go\<close> around the function \<open>consume\<close> of the realtime
  server. Redis is a channel that hands every published envelope to all subscribers in the order of publication, or
  fails; \<open>decodes\<close> is whether \<open>json.Unmarshal\<close> of the payload gives the envelope back.
\<close>

record 'p node =
  bus_id :: string
  bus_err :: bool
  nd_server :: "'p server"

text \<open>\<open>newRedisBus\<close>: what the URL and the ping answer, and the fresh id.\<close>

definition newRedisBus :: "string \<Rightarrow> bool \<Rightarrow> bool \<Rightarrow> string \<Rightarrow> 'p server \<Rightarrow> string + 'p node" where
  "newRedisBus rawURL parses pings i sv =
     (if rawURL = '''' then Inl ''SCRCPYCAT_REDIS_URL is required''
      else if \<not> parses then Inl ''parse redis URL''
      else if \<not> pings then Inl ''connect redis''
      else Inr \<lparr>bus_id = i, bus_err = False, nd_server = sv\<lparr>redis := True\<rparr>\<rparr>)"

definition envelope :: redisEnvelope where
  "envelope = \<lparr>Source = '''', TargetDevice = '''', Broadcast = False, Message = MObj []\<rparr>"

text \<open>\<open>publish\<close>: what reaches the channel, and the node with the error of this attempt.\<close>

definition publish :: "bool \<Rightarrow> redisEnvelope \<Rightarrow> 'p node \<Rightarrow> redisEnvelope option \<times> 'p node" where
  "publish up env n = ((if up then Some (env\<lparr>Source := bus_id n\<rparr>) else None), n\<lparr>bus_err := \<not> up\<rparr>)"

definition PublishAgent :: "bool \<Rightarrow> string \<Rightarrow> Hub.message \<Rightarrow> 'p node \<Rightarrow> redisEnvelope option \<times> 'p node" where
  "PublishAgent up deviceID msg = publish up (envelope\<lparr>TargetDevice := deviceID, Message := msg\<rparr>)"

definition bus_PublishBroadcast :: "bool \<Rightarrow> Hub.message \<Rightarrow> 'p node \<Rightarrow> redisEnvelope option \<times> 'p node" where
  "bus_PublishBroadcast up msg = publish up (envelope\<lparr>Broadcast := True, Message := msg\<rparr>)"

definition bus_Healthy :: "bool \<Rightarrow> 'p node \<Rightarrow> bool" where
  "bus_Healthy pings n \<longleftrightarrow> pings \<and> \<not> bus_err n"

text \<open>One round of the loop of \<open>consume\<close> on a node.\<close>

definition bus_receive :: "(nat \<Rightarrow> bool) \<Rightarrow> (redisEnvelope \<Rightarrow> bool) \<Rightarrow> redisEnvelope option \<Rightarrow> 'p node \<Rightarrow> out list" where
  "bus_receive W decodes payload n =
     (case payload of
        None \<Rightarrow> []
      | Some env \<Rightarrow> if decodes env then consume W (bus_id n) env (nd_server n) else [])"

text \<open>
  \<open>broadcastTask\<close> on the node \<open>i\<close> of a cluster: what is written to the sockets of each node, and the cluster after it.
\<close>

definition task_round :: "(nat \<Rightarrow> bool) \<Rightarrow> bool \<Rightarrow> (redisEnvelope \<Rightarrow> bool) \<Rightarrow> Task \<Rightarrow> nat \<Rightarrow> 'p node list \<Rightarrow> out list list \<times> 'p node list" where
  "task_round W up decodes task i ns =
     (let (payload, n) = bus_PublishBroadcast up (MTask task) (ns ! i) in
      (map (\<lambda>j. (if j = i then broadcast_all W (MTask task) (nd_server (ns ! j)) else []) @ bus_receive W decodes payload (ns ! j)) [0..<length ns],
       ns[i := n]))"

text \<open>
  A task update reaches every browser of the cluster once. With Redis up, each control plane writes exactly
  what it would write for an update of its own, to those of its browsers that may see the task; the one where it happened
  does not repeat it when its own envelope comes back. With Redis down, only its own browsers see it, and the health
  check of that control plane fails until a publication succeeds.
\<close>

theorem task_reaches_cluster:
  assumes "distinct (map bus_id ns)" "i < length ns" "task_round W up decodes task i ns = (outs, ns')" "\<forall>env. decodes env"
  shows "outs = (if up then map (\<lambda>n. broadcast_all W (MTask task) (nd_server n)) ns
                 else (replicate (length ns) [])[i := broadcast_all W (MTask task) (nd_server (ns ! i))]) \<and>
    (\<forall>pings. bus_Healthy pings (ns' ! i) \<longleftrightarrow> pings \<and> up)"
proof -
  have eq: "outs = map (\<lambda>j. (if j = i then broadcast_all W (MTask task) (nd_server (ns ! j)) else []) @
      bus_receive W decodes (if up then Some (envelope\<lparr>Broadcast := True, Message := MTask task, Source := bus_id (ns ! i)\<rparr>) else None) (ns ! j)) [0..<length ns]"
    "ns' = ns[i := (ns ! i)\<lparr>bus_err := \<not> up\<rparr>]"
    using assms(3) by (auto simp: task_round_def bus_PublishBroadcast_def publish_def)
  have ids: "bus_id (ns ! i) = bus_id (ns ! j) \<longleftrightarrow> i = j" if "j < length ns" for j
    using nth_eq_iff_index_eq [OF assms(1), of i j] assms(2) that by simp
  have "outs = (if up then map (\<lambda>n. broadcast_all W (MTask task) (nd_server n)) ns
                 else (replicate (length ns) [])[i := broadcast_all W (MTask task) (nd_server (ns ! i))])"
    by (rule nth_equalityI) (auto simp: eq(1) bus_receive_def consume_def envelope_def ids assms(4) nth_list_update)
  then show ?thesis using assms(2) by (simp add: eq(2) bus_Healthy_def)
qed

definition cluster_task :: Task where
  "cluster_task = \<lparr>tk_ID = ''t1'', Type = ''shell'', Payload = ''ls'', AssetID = '''', DestPath = '''', tk_CreatedBy = ''admin'',
     tk_CreatedAt = 0, tk_ExpiresAt = 0, Devices = []\<rparr>"

definition demo_node :: "string \<Rightarrow> unit node" where
  "demo_node i = \<lparr>bus_id = i, bus_err = False, nd_server = demo_watched\<rparr>"

theorem task_reaches_cluster_witness:
  "fst (task_round (\<lambda>_. True) True (\<lambda>_. True) cluster_task 0 [demo_node ''a'', demo_node ''b'']) =
    map (\<lambda>n. broadcast_all (\<lambda>_. True) (MTask cluster_task) (nd_server n)) [demo_node ''a'', demo_node ''b'']"
proof -
  obtain outs ns' where r: "task_round (\<lambda>_. True) True (\<lambda>_. True) cluster_task 0 [demo_node ''a'', demo_node ''b''] = (outs, ns')" by fastforce
  show ?thesis unfolding r using task_reaches_cluster [OF _ _ r] by (simp add: demo_node_def)
qed

end
