(* ===== verification/Channels.thy ===== *)
theory Channels
  imports Viewers Terminal
begin

text \<open>
  What \<open>createOffer\<close> installs on a peer beside the input channels: the terminals of its data channels (\<open>OnDataChannel\<close>
  in \<open>webrtc.go\<close> with \<open>terminalInit\<close>), the reaction to the state of the connection, the feedback of the
  browser and the sound. A channel keeps whether it has opened its terminal.
\<close>

section \<open>Terminals on data channels\<close>

text \<open>A message of a channel: whether it is text, what it is as a JSON object with type, rows and columns, and its bytes.\<close>

record channel_message =
  IsString :: bool
  size_object :: "(string \<times> 16 word \<times> 16 word) option"
  cm_data :: "byte list"

definition terminalInit :: "channel_message \<Rightarrow> 16 word \<times> 16 word" where
  "terminalInit msg =
     (case size_object msg of Some (kind, rows, cols) \<Rightarrow> if kind = ''init'' then (rows, cols) else (24, 80) | None \<Rightarrow> (24, 80))"

text \<open>
  \<open>OnMessage\<close> of the channel of a session: \<open>live\<close> is \<open>sessionActive\<close>, \<open>opens\<close> whether a terminal can be
  opened. The result is the text that is sent back, if any, whether the terminal has been opened, and the terminals.
\<close>

definition on_message :: "bool \<Rightarrow> bool \<Rightarrow> string \<Rightarrow> string \<Rightarrow> channel_message \<Rightarrow> bool \<times> terminals \<Rightarrow> string option \<times> bool \<times> terminals" where
  "on_message live opens clientID sessionID msg st =
     (case st of (opened, tm) \<Rightarrow>
        if \<not> live then (None, opened, tm)
        else if \<not> opened then
          (case terminalInit msg of
             (rows, cols) \<Rightarrow>
               (case term_open opens clientID sessionID rows cols tm of
                  (False, tm) \<Rightarrow> (Some ''pty_error'', False, tm)
                | (True, tm) \<Rightarrow> (Some ''pty_opened'', True, tm)))
        else if IsString msg then
          (None, True,
           (case size_object msg of
              Some (kind, rows, cols) \<Rightarrow> if kind = ''resize'' then term_Resize clientID sessionID rows cols tm else tm
            | None \<Rightarrow> tm))
        else (None, True, InputBytes clientID sessionID (cm_data msg) tm))"

definition on_close :: "string \<Rightarrow> string \<Rightarrow> terminals \<Rightarrow> terminals" where
  "on_close clientID sessionID tm = term_Close clientID sessionID tm"

text \<open>A channel of a viewer, from its label: it is closed at once unless it may open a terminal.\<close>

definition on_data_channel :: "bool \<Rightarrow> string \<Rightarrow> nat \<Rightarrow> string \<Rightarrow> 'c rtc \<Rightarrow> bool list \<times> channel_message list \<Rightarrow> terminals \<Rightarrow> bool \<times> terminals" where
  "on_data_channel canShell clientID p label m traffic tm =
     (case data_channel canShell clientID p label m of
        None \<Rightarrow> (False, tm)
      | Some sessionID \<Rightarrow>
          fold (\<lambda>(opens, msg) st. snd (on_message (sessionActive clientID p m) opens clientID sessionID msg st))
            (zip (fst traffic) (snd traffic)) (False, tm))"

section \<open>The connection\<close>

datatype peer_state = NewState | Connecting | ConnectedState | DisconnectedState | FailedState | ClosedState

text \<open>\<open>OnConnectionStateChange\<close>: the events for the encoder, and the sessions.\<close>

definition on_connection_state :: "time \<Rightarrow> string \<Rightarrow> nat \<Rightarrow> bool \<Rightarrow> int \<Rightarrow> peer_state \<Rightarrow> 'c rtc \<Rightarrow> obj list \<times> 'c rtc" where
  "on_connection_state t clientID p video initial state m =
     (let (events, m) =
            (if video \<and> state = ConnectedState then
               (let (k, m) = requestKeyframe t m; (b, m) = updateBitrate t clientID p initial m
                in (List.map_filter id [k, b], m))
             else ([], m))
      in if state \<in> {ClosedState, FailedState, DisconnectedState} then (events, snd (removeSession clientID p m)) else (events, m))"

text \<open>\<open>OnICECandidate\<close>: what goes to the browser, through the control plane.\<close>

definition on_ice_candidate :: "string \<Rightarrow> any option \<Rightarrow> obj option" where
  "on_ice_candidate clientID candidate =
     map_option (\<lambda>c. [(''message_type'', AStr ''device_msg''), (''client_id'', AStr clientID),
       (''payload'', AObj [(''type'', AStr ''ice-candidate''), (''candidate'', c)])]) candidate"

datatype rtcp = PictureLossIndication | FullIntraRequest | OtherRtcp

text \<open>\<open>readFeedback\<close>: the requests for key frames that reach the encoder; each read comes at a time.\<close>

fun readFeedback :: "bool \<Rightarrow> (time \<times> rtcp list) list \<Rightarrow> 'c rtc \<Rightarrow> obj list \<times> 'c rtc" where
  "readFeedback video [] m = ([], m)"
| "readFeedback video ((t, packets) # reads) m =
     (let (events, m) =
            (if video then
               fold (\<lambda>pkt (events, m).
                 if pkt = OtherRtcp then (events, m)
                 else (case requestKeyframe t m of (k, m) \<Rightarrow> (events @ (case k of None \<Rightarrow> [] | Some e \<Rightarrow> [e]), m))) packets ([], m)
             else ([], m));
          (rest, m) = readFeedback video reads m
      in (events @ rest, m))"

text \<open>\<open>PushOpus\<close>: the payload and the number of samples that are packetized.\<close>

definition PushOpus :: "mediaPacket \<Rightarrow> (byte list \<times> 32 word) option" where
  "PushOpus pkt =
     (let samples = opusPacketSamples (Data pkt) in if samples = 0 then None else Some (Data pkt, samples))"

section \<open>Properties\<close>

lemma opened_session:
  assumes "s \<noteq> ''''" "\<not> tm_closed tm"
  shows "\<exists>tm'. term_open True c s rows cols tm = (True, tm') \<and> map_of (tm_sessions tm') (session_key c s) = Some (length (handles tm)) \<and>
    handles tm' ! length (handles tm) = \<lparr>h_client = c, h_rows = (if rows = 0 then 24 else rows), h_cols = (if cols = 0 then 80 else cols), h_open = True, h_input = []\<rparr> \<and>
    length (handles tm') = Suc (length (handles tm)) \<and> \<not> tm_closed tm'"
proof -
  have "length (handles (open_begin c s tm)) = length (handles tm)" "\<not> tm_closed (open_begin c s tm)"
    using assms(2) by (simp_all add: open_begin_def term_Close_def) (simp add: closeSession_def split: option.split)
  then show ?thesis using assms by (simp add: term_open_def open_finish_def Let_def nth_append)
qed

text \<open>What a sequence of messages to an open terminal amounts to.\<close>

definition typed :: "channel_message list \<Rightarrow> byte list" where
  "typed msgs = concat (map cm_data (filter (\<lambda>msg. \<not> IsString msg) msgs))"

fun resized :: "channel_message list \<Rightarrow> 16 word \<times> 16 word \<Rightarrow> 16 word \<times> 16 word" where
  "resized [] dims = dims"
| "resized (msg # msgs) dims =
     resized msgs
       (case size_object msg of
          Some (kind, rows, cols) \<Rightarrow> if IsString msg \<and> kind = ''resize'' \<and> rows \<noteq> 0 \<and> cols \<noteq> 0 then (rows, cols) else dims
        | None \<Rightarrow> dims)"

lemma open_channel:
  assumes "map_of (tm_sessions tm) (session_key c s) = Some t" "t < length (handles tm)"
  shows "\<exists>tm'. fold (\<lambda>msg st. snd (on_message True True c s msg st)) msgs (True, tm) = (True, tm') \<and>
    tm_sessions tm' = tm_sessions tm \<and> length (handles tm') = length (handles tm) \<and>
    handles tm' ! t = (handles tm ! t)\<lparr>h_input := h_input (handles tm ! t) @ typed msgs,
      h_rows := fst (resized msgs (h_rows (handles tm ! t), h_cols (handles tm ! t))),
      h_cols := snd (resized msgs (h_rows (handles tm ! t), h_cols (handles tm ! t)))\<rparr>"
  using assms
proof (induction msgs arbitrary: tm)
  case Nil
  show ?case by (simp add: typed_def)
next
  case (Cons msg msgs)
  define tm1 where "tm1 = snd (snd (on_message True True c s msg (True, tm)))"
  have step: "snd (on_message True True c s msg (True, tm)) = (True, tm1)" by (simp add: tm1_def on_message_def)
  have "map_of (tm_sessions tm1) (session_key c s) = Some t" "length (handles tm1) = length (handles tm)" "tm_sessions tm1 = tm_sessions tm"
    using Cons.prems by (auto simp: tm1_def on_message_def term_Resize_def InputBytes_def split: option.split)
  moreover have "handles tm1 ! t = (handles tm ! t)\<lparr>h_input := h_input (handles tm ! t) @ typed [msg],
      h_rows := fst (resized [msg] (h_rows (handles tm ! t), h_cols (handles tm ! t))),
      h_cols := snd (resized [msg] (h_rows (handles tm ! t), h_cols (handles tm ! t)))\<rparr>"
    using Cons.prems by (auto simp: tm1_def on_message_def term_Resize_def InputBytes_def typed_def on_handle_def split: option.split)
  ultimately show ?case using Cons.IH [of tm1] Cons.prems step by (force simp: typed_def)
qed

text \<open>
  C38. A data channel is a terminal, for those who may have one. Without the shell permission, after the viewer has
  gone, or under another label, no message of the channel reaches any terminal. Otherwise the first message opens
  the terminal, with the size it gives, and all later binary messages are typed into it, byte for byte and
  in order, while the last sensible resize determines its size; the first message itself is never typed.
\<close>

theorem channel_is_terminal:
  assumes "\<not> tm_closed tm" "label = ''adb-channel-'' @ s" "s \<noteq> ''''"
  shows "(\<not> canShell \<or> \<not> sessionActive c p m \<longrightarrow> on_data_channel canShell c p label m traffic tm = (False, tm)) \<and>
    (canShell \<and> sessionActive c p m \<longrightarrow>
     (\<exists>tm'. on_data_channel canShell c p label m (map (\<lambda>_. True) (msg # msgs), msg # msgs) tm = (True, tm') \<and>
       map_of (tm_sessions tm') (session_key c s) = Some (length (handles tm)) \<and>
       h_open (handles tm' ! length (handles tm)) \<and> h_input (handles tm' ! length (handles tm)) = typed msgs \<and>
       (h_rows (handles tm' ! length (handles tm)), h_cols (handles tm' ! length (handles tm))) =
         resized msgs (let (rows, cols) = terminalInit msg in (if rows = 0 then 24 else rows, if cols = 0 then 80 else cols))))"
proof -
  have chan: "data_channel canShell c p label m = (if canShell \<and> sessionActive c p m then Some s else None)"
    using assms(2) by (simp add: data_channel_def trim_prefix_def)
  have run: "on_data_channel canShell c p label m (map (\<lambda>_. True) (msg # msgs), msg # msgs) tm =
      fold (\<lambda>msg st. snd (on_message True True c s msg st)) msgs (snd (on_message True True c s msg (False, tm)))" if "canShell" "sessionActive c p m"
  proof -
    have "fold (\<lambda>(opens, msg) st. snd (on_message True opens c s msg st)) (zip (map (\<lambda>_. True) ys) ys) st =
        fold (\<lambda>msg st. snd (on_message True True c s msg st)) ys st" for ys st
      by (induction ys arbitrary: st) simp_all
    moreover have "data_channel canShell c p label m = Some s" using that chan by simp
    ultimately show ?thesis using that(2) by (simp add: on_data_channel_def)
  qed
  obtain rows cols where size: "terminalInit msg = (rows, cols)" by fastforce
  obtain tm1 where tm1: "term_open True c s rows cols tm = (True, tm1)" "map_of (tm_sessions tm1) (session_key c s) = Some (length (handles tm))"
    "handles tm1 ! length (handles tm) = \<lparr>h_client = c, h_rows = (if rows = 0 then 24 else rows), h_cols = (if cols = 0 then 80 else cols), h_open = True, h_input = []\<rparr>"
    "length (handles tm1) = Suc (length (handles tm))"
    using opened_session [OF assms(3,1)] by blast
  have "snd (on_message True True c s msg (False, tm)) = (True, tm1)" by (simp add: on_message_def size tm1(1))
  moreover obtain tm' where "fold (\<lambda>msg st. snd (on_message True True c s msg st)) msgs (True, tm1) = (True, tm')" "tm_sessions tm' = tm_sessions tm1"
    "handles tm' ! length (handles tm) = (handles tm1 ! length (handles tm))\<lparr>h_input := h_input (handles tm1 ! length (handles tm)) @ typed msgs,
      h_rows := fst (resized msgs (h_rows (handles tm1 ! length (handles tm)), h_cols (handles tm1 ! length (handles tm)))),
      h_cols := snd (resized msgs (h_rows (handles tm1 ! length (handles tm)), h_cols (handles tm1 ! length (handles tm))))\<rparr>"
    using open_channel [OF tm1(2), of msgs] tm1(4) by auto
  ultimately show ?thesis using run chan tm1 by (auto simp: on_data_channel_def size)
qed

text \<open>
  C39. A channel that is replaced takes its successor with it. When a second channel of the client opens the same session, the first
  terminal and with it the first channel are closed; the close handler of that channel then closes the session
  by its name, which is the second terminal by now. The second channel remains, and what is typed there is lost.
\<close>

theorem replaced_channel_closes_successor:
  assumes "s \<noteq> ''''" "\<not> tm_closed tm"
    and "snd (on_message True True c s first (False, tm)) = (True, tm1)" "snd (on_message True True c s second (False, tm1)) = (True, tm2)"
  shows "h_open (handles tm2 ! length (handles tm1)) \<and>
    \<not> h_open (handles (on_close c s tm2) ! length (handles tm1)) \<and>
    snd (on_message True True c s typing (True, on_close c s tm2)) = (True, on_close c s tm2)"
proof -
  obtain rows cols where size: "terminalInit first = (rows, cols)" by fastforce
  have "term_open True c s rows cols tm = (True, tm1)" using assms(3) by (auto simp: on_message_def size split: prod.splits bool.splits)
  then have "\<not> tm_closed tm1" using opened_session [OF assms(1,2), of c rows cols] by auto
  obtain rows' cols' where size': "terminalInit second = (rows', cols')" by fastforce
  have "term_open True c s rows' cols' tm1 = (True, tm2)" using assms(4) by (auto simp: on_message_def size' split: prod.splits bool.splits)
  then have 2: "map_of (tm_sessions tm2) (session_key c s) = Some (length (handles tm1))" "h_open (handles tm2 ! length (handles tm1))"
    "length (handles tm1) < length (handles tm2)"
    using opened_session [OF assms(1) \<open>\<not> tm_closed tm1\<close>, of c rows' cols'] by auto
  have gone: "map_of (tm_sessions (on_close c s tm2)) (session_key c s) = None"
    using 2(1) by (simp add: on_close_def term_Close_def closeSession_def delete_conv')
  have "snd (on_message True True c s typing (True, on_close c s tm2)) = (True, on_close c s tm2)"
    by (auto simp: on_message_def term_Resize_def InputBytes_def gone split: option.split)
  then show ?thesis using 2 by (simp add: on_close_def term_Close_def closeSession_def)
qed

definition text_message :: "string \<Rightarrow> 16 word \<Rightarrow> 16 word \<Rightarrow> channel_message" where
  "text_message kind rows cols = \<lparr>IsString = True, size_object = Some (kind, rows, cols), cm_data = []\<rparr>"

definition key_message :: "byte list \<Rightarrow> channel_message" where
  "key_message bs = \<lparr>IsString = False, size_object = None, cm_data = bs\<rparr>"

definition demo_viewer :: "unit rtc" where
  "demo_viewer = newWebRTCManager\<lparr>sessions := [(''a'', no_session\<lparr>peer := Some 1\<rparr>)]\<rparr>"

theorem channel_is_terminal_witness:
  "\<exists>tm'. on_data_channel True ''a'' 1 ''adb-channel-s'' demo_viewer
      ([True, True, True, True], [text_message ''init'' 30 100, key_message [108], text_message ''resize'' 40 90, key_message [115]]) newTerminalManager = (True, tm') \<and>
    h_input (handles tm' ! 0) = [108, 115] \<and> h_rows (handles tm' ! 0) = 40"
proof -
  have "sessionActive ''a'' 1 demo_viewer" by (simp add: sessionActive_def demo_viewer_def)
  then show ?thesis using channel_is_terminal [of newTerminalManager "''adb-channel-s''" "''s''" True "''a''" 1 demo_viewer "([], [])"
      "text_message ''init'' 30 100" "[key_message [108], text_message ''resize'' 40 90, key_message [115]]"]
    by (auto simp: newTerminalManager_def typed_def key_message_def text_message_def)
qed

theorem replaced_channel_closes_successor_witness:
  "\<exists>tm1 tm2. snd (on_message True True ''a'' ''s'' (key_message []) (False, newTerminalManager)) = (True, tm1) \<and>
    snd (on_message True True ''a'' ''s'' (key_message []) (False, tm1)) = (True, tm2) \<and>
    h_open (handles tm2 ! 1) \<and> \<not> h_open (handles (on_close ''a'' ''s'' tm2) ! 1)"
proof -
  define tm1 where "tm1 = snd (snd (on_message True True ''a'' ''s'' (key_message []) (False, newTerminalManager)))"
  define tm2 where "tm2 = snd (snd (on_message True True ''a'' ''s'' (key_message []) (False, tm1)))"
  have 1: "snd (on_message True True ''a'' ''s'' (key_message []) (False, newTerminalManager)) = (True, tm1)"
    and tm1: "tm1 = newTerminalManager\<lparr>tm_sessions := [(''a:s'', 0)], handles := [\<lparr>h_client = ''a'', h_rows = 24, h_cols = 80, h_open = True, h_input = []\<rparr>]\<rparr>"
    by (simp_all add: tm1_def on_message_def terminalInit_def key_message_def term_open_def open_begin_def open_finish_def term_Close_def closeSession_def
        session_key_def newTerminalManager_def)
  have 2: "snd (on_message True True ''a'' ''s'' (key_message []) (False, tm1)) = (True, tm2)"
    by (simp add: tm2_def tm1 on_message_def terminalInit_def key_message_def term_open_def open_begin_def open_finish_def term_Close_def closeSession_def
        session_key_def newTerminalManager_def on_handle_def)
  show ?thesis using replaced_channel_closes_successor [OF _ _ 1 2] 1 2 by (auto simp: newTerminalManager_def tm1)
qed

end
