(* ===== verification/Commands.thy ===== *)
theory Commands
  imports DeployerProps AgentProps
begin

text \<open>
  The command lines of the programs: Go's package \<open>flag\<close>, the flags of \<open>scrcpycat-agent\<close> and
  \<open>adb-deployer\<close> and what their \<open>main\<close> functions make of them. The deployer starts agents with arguments and an
  environment, so that one program's output is the other's input; exit statuses go back the other way.
\<close>

section \<open>Flags\<close>

datatype flag_error = ErrHelp | BadSyntax | NotDefined string | NeedsArgument string | InvalidValue string

text \<open>A flag: its name, whether it is Boolean, and how its text sets the configuration.\<close>

type_synonym 'c flag = "string \<times> bool \<times> (string \<Rightarrow> 'c \<Rightarrow> 'c option)"

definition flag_body :: "string \<Rightarrow> string option" where
  "flag_body s =
     (if length s < 2 \<or> hd s \<noteq> CHR 0x2D \<or> s = ''--'' then None
      else Some (drop (if s ! 1 = CHR 0x2D then 2 else 1) s))"

definition flag_split :: "string \<Rightarrow> string \<times> string option" where
  "flag_split b =
     (let name = takeWhile (\<lambda>c. c \<noteq> CHR 0x3D) b in (name, if name = b then None else Some (drop (length name + 1) b)))"

definition flag_set :: "'c flag \<Rightarrow> string \<Rightarrow> 'c \<Rightarrow> flag_error + 'c" where
  "flag_set f v c = (case (snd (snd f)) v c of None \<Rightarrow> Inl (InvalidValue (fst f)) | Some c \<Rightarrow> Inr c)"

text \<open>\<open>FlagSet.Parse\<close>: it stops at the first argument that is no flag.\<close>

function flag_Parse :: "'c flag list \<Rightarrow> string list \<Rightarrow> 'c \<Rightarrow> flag_error + 'c" where
  "flag_Parse fs [] c = Inr c"
| "flag_Parse fs (s # rest) c =
     (case flag_body s of
        None \<Rightarrow> Inr c
      | Some b \<Rightarrow>
          (if b = '''' \<or> hd b = CHR 0x2D \<or> hd b = CHR 0x3D then Inl BadSyntax
           else
             (case flag_split b of
                (name, value) \<Rightarrow>
                  (case find (\<lambda>f. fst f = name) fs of
                     None \<Rightarrow> Inl (if name = ''help'' \<or> name = ''h'' then ErrHelp else NotDefined name)
                   | Some f \<Rightarrow>
                       (if fst (snd f) then
                          (case flag_set f (case value of None \<Rightarrow> ''true'' | Some v \<Rightarrow> v) c of
                             Inl e \<Rightarrow> Inl e | Inr c \<Rightarrow> flag_Parse fs rest c)
                        else
                          (case value of
                             Some v \<Rightarrow> (case flag_set f v c of Inl e \<Rightarrow> Inl e | Inr c \<Rightarrow> flag_Parse fs rest c)
                           | None \<Rightarrow>
                               (case rest of
                                  [] \<Rightarrow> Inl (NeedsArgument name)
                                | v # rest \<Rightarrow> (case flag_set f v c of Inl e \<Rightarrow> Inl e | Inr c \<Rightarrow> flag_Parse fs rest c))))))))"
  by pat_completeness auto
termination
  by (relation "measure (\<lambda>(fs, args, c). length args)") auto

declare flag_Parse.simps(2) [simp del]

definition string_flag :: "string \<Rightarrow> (string \<Rightarrow> 'c \<Rightarrow> 'c) \<Rightarrow> 'c flag" where
  "string_flag name f = (name, False, \<lambda>v c. Some (f v c))"

definition bool_flag :: "string \<Rightarrow> (bool \<Rightarrow> 'c \<Rightarrow> 'c) \<Rightarrow> 'c flag" where
  "bool_flag name f = (name, True, \<lambda>v c. map_option (\<lambda>b. f b c) (parse_bool v))"

definition duration_flag :: "string \<Rightarrow> (int \<Rightarrow> 'c \<Rightarrow> 'c) \<Rightarrow> 'c flag" where
  "duration_flag name f = (name, False, \<lambda>v c. map_option (\<lambda>d. f d c) (parse_duration v))"

section \<open>The agent\<close>

definition agent_flags :: "agent_config flag list" where
  "agent_flags =
     [string_flag ''adb-serial'' (\<lambda>v c. c\<lparr>ADBSerial := v\<rparr>), string_flag ''adb-server'' (\<lambda>v c. c\<lparr>agent_config.ADBServer := v\<rparr>),
      string_flag ''device-id'' (\<lambda>v c. c\<lparr>ag_DeviceID := v\<rparr>), string_flag ''signaling'' (\<lambda>v c. c\<lparr>agent_config.SignalingURL := v\<rparr>),
      string_flag ''enrollment-token'' (\<lambda>v c. c\<lparr>ag_EnrollmentToken := v\<rparr>), string_flag ''identity-file'' (\<lambda>v c. c\<lparr>IdentityPath := v\<rparr>),
      string_flag ''pid-file'' (\<lambda>v c. c\<lparr>PIDPath := v\<rparr>), string_flag ''scrcpy-jar'' (\<lambda>v c. c\<lparr>agent_config.ScrcpyJar := v\<rparr>),
      string_flag ''scrcpy-version'' (\<lambda>v c. c\<lparr>ScrcpyVersion := v\<rparr>), bool_flag ''health'' (\<lambda>b c. c\<lparr>HealthCheck := b\<rparr>)]"

definition agent_defaults :: agent_config where
  "agent_defaults = \<lparr>ADBSerial = '''', ADBServer = ''127.0.0.1:5037'', ag_DeviceID = '''', SignalingURL = '''', ag_EnrollmentToken = '''',
     IdentityPath = '''', PIDPath = '''', ScrcpyJar = '''', ScrcpyVersion = ''4.1'', HealthCheck = False\<rparr>"

definition agent_config_of :: "(string \<Rightarrow> byte list) \<Rightarrow> (string \<Rightarrow> string) \<Rightarrow> string list \<Rightarrow> flag_error + agent_config" where
  "agent_config_of sha getenv args =
     (case flag_Parse agent_flags args agent_defaults of
        Inl e \<Rightarrow> Inl e
      | Inr c \<Rightarrow>
          (let c = Agent.ResolveDefaults sha c in
           Inr (if ag_EnrollmentToken c = '''' then c\<lparr>ag_EnrollmentToken := getenv ''SCRCPYCAT_ENROLLMENT_TOKEN''\<rparr> else c)))"

text \<open>
  \<open>main\<close>: the exit status. \<open>check\<close> is the answer of the health check for a configuration, \<open>run\<close> how \<open>Run\<close> ends:
  \<open>Inl\<close> an error before its loop, or the end of the loop.
\<close>

definition agent_main ::
  "(string \<Rightarrow> byte list) \<Rightarrow> (string \<Rightarrow> string) \<Rightarrow> (agent_config \<Rightarrow> bool) \<Rightarrow> (agent_config \<Rightarrow> string + run_end) \<Rightarrow> string list \<Rightarrow> int" where
  "agent_main sha getenv check run args =
     (case agent_config_of sha getenv args of
        Inl e \<Rightarrow> (if e = ErrHelp then 0 else 2)
      | Inr c \<Rightarrow>
          (if HealthCheck c then (if check c then 0 else 1)
           else if Agent.Validate c \<noteq> None then 1
           else (case run c of Inl _ \<Rightarrow> 1 | Inr e \<Rightarrow> exit_status e)))"

section \<open>The deployer\<close>

definition deployer_flags :: "deploy_config flag list" where
  "deployer_flags =
     [string_flag ''mode'' (\<lambda>v c. c\<lparr>Mode := v\<rparr>), string_flag ''adb-server'' (\<lambda>v c. c\<lparr>deploy_config.ADBServer := v\<rparr>),
      string_flag ''host-agent'' (\<lambda>v c. c\<lparr>HostAgent := v\<rparr>), string_flag ''state-dir'' (\<lambda>v c. c\<lparr>StateDir := v\<rparr>),
      string_flag ''adb'' (\<lambda>v c. c\<lparr>ADBPath := v\<rparr>), string_flag ''artifact-dir'' (\<lambda>v c. c\<lparr>ArtifactDir := v\<rparr>),
      string_flag ''scrcpy-jar'' (\<lambda>v c. c\<lparr>deploy_config.ScrcpyJar := v\<rparr>), string_flag ''signaling'' (\<lambda>v c. c\<lparr>deploy_config.SignalingURL := v\<rparr>),
      string_flag ''control-plane'' (\<lambda>v c. c\<lparr>ControlPlaneURL := v\<rparr>), string_flag ''deployment-token'' (\<lambda>v c. c\<lparr>DeploymentToken := v\<rparr>),
      string_flag ''admin-token'' (\<lambda>v c. c\<lparr>AdminToken := v\<rparr>), string_flag ''enrollment-token'' (\<lambda>v c. c\<lparr>deploy_config.EnrollmentToken := v\<rparr>),
      duration_flag ''interval'' (\<lambda>d c. c\<lparr>Interval := d\<rparr>), bool_flag ''insecure-tls'' (\<lambda>b c. c\<lparr>InsecureTLS := b\<rparr>),
      bool_flag ''force'' (\<lambda>b c. c\<lparr>Force := b\<rparr>)]"

definition deployer_defaults :: "string \<Rightarrow> deploy_config" where
  "deployer_defaults mode = \<lparr>Mode = mode, ADBServer = ''127.0.0.1:5037'', HostAgent = ''/usr/local/bin/scrcpycat-agent'',
     StateDir = ''/var/lib/scrcpycat/adb-deployer'', ADBPath = ''adb'', ArtifactDir = ''/opt/scrcpycat/agent/bin'',
     ScrcpyJar = ''/opt/scrcpycat/scrcpy/scrcpy-server'', SignalingURL = '''', ControlPlaneURL = '''', DeploymentToken = '''', AdminToken = '''',
     EnrollmentToken = '''', Interval = 10000000000, InsecureTLS = False, Force = False\<rparr>"

definition parseConfig :: "(string \<Rightarrow> string) \<Rightarrow> string list \<Rightarrow> flag_error + deploy_config" where
  "parseConfig getenv args =
     (let mode = getenv ''SCRCPYCAT_ADB_MODE'' in
      case flag_Parse deployer_flags args (deployer_defaults (if mode = '''' then ModeHost else mode)) of
        Inl e \<Rightarrow> Inl e
      | Inr c \<Rightarrow>
          (let c = Deployer.ResolveDefaults c;
               c = (if DeploymentToken c = '''' then c\<lparr>DeploymentToken := getenv ''SCRCPYCAT_DEPLOYMENT_TOKEN''\<rparr> else c)
           in Inr (if AdminToken c = '''' then c\<lparr>AdminToken := getenv ''SCRCPYCAT_ADMIN_TOKEN''\<rparr> else c)))"

text \<open>
  \<open>main\<close> and the beginning of \<open>Run\<close>, up to the loop of scans: what is run to start an ADB server, and the exit status of a
  deployer that ends before its first scan; \<open>None\<close> when it scans until it is told to stop.
\<close>

definition deployer_main ::
  "(string \<Rightarrow> string) \<Rightarrow> (string \<Rightarrow> bool) \<Rightarrow> bool \<Rightarrow> bool \<Rightarrow> bool \<Rightarrow> string list \<Rightarrow> action list \<times> int option" where
  "deployer_main getenv loopback first_ping start second_ping args =
     (case parseConfig getenv args of
        Inl e \<Rightarrow> ([], Some (if e = ErrHelp then 0 else 1))
      | Inr c \<Rightarrow>
          (if Deployer.Validate c \<noteq> None then ([], Some 1)
           else
             (case ensureADBServer loopback first_ping start second_ping (Deployer.ResolveDefaults c) of
                (actions, Some _) \<Rightarrow> (actions, Some 1)
              | (actions, None) \<Rightarrow> (actions, None))))"

text \<open>
  A deployer never reaches a scan with a configuration that it should refuse: it scans only with a valid one, and it starts
  an ADB server only on its own machine, when none answers there.
\<close>

theorem deployer_starts_checked:
  assumes "deployer_main getenv loopback first_ping start second_ping args = (actions, code)"
  shows "(code = None \<or> actions \<noteq> [] \<longrightarrow> (\<exists>c. parseConfig getenv args = Inr c \<and> Deployer.Validate c = None)) \<and>
    (actions \<noteq> [] \<longrightarrow> \<not> first_ping \<and> (\<exists>c host port. parseConfig getenv args = Inr c \<and>
       SplitHostPort (deploy_config.ADBServer (Deployer.ResolveDefaults c)) = Some (host, port) \<and> (host = ''localhost'' \<or> loopback host)))"
  using assms by (auto simp: deployer_main_def ensureADBServer_def split: sum.splits if_splits option.splits prod.splits)

section \<open>From the deployer to the agent\<close>

text \<open>\<open>os.Getenv\<close> of a process with this environment.\<close>

definition getenv_of :: "string list \<Rightarrow> string \<Rightarrow> string" where
  "getenv_of env k = (case find (\<lambda>e. prefix (k @ ''='') e) (rev env) of None \<Rightarrow> '''' | Some e \<Rightarrow> drop (length k + 1) e)"

lemma flag_step:
  assumes "find (\<lambda>f. fst f = name) fs = Some (string_flag name f)" "CHR 0x3D \<notin> set name" "name \<noteq> ''''" "hd name \<noteq> CHR 0x2D"
  shows "flag_Parse fs ((''--'' @ name) # v # rest) c = flag_Parse fs rest (f v c)"
proof -
  have "takeWhile (\<lambda>c. c \<noteq> CHR 0x3D) name = name" using assms(2) by (auto simp: takeWhile_eq_all_conv)
  then have "flag_split name = (name, None)" by (simp add: flag_split_def)
  moreover have "flag_body (''--'' @ name) = Some name" using assms(3) by (simp add: flag_body_def)
  moreover have "hd name \<noteq> CHR 0x3D" using assms(2,3) by (cases name) auto
  ultimately show ?thesis using assms by (subst flag_Parse.simps) (simp add: string_flag_def flag_set_def)
qed

lemma agent_steps:
  "flag_Parse agent_flags (''--adb-serial'' # v # rest) c = flag_Parse agent_flags rest (c\<lparr>ADBSerial := v\<rparr>)"
  "flag_Parse agent_flags (''--adb-server'' # v # rest) c = flag_Parse agent_flags rest (c\<lparr>agent_config.ADBServer := v\<rparr>)"
  "flag_Parse agent_flags (''--device-id'' # v # rest) c = flag_Parse agent_flags rest (c\<lparr>ag_DeviceID := v\<rparr>)"
  "flag_Parse agent_flags (''--signaling'' # v # rest) c = flag_Parse agent_flags rest (c\<lparr>agent_config.SignalingURL := v\<rparr>)"
  "flag_Parse agent_flags (''--enrollment-token'' # v # rest) c = flag_Parse agent_flags rest (c\<lparr>ag_EnrollmentToken := v\<rparr>)"
  "flag_Parse agent_flags (''--identity-file'' # v # rest) c = flag_Parse agent_flags rest (c\<lparr>IdentityPath := v\<rparr>)"
  "flag_Parse agent_flags (''--pid-file'' # v # rest) c = flag_Parse agent_flags rest (c\<lparr>PIDPath := v\<rparr>)"
  "flag_Parse agent_flags (''--scrcpy-jar'' # v # rest) c = flag_Parse agent_flags rest (c\<lparr>agent_config.ScrcpyJar := v\<rparr>)"
  using flag_step [of "''adb-serial''" agent_flags] flag_step [of "''adb-server''" agent_flags] flag_step [of "''device-id''" agent_flags]
    flag_step [of "''signaling''" agent_flags] flag_step [of "''enrollment-token''" agent_flags] flag_step [of "''identity-file''" agent_flags]
    flag_step [of "''pid-file''" agent_flags] flag_step [of "''scrcpy-jar''" agent_flags]
  by (simp_all add: agent_flags_def string_flag_def bool_flag_def)

lemma token_in_environment: "getenv_of (agentEnvironment env token) ''SCRCPYCAT_ENROLLMENT_TOKEN'' = token"
  by (simp add: getenv_of_def agentEnvironment_def)

lemma Clean_nonempty: "Paths.Clean p \<noteq> ''''"
  by (simp add: Paths.Clean_def Let_def)

lemma Join_nonempty: "b \<noteq> '''' \<Longrightarrow> Join a b \<noteq> ''''"
  by (simp add: Join_def Clean_nonempty)

lemma trim_nonempty: "trim_space s \<noteq> '''' \<Longrightarrow> s \<noteq> ''''"
proof -
  have "trim_space '''' = ''''" by code_simp
  then show "trim_space s \<noteq> '''' \<Longrightarrow> ?thesis" by auto
qed

definition websocket_address :: "string \<Rightarrow> bool" where
  "websocket_address url \<longleftrightarrow> prefix ''ws://'' url \<or> prefix ''wss://'' url"

definition host_configured :: "deploy_config \<Rightarrow> string \<Rightarrow> string \<Rightarrow> string \<Rightarrow> agent_config \<Rightarrow> bool" where
  "host_configured c state serial token cfg \<longleftrightarrow>
     ADBSerial cfg = serial \<and> ag_DeviceID cfg = serial \<and> agent_config.ADBServer cfg = deploy_config.ADBServer c \<and>
     agent_config.SignalingURL cfg = deploy_config.SignalingURL c \<and> agent_config.ScrcpyJar cfg = deploy_config.ScrcpyJar c \<and>
     IdentityPath cfg = Join state ''identity.json'' \<and> PIDPath cfg = Join state ''agent.pid'' \<and> ag_EnrollmentToken cfg = token \<and>
     \<not> HealthCheck cfg \<and> (Agent.Validate cfg = None \<longleftrightarrow> websocket_address (deploy_config.SignalingURL c))"

lemma host_config:
  assumes "trim_space serial \<noteq> ''''" "deploy_config.ADBServer c \<noteq> ''''" "deploy_config.ScrcpyJar c \<noteq> ''''"
  shows "\<exists>cfg. agent_config_of sha (getenv_of (agentEnvironment env token)) (host_args c state serial) = Inr cfg \<and>
    host_configured c state serial token cfg"
proof -
  have "flag_Parse agent_flags (host_args c state serial) agent_defaults =
      Inr (agent_defaults\<lparr>ADBSerial := serial, agent_config.ADBServer := deploy_config.ADBServer c, ag_DeviceID := serial,
        IdentityPath := Join state ''identity.json'', PIDPath := Join state ''agent.pid'', agent_config.ScrcpyJar := deploy_config.ScrcpyJar c,
        agent_config.SignalingURL := deploy_config.SignalingURL c\<rparr>)"
    by (simp add: host_args_def agent_steps)
  then show ?thesis using assms trim_nonempty [OF assms(1)] Join_nonempty
    by (simp add: agent_config_of_def host_configured_def agent_defaults_def Agent.ResolveDefaults_def or_else_def token_in_environment Agent.Validate_def websocket_address_def Let_def)
qed

lemma device_config:
  assumes "trim_space serial \<noteq> ''''" "token \<noteq> ''''" "sh_words (agent_args c serial token) = Some words"
  shows "\<exists>cfg. agent_config_of sha getenv (tl words) = Inr cfg \<and> ADBSerial cfg = '''' \<and> ag_DeviceID cfg = serial \<and>
    agent_config.SignalingURL cfg = deploy_config.SignalingURL c \<and> ag_EnrollmentToken cfg = token \<and>
    (Agent.Validate cfg = None \<longleftrightarrow> websocket_address (deploy_config.SignalingURL c))"
proof -
  have "tl words = [''--device-id'', serial, ''--signaling'', deploy_config.SignalingURL c, ''--enrollment-token'', token, ''--scrcpy-jar'', ''/data/local/tmp/scrcpy-server.jar'']"
    using assms(3) agent_args_words [of c serial token] by auto
  then have "flag_Parse agent_flags (tl words) agent_defaults =
      Inr (agent_defaults\<lparr>ag_DeviceID := serial, agent_config.SignalingURL := deploy_config.SignalingURL c, ag_EnrollmentToken := token,
        agent_config.ScrcpyJar := ''/data/local/tmp/scrcpy-server.jar''\<rparr>)"
    by (simp add: agent_steps)
  then show ?thesis using assms(1,2)
    by (simp add: agent_config_of_def agent_defaults_def Agent.ResolveDefaults_def or_else_def Agent.Validate_def websocket_address_def Let_def)
qed

lemma exit_three:
  assumes "agent_config_of sha getenv args = Inr cfg" "\<not> HealthCheck cfg" "Agent.Validate cfg = None"
  shows "agent_main sha getenv check run args = 3 \<longleftrightarrow> run cfg = Inr RunRejected"
  using assms by (auto simp: agent_main_def exit_status_def split: sum.split run_end.splits)



end
