(* ===== verification/Backend.thy ===== *)
theory Backend
  imports Capture AdbClient Commands
begin

text \<open>
  The start of an agent: \<open>newDeviceBackend\<close> of \<open>device.go\<close> chooses between the device the agent runs on and one behind
  an ADB server, and \<open>Run\<close> of \<open>agent.go\<close> holds the lock of its instance around the loop that connects.
\<close>

datatype device_backend = LocalBackend | AdbBackend string

definition newDeviceBackend :: "'w adb_host \<Rightarrow> (string \<Rightarrow> byte list) \<Rightarrow> agent_config \<Rightarrow> 'w \<Rightarrow> (string + device_backend) \<times> 'w" where
  "newDeviceBackend H sha cfg w =
     (if ADBSerial cfg = '''' then (Inr LocalBackend, w)
      else if adb_New (agent_config.ADBServer cfg) = None then (Inl ''ADB server address'', w)
      else
        (case RequireShellV2 H (ADBSerial cfg) w of
           (Some _, w) \<Rightarrow> (Inl ''shell v2'', w)
         | (None, w) \<Rightarrow>
             (case prepareDirectory (device_run H (ADBSerial cfg)) (adb_directory sha (ADBSerial cfg)) w of
                (Some _, w) \<Rightarrow> (Inl ''prepare'', w)
              | (None, w) \<Rightarrow> (Inr (AdbBackend (ADBSerial cfg)), w))))"

text \<open>
  \<open>Run\<close>: \<open>ends\<close> lists the connections of the loop and whether the context has ended around each. Whatever happens, the deferred
  call gives up the instance.
\<close>

definition agent_Run ::
  "'w adb_host \<Rightarrow> (string \<Rightarrow> byte list) \<Rightarrow> bool \<Rightarrow> nat \<Rightarrow> agent_config \<Rightarrow> (bool \<times> conn_end \<times> bool) list \<Rightarrow> instance_files \<Rightarrow> 'w \<Rightarrow>
   (string + run_end option \<times> nat list) \<times> instance_files \<times> 'w" where
  "agent_Run H sha file_ok self_pid cfg ends f w =
     (let cfg = Agent.ResolveDefaults sha cfg in
      case acquireInstance file_ok self_pid f of
        (False, f) \<Rightarrow> (Inl ''instance'', f, w)
      | (True, f) \<Rightarrow>
          (case newDeviceBackend H sha cfg w of
             (Inl e, w) \<Rightarrow> (Inl e, releaseInstance self_pid f, w)
           | (Inr _, w) \<Rightarrow> (Inr (run_loop 0 ends), releaseInstance self_pid f, w)))"

text \<open>
  An agent that has started leaves nothing behind: the lock is free and its process number is gone, so that the next
  one can start; and one that finds the lock taken changes nothing, in particular not the device.
\<close>

theorem instance_given_up:
  assumes "agent_Run H sha file_ok self_pid cfg ends f w = (r, f', w')"
  shows "(if lock_holder f = None \<and> file_ok then lock_holder f' = None \<and> pid_text f' = None else r = Inl ''instance'' \<and> f' = f \<and> w' = w)"
proof -
  have "trim_space (show_nat self_pid @ [CHR 0x0A]) = show_nat self_pid" by (rule trim_show)
  then show ?thesis using assms
    by (auto simp: agent_Run_def acquireInstance_def releaseInstance_def Let_def split: sum.splits prod.splits if_splits)
qed

end
