(* ===== verification/Spec2Isabelle.thy ===== *)
theory Spec2Isabelle
  imports ScrcpyProtocol ShellV2 StoreProps HubProps ApiProps PersistProps ViewersProps DeployerProps Terminal FilesProps
    AgentProps DeploymentProps MediaInfo Capture AdbDevice WebUI RedisBus Channels Commands Backend
begin

text \<open>
  ScrcpyCat lets people see and control Android devices from a browser. This development models
  its three programs from their Go sources and proves what makes them correct.

  \<^bold>\<open>The program.\<close> The control plane (\<open>src/backend/internal/controlplane\<close>) keeps accounts, devices,
  shares, enrollments, assets and tasks in a store, in memory or in PostgreSQL, serves an HTTP API
  and holds the web sockets of browsers and agents, between which it forwards messages. The agent
  (\<open>src/agent/internal/agent\<close>) runs on or next to a device: it starts the scrcpy server, turns browser
  events into control messages, streams video and sound to viewers over WebRTC, and gives
  terminals and files. The ADB deployer (\<open>src/adb-deployer/internal/deployer\<close>) keeps one agent per
  connected device running; \<open>src/internal/adb\<close> is the ADB client of both, on the library
  \<open>src/third_party/gadb\<close>.

  \<^bold>\<open>Conventions.\<close> A Go struct is a record, an enumeration a datatype; a method becomes a function
  that takes the state and returns it changed. A Go map is an association list with distinct keys
  (\<open>gomap\<close>, \<open>mok\<close>), so that statements about loops over maps hold for every order in which Go may
  visit them. Strings are lists of bytes as characters. Machine integers are words, or \<open>int\<close> with
  \<open>wrap64\<close> where a 64-bit product can overflow; times are nanoseconds as \<open>int\<close>; a \<open>float64\<close> from JSON
  is the rational it denotes, rounded by \<open>fl\<close> after each operation. Errors are values of sum or
  option types. An object shared through pointers (workers, terminals, uploads) is an entry of a
  list, addressed by its position. A method under one lock is one step; where the code gives up the
  lock in the middle, the two halves are separate definitions. A run is a list of operations executed
  by \<open>fold\<close>, or an infinite sequence of them where a promise is about the end.

  What the code calls outside the repository is an argument: the clock and random bytes, digests,
  password hashing and signatures (\<open>env\<close>, \<open>jwt\<close>), JSON decoding of values the code does not look at,
  addresses (\<open>netip\<close>), sockets that may fail (\<open>W\<close>, \<open>R\<close>), the database (\<open>exec_result\<close>), captures and the
  WebRTC library (\<open>capture_env\<close>, \<open>media_env\<close>), the devices and files of agent and deployer (\<open>world\<close>, \<open>agent_env\<close>), the ADB server (\<open>adb_host\<close>),
  the Redis channel and the frontend build. Handlers
  read the clock once; the code reads it a few times within one handler.

  \<^bold>\<open>Theories.\<close>
  \<^item> \<open>Prelude\<close>, \<open>Contracts\<close>, \<open>Wire\<close>, \<open>Utf8\<close>, \<open>Float64\<close>, \<open>Paths\<close>: maps, strings, numbers, byte order, paths;
    the contracts \<open>machine\<close> (an invariant kept by every operation holds in every run), \<open>once\<close> (a
    resource is taken at most once) and \<open>selection\<close> (a loop over a map finds a best entry), which the
    components interpret on their own operations.
  \<^item> \<open>Model\<close>, \<open>Store\<close>, \<open>StoreRuns\<close>, \<open>StoreProps\<close>: \<open>model.go\<close>, \<open>store.go\<close> and the store parts of
    \<open>deployment_credentials_store.go\<close>, \<open>user_sessions.go\<close>, \<open>device_settings.go\<close>. Every state keeps the store
    invariant; enrollments are exchanged and tasks claimed at most once; revoked credentials are dead.
  \<^item> \<open>Persist\<close>, \<open>PersistProps\<close>: \<open>postgres_store.go\<close>. The stored state refines the one in memory in every
    run with every pattern of failing writes; what was acknowledged as durable survives a restart; two
    theorems show what does not.
  \<^item> \<open>Hub\<close>, \<open>HubProps\<close>: \<open>realtime.go\<close>, \<open>preview.go\<close>, \<open>audio_stream.go\<close>. \<open>Config\<close>: \<open>config.go\<close>. \<open>Limiter\<close>:
    \<open>login_limiter.go\<close>.
  \<^item> \<open>Auth\<close>: \<open>auth.go\<close>, \<open>browser_ticket.go\<close>, \<open>browser_access.go\<close>. Tokens are accepted exactly while they
    should be, end with logout and password reset, and kinds of tokens are not exchangeable.
  \<^item> \<open>Server\<close>, \<open>ServerProps\<close>: \<open>server.go\<close>, \<open>telemetry.go\<close>, \<open>redis_bus.go\<close> and the agent side of \<open>operations.go\<close>.
    Messages reach only those who may see them; an agent changes only its own device and tasks. \<open>RedisBus\<close>: several
    control planes on one channel; a task update reaches every browser of the cluster once.
  \<^item> \<open>Api\<close>, \<open>ApiProps\<close>: the HTTP routes in \<open>admin.go\<close>, \<open>operations.go\<close>, \<open>deployment_credentials.go\<close>,
    \<open>device_settings.go\<close>. Without administrator rights no route changes accounts or credentials; task
    assets download exactly; logout is final. \<open>Deployment\<close>, \<open>DeploymentProps\<close>: \<open>deployment.go\<close>; the configuration in a package
    is read back by the shell and brings its agent in. \<open>WebUI\<close>: \<open>webui.go\<close> beside the other routes.
  \<^item> \<open>ScrcpyProtocol\<close>: \<open>scrcpy_protocol.go\<close>, \<open>opus.go\<close>, \<open>h264.go\<close>. \<open>Control\<close>: \<open>control.go\<close> against the reader of
    the scrcpy server. \<open>MediaOptions\<close>: \<open>media_options.go\<close> and the command line of \<open>device_capture.go\<close>.
    \<open>Bridge\<close>: \<open>scrcpy.go\<close>. \<open>Capture\<close>: the launch of the server on a device, \<open>attachVideo\<close> and the sound; the agent
    and the server meet at their sockets in every interleaving, and what the server writes is what is shown. \<open>Viewers\<close>, \<open>ViewersProps\<close>: \<open>webrtc.go\<close>, \<open>media.go\<close>, \<open>bandwidth.go\<close>.
  \<^item> \<open>Terminal\<close>: \<open>terminal.go\<close>. \<open>Files\<close>, \<open>FilesProps\<close>: \<open>files.go\<close>. Terminals and file sessions of different clients
    are kept apart; only verified uploads are stored; downloads end and deliver the file. \<open>Channels\<close>: the terminals on data
    channels of \<open>webrtc.go\<close>, with the reaction to connection states and feedback; a channel that is replaced closes its
    successor.
  \<^item> \<open>DeviceIO\<close>: \<open>device.go\<close>, \<open>device_files.go\<close> and the output buffers. The contract \<open>window\<close> is that of a buffer
    of bounded room, \<open>device_files\<close> that of a device that takes uploads; both kinds of device keep it, the
    one behind ADB under hypotheses on its shell (\<open>android_ok\<close>), which a small phone satisfies.
    \<open>AgentOps\<close>: \<open>operations.go\<close>; a task that pushes a file reports what happened. \<open>Telemetry\<close>: \<open>telemetry.go\<close>.
  \<^item> \<open>Agent\<close>, \<open>AgentProps\<close>: \<open>agent.go\<close>, \<open>process.go\<close> and the exit status of \<open>main.go\<close>. The agent is put together from
    the components above and handles every message of the control plane; its invariant holds over whole
    connections, clients leave nothing behind, and the loop reconnects until it is told to stop. The last part joins
    the agent with the control plane and the deployer: identities survive reconnection, a refused agent is
    enrolled anew, and what is recorded of a task is what happened on the device. \<open>MediaInfo\<close>: \<open>device_info.go\<close> and the
    description of the device; the displays that the server prints are read back. \<open>Backend\<close>: \<open>newDeviceBackend\<close> and \<open>Run\<close>.
  \<^item> \<open>ShellV2\<close>: \<open>shell.go\<close>, \<open>legacy.go\<close> and quoting in \<open>client.go\<close>. \<open>Gadb\<close>: the requests, services and the sync protocol of
    the library. \<open>AdbClient\<close>: the operations of \<open>client.go\<close>, sessions, and the agent's use of them. \<open>AdbDevice\<close>: an ADB server
    by its protocol; files come back as they were pushed and commands run as they were meant. \<open>Deployer\<close>, \<open>DeployerProps\<close>: the ADB
    deployer; one agent per device at any time, and in the end one for every device that stays. \<open>Commands\<close>: flags, environments and exit
    statuses of agent and deployer; an agent understands the command line that the deployer gives it.

  \<^bold>\<open>Termination.\<close> Loops are recursive functions with termination proofs; no fuel is used. Loops that
  wait for messages for ever appear as the steps they take.

  \<^bold>\<open>Not modelled.\<close> Sockets, processes, the file system and SQL as such; RTP packetising, congestion
  control, ICE and the set-up of peers, which belong to the WebRTC library; the formats of archives and
  images and the script templates of the deployment package; the browser side and the development tools; timers,
  which appear as the events they cause. Of concurrency the model has the interleavings at the points where locks are given up in the
  components above, not data races below them.
\<close>

end
